(* ===== verification/Prelude.thy ===== *)
theory Prelude
  imports Complex_Main "HOL-Library.Char_ord" "HOL-Library.List_Lexorder" "HOL-Library.AList"
begin

text \<open>
  Shared vocabulary of the development: JavaScript strings and the regular-expression shapes the
  controller uses, SQLite tables with an autoincrement key, the result type of an operation that
  may throw, lowest-free-number allocation, and the generic list lemmas the component theories use.

  A string is a list of code units below 256 (Latin-1). On that range \<open>trim\<close> and \<open>toLower\<close> are the
  ECMAScript functions: white space is TAB, LF, VT, FF, CR, SPACE and NBSP, and the upper-case
  letters are A-Z and the Latin-1 capitals.
\<close>

named_theorems frame_simps \<open>what an operation leaves unchanged\<close>
named_theorems inv_intros \<open>preservation of the database invariants\<close>

section \<open>Strings\<close>

definition code_unit :: "char \<Rightarrow> nat" where
  "code_unit c = of_char c"

definition js_space :: "char \<Rightarrow> bool" where
  "js_space c = (let n = code_unit c in (9 \<le> n \<and> n \<le> 13) \<or> n = 32 \<or> n = 160)"

definition trimStart :: "string \<Rightarrow> string" where
  "trimStart s = dropWhile js_space s"

definition trimEnd :: "string \<Rightarrow> string" where
  "trimEnd s = rev (dropWhile js_space (rev s))"

definition trim :: "string \<Rightarrow> string" where
  "trim s = trimEnd (trimStart s)"

definition is_upper :: "char \<Rightarrow> bool" where
  "is_upper c = (let n = code_unit c in (65 \<le> n \<and> n \<le> 90) \<or> (192 \<le> n \<and> n \<le> 222 \<and> n \<noteq> 215))"

definition lower_char :: "char \<Rightarrow> char" where
  "lower_char c = (if is_upper c then char_of (code_unit c + 32) else c)"

definition toLower :: "string \<Rightarrow> string" where
  "toLower s = map lower_char s"

definition is_digit :: "char \<Rightarrow> bool" where
  "is_digit c = (let n = code_unit c in 48 \<le> n \<and> n \<le> 57)"

definition is_az :: "char \<Rightarrow> bool" where
  "is_az c = (let n = code_unit c in 97 \<le> n \<and> n \<le> 122)"

definition is_AZ :: "char \<Rightarrow> bool" where
  "is_AZ c = (let n = code_unit c in 65 \<le> n \<and> n \<le> 90)"

definition is_hex :: "char \<Rightarrow> bool" where
  "is_hex c = (let n = code_unit c in (48 \<le> n \<and> n \<le> 57) \<or> (97 \<le> n \<and> n \<le> 102))"

definition is_alnum :: "char \<Rightarrow> bool" where
  "is_alnum c = (is_digit c \<or> is_az c \<or> is_AZ c)"

text \<open>The shape \<open>/^[first][rest]{0,n}$/\<close> shared by the name patterns of the controller.\<close>

definition name_re :: "(char \<Rightarrow> bool) \<Rightarrow> (char \<Rightarrow> bool) \<Rightarrow> nat \<Rightarrow> string \<Rightarrow> bool" where
  "name_re first rest n s =
     (case s of [] \<Rightarrow> False | c # cs \<Rightarrow> first c \<and> length cs \<le> n \<and> list_all rest cs)"

text \<open>\<open>s.startsWith(p)\<close> and \<open>s.includes(p)\<close>.\<close>

fun startsWith :: "string \<Rightarrow> string \<Rightarrow> bool" where
  "startsWith s [] = True"
| "startsWith [] (c # p) = False"
| "startsWith (d # s) (c # p) = (c = d \<and> startsWith s p)"

fun str_includes :: "string \<Rightarrow> string \<Rightarrow> bool" where
  "str_includes [] p = (p = [])"
| "str_includes (c # s) p = (startsWith (c # s) p \<or> str_includes s p)"

text \<open>\<open>s.split(sep)\<close> for a one-character separator: never the empty list.\<close>

fun splitOn :: "char \<Rightarrow> string \<Rightarrow> string list" where
  "splitOn sep [] = [[]]"
| "splitOn sep (c # s) =
     (if c = sep then [] # splitOn sep s
      else (case splitOn sep s of [] \<Rightarrow> [[c]] | x # xs \<Rightarrow> (c # x) # xs))"

text \<open>\<open>x || y\<close> on a string: the empty string is falsy. \<open>nonblank\<close> is \<open>x || null\<close>.\<close>

definition or_else :: "string \<Rightarrow> string \<Rightarrow> string" where
  "or_else x y = (if x = [] then y else x)"

definition nonblank :: "string \<Rightarrow> string option" where
  "nonblank x = (if x = [] then None else Some x)"

text \<open>\<open>xs.join(sep)\<close>.\<close>

fun join :: "string \<Rightarrow> string list \<Rightarrow> string" where
  "join sep [] = []"
| "join sep [x] = x"
| "join sep (x # y # zs) = x @ sep @ join sep (y # zs)"

text \<open>\<open>[...new Set(xs)]\<close>: the first occurrence of every element, in order.\<close>

definition js_set :: "'a list \<Rightarrow> 'a list" where
  "js_set xs = rev (remdups (rev xs))"

fun show_nat :: "nat \<Rightarrow> string" where
  "show_nat n = (if n < 10 then [char_of (n + 48)] else show_nat (n div 10) @ [char_of (n mod 10 + 48)])"

declare show_nat.simps [simp del]

lemma dropWhile_idem [simp]: "dropWhile P (dropWhile P xs) = dropWhile P xs"
  by (induction xs) auto

lemma dropWhile_snoc_fixed: "\<not> P x \<Longrightarrow> dropWhile P (xs @ [x]) = dropWhile P xs @ [x]"
  by (induction xs) auto

lemma trimEnd_idem [simp]: "trimEnd (trimEnd s) = trimEnd s"
  by (simp add: trimEnd_def)

lemma trimEnd_cases: "trimEnd s = [] \<or> \<not> js_space (last (trimEnd s))"
proof -
  have "dropWhile js_space (rev s) = [] \<or> \<not> js_space (hd (dropWhile js_space (rev s)))"
    using hd_dropWhile by blast
  then show ?thesis by (auto simp: trimEnd_def last_rev)
qed

lemma trimEnd_keeps_head:
  "dropWhile js_space s = s \<Longrightarrow> dropWhile js_space (trimEnd s) = trimEnd s"
proof (cases s)
  case (Cons c cs)
  assume "dropWhile js_space s = s"
  with Cons have nc: "\<not> js_space c"
    by (metis dropWhile.simps(2) dropWhile_eq_self_iff list.sel(1) list.distinct(1))
  have "trimEnd s = c # rev (dropWhile js_space (rev cs))"
    using nc Cons by (simp add: trimEnd_def dropWhile_snoc_fixed)
  with nc show ?thesis by simp
qed (simp add: trimEnd_def)

lemma trim_idem [simp]: "trim (trim s) = trim s"
  by (simp add: trim_def trimStart_def trimEnd_keeps_head)

lemma lower_char_not_upper: "\<not> is_upper (lower_char c)"
proof (cases "is_upper c")
  case True
  then have b: "(65 \<le> code_unit c \<and> code_unit c \<le> 90) \<or> (192 \<le> code_unit c \<and> code_unit c \<le> 222)"
    by (auto simp: is_upper_def Let_def)
  then have "code_unit (lower_char c) = code_unit c + 32"
    using True by (auto simp: lower_char_def code_unit_def)
  with b show ?thesis by (auto simp: is_upper_def Let_def)
qed (simp add: lower_char_def)

lemma toLower_idem [simp]: "toLower (toLower s) = toLower s"
  by (simp add: toLower_def lower_char_def [of "lower_char _"] lower_char_not_upper)

lemma set_map_filter: "set (List.map_filter f xs) = {y. \<exists>x \<in> set xs. f x = Some y}"
  by (induction xs) (auto simp: List.map_filter_simps split: option.splits)

lemma js_set_simps [simp]: "set (js_set xs) = set xs" "distinct (js_set xs)"
  by (simp_all add: js_set_def)

lemma splitOn_not_Nil [simp]: "splitOn c s \<noteq> []"
  by (cases s) (auto split: list.splits)

lemma length_update_le: "length (AList.update k v bs) \<le> Suc (length bs)"
  by (induction bs) auto

section \<open>Tables\<close>

text \<open>
  A SQLite table: its rows in rowid order and the \<open>sqlite_sequence\<close> counter of its
  AUTOINCREMENT key. \<open>tbl_get\<close> is \<open>prepare(SELECT ... WHERE P).get()\<close>, \<open>tbl_all\<close> is \<open>.all()\<close>,
  \<open>tbl_changes\<close> is the \<open>changes\<close> count of an UPDATE or DELETE with that WHERE clause.
\<close>

record 'r tbl =
  rows :: "'r list"
  seq :: nat

definition tbl_empty :: "'r tbl" where
  "tbl_empty = \<lparr>rows = [], seq = 0\<rparr>"

definition tbl_next :: "'r tbl \<Rightarrow> nat" where
  "tbl_next t = Suc (seq t)"

definition tbl_insert :: "(nat \<Rightarrow> 'r) \<Rightarrow> 'r tbl \<Rightarrow> 'r tbl" where
  "tbl_insert mk t = \<lparr>rows = rows t @ [mk (tbl_next t)], seq = tbl_next t\<rparr>"

definition tbl_update :: "('r \<Rightarrow> bool) \<Rightarrow> ('r \<Rightarrow> 'r) \<Rightarrow> 'r tbl \<Rightarrow> 'r tbl" where
  "tbl_update P f t = t\<lparr>rows := map (\<lambda>r. if P r then f r else r) (rows t)\<rparr>"

definition tbl_delete :: "('r \<Rightarrow> bool) \<Rightarrow> 'r tbl \<Rightarrow> 'r tbl" where
  "tbl_delete P t = t\<lparr>rows := filter (\<lambda>r. \<not> P r) (rows t)\<rparr>"

definition tbl_get :: "('r \<Rightarrow> bool) \<Rightarrow> 'r tbl \<Rightarrow> 'r option" where
  "tbl_get P t = List.find P (rows t)"

definition tbl_all :: "('r \<Rightarrow> bool) \<Rightarrow> 'r tbl \<Rightarrow> 'r list" where
  "tbl_all P t = filter P (rows t)"

definition tbl_changes :: "('r \<Rightarrow> bool) \<Rightarrow> 'r tbl \<Rightarrow> nat" where
  "tbl_changes P t = length (filter P (rows t))"

lemma rows_tbl_empty [simp]: "rows tbl_empty = []"
  by (simp add: tbl_empty_def)

lemma rows_tbl_insert [simp]: "rows (tbl_insert mk t) = rows t @ [mk (tbl_next t)]"
  by (simp add: tbl_insert_def)

lemma seq_tbl_insert [simp]: "seq (tbl_insert mk t) = tbl_next t"
  by (simp add: tbl_insert_def)

lemma rows_tbl_update: "rows (tbl_update P f t) = map (\<lambda>r. if P r then f r else r) (rows t)"
  by (simp add: tbl_update_def)

lemma seq_tbl_update [simp]: "seq (tbl_update P f t) = seq t"
  by (simp add: tbl_update_def)

lemma rows_tbl_delete [simp]: "rows (tbl_delete P t) = filter (\<lambda>r. \<not> P r) (rows t)"
  by (simp add: tbl_delete_def)

lemma seq_tbl_delete [simp]: "seq (tbl_delete P t) = seq t"
  by (simp add: tbl_delete_def)

lemma tbl_get_Some: "tbl_get P t = Some r \<Longrightarrow> r \<in> set (rows t) \<and> P r"
  by (auto simp: tbl_get_def find_Some_iff)

lemma tbl_get_None: "tbl_get P t = None \<longleftrightarrow> (\<forall>r \<in> set (rows t). \<not> P r)"
  by (auto simp: tbl_get_def find_None_iff)

lemma tbl_changes_pos: "0 < tbl_changes P t \<longleftrightarrow> (\<exists>r \<in> set (rows t). P r)"
  by (auto simp: tbl_changes_def filter_empty_conv)

text \<open>An UPDATE that does not write a column leaves the column's list of values unchanged.\<close>

lemma col_tbl_update:
  "(\<And>r. c (f r) = c r) \<Longrightarrow> map c (rows (tbl_update P f t)) = map c (rows t)"
  by (simp add: rows_tbl_update)

lemma colset_tbl_update:
  "(\<And>r. c (f r) = c r) \<Longrightarrow> c ` set (rows (tbl_update P f t)) = c ` set (rows t)"
  by (metis col_tbl_update list.set_map)

lemma tbl_updateE:
  assumes "r \<in> set (rows (tbl_update P f t))"
  obtains r0 where "r0 \<in> set (rows t)" "P r0" "r = f r0" | "r \<in> set (rows t)" "\<not> P r"
  using assms by (auto simp: rows_tbl_update split: if_splits)

lemma tbl_update_keep: "r \<in> set (rows t) \<Longrightarrow> \<not> P r \<Longrightarrow> r \<in> set (rows (tbl_update P f t))"
  by (force simp: rows_tbl_update)

lemma tbl_update_hit: "r \<in> set (rows t) \<Longrightarrow> P r \<Longrightarrow> f r \<in> set (rows (tbl_update P f t))"
  by (force simp: rows_tbl_update)

lemma tbl_update_none: "\<forall>r \<in> set (rows t). \<not> P r \<Longrightarrow> tbl_update P f t = t"
  by (cases t) (simp add: tbl_update_def map_idI)

text \<open>A lookup after an UPDATE that does not change which rows match, and after an INSERT.\<close>

lemma tbl_get_update:
  assumes "\<And>r. Q (f r) = Q r"
  shows "tbl_get Q (tbl_update P f t) = map_option (\<lambda>r. if P r then f r else r) (tbl_get Q t)"
proof -
  have "List.find Q (map (\<lambda>r. if P r then f r else r) xs) = map_option (\<lambda>r. if P r then f r else r) (List.find Q xs)" for xs
    using assms by (induction xs) auto
  then show ?thesis by (simp add: tbl_get_def rows_tbl_update)
qed

lemma tbl_get_insert:
  "tbl_get Q (tbl_insert mk t) =
     (case tbl_get Q t of Some r \<Rightarrow> Some r
      | None \<Rightarrow> if Q (mk (tbl_next t)) then Some (mk (tbl_next t)) else None)"
proof -
  have "List.find Q (xs @ [y]) = (case List.find Q xs of Some r \<Rightarrow> Some r | None \<Rightarrow> if Q y then Some y else None)" for xs y
    by (induction xs) auto
  then show ?thesis by (simp add: tbl_get_def)
qed

subsection \<open>Primary keys\<close>

text \<open>The autoincrement key of every row is fresh: distinct and at most the counter.\<close>

definition pk_ok :: "('r \<Rightarrow> nat) \<Rightarrow> 'r tbl \<Rightarrow> bool" where
  "pk_ok key t \<longleftrightarrow> distinct (map key (rows t)) \<and> (\<forall>k \<in> set (map key (rows t)). 0 < k \<and> k \<le> seq t)"

lemma pk_ok_empty [simp]: "pk_ok key tbl_empty"
  by (simp add: pk_ok_def tbl_empty_def)

lemma pk_next_fresh: "pk_ok key t \<Longrightarrow> tbl_next t \<notin> key ` set (rows t)"
  by (auto simp: pk_ok_def tbl_next_def)

lemma pk_ok_insert: "pk_ok key t \<Longrightarrow> (\<And>i. key (mk i) = i) \<Longrightarrow> pk_ok key (tbl_insert mk t)"
  using pk_next_fresh [of key t] by (fastforce simp: pk_ok_def tbl_next_def)

lemma pk_ok_update: "pk_ok key t \<Longrightarrow> (\<And>r. key (f r) = key r) \<Longrightarrow> pk_ok key (tbl_update P f t)"
  unfolding pk_ok_def by (simp add: col_tbl_update del: set_map)

lemma pk_ok_delete: "pk_ok key t \<Longrightarrow> pk_ok key (tbl_delete P t)"
  by (auto simp: pk_ok_def distinct_map_filter)

lemma pk_unique:
  "pk_ok key t \<Longrightarrow> r \<in> set (rows t) \<Longrightarrow> s \<in> set (rows t) \<Longrightarrow> key r = key s \<Longrightarrow> r = s"
  by (auto simp: pk_ok_def distinct_map inj_on_def)

lemma pk_get: "pk_ok key t \<Longrightarrow> r \<in> set (rows t) \<Longrightarrow> tbl_get (\<lambda>x. key x = key r) t = Some r"
proof -
  assume ok: "pk_ok key t" and r: "r \<in> set (rows t)"
  obtain s where s: "tbl_get (\<lambda>x. key x = key r) t = Some s"
    using r by (cases "tbl_get (\<lambda>x. key x = key r) t") (auto simp: tbl_get_None)
  with tbl_get_Some [OF s] have "s = r" using pk_unique [OF ok _ r] by auto
  with s show ?thesis by simp
qed

section \<open>Results of an operation\<close>

text \<open>
  An operation takes the state and returns \<open>Inl e\<close> when it throws or \<open>Inr x\<close> when it returns,
  together with the state at that point: an exception does not undo writes that were made before
  it. \<open>and_then\<close> sequences two operations; \<open>each\<close> runs a loop body for every element of a list.
\<close>

type_synonym ('e, 'a, 's) res = "('e + 'a) \<times> 's"

definition and_then :: "('e, 'a, 's) res \<Rightarrow> ('a \<Rightarrow> 's \<Rightarrow> ('e, 'b, 's) res) \<Rightarrow> ('e, 'b, 's) res" where
  "and_then m k = (case m of (Inl e, s) \<Rightarrow> (Inl e, s) | (Inr x, s) \<Rightarrow> k x s)"

fun each :: "('a \<Rightarrow> 's \<Rightarrow> ('e, unit, 's) res) \<Rightarrow> 'a list \<Rightarrow> 's \<Rightarrow> ('e, unit, 's) res" where
  "each f [] s = (Inr (), s)"
| "each f (x # xs) s = and_then (f x s) (\<lambda>_ s. each f xs s)"

lemma and_then_simps [simp]:
  "and_then (Inl e, s) k = (Inl e, s)"
  "and_then (Inr x, s) k = k x s"
  by (simp_all add: and_then_def)

lemma and_then_Inr:
  "and_then m k = (Inr y, s') \<longleftrightarrow> (\<exists>x s. m = (Inr x, s) \<and> k x s = (Inr y, s'))"
  by (auto simp: and_then_def split: prod.splits sum.splits)

lemma and_then_pres:
  assumes "I (snd m)" and "\<And>x s. m = (Inr x, s) \<Longrightarrow> I s \<Longrightarrow> I (snd (k x s))"
  shows "I (snd (and_then m k))"
  using assms by (cases m) (auto simp: and_then_def split: sum.splits)

lemma each_pres:
  assumes "\<And>x s. x \<in> set xs \<Longrightarrow> I s \<Longrightarrow> I (snd (f x s))"
  shows "I s \<Longrightarrow> I (snd (each f xs s))"
  using assms
proof (induction xs arbitrary: s)
  case (Cons x xs)
  then have "I (snd (f x s))" by simp
  then have "I (snd (and_then (f x s) (\<lambda>_ s. each f xs s)))"
    by (rule and_then_pres) (use Cons in auto)
  then show ?case by simp
qed simp

lemma fold_pres:
  assumes "\<And>x s. x \<in> set xs \<Longrightarrow> I s \<Longrightarrow> I (f x s)"
  shows "I s \<Longrightarrow> I (fold f xs s)"
  using assms by (induction xs arbitrary: s) auto

lemma fold_frame: "(\<And>x s. v (f x s) = v s) \<Longrightarrow> v (fold f xs s) = v s"
  by (induction xs arbitrary: s) auto

section \<open>Lowest free number in a range\<close>

text \<open>
  The contract of the three allocation loops of the controller (SSH ports, Linux UIDs, UIDs
  during a roster import): the least number of the range that is not in use, and a failure only
  when every number is in use.
\<close>

locale lowest_free =
  fixes alloc :: "int list \<Rightarrow> int option" and lo :: int and hi :: int
  assumes alloc_free: "alloc used = Some p \<Longrightarrow> lo \<le> p \<and> p \<le> hi \<and> p \<notin> set used"
    and alloc_least: "alloc used = Some p \<Longrightarrow> lo \<le> q \<Longrightarrow> q < p \<Longrightarrow> q \<in> set used"
    and alloc_none: "alloc used = None \<Longrightarrow> lo \<le> q \<Longrightarrow> q \<le> hi \<Longrightarrow> q \<in> set used"
begin

lemma alloc_exhausted_iff: "alloc used = None \<longleftrightarrow> {lo..hi} \<subseteq> set used"
  using alloc_none alloc_free by (cases "alloc used") (auto, force)

lemma alloc_succeeds:
  assumes "length used < card {lo..hi}"
  shows "\<exists>p. alloc used = Some p"
proof (rule ccontr)
  assume "\<not> ?thesis"
  then have "{lo..hi} \<subseteq> set used" using alloc_exhausted_iff [of used] by auto
  then have "card {lo..hi} \<le> card (set used)" by (intro card_mono) auto
  also have "\<dots> \<le> length used" by (rule card_length)
  finally show False using assms by simp
qed

lemma alloc_extends:
  assumes "alloc used = Some p" shows "distinct used \<Longrightarrow> distinct (used @ [p])"
  using alloc_free [OF assms] by auto

end

function first_free :: "int \<Rightarrow> int \<Rightarrow> int list \<Rightarrow> int option" where
  "first_free p hi used =
     (if p \<le> hi then (if p \<in> set used then first_free (p + 1) hi used else Some p) else None)"
  by pat_completeness auto
termination
  by (relation "measure (\<lambda>(p, hi, used). nat (hi + 1 - p))") auto

declare first_free.simps [simp del]

lemma first_free_Some:
  "first_free p hi used = Some q \<Longrightarrow> p \<le> q \<and> q \<le> hi \<and> q \<notin> set used \<and> (\<forall>r. p \<le> r \<and> r < q \<longrightarrow> r \<in> set used)"
proof (induction p hi used rule: first_free.induct)
  case (1 p hi used)
  show ?case
  proof (cases "p \<le> hi \<and> p \<in> set used")
    case True
    then have "first_free (p + 1) hi used = Some q" using "1.prems" by (simp add: first_free.simps [of p])
    then have *: "p + 1 \<le> q \<and> q \<le> hi \<and> q \<notin> set used \<and> (\<forall>r. p + 1 \<le> r \<and> r < q \<longrightarrow> r \<in> set used)"
      using "1.IH" True by blast
    moreover have "r = p \<or> p + 1 \<le> r" if "p \<le> r" for r using that by auto
    ultimately show ?thesis using True by force
  next
    case False
    then show ?thesis using "1.prems" by (auto simp: first_free.simps [of p] split: if_splits)
  qed
qed

lemma first_free_None: "first_free p hi used = None \<Longrightarrow> p \<le> q \<Longrightarrow> q \<le> hi \<Longrightarrow> q \<in> set used"
proof (induction p hi used rule: first_free.induct)
  case (1 p hi used)
  then have p: "p \<in> set used" and n: "first_free (p + 1) hi used = None"
    by (auto simp: first_free.simps [of p] split: if_splits)
  show ?case
  proof (cases "q = p")
    case False
    then have "p + 1 \<le> q" using "1.prems" by simp
    with n p "1.prems" "1.IH" show ?thesis by auto
  qed (simp add: p)
qed

lemma lowest_free_first_free: "lowest_free (first_free lo hi) lo hi"
proof
  fix used p q
  show "first_free lo hi used = Some p \<Longrightarrow> lo \<le> p \<and> p \<le> hi \<and> p \<notin> set used"
    and "first_free lo hi used = Some p \<Longrightarrow> lo \<le> q \<Longrightarrow> q < p \<Longrightarrow> q \<in> set used"
    using first_free_Some [of lo hi used p] by auto
  show "first_free lo hi used = None \<Longrightarrow> lo \<le> q \<Longrightarrow> q \<le> hi \<Longrightarrow> q \<in> set used"
    by (rule first_free_None)
qed

section \<open>Reachable states\<close>

text \<open>
  The contract of a state machine with an invariant: what holds initially and is kept by every
  step holds in every reachable state.
\<close>

locale invariant_machine =
  fixes init :: "'s \<Rightarrow> bool" and step :: "'s \<Rightarrow> 's \<Rightarrow> bool" and I :: "'s \<Rightarrow> bool"
  assumes init_inv: "init s \<Longrightarrow> I s"
    and step_inv: "I s \<Longrightarrow> step s t \<Longrightarrow> I t"
begin

lemma rtranclp_inv: "step\<^sup>*\<^sup>* s t \<Longrightarrow> I s \<Longrightarrow> I t"
  by (induction rule: rtranclp_induct) (auto intro: step_inv)

lemma reachable_inv: "init s \<Longrightarrow> step\<^sup>*\<^sup>* s t \<Longrightarrow> I t"
  using init_inv rtranclp_inv by blast

end

end
