(* ===== verification/Json.thy ===== *)
theory Json
  imports Prelude
begin

text \<open>
  JSON values as the controller sees them after \<open>JSON.parse\<close>, property access on them, and
  \<open>redactSecrets\<close> (src/controller/src/lib/queue.ts), which masks credential-looking keys before a
  task's parameters are written to the long-lived \<open>task_log\<close>.

  A number is a rational (the doubles are rationals) or an infinity, which \<open>JSON.parse\<close> yields for
  a literal beyond the double range. A TEXT column that holds JSON is a \<open>jtext\<close>: the value
  \<open>JSON.parse\<close> returns on it, or \<open>JBad\<close> for a text on which it throws.
\<close>

datatype json =
    JNull
  | JBool bool
  | JNum rat
  | JInf bool
  | JStr string
  | JArr "json list"
  | JObj "(string \<times> json) list"

datatype jtext = JText json | JBad string

fun json_parse :: "jtext \<Rightarrow> json option" where
  "json_parse (JText j) = Some j"
| "json_parse (JBad s) = None"

text \<open>The value that \<open>JSON.parse\<close> reads back from \<open>JSON.stringify(v)\<close>: an infinity is written as null.\<close>

lemma size_json_field [termination_simp]:
  "(k, v) \<in> set kvs \<Longrightarrow> size v < Suc (size_list (size_prod (\<lambda>_. 0) size) kvs)"
  by (induction kvs) auto

fun stringified :: "json \<Rightarrow> json" where
  "stringified (JInf b) = JNull"
| "stringified (JArr vs) = JArr (map stringified vs)"
| "stringified (JObj kvs) = JObj (map (\<lambda>(k, v). (k, stringified v)) kvs)"
| "stringified v = v"

definition json_text :: "json \<Rightarrow> jtext" where
  "json_text v = JText (stringified v)"

lemma json_parse_text [simp]: "json_parse (json_text v) = Some (stringified v)"
  by (simp add: json_text_def)

text \<open>\<open>v.k\<close>: \<open>None\<close> is \<open>undefined\<close>.\<close>

fun jget :: "string \<Rightarrow> json \<Rightarrow> json option" where
  "jget k (JObj kvs) = map_of kvs k"
| "jget k v = None"

fun truthy :: "json \<Rightarrow> bool" where
  "truthy JNull = False"
| "truthy (JBool b) = b"
| "truthy (JNum r) = (r \<noteq> 0)"
| "truthy (JStr s) = (s \<noteq> [])"
| "truthy v = True"

fun jstr :: "json option \<Rightarrow> string option" where
  "jstr (Some (JStr s)) = Some s"
| "jstr v = None"

fun jnum :: "json option \<Rightarrow> rat option" where
  "jnum (Some (JNum r)) = Some r"
| "jnum v = None"

definition j_int :: "int \<Rightarrow> json" where
  "j_int n = JNum (of_int n)"

definition j_opt_int :: "int option \<Rightarrow> json" where
  "j_opt_int v = (case v of None \<Rightarrow> JNull | Some n \<Rightarrow> j_int n)"

text \<open>\<open>Number.isInteger(v)\<close>, reading the integer.\<close>

fun jint :: "json option \<Rightarrow> int option" where
  "jint (Some (JNum r)) = (if of_int \<lfloor>r\<rfloor> = r then Some \<lfloor>r\<rfloor> else None)"
| "jint v = None"

lemma jint_j_int [simp]: "jint (Some (j_int n)) = Some n"
  by (simp add: j_int_def)

section \<open>Masking credentials: redactSecrets\<close>

definition secret_key :: "string \<Rightarrow> bool" where
  "secret_key k = (let l = toLower k in
     str_includes l ''pass'' \<or> str_includes l ''token'' \<or> str_includes l ''secret'' \<or> str_includes l ''key'')"

text \<open>Six bullets (U+2022), by their UTF-8 encoding.\<close>

definition REDACTED :: string where
  "REDACTED = concat (replicate 6 [CHR 0xE2, CHR 0x80, CHR 0xA2])"

fun redactSecrets :: "json \<Rightarrow> json" where
  "redactSecrets (JArr vs) = JArr (map redactSecrets vs)"
| "redactSecrets (JObj kvs) =
     JObj (map (\<lambda>(k, v). (k, if secret_key k then JStr REDACTED else redactSecrets v)) kvs)"
| "redactSecrets v = v"

text \<open>The specification: at every depth, a credential-looking key carries the mask.\<close>

fun masked :: "json \<Rightarrow> bool" where
  "masked (JArr vs) = (\<forall>v \<in> set vs. masked v)"
| "masked (JObj kvs) = (\<forall>(k, v) \<in> set kvs. if secret_key k then v = JStr REDACTED else masked v)"
| "masked v = True"

lemma redactSecrets_masked [simp]: "masked (redactSecrets v)"
  by (induction v rule: redactSecrets.induct) (auto split: if_splits)

lemma masked_stringified: "masked v \<Longrightarrow> masked (stringified v)"
  by (induction v rule: stringified.induct) (auto split: if_splits)

lemma redactSecrets_id: "masked v \<Longrightarrow> redactSecrets v = v"
proof (induction v rule: redactSecrets.induct)
  case (1 vs)
  then show ?case by (simp add: map_idI)
next
  case (2 kvs)
  then show ?case by (force intro!: map_idI split: if_splits)
qed auto

lemma jget_redact:
  "\<not> secret_key k \<Longrightarrow> jget k (redactSecrets v) = map_option redactSecrets (jget k v)"
proof (cases v)
  case (JObj kvs)
  assume "\<not> secret_key k"
  then have "map_of (map (\<lambda>(k, v). (k, if secret_key k then JStr REDACTED else redactSecrets v)) kvs) k
      = map_option redactSecrets (map_of kvs k)"
    by (induction kvs) auto
  with JObj show ?thesis by simp
qed auto

lemma jget_redact_secret:
  "secret_key k \<Longrightarrow> jget k (redactSecrets v) \<in> {None, Some (JStr REDACTED)}"
proof (cases v)
  case (JObj kvs)
  assume "secret_key k"
  then have "map_of (map (\<lambda>(k, v). (k, if secret_key k then JStr REDACTED else redactSecrets v)) kvs) k
      \<in> {None, Some (JStr REDACTED)}"
    by (induction kvs) auto
  with JObj show ?thesis by simp
qed auto

end
