(* ===== verification/World.thy ===== *)
theory World
  imports Json
begin

text \<open>
  The controller's state: every table of the SQLite schema (src/controller/src/lib/db.ts, the
  schema after the last migration), the durable task queue's own file, the in-memory maps of
  alerts.ts and hub.ts that throttle mail, the mail handed to the mailer, the clock and the number of random draws made so far; the code outside the repository
  that the controller calls, as a record of parameters; the foreign-key actions of DELETE; and the
  audit writer.

  INTEGER columns that only ever hold 0 or 1 are \<open>bool\<close>, columns that only ever hold the values of
  a TypeScript union are datatypes, nullable columns are options. An operation runs on Node's event
  loop without yielding, so all its \<open>Date.now()\<close> calls read one instant, \<open>clock\<close>.
\<close>

section \<open>Rows\<close>

datatype cold_backend = LocalZfs | Smb
datatype placement_state = PQueued | PProvisioning | PActive | PFailed | PDeleting
datatype member_state = MQueued | MProvisioning | MActive | MFailed | MRemoving
datatype task_state = TQueued | TSent | TOk | TFailed
datatype gpu_state = GIdle | GWarned | GKilled

record admin_row =
  a_id :: nat
  a_name :: string
  a_email :: string
  a_password_hash :: string
  a_created_at :: int
  a_is_active :: bool
  a_token_version :: int

record node_row =
  n_id :: nat
  n_name :: string
  n_last_seen :: "int option"
  n_online :: bool
  n_capabilities :: "jtext option"
  n_pools :: "jtext option"
  n_created_at :: int
  n_last_scrub :: "int option"
  n_scrub_status :: "jtext option"
  n_token_hash :: "string option"
  n_allowed :: bool
  n_alias :: "string option"
  n_cold_backend :: cold_backend
  n_cold_owner_node_id :: "nat option"
  n_cold_mount_path :: "string option"
  n_cold_ready :: bool

record student_row =
  s_id :: nat
  s_student_id :: "string option"
  s_username :: string
  s_email :: "string option"
  s_name :: "string option"
  s_created_at :: int
  s_updated_at :: int
  s_linux_uid :: int

record lab_row =
  l_id :: nat
  l_name :: string
  l_pi_name :: "string option"
  l_pi_email :: "string option"
  l_created_at :: int
  l_updated_at :: int
  l_pi_student_id :: "nat option"

record lab_member_row =
  m_id :: nat
  m_lab_id :: nat
  m_student_id :: nat
  m_created_at :: int

record placement_row =
  p_id :: nat
  p_lab_id :: nat
  p_node_id :: nat
  p_fast_quota_bytes :: int
  p_cold_quota_bytes :: "int option"
  p_ssh_port :: int
  p_image :: string
  p_container_options :: "jtext option"
  p_state :: placement_state
  p_last_error :: "string option"
  p_usage_scanned_at :: "rat option"
  p_last_usage_scan :: "int option"
  p_created_at :: int
  p_updated_at :: int
  p_student_fast_quota_bytes :: "int option"
  p_student_cold_quota_bytes :: "int option"
  p_completion_email_sent_at :: "int option"

record placement_member_row =
  pm_id :: nat
  pm_placement_id :: nat
  pm_student_id :: nat
  pm_state :: member_state
  pm_last_error :: "string option"
  pm_created_at :: int
  pm_updated_at :: int
  pm_credential_secret :: "string option"
  pm_credential_delivered_at :: "int option"

record sample_row =
  sm_id :: nat
  sm_placement_id :: "nat option"
  sm_lab_id :: "nat option"
  sm_student_id :: "nat option"
  sm_pool :: string
  sm_used_bytes :: rat
  sm_quota_bytes :: "rat option"
  sm_ts :: int

record quota_alert_row =
  qa_id :: nat
  qa_placement_id :: "nat option"
  qa_lab_id :: "nat option"
  qa_pool :: string
  qa_pct :: int
  qa_ts :: int

record student_quota_alert_row =
  sqa_id :: nat
  sqa_placement_id :: nat
  sqa_student_id :: nat
  sqa_pool :: string
  sqa_pct :: int
  sqa_ts :: int

record task_row =
  t_id :: nat
  t_uuid :: string
  t_job_id :: "nat option"
  t_node :: string
  t_action :: string
  t_params :: "jtext option"
  t_requested_by :: "string option"
  t_state :: task_state
  t_result :: "jtext option"
  t_error :: "string option"
  t_created_at :: int
  t_updated_at :: int
  t_received_at :: "int option"
  t_attempts :: nat
  t_result_cached :: bool

record log_row =
  lg_id :: nat
  lg_ts :: rat
  lg_node :: "string option"
  lg_level :: string
  lg_source :: "string option"
  lg_lab :: "string option"
  lg_user :: "string option"
  lg_task_id :: "string option"
  lg_msg :: string
  lg_detail :: "string option"

record gpu_snapshot_row =
  gs_node :: string
  gs_pid :: json
  gs_user :: "json option"
  gs_lab :: "string option"
  gs_vram_bytes :: "json option"
  gs_util :: "json option"
  gs_ts :: int
  gs_placement_id :: "nat option"
  gs_cmd :: "string option"
  gs_started_at :: "rat option"

record gpu_event_row =
  ge_id :: nat
  ge_node :: string
  ge_pid :: "int option"
  ge_user :: "string option"
  ge_lab :: "string option"
  ge_vram_bytes :: "int option"
  ge_state :: gpu_state
  ge_ts :: int
  ge_placement_id :: "nat option"
  ge_cmd :: "string option"
  ge_idle_s :: "int option"

record audit_row =
  au_id :: nat
  au_ts :: int
  au_actor :: "string option"
  au_action :: string
  au_target :: "string option"
  au_detail :: "string option"

record node_group_row =
  g_id :: nat
  g_name :: string
  g_created_at :: int

record node_group_member_row =
  gm_group_id :: nat
  gm_node_id :: nat

section \<open>Mail requests\<close>

text \<open>
  A call of one of the mailer's send functions, with the values the caller passes: the credential
  mail has to, name, username, password, host, port, lab, node, host alias and student id; the
  completion mail has to, name, lab, node, usernames and the four quotas in bytes, which the caller
  formats (\<open>None\<close> is the phrase that stands for no quota of its own); the quota mail has to, lab, pool,
  percent, used, quota and the usage per student; the student quota mail has to, name, username, lab,
  node, pool, percent, used and quota; the GPU mails have to, username, lab, pid, node and (warning)
  the grace minutes; the admin alert has to, subject, body and the number of suppressed alerts.
\<close>

datatype mail =
    RemovalMail string string bool
  | CredentialMail string "string option" string string string int string string string "string option"
  | CompletionMail string string string string "string list" int "int option" "int option" "int option"
  | QuotaMail string string string int rat rat "(string \<times> rat) list"
  | StudentQuotaMail string string string string string string int rat rat
  | GpuWarnMail string string "string option" "int option" string rat
  | GpuKillMail string string "string option" "int option" string
  | AdminAlertMail string string string nat

section \<open>The state\<close>

record announcement_row =
  an_id :: nat
  an_ts :: int
  an_actor :: "string option"
  an_audiences :: string
  an_subject :: string
  an_body :: string
  an_recipients :: nat
  an_sent :: nat
  an_skipped :: bool

record announcement_template_row =
  at_id :: nat
  at_name :: string
  at_subject :: string
  at_body :: string
  at_sort :: int

record 'h world =
  admins :: "admin_row tbl"
  settings :: "(string \<times> jtext) list"
  nodes :: "node_row tbl"
  students :: "student_row tbl"
  labs :: "lab_row tbl"
  lab_members :: "lab_member_row tbl"
  lab_placements :: "placement_row tbl"
  placement_members :: "placement_member_row tbl"
  storage_samples :: "sample_row tbl"
  quota_alerts :: "quota_alert_row tbl"
  student_quota_alerts :: "student_quota_alert_row tbl"
  task_log :: "task_row tbl"
  logs :: "log_row tbl"
  gpu_snapshot :: "gpu_snapshot_row list"
  gpu_events :: "gpu_event_row tbl"
  audit_log :: "audit_row tbl"
  node_groups :: "node_group_row tbl"
  node_group_members :: "node_group_member_row list"
  announcements :: "announcement_row tbl"
  announcement_templates :: "announcement_template_row tbl"
  hq :: 'h
  alert_state :: "(string \<times> int \<times> nat) list"
  gpu_mail_state :: "(string \<times> int) list"
  outbox :: "mail list"
  clock :: int
  draws :: nat

section \<open>Code outside the repository\<close>

text \<open>
  The functions of other packages, of the platform's cryptography and random sources, and of the
  environment that the controller calls. A random source is indexed by the number of draws made
  before. The queue engine is the honker package: a state of its own type and the calls
  \<open>queue(n).enqueue\<close>, \<open>queue(n).claimOne\<close>, \<open>queue(n).ackBatch\<close>, \<open>queue(n)._retry\<close>. The last three
  are the time-zone database behind \<open>Intl.DateTimeFormat\<close>: the hour in a zone, whether a zone exists, and
  year, month (from 1), day, hour, minute and second in a zone.
\<close>

datatype payload = Envelope string | Legacy json

record 'h ext =
  rand_uuid :: "nat \<Rightarrow> string"
  rand_bytes :: "nat \<Rightarrow> nat \<Rightarrow> string"
  gcm_encrypt :: "string \<Rightarrow> string \<Rightarrow> string \<Rightarrow> string \<times> string"
  gcm_decrypt :: "string \<Rightarrow> string \<Rightarrow> string \<Rightarrow> string \<Rightarrow> string option"
  scrypt :: "string \<Rightarrow> string \<Rightarrow> string"
  hmac_sha256_hex :: "string \<Rightarrow> string \<Rightarrow> string"
  sha256 :: "string \<Rightarrow> string"
  json_stringify :: "json \<Rightarrow> string"
  json_parse_string :: "string \<Rightarrow> json option"
  env_agentToken :: string
  env_sessionSecret :: string
  hk_enqueue :: "string \<Rightarrow> payload \<Rightarrow> 'h \<Rightarrow> nat \<times> 'h"
  hk_claimOne :: "string \<Rightarrow> string \<Rightarrow> 'h \<Rightarrow> (nat \<times> payload) option \<times> 'h"
  hk_ackBatch :: "string \<Rightarrow> nat list \<Rightarrow> string \<Rightarrow> 'h \<Rightarrow> 'h"
  hk_retry :: "string \<Rightarrow> nat \<Rightarrow> string \<Rightarrow> nat \<Rightarrow> string \<Rightarrow> 'h \<Rightarrow> 'h"
  tz_hour :: "int \<Rightarrow> string \<Rightarrow> nat option"
  tz_valid :: "string \<Rightarrow> bool"
  tz_parts :: "int \<Rightarrow> string \<Rightarrow> int \<times> int \<times> int \<times> int \<times> int \<times> int"

section \<open>Errors\<close>

text \<open>One constructor per \<open>throw\<close> of the modelled code, with the values its message shows.\<close>

datatype config_error =
    InvalidImage string
  | InvalidCpus
  | InvalidMemory
  | InvalidShmSize
  | InvalidRootfsQuota
  | InvalidRestart

datatype placement_error =
    UnknownNode
  | SmbWithoutOwner string
  | GrantOwnerFirst string
  | OwnerNotActive string placement_state
  | SmbMountNotActive string
  | UsernsMismatch string string
  | ColdQuotaRequired
  | BadStudentFastQuota
  | BadStudentColdQuota
  | NoFreeSshPort
  | UnknownPlacement
  | CredentialNotReady
  | CredentialConsumed
  | CredentialUndecryptable
  | FastQuotaExceedsPool int string json
  | ColdQuotaExceedsPool int string json
  | StudentColdOwnerManaged
  | OnlyFailedRetried
  | OwnsSharedCold string string "string list"
  | NodeIsOnline string

datatype node_error =
    InvalidNodeName string
  | UnknownNodeName string
  | ForceDeleteOnline string
  | NodeHostsPlacements string nat
  | NodeIsColdOwner string "string list"
  | SmbRequiresOwner
  | UnknownOwner string
  | OwnColdOwner
  | OwnerNotLocalZfs string

datatype lab_error =
    InvalidLabName
  | LabNameTaken string
  | UnknownLab
  | PiUsernameRequired
  | PiUsernameFixed
  | UidExhausted
  | AlreadyMember string string
  | PiProtected
  | NotAMember
  | ImportNotCommittable nat nat "(nat \<times> string) option"
  | PiNotCreated

datatype group_error =
    GroupNameRequired
  | GroupNameTooLong
  | GroupNameTaken string
  | UnknownGroup

datatype announce_error =
    TemplateNameRequired
  | TemplateBodyRequired
  | TemplateNotFound
  | SubjectRequired
  | MessageRequired
  | FillIn "string list"
  | PickAudience
  | UnknownRecipient string
  | AnnouncementNotFound

datatype auth_error =
    BadSignupToken
  | PasswordTooShort
  | EmailRequired
  | AdminExists

datatype error =
    SqliteConstraint string
  | JsTypeError
  | JsSyntaxError
  | ConfigE config_error
  | PlacementE placement_error
  | NodeE node_error
  | LabE lab_error
  | GroupE group_error
  | AnnounceE announce_error
  | AuthE auth_error

type_synonym ('a, 'h) op = "'h world \<Rightarrow> (error, 'a, 'h world) res"

section \<open>DELETE with its foreign-key actions\<close>

text \<open>
  \<open>lab_placements\<close>: members, samples and alerts cascade; GPU rows lose their placement id.
  \<open>labs\<close>: roster, placements (with their own cascades), samples and alerts cascade.
  \<open>students\<close>: restricted while a lab designates the student as its PI; roster, placement members
  and alerts cascade; samples lose their student id. \<open>nodes\<close>: refused while a placement or another
  node's cold owner refers to it; group membership cascades.
\<close>

definition delete_placements :: "(placement_row \<Rightarrow> bool) \<Rightarrow> 'h world \<Rightarrow> 'h world" where
  "delete_placements P w =
     (let gone = p_id ` set (tbl_all P (lab_placements w)) in
      w\<lparr>lab_placements := tbl_delete P (lab_placements w),
        placement_members := tbl_delete (\<lambda>r. pm_placement_id r \<in> gone) (placement_members w),
        storage_samples := tbl_delete (\<lambda>r. case sm_placement_id r of None \<Rightarrow> False | Some i \<Rightarrow> i \<in> gone) (storage_samples w),
        quota_alerts := tbl_delete (\<lambda>r. case qa_placement_id r of None \<Rightarrow> False | Some i \<Rightarrow> i \<in> gone) (quota_alerts w),
        student_quota_alerts := tbl_delete (\<lambda>r. sqa_placement_id r \<in> gone) (student_quota_alerts w),
        gpu_snapshot := map (\<lambda>r. case gs_placement_id r of None \<Rightarrow> r
            | Some i \<Rightarrow> if i \<in> gone then r\<lparr>gs_placement_id := None\<rparr> else r) (gpu_snapshot w),
        gpu_events := tbl_update (\<lambda>r. case ge_placement_id r of None \<Rightarrow> False | Some i \<Rightarrow> i \<in> gone)
            (\<lambda>r. r\<lparr>ge_placement_id := None\<rparr>) (gpu_events w)\<rparr>)"

definition delete_lab :: "nat \<Rightarrow> 'h world \<Rightarrow> 'h world" where
  "delete_lab i w =
     (let w = delete_placements (\<lambda>p. p_lab_id p = i) w in
      w\<lparr>labs := tbl_delete (\<lambda>l. l_id l = i) (labs w),
        lab_members := tbl_delete (\<lambda>m. m_lab_id m = i) (lab_members w),
        storage_samples := tbl_delete (\<lambda>r. sm_lab_id r = Some i) (storage_samples w),
        quota_alerts := tbl_delete (\<lambda>r. qa_lab_id r = Some i) (quota_alerts w)\<rparr>)"

definition delete_student :: "nat \<Rightarrow> (unit, 'h) op" where
  "delete_student i w =
     (if (\<exists>l \<in> set (rows (labs w)). l_pi_student_id l = Some i)
      then (Inl (SqliteConstraint ''FOREIGN KEY''), w)
      else (Inr (), w\<lparr>students := tbl_delete (\<lambda>s. s_id s = i) (students w),
        lab_members := tbl_delete (\<lambda>m. m_student_id m = i) (lab_members w),
        placement_members := tbl_delete (\<lambda>r. pm_student_id r = i) (placement_members w),
        student_quota_alerts := tbl_delete (\<lambda>r. sqa_student_id r = i) (student_quota_alerts w),
        storage_samples := tbl_update (\<lambda>r. sm_student_id r = Some i) (\<lambda>r. r\<lparr>sm_student_id := None\<rparr>) (storage_samples w)\<rparr>))"

definition delete_node :: "nat \<Rightarrow> (unit, 'h) op" where
  "delete_node i w =
     (if (\<exists>p \<in> set (rows (lab_placements w)). p_node_id p = i) \<or>
         (\<exists>n \<in> set (rows (nodes w)). n_cold_owner_node_id n = Some i \<and> n_id n \<noteq> i)
      then (Inl (SqliteConstraint ''FOREIGN KEY''), w)
      else (Inr (), w\<lparr>nodes := tbl_delete (\<lambda>n. n_id n = i) (nodes w),
        node_group_members := filter (\<lambda>r. gm_node_id r \<noteq> i) (node_group_members w)\<rparr>))"

section \<open>Audit\<close>

definition audit :: "string option \<Rightarrow> string \<Rightarrow> string option \<Rightarrow> string option \<Rightarrow> 'h world \<Rightarrow> 'h world" where
  "audit actor action target detail w =
     w\<lparr>audit_log := tbl_insert (\<lambda>i. \<lparr>au_id = i, au_ts = clock w, au_actor = actor, au_action = action,
        au_target = target, au_detail = detail\<rparr>) (audit_log w)\<rparr>"

definition send_mail :: "mail \<Rightarrow> 'h world \<Rightarrow> 'h world" where
  "send_mail m w = w\<lparr>outbox := outbox w @ [m]\<rparr>"

lemma audit_frame [frame_simps, simp]:
  "admins (audit a b c d w) = admins w" "settings (audit a b c d w) = settings w"
  "nodes (audit a b c d w) = nodes w" "students (audit a b c d w) = students w"
  "labs (audit a b c d w) = labs w" "lab_members (audit a b c d w) = lab_members w"
  "lab_placements (audit a b c d w) = lab_placements w"
  "placement_members (audit a b c d w) = placement_members w"
  "storage_samples (audit a b c d w) = storage_samples w"
  "task_log (audit a b c d w) = task_log w" "hq (audit a b c d w) = hq w"
  "outbox (audit a b c d w) = outbox w" "clock (audit a b c d w) = clock w"
  "draws (audit a b c d w) = draws w" "logs (audit a b c d w) = logs w"
  by (simp_all add: audit_def)

lemma send_mail_frame [frame_simps, simp]:
  "admins (send_mail m w) = admins w" "settings (send_mail m w) = settings w"
  "nodes (send_mail m w) = nodes w" "students (send_mail m w) = students w"
  "labs (send_mail m w) = labs w" "lab_members (send_mail m w) = lab_members w"
  "lab_placements (send_mail m w) = lab_placements w"
  "placement_members (send_mail m w) = placement_members w"
  "storage_samples (send_mail m w) = storage_samples w"
  "task_log (send_mail m w) = task_log w" "hq (send_mail m w) = hq w"
  "outbox (send_mail m w) = outbox w @ [m]" "clock (send_mail m w) = clock w"
  "draws (send_mail m w) = draws w" "logs (send_mail m w) = logs w"
  by (simp_all add: send_mail_def)

end
