(* ===== verification/Secrets.thy ===== *)
theory Secrets
  imports World
begin

text \<open>
  Encryption at rest of stored credentials (src/controller/src/lib/secrets.ts), the generated
  initial passwords (src/controller/src/lib/passwords.ts), and the base64 codec of Node's Buffer
  that the envelope format uses. AES-256-GCM and scrypt are parameters.
\<close>

section \<open>Base64\<close>

definition b64_alphabet :: string where
  "b64_alphabet = ''ABCDEFGHIJKLMNOPQRSTUVWXYZabcdefghijklmnopqrstuvwxyz0123456789+/''"

definition b64_char :: "nat \<Rightarrow> char" where
  "b64_char n = b64_alphabet ! n"

text \<open>\<open>Buffer.toString("base64")\<close>, on bytes.\<close>

fun b64_bytes :: "nat list \<Rightarrow> string" where
  "b64_bytes [] = []"
| "b64_bytes [a] = [b64_char (a div 4), b64_char (a mod 4 * 16), CHR ''='', CHR ''='']"
| "b64_bytes [a, b] =
     [b64_char (a div 4), b64_char (a mod 4 * 16 + b div 16), b64_char (b mod 16 * 4), CHR ''='']"
| "b64_bytes (a # b # c # r) =
     [b64_char (a div 4), b64_char (a mod 4 * 16 + b div 16),
      b64_char (b mod 16 * 4 + c div 64), b64_char (c mod 64)] @ b64_bytes r"

definition b64_encode :: "string \<Rightarrow> string" where
  "b64_encode s = b64_bytes (map of_char s)"

text \<open>\<open>Buffer.from(s, "base64")\<close>: stops at padding, skips characters outside the alphabet.\<close>

definition sextet :: "char \<Rightarrow> nat option" where
  "sextet c = (let i = length (takeWhile (\<lambda>d. d \<noteq> c) b64_alphabet) in if i < 64 then Some i else None)"

fun sextets_bytes :: "nat list \<Rightarrow> nat list" where
  "sextets_bytes (a # b # c # d # r) =
     [a * 4 + b div 16, b mod 16 * 16 + c div 4, c mod 4 * 64 + d] @ sextets_bytes r"
| "sextets_bytes [a, b, c] = [a * 4 + b div 16, b mod 16 * 16 + c div 4]"
| "sextets_bytes [a, b] = [a * 4 + b div 16]"
| "sextets_bytes r = []"

definition b64_decode :: "string \<Rightarrow> string" where
  "b64_decode s = map char_of (sextets_bytes (List.map_filter sextet (takeWhile (\<lambda>c. c \<noteq> CHR ''='') s)))"

lemma sextet_b64_char: "\<forall>n \<in> set [0..<64]. sextet (b64_char n) = Some n \<and> b64_char n \<noteq> CHR ''='' \<and> b64_char n \<noteq> CHR '':''"
  by code_simp

lemma sextet_b64_char' [simp]: "n < 64 \<Longrightarrow> sextet (b64_char n) = Some n"
  and b64_char_pad [simp]: "n < 64 \<Longrightarrow> b64_char n \<noteq> CHR ''=''"
  and b64_char_colon [simp]: "n < 64 \<Longrightarrow> b64_char n \<noteq> CHR '':''"
  using sextet_b64_char by auto

lemma b64_digit:
  fixes q r n :: nat
  assumes "r < n" shows "(q * n + r) div n = q" "(q * n + r) mod n = r"
  using assms by auto

lemma b64_small:
  fixes b c :: nat
  shows "b < 256 \<Longrightarrow> b div 16 < 16" "c < 256 \<Longrightarrow> c div 64 < 4"
  by (simp_all add: less_mult_imp_div_less)

lemma b64_bounds [simp]:
  fixes a b c :: nat
  shows "a < 256 \<Longrightarrow> a div 4 < 64" "b < 256 \<Longrightarrow> a mod 4 * 16 + b div 16 < 64"
    "c < 256 \<Longrightarrow> b mod 16 * 4 + c div 64 < 64" "c mod 64 < 64" "a mod 4 * 16 < 64" "b mod 16 * 4 < 64"
  using mod_less_divisor [of 4 a] mod_less_divisor [of 16 b] b64_small [of b] b64_small [of c]
  by (simp_all add: less_mult_imp_div_less)

lemma b64_join:
  fixes a b c :: nat
  shows "b < 256 \<Longrightarrow> a div 4 * 4 + (a mod 4 * 16 + b div 16) div 16 = a"
    "b < 256 \<Longrightarrow> c < 256 \<Longrightarrow> (a mod 4 * 16 + b div 16) mod 16 * 16 + (b mod 16 * 4 + c div 64) div 4 = b"
    "c < 256 \<Longrightarrow> (b mod 16 * 4 + c div 64) mod 4 * 64 + c mod 64 = c"
    "b < 256 \<Longrightarrow> (a mod 4 * 16 + b div 16) mod 16 * 16 + (b mod 16 * 4) div 4 = b"
    "a div 4 * 4 + (a mod 4 * 16) div 16 = a"
  by (simp_all only: b64_digit b64_small mult_div_mod_eq div_mult_mod_eq nonzero_mult_div_cancel_right
      numeral_neq_zero not_False_eq_True)

lemma map_filter_sextet [simp]:
  "n < 64 \<Longrightarrow> List.map_filter sextet (b64_char n # cs) = n # List.map_filter sextet cs"
  by (simp add: List.map_filter_simps)

lemma takeWhile_b64 [simp]:
  "n < 64 \<Longrightarrow> takeWhile (\<lambda>c. c \<noteq> CHR ''='') (b64_char n # cs) = b64_char n # takeWhile (\<lambda>c. c \<noteq> CHR ''='') cs"
  by simp

lemma sextets_of_b64:
  "\<forall>x \<in> set bs. x < 256 \<Longrightarrow>
     sextets_bytes (List.map_filter sextet (takeWhile (\<lambda>c. c \<noteq> CHR ''='') (b64_bytes bs))) = bs"
proof (induction bs rule: b64_bytes.induct)
  case (2 a)
  then have "a < 256" by simp
  with b64_join(5) [of a] show ?case by (simp add: List.map_filter_simps(2))
next
  case (3 a b)
  then have "a < 256" "b < 256" by simp_all
  with b64_join(1,4) [of b a] show ?case by (simp add: List.map_filter_simps(2) del: div_mult_self3)
next
  case (4 a b c r)
  then have "a < 256" "b < 256" "c < 256" by simp_all
  with b64_join(1-3) [of b a] b64_join(2) [of b c a] b64_join(3) [of c b] 4 show ?case
    by (simp del: div_mult_self3)
qed (simp add: List.map_filter_simps)

lemma b64_bytes_colon: "\<forall>x \<in> set bs. x < 256 \<Longrightarrow> CHR '':'' \<notin> set (b64_bytes bs)"
  by (induction bs rule: b64_bytes.induct) (auto dest!: sym [of "CHR '':''"])

lemma of_char_bytes: "\<forall>x \<in> set (map of_char s). x < (256::nat)"
  by (auto simp: of_char_of)

lemma b64_roundtrip [simp]: "b64_decode (b64_encode s) = s"
  using sextets_of_b64 [OF of_char_bytes] by (simp add: b64_decode_def b64_encode_def o_def)

lemma b64_encode_colon [simp]: "CHR '':'' \<notin> set (b64_encode s)"
  using b64_bytes_colon [OF of_char_bytes] by (simp add: b64_encode_def)

lemma b64_encode_Nil [simp]: "b64_encode s = [] \<longleftrightarrow> s = []"
proof
  assume "b64_encode s = []"
  then have "b64_decode (b64_encode s) = b64_decode []" by simp
  also have "b64_decode [] = []" by (simp add: b64_decode_def List.map_filter_simps)
  finally show "s = []" by simp
qed (simp add: b64_encode_def)

section \<open>secrets.ts\<close>

definition SECRET_PREFIX :: string where
  "SECRET_PREFIX = ''enc:v1:''"

definition SECRET_SALT :: string where
  "SECRET_SALT = ''lab-manager:secrets:v1''"

definition secret_key_bytes :: "'h ext \<Rightarrow> string" where
  "secret_key_bytes X = scrypt X (env_sessionSecret X) SECRET_SALT"

text \<open>\<open>k\<close> is the draw that supplies the nonce.\<close>

definition encryptSecret :: "'h ext \<Rightarrow> nat \<Rightarrow> string \<Rightarrow> string" where
  "encryptSecret X k plain =
     (if plain = [] then []
      else let iv = rand_bytes X k 12; (ct, tag) = gcm_encrypt X (secret_key_bytes X) iv plain
           in SECRET_PREFIX @ b64_encode iv @ '':'' @ b64_encode tag @ '':'' @ b64_encode ct)"

definition decryptSecret :: "'h ext \<Rightarrow> string \<Rightarrow> string" where
  "decryptSecret X stored =
     (if \<not> startsWith stored SECRET_PREFIX then stored
      else case splitOn (CHR '':'') (drop (length SECRET_PREFIX) stored) of
        ivB64 # tagB64 # ctB64 # _ \<Rightarrow>
          (if ivB64 = [] \<or> tagB64 = [] \<or> ctB64 = [] then stored
           else case gcm_decrypt X (secret_key_bytes X) (b64_decode ivB64) (b64_decode tagB64) (b64_decode ctB64) of
               Some plain \<Rightarrow> plain | None \<Rightarrow> [])
      | _ \<Rightarrow> stored)"

definition isEncrypted :: "string \<Rightarrow> bool" where
  "isEncrypted value = startsWith value SECRET_PREFIX"

lemma startsWith_append [simp]: "startsWith (p @ s) p"
  by (induction p) auto

lemma startsWith_iff: "startsWith s p \<longleftrightarrow> (\<exists>r. s = p @ r)"
  by (induction s p rule: startsWith.induct) auto

lemma splitOn_no_sep: "c \<notin> set s \<Longrightarrow> splitOn c s = [s]"
  by (induction s) auto

lemma splitOn_append: "c \<notin> set s \<Longrightarrow> splitOn c (s @ c # r) = s # splitOn c r"
  by (induction s) auto

text \<open>
  What the stored envelopes rely on: GCM decryption with the key, nonce and tag of an encryption
  returns its plaintext, the tag is not empty, and a ciphertext is as long as its plaintext.
\<close>

definition gcm_ok :: "'h ext \<Rightarrow> bool" where
  "gcm_ok X \<longleftrightarrow>
     (\<forall>key iv plain ct tag. gcm_encrypt X key iv plain = (ct, tag) \<longrightarrow>
        gcm_decrypt X key iv tag ct = Some plain \<and> tag \<noteq> [] \<and> length ct = length plain)
     \<and> (\<forall>k n. length (rand_bytes X k n) = n)"

lemma decrypt_encrypt:
  assumes "gcm_ok X"
  shows "decryptSecret X (encryptSecret X k plain) = plain"
proof (cases "plain = []")
  case True
  then show ?thesis by (simp add: encryptSecret_def decryptSecret_def SECRET_PREFIX_def)
next
  case False
  obtain ct tag where e: "gcm_encrypt X (secret_key_bytes X) (rand_bytes X k 12) plain = (ct, tag)"
    by fastforce
  then have d: "gcm_decrypt X (secret_key_bytes X) (rand_bytes X k 12) tag ct = Some plain"
    and ne: "tag \<noteq> []" "ct \<noteq> []" "rand_bytes X k 12 \<noteq> []"
    using assms False unfolding gcm_ok_def by (blast, blast, fastforce, metis list.size(3) zero_neq_numeral)
  have s: "splitOn (CHR '':'') (b64_encode (rand_bytes X k 12) @ CHR '':'' # b64_encode tag @ CHR '':'' # b64_encode ct)
      = [b64_encode (rand_bytes X k 12), b64_encode tag, b64_encode ct]"
    by (simp add: splitOn_append splitOn_no_sep)
  have "encryptSecret X k plain = SECRET_PREFIX @ b64_encode (rand_bytes X k 12) @ CHR '':'' # b64_encode tag @ CHR '':'' # b64_encode ct"
    using False e by (simp add: encryptSecret_def)
  with s d ne show ?thesis by (simp add: decryptSecret_def)
qed

lemma encryptSecret_Nil [simp]: "encryptSecret X k plain = [] \<longleftrightarrow> plain = []"
  by (auto simp: encryptSecret_def SECRET_PREFIX_def Let_def split: prod.splits)

section \<open>passwords.ts\<close>

definition PASSWORD_CHARS :: string where
  "PASSWORD_CHARS = ''abcdefghijkmnpqrstuvwxyzABCDEFGHJKLMNPQRSTUVWXYZ23456789''"

definition generatePassword :: "'h ext \<Rightarrow> nat \<Rightarrow> nat \<Rightarrow> string" where
  "generatePassword X k len =
     map (\<lambda>b. PASSWORD_CHARS ! (of_char b mod length PASSWORD_CHARS)) (rand_bytes X k len)"

lemma generatePassword_length: "gcm_ok X \<Longrightarrow> length (generatePassword X k n) = n"
  by (simp add: generatePassword_def gcm_ok_def)

lemma generatePassword_chars: "set (generatePassword X k n) \<subseteq> set PASSWORD_CHARS"
proof -
  have "0 < length PASSWORD_CHARS" by (simp add: PASSWORD_CHARS_def)
  then show ?thesis by (auto simp: generatePassword_def intro!: nth_mem)
qed

end
