(* ===== verification/Queue.thy ===== *)
theory Queue
  imports Secrets
begin

text \<open>
  The durable task queue (src/controller/src/lib/queue.ts): task frames, the encrypted payload in
  the queue engine, and the \<open>task_log\<close> mirror that carries a task's lifecycle. The engine itself is
  the honker package; what the controller relies on is stated as \<open>honker_fifo\<close>.
\<close>

record frame =
  f_id :: string
  f_action :: string
  f_params :: json
  f_requested_by :: "string option"
  f_ts :: int

text \<open>\<open>JSON.stringify(frame)\<close> writes this object; an undefined \<open>requested_by\<close> is left out.\<close>

definition frame_json :: "frame \<Rightarrow> json" where
  "frame_json f = JObj ([(''type'', JStr ''task''), (''id'', JStr (f_id f)), (''action'', JStr (f_action f)),
     (''params'', f_params f)]
     @ (case f_requested_by f of None \<Rightarrow> [] | Some r \<Rightarrow> [(''requested_by'', JStr r)])
     @ [(''ts'', j_int (f_ts f))])"

definition decodeFrame :: "'h ext \<Rightarrow> payload \<Rightarrow> error + json" where
  "decodeFrame X payload =
     (case payload of
        Envelope enc \<Rightarrow>
          (case json_parse_string X (decryptSecret X enc) of None \<Rightarrow> Inl JsSyntaxError | Some j \<Rightarrow> Inr j)
      | Legacy j \<Rightarrow> Inr j)"

definition nodeQueue :: "string \<Rightarrow> string" where
  "nodeQueue node = ''node:'' @ node"

definition enqueueTask ::
    "'h ext \<Rightarrow> string \<Rightarrow> string \<Rightarrow> json \<Rightarrow> string option \<Rightarrow> 'h world \<Rightarrow> frame \<times> 'h world" where
  "enqueueTask X node action params requestedBy w =
     (let k = draws w;
          frame = \<lparr>f_id = rand_uuid X k, f_action = action, f_params = params,
                   f_requested_by = requestedBy, f_ts = clock w\<rparr>;
          (jobId, h) = hk_enqueue X (nodeQueue node)
             (Envelope (encryptSecret X (k + 1) (json_stringify X (frame_json frame)))) (hq w);
          now = clock w
      in (frame,
          w\<lparr>draws := k + 2, hq := h,
            task_log := tbl_insert (\<lambda>i. \<lparr>t_id = i, t_uuid = f_id frame, t_job_id = Some jobId, t_node = node,
              t_action = action, t_params = Some (json_text (redactSecrets params)), t_requested_by = requestedBy,
              t_state = TQueued, t_result = None, t_error = None, t_created_at = now, t_updated_at = now,
              t_received_at = None, t_attempts = 0, t_result_cached = False\<rparr>) (task_log w)\<rparr>))"

text \<open>The calls that ignore the returned frame.\<close>

definition enqueue :: "'h ext \<Rightarrow> string \<Rightarrow> string \<Rightarrow> json \<Rightarrow> string option \<Rightarrow> 'h world \<Rightarrow> 'h world" where
  "enqueue X node action params requestedBy w = snd (enqueueTask X node action params requestedBy w)"

definition getTask :: "string \<Rightarrow> 'h world \<Rightarrow> task_row option" where
  "getTask uuid w = tbl_get (\<lambda>t. t_uuid t = uuid) (task_log w)"

definition claimTask :: "'h ext \<Rightarrow> string \<Rightarrow> string \<Rightarrow> ((nat \<times> json) option, 'h) op" where
  "claimTask X node workerId w =
     (case hk_claimOne X (nodeQueue node) workerId (hq w) of
        (None, h) \<Rightarrow> (Inr None, w\<lparr>hq := h\<rparr>)
      | (Some (jobId, payload), h) \<Rightarrow>
          (case decodeFrame X payload of
             Inl e \<Rightarrow> (Inl e, w\<lparr>hq := h\<rparr>)
           | Inr frame \<Rightarrow> (Inr (Some (jobId, frame)), w\<lparr>hq := h\<rparr>)))"

definition ackTask :: "'h ext \<Rightarrow> string \<Rightarrow> nat \<Rightarrow> string \<Rightarrow> 'h world \<Rightarrow> 'h world" where
  "ackTask X node jobId workerId w = w\<lparr>hq := hk_ackBatch X (nodeQueue node) [jobId] workerId (hq w)\<rparr>"

definition retryTask :: "'h ext \<Rightarrow> string \<Rightarrow> nat \<Rightarrow> string \<Rightarrow> string \<Rightarrow> 'h world \<Rightarrow> 'h world" where
  "retryTask X node jobId workerId err w = w\<lparr>hq := hk_retry X (nodeQueue node) jobId workerId 5 err (hq w)\<rparr>"

definition terminal :: "task_state \<Rightarrow> bool" where
  "terminal s = (s = TOk \<or> s = TFailed)"

definition markTaskState ::
    "string \<Rightarrow> string \<Rightarrow> task_state \<Rightarrow> json option \<Rightarrow> string option \<Rightarrow> bool \<Rightarrow> 'h world \<Rightarrow> bool \<times> 'h world" where
  "markTaskState node uuid state result err cached w =
     (let P = (\<lambda>t. t_uuid t = uuid \<and> t_node t = node \<and> \<not> terminal (t_state t)) in
      (0 < tbl_changes P (task_log w),
       w\<lparr>task_log := tbl_update P (\<lambda>t. t\<lparr>t_state := state, t_result := map_option json_text result,
           t_error := err, t_result_cached := cached, t_updated_at := clock w\<rparr>) (task_log w)\<rparr>))"

definition markTaskReceived :: "string \<Rightarrow> string \<Rightarrow> 'h world \<Rightarrow> 'h world" where
  "markTaskReceived node uuid w =
     w\<lparr>task_log := tbl_update (\<lambda>t. t_uuid t = uuid \<and> t_node t = node \<and> t_received_at t = None)
         (\<lambda>t. t\<lparr>t_received_at := Some (clock w)\<rparr>) (task_log w)\<rparr>"

definition bumpAttempts :: "string \<Rightarrow> string \<Rightarrow> 'h world \<Rightarrow> 'h world" where
  "bumpAttempts node uuid w =
     w\<lparr>task_log := tbl_update (\<lambda>t. t_uuid t = uuid \<and> t_node t = node)
         (\<lambda>t. t\<lparr>t_attempts := t_attempts t + 1\<rparr>) (task_log w)\<rparr>"

section \<open>What the operations leave unchanged\<close>

lemma enqueue_frame [frame_simps, simp]:
  "admins (enqueue X n a p b w) = admins w" "settings (enqueue X n a p b w) = settings w"
  "nodes (enqueue X n a p b w) = nodes w" "students (enqueue X n a p b w) = students w"
  "labs (enqueue X n a p b w) = labs w" "lab_members (enqueue X n a p b w) = lab_members w"
  "lab_placements (enqueue X n a p b w) = lab_placements w"
  "placement_members (enqueue X n a p b w) = placement_members w"
  "storage_samples (enqueue X n a p b w) = storage_samples w"
  "outbox (enqueue X n a p b w) = outbox w" "clock (enqueue X n a p b w) = clock w"
  "draws (enqueue X n a p b w) = draws w + 2" "logs (enqueue X n a p b w) = logs w"
  "audit_log (enqueue X n a p b w) = audit_log w"
  by (simp_all add: enqueue_def enqueueTask_def Let_def split: prod.splits)

lemma markTaskState_frame [frame_simps, simp]:
  "nodes (snd (markTaskState n u s r e c w)) = nodes w"
  "students (snd (markTaskState n u s r e c w)) = students w"
  "labs (snd (markTaskState n u s r e c w)) = labs w"
  "lab_members (snd (markTaskState n u s r e c w)) = lab_members w"
  "lab_placements (snd (markTaskState n u s r e c w)) = lab_placements w"
  "placement_members (snd (markTaskState n u s r e c w)) = placement_members w"
  "hq (snd (markTaskState n u s r e c w)) = hq w"
  "draws (snd (markTaskState n u s r e c w)) = draws w"
  "clock (snd (markTaskState n u s r e c w)) = clock w"
  "settings (snd (markTaskState n u s r e c w)) = settings w"
  by (simp_all add: markTaskState_def Let_def)

text \<open>The new row of \<open>task_log\<close>, and the rows as a list.\<close>

definition task_row_of ::
    "'h ext \<Rightarrow> string \<Rightarrow> string \<Rightarrow> json \<Rightarrow> string option \<Rightarrow> 'h world \<Rightarrow> task_row" where
  "task_row_of X node action params by w = last (rows (task_log (enqueue X node action params by w)))"

lemma task_log_enqueue:
  "rows (task_log (enqueue X n a p b w)) = rows (task_log w) @ [task_row_of X n a p b w]"
  by (simp add: task_row_of_def enqueue_def enqueueTask_def Let_def split: prod.splits)

lemma task_row_of_fields [simp]:
  "t_uuid (task_row_of X n a p b w) = rand_uuid X (draws w)"
  "t_node (task_row_of X n a p b w) = n" "t_action (task_row_of X n a p b w) = a"
  "t_params (task_row_of X n a p b w) = Some (json_text (redactSecrets p))"
  "t_state (task_row_of X n a p b w) = TQueued" "t_requested_by (task_row_of X n a p b w) = b"
  by (simp_all add: task_row_of_def enqueue_def enqueueTask_def Let_def split: prod.splits)

section \<open>Invariants of the task log\<close>

text \<open>
  \<open>uuid_ok\<close>: the UNIQUE index on \<open>task_uuid\<close>, kept because every uuid is an earlier random draw.
  \<open>log_masked\<close>: no credential in the long-lived log.
\<close>

definition uuid_ok :: "'h ext \<Rightarrow> 'h world \<Rightarrow> bool" where
  "uuid_ok X w \<longleftrightarrow> distinct (map t_uuid (rows (task_log w))) \<and>
     (\<forall>t \<in> set (rows (task_log w)). \<exists>k < draws w. t_uuid t = rand_uuid X k)"

definition log_masked :: "'h world \<Rightarrow> bool" where
  "log_masked w \<longleftrightarrow> (\<forall>t \<in> set (rows (task_log w)). \<forall>j. t_params t = Some (JText j) \<longrightarrow> masked j)"

lemma uuid_ok_enqueue:
  assumes "inj (rand_uuid X)" "uuid_ok X w"
  shows "uuid_ok X (enqueue X n a p b w)"
proof -
  have "rand_uuid X (draws w) \<notin> t_uuid ` set (rows (task_log w))"
  proof
    assume "rand_uuid X (draws w) \<in> t_uuid ` set (rows (task_log w))"
    then obtain k where "k < draws w" "rand_uuid X (draws w) = rand_uuid X k"
      using assms(2) unfolding uuid_ok_def by fastforce
    with assms(1) show False by (simp add: inj_eq)
  qed
  moreover have "\<exists>k < draws w + 2. t_uuid t = rand_uuid X k" if "t \<in> set (rows (task_log w))" for t
    using assms(2) that by (meson uuid_ok_def trans_less_add1)
  ultimately show ?thesis
    using assms(2) by (auto simp: uuid_ok_def task_log_enqueue intro: exI [of _ "draws w"])
qed

lemma log_masked_enqueue [inv_intros]: "log_masked w \<Longrightarrow> log_masked (enqueue X n a p b w)"
  by (auto simp: log_masked_def task_log_enqueue json_text_def masked_stringified)

lemma t_uuid_updates:
  "map t_uuid (rows (task_log (snd (markTaskState n u s r e c w)))) = map t_uuid (rows (task_log w))"
  "map t_uuid (rows (task_log (markTaskReceived n u w))) = map t_uuid (rows (task_log w))"
  "map t_uuid (rows (task_log (bumpAttempts n u w))) = map t_uuid (rows (task_log w))"
  by (simp_all add: markTaskState_def Let_def markTaskReceived_def bumpAttempts_def col_tbl_update)

lemma log_masked_updates [inv_intros]:
  "log_masked w \<Longrightarrow> log_masked (snd (markTaskState n u s r e c w))"
  "log_masked w \<Longrightarrow> log_masked (markTaskReceived n u w)"
  "log_masked w \<Longrightarrow> log_masked (bumpAttempts n u w)"
  by (auto simp: log_masked_def Let_def markTaskState_def markTaskReceived_def bumpAttempts_def rows_tbl_update
      split: if_splits)

section \<open>Lifecycle\<close>

text \<open>
  The specification of a task's life: queued, then sent (again after a redelivery), then a result.
  A row that has its result is final.
\<close>

inductive task_step :: "task_state \<Rightarrow> task_state \<Rightarrow> bool" where
  send: "\<not> terminal s \<Longrightarrow> task_step s TSent"
| finish: "\<not> terminal s \<Longrightarrow> terminal r \<Longrightarrow> task_step s r"

inductive_cases task_stepE: "task_step s r"

lemma task_step_terminal: "terminal s \<Longrightarrow> \<not> task_step s r"
  by (auto elim: task_stepE)

text \<open>Every update of the log is, on every row, a step of that life or no change of state.\<close>

lemma markTaskState_refines:
  assumes "s \<in> {TSent, TOk, TFailed}" "i < length (rows (task_log w))"
  shows "(let t = rows (task_log w) ! i; t' = rows (task_log (snd (markTaskState n u s r e c w))) ! i in
     t' = t \<or> (task_step (t_state t) (t_state t') \<and> t_node t = n \<and> t_uuid t = u))"
  using assms by (auto simp: markTaskState_def Let_def rows_tbl_update Let_def terminal_def intro: task_step.intros)

lemma markTaskState_final:
  assumes "t \<in> set (rows (task_log w))" "terminal (t_state t)"
  shows "t \<in> set (rows (task_log (snd (markTaskState n u s r e c w))))"
  using assms by (force simp: markTaskState_def Let_def rows_tbl_update)

lemma markTaskState_foreign:
  assumes "t \<in> set (rows (task_log w))" "t_node t \<noteq> n"
  shows "t \<in> set (rows (task_log (snd (markTaskState n u s r e c w))))"
  using assms by (force simp: markTaskState_def Let_def rows_tbl_update)

lemma markTaskState_changed:
  "fst (markTaskState n u s r e c w) \<longleftrightarrow>
     (\<exists>t \<in> set (rows (task_log w)). t_uuid t = u \<and> t_node t = n \<and> \<not> terminal (t_state t))"
  by (simp add: markTaskState_def Let_def tbl_changes_pos)

lemma markTaskState_once:
  assumes "terminal s"
  shows "\<not> fst (markTaskState n u s' r' e' c' (snd (markTaskState n u s r e c w)))"
proof -
  have "terminal (t_state t)"
    if "t \<in> set (rows (task_log (snd (markTaskState n u s r e c w))))" "t_uuid t = u" "t_node t = n" for t
  proof -
    from that(1) have "t \<in> set (rows (tbl_update
        (\<lambda>t. t_uuid t = u \<and> t_node t = n \<and> \<not> terminal (t_state t))
        (\<lambda>t. t\<lparr>t_state := s, t_result := map_option json_text r, t_error := e, t_result_cached := c,
           t_updated_at := clock w\<rparr>) (task_log w)))"
      by (simp add: markTaskState_def Let_def)
    then show ?thesis by (rule tbl_updateE) (use that(2,3) assms in simp_all)
  qed
  then show ?thesis by (auto simp: markTaskState_changed)
qed

section \<open>The queue engine\<close>

text \<open>
  What the controller relies on, for a view \<open>pend q h\<close> of the jobs of queue \<open>q\<close> that are waiting
  to be claimed: a job is appended, the oldest job is claimed first, queues are independent, and
  acknowledging a claimed job does not touch the waiting ones.
\<close>

definition honker_fifo :: "'h ext \<Rightarrow> (string \<Rightarrow> 'h \<Rightarrow> (nat \<times> payload) list) \<Rightarrow> bool" where
  "honker_fifo X pend \<longleftrightarrow>
     (\<forall>q p h j h'. hk_enqueue X q p h = (j, h') \<longrightarrow>
        pend q h' = pend q h @ [(j, p)] \<and> (\<forall>q'. q' \<noteq> q \<longrightarrow> pend q' h' = pend q' h)) \<and>
     (\<forall>q wk h h'. hk_claimOne X q wk h = (None, h') \<longrightarrow>
        pend q h = [] \<and> (\<forall>q'. pend q' h' = pend q' h)) \<and>
     (\<forall>q wk h j p h'. hk_claimOne X q wk h = (Some (j, p), h') \<longrightarrow>
        pend q h = (j, p) # pend q h' \<and> (\<forall>q'. q' \<noteq> q \<longrightarrow> pend q' h' = pend q' h)) \<and>
     (\<forall>q js wk h q'. pend q' (hk_ackBatch X q js wk h) = pend q' h)"

lemma honker_fifoD:
  assumes "honker_fifo X pend"
  shows "hk_enqueue X q p h = (j, h') \<Longrightarrow> pend q h' = pend q h @ [(j, p)]"
    and "hk_enqueue X q p h = (j, h') \<Longrightarrow> q' \<noteq> q \<Longrightarrow> pend q' h' = pend q' h"
    and "hk_claimOne X q wk h = (None, h') \<Longrightarrow> pend q h = [] \<and> pend q' h' = pend q' h"
    and "hk_claimOne X q wk h = (Some (j, p), h') \<Longrightarrow> pend q h = (j, p) # pend q h'"
    and "hk_claimOne X q wk h = (Some (j, p), h') \<Longrightarrow> q' \<noteq> q \<Longrightarrow> pend q' h' = pend q' h"
    and "pend q' (hk_ackBatch X q js wk h) = pend q' h"
  using assms unfolding honker_fifo_def by simp_all

definition pending :: "(string \<Rightarrow> 'h \<Rightarrow> (nat \<times> payload) list) \<Rightarrow> string \<Rightarrow> 'h world \<Rightarrow> payload list" where
  "pending pend node w = map snd (pend (nodeQueue node) (hq w))"

lemma nodeQueue_inj: "nodeQueue a = nodeQueue b \<longleftrightarrow> a = b"
  by (simp add: nodeQueue_def)

definition frame_of ::
    "'h ext \<Rightarrow> string \<Rightarrow> string \<Rightarrow> json \<Rightarrow> string option \<Rightarrow> 'h world \<Rightarrow> frame" where
  "frame_of X node action params by w = fst (enqueueTask X node action params by w)"

definition frame_payload :: "'h ext \<Rightarrow> nat \<Rightarrow> frame \<Rightarrow> payload" where
  "frame_payload X k f = Envelope (encryptSecret X k (json_stringify X (frame_json f)))"

lemma pending_enqueue:
  assumes "honker_fifo X pend"
  shows "pending pend node (enqueue X n a p b w) =
     pending pend node w @ (if node = n then [frame_payload X (draws w + 1) (frame_of X n a p b w)] else [])"
proof -
  obtain j h where e: "hk_enqueue X (nodeQueue n) (frame_payload X (draws w + 1) (frame_of X n a p b w)) (hq w) = (j, h)"
    by fastforce
  have h: "hq (enqueue X n a p b w) = h"
    using e by (simp add: enqueue_def enqueueTask_def frame_of_def frame_payload_def Let_def split: prod.splits)
  have "pend (nodeQueue n) h = pend (nodeQueue n) (hq w) @ [(j, frame_payload X (draws w + 1) (frame_of X n a p b w))]"
    and "\<And>q'. q' \<noteq> nodeQueue n \<Longrightarrow> pend q' h = pend q' (hq w)"
    using honker_fifoD(1,2) [OF assms e] by blast+
  then show ?thesis by (auto simp: pending_def h nodeQueue_inj)
qed

lemma decode_frame_payload:
  assumes "gcm_ok X" "json_parse_string X (json_stringify X (frame_json f)) = Some (frame_json f)"
  shows "decodeFrame X (frame_payload X k f) = Inr (frame_json f)"
  using assms by (simp add: decodeFrame_def frame_payload_def decrypt_encrypt)

lemma claimTask_cases:
  assumes "honker_fifo X pend"
  shows "pending pend node w = [] \<Longrightarrow> fst (claimTask X node wk w) = Inr None"
    and "pending pend node w = p # ps \<Longrightarrow> pending pend node (snd (claimTask X node wk w)) = ps \<and>
       (case decodeFrame X p of Inl e \<Rightarrow> fst (claimTask X node wk w) = Inl e
        | Inr f \<Rightarrow> \<exists>j. fst (claimTask X node wk w) = Inr (Some (j, f)))"
proof -
  obtain c h where c: "hk_claimOne X (nodeQueue node) wk (hq w) = (c, h)" by fastforce
  have none: "c = None \<Longrightarrow> pend (nodeQueue node) (hq w) = []"
    and some: "\<And>j q. c = Some (j, q) \<Longrightarrow> pend (nodeQueue node) (hq w) = (j, q) # pend (nodeQueue node) h"
    using honker_fifoD(3,4) [OF assms] c by auto
  show "pending pend node w = [] \<Longrightarrow> fst (claimTask X node wk w) = Inr None"
    using none some c by (cases c) (auto simp: pending_def claimTask_def)
  assume p: "pending pend node w = p # ps"
  then obtain j where "c = Some (j, p)" and "map snd (pend (nodeQueue node) h) = ps"
    using none some by (cases c) (auto simp: pending_def)
  then show "pending pend node (snd (claimTask X node wk w)) = ps \<and>
       (case decodeFrame X p of Inl e \<Rightarrow> fst (claimTask X node wk w) = Inl e
        | Inr f \<Rightarrow> \<exists>j. fst (claimTask X node wk w) = Inr (Some (j, f)))"
    using c by (auto simp: claimTask_def pending_def split: sum.splits)
qed

end
