(* ===== verification/MailDefaults.thy ===== *)
theory MailDefaults
  imports Prelude
begin

text \<open>
  The built-in mail templates of src/controller/src/lib/settings.ts with the placeholders documented for each.
  A dash outside Latin-1 is written as a hyphen.
\<close>

definition text_of :: "string list \<Rightarrow> string" where
  "text_of ls = join [CHR 0x0A] ls"

definition WELCOME_EMAIL_VARS :: "(string \<times> string) list" where
  \<open>WELCOME_EMAIL_VARS =
    [(''name'', ''student'' @ [CHR 0x27] @ ''s full name (falls back to username)''),
     (''username'', ''login username''),
     (''password'', ''generated initial password''),
     (''host'', ''SSH host (node name)''),
     (''host_alias'', ''node alias (falls back to node name)''),
     (''port'', ''SSH port''),
     (''lab'', ''lab name''),
     (''node'', ''node name the lab runs on''),
     (''student_id'', ''student ID (may be blank)''),
     (''email'', ''student'' @ [CHR 0x27] @ ''s email address'')]\<close>

definition DEFAULT_WELCOME_SUBJECT :: string where
  \<open>DEFAULT_WELCOME_SUBJECT = ''Your access to lab {lab}''\<close>

definition DEFAULT_WELCOME_BODY :: string where
  \<open>DEFAULT_WELCOME_BODY = text_of
    [''Hello {name},'',
     [],
     ''You have been added to the lab "{lab}" on {node}. Connect over SSH:'',
     [],
     ''    ssh {username}@'' @ ''{host} -p {port}'',
     [],
     ''  Username: {username}'',
     ''  Password: {password}'',
     [],
     ''Your home directory contains:'',
     ''  ~                fast storage for working data'',
     ''  ~/cold-storage   slower storage for data you want to keep but rarely touch'',
     [],
     ''Please change your password after first login (run: passwd).'']\<close>

definition GPU_EMAIL_VARS :: "(string \<times> string) list" where
  \<open>GPU_EMAIL_VARS =
    [(''username'', ''owner'' @ [CHR 0x27] @ ''s login username''),
     (''pid'', ''process ID (may be blank)''),
     (''lab'', ''lab name (may be blank)''),
     (''node'', ''node the process runs on''),
     (''grace_minutes'', ''minutes before termination (warning email only)'')]\<close>

definition DEFAULT_GPU_WARN_SUBJECT :: string where
  \<open>DEFAULT_GPU_WARN_SUBJECT = ''Idle GPU process warning''\<close>

definition DEFAULT_GPU_WARN_BODY :: string where
  \<open>DEFAULT_GPU_WARN_BODY = text_of
    [''Hello {username},'',
     [],
     ''One of your processes (PID {pid}) on node {node} is holding GPU memory but is not using the GPU.'',
     [],
     ''If it stays idle it will be terminated in about {grace_minutes} minutes to free the GPU for others. If you still need it, start using the GPU again or contact an admin.'']\<close>

definition DEFAULT_GPU_KILL_SUBJECT :: string where
  \<open>DEFAULT_GPU_KILL_SUBJECT = ''Idle GPU process terminated''\<close>

definition DEFAULT_GPU_KILL_BODY :: string where
  \<open>DEFAULT_GPU_KILL_BODY = text_of
    [''Hello {username},'',
     [],
     ''Your idle process (PID {pid}) on node {node} was terminated because it held GPU memory without using the GPU.'',
     [],
     ''Please checkpoint long-running work and keep the GPU active, or ask an admin to whitelist your job.'']\<close>

definition REMOVAL_EMAIL_VARS :: "(string \<times> string) list" where
  \<open>REMOVAL_EMAIL_VARS =
    [(''lab'', ''lab name the student was removed from''),
     (''data_status'', ''sentence noting whether their data was deleted or retained'')]\<close>

definition DEFAULT_REMOVAL_SUBJECT :: string where
  \<open>DEFAULT_REMOVAL_SUBJECT = ''Removed from lab {lab}''\<close>

definition DEFAULT_REMOVAL_BODY :: string where
  \<open>DEFAULT_REMOVAL_BODY = ''You have been removed from the lab "{lab}". {data_status}''\<close>

definition REMOVAL_DATA_DELETED :: string where
  \<open>REMOVAL_DATA_DELETED = ''Your home and cold-storage data in this lab has been deleted.''\<close>

definition REMOVAL_DATA_RETAINED :: string where
  \<open>REMOVAL_DATA_RETAINED = ''Your data has been retained for now; contact an admin if you need it.''\<close>

definition QUOTA_EMAIL_VARS :: "(string \<times> string) list" where
  \<open>QUOTA_EMAIL_VARS =
    [(''lab'', ''lab name''),
     (''pool'', ''pool that crossed the threshold (fast/cold)''),
     (''pct'', ''percent of quota used''),
     (''used'', ''human-readable amount used''),
     (''quota'', ''human-readable quota total''),
     (''breakdown'', ''indented per-student usage lines for the pool'')]\<close>

definition DEFAULT_QUOTA_SUBJECT :: string where
  \<open>DEFAULT_QUOTA_SUBJECT = ''Lab {lab} is at {pct}% of its {pool} quota''\<close>

definition DEFAULT_QUOTA_BODY :: string where
  \<open>DEFAULT_QUOTA_BODY = text_of
    [''Lab "{lab}" has reached {pct}% of its {pool} storage quota ({used} of {quota}).'',
     [],
     ''Per-student usage on the {pool} pool:'',
     ''{breakdown}'',
     [],
     ''You may want to ask students to clean up unneeded data, or request a larger quota.'']\<close>

definition STUDENT_QUOTA_EMAIL_VARS :: "(string \<times> string) list" where
  \<open>STUDENT_QUOTA_EMAIL_VARS =
    [(''name'', ''user'' @ [CHR 0x27] @ ''s full name (falls back to username)''),
     (''username'', ''login username''),
     (''lab'', ''lab name''),
     (''node'', ''node name or alias''),
     (''pool'', ''fast or cold storage''),
     (''pct'', ''percentage of the user'' @ [CHR 0x27] @ ''s quota consumed''),
     (''used'', ''human-readable storage used''),
     (''quota'', ''human-readable user quota'')]\<close>

definition DEFAULT_STUDENT_QUOTA_SUBJECT :: string where
  \<open>DEFAULT_STUDENT_QUOTA_SUBJECT = ''[{lab}] Your {pool} storage is {pct}% full''\<close>

definition DEFAULT_STUDENT_QUOTA_BODY :: string where
  \<open>DEFAULT_STUDENT_QUOTA_BODY = text_of
    [''Hi {name},'',
     [],
     ''Your account {username} on {node} is using {used} of its {quota} {pool}-storage quota ({pct}%).'',
     [],
     ''Please remove files you no longer need or contact the lab administrator if the assignment needs to be reviewed. You can check current usage by running `labquota` after signing in.'']\<close>

definition USAGE_REPORT_EMAIL_VARS :: "(string \<times> string) list" where
  \<open>USAGE_REPORT_EMAIL_VARS =
    [(''name'', ''recipient'' @ [CHR 0x27] @ ''s name (student name/username, or PI name)''),
     (''lab'', ''lab name''),
     (''node'', ''node name the lab runs on''),
     (''report'', ''the plain-text storage-usage table'')]\<close>

definition DEFAULT_USAGE_REPORT_STUDENT_SUBJECT :: string where
  \<open>DEFAULT_USAGE_REPORT_STUDENT_SUBJECT = ''[{lab}] Please review your storage usage on {node}''\<close>

definition DEFAULT_USAGE_REPORT_STUDENT_BODY :: string where
  \<open>DEFAULT_USAGE_REPORT_STUDENT_BODY = text_of
    [''Hi {name},'',
     [],
     ''Your lab '' @ [CHR 0x27] @ ''{lab}'' @ [CHR 0x27] @ '' on node {node} is using a significant amount of storage. Please take a few minutes to review your files and remove anything you no longer need - old datasets, model checkpoints, caches, and build artifacts are the usual suspects.'',
     [],
     ''Current usage (your row is marked "(you)"):'',
     [],
     ''{report}'',
     [],
     ''HOME (fast) is your home directory on the fast pool; COLD (slow) is /cold-storage. You can check live usage anytime by running `labquota` inside the lab container.'',
     [],
     ''Thank you for helping keep the lab within its quota.'']\<close>

definition DEFAULT_USAGE_REPORT_PI_SUBJECT :: string where
  \<open>DEFAULT_USAGE_REPORT_PI_SUBJECT = ''[{lab}] Lab storage usage report - {node}''\<close>

definition DEFAULT_USAGE_REPORT_PI_BODY :: string where
  \<open>DEFAULT_USAGE_REPORT_PI_BODY = text_of
    [''Hi {name},'',
     [],
     ''Here is the current storage usage report for your lab '' @ [CHR 0x27] @ ''{lab}'' @ [CHR 0x27] @ '' on node {node}. Please ask your group to clean up files they no longer need - old datasets, model checkpoints, caches, and build artifacts are the usual suspects.'',
     [],
     ''{report}'',
     [],
     ''Per-student numbers come from the most recent nightly scan; lab totals are live. Students can check their own usage anytime by running `labquota` inside the lab container.'']\<close>

definition PLACEMENT_COMPLETE_EMAIL_VARS :: "(string \<times> string) list" where
  \<open>PLACEMENT_COMPLETE_EMAIL_VARS =
    [(''name'', ''PI'' @ [CHR 0x27] @ ''s name (falls back to username)''),
     (''lab'', ''lab name''),
     (''node'', ''node name or alias''),
     (''usernames'', ''all verified login usernames, one per line''),
     (''fast_quota'', ''placement fast-storage quota''),
     (''cold_quota'', ''placement cold-storage quota or owner-managed status''),
     (''student_fast_quota'', ''per-user fast quota or shared status''),
     (''student_cold_quota'', ''per-user cold quota or shared/owner-managed status'')]\<close>

definition DEFAULT_PLACEMENT_COMPLETE_SUBJECT :: string where
  \<open>DEFAULT_PLACEMENT_COMPLETE_SUBJECT = ''[{lab}] Node setup complete - {node}''\<close>

definition DEFAULT_PLACEMENT_COMPLETE_BODY :: string where
  \<open>DEFAULT_PLACEMENT_COMPLETE_BODY = text_of
    [''Hi {name},'',
     [],
     ''Setup for lab "{lab}" on node {node} is complete. The node agent successfully signed in over SSH with every initial credential before this message was sent.'',
     [],
     ''Verified usernames:'',
     ''{usernames}'',
     [],
     ''Current quota assignment:'',
     ''  Fast storage: {fast_quota}'',
     ''  Cold storage: {cold_quota}'',
     ''  Per-user fast: {student_fast_quota}'',
     ''  Per-user cold: {student_cold_quota}'']\<close>

definition DEFAULT_TEST_SUBJECT :: string where
  \<open>DEFAULT_TEST_SUBJECT = ''Lab Manager test email''\<close>

definition DEFAULT_TEST_BODY :: string where
  \<open>DEFAULT_TEST_BODY = ''This is a test email from the Lab Manager controller. SMTP is configured correctly.''\<close>

definition DEFAULT_EMAIL_SIGNATURE_TEXT :: string where
  \<open>DEFAULT_EMAIL_SIGNATURE_TEXT = text_of
    [''Ningxi Cheng, Graduate Research Assistant'',
     ''School of Computing | Ph.D. Student'',
     ''edwardcheng@uga.edu'',
     ''University of Georgia'']\<close>

end
