(* ===== verification/Settings.thy ===== *)
theory Settings
  imports Queue MailDefaults
begin

text \<open>
  The operational settings (src/controller/src/lib/settings.ts): a key/value table of JSON texts,
  read through \<open>getSetting\<close> with the built-in defaults as fallback and written by \<open>setSetting\<close>; the
  two credential keys and the password of every ranked SMTP server are encrypted at rest.
\<close>

definition TIB :: int where
  "TIB = 1024 ^ 4"

definition ENCRYPTED_KEYS :: "string list" where
  "ENCRYPTED_KEYS = [''smtpPass'', ''webdavPass'']"

definition DEFAULT_SETTINGS :: "(string \<times> json) list" where
  "DEFAULT_SETTINGS =
    [(''fastQuotaDefaultBytes'', j_int (2 * TIB)), (''slowQuotaDefaultBytes'', j_int (3 * TIB)),
     (''sshPortStart'', j_int 50000), (''sshPortEnd'', j_int 51000),
     (''usageScanEnabled'', JBool True), (''usageScanHour'', j_int 0), (''usageScanTimezone'', JStr ''UTC''),
     (''smtpHost'', JStr []), (''smtpPort'', j_int 587), (''smtpUser'', JStr []), (''smtpPass'', JStr []),
     (''smtpFrom'', JStr []), (''smtpSecure'', JBool False), (''smtpConfigs'', JArr []),
     (''emailSignatureText'', JStr DEFAULT_EMAIL_SIGNATURE_TEXT),
     (''welcomeEmailSubject'', JStr DEFAULT_WELCOME_SUBJECT), (''welcomeEmailBody'', JStr DEFAULT_WELCOME_BODY),
     (''gpuEnabled'', JBool False), (''gpuUtilThreshold'', j_int 5), (''gpuIdleMinutes'', j_int 20),
     (''gpuGraceMinutes'', j_int 10), (''gpuImmediate'', JBool False),
     (''gpuWhitelistUsers'', JStr []), (''gpuWhitelistLabs'', JStr []),
     (''gpuWarnEmailSubject'', JStr DEFAULT_GPU_WARN_SUBJECT), (''gpuWarnEmailBody'', JStr DEFAULT_GPU_WARN_BODY),
     (''gpuKillEmailSubject'', JStr DEFAULT_GPU_KILL_SUBJECT), (''gpuKillEmailBody'', JStr DEFAULT_GPU_KILL_BODY),
     (''removalEmailSubject'', JStr DEFAULT_REMOVAL_SUBJECT), (''removalEmailBody'', JStr DEFAULT_REMOVAL_BODY),
     (''quotaEmailSubject'', JStr DEFAULT_QUOTA_SUBJECT), (''quotaEmailBody'', JStr DEFAULT_QUOTA_BODY),
     (''studentQuotaAlertsEnabled'', JBool True), (''studentQuotaAlertPct'', j_int 50),
     (''studentQuotaNotifyAdmins'', JBool False),
     (''studentQuotaEmailSubject'', JStr DEFAULT_STUDENT_QUOTA_SUBJECT), (''studentQuotaEmailBody'', JStr DEFAULT_STUDENT_QUOTA_BODY),
     (''usageReportStudentSubject'', JStr DEFAULT_USAGE_REPORT_STUDENT_SUBJECT),
     (''usageReportStudentBody'', JStr DEFAULT_USAGE_REPORT_STUDENT_BODY),
     (''usageReportPiSubject'', JStr DEFAULT_USAGE_REPORT_PI_SUBJECT), (''usageReportPiBody'', JStr DEFAULT_USAGE_REPORT_PI_BODY),
     (''placementCompleteEmailSubject'', JStr DEFAULT_PLACEMENT_COMPLETE_SUBJECT),
     (''placementCompleteEmailBody'', JStr DEFAULT_PLACEMENT_COMPLETE_BODY),
     (''testEmailSubject'', JStr DEFAULT_TEST_SUBJECT), (''testEmailBody'', JStr DEFAULT_TEST_BODY),
     (''alertsEnabled'', JBool True), (''alertLevel'', JStr ''ERROR''), (''alertDedupMinutes'', j_int 15),
     (''nodeOfflineGraceSeconds'', j_int 60), (''logRetentionDays'', j_int 30), (''logMaxEntries'', j_int 0),
     (''logMaxSizeMb'', j_int 0), (''quotaAlertPct'', j_int 90),
     (''webdavUrl'', JStr []), (''webdavUser'', JStr []), (''webdavPass'', JStr []),
     (''webdavBaseDir'', JStr ''/backups''),
     (''backupEnabled'', JBool False), (''backupIntervalHours'', j_int 24), (''backupAnchorHour'', j_int 2),
     (''backupAnchorMinute'', j_int 0), (''backupTimezone'', JStr ''America/New_York''),
     (''backupKeepRecent'', j_int 7), (''backupKeepWeekly'', j_int 4), (''backupKeepMonthly'', j_int 12),
     (''backupKeepYearly'', j_int 3), (''backupLastRun'', j_int 0), (''backupLastStatus'', JStr []),
     (''backupLastError'', JStr []), (''backupLastName'', JStr []),
     (''scrubEnabled'', JBool False), (''scrubIntervalDays'', j_int 30), (''scrubHour'', j_int 2),
     (''scrubTimezone'', JStr ''UTC'')]"

definition default_setting :: "string \<Rightarrow> json" where
  "default_setting k = (case map_of DEFAULT_SETTINGS k of Some v \<Rightarrow> v | None \<Rightarrow> JNull)"

text \<open>\<open>{...config, k: v}\<close>: a spread of anything but an object contributes no fields.\<close>

definition spread_set :: "string \<Rightarrow> json \<Rightarrow> json \<Rightarrow> json" where
  "spread_set k v config = (case config of JObj kvs \<Rightarrow> JObj (AList.update k v kvs) | _ \<Rightarrow> JObj [(k, v)])"

definition read_config :: "'h ext \<Rightarrow> json \<Rightarrow> json" where
  "read_config X config = spread_set ''pass''
     (JStr (case jstr (jget ''pass'' config) of Some p \<Rightarrow> decryptSecret X p | None \<Rightarrow> [])) config"

definition getSetting :: "'h ext \<Rightarrow> string \<Rightarrow> 'h world \<Rightarrow> json" where
  "getSetting X key w =
     (case map_of (settings w) key of
        None \<Rightarrow> default_setting key
      | Some text \<Rightarrow>
          (case json_parse text of
             None \<Rightarrow> default_setting key
           | Some (JArr cs) \<Rightarrow> if key = ''smtpConfigs'' then JArr (map (read_config X) cs) else JArr cs
           | Some (JStr s) \<Rightarrow> if key \<in> set ENCRYPTED_KEYS then JStr (decryptSecret X s) else JStr s
           | Some v \<Rightarrow> v))"

text \<open>
  \<open>encryptSecret(config.pass)\<close> is called on every ranked server in turn; a \<open>pass\<close> that is not a
  string makes the cipher throw.
\<close>

fun write_configs :: "'h ext \<Rightarrow> nat \<Rightarrow> json list \<Rightarrow> json list option" where
  "write_configs X k [] = Some []"
| "write_configs X k (c # cs) =
     (case jstr (jget ''pass'' c) of
        None \<Rightarrow> None
      | Some p \<Rightarrow> map_option (\<lambda>r. spread_set ''pass'' (JStr (encryptSecret X k p)) c # r)
          (write_configs X (Suc k) cs))"

definition store_setting :: "string \<Rightarrow> json \<Rightarrow> 'h world \<Rightarrow> 'h world" where
  "store_setting key v w = w\<lparr>settings := AList.update key (json_text v) (settings w)\<rparr>"

definition setSetting :: "'h ext \<Rightarrow> string \<Rightarrow> json \<Rightarrow> (unit, 'h) op" where
  "setSetting X key value w =
     (case value of
        JArr cs \<Rightarrow>
          (if key = ''smtpConfigs'' then
             (case write_configs X (draws w) cs of
                None \<Rightarrow> (Inl JsTypeError, w)
              | Some cs' \<Rightarrow> (Inr (), (store_setting key (JArr cs') w)\<lparr>draws := draws w + length cs\<rparr>))
           else (Inr (), store_setting key value w))
      | JStr s \<Rightarrow>
          (if key \<in> set ENCRYPTED_KEYS
           then (Inr (), (store_setting key (JStr (encryptSecret X (draws w) s)) w)\<lparr>draws := draws w + 1\<rparr>)
           else (Inr (), store_setting key value w))
      | _ \<Rightarrow> (Inr (), store_setting key value w))"

text \<open>Reads at the type the \<open>Settings\<close> interface declares.\<close>

definition setting_num :: "'h ext \<Rightarrow> string \<Rightarrow> 'h world \<Rightarrow> rat" where
  "setting_num X key w = (case getSetting X key w of JNum r \<Rightarrow> r | _ \<Rightarrow> 0)"

definition setting_int :: "'h ext \<Rightarrow> string \<Rightarrow> 'h world \<Rightarrow> int" where
  "setting_int X key w = \<lfloor>setting_num X key w\<rfloor>"

definition setting_bool :: "'h ext \<Rightarrow> string \<Rightarrow> 'h world \<Rightarrow> bool" where
  "setting_bool X key w = truthy (getSetting X key w)"

definition setting_str :: "'h ext \<Rightarrow> string \<Rightarrow> 'h world \<Rightarrow> string" where
  "setting_str X key w = (case getSetting X key w of JStr s \<Rightarrow> s | _ \<Rightarrow> [])"

section \<open>Round trip\<close>

lemma jget_spread_set [simp]:
  "jget k (spread_set k v c) = Some v"
  by (cases c) (auto simp: spread_set_def update_conv)

lemma spread_set_twice: "spread_set k u (spread_set k v c) = spread_set k u c"
proof -
  have "AList.update k u (AList.update k v kvs) = AList.update k u kvs" for kvs :: "(string \<times> json) list"
    by (induction kvs) auto
  then show ?thesis by (cases c) (auto simp: spread_set_def)
qed

lemma spread_set_same:
  assumes "jget k c = Some v" shows "spread_set k v c = c"
proof (cases c)
  case (JObj kvs)
  have "map_of kvs k = Some v \<Longrightarrow> AList.update k v kvs = kvs"
    by (induction kvs) auto
  with JObj assms show ?thesis by (simp add: spread_set_def)
qed (use assms in auto)

lemma stringified_spread_set: "stringified (spread_set k v c) = spread_set k (stringified v) (stringified c)"
proof -
  have "map (\<lambda>(k, v). (k, stringified v)) (AList.update k v kvs) =
      AList.update k (stringified v) (map (\<lambda>(k, v). (k, stringified v)) kvs)" for kvs
    by (induction kvs) auto
  then show ?thesis by (cases c) (auto simp: spread_set_def)
qed

lemma stringified_configs:
  "write_configs X k cs = Some cs' \<Longrightarrow> map stringified cs = cs \<Longrightarrow> map stringified cs' = cs'"
  by (induction cs arbitrary: k cs') (auto simp: stringified_spread_set split: option.splits)

lemma read_write_configs:
  assumes "gcm_ok X"
  shows "write_configs X k cs = Some cs' \<Longrightarrow> map (read_config X) cs' = cs"
proof (induction cs arbitrary: k cs')
  case (Cons c cs)
  then obtain p r where p: "jstr (jget ''pass'' c) = Some p" and r: "write_configs X (Suc k) cs = Some r"
    and cs': "cs' = spread_set ''pass'' (JStr (encryptSecret X k p)) c # r"
    by (auto split: option.splits)
  have "jget ''pass'' c = Some (JStr p)"
    using p by (cases "jget ''pass'' c" rule: jstr.cases) auto
  then have "read_config X (spread_set ''pass'' (JStr (encryptSecret X k p)) c) = c"
    by (simp add: read_config_def decrypt_encrypt [OF assms] spread_set_twice spread_set_same)
  with Cons.IH [OF r] cs' show ?case by simp
qed simp

lemma map_of_store_setting:
  "map_of (settings (store_setting key v w)) = (map_of (settings w))(key \<mapsto> json_text v)"
  by (simp add: store_setting_def update_conv')

lemma setSetting_writes:
  assumes "setSetting X key value w = (Inr (), w')"
  shows "\<exists>v. map_of (settings w') = (map_of (settings w))(key \<mapsto> json_text v)"
proof (cases "value")
  case (JArr cs)
  with assms show ?thesis
    by (cases "key = ''smtpConfigs''"; cases "write_configs X (draws w) cs")
       (auto simp: setSetting_def simp flip: map_of_store_setting)
next
  case (JStr s)
  with assms show ?thesis
    by (cases "key \<in> set ENCRYPTED_KEYS") (auto simp: setSetting_def simp flip: map_of_store_setting)
qed (use assms in \<open>auto simp: setSetting_def simp flip: map_of_store_setting\<close>)

lemma get_set_other:
  assumes "setSetting X key value w = (Inr (), w')" "key' \<noteq> key"
  shows "getSetting X key' w' = getSetting X key' w"
proof -
  obtain v where "map_of (settings w') = (map_of (settings w))(key \<mapsto> json_text v)"
    using setSetting_writes [OF assms(1)] by blast
  with assms(2) show ?thesis by (simp add: getSetting_def)
qed

lemma get_set_same:
  assumes "gcm_ok X" "setSetting X key value w = (Inr (), w')" "stringified value = value"
  shows "getSetting X key w' = value"
proof (cases "value")
  case (JArr cs)
  have fin: "map stringified cs = cs" using assms(3) JArr by simp
  show ?thesis
  proof (cases "key = ''smtpConfigs''")
    case True
    with assms(2) JArr obtain cs' where c: "write_configs X (draws w) cs = Some cs'"
      and w': "w' = (store_setting key (JArr cs') w)\<lparr>draws := draws w + length cs\<rparr>"
      by (auto simp: setSetting_def split: option.splits)
    with read_write_configs [OF assms(1) c] stringified_configs [OF c fin] True JArr show ?thesis
      by (simp add: getSetting_def map_of_store_setting del: map_map)
  next
    case False
    with assms(2) JArr fin show ?thesis by (auto simp: setSetting_def getSetting_def map_of_store_setting)
  qed
qed (use assms in \<open>auto simp: setSetting_def getSetting_def map_of_store_setting decrypt_encrypt ENCRYPTED_KEYS_def
        split: if_splits option.splits\<close>)

end
