(* ===== verification/Schema.thy ===== *)
theory Schema
  imports Settings
begin

text \<open>
  The integrity constraints the schema of src/controller/src/lib/db.ts declares on the core tables
  (nodes, students, labs, rosters, placements, placement members): primary keys, UNIQUE indexes,
  the UID range trigger and foreign keys. An INSERT whose constraint is already guarded by the
  surrounding code is modelled as a plain append; that every operation keeps \<open>schema_ok\<close> shows that
  SQLite would not have rejected it.
\<close>

definition member_key :: "lab_member_row \<Rightarrow> nat \<times> nat" where
  "member_key m = (m_lab_id m, m_student_id m)"

definition pm_key :: "placement_member_row \<Rightarrow> nat \<times> nat" where
  "pm_key r = (pm_placement_id r, pm_student_id r)"

definition place_key :: "placement_row \<Rightarrow> nat \<times> nat" where
  "place_key p = (p_lab_id p, p_node_id p)"

definition port_key :: "placement_row \<Rightarrow> nat \<times> int" where
  "port_key p = (p_node_id p, p_ssh_port p)"

definition pk_all :: "'h world \<Rightarrow> bool" where
  "pk_all w \<longleftrightarrow> pk_ok n_id (nodes w) \<and> pk_ok s_id (students w) \<and> pk_ok l_id (labs w) \<and>
     pk_ok m_id (lab_members w) \<and> pk_ok p_id (lab_placements w) \<and> pk_ok pm_id (placement_members w)"

definition uniq_all :: "'h world \<Rightarrow> bool" where
  "uniq_all w \<longleftrightarrow> distinct (map n_name (rows (nodes w))) \<and> distinct (map l_name (rows (labs w))) \<and>
     distinct (map s_username (rows (students w))) \<and> distinct (map s_linux_uid (rows (students w))) \<and>
     distinct (List.map_filter s_student_id (rows (students w))) \<and>
     distinct (map member_key (rows (lab_members w))) \<and>
     distinct (map place_key (rows (lab_placements w))) \<and> distinct (map port_key (rows (lab_placements w))) \<and>
     distinct (map pm_key (rows (placement_members w)))"

definition uid_range :: "'h world \<Rightarrow> bool" where
  "uid_range w \<longleftrightarrow> (\<forall>u \<in> s_linux_uid ` set (rows (students w)). 10000 \<le> u \<and> u \<le> 59999)"

definition fk_all :: "'h world \<Rightarrow> bool" where
  "fk_all w \<longleftrightarrow>
     (\<forall>x \<in> n_cold_owner_node_id ` set (rows (nodes w)). \<forall>i. x = Some i \<longrightarrow> i \<in> n_id ` set (rows (nodes w))) \<and>
     (\<forall>x \<in> l_pi_student_id ` set (rows (labs w)). \<forall>i. x = Some i \<longrightarrow> i \<in> s_id ` set (rows (students w))) \<and>
     (\<forall>x \<in> member_key ` set (rows (lab_members w)).
        fst x \<in> l_id ` set (rows (labs w)) \<and> snd x \<in> s_id ` set (rows (students w))) \<and>
     (\<forall>x \<in> place_key ` set (rows (lab_placements w)).
        fst x \<in> l_id ` set (rows (labs w)) \<and> snd x \<in> n_id ` set (rows (nodes w))) \<and>
     (\<forall>x \<in> pm_key ` set (rows (placement_members w)).
        fst x \<in> p_id ` set (rows (lab_placements w)) \<and> snd x \<in> s_id ` set (rows (students w)))"

definition schema_ok :: "'h world \<Rightarrow> bool" where
  "schema_ok w \<longleftrightarrow> pk_all w \<and> uniq_all w \<and> uid_range w \<and> fk_all w"

lemmas schema_defs = schema_ok_def pk_all_def uniq_all_def uid_range_def fk_all_def

lemma schema_frame:
  assumes "nodes w' = nodes w" "students w' = students w" "labs w' = labs w"
    "lab_members w' = lab_members w" "lab_placements w' = lab_placements w"
    "placement_members w' = placement_members w"
  shows "schema_ok w' = schema_ok w"
  by (simp add: schema_defs assms)

lemma schema_frames [frame_simps, simp]:
  "schema_ok (audit a b c d w) = schema_ok w"
  "schema_ok (send_mail m w) = schema_ok w"
  "schema_ok (enqueue X n act p r w) = schema_ok w"
  "schema_ok (snd (markTaskState n u s res e ca w)) = schema_ok w"
  by (rule schema_frame; simp)+

section \<open>Rows by key\<close>

lemma schema_pk:
  assumes "schema_ok w"
  shows "pk_ok n_id (nodes w)" "pk_ok s_id (students w)" "pk_ok l_id (labs w)"
    "pk_ok m_id (lab_members w)" "pk_ok p_id (lab_placements w)" "pk_ok pm_id (placement_members w)"
  using assms by (simp_all add: schema_ok_def pk_all_def)

lemma schema_placement_refs:
  assumes "schema_ok w" "p \<in> set (rows (lab_placements w))"
  shows "p_lab_id p \<in> l_id ` set (rows (labs w))" "p_node_id p \<in> n_id ` set (rows (nodes w))"
  using assms unfolding schema_ok_def fk_all_def place_key_def by force+

lemma schema_member_refs:
  assumes "schema_ok w" "m \<in> set (rows (lab_members w))"
  shows "m_lab_id m \<in> l_id ` set (rows (labs w))" "m_student_id m \<in> s_id ` set (rows (students w))"
  using assms unfolding schema_ok_def fk_all_def member_key_def by force+

lemma schema_pm_refs:
  assumes "schema_ok w" "r \<in> set (rows (placement_members w))"
  shows "pm_placement_id r \<in> p_id ` set (rows (lab_placements w))"
    "pm_student_id r \<in> s_id ` set (rows (students w))"
  using assms unfolding schema_ok_def fk_all_def pm_key_def by force+

section \<open>Updates that write no key column\<close>

lemma schema_node_update [inv_intros]:
  assumes "schema_ok w" "\<And>n. n_id (f n) = n_id n" "\<And>n. n_name (f n) = n_name n"
    "\<And>n. n_cold_owner_node_id (f n) = n_cold_owner_node_id n"
  shows "schema_ok (w\<lparr>nodes := tbl_update P f (nodes w)\<rparr>)"
  using assms unfolding schema_defs
  by (simp add: pk_ok_update col_tbl_update colset_tbl_update del: set_map ball_simps)

lemma schema_student_update [inv_intros]:
  assumes "schema_ok w" "\<And>s. s_id (f s) = s_id s" "\<And>s. s_username (f s) = s_username s"
    "\<And>s. s_linux_uid (f s) = s_linux_uid s" "\<And>s. s_student_id (f s) = s_student_id s"
  shows "schema_ok (w\<lparr>students := tbl_update P f (students w)\<rparr>)"
proof -
  have "List.map_filter s_student_id (rows (tbl_update P f (students w)))
      = List.map_filter s_student_id (rows (students w))"
    using assms(5) by (simp add: List.map_filter_def rows_tbl_update filter_map comp_def if_distrib cong: if_cong)
  with assms show ?thesis unfolding schema_defs
    by (simp add: pk_ok_update col_tbl_update colset_tbl_update del: set_map ball_simps)
qed

lemma schema_lab_update [inv_intros]:
  assumes "schema_ok w" "\<And>l. l_id (f l) = l_id l" "\<And>l. l_name (f l) = l_name l"
    "\<And>l. l_pi_student_id (f l) = l_pi_student_id l"
  shows "schema_ok (w\<lparr>labs := tbl_update P f (labs w)\<rparr>)"
  using assms unfolding schema_defs
  by (simp add: pk_ok_update col_tbl_update colset_tbl_update del: set_map ball_simps)

lemma schema_placement_update [inv_intros]:
  assumes "schema_ok w" "\<And>p. p_id (f p) = p_id p" "\<And>p. place_key (f p) = place_key p"
    "\<And>p. port_key (f p) = port_key p"
  shows "schema_ok (w\<lparr>lab_placements := tbl_update P f (lab_placements w)\<rparr>)"
  using assms unfolding schema_defs
  by (simp add: pk_ok_update col_tbl_update colset_tbl_update del: set_map ball_simps)

lemma schema_pm_update [inv_intros]:
  assumes "schema_ok w" "\<And>r. pm_id (f r) = pm_id r" "\<And>r. pm_key (f r) = pm_key r"
  shows "schema_ok (w\<lparr>placement_members := tbl_update P f (placement_members w)\<rparr>)"
  using assms unfolding schema_defs
  by (simp add: pk_ok_update col_tbl_update colset_tbl_update del: set_map ball_simps)

section \<open>Inserts\<close>

lemma schema_node_insert [inv_intros]:
  assumes "schema_ok w" "\<And>i. n_id (mk i) = i" "\<And>i. n_name (mk i) = nm"
    "\<And>i. n_cold_owner_node_id (mk i) = None" "nm \<notin> n_name ` set (rows (nodes w))"
  shows "schema_ok (w\<lparr>nodes := tbl_insert mk (nodes w)\<rparr>)"
  using assms unfolding schema_defs by (auto simp: pk_ok_insert)

lemma schema_student_insert [inv_intros]:
  assumes "schema_ok w" "\<And>i. s_id (mk i) = i" "\<And>i. s_username (mk i) = u" "\<And>i. s_linux_uid (mk i) = uid"
    "\<And>i. s_student_id (mk i) = sid"
    "u \<notin> s_username ` set (rows (students w))" "uid \<notin> s_linux_uid ` set (rows (students w))"
    "10000 \<le> uid" "uid \<le> 59999" "\<And>x. sid = Some x \<Longrightarrow> sid \<notin> s_student_id ` set (rows (students w))"
  shows "schema_ok (w\<lparr>students := tbl_insert mk (students w)\<rparr>)"
proof -
  have mf: "List.map_filter s_student_id (xs @ [mk i]) = List.map_filter s_student_id xs @ (case sid of None \<Rightarrow> [] | Some x \<Rightarrow> [x])"
    for xs i using assms(5) [of i] by (induction xs) (auto simp: List.map_filter_simps split: option.splits)
  have "set (List.map_filter s_student_id xs) = {x. Some x \<in> s_student_id ` set xs}" for xs
    by (induction xs) (auto simp: List.map_filter_simps split: option.splits)
  then have "distinct (List.map_filter s_student_id (rows (students w) @ [mk i]))" for i
    using assms(1,10) by (auto simp: mf schema_ok_def uniq_all_def split: option.splits)
  with assms show ?thesis unfolding schema_defs by (auto simp: pk_ok_insert)
qed

lemma schema_lab_insert [inv_intros]:
  assumes "schema_ok w" "\<And>i. l_id (mk i) = i" "\<And>i. l_name (mk i) = nm" "\<And>i. l_pi_student_id (mk i) = None"
    "nm \<notin> l_name ` set (rows (labs w))"
  shows "schema_ok (w\<lparr>labs := tbl_insert mk (labs w)\<rparr>)"
  using assms unfolding schema_defs by (auto simp: pk_ok_insert)

lemma schema_member_insert [inv_intros]:
  assumes "schema_ok w" "\<And>i. m_id (mk i) = i" "\<And>i. member_key (mk i) = (l, s)"
    "l \<in> l_id ` set (rows (labs w))" "s \<in> s_id ` set (rows (students w))"
    "(l, s) \<notin> member_key ` set (rows (lab_members w))"
  shows "schema_ok (w\<lparr>lab_members := tbl_insert mk (lab_members w)\<rparr>)"
  using assms unfolding schema_defs by (auto simp: pk_ok_insert)

lemma schema_placement_insert [inv_intros]:
  assumes "schema_ok w" "\<And>i. p_id (mk i) = i" "\<And>i. place_key (mk i) = (l, n)" "\<And>i. port_key (mk i) = (n, port)"
    "l \<in> l_id ` set (rows (labs w))" "n \<in> n_id ` set (rows (nodes w))"
    "(l, n) \<notin> place_key ` set (rows (lab_placements w))" "(n, port) \<notin> port_key ` set (rows (lab_placements w))"
  shows "schema_ok (w\<lparr>lab_placements := tbl_insert mk (lab_placements w)\<rparr>)"
  using assms unfolding schema_defs by (auto simp: pk_ok_insert)

lemma schema_pm_insert [inv_intros]:
  assumes "schema_ok w" "\<And>i. pm_id (mk i) = i" "\<And>i. pm_key (mk i) = (p, s)"
    "p \<in> p_id ` set (rows (lab_placements w))" "s \<in> s_id ` set (rows (students w))"
    "(p, s) \<notin> pm_key ` set (rows (placement_members w))"
  shows "schema_ok (w\<lparr>placement_members := tbl_insert mk (placement_members w)\<rparr>)"
  using assms unfolding schema_defs by (auto simp: pk_ok_insert)

section \<open>Deletes\<close>

lemma schema_member_delete [inv_intros]:
  "schema_ok w \<Longrightarrow> schema_ok (w\<lparr>lab_members := tbl_delete P (lab_members w)\<rparr>)"
  unfolding schema_defs by (auto simp: pk_ok_delete distinct_map_filter)

lemma schema_pm_delete [inv_intros]:
  "schema_ok w \<Longrightarrow> schema_ok (w\<lparr>placement_members := tbl_delete P (placement_members w)\<rparr>)"
  unfolding schema_defs by (auto simp: pk_ok_delete distinct_map_filter)

lemma delete_placements_tables [simp]:
  "nodes (delete_placements P w) = nodes w" "students (delete_placements P w) = students w"
  "labs (delete_placements P w) = labs w" "lab_members (delete_placements P w) = lab_members w"
  "lab_placements (delete_placements P w) = tbl_delete P (lab_placements w)"
  "placement_members (delete_placements P w) =
     tbl_delete (\<lambda>r. pm_placement_id r \<in> p_id ` set (tbl_all P (lab_placements w))) (placement_members w)"
  "task_log (delete_placements P w) = task_log w" "hq (delete_placements P w) = hq w"
  "draws (delete_placements P w) = draws w" "clock (delete_placements P w) = clock w"
  "settings (delete_placements P w) = settings w" "outbox (delete_placements P w) = outbox w"
  by (simp_all add: delete_placements_def Let_def)

lemma schema_delete_placements [inv_intros]:
  assumes "schema_ok w" shows "schema_ok (delete_placements P w)"
proof -
  have "pm_placement_id r \<in> p_id ` {p \<in> set (rows (lab_placements w)). \<not> P p}"
    if "r \<in> set (rows (placement_members w))"
      "pm_placement_id r \<notin> p_id ` set (tbl_all P (lab_placements w))" for r
    using schema_pm_refs(1) [OF assms that(1)] that(2) by (auto simp: tbl_all_def)
  with assms show ?thesis unfolding schema_defs
    by (auto simp: pk_ok_delete distinct_map_filter pm_key_def)
qed

lemma delete_lab_tables [simp]:
  "nodes (delete_lab i w) = nodes w" "students (delete_lab i w) = students w"
  "labs (delete_lab i w) = tbl_delete (\<lambda>l. l_id l = i) (labs w)"
  "lab_members (delete_lab i w) = tbl_delete (\<lambda>m. m_lab_id m = i) (lab_members w)"
  "lab_placements (delete_lab i w) = tbl_delete (\<lambda>p. p_lab_id p = i) (lab_placements w)"
  "placement_members (delete_lab i w) =
     tbl_delete (\<lambda>r. pm_placement_id r \<in> p_id ` set (tbl_all (\<lambda>p. p_lab_id p = i) (lab_placements w))) (placement_members w)"
  "task_log (delete_lab i w) = task_log w" "hq (delete_lab i w) = hq w"
  "draws (delete_lab i w) = draws w" "clock (delete_lab i w) = clock w"
  "settings (delete_lab i w) = settings w" "outbox (delete_lab i w) = outbox w"
  by (simp_all add: delete_lab_def Let_def)

lemma schema_delete_lab [inv_intros]:
  assumes "schema_ok w" shows "schema_ok (delete_lab i w)"
proof -
  have "pm_placement_id r \<in> p_id ` {p \<in> set (rows (lab_placements w)). p_lab_id p \<noteq> i}"
    if "r \<in> set (rows (placement_members w))"
      "pm_placement_id r \<notin> p_id ` set (tbl_all (\<lambda>p. p_lab_id p = i) (lab_placements w))" for r
    using schema_pm_refs(1) [OF assms that(1)] that(2) by (auto simp: tbl_all_def)
  with assms show ?thesis unfolding schema_defs
    by (auto simp: pk_ok_delete distinct_map_filter pm_key_def member_key_def place_key_def)
qed

lemma schema_delete_student [inv_intros]:
  assumes "schema_ok w" shows "schema_ok (snd (delete_student i w))"
proof -
  have sid: "distinct (List.map_filter f (filter P xs))" if "distinct (List.map_filter f xs)"
    for f :: "student_row \<Rightarrow> string option" and P xs
  proof -
    have "set (List.map_filter f (filter P ys)) \<subseteq> set (List.map_filter f ys)" for ys
      by (induction ys) (auto simp: List.map_filter_simps split: option.splits)
    with that show ?thesis
      by (induction xs) (auto simp: List.map_filter_simps split: option.splits)
  qed
  show ?thesis
  proof (cases "\<exists>l \<in> set (rows (labs w)). l_pi_student_id l = Some i")
    case False
    have "x \<in> s_id ` {s \<in> set (rows (students w)). s_id s \<noteq> i}"
      if "l \<in> set (rows (labs w))" "l_pi_student_id l = Some x" for l x
    proof -
      have "x \<in> s_id ` set (rows (students w))" using assms that unfolding schema_ok_def fk_all_def by fastforce
      moreover have "x \<noteq> i" using False that by auto
      ultimately show ?thesis by auto
    qed
    with assms sid False show ?thesis unfolding schema_defs delete_student_def
      by (auto simp: pk_ok_delete distinct_map_filter pm_key_def member_key_def)
  qed (simp add: delete_student_def assms)
qed

lemma schema_delete_node [inv_intros]:
  assumes "schema_ok w" shows "schema_ok (snd (delete_node i w))"
proof (cases "(\<exists>p \<in> set (rows (lab_placements w)). p_node_id p = i) \<or>
    (\<exists>n \<in> set (rows (nodes w)). n_cold_owner_node_id n = Some i \<and> n_id n \<noteq> i)")
  case False
  let ?keep = "n_id ` {n \<in> set (rows (nodes w)). n_id n \<noteq> i}"
  have "x \<in> ?keep" if "n \<in> set (rows (nodes w))" "n_cold_owner_node_id n = Some x" "n_id n \<noteq> i" for n x
  proof -
    have "x \<in> n_id ` set (rows (nodes w))" using assms that(1,2) unfolding schema_ok_def fk_all_def by fastforce
    moreover have "x \<noteq> i" using False that by auto
    ultimately show ?thesis by auto
  qed
  moreover have "p_node_id p \<in> ?keep" if "p \<in> set (rows (lab_placements w))" for p
    using schema_placement_refs(2) [OF assms that] False that by auto
  ultimately show ?thesis using assms False unfolding schema_defs delete_node_def
    by (auto simp: pk_ok_delete distinct_map_filter place_key_def)
qed (simp add: delete_node_def assms)

text \<open>An UPDATE that moves the cold owner of the selected nodes to \<open>x\<close>.\<close>

lemma schema_node_owner_update [inv_intros]:
  assumes "schema_ok w" "\<And>n. n_id (f n) = n_id n" "\<And>n. n_name (f n) = n_name n"
    "\<And>n. n_cold_owner_node_id (f n) = x" "\<And>i. x = Some i \<Longrightarrow> i \<in> n_id ` set (rows (nodes w))"
  shows "schema_ok (w\<lparr>nodes := tbl_update P f (nodes w)\<rparr>)"
proof -
  have ids: "n_id ` set (rows (tbl_update P f (nodes w))) = n_id ` set (rows (nodes w))"
    by (rule colset_tbl_update) (rule assms)
  have "n_cold_owner_node_id ` set (rows (tbl_update P f (nodes w)))
      \<subseteq> insert x (n_cold_owner_node_id ` set (rows (nodes w)))"
    using assms(4) by (auto simp: rows_tbl_update)
  moreover have "\<forall>y \<in> n_cold_owner_node_id ` set (rows (nodes w)). \<forall>i. y = Some i \<longrightarrow> i \<in> n_id ` set (rows (nodes w))"
    using assms(1) unfolding schema_ok_def fk_all_def by (elim conjE)
  ultimately have "\<forall>y \<in> n_cold_owner_node_id ` set (rows (tbl_update P f (nodes w))). \<forall>i. y = Some i \<longrightarrow>
      i \<in> n_id ` set (rows (nodes w))"
    using assms(5) by fastforce
  then have "fk_all (w\<lparr>nodes := tbl_update P f (nodes w)\<rparr>)"
    using assms(1) unfolding schema_ok_def fk_all_def by (simp add: ids del: ball_simps)
  moreover have "pk_all (w\<lparr>nodes := tbl_update P f (nodes w)\<rparr>)" "uniq_all (w\<lparr>nodes := tbl_update P f (nodes w)\<rparr>)"
    "uid_range (w\<lparr>nodes := tbl_update P f (nodes w)\<rparr>)"
    using assms(1-3) unfolding schema_ok_def pk_all_def uniq_all_def uid_range_def
    by (simp_all add: pk_ok_update col_tbl_update)
  ultimately show ?thesis by (simp add: schema_ok_def)
qed

end
