(* ===== verification/Nodes.thy ===== *)
theory Nodes
  imports Schema
begin

text \<open>
  Node identity and topology (src/controller/src/lib/nodes.ts): per-node tokens keyed on the
  controller's AGENT_TOKEN, the allow-list, and the cold-storage topology in which an SMB node is a
  client of one local-ZFS owner. The model follows the code's order of guards; the strings of an
  authentication failure are kept because the hub compares nothing but \<open>ok\<close>.
\<close>

section \<open>Identity\<close>

definition isValidNodeName :: "string \<Rightarrow> bool" where
  "isValidNodeName name =
     name_re (\<lambda>c. is_az c \<or> is_digit c) (\<lambda>c. is_az c \<or> is_digit c \<or> c = CHR ''-'') 62 name"

definition hex_digit :: "nat \<Rightarrow> char" where
  "hex_digit n = ''0123456789abcdef'' ! n"

definition to_hex :: "string \<Rightarrow> string" where
  "to_hex s = concat (map (\<lambda>c. [hex_digit (code_unit c div 16), hex_digit (code_unit c mod 16)]) s)"

text \<open>\<open>safeEqual\<close> of auth.ts: a constant-time comparison of two digests.\<close>

definition safeEqual :: "'h ext \<Rightarrow> string \<Rightarrow> string \<Rightarrow> bool" where
  "safeEqual X a b = (sha256 X a = sha256 X b)"

definition generateNodeToken :: "'h ext \<Rightarrow> 'h world \<Rightarrow> string \<times> 'h world" where
  "generateNodeToken X w = (to_hex (rand_bytes X (draws w) 32), w\<lparr>draws := draws w + 1\<rparr>)"

definition NUL :: char where
  "NUL = CHR 0x00"

definition nodeTokenHash :: "'h ext \<Rightarrow> string \<Rightarrow> string \<Rightarrow> string" where
  "nodeTokenHash X name token = hmac_sha256_hex X (env_agentToken X) (name @ [NUL] @ token)"

datatype node_auth = AuthFail string | AuthOk string

definition node_by_name :: "string \<Rightarrow> 'h world \<Rightarrow> node_row option" where
  "node_by_name name w = tbl_get (\<lambda>n. n_name n = name) (nodes w)"

definition verifyNodeAuth :: "'h ext \<Rightarrow> string \<Rightarrow> string \<Rightarrow> 'h world \<Rightarrow> node_auth" where
  "verifyNodeAuth X name token w =
     (if \<not> isValidNodeName name then AuthFail ''invalid node name''
      else if token = [] then AuthFail ''missing token''
      else case node_by_name name w of
        None \<Rightarrow> AuthFail ''unknown or blocked node''
      | Some row \<Rightarrow>
          if \<not> n_allowed row then AuthFail ''unknown or blocked node''
          else case n_token_hash row of
            None \<Rightarrow> AuthFail ''node not provisioned''
          | Some h \<Rightarrow>
              if h = [] then AuthFail ''node not provisioned''
              else if \<not> safeEqual X (nodeTokenHash X name token) h then AuthFail ''bad node token''
              else AuthOk h)"

definition nodeStillAuthorized :: "string \<Rightarrow> string \<Rightarrow> 'h world \<Rightarrow> bool" where
  "nodeStillAuthorized name tokenHash w =
     (case node_by_name name w of None \<Rightarrow> False
      | Some row \<Rightarrow> n_allowed row \<and> n_token_hash row = Some tokenHash)"

text \<open>The \<open>INSERT ... ON CONFLICT(name) DO UPDATE\<close> of \<open>provisionNode\<close>.\<close>

definition upsert_node_token :: "string \<Rightarrow> string \<Rightarrow> int \<Rightarrow> 'h world \<Rightarrow> 'h world" where
  "upsert_node_token name hash now w =
     (case node_by_name name w of
        None \<Rightarrow> w\<lparr>nodes := tbl_insert (\<lambda>i. \<lparr>n_id = i, n_name = name, n_last_seen = None,
            n_online = False, n_capabilities = None, n_pools = None, n_created_at = now,
            n_last_scrub = None, n_scrub_status = None, n_token_hash = Some hash,
            n_allowed = True, n_alias = None, n_cold_backend = LocalZfs,
            n_cold_owner_node_id = None, n_cold_mount_path = None, n_cold_ready = False\<rparr>) (nodes w)\<rparr>
      | Some _ \<Rightarrow> w\<lparr>nodes := tbl_update (\<lambda>n. n_name n = name)
            (\<lambda>n. n\<lparr>n_allowed := True, n_token_hash := Some hash\<rparr>) (nodes w)\<rparr>)"

definition provisionNode :: "'h ext \<Rightarrow> string \<Rightarrow> string \<Rightarrow> (string, 'h) op" where
  "provisionNode X name actor w =
     (if \<not> isValidNodeName name then (Inl (NodeE (InvalidNodeName name)), w)
      else
        let (token, w) = generateNodeToken X w;
            hash = nodeTokenHash X name token;
            now = clock w;
            w = upsert_node_token name hash now w
        in (Inr token, audit (Some actor) ''node.provision'' (Some name) None w))"

definition rotateNodeToken :: "'h ext \<Rightarrow> string \<Rightarrow> string \<Rightarrow> (string, 'h) op" where
  "rotateNodeToken X name actor w =
     (if node_by_name name w = None then (Inl (NodeE (UnknownNodeName name)), w)
      else provisionNode X name actor w)"

definition setNodeAlias :: "string \<Rightarrow> string \<Rightarrow> string \<Rightarrow> (unit, 'h) op" where
  "setNodeAlias name alias actor w =
     (if node_by_name name w = None then (Inl (NodeE (UnknownNodeName name)), w)
      else
        let clean = nonblank (take 64 (trim alias));
            w = w\<lparr>nodes := tbl_update (\<lambda>n. n_name n = name) (\<lambda>n. n\<lparr>n_alias := clean\<rparr>) (nodes w)\<rparr>
        in (Inr (), audit (Some actor) ''node.alias'' (Some name)
              (Some (case clean of Some c \<Rightarrow> c | None \<Rightarrow> ''(cleared)'')) w))"

definition revokeNode :: "string \<Rightarrow> string \<Rightarrow> 'h world \<Rightarrow> 'h world" where
  "revokeNode name actor w =
     audit (Some actor) ''node.revoke'' (Some name) None
       (w\<lparr>nodes := tbl_update (\<lambda>n. n_name n = name) (\<lambda>n. n\<lparr>n_allowed := False\<rparr>) (nodes w)\<rparr>)"

section \<open>Deletion and cold-storage topology\<close>

definition placement_count :: "nat \<Rightarrow> 'h world \<Rightarrow> nat" where
  "placement_count nodeId w = length (tbl_all (\<lambda>p. p_node_id p = nodeId) (lab_placements w))"

definition cold_dependents :: "nat \<Rightarrow> 'h world \<Rightarrow> string list" where
  "cold_dependents nodeId w = map n_name (tbl_all (\<lambda>n. n_cold_owner_node_id n = Some nodeId) (nodes w))"

text \<open>The body of the transaction of \<open>deleteNode\<close>; an error rolls back to \<open>w\<close>.\<close>

definition delete_node_tx :: "string \<Rightarrow> nat \<Rightarrow> bool \<Rightarrow> (unit, 'h) op" where
  "delete_node_tx name i force w =
     (let w1 = (if force then
            (let w' = delete_placements (\<lambda>p. p_node_id p = i) w in
             w'\<lparr>nodes := tbl_update (\<lambda>n. n_cold_owner_node_id n = Some i)
                 (\<lambda>n. n\<lparr>n_cold_owner_node_id := None, n_cold_ready := False\<rparr>) (nodes w')\<rparr>)
          else w);
          w2 = w1\<lparr>task_log := tbl_delete (\<lambda>t. t_node t = name) (task_log w1),
                  gpu_snapshot := filter (\<lambda>g. gs_node g \<noteq> name) (gpu_snapshot w1)\<rparr>
      in case delete_node i w2 of (Inl e, _) \<Rightarrow> (Inl e, w) | (Inr _, w3) \<Rightarrow> (Inr (), w3))"

definition force_detail :: "nat \<Rightarrow> string list \<Rightarrow> string option" where
  "force_detail n deps = nonblank (join ''; ''
     ((if 0 < n then [show_nat n @ '' placement(s) purged''] else []) @
      (if deps \<noteq> [] then [''cold owner cleared on: '' @ join '', '' deps] else [])))"

definition deleteNode :: "string \<Rightarrow> string \<Rightarrow> bool \<Rightarrow> (unit, 'h) op" where
  "deleteNode name actor force w =
     (case node_by_name name w of
        None \<Rightarrow> (Inl (NodeE (UnknownNodeName name)), w)
      | Some row \<Rightarrow>
          if force \<and> n_online row then (Inl (NodeE (ForceDeleteOnline name)), w)
          else let placementCount = placement_count (n_id row) w in
          if \<not> force \<and> 0 < placementCount then (Inl (NodeE (NodeHostsPlacements name placementCount)), w)
          else let dependents = cold_dependents (n_id row) w in
          if \<not> force \<and> dependents \<noteq> [] then (Inl (NodeE (NodeIsColdOwner name dependents)), w)
          else and_then (delete_node_tx name (n_id row) force w) (\<lambda>_ w.
            (Inr (), audit (Some actor) (if force then ''node.force_delete'' else ''node.delete'') (Some name)
               (if force then force_detail placementCount dependents else None) w)))"

definition listLocalZfsNodes :: "'h world \<Rightarrow> (nat \<times> string) list" where
  "listLocalZfsNodes w =
     map (\<lambda>n. (n_id n, n_name n)) (sort_key n_name (tbl_all (\<lambda>n. n_cold_backend n = LocalZfs) (nodes w)))"

text \<open>The owner checks of the SMB branch: the id of the owner node, or the error thrown.\<close>

definition cold_owner_for :: "string \<Rightarrow> nat \<Rightarrow> string option \<Rightarrow> 'h world \<Rightarrow> node_error + nat" where
  "cold_owner_for name i ownerName w =
     (case ownerName of
        None \<Rightarrow> Inl SmbRequiresOwner
      | Some oname \<Rightarrow>
          if oname = [] then Inl SmbRequiresOwner
          else case node_by_name oname w of
            None \<Rightarrow> Inl (UnknownOwner oname)
          | Some owner \<Rightarrow>
              if n_id owner = i then Inl OwnColdOwner
              else if n_cold_backend owner \<noteq> LocalZfs then Inl (OwnerNotLocalZfs oname)
              else if cold_dependents i w \<noteq> [] then Inl (NodeIsColdOwner name (cold_dependents i w))
              else Inr (n_id owner))"

definition backend_name :: "cold_backend \<Rightarrow> string" where
  "backend_name b = (case b of LocalZfs \<Rightarrow> ''local_zfs'' | Smb \<Rightarrow> ''smb'')"

definition set_cold :: "nat \<Rightarrow> cold_backend \<Rightarrow> nat option \<Rightarrow> 'h world \<Rightarrow> 'h world" where
  "set_cold i backend ownerId w =
     w\<lparr>nodes := tbl_update (\<lambda>n. n_id n = i)
         (\<lambda>n. n\<lparr>n_cold_backend := backend, n_cold_owner_node_id := ownerId\<rparr>) (nodes w)\<rparr>"

definition setNodeColdStorage :: "string \<Rightarrow> cold_backend \<Rightarrow> string option \<Rightarrow> string \<Rightarrow> (unit, 'h) op" where
  "setNodeColdStorage name backend ownerName actor w =
     (case node_by_name name w of
        None \<Rightarrow> (Inl (NodeE (UnknownNodeName name)), w)
      | Some node \<Rightarrow>
          let placementCount = placement_count (n_id node) w in
          if 0 < placementCount then (Inl (NodeE (NodeHostsPlacements name placementCount)), w)
          else
            let detail = backend_name backend @
                  (case ownerName of Some oname \<Rightarrow> if oname = [] then [] else '' owner='' @ oname | None \<Rightarrow> []);
                finish = (\<lambda>ownerId. (Inr (), audit (Some actor) ''node.cold_storage'' (Some name) (Some detail)
                          (set_cold (n_id node) backend ownerId w)))
            in case backend of
                 LocalZfs \<Rightarrow> finish None
               | Smb \<Rightarrow> (case cold_owner_for name (n_id node) ownerName w of
                    Inl e \<Rightarrow> (Inl (NodeE e), w)
                  | Inr ownerId \<Rightarrow> finish (Some ownerId)))"

section \<open>Authentication\<close>

lemma node_by_name_Some: "node_by_name name w = Some n \<Longrightarrow> n \<in> set (rows (nodes w)) \<and> n_name n = name"
  by (auto simp: node_by_name_def dest: tbl_get_Some)

lemma node_by_name_None: "node_by_name name w = None \<longleftrightarrow> name \<notin> n_name ` set (rows (nodes w))"
  by (auto simp: node_by_name_def tbl_get_None)

lemma node_by_name_frame: "nodes w' = nodes w \<Longrightarrow> node_by_name name w' = node_by_name name w"
  by (simp add: node_by_name_def)

lemma node_by_name_update:
  assumes "\<And>n. n_name (f n) = n_name n"
  shows "node_by_name name (w\<lparr>nodes := tbl_update P f (nodes w)\<rparr>)
       = map_option (\<lambda>n. if P n then f n else n) (node_by_name name w)"
  using assms by (simp add: node_by_name_def tbl_get_update)

text \<open>What a provisioned node's row says afterwards.\<close>

lemma provisionNode_ok:
  assumes "provisionNode X name actor w = (Inr token, w')"
  shows "isValidNodeName name" "token = to_hex (rand_bytes X (draws w) 32)" "draws w' = draws w + 1"
    "\<exists>n. node_by_name name w' = Some n \<and> n_allowed n \<and> n_token_hash n = Some (nodeTokenHash X name token)"
    "other \<noteq> name \<Longrightarrow> node_by_name other w' = node_by_name other w"
proof -
  note defs = provisionNode_def upsert_node_token_def generateNodeToken_def Let_def node_by_name_def tbl_get_insert tbl_get_update
  show "isValidNodeName name" "token = to_hex (rand_bytes X (draws w) 32)" "draws w' = draws w + 1"
    using assms by (auto simp: defs split: if_splits option.splits)
  show "\<exists>n. node_by_name name w' = Some n \<and> n_allowed n \<and> n_token_hash n = Some (nodeTokenHash X name token)"
  proof (cases "tbl_get (\<lambda>n. n_name n = name) (nodes w)")
    case (Some n)
    with tbl_get_Some [OF Some] assms show ?thesis by (auto simp: defs split: if_splits)
  qed (use assms in \<open>auto simp: defs split: if_splits\<close>)
  assume "other \<noteq> name"
  then have "map_option (\<lambda>n. if n_name n = name then g n else n) (tbl_get (\<lambda>n. n_name n = other) (nodes w))
      = tbl_get (\<lambda>n. n_name n = other) (nodes w)" for g
    by (cases "tbl_get (\<lambda>n. n_name n = other) (nodes w)") (auto dest: tbl_get_Some)
  with \<open>other \<noteq> name\<close> show "node_by_name other w' = node_by_name other w"
    using assms by (auto simp: defs split: if_splits option.splits)
qed

lemma verifyNodeAuth_iff:
  "verifyNodeAuth X name token w = AuthOk h \<longleftrightarrow>
     isValidNodeName name \<and> token \<noteq> [] \<and> h \<noteq> [] \<and> safeEqual X (nodeTokenHash X name token) h \<and>
     (\<exists>n. node_by_name name w = Some n \<and> n_allowed n \<and> n_token_hash n = Some h)"
  by (auto simp: verifyNodeAuth_def split: option.splits if_splits)

lemma verify_implies_authorized:
  "verifyNodeAuth X name token w = AuthOk h \<Longrightarrow> nodeStillAuthorized name h w"
  by (auto simp: verifyNodeAuth_iff nodeStillAuthorized_def)

text \<open>Two different inputs with the same digest.\<close>

definition collision :: "('a \<Rightarrow> 'b) \<Rightarrow> 'a \<Rightarrow> 'a \<Rightarrow> bool" where
  "collision f x y \<longleftrightarrow> x \<noteq> y \<and> f x = f y"

lemma isValidNodeName_no_NUL: "isValidNodeName name \<Longrightarrow> NUL \<notin> set name"
proof
  assume "isValidNodeName name" "NUL \<in> set name"
  then have "is_az NUL \<or> is_digit NUL \<or> NUL = CHR ''-''"
    by (auto simp: isValidNodeName_def name_re_def list_all_iff split: list.splits)
  then show False by (simp add: NUL_def is_az_def is_digit_def code_unit_def Let_def)
qed

text \<open>The NUL separator makes the pre-image of the token hash unambiguous.\<close>

lemma token_preimage_inj:
  assumes "isValidNodeName a" "isValidNodeName b" "a @ [NUL] @ s = b @ [NUL] @ t"
  shows "a = b \<and> s = t"
  using assms(3) isValidNodeName_no_NUL [OF assms(1)] isValidNodeName_no_NUL [OF assms(2)]
  by (induction a arbitrary: b) (auto simp: Cons_eq_append_conv append_eq_Cons_conv)

text \<open>
  An accepted token is the one that was minted for that very name, or it exhibits a collision of
  SHA-256 or of HMAC-SHA256 under the controller's key.
\<close>

lemma accepted_token_or_collision:
  assumes "verifyNodeAuth X name token w = AuthOk (nodeTokenHash X name' token')" "isValidNodeName name'"
  shows "(name = name' \<and> token = token') \<or>
     collision (sha256 X) (nodeTokenHash X name token) (nodeTokenHash X name' token') \<or>
     collision (hmac_sha256_hex X (env_agentToken X)) (name @ [NUL] @ token) (name' @ [NUL] @ token')"
proof -
  have s: "sha256 X (nodeTokenHash X name token) = sha256 X (nodeTokenHash X name' token')"
    and v: "isValidNodeName name"
    using assms(1) by (auto simp: verifyNodeAuth_iff safeEqual_def)
  then show ?thesis
    using token_preimage_inj [OF v assms(2)] unfolding collision_def nodeTokenHash_def by metis
qed

section \<open>Cold-storage topology\<close>

text \<open>
  An owner is a different, existing node that itself uses local ZFS, and only an SMB node has an
  owner: the ownership graph is a forest of depth one.
\<close>

definition cold_ok :: "'h world \<Rightarrow> bool" where
  "cold_ok w \<longleftrightarrow> (\<forall>n \<in> set (rows (nodes w)). \<forall>i. n_cold_owner_node_id n = Some i \<longrightarrow>
     n_cold_backend n = Smb \<and> i \<noteq> n_id n \<and>
     (\<exists>r \<in> set (rows (nodes w)). n_id r = i \<and> n_cold_backend r = LocalZfs))"

lemma cold_ok_frame: "nodes w' = nodes w \<Longrightarrow> cold_ok w' = cold_ok w"
  by (simp add: cold_ok_def)

lemma cold_ok_frames [frame_simps, simp]:
  "cold_ok (audit a b c d w) = cold_ok w"
  "cold_ok (send_mail m w) = cold_ok w"
  "cold_ok (enqueue X n act p r w) = cold_ok w"
  "cold_ok (snd (markTaskState n u s res e ca w)) = cold_ok w"
  "cold_ok (delete_placements P w) = cold_ok w"
  "cold_ok (delete_lab i w) = cold_ok w"
  by (rule cold_ok_frame; simp)+

lemma cold_ok_update [inv_intros]:
  assumes "cold_ok w" "\<And>n. n_id (f n) = n_id n" "\<And>n. n_cold_backend (f n) = n_cold_backend n"
    "\<And>n. n_cold_owner_node_id (f n) \<in> {None, n_cold_owner_node_id n}"
  shows "cold_ok (w\<lparr>nodes := tbl_update P f (nodes w)\<rparr>)"
  unfolding cold_ok_def
proof (intro ballI allI impI)
  fix n i
  assume n: "n \<in> set (rows (nodes (w\<lparr>nodes := tbl_update P f (nodes w)\<rparr>)))" and i: "n_cold_owner_node_id n = Some i"
  then obtain n0 where n0: "n0 \<in> set (rows (nodes w))" "n = f n0 \<or> n = n0"
    by (auto elim: tbl_updateE)
  with i assms(4) [of n0] have o0: "n_cold_owner_node_id n0 = Some i" by auto
  from n0 assms(2,3) have same: "n_id n = n_id n0" "n_cold_backend n = n_cold_backend n0" by auto
  from assms(1) n0(1) o0 obtain r where *: "n_cold_backend n0 = Smb" "i \<noteq> n_id n0"
    and r: "r \<in> set (rows (nodes w))" "n_id r = i" "n_cold_backend r = LocalZfs"
    unfolding cold_ok_def by blast
  have "\<exists>r' \<in> set (rows (tbl_update P f (nodes w))). n_id r' = i \<and> n_cold_backend r' = LocalZfs"
  proof (cases "P r")
    case True
    from tbl_update_hit [OF r(1), of P f, OF True] r assms(2,3) show ?thesis by (intro bexI [of _ "f r"]) auto
  next
    case False
    from tbl_update_keep [OF r(1), of P f, OF False] r show ?thesis by (intro bexI [of _ r]) auto
  qed
  with * same show "n_cold_backend n = Smb \<and> i \<noteq> n_id n \<and>
      (\<exists>r \<in> set (rows (nodes (w\<lparr>nodes := tbl_update P f (nodes w)\<rparr>))). n_id r = i \<and> n_cold_backend r = LocalZfs)"
    by simp
qed

lemma cold_ok_insert [inv_intros]:
  assumes "cold_ok w" "\<And>i. n_cold_owner_node_id (mk i) = None"
  shows "cold_ok (w\<lparr>nodes := tbl_insert mk (nodes w)\<rparr>)"
  using assms by (auto simp: cold_ok_def)

lemma cold_ok_delete_node [inv_intros]:
  assumes "cold_ok w" shows "cold_ok (snd (delete_node i w))"
  using assms unfolding cold_ok_def delete_node_def by (auto; metis)

text \<open>Without dependents a node may change sides.\<close>

lemma cold_dependents_Nil:
  "cold_dependents i w = [] \<longleftrightarrow> (\<forall>n \<in> set (rows (nodes w)). n_cold_owner_node_id n \<noteq> Some i)"
  by (auto simp: cold_dependents_def tbl_all_def filter_empty_conv)

lemma cold_ok_set_smb:
  assumes "cold_ok w" "cold_dependents i w = []" "r \<in> set (rows (nodes w))" "n_id r \<noteq> i" "n_cold_backend r = LocalZfs"
  shows "cold_ok (set_cold i Smb (Some (n_id r)) w)"
proof -
  have "\<exists>r' \<in> set (rows (nodes (set_cold i Smb (Some (n_id r)) w))). n_id r' = j \<and> n_cold_backend r' = LocalZfs"
    if "s \<in> set (rows (nodes w))" "n_id s = j" "n_cold_backend s = LocalZfs" "j \<noteq> i" for s j
    unfolding set_cold_def using that by (auto intro!: bexI [of _ s] tbl_update_keep)
  then show ?thesis using assms unfolding cold_ok_def cold_dependents_Nil
    by (auto simp: set_cold_def rows_tbl_update split: if_splits) blast+
qed

lemma cold_ok_set_local:
  assumes "cold_ok w" shows "cold_ok (set_cold i LocalZfs None w)"
proof -
  have "\<exists>r' \<in> set (rows (nodes (set_cold i LocalZfs None w))). n_id r' = j \<and> n_cold_backend r' = LocalZfs"
    if "s \<in> set (rows (nodes w))" "n_id s = j" "n_cold_backend s = LocalZfs" for s j
  proof (cases "n_id s = i")
    case True
    let ?f = "\<lambda>n. n\<lparr>n_cold_backend := LocalZfs, n_cold_owner_node_id := None\<rparr>"
    from tbl_update_hit [OF that(1), of "\<lambda>n. n_id n = i" ?f] True that show ?thesis
      by (intro bexI [of _ "?f s"]) (auto simp: set_cold_def)
  next
    case False
    from tbl_update_keep [OF that(1), of "\<lambda>n. n_id n = i"] False that show ?thesis
      by (intro bexI [of _ s]) (auto simp: set_cold_def)
  qed
  then show ?thesis using assms unfolding cold_ok_def
    by (auto simp: set_cold_def rows_tbl_update split: if_splits) blast+
qed

section \<open>Preservation\<close>

lemma cold_owner_for_ok:
  assumes "cold_owner_for name i ownerName w = Inr j"
  obtains r where "r \<in> set (rows (nodes w))" "n_id r = j" "n_id r \<noteq> i" "n_cold_backend r = LocalZfs"
    "cold_dependents i w = []"
  using assms by (auto simp: cold_owner_for_def split: option.splits if_splits dest!: node_by_name_Some)

lemma setNodeColdStorage_cases:
  obtains "fst (setNodeColdStorage name backend ownerName actor w) \<noteq> Inr ()"
      "snd (setNodeColdStorage name backend ownerName actor w) = w"
  | i d where "snd (setNodeColdStorage name backend ownerName actor w) =
        audit (Some actor) ''node.cold_storage'' (Some name) d (set_cold i LocalZfs None w)"
      "i \<in> n_id ` set (rows (nodes w))" "placement_count i w = 0"
  | i r d where "snd (setNodeColdStorage name backend ownerName actor w) =
        audit (Some actor) ''node.cold_storage'' (Some name) d (set_cold i Smb (Some (n_id r)) w)"
      "i \<in> n_id ` set (rows (nodes w))" "placement_count i w = 0" "cold_dependents i w = []"
      "r \<in> set (rows (nodes w))" "n_id r \<noteq> i" "n_cold_backend r = LocalZfs"
proof (cases "node_by_name name w")
  case (Some node)
  then have n: "n_id node \<in> n_id ` set (rows (nodes w))" by (auto dest: node_by_name_Some)
  show ?thesis
  proof (cases "placement_count (n_id node) w = 0")
    case p: True
    show ?thesis
    proof (cases backend)
      case LocalZfs
      with Some p n that(2) show ?thesis by (auto simp: setNodeColdStorage_def Let_def)
    next
      case Smb
      show ?thesis
      proof (cases "cold_owner_for name (n_id node) ownerName w")
        case (Inl e)
        with Some p Smb that(1) show ?thesis by (auto simp: setNodeColdStorage_def Let_def)
      next
        case (Inr j)
        then obtain r where "r \<in> set (rows (nodes w))" "n_id r = j" "n_id r \<noteq> n_id node"
          "n_cold_backend r = LocalZfs" "cold_dependents (n_id node) w = []" by (rule cold_owner_for_ok)
        with Some p Smb Inr n that(3) show ?thesis by (auto simp: setNodeColdStorage_def Let_def)
      qed
    qed
  next
    case False
    with Some that(1) show ?thesis by (auto simp: setNodeColdStorage_def Let_def)
  qed
qed (use that(1) in \<open>auto simp: setNodeColdStorage_def\<close>)

lemma schema_set_cold:
  assumes "schema_ok w" "\<And>j. x = Some j \<Longrightarrow> j \<in> n_id ` set (rows (nodes w))"
  shows "schema_ok (set_cold i b x w)"
  unfolding set_cold_def by (rule schema_node_owner_update [where x = x]) (use assms in auto)

lemma setNodeColdStorage_inv:
  "schema_ok w \<Longrightarrow> schema_ok (snd (setNodeColdStorage name backend ownerName actor w))"
  "cold_ok w \<Longrightarrow> cold_ok (snd (setNodeColdStorage name backend ownerName actor w))"
  by (cases rule: setNodeColdStorage_cases [of name backend ownerName actor w];
      auto intro: schema_set_cold cold_ok_set_local cold_ok_set_smb)+

lemma upsert_node_token_inv:
  "schema_ok w \<Longrightarrow> schema_ok (upsert_node_token name hash now w)"
  "cold_ok w \<Longrightarrow> cold_ok (upsert_node_token name hash now w)"
  by (auto simp: upsert_node_token_def node_by_name_None split: option.splits
      intro!: schema_node_insert schema_node_update cold_ok_insert cold_ok_update)

lemma provisionNode_inv:
  "schema_ok w \<Longrightarrow> schema_ok (snd (provisionNode X name actor w))"
  "cold_ok w \<Longrightarrow> cold_ok (snd (provisionNode X name actor w))"
proof -
  have "schema_ok (w\<lparr>draws := k\<rparr>) = schema_ok w" "cold_ok (w\<lparr>draws := k\<rparr>) = cold_ok w" for k
    by (rule schema_frame; simp) (rule cold_ok_frame; simp)
  then show "schema_ok w \<Longrightarrow> schema_ok (snd (provisionNode X name actor w))"
    and "cold_ok w \<Longrightarrow> cold_ok (snd (provisionNode X name actor w))"
    by (simp_all add: provisionNode_def generateNodeToken_def Let_def upsert_node_token_inv)
qed

lemma rotateNodeToken_inv:
  "schema_ok w \<Longrightarrow> schema_ok (snd (rotateNodeToken X name actor w))"
  "cold_ok w \<Longrightarrow> cold_ok (snd (rotateNodeToken X name actor w))"
  by (simp_all add: rotateNodeToken_def provisionNode_inv)

lemma setNodeAlias_inv:
  "schema_ok w \<Longrightarrow> schema_ok (snd (setNodeAlias name alias actor w))"
  "cold_ok w \<Longrightarrow> cold_ok (snd (setNodeAlias name alias actor w))"
  by (simp_all add: setNodeAlias_def Let_def schema_node_update cold_ok_update)

lemma revokeNode_inv:
  "schema_ok w \<Longrightarrow> schema_ok (revokeNode name actor w)"
  "cold_ok w \<Longrightarrow> cold_ok (revokeNode name actor w)"
  by (simp_all add: revokeNode_def schema_node_update cold_ok_update)

text \<open>The transaction of \<open>deleteNode\<close> keeps the invariants and, behind its guards, never fails.\<close>

definition delete_node_prep :: "string \<Rightarrow> nat \<Rightarrow> bool \<Rightarrow> 'h world \<Rightarrow> 'h world" where
  "delete_node_prep name i force w =
     (let w1 = (if force then
            (let w' = delete_placements (\<lambda>p. p_node_id p = i) w in
             w'\<lparr>nodes := tbl_update (\<lambda>n. n_cold_owner_node_id n = Some i)
                 (\<lambda>n. n\<lparr>n_cold_owner_node_id := None, n_cold_ready := False\<rparr>) (nodes w')\<rparr>)
          else w)
      in w1\<lparr>task_log := tbl_delete (\<lambda>t. t_node t = name) (task_log w1),
            gpu_snapshot := filter (\<lambda>g. gs_node g \<noteq> name) (gpu_snapshot w1)\<rparr>)"

lemma delete_node_tx_prep:
  "delete_node_tx name i force w =
     (case delete_node i (delete_node_prep name i force w) of
        (Inl e, _) \<Rightarrow> (Inl e, w) | (Inr _, w3) \<Rightarrow> (Inr (), w3))"
  by (simp add: delete_node_tx_def delete_node_prep_def Let_def)

lemma delete_node_prep_inv:
  "schema_ok w \<Longrightarrow> schema_ok (delete_node_prep name i force w)"
  "cold_ok w \<Longrightarrow> cold_ok (delete_node_prep name i force w)"
proof -
  let ?w = "delete_placements (\<lambda>p. p_node_id p = i) w"
  have s: "schema_ok (v\<lparr>task_log := a, gpu_snapshot := b\<rparr>) = schema_ok v" "cold_ok (v\<lparr>task_log := a, gpu_snapshot := b\<rparr>) = cold_ok v"
    for v :: "'a world" and a b by (rule schema_frame; simp) (rule cold_ok_frame; simp)
  show "schema_ok w \<Longrightarrow> schema_ok (delete_node_prep name i force w)"
    using schema_node_owner_update [where w = ?w and x = None] by (auto simp: delete_node_prep_def Let_def s schema_delete_placements)
  show "cold_ok w \<Longrightarrow> cold_ok (delete_node_prep name i force w)"
    using cold_ok_update [where w = ?w] by (auto simp: delete_node_prep_def Let_def s)
qed

lemma delete_node_tx_inv:
  assumes "\<And>w. I w \<Longrightarrow> I (snd (delete_node i w))" "\<And>w. I w \<Longrightarrow> I (delete_node_prep name i force w)"
  shows "I w \<Longrightarrow> I (snd (delete_node_tx name i force w))"
  unfolding delete_node_tx_prep using assms(1) [OF assms(2), of w]
  by (auto split: prod.splits sum.splits)

lemma deleteNode_inv:
  assumes "\<And>i w. I w \<Longrightarrow> I (snd (delete_node i w))" "\<And>name i force w. I w \<Longrightarrow> I (delete_node_prep name i force w)"
    "\<And>a b c d w. I (audit a b c d w) = I w"
  shows "I w \<Longrightarrow> I (snd (deleteNode name actor force w))"
proof -
  assume w: "I w"
  have "I (snd (and_then (delete_node_tx name i f w) (\<lambda>_ w. (Inr (), audit a b c d w))))" for i f a b c d
    by (rule and_then_pres) (use delete_node_tx_inv [of I, OF assms(1,2) w] assms(3) in auto)
  with w show ?thesis by (simp add: deleteNode_def Let_def split: option.splits)
qed

lemma deleteNode_schema: "schema_ok w \<Longrightarrow> schema_ok (snd (deleteNode name actor force w))"
  by (rule deleteNode_inv [of schema_ok]) (simp_all add: schema_delete_node delete_node_prep_inv)

lemma deleteNode_cold: "cold_ok w \<Longrightarrow> cold_ok (snd (deleteNode name actor force w))"
  by (rule deleteNode_inv [of cold_ok]) (simp_all add: cold_ok_delete_node delete_node_prep_inv)

section \<open>Outcome of a deletion\<close>

lemma placement_count_0: "placement_count i w = 0 \<longleftrightarrow> (\<forall>p \<in> set (rows (lab_placements w)). p_node_id p \<noteq> i)"
  by (auto simp: placement_count_def tbl_all_def filter_empty_conv)

lemma delete_node_tx_ok:
  assumes "force \<or> (placement_count i w = 0 \<and> cold_dependents i w = [])"
  shows "delete_node_tx name i force w =
     (Inr (), (delete_node_prep name i force w)\<lparr>
        nodes := tbl_delete (\<lambda>n. n_id n = i) (nodes (delete_node_prep name i force w)),
        node_group_members := filter (\<lambda>r. gm_node_id r \<noteq> i) (node_group_members w)\<rparr>)"
proof -
  let ?w = "delete_node_prep name i force w"
  have "\<forall>p \<in> set (rows (lab_placements ?w)). p_node_id p \<noteq> i"
    using assms by (cases force) (auto simp: delete_node_prep_def Let_def placement_count_0)
  moreover have "\<forall>n \<in> set (rows (nodes ?w)). n_cold_owner_node_id n \<noteq> Some i"
    using assms by (cases force) (auto simp: delete_node_prep_def Let_def cold_dependents_Nil rows_tbl_update)
  moreover have "node_group_members ?w = node_group_members w"
    by (simp add: delete_node_prep_def Let_def delete_placements_def)
  ultimately show ?thesis by (auto simp: delete_node_tx_prep delete_node_def)
qed

lemma deleteNode_result:
  "fst (deleteNode name actor force w) =
     (case node_by_name name w of
        None \<Rightarrow> Inl (NodeE (UnknownNodeName name))
      | Some n \<Rightarrow>
          if force then (if n_online n then Inl (NodeE (ForceDeleteOnline name)) else Inr ())
          else if 0 < placement_count (n_id n) w then Inl (NodeE (NodeHostsPlacements name (placement_count (n_id n) w)))
          else if cold_dependents (n_id n) w \<noteq> [] then Inl (NodeE (NodeIsColdOwner name (cold_dependents (n_id n) w)))
          else Inr ())"
  by (simp add: deleteNode_def Let_def delete_node_tx_ok split: option.splits)

lemma deleteNode_tables:
  assumes "deleteNode name actor force w = (Inr (), w')" "node_by_name name w = Some n"
  shows "nodes w' = tbl_delete (\<lambda>m. n_id m = n_id n) (nodes (delete_node_prep name (n_id n) force w))"
    "lab_placements w' = (if force then tbl_delete (\<lambda>p. p_node_id p = n_id n) (lab_placements w) else lab_placements w)"
    "task_log w' = tbl_delete (\<lambda>t. t_node t = name) (task_log w)"
  using assms
  by (auto simp: deleteNode_def Let_def delete_node_tx_ok delete_node_prep_def split: if_splits)

end
