(* ===== verification/Placements.thy ===== *)
theory Placements
  imports Nodes
begin

text \<open>
  Lab placements (src/controller/src/lib/placements.ts): one logical lab on one node, with its
  quotas, SSH port, image and container options, its provisioning state, and the accounts of the
  roster on it. Every operation writes the authoritative rows and enqueues the agent task.

  \<open>deliverPlacementCredential\<close> and \<open>maybeDeliverPlacementCompletion\<close> suspend while a mail is being
  sent; each is a \<open>_begin\<close> part up to the call of the mailer and a \<open>_finish\<close> part that runs with the
  outcome the mailer reports, so that other operations may be interleaved.
\<close>

section \<open>Container configuration\<close>

record container_options =
  co_cpus :: string
  co_memory :: string
  co_shm_size :: string
  co_rootfs_quota :: string
  co_restart :: string

definition DEFAULT_CONTAINER_OPTIONS :: container_options where
  "DEFAULT_CONTAINER_OPTIONS = \<lparr>co_cpus = ''4'', co_memory = ''8g'', co_shm_size = ''1g'',
     co_rootfs_quota = ''300g'', co_restart = ''unless-stopped''\<rparr>"

definition options_fields :: "container_options \<Rightarrow> (string \<times> json) list" where
  "options_fields o' = [(''cpus'', JStr (co_cpus o')), (''memory'', JStr (co_memory o')),
     (''shm_size'', JStr (co_shm_size o')), (''rootfs_quota'', JStr (co_rootfs_quota o')),
     (''restart'', JStr (co_restart o'))]"

text \<open>
  The patterns, as left-to-right matchers: in each of them the characters that may follow a
  repetition are outside the repeated class, so the greedy match is the only one.
\<close>

definition digits_rest :: "string \<Rightarrow> string option" where
  "digits_rest s = (case s of [] \<Rightarrow> None | c # _ \<Rightarrow> if is_digit c then Some (dropWhile is_digit s) else None)"

text \<open>\<open>\d+(\.\d+)?\<close>: the rest after the match.\<close>

definition number_rest :: "string \<Rightarrow> string option" where
  "number_rest s = (case digits_rest s of
      None \<Rightarrow> None
    | Some r \<Rightarrow> (case r of
          [] \<Rightarrow> Some r
        | c # t \<Rightarrow> if c = CHR ''.'' then (case digits_rest t of None \<Rightarrow> Some r | Some r' \<Rightarrow> Some r') else Some r))"

definition drop_opt :: "string \<Rightarrow> string \<Rightarrow> string" where
  "drop_opt cls s = (case s of [] \<Rightarrow> [] | c # t \<Rightarrow> if c \<in> set cls then t else s)"

definition CPUS_RE :: "string \<Rightarrow> bool" where
  "CPUS_RE s = (number_rest s = Some [])"

definition SIZE_RE :: "string \<Rightarrow> bool" where
  "SIZE_RE s = (case number_rest s of None \<Rightarrow> False
     | Some r \<Rightarrow> drop_opt ''bB'' (drop_opt ''kKmMgGtT'' (dropWhile js_space r)) = [])"

definition tag_char :: "char \<Rightarrow> bool" where
  "tag_char c = (is_alnum c \<or> c \<in> set ''._-'')"

definition repo_char :: "char \<Rightarrow> bool" where
  "repo_char c = (is_alnum c \<or> c \<in> set ''._/-'')"

definition tag_rest :: "string \<Rightarrow> string" where
  "tag_rest s = (case s of
      c # d # t \<Rightarrow> if c = CHR '':'' \<and> tag_char d then dropWhile tag_char t else s
    | _ \<Rightarrow> s)"

definition digest_rest :: "string \<Rightarrow> string" where
  "digest_rest s =
     (let t = drop 8 s in
      if startsWith s ''@sha256:'' \<and> 64 \<le> length t \<and> list_all is_hex (take 64 t) then drop 64 t else s)"

definition DOCKER_IMAGE_RE :: "string \<Rightarrow> bool" where
  "DOCKER_IMAGE_RE s = (case s of [] \<Rightarrow> False
     | c # t \<Rightarrow> is_alnum c \<and> digest_rest (tag_rest (dropWhile repo_char t)) = [])"

definition RESTART_POLICIES :: "string list" where
  "RESTART_POLICIES = [''no'', ''on-failure'', ''always'', ''unless-stopped'']"

text \<open>\<open>opts.k\<close>: the fields of \<open>ContainerOptions\<close> are strings.\<close>

definition opt_field :: "string \<Rightarrow> json \<Rightarrow> string" where
  "opt_field k opts = (case jstr (jget k opts) of Some s \<Rightarrow> s | None \<Rightarrow> [])"

definition validateContainerConfig :: "string \<Rightarrow> json \<Rightarrow> config_error option" where
  "validateContainerConfig img opts =
     (if \<not> DOCKER_IMAGE_RE img \<or> 256 < length img then Some (InvalidImage img)
      else if \<not> CPUS_RE (opt_field ''cpus'' opts) then Some InvalidCpus
      else if \<not> SIZE_RE (opt_field ''memory'' opts) then Some InvalidMemory
      else if \<not> SIZE_RE (opt_field ''shm_size'' opts) then Some InvalidShmSize
      else if \<not> SIZE_RE (opt_field ''rootfs_quota'' opts) then Some InvalidRootfsQuota
      else if opt_field ''restart'' opts \<notin> set RESTART_POLICIES then Some InvalidRestart
      else None)"

text \<open>\<open>{...a, ...b}\<close> on field lists; a spread of an array or a string contributes its indexes.\<close>

definition spread_fields :: "json \<Rightarrow> (string \<times> json) list" where
  "spread_fields v = (case v of
      JObj kvs \<Rightarrow> kvs
    | JArr xs \<Rightarrow> zip (map show_nat [0..<length xs]) xs
    | JStr s \<Rightarrow> zip (map show_nat [0..<length s]) (map (\<lambda>c. JStr [c]) s)
    | _ \<Rightarrow> [])"

definition merge_fields :: "(string \<times> json) list \<Rightarrow> (string \<times> json) list \<Rightarrow> (string \<times> json) list" where
  "merge_fields a b = fold (\<lambda>(k, v). AList.update k v) b a"

definition containerOptionsOf :: "jtext option \<Rightarrow> json" where
  "containerOptionsOf container_options =
     JObj (merge_fields (options_fields DEFAULT_CONTAINER_OPTIONS)
       (case container_options of None \<Rightarrow> []
        | Some t \<Rightarrow> (case json_parse t of None \<Rightarrow> [] | Some v \<Rightarrow> spread_fields v)))"

section \<open>Reading placements\<close>

record placement =
  pl_row :: placement_row
  pl_lab_name :: string
  pl_node_name :: string
  pl_online :: bool
  pl_node_cold_backend :: cold_backend
  pl_node_cold_owner_node_id :: "nat option"
  pl_cold_owner_name :: "string option"
  pl_node_cold_ready :: bool

definition lab_by_id :: "nat \<Rightarrow> 'h world \<Rightarrow> lab_row option" where
  "lab_by_id i w = tbl_get (\<lambda>l. l_id l = i) (labs w)"

definition node_by_id :: "nat \<Rightarrow> 'h world \<Rightarrow> node_row option" where
  "node_by_id i w = tbl_get (\<lambda>n. n_id n = i) (nodes w)"

definition student_by_id :: "nat \<Rightarrow> 'h world \<Rightarrow> student_row option" where
  "student_by_id i w = tbl_get (\<lambda>s. s_id s = i) (students w)"

text \<open>The joins of \<open>PLACEMENT_SELECT\<close> for one row of \<open>lab_placements\<close>.\<close>

definition placement_join :: "'h world \<Rightarrow> placement_row \<Rightarrow> placement option" where
  "placement_join w p =
     (case (lab_by_id (p_lab_id p) w, node_by_id (p_node_id p) w) of
        (Some l, Some n) \<Rightarrow> Some \<lparr>pl_row = p, pl_lab_name = l_name l, pl_node_name = n_name n, pl_online = n_online n,
           pl_node_cold_backend = n_cold_backend n, pl_node_cold_owner_node_id = n_cold_owner_node_id n,
           pl_cold_owner_name = (case n_cold_owner_node_id n of None \<Rightarrow> None
             | Some i \<Rightarrow> map_option n_name (node_by_id i w)),
           pl_node_cold_ready = n_cold_ready n\<rparr>
      | _ \<Rightarrow> None)"

definition placement_select :: "'h world \<Rightarrow> placement list" where
  "placement_select w = List.map_filter (placement_join w) (rows (lab_placements w))"

definition listPlacements :: "nat \<Rightarrow> 'h world \<Rightarrow> placement list" where
  "listPlacements labId w =
     sort_key pl_node_name (filter (\<lambda>p. p_lab_id (pl_row p) = labId) (placement_select w))"

definition listPlacementsForNode :: "nat \<Rightarrow> 'h world \<Rightarrow> placement list" where
  "listPlacementsForNode nodeId w =
     sort_key pl_lab_name (filter (\<lambda>p. p_node_id (pl_row p) = nodeId) (placement_select w))"

definition listAllPlacements :: "'h world \<Rightarrow> placement list" where
  "listAllPlacements w = sort_key pl_lab_name (sort_key pl_node_name (placement_select w))"

definition getPlacement :: "nat \<Rightarrow> 'h world \<Rightarrow> placement option" where
  "getPlacement i w = List.find (\<lambda>p. p_id (pl_row p) = i) (placement_select w)"

definition getPlacementByLabNode :: "string \<Rightarrow> string \<Rightarrow> 'h world \<Rightarrow> placement option" where
  "getPlacementByLabNode labName nodeName w =
     List.find (\<lambda>p. pl_lab_name p = labName \<and> pl_node_name p = nodeName) (placement_select w)"

definition placementExists :: "nat \<Rightarrow> nat \<Rightarrow> 'h world \<Rightarrow> bool" where
  "placementExists labId nodeId w =
     (tbl_get (\<lambda>p. p_lab_id p = labId \<and> p_node_id p = nodeId) (lab_placements w) \<noteq> None)"

text \<open>\<open>`${lab}@${node}`\<close>, the target shown in the audit log.\<close>

definition at_node :: "placement \<Rightarrow> string" where
  "at_node p = pl_lab_name p @ ''@'' @ pl_node_name p"

definition ports_used :: "nat \<Rightarrow> 'h world \<Rightarrow> int list" where
  "ports_used nodeId w = map p_ssh_port (tbl_all (\<lambda>p. p_node_id p = nodeId) (lab_placements w))"

definition nextSshPortForNode :: "'h ext \<Rightarrow> nat \<Rightarrow> 'h world \<Rightarrow> error + int" where
  "nextSshPortForNode X nodeId w =
     (case first_free (setting_int X ''sshPortStart'' w) (setting_int X ''sshPortEnd'' w) (ports_used nodeId w) of
        Some p \<Rightarrow> Inr p
      | None \<Rightarrow> Inl (PlacementE NoFreeSshPort))"

definition upd_placement :: "nat \<Rightarrow> (placement_row \<Rightarrow> placement_row) \<Rightarrow> 'h world \<Rightarrow> 'h world" where
  "upd_placement i f w = w\<lparr>lab_placements := tbl_update (\<lambda>p. p_id p = i) f (lab_placements w)\<rparr>"

definition upd_pm :: "nat \<Rightarrow> (placement_member_row \<Rightarrow> placement_member_row) \<Rightarrow> 'h world \<Rightarrow> 'h world" where
  "upd_pm i f w = w\<lparr>placement_members := tbl_update (\<lambda>r. pm_id r = i) f (placement_members w)\<rparr>"

definition touch :: "nat \<Rightarrow> 'h world \<Rightarrow> 'h world" where
  "touch i w = upd_placement i (\<lambda>p. p\<lparr>p_updated_at := clock w\<rparr>) w"

section \<open>Creating a placement\<close>

definition taskContainerOptions :: "placement \<Rightarrow> json" where
  "taskContainerOptions p = JObj (merge_fields (spread_fields (containerOptionsOf (p_container_options (pl_row p))))
     [(''image'', JStr (p_image (pl_row p))), (''ssh_port'', j_int (p_ssh_port (pl_row p)))])"

definition create_params :: "placement \<Rightarrow> json" where
  "create_params p = JObj [(''lab'', JStr (pl_lab_name p)),
     (''fast_quota_bytes'', j_int (p_fast_quota_bytes (pl_row p))),
     (''slow_quota_bytes'', j_int (case p_cold_quota_bytes (pl_row p) of Some c \<Rightarrow> c | None \<Rightarrow> 0)),
     (''student_fast_quota_bytes'', j_opt_int (p_student_fast_quota_bytes (pl_row p))),
     (''student_cold_quota_bytes'', j_opt_int (p_student_cold_quota_bytes (pl_row p))),
     (''image'', JStr (p_image (pl_row p))), (''ssh_port'', j_int (p_ssh_port (pl_row p))),
     (''container_options'', taskContainerOptions p)]"

definition enqueuePlacementCreate :: "'h ext \<Rightarrow> placement \<Rightarrow> string option \<Rightarrow> 'h world \<Rightarrow> 'h world" where
  "enqueuePlacementCreate X p actor w = enqueue X (pl_node_name p) ''lab.create'' (create_params p) actor w"

definition student_add_params :: "placement \<Rightarrow> string \<Rightarrow> int \<Rightarrow> string \<Rightarrow> json" where
  "student_add_params p username uid password = JObj [(''lab'', JStr (pl_lab_name p)), (''username'', JStr username),
     (''password'', JStr password), (''uid'', j_int uid), (''gid'', j_int uid),
     (''student_fast_quota_bytes'', j_opt_int (p_student_fast_quota_bytes (pl_row p))),
     (''student_cold_quota_bytes'', j_opt_int (p_student_cold_quota_bytes (pl_row p)))]"

definition PASSWORD_LEN :: nat where
  "PASSWORD_LEN = 14"

definition pm_lookup :: "nat \<Rightarrow> nat \<Rightarrow> 'h world \<Rightarrow> placement_member_row option" where
  "pm_lookup placementId studentId w =
     tbl_get (\<lambda>r. pm_placement_id r = placementId \<and> pm_student_id r = studentId) (placement_members w)"

text \<open>Returns the node's name when the student was provisioned, \<open>None\<close> when it already was.\<close>

definition provisionMemberOnPlacement ::
    "'h ext \<Rightarrow> placement \<Rightarrow> student_row \<Rightarrow> string option \<Rightarrow> 'h world \<Rightarrow> string option \<times> 'h world" where
  "provisionMemberOnPlacement X p s actor w =
     (case pm_lookup (p_id (pl_row p)) (s_id s) w of
        Some _ \<Rightarrow> (None, w)
      | None \<Rightarrow>
          let now = clock w;
              k = draws w;
              password = generatePassword X k PASSWORD_LEN;
              w = w\<lparr>draws := k + 2,
                    placement_members := tbl_insert (\<lambda>i. \<lparr>pm_id = i, pm_placement_id = p_id (pl_row p),
                      pm_student_id = s_id s, pm_state = MProvisioning, pm_last_error = None,
                      pm_created_at = now, pm_updated_at = now,
                      pm_credential_secret = Some (encryptSecret X (k + 1) password),
                      pm_credential_delivered_at = None\<rparr>) (placement_members w)\<rparr>
          in (Some (pl_node_name p),
              enqueue X (pl_node_name p) ''student.add''
                (student_add_params p (s_username s) (s_linux_uid s) password) actor w))"

record create_placement_input =
  ci_labId :: nat
  ci_nodeId :: nat
  ci_fastQuotaBytes :: int
  ci_coldQuotaBytes :: "int option"
  ci_studentFastQuotaBytes :: "int option"
  ci_studentColdQuotaBytes :: "int option"
  ci_sshPort :: int
  ci_image :: string
  ci_containerOptions :: container_options
  ci_actor :: "string option"

text \<open>\<open>mapping\<close>: the Docker user-namespace range a node reports, when both numbers are integers.\<close>

definition userns_mapping :: "jtext option \<Rightarrow> (int \<times> int) option" where
  "userns_mapping raw =
     (case (case raw of None \<Rightarrow> Some (JObj []) | Some t \<Rightarrow> json_parse t) of
        None \<Rightarrow> None
      | Some caps \<Rightarrow>
          (case jget ''runtime'' caps of
             None \<Rightarrow> None
           | Some runtime \<Rightarrow>
               (case (jint (jget ''userns_start'' runtime), jint (jget ''userns_size'' runtime)) of
                  (Some a, Some b) \<Rightarrow> Some (a, b)
                | _ \<Rightarrow> None)))"

text \<open>The assignment rules of an SMB client; \<open>None\<close> when they hold.\<close>

definition smb_client_error :: "nat \<Rightarrow> node_row \<Rightarrow> 'h world \<Rightarrow> error option" where
  "smb_client_error labId node w =
     (case n_cold_owner_node_id node of
        None \<Rightarrow> Some (PlacementE (SmbWithoutOwner (n_name node)))
      | Some ownerId \<Rightarrow>
          let named = (\<lambda>e. case node_by_id ownerId w of None \<Rightarrow> Some JsTypeError | Some owner \<Rightarrow> Some (PlacementE (e (n_name owner)))) in
          case tbl_get (\<lambda>p. p_lab_id p = labId \<and> p_node_id p = ownerId) (lab_placements w) of
            None \<Rightarrow> named GrantOwnerFirst
          | Some oplace \<Rightarrow>
              if p_state oplace \<noteq> PActive then named (\<lambda>o'. OwnerNotActive o' (p_state oplace))
              else if \<not> n_cold_ready node then Some (PlacementE (SmbMountNotActive (n_name node)))
              else case node_by_id ownerId w of
                None \<Rightarrow> Some JsTypeError
              | Some owner \<Rightarrow>
                  let c = userns_mapping (n_capabilities node); oc = userns_mapping (n_capabilities owner) in
                  if c = None \<or> oc = None \<or> c \<noteq> oc
                  then Some (PlacementE (UsernsMismatch (n_name node) (n_name owner)))
                  else None)"

definition quota_within :: "int option \<Rightarrow> int option \<Rightarrow> bool" where
  "quota_within q whole =
     (case (q, whole) of (Some x, Some t) \<Rightarrow> 0 < x \<and> x \<le> t | _ \<Rightarrow> True)"

text \<open>The checks before the INSERT: the cold quota and the per-student cold quota to store, or an error.\<close>

definition check_create :: "create_placement_input \<Rightarrow> node_row \<Rightarrow> 'h world \<Rightarrow> error + (int option \<times> int option)" where
  "check_create inp node w =
     (case validateContainerConfig (ci_image inp) (JObj (options_fields (ci_containerOptions inp))) of
        Some e \<Rightarrow> Inl (ConfigE e)
      | None \<Rightarrow>
          let smb = (n_cold_backend node = Smb);
              coldQuota = (if smb then None else ci_coldQuotaBytes inp);
              studentCold = (if smb then None else ci_studentColdQuotaBytes inp);
              pre = (if smb then smb_client_error (ci_labId inp) node w
                     else if coldQuota = None then Some (PlacementE ColdQuotaRequired) else None)
          in case pre of
               Some e \<Rightarrow> Inl e
             | None \<Rightarrow>
                 if \<not> quota_within (ci_studentFastQuotaBytes inp) (Some (ci_fastQuotaBytes inp))
                 then Inl (PlacementE BadStudentFastQuota)
                 else if \<not> quota_within studentCold coldQuota then Inl (PlacementE BadStudentColdQuota)
                 else Inr (coldQuota, studentCold))"

text \<open>The INSERT, with the constraints that no earlier check guards.\<close>

definition insert_placement ::
    "create_placement_input \<Rightarrow> int option \<Rightarrow> int option \<Rightarrow> (nat, 'h) op" where
  "insert_placement inp coldQuota studentCold w =
     (let now = clock w; ps = rows (lab_placements w) in
      if (\<exists>p \<in> set ps. p_lab_id p = ci_labId inp \<and> p_node_id p = ci_nodeId inp)
        then (Inl (SqliteConstraint ''UNIQUE lab_placements.lab_id, lab_placements.node_id''), w)
      else if (\<exists>p \<in> set ps. p_node_id p = ci_nodeId inp \<and> p_ssh_port p = ci_sshPort inp)
        then (Inl (SqliteConstraint ''UNIQUE lab_placements.node_id, lab_placements.ssh_port''), w)
      else if lab_by_id (ci_labId inp) w = None then (Inl (SqliteConstraint ''FOREIGN KEY''), w)
      else (Inr (tbl_next (lab_placements w)),
        w\<lparr>lab_placements := tbl_insert (\<lambda>i. \<lparr>p_id = i, p_lab_id = ci_labId inp, p_node_id = ci_nodeId inp,
            p_fast_quota_bytes = ci_fastQuotaBytes inp, p_cold_quota_bytes = coldQuota,
            p_ssh_port = ci_sshPort inp, p_image = ci_image inp,
            p_container_options = Some (JText (JObj (options_fields (ci_containerOptions inp)))),
            p_state = PProvisioning, p_last_error = None, p_usage_scanned_at = None, p_last_usage_scan = None,
            p_created_at = now, p_updated_at = now,
            p_student_fast_quota_bytes = ci_studentFastQuotaBytes inp, p_student_cold_quota_bytes = studentCold,
            p_completion_email_sent_at = None\<rparr>) (lab_placements w)\<rparr>))"

text \<open>\<open>lab_members JOIN students ... ORDER BY students.username\<close>.\<close>

definition roster :: "nat \<Rightarrow> 'h world \<Rightarrow> student_row list" where
  "roster labId w = sort_key s_username
     (List.map_filter (\<lambda>m. student_by_id (m_student_id m) w)
        (tbl_all (\<lambda>m. m_lab_id m = labId) (lab_members w)))"

definition createPlacement :: "'h ext \<Rightarrow> create_placement_input \<Rightarrow> (placement, 'h) op" where
  "createPlacement X inp w =
     (case node_by_id (ci_nodeId inp) w of
        None \<Rightarrow> (Inl (PlacementE UnknownNode), w)
      | Some node \<Rightarrow>
          (case check_create inp node w of
             Inl e \<Rightarrow> (Inl e, w)
           | Inr (coldQuota, studentCold) \<Rightarrow>
               and_then (insert_placement inp coldQuota studentCold w) (\<lambda>i w.
                 case getPlacement i w of
                   None \<Rightarrow> (Inl JsTypeError, w)
                 | Some p \<Rightarrow>
                     let w = enqueuePlacementCreate X p (ci_actor inp) w;
                         w = audit (ci_actor inp) ''placement.create'' (Some (at_node p)) None w;
                         w = fold (\<lambda>s w. snd (provisionMemberOnPlacement X p s (ci_actor inp) w))
                               (roster (ci_labId inp) w) w
                     in (Inr p, w))))"

section \<open>Members and credentials\<close>

text \<open>A placement member joined with its student.\<close>

record placement_member =
  mv_student :: student_row
  mv_pm :: placement_member_row

definition members_of :: "nat \<Rightarrow> 'h world \<Rightarrow> placement_member list" where
  "members_of placementId w =
     sort_key (\<lambda>v. s_username (mv_student v))
       (List.map_filter (\<lambda>r. map_option (\<lambda>s. \<lparr>mv_student = s, mv_pm = r\<rparr>) (student_by_id (pm_student_id r) w))
          (tbl_all (\<lambda>r. pm_placement_id r = placementId) (placement_members w)))"

record member_listing =
  ml_student :: student_row
  ml_state :: member_state
  ml_last_error :: "string option"
  ml_credential_available :: bool
  ml_updated_at :: int

definition listPlacementMembers :: "nat \<Rightarrow> 'h world \<Rightarrow> member_listing list" where
  "listPlacementMembers placementId w =
     map (\<lambda>v. \<lparr>ml_student = mv_student v, ml_state = pm_state (mv_pm v), ml_last_error = pm_last_error (mv_pm v),
        ml_credential_available = (pm_credential_secret (mv_pm v) \<noteq> None), ml_updated_at = pm_updated_at (mv_pm v)\<rparr>)
       (members_of placementId w)"

text \<open>The five-way join on a placement member: its student, placement, lab and node.\<close>

record credential_row =
  cr_pm :: placement_member_row
  cr_student :: student_row
  cr_placement :: placement_row
  cr_lab :: lab_row
  cr_node :: node_row

definition credential_join :: "'h world \<Rightarrow> placement_member_row \<Rightarrow> credential_row option" where
  "credential_join w r =
     (case (student_by_id (pm_student_id r) w, tbl_get (\<lambda>p. p_id p = pm_placement_id r) (lab_placements w)) of
        (Some s, Some p) \<Rightarrow>
          (case (lab_by_id (p_lab_id p) w, node_by_id (p_node_id p) w) of
             (Some l, Some n) \<Rightarrow> Some \<lparr>cr_pm = r, cr_student = s, cr_placement = p, cr_lab = l, cr_node = n\<rparr>
           | _ \<Rightarrow> None)
      | _ \<Rightarrow> None)"

definition credential_select :: "'h world \<Rightarrow> credential_row list" where
  "credential_select w = List.map_filter (credential_join w) (rows (placement_members w))"

definition pendingCredential :: "string \<Rightarrow> string \<Rightarrow> string \<Rightarrow> 'h world \<Rightarrow> credential_row option" where
  "pendingCredential labName nodeName username w =
     List.find (\<lambda>c. l_name (cr_lab c) = labName \<and> n_name (cr_node c) = nodeName \<and> s_username (cr_student c) = username)
       (credential_select w)"

text \<open>\<open>alias?.trim()\<close> with the missing alias as the empty string.\<close>

definition alias_trim :: "string option \<Rightarrow> string" where
  "alias_trim a = (case a of None \<Rightarrow> [] | Some x \<Rightarrow> trim x)"

text \<open>Up to the call of the mailer: the member id to settle, and the mail. \<open>None\<close> returns false.\<close>

definition deliver_begin :: "'h ext \<Rightarrow> string \<Rightarrow> string \<Rightarrow> string \<Rightarrow> 'h world \<Rightarrow> nat option \<times> 'h world" where
  "deliver_begin X labName nodeName username w =
     (case pendingCredential labName nodeName username w of
        None \<Rightarrow> (None, w)
      | Some c \<Rightarrow>
          (case (pm_credential_secret (cr_pm c), s_email (cr_student c)) of
             (Some secret, Some email) \<Rightarrow>
               if pm_state (cr_pm c) \<noteq> MActive \<or> secret = [] \<or> email = [] then (None, w)
               else let password = decryptSecret X secret; al = alias_trim (n_alias (cr_node c)) in
               if password = [] then (None, w)
               else (Some (pm_id (cr_pm c)),
                 send_mail (CredentialMail email (s_name (cr_student c)) (s_username (cr_student c)) password
                   (n_name (cr_node c)) (p_ssh_port (cr_placement c)) (l_name (cr_lab c))
                   (or_else al (n_name (cr_node c))) al (s_student_id (cr_student c))) w)
           | _ \<Rightarrow> (None, w)))"

definition burn_credential :: "nat \<Rightarrow> 'h world \<Rightarrow> 'h world" where
  "burn_credential memberId w =
     upd_pm memberId (\<lambda>r. r\<lparr>pm_credential_secret := None, pm_credential_delivered_at := Some (clock w)\<rparr>) w"

definition deliver_finish :: "nat \<Rightarrow> bool \<Rightarrow> 'h world \<Rightarrow> bool \<times> 'h world" where
  "deliver_finish memberId sent w = (if \<not> sent then (False, w) else (True, burn_credential memberId w))"

definition deliverPlacementCredential ::
    "'h ext \<Rightarrow> (mail \<Rightarrow> bool) \<Rightarrow> string \<Rightarrow> string \<Rightarrow> string \<Rightarrow> 'h world \<Rightarrow> bool \<times> 'h world" where
  "deliverPlacementCredential X sent labName nodeName username w =
     (case deliver_begin X labName nodeName username w of
        (None, w) \<Rightarrow> (False, w)
      | (Some memberId, w) \<Rightarrow> deliver_finish memberId (sent (last (outbox w))) w)"

definition completion_begin :: "string \<Rightarrow> string \<Rightarrow> 'h world \<Rightarrow> nat option \<times> 'h world" where
  "completion_begin labName nodeName w =
     (case getPlacementByLabNode labName nodeName w of
        None \<Rightarrow> (None, w)
      | Some p \<Rightarrow>
          let r = pl_row p; l = lab_by_id (p_lab_id r) w;
              pi_row = (case l of None \<Rightarrow> None | Some l \<Rightarrow> (case l_pi_student_id l of None \<Rightarrow> None | Some i \<Rightarrow> student_by_id i w));
              email = (case l of None \<Rightarrow> [] | Some l \<Rightarrow> (case l_pi_email l of None \<Rightarrow> [] | Some e \<Rightarrow> e));
              pi_name = (case l of None \<Rightarrow> [] | Some l \<Rightarrow> (case l_pi_name l of None \<Rightarrow> [] | Some e \<Rightarrow> e));
              pi_username = (case pi_row of None \<Rightarrow> [] | Some s \<Rightarrow> s_username s);
              alias = (case node_by_id (p_node_id r) w of None \<Rightarrow> [] | Some n \<Rightarrow> alias_trim (n_alias n));
              members = members_of (p_id r) w
          in if p_state r \<noteq> PActive \<or> p_completion_email_sent_at r \<noteq> None \<or> email = [] \<or> pi_username = [] then (None, w)
             else if members = [] \<or> \<not> list_all (\<lambda>v. pm_state (mv_pm v) = MActive) members then (None, w)
             else (Some (p_id r),
               send_mail (CompletionMail email (or_else pi_name pi_username) labName (or_else alias nodeName)
                   (map (\<lambda>v. s_username (mv_student v)) members) (p_fast_quota_bytes r) (p_cold_quota_bytes r)
                   (p_student_fast_quota_bytes r) (p_student_cold_quota_bytes r))
                 (w\<lparr>lab_placements := tbl_update (\<lambda>q. p_id q = p_id r \<and> p_completion_email_sent_at q = None)
                     (\<lambda>q. q\<lparr>p_completion_email_sent_at := Some (-1)\<rparr>) (lab_placements w)\<rparr>)))"

definition completion_finish :: "nat \<Rightarrow> bool \<Rightarrow> 'h world \<Rightarrow> bool \<times> 'h world" where
  "completion_finish i sent w =
     (sent, upd_placement i (\<lambda>p. p\<lparr>p_completion_email_sent_at := (if sent then Some (clock w) else None)\<rparr>) w)"

definition maybeDeliverPlacementCompletion ::
    "(mail \<Rightarrow> bool) \<Rightarrow> string \<Rightarrow> string \<Rightarrow> 'h world \<Rightarrow> bool \<times> 'h world" where
  "maybeDeliverPlacementCompletion sent labName nodeName w =
     (case completion_begin labName nodeName w of
        (None, w) \<Rightarrow> (False, w)
      | (Some i, w) \<Rightarrow> completion_finish i (sent (last (outbox w))) w)"

definition consumePlacementCredential ::
    "'h ext \<Rightarrow> nat \<Rightarrow> nat \<Rightarrow> string option \<Rightarrow> (string \<times> string, 'h) op" where
  "consumePlacementCredential X placementId studentId actor w =
     (case List.find (\<lambda>c. pm_placement_id (cr_pm c) = placementId \<and> pm_student_id (cr_pm c) = studentId)
            (credential_select w) of
        None \<Rightarrow> (Inl (PlacementE CredentialNotReady), w)
      | Some c \<Rightarrow>
          if pm_state (cr_pm c) \<noteq> MActive then (Inl (PlacementE CredentialNotReady), w)
          else case pm_credential_secret (cr_pm c) of
            None \<Rightarrow> (Inl (PlacementE CredentialConsumed), w)
          | Some secret \<Rightarrow>
              if secret = [] then (Inl (PlacementE CredentialConsumed), w)
              else let password = decryptSecret X secret; user = s_username (cr_student c) in
              if password = [] then (Inl (PlacementE CredentialUndecryptable), w)
              else (Inr (user, password),
                audit actor ''placement.credential_reveal''
                  (Some (l_name (cr_lab c) @ ''/'' @ user @ ''@'' @ n_name (cr_node c))) None
                  (burn_credential (pm_id (cr_pm c)) w)))"

section \<open>Removing a member\<close>

definition removal_params :: "placement \<Rightarrow> string \<Rightarrow> bool \<Rightarrow> (string \<times> string list) option \<Rightarrow> json" where
  "removal_params p username deleteData removal =
     JObj ([(''lab'', JStr (pl_lab_name p)), (''username'', JStr username), (''delete_data'', JBool deleteData)] @
       (case removal of None \<Rightarrow> []
        | Some (i, ns) \<Rightarrow> [(''removal_id'', JStr i), (''cold_cleanup_nodes'', JArr (map JStr ns))]))"

definition removeMemberFromPlacement ::
    "'h ext \<Rightarrow> placement \<Rightarrow> nat \<Rightarrow> string \<Rightarrow> bool \<Rightarrow> string option \<Rightarrow> (string \<times> string list) option \<Rightarrow>
     'h world \<Rightarrow> 'h world" where
  "removeMemberFromPlacement X p studentId username deleteData actor removal w =
     (let w = enqueue X (pl_node_name p) ''student.remove'' (removal_params p username deleteData removal) actor w in
      w\<lparr>placement_members := tbl_delete (\<lambda>r. pm_placement_id r = p_id (pl_row p) \<and> pm_student_id r = studentId)
          (placement_members w)\<rparr>)"

text \<open>\<open>json_extract(params, '$.removal_id')\<close>.\<close>

definition removal_id_of :: "task_row \<Rightarrow> string option" where
  "removal_id_of t = (case t_params t of Some (JText j) \<Rightarrow> jstr (jget ''removal_id'' j) | _ \<Rightarrow> None)"

definition str_field :: "string \<Rightarrow> json \<Rightarrow> string" where
  "str_field k j = (case jstr (jget k j) of Some s \<Rightarrow> s | None \<Rightarrow> [])"

definition str_list_field :: "string \<Rightarrow> json \<Rightarrow> string list" where
  "str_list_field k j = (case jget k j of Some (JArr xs) \<Rightarrow> List.map_filter (\<lambda>x. jstr (Some x)) xs | _ \<Rightarrow> [])"

definition cleanup_node :: "'h ext \<Rightarrow> json \<Rightarrow> string option \<Rightarrow> string \<Rightarrow> 'h world \<Rightarrow> 'h world" where
  "cleanup_node X params requestedBy node w =
     (if (\<exists>t \<in> set (rows (task_log w)). t_node t = node \<and> t_action t = ''student.delete_cold'' \<and>
            removal_id_of t = Some (str_field ''removal_id'' params))
      then w
      else enqueue X node ''student.delete_cold''
        (JObj [(''lab'', JStr (str_field ''lab'' params)), (''username'', JStr (str_field ''username'' params)),
               (''removal_id'', JStr (str_field ''removal_id'' params))]) requestedBy w)"

definition completeStudentRemoval :: "'h ext \<Rightarrow> string \<Rightarrow> 'h world \<Rightarrow> 'h world" where
  "completeStudentRemoval X taskUuid w =
     (case tbl_get (\<lambda>t. t_uuid t = taskUuid \<and> t_action t = ''student.remove'' \<and> t_state t = TOk) (task_log w) of
        None \<Rightarrow> w
      | Some task \<Rightarrow>
          (case t_params task of
             Some (JText params) \<Rightarrow>
               if str_field ''removal_id'' params = [] \<or> str_field ''lab'' params = [] \<or> str_field ''username'' params = []
               then w
               else if (\<exists>t \<in> set (rows (task_log w)). t_action t = ''student.remove'' \<and>
                     removal_id_of t = Some (str_field ''removal_id'' params) \<and> t_state t \<noteq> TOk)
               then w
               else fold (cleanup_node X params (t_requested_by task))
                      (js_set (str_list_field ''cold_cleanup_nodes'' params)) w
           | _ \<Rightarrow> w))"

section \<open>Quota, recreate, retry\<close>

text \<open>\<open>sizeOf\<close>: a pool's size when it is a number.\<close>

definition pool_size :: "json option \<Rightarrow> json option" where
  "pool_size p = (case p of None \<Rightarrow> None
     | Some j \<Rightarrow> (case jget ''size'' j of Some (JNum r) \<Rightarrow> Some (JNum r) | Some (JInf b) \<Rightarrow> Some (JInf b) | _ \<Rightarrow> None))"

definition nth_opt :: "'a list \<Rightarrow> nat \<Rightarrow> 'a option" where
  "nth_opt xs i = (if i < length xs then Some (xs ! i) else None)"

definition nodePoolCapacityBytes :: "nat \<Rightarrow> 'h world \<Rightarrow> json option \<times> json option" where
  "nodePoolCapacityBytes nodeId w =
     (case node_by_id nodeId w of
        None \<Rightarrow> (None, None)
      | Some n \<Rightarrow>
          (case n_pools n of
             Some (JText (JArr arr)) \<Rightarrow> (pool_size (nth_opt arr 0), pool_size (nth_opt arr 1))
           | _ \<Rightarrow> (None, None)))"

text \<open>\<open>q > capacity\<close> where a missing capacity skips the check.\<close>

definition exceeds :: "int \<Rightarrow> json option \<Rightarrow> bool" where
  "exceeds q cap = (case cap of Some (JNum r) \<Rightarrow> r < of_int q | Some (JInf b) \<Rightarrow> \<not> b | _ \<Rightarrow> False)"

text \<open>An optional field of an input object: \<open>None\<close> is \<open>undefined\<close>, \<open>Some None\<close> is \<open>null\<close>.\<close>

record quota_input =
  qi_fast :: "int option"
  qi_cold :: "int option option"

definition quota_params :: "placement \<Rightarrow> quota_input \<Rightarrow> json" where
  "quota_params p inp = JObj ([(''lab'', JStr (pl_lab_name p))] @
     (case qi_fast inp of None \<Rightarrow> [] | Some q \<Rightarrow> [(''fast_quota_bytes'', j_int q)]) @
     (case qi_cold inp of Some (Some q) \<Rightarrow> [(''slow_quota_bytes'', j_int q)] | _ \<Rightarrow> []))"

definition updatePlacementQuota :: "'h ext \<Rightarrow> nat \<Rightarrow> quota_input \<Rightarrow> string option \<Rightarrow> (unit, 'h) op" where
  "updatePlacementQuota X i inp actor w =
     (case getPlacement i w of
        None \<Rightarrow> (Inl (PlacementE UnknownPlacement), w)
      | Some p \<Rightarrow>
          let (fastBytes, coldBytes) = nodePoolCapacityBytes (p_node_id (pl_row p)) w in
          case (case qi_fast inp of Some q \<Rightarrow> if exceeds q fastBytes then Some (FastQuotaExceedsPool q (pl_node_name p) (the fastBytes)) else None
                | None \<Rightarrow> None) of
            Some e \<Rightarrow> (Inl (PlacementE e), w)
          | None \<Rightarrow>
          case (case qi_cold inp of Some (Some q) \<Rightarrow> if exceeds q coldBytes then Some (ColdQuotaExceedsPool q (pl_node_name p) (the coldBytes)) else None
                | _ \<Rightarrow> None) of
            Some e \<Rightarrow> (Inl (PlacementE e), w)
          | None \<Rightarrow>
            let params = quota_params p inp;
                w = (case qi_fast inp of None \<Rightarrow> w | Some q \<Rightarrow> upd_placement i (\<lambda>r. r\<lparr>p_fast_quota_bytes := q\<rparr>) w);
                w = (case qi_cold inp of None \<Rightarrow> w | Some c \<Rightarrow> upd_placement i (\<lambda>r. r\<lparr>p_cold_quota_bytes := c\<rparr>) w);
                w = touch i w;
                w = enqueue X (pl_node_name p) ''lab.set_quota'' params actor w
            in (Inr (), audit actor ''placement.set_quota'' (Some (at_node p)) (Some (json_stringify X params)) w))"

definition reprovision_member :: "'h ext \<Rightarrow> placement \<Rightarrow> string option \<Rightarrow> placement_member \<Rightarrow> 'h world \<Rightarrow> 'h world" where
  "reprovision_member X p actor v w =
     (let k = draws w; now = clock w;
          password = generatePassword X k PASSWORD_LEN;
          w = upd_pm (pm_id (mv_pm v)) (\<lambda>r. r\<lparr>pm_state := MProvisioning, pm_last_error := None,
                pm_credential_secret := Some (encryptSecret X (k + 1) password), pm_updated_at := now\<rparr>)
                (w\<lparr>draws := k + 2\<rparr>)
      in enqueue X (pl_node_name p) ''student.add''
           (student_add_params p (s_username (mv_student v)) (s_linux_uid (mv_student v)) password) actor w)"

definition reprovisionPlacementMembers :: "'h ext \<Rightarrow> placement \<Rightarrow> string option \<Rightarrow> 'h world \<Rightarrow> 'h world" where
  "reprovisionPlacementMembers X p actor w = fold (reprovision_member X p actor) (members_of (p_id (pl_row p)) w) w"

record recreate_input =
  ri_image :: "string option"
  ri_containerOptions :: "container_options option"
  ri_studentFastQuotaBytes :: "int option option"
  ri_studentColdQuotaBytes :: "int option option"

definition check_recreate :: "placement \<Rightarrow> recreate_input \<Rightarrow> error option" where
  "check_recreate p inp =
     (let r = pl_row p;
          img = (case ri_image inp of Some x \<Rightarrow> x | None \<Rightarrow> p_image r);
          opts = (case ri_containerOptions inp of Some x \<Rightarrow> JObj (options_fields x) | None \<Rightarrow> containerOptionsOf (p_container_options r));
          fast = (case ri_studentFastQuotaBytes inp of Some x \<Rightarrow> x | None \<Rightarrow> None);
          cold = (case ri_studentColdQuotaBytes inp of Some x \<Rightarrow> x | None \<Rightarrow> None)
      in case validateContainerConfig img opts of
           Some e \<Rightarrow> Some (ConfigE e)
         | None \<Rightarrow>
             if \<not> quota_within fast (Some (p_fast_quota_bytes r)) then Some (PlacementE BadStudentFastQuota)
             else if pl_node_cold_backend p = Smb \<and> cold \<noteq> None then Some (PlacementE StudentColdOwnerManaged)
             else if \<not> quota_within cold (p_cold_quota_bytes r) then Some (PlacementE BadStudentColdQuota)
             else None)"

text \<open>The UPDATE statements of \<open>recreatePlacement\<close>, on one row.\<close>

definition recreate_row :: "recreate_input \<Rightarrow> int \<Rightarrow> placement_row \<Rightarrow> placement_row" where
  "recreate_row inp now r =
     (let r = (case ri_image inp of Some x \<Rightarrow> r\<lparr>p_image := x\<rparr> | None \<Rightarrow> r);
          r = (case ri_containerOptions inp of Some x \<Rightarrow> r\<lparr>p_container_options := Some (JText (JObj (options_fields x)))\<rparr> | None \<Rightarrow> r);
          r = (case ri_studentFastQuotaBytes inp of Some x \<Rightarrow> r\<lparr>p_student_fast_quota_bytes := x\<rparr> | None \<Rightarrow> r);
          r = (case ri_studentColdQuotaBytes inp of Some x \<Rightarrow> r\<lparr>p_student_cold_quota_bytes := x\<rparr> | None \<Rightarrow> r)
      in r\<lparr>p_updated_at := now, p_completion_email_sent_at := None\<rparr>)"

definition recreate_params :: "placement \<Rightarrow> json" where
  "recreate_params p = JObj [(''lab'', JStr (pl_lab_name p)), (''image'', JStr (p_image (pl_row p))),
     (''ssh_port'', j_int (p_ssh_port (pl_row p))), (''container_options'', taskContainerOptions p),
     (''student_fast_quota_bytes'', j_opt_int (p_student_fast_quota_bytes (pl_row p))),
     (''student_cold_quota_bytes'', j_opt_int (p_student_cold_quota_bytes (pl_row p)))]"

definition recreatePlacement :: "'h ext \<Rightarrow> nat \<Rightarrow> recreate_input \<Rightarrow> string option \<Rightarrow> (unit, 'h) op" where
  "recreatePlacement X i inp actor w =
     (case getPlacement i w of
        None \<Rightarrow> (Inl (PlacementE UnknownPlacement), w)
      | Some p \<Rightarrow>
          (case check_recreate p inp of
             Some e \<Rightarrow> (Inl e, w)
           | None \<Rightarrow>
               let w = upd_placement i (recreate_row inp (clock w)) w in
               case getPlacement i w of
                 None \<Rightarrow> (Inl JsTypeError, w)
               | Some fresh \<Rightarrow>
                   let w = enqueue X (pl_node_name fresh) ''container.recreate'' (recreate_params fresh) actor w;
                       w = reprovisionPlacementMembers X fresh actor w
                   in (Inr (), audit actor ''placement.recreate'' (Some (at_node fresh)) None w)))"

definition retryPlacement :: "'h ext \<Rightarrow> nat \<Rightarrow> string option \<Rightarrow> (unit, 'h) op" where
  "retryPlacement X i actor w =
     (case getPlacement i w of
        None \<Rightarrow> (Inl (PlacementE UnknownPlacement), w)
      | Some p \<Rightarrow>
          if p_state (pl_row p) \<noteq> PFailed then (Inl (PlacementE OnlyFailedRetried), w)
          else
            let w = upd_placement i (\<lambda>r. r\<lparr>p_state := PProvisioning, p_last_error := None, p_updated_at := clock w\<rparr>) w;
                w = enqueuePlacementCreate X p actor w
            in (Inr (), audit actor ''placement.retry'' (Some (at_node p)) None w))"

section \<open>Teardown\<close>

definition smb_dependents :: "placement \<Rightarrow> 'h world \<Rightarrow> string list" where
  "smb_dependents p w =
     List.map_filter (\<lambda>lp. case node_by_id (p_node_id lp) w of
          None \<Rightarrow> None
        | Some n \<Rightarrow> if n_cold_owner_node_id n = Some (p_node_id (pl_row p)) then Some (n_name n) else None)
       (tbl_all (\<lambda>lp. p_lab_id lp = p_lab_id (pl_row p) \<and> p_state lp \<noteq> PDeleting) (lab_placements w))"

definition assertNoSmbDependents :: "placement \<Rightarrow> 'h world \<Rightarrow> error option" where
  "assertNoSmbDependents p w =
     (if pl_node_cold_backend p \<noteq> LocalZfs then None
      else let dependents = smb_dependents p w in
        if dependents \<noteq> [] then Some (PlacementE (OwnsSharedCold (pl_lab_name p) (pl_node_name p) dependents)) else None)"

definition destroy_params :: "placement \<Rightarrow> json" where
  "destroy_params p = JObj [(''lab'', JStr (pl_lab_name p))]"

definition destroyPlacement :: "'h ext \<Rightarrow> nat \<Rightarrow> string option \<Rightarrow> (unit, 'h) op" where
  "destroyPlacement X i actor w =
     (case getPlacement i w of
        None \<Rightarrow> (Inr (), w)
      | Some p \<Rightarrow>
          (case assertNoSmbDependents p w of
             Some e \<Rightarrow> (Inl e, w)
           | None \<Rightarrow>
               let w = upd_placement i (\<lambda>r. r\<lparr>p_state := PDeleting, p_updated_at := clock w\<rparr>) w;
                   w = enqueue X (pl_node_name p) ''lab.destroy'' (destroy_params p) actor w
               in (Inr (), audit actor ''placement.destroy'' (Some (at_node p)) None w)))"

definition forceDeletePlacement :: "'h ext \<Rightarrow> nat \<Rightarrow> string option \<Rightarrow> (unit, 'h) op" where
  "forceDeletePlacement X i actor w =
     (case getPlacement i w of
        None \<Rightarrow> (Inr (), w)
      | Some p \<Rightarrow>
          if pl_online p then (Inl (PlacementE (NodeIsOnline (pl_node_name p))), w)
          else (case assertNoSmbDependents p w of
             Some e \<Rightarrow> (Inl e, w)
           | None \<Rightarrow>
               let w = enqueue X (pl_node_name p) ''lab.destroy'' (destroy_params p) actor w;
                   w = delete_placements (\<lambda>r. p_id r = i) w
               in (Inr (), audit actor ''placement.force_delete'' (Some (at_node p)) None w)))"

section \<open>Results from the agent\<close>

definition markPlacementState :: "nat \<Rightarrow> placement_state \<Rightarrow> string option \<Rightarrow> 'h world \<Rightarrow> 'h world" where
  "markPlacementState i state lastError w =
     upd_placement i (\<lambda>r. r\<lparr>p_state := state, p_last_error := lastError, p_updated_at := clock w\<rparr>) w"

definition markPlacementStateByLabNode ::
    "string \<Rightarrow> string \<Rightarrow> placement_state \<Rightarrow> string option \<Rightarrow> 'h world \<Rightarrow> 'h world" where
  "markPlacementStateByLabNode labName nodeName state lastError w =
     (case getPlacementByLabNode labName nodeName w of
        None \<Rightarrow> w
      | Some p \<Rightarrow> markPlacementState (p_id (pl_row p)) state lastError w)"

definition markPlacementMemberState ::
    "string \<Rightarrow> string \<Rightarrow> string \<Rightarrow> member_state \<Rightarrow> string option \<Rightarrow> 'h world \<Rightarrow> 'h world" where
  "markPlacementMemberState labName nodeName username state lastError w =
     (case pendingCredential labName nodeName username w of
        None \<Rightarrow> w
      | Some c \<Rightarrow> upd_pm (pm_id (cr_pm c))
          (\<lambda>r. r\<lparr>pm_state := state, pm_last_error := lastError, pm_updated_at := clock w\<rparr>) w)"

definition confirmPlacementDestroyed :: "string \<Rightarrow> string \<Rightarrow> 'h world \<Rightarrow> 'h world" where
  "confirmPlacementDestroyed labName nodeName w =
     (case getPlacementByLabNode labName nodeName w of
        None \<Rightarrow> w
      | Some p \<Rightarrow>
          if p_state (pl_row p) = PDeleting then delete_placements (\<lambda>r. p_id r = p_id (pl_row p)) w else w)"

end
