(* ===== verification/Placement_Facts.thy ===== *)
theory Placement_Facts
  imports Placements
begin

text \<open>
  Facts about the placement operations: the joins under the schema invariant, the tables each
  operation writes, preservation of \<open>schema_ok\<close> and \<open>cold_ok\<close>, SSH-port allocation, the life of a
  credential, and the protection of a shared cold store.
\<close>

section \<open>Joins\<close>

lemma map_filter_cong: "(\<And>x. x \<in> set xs \<Longrightarrow> f x = g x) \<Longrightarrow> List.map_filter f xs = List.map_filter g xs"
  by (induction xs) (auto simp: List.map_filter_simps split: option.splits)

lemma find_SomeD: "List.find P xs = Some x \<Longrightarrow> x \<in> set xs \<and> P x"
  by (auto simp: find_Some_iff)

lemma by_id_Some:
  "lab_by_id i w = Some l \<Longrightarrow> l \<in> set (rows (labs w)) \<and> l_id l = i"
  "node_by_id i w = Some n \<Longrightarrow> n \<in> set (rows (nodes w)) \<and> n_id n = i"
  "student_by_id i w = Some s \<Longrightarrow> s \<in> set (rows (students w)) \<and> s_id s = i"
  by (auto simp: lab_by_id_def node_by_id_def student_by_id_def dest: tbl_get_Some)

lemma by_id_mem:
  assumes "schema_ok w"
  shows "l \<in> set (rows (labs w)) \<Longrightarrow> lab_by_id (l_id l) w = Some l"
    "n \<in> set (rows (nodes w)) \<Longrightarrow> node_by_id (n_id n) w = Some n"
    "s \<in> set (rows (students w)) \<Longrightarrow> student_by_id (s_id s) w = Some s"
  using assms by (simp_all add: lab_by_id_def node_by_id_def student_by_id_def pk_get schema_pk)

lemma by_id_frame:
  "labs w' = labs w \<Longrightarrow> lab_by_id i w' = lab_by_id i w"
  "nodes w' = nodes w \<Longrightarrow> node_by_id i w' = node_by_id i w"
  "students w' = students w \<Longrightarrow> student_by_id i w' = student_by_id i w"
  by (simp_all add: lab_by_id_def node_by_id_def student_by_id_def)

lemma placement_join_Some:
  assumes "placement_join w p = Some v"
  shows "pl_row v = p"
    and "\<exists>l \<in> set (rows (labs w)). l_id l = p_lab_id p \<and> pl_lab_name v = l_name l"
    and "\<exists>n \<in> set (rows (nodes w)). n_id n = p_node_id p \<and> pl_node_name v = n_name n \<and> pl_online v = n_online n \<and>
       pl_node_cold_backend v = n_cold_backend n \<and> pl_node_cold_owner_node_id v = n_cold_owner_node_id n"
  using assms by (auto simp: placement_join_def split: option.splits dest!: by_id_Some)

lemma placement_join_total:
  assumes "schema_ok w" "p \<in> set (rows (lab_placements w))"
  shows "\<exists>v. placement_join w p = Some v"
proof -
  obtain l where l: "l \<in> set (rows (labs w))" "l_id l = p_lab_id p"
    using schema_placement_refs(1) [OF assms] by auto
  obtain n where n: "n \<in> set (rows (nodes w))" "n_id n = p_node_id p"
    using schema_placement_refs(2) [OF assms] by auto
  show ?thesis using by_id_mem(1) [OF assms(1) l(1)] by_id_mem(2) [OF assms(1) n(1)] l n
    by (simp add: placement_join_def)
qed

lemma set_placement_select:
  "v \<in> set (placement_select w) \<longleftrightarrow> pl_row v \<in> set (rows (lab_placements w)) \<and> placement_join w (pl_row v) = Some v"
  by (auto simp: placement_select_def set_map_filter dest: placement_join_Some(1))

lemma placement_rows:
  assumes "schema_ok w" shows "map pl_row (placement_select w) = rows (lab_placements w)"
proof -
  have "map pl_row (List.map_filter (placement_join w) ps) = ps" if "set ps \<subseteq> set (rows (lab_placements w))" for ps
    using that
  proof (induction ps)
    case (Cons p ps)
    then obtain v where "placement_join w p = Some v" using placement_join_total [OF assms, of p] by auto
    with Cons placement_join_Some(1) show ?case by (auto simp: List.map_filter_simps)
  qed (simp add: List.map_filter_simps)
  then show ?thesis by (simp add: placement_select_def)
qed

lemma getPlacement_Some:
  assumes "getPlacement i w = Some v"
  shows "v \<in> set (placement_select w)" "pl_row v \<in> set (rows (lab_placements w))" "p_id (pl_row v) = i"
    "placement_join w (pl_row v) = Some v"
  using assms by (auto simp: getPlacement_def set_placement_select dest!: find_SomeD)

lemma getPlacement_total:
  assumes "schema_ok w" "p \<in> set (rows (lab_placements w))"
  shows "\<exists>v. getPlacement (p_id p) w = Some v \<and> pl_row v = p \<and> placement_join w p = Some v"
proof -
  obtain v where v: "placement_join w p = Some v" using placement_join_total [OF assms] by blast
  then have pv: "pl_row v = p" by (rule placement_join_Some(1))
  with v assms(2) have "v \<in> set (placement_select w)" by (simp add: set_placement_select)
  then obtain u where u: "getPlacement (p_id p) w = Some u"
    using pv unfolding getPlacement_def
    by (cases "List.find (\<lambda>q. p_id (pl_row q) = p_id p) (placement_select w)") (auto simp: find_None_iff)
  have "pl_row u = p"
    using getPlacement_Some [OF u] pk_unique [OF schema_pk(5) [OF assms(1)] _ assms(2)] by auto
  with getPlacement_Some(4) [OF u] v u show ?thesis by auto
qed

lemma getPlacementByLabNode_Some:
  assumes "getPlacementByLabNode lab node w = Some v"
  shows "v \<in> set (placement_select w)" "pl_row v \<in> set (rows (lab_placements w))"
    "pl_lab_name v = lab" "pl_node_name v = node" "placement_join w (pl_row v) = Some v"
  using assms by (auto simp: getPlacementByLabNode_def set_placement_select dest!: find_SomeD)

lemma listPlacements_rows:
  assumes "schema_ok w"
  shows "pl_row ` set (listPlacements labId w) = {p \<in> set (rows (lab_placements w)). p_lab_id p = labId}"
proof -
  have "pl_row ` {v \<in> set (placement_select w). p_lab_id (pl_row v) = labId}
      = {p \<in> pl_row ` set (placement_select w). p_lab_id p = labId}" by auto
  also have "pl_row ` set (placement_select w) = set (rows (lab_placements w))"
    using placement_rows [OF assms] by (metis list.set_map)
  finally show ?thesis by (simp add: listPlacements_def)
qed

lemma listPlacements_mem:
  "v \<in> set (listPlacements labId w) \<Longrightarrow> v \<in> set (placement_select w) \<and> p_lab_id (pl_row v) = labId"
  by (simp add: listPlacements_def)

lemma roster_ids:
  assumes "schema_ok w"
  shows "s_id ` set (roster labId w) = {m_student_id m | m. m \<in> set (rows (lab_members w)) \<and> m_lab_id m = labId}"
proof -
  have *: "\<exists>s. student_by_id (m_student_id m) w = Some s \<and> s_id s = m_student_id m" if m: "m \<in> set (rows (lab_members w))" for m
  proof -
    obtain s where "s \<in> set (rows (students w))" "s_id s = m_student_id m"
      using schema_member_refs(2) [OF assms m] by auto
    with by_id_mem(3) [OF assms this(1)] show ?thesis by auto
  qed
  show ?thesis
  proof (intro set_eqI iffI)
    fix i assume "i \<in> s_id ` set (roster labId w)"
    then show "i \<in> {m_student_id m | m. m \<in> set (rows (lab_members w)) \<and> m_lab_id m = labId}"
      by (auto simp: roster_def set_map_filter tbl_all_def dest: by_id_Some(3))
  next
    fix i assume "i \<in> {m_student_id m | m. m \<in> set (rows (lab_members w)) \<and> m_lab_id m = labId}"
    then obtain m where m: "m \<in> set (rows (lab_members w))" "m_lab_id m = labId" "i = m_student_id m" by auto
    obtain s where "student_by_id (m_student_id m) w = Some s" "s_id s = m_student_id m" using * [OF m(1)] by blast
    with m have "s \<in> set (roster labId w)" by (auto simp: roster_def set_map_filter tbl_all_def)
    with \<open>s_id s = m_student_id m\<close> m show "i \<in> s_id ` set (roster labId w)" by force
  qed
qed

lemma roster_students: "s \<in> set (roster labId w) \<Longrightarrow> s \<in> set (rows (students w))"
  by (auto simp: roster_def set_map_filter dest: by_id_Some(3))

section \<open>Tables written\<close>

lemma upd_placement_frame [frame_simps, simp]:
  "nodes (upd_placement i f w) = nodes w" "students (upd_placement i f w) = students w"
  "labs (upd_placement i f w) = labs w" "lab_members (upd_placement i f w) = lab_members w"
  "placement_members (upd_placement i f w) = placement_members w" "task_log (upd_placement i f w) = task_log w"
  "hq (upd_placement i f w) = hq w" "draws (upd_placement i f w) = draws w" "clock (upd_placement i f w) = clock w"
  "settings (upd_placement i f w) = settings w" "outbox (upd_placement i f w) = outbox w"
  "lab_placements (upd_placement i f w) = tbl_update (\<lambda>p. p_id p = i) f (lab_placements w)"
  by (simp_all add: upd_placement_def)

lemma upd_pm_frame [frame_simps, simp]:
  "nodes (upd_pm i f w) = nodes w" "students (upd_pm i f w) = students w"
  "labs (upd_pm i f w) = labs w" "lab_members (upd_pm i f w) = lab_members w"
  "lab_placements (upd_pm i f w) = lab_placements w" "task_log (upd_pm i f w) = task_log w"
  "hq (upd_pm i f w) = hq w" "draws (upd_pm i f w) = draws w" "clock (upd_pm i f w) = clock w"
  "settings (upd_pm i f w) = settings w" "outbox (upd_pm i f w) = outbox w"
  "placement_members (upd_pm i f w) = tbl_update (\<lambda>r. pm_id r = i) f (placement_members w)"
  by (simp_all add: upd_pm_def)

lemma provisionMember_frame [frame_simps, simp]:
  "nodes (snd (provisionMemberOnPlacement X p s a w)) = nodes w"
  "students (snd (provisionMemberOnPlacement X p s a w)) = students w"
  "labs (snd (provisionMemberOnPlacement X p s a w)) = labs w"
  "lab_members (snd (provisionMemberOnPlacement X p s a w)) = lab_members w"
  "lab_placements (snd (provisionMemberOnPlacement X p s a w)) = lab_placements w"
  "settings (snd (provisionMemberOnPlacement X p s a w)) = settings w"
  "outbox (snd (provisionMemberOnPlacement X p s a w)) = outbox w"
  "clock (snd (provisionMemberOnPlacement X p s a w)) = clock w"
  by (simp_all add: provisionMemberOnPlacement_def Let_def split: option.splits)

lemma reprovision_member_frame [frame_simps, simp]:
  "nodes (reprovision_member X p a v w) = nodes w" "students (reprovision_member X p a v w) = students w"
  "labs (reprovision_member X p a v w) = labs w" "lab_members (reprovision_member X p a v w) = lab_members w"
  "lab_placements (reprovision_member X p a v w) = lab_placements w"
  "settings (reprovision_member X p a v w) = settings w" "clock (reprovision_member X p a v w) = clock w"
  by (simp_all add: reprovision_member_def Let_def)

lemma fold_provision_frame [frame_simps, simp]:
  "nodes (fold (\<lambda>s w. snd (provisionMemberOnPlacement X p s a w)) ss w) = nodes w"
  "students (fold (\<lambda>s w. snd (provisionMemberOnPlacement X p s a w)) ss w) = students w"
  "labs (fold (\<lambda>s w. snd (provisionMemberOnPlacement X p s a w)) ss w) = labs w"
  "lab_members (fold (\<lambda>s w. snd (provisionMemberOnPlacement X p s a w)) ss w) = lab_members w"
  "lab_placements (fold (\<lambda>s w. snd (provisionMemberOnPlacement X p s a w)) ss w) = lab_placements w"
  by (rule fold_frame, simp)+

lemma fold_reprovision_frame [frame_simps, simp]:
  "nodes (fold (reprovision_member X p a) vs w) = nodes w"
  "students (fold (reprovision_member X p a) vs w) = students w"
  "labs (fold (reprovision_member X p a) vs w) = labs w"
  "lab_members (fold (reprovision_member X p a) vs w) = lab_members w"
  "lab_placements (fold (reprovision_member X p a) vs w) = lab_placements w"
  by (rule fold_frame, simp)+

section \<open>Integrity\<close>

lemma schema_upd_placement [inv_intros]:
  assumes "schema_ok w" "\<And>p. p_id (f p) = p_id p" "\<And>p. p_lab_id (f p) = p_lab_id p"
    "\<And>p. p_node_id (f p) = p_node_id p" "\<And>p. p_ssh_port (f p) = p_ssh_port p"
  shows "schema_ok (upd_placement i f w)"
  unfolding upd_placement_def by (rule schema_placement_update) (use assms in \<open>auto simp: place_key_def port_key_def\<close>)

lemma schema_upd_pm [inv_intros]:
  assumes "schema_ok w" "\<And>r. pm_id (f r) = pm_id r" "\<And>r. pm_placement_id (f r) = pm_placement_id r"
    "\<And>r. pm_student_id (f r) = pm_student_id r"
  shows "schema_ok (upd_pm i f w)"
  unfolding upd_pm_def by (rule schema_pm_update) (use assms in \<open>auto simp: pm_key_def\<close>)

lemma schema_draws [simp]: "schema_ok (w\<lparr>draws := k\<rparr>) = schema_ok w"
  by (rule schema_frame) simp_all

lemma pm_lookup_None:
  "pm_lookup p s w = None \<longleftrightarrow> (p, s) \<notin> pm_key ` set (rows (placement_members w))"
  by (auto simp: pm_lookup_def tbl_get_None pm_key_def)

text \<open>The row and the task that provisioning a member adds.\<close>

lemma provisionMember_new:
  assumes "pm_lookup (p_id (pl_row p)) (s_id s) w = None"
  obtains r pw where
    "rows (placement_members (snd (provisionMemberOnPlacement X p s a w))) = rows (placement_members w) @ [r]"
    "pm_key r = (p_id (pl_row p), s_id s)" "pm_state r = MProvisioning"
    "pw = generatePassword X (draws w) PASSWORD_LEN"
    "pm_credential_secret r = Some (encryptSecret X (draws w + 1) pw)"
  using assms by (auto simp: provisionMemberOnPlacement_def Let_def pm_key_def)

lemma schema_provisionMember [inv_intros]:
  assumes "schema_ok w" "p_id (pl_row p) \<in> p_id ` set (rows (lab_placements w))"
    "s_id s \<in> s_id ` set (rows (students w))"
  shows "schema_ok (snd (provisionMemberOnPlacement X p s a w))"
proof (cases "pm_lookup (p_id (pl_row p)) (s_id s) w")
  case None
  let ?w = "w\<lparr>draws := draws w + 2\<rparr>"
  have "schema_ok (?w\<lparr>placement_members := tbl_insert mk (placement_members ?w)\<rparr>)"
    if "\<And>i. pm_id (mk i) = i" "\<And>i. pm_key (mk i) = (p_id (pl_row p), s_id s)" for mk
    by (rule schema_pm_insert) (use assms None that in \<open>auto simp: pm_lookup_None\<close>)
  with None show ?thesis by (simp add: provisionMemberOnPlacement_def Let_def pm_key_def)
qed (use assms in \<open>simp add: provisionMemberOnPlacement_def\<close>)

lemma schema_reprovision_member [inv_intros]:
  "schema_ok w \<Longrightarrow> schema_ok (reprovision_member X p a v w)"
  by (simp add: reprovision_member_def Let_def schema_upd_pm)

lemma schema_insert_placement [inv_intros]:
  assumes "schema_ok w" "node_by_id (ci_nodeId inp) w \<noteq> None"
  shows "schema_ok (snd (insert_placement inp c sc w))"
proof -
  have "ci_nodeId inp \<in> n_id ` set (rows (nodes w))" 
    using assms(2) by (metis by_id_Some(2) image_eqI option.exhaust)
  then show ?thesis using assms(1)
    by (auto simp: insert_placement_def Let_def place_key_def port_key_def dest!: by_id_Some(1)
        intro!: schema_placement_insert intro: rev_image_eqI)
qed

lemma insert_placement_ok:
  assumes "insert_placement inp c sc w = (Inr i, w')"
  shows "i = tbl_next (lab_placements w)"
    and "nodes w' = nodes w \<and> students w' = students w \<and> labs w' = labs w \<and> lab_members w' = lab_members w \<and>
      placement_members w' = placement_members w \<and> task_log w' = task_log w \<and> hq w' = hq w \<and> draws w' = draws w \<and>
      clock w' = clock w \<and> settings w' = settings w"
    and "\<exists>r. lab_placements w' = tbl_insert (\<lambda>_. r) (lab_placements w) \<and> p_id r = i \<and> p_lab_id r = ci_labId inp \<and> p_node_id r = ci_nodeId inp \<and>
      p_state r = PProvisioning \<and> p_ssh_port r = ci_sshPort inp \<and> p_cold_quota_bytes r = c \<and>
      p_student_cold_quota_bytes r = sc \<and> p_student_fast_quota_bytes r = ci_studentFastQuotaBytes inp \<and>
      p_fast_quota_bytes r = ci_fastQuotaBytes inp \<and> p_completion_email_sent_at r = None \<and>
      p_image r = ci_image inp \<and> p_container_options r = Some (JText (JObj (options_fields (ci_containerOptions inp))))"
    and "\<forall>p \<in> set (rows (lab_placements w)). \<not> (p_lab_id p = ci_labId inp \<and> p_node_id p = ci_nodeId inp)"
  using assms by (auto simp: insert_placement_def Let_def tbl_insert_def split: if_splits)

lemma insert_placement_err: "insert_placement inp c sc w = (Inl e, w') \<Longrightarrow> w' = w"
  by (auto simp: insert_placement_def Let_def split: if_splits)

text \<open>A successful \<open>createPlacement\<close>, taken apart.\<close>

lemma createPlacement_okE:
  assumes "createPlacement X inp w = (Inr p, w')"
  obtains node c sc w1 w2 where
    "node_by_id (ci_nodeId inp) w = Some node" "check_create inp node w = Inr (c, sc)"
    "insert_placement inp c sc w = (Inr (tbl_next (lab_placements w)), w1)"
    "getPlacement (tbl_next (lab_placements w)) w1 = Some p"
    "w2 = audit (ci_actor inp) ''placement.create'' (Some (at_node p)) None (enqueuePlacementCreate X p (ci_actor inp) w1)"
    "w' = fold (\<lambda>s w. snd (provisionMemberOnPlacement X p s (ci_actor inp) w)) (roster (ci_labId inp) w2) w2"
proof -
  obtain node where n: "node_by_id (ci_nodeId inp) w = Some node"
    using assms by (auto simp: createPlacement_def split: option.splits)
  obtain c sc where c: "check_create inp node w = Inr (c, sc)"
    using assms n by (auto simp: createPlacement_def split: sum.splits prod.splits)
  obtain i w1 where i: "insert_placement inp c sc w = (Inr i, w1)"
    using assms n c by (auto simp: createPlacement_def and_then_Inr)
  have "i = tbl_next (lab_placements w)" using insert_placement_ok(1) [OF i] .
  with assms n c i that show ?thesis
    by (auto simp: createPlacement_def Let_def split: option.splits)
qed

lemma createPlacement_err:
  assumes "schema_ok w" "createPlacement X inp w = (Inl e, w')"
  shows "w' = w"
proof (cases "node_by_id (ci_nodeId inp) w")
  case (Some node)
  show ?thesis
  proof (cases "check_create inp node w")
    case (Inr q)
    obtain c sc where q: "q = (c, sc)" by fastforce
    show ?thesis
    proof (cases "insert_placement inp c sc w")
      case (Pair x w1)
      show ?thesis
      proof (cases x)
        case (Inl e)
        with Pair assms Some Inr q insert_placement_err show ?thesis by (auto simp: createPlacement_def)
      next
        case x: (Inr i)
        have i: "insert_placement inp c sc w = (Inr i, w1)" using Pair x by simp
        have "schema_ok w1" using schema_insert_placement [OF assms(1), of inp c sc] Some i by simp
        moreover obtain r where "r \<in> set (rows (lab_placements w1))" "p_id r = i"
          using insert_placement_ok(3) [OF i] by force
        ultimately have "\<exists>v. getPlacement i w1 = Some v" using getPlacement_total by blast
        with assms Some Inr q i show ?thesis by (auto simp: createPlacement_def Let_def)
      qed
    qed
  qed (use assms Some in \<open>auto simp: createPlacement_def\<close>)
qed (use assms in \<open>auto simp: createPlacement_def\<close>)

lemma schema_fold_provision:
  assumes "schema_ok w" "p_id (pl_row p) \<in> p_id ` set (rows (lab_placements w))"
    "\<forall>s \<in> set ss. s_id s \<in> s_id ` set (rows (students w))"
  shows "schema_ok (fold (\<lambda>s w. snd (provisionMemberOnPlacement X p s a w)) ss w)"
  using assms
proof (induction ss arbitrary: w)
  case (Cons s ss)
  then have "schema_ok (snd (provisionMemberOnPlacement X p s a w))" by (intro schema_provisionMember) simp_all
  with Cons show ?case by simp
qed simp

lemma schema_createPlacement:
  assumes "schema_ok w" shows "schema_ok (snd (createPlacement X inp w))"
proof (cases "createPlacement X inp w")
  case (Pair r w')
  show ?thesis
  proof (cases r)
    case (Inl e)
    with Pair createPlacement_err [OF assms] assms show ?thesis by auto
  next
    case (Inr p)
    with Pair have "createPlacement X inp w = (Inr p, w')" by simp
    then obtain node c sc w1 w2 where
      n: "node_by_id (ci_nodeId inp) w = Some node"
      and i: "insert_placement inp c sc w = (Inr (tbl_next (lab_placements w)), w1)"
      and g: "getPlacement (tbl_next (lab_placements w)) w1 = Some p"
      and w2: "w2 = audit (ci_actor inp) ''placement.create'' (Some (at_node p)) None (enqueuePlacementCreate X p (ci_actor inp) w1)"
      and w': "w' = fold (\<lambda>s w. snd (provisionMemberOnPlacement X p s (ci_actor inp) w)) (roster (ci_labId inp) w2) w2"
      by (rule createPlacement_okE)
    have "schema_ok w1" using schema_insert_placement [OF assms, of inp c sc] n i by simp
    then have "schema_ok w2" by (simp add: w2 enqueuePlacementCreate_def)
    moreover have "p_id (pl_row p) \<in> p_id ` set (rows (lab_placements w2))"
      using getPlacement_Some(2) [OF g] by (auto simp: w2 enqueuePlacementCreate_def)
    moreover have "\<forall>s \<in> set (roster (ci_labId inp) w2). s_id s \<in> s_id ` set (rows (students w2))"
      using roster_students by blast
    ultimately show ?thesis unfolding Pair snd_conv w' by (rule schema_fold_provision)
  qed
qed

lemma recreate_row_keys [simp]:
  "p_id (recreate_row inp now r) = p_id r" "p_lab_id (recreate_row inp now r) = p_lab_id r"
  "p_node_id (recreate_row inp now r) = p_node_id r" "p_ssh_port (recreate_row inp now r) = p_ssh_port r"
  "p_state (recreate_row inp now r) = p_state r"
  by (simp_all add: recreate_row_def Let_def split: option.splits)

lemma schema_placement_ops:
  assumes "schema_ok w"
  shows "schema_ok (snd (updatePlacementQuota X i qi a w))" "schema_ok (snd (recreatePlacement X i ri a w))"
    "schema_ok (snd (retryPlacement X i a w))" "schema_ok (snd (destroyPlacement X i a w))"
    "schema_ok (snd (forceDeletePlacement X i a w))" "schema_ok (markPlacementStateByLabNode l n st e w)"
    "schema_ok (markPlacementMemberState l n u mst e w)" "schema_ok (confirmPlacementDestroyed l n w)"
    "schema_ok (snd (consumePlacementCredential X i j a w))" "schema_ok (snd (deliver_begin X l n u w))"
    "schema_ok (snd (deliver_finish i b w))" "schema_ok (snd (completion_begin l n w))"
    "schema_ok (snd (completion_finish i b w))"
    "schema_ok (removeMemberFromPlacement X p s u d a rm w)"
proof -
  have fold: "schema_ok v \<Longrightarrow> schema_ok (fold (reprovision_member X p a) vs v)" for p vs and v :: "'a world"
    by (rule fold_pres) (auto intro: schema_reprovision_member)
  show "schema_ok (snd (recreatePlacement X i ri a w))"
    using assms by (auto simp: recreatePlacement_def Let_def reprovisionPlacementMembers_def split: option.splits
        intro!: fold schema_upd_placement)
  show "schema_ok (snd (updatePlacementQuota X i qi a w))"
    using assms by (auto simp: updatePlacementQuota_def Let_def touch_def split: option.splits prod.splits
        intro!: schema_upd_placement)
  show "schema_ok (snd (retryPlacement X i a w))"
    using assms by (auto simp: retryPlacement_def Let_def enqueuePlacementCreate_def split: option.splits
        intro!: schema_upd_placement)
  show "schema_ok (snd (destroyPlacement X i a w))"
    using assms by (auto simp: destroyPlacement_def Let_def split: option.splits intro!: schema_upd_placement)
  show "schema_ok (snd (forceDeletePlacement X i a w))"
    using assms by (auto simp: forceDeletePlacement_def Let_def split: option.splits intro!: schema_delete_placements)
  show "schema_ok (markPlacementStateByLabNode l n st e w)" "schema_ok (markPlacementMemberState l n u mst e w)"
    "schema_ok (confirmPlacementDestroyed l n w)"
    using assms by (auto simp: markPlacementStateByLabNode_def markPlacementState_def markPlacementMemberState_def
        confirmPlacementDestroyed_def split: option.splits
        intro!: schema_upd_placement schema_upd_pm schema_delete_placements)
  show "schema_ok (snd (consumePlacementCredential X i j a w))" "schema_ok (snd (deliver_begin X l n u w))"
    "schema_ok (snd (deliver_finish i b w))"
    using assms by (auto simp: consumePlacementCredential_def deliver_begin_def deliver_finish_def burn_credential_def
        Let_def split: option.splits intro!: schema_upd_pm)
  show "schema_ok (snd (completion_finish i b w))"
    using assms by (auto simp: completion_finish_def intro!: schema_upd_placement)
  show "schema_ok (snd (completion_begin l n w))"
    using assms by (auto simp: completion_begin_def Let_def place_key_def port_key_def split: option.splits
        intro!: schema_placement_update)
  show "schema_ok (removeMemberFromPlacement X p s u d a rm w)"
    using assms schema_pm_delete [of "enqueue X (pl_node_name p) ''student.remove'' (removal_params p u d rm) a w"]
    by (simp add: removeMemberFromPlacement_def Let_def)
qed

section \<open>What no placement operation writes\<close>

definition same_registry :: "'h world \<Rightarrow> 'h world \<Rightarrow> bool" where
  "same_registry w' w \<longleftrightarrow> nodes w' = nodes w \<and> students w' = students w \<and> labs w' = labs w \<and> lab_members w' = lab_members w"

lemma same_registryD:
  assumes "same_registry w' w"
  shows "nodes w' = nodes w" "students w' = students w" "labs w' = labs w" "lab_members w' = lab_members w"
  using assms by (simp_all add: same_registry_def)

lemma registry_createPlacement: "same_registry (snd (createPlacement X inp w)) w"
proof -
  have ins: "same_registry (snd (insert_placement inp c sc w)) w" for c sc
    by (simp add: insert_placement_def Let_def same_registry_def)
  have "same_registry (snd (and_then (insert_placement inp c sc w) (\<lambda>i w.
       case getPlacement i w of None \<Rightarrow> (Inl JsTypeError, w)
       | Some p \<Rightarrow> let w = enqueuePlacementCreate X p (ci_actor inp) w;
                        w = audit (ci_actor inp) ''placement.create'' (Some (at_node p)) None w;
                        w = fold (\<lambda>s w. snd (provisionMemberOnPlacement X p s (ci_actor inp) w)) (roster (ci_labId inp) w) w
                    in (Inr p, w)))) w" for c sc
    by (rule and_then_pres [of "\<lambda>v. same_registry v w", OF ins])
       (auto simp: Let_def enqueuePlacementCreate_def same_registry_def split: option.splits)
  then show ?thesis
    by (auto simp: createPlacement_def same_registry_def [of w w] split: option.splits sum.splits prod.splits)
qed

lemma registry_placement_ops:
  "same_registry (snd (updatePlacementQuota X i qi a w)) w" "same_registry (snd (recreatePlacement X i ri a w)) w"
  "same_registry (snd (retryPlacement X i a w)) w" "same_registry (snd (destroyPlacement X i a w)) w"
  "same_registry (snd (forceDeletePlacement X i a w)) w" "same_registry (markPlacementStateByLabNode l n st e w) w"
  "same_registry (markPlacementMemberState l n u mst e w) w" "same_registry (confirmPlacementDestroyed l n w) w"
  "same_registry (snd (consumePlacementCredential X i j a w)) w" "same_registry (snd (deliver_begin X l n u w)) w"
  "same_registry (snd (deliver_finish i b w)) w" "same_registry (snd (completion_begin l n w)) w"
  "same_registry (snd (completion_finish i b w)) w" "same_registry (removeMemberFromPlacement X p s u d a rm w) w"
  "same_registry (snd (provisionMemberOnPlacement X p st' a w)) w"
  unfolding same_registry_def
  by (simp_all add: updatePlacementQuota_def recreatePlacement_def retryPlacement_def destroyPlacement_def
      forceDeletePlacement_def markPlacementStateByLabNode_def markPlacementState_def markPlacementMemberState_def
      confirmPlacementDestroyed_def consumePlacementCredential_def deliver_begin_def deliver_finish_def burn_credential_def
      completion_begin_def completion_finish_def removeMemberFromPlacement_def touch_def enqueuePlacementCreate_def
      reprovisionPlacementMembers_def Let_def split: option.splits prod.splits)

lemma cleanup_node_frame [frame_simps, simp]:
  "nodes (cleanup_node X ps b n w) = nodes w" "students (cleanup_node X ps b n w) = students w"
  "labs (cleanup_node X ps b n w) = labs w" "lab_members (cleanup_node X ps b n w) = lab_members w"
  "lab_placements (cleanup_node X ps b n w) = lab_placements w"
  "placement_members (cleanup_node X ps b n w) = placement_members w"
  by (simp_all add: cleanup_node_def)

lemma completeStudentRemoval_frame [frame_simps, simp]:
  "nodes (completeStudentRemoval X u w) = nodes w" "students (completeStudentRemoval X u w) = students w"
  "labs (completeStudentRemoval X u w) = labs w" "lab_members (completeStudentRemoval X u w) = lab_members w"
  "lab_placements (completeStudentRemoval X u w) = lab_placements w"
  "placement_members (completeStudentRemoval X u w) = placement_members w"
  by (auto simp: completeStudentRemoval_def fold_frame [where v = nodes] fold_frame [where v = students]
      fold_frame [where v = labs] fold_frame [where v = lab_members] fold_frame [where v = lab_placements]
      fold_frame [where v = placement_members] split: option.splits jtext.splits)

section \<open>SSH ports\<close>

interpretation ssh_ports: lowest_free "first_free lo hi" lo hi for lo hi
  by (rule lowest_free_first_free)

lemma ports_used_set:
  "q \<in> set (ports_used i w) \<longleftrightarrow> (\<exists>p \<in> set (rows (lab_placements w)). p_node_id p = i \<and> p_ssh_port p = q)"
  by (auto simp: ports_used_def tbl_all_def)

lemma nextSshPort_spec:
  "case nextSshPortForNode X i w of
     Inr q \<Rightarrow> setting_int X ''sshPortStart'' w \<le> q \<and> q \<le> setting_int X ''sshPortEnd'' w \<and>
        \<not> (\<exists>p \<in> set (rows (lab_placements w)). p_node_id p = i \<and> p_ssh_port p = q) \<and>
        (\<forall>r. r < setting_int X ''sshPortStart'' w \<or> q \<le> r \<or> (\<exists>p \<in> set (rows (lab_placements w)). p_node_id p = i \<and> p_ssh_port p = r))
   | Inl e \<Rightarrow> e = PlacementE NoFreeSshPort \<and>
        {setting_int X ''sshPortStart'' w..setting_int X ''sshPortEnd'' w} \<subseteq> {p_ssh_port p | p. p \<in> set (rows (lab_placements w)) \<and> p_node_id p = i}"
proof (cases "first_free (setting_int X ''sshPortStart'' w) (setting_int X ''sshPortEnd'' w) (ports_used i w)")
  case None
  have "q \<in> {p_ssh_port p | p. p \<in> set (rows (lab_placements w)) \<and> p_node_id p = i}"
    if "q \<in> {setting_int X ''sshPortStart'' w..setting_int X ''sshPortEnd'' w}" for q
    using ssh_ports.alloc_none [OF None, of q] that by (auto simp: ports_used_set)
  with None show ?thesis by (simp add: nextSshPortForNode_def subset_eq)
next
  case (Some q)
  have "r < setting_int X ''sshPortStart'' w \<or> q \<le> r \<or> (\<exists>p \<in> set (rows (lab_placements w)). p_node_id p = i \<and> p_ssh_port p = r)" for r
    using ssh_ports.alloc_least [OF Some, of r] by (cases "q \<le> r"; cases "r < setting_int X ''sshPortStart'' w") (auto simp: ports_used_set not_le not_less)
  with ssh_ports.alloc_free [OF Some] Some show ?thesis
    by (simp add: nextSshPortForNode_def ports_used_set)
qed

end
