(* ===== verification/Labs.thy ===== *)
theory Labs
  imports Placement_Facts
begin

text \<open>
  Logical labs (src/controller/src/lib/labs.ts): creation, PI metadata, and deletion, which tears
  the placements down (SMB clients before their owners) or, once none is left, removes the lab and
  the students that belong to no other lab.
\<close>

definition isValidLabName :: "string \<Rightarrow> bool" where
  "isValidLabName name =
     name_re is_alnum (\<lambda>c. is_alnum c \<or> c = CHR ''_'' \<or> c = CHR ''-'') 39 name"

definition getLab :: "nat \<Rightarrow> 'h world \<Rightarrow> lab_row option" where
  "getLab i w = lab_by_id i w"

definition getLabByName :: "string \<Rightarrow> 'h world \<Rightarrow> lab_row option" where
  "getLabByName name w = tbl_get (\<lambda>l. l_name l = name) (labs w)"

record lab_summary =
  ls_lab :: lab_row
  ls_student_count :: nat
  ls_placement_count :: nat
  ls_active_placements :: nat

definition listLabs :: "'h world \<Rightarrow> lab_summary list" where
  "listLabs w = map (\<lambda>l. \<lparr>ls_lab = l,
       ls_student_count = length (tbl_all (\<lambda>m. m_lab_id m = l_id l) (lab_members w)),
       ls_placement_count = length (tbl_all (\<lambda>p. p_lab_id p = l_id l) (lab_placements w)),
       ls_active_placements = length (tbl_all (\<lambda>p. p_lab_id p = l_id l \<and> p_state p = PActive) (lab_placements w))\<rparr>)
     (sort_key l_name (rows (labs w)))"

record create_lab_input =
  cl_name :: string
  cl_piName :: "string option"
  cl_piEmail :: "string option"
  cl_actor :: "string option"

definition createLab :: "create_lab_input \<Rightarrow> (lab_row, 'h) op" where
  "createLab inp w =
     (if \<not> isValidLabName (cl_name inp) then (Inl (LabE InvalidLabName), w)
      else if getLabByName (cl_name inp) w \<noteq> None then (Inl (LabE (LabNameTaken (cl_name inp))), w)
      else
        let now = clock w;
            row = (\<lambda>i. \<lparr>l_id = i, l_name = cl_name inp, l_pi_name = cl_piName inp, l_pi_email = cl_piEmail inp,
                    l_created_at = now, l_updated_at = now, l_pi_student_id = None\<rparr>);
            i = tbl_next (labs w);
            w = w\<lparr>labs := tbl_insert row (labs w)\<rparr>
        in (Inr (row i), audit (cl_actor inp) ''lab.create'' (Some (cl_name inp)) None w))"

definition upd_lab :: "nat \<Rightarrow> (lab_row \<Rightarrow> lab_row) \<Rightarrow> 'h world \<Rightarrow> 'h world" where
  "upd_lab i f w = w\<lparr>labs := tbl_update (\<lambda>l. l_id l = i) f (labs w)\<rparr>"

text \<open>An input field is \<open>None\<close> when undefined; \<open>x || null\<close> stores a blank as NULL.\<close>

record lab_meta_input =
  lm_piName :: "string option option"
  lm_piEmail :: "string option option"

definition or_null :: "string option \<Rightarrow> string option" where
  "or_null x = (case x of None \<Rightarrow> None | Some s \<Rightarrow> nonblank s)"

definition updateLabMeta :: "nat \<Rightarrow> lab_meta_input \<Rightarrow> string option \<Rightarrow> (unit, 'h) op" where
  "updateLabMeta labId inp actor w =
     (case getLab labId w of
        None \<Rightarrow> (Inl (LabE UnknownLab), w)
      | Some lab \<Rightarrow>
          let w = (case lm_piName inp of None \<Rightarrow> w | Some x \<Rightarrow> upd_lab labId (\<lambda>l. l\<lparr>l_pi_name := or_null x\<rparr>) w);
              w = (case lm_piEmail inp of None \<Rightarrow> w | Some x \<Rightarrow> upd_lab labId (\<lambda>l. l\<lparr>l_pi_email := or_null x\<rparr>) w);
              w = upd_lab labId (\<lambda>l. l\<lparr>l_updated_at := clock w\<rparr>) w
          in (Inr (), audit actor ''lab.update_meta'' (Some (l_name lab)) None w))"

record destroy_result =
  dr_deleted :: bool
  dr_teardownStarted :: nat

text \<open>SMB clients first; the sort is stable.\<close>

definition teardown_order :: "placement list \<Rightarrow> placement list" where
  "teardown_order ps = sort_key (\<lambda>p. if pl_node_cold_backend p = Smb then 0 else (1 :: nat)) ps"

fun destroy_loop :: "'h ext \<Rightarrow> string option \<Rightarrow> bool \<Rightarrow> placement list \<Rightarrow> nat \<Rightarrow> (nat, 'h) op" where
  "destroy_loop X actor force [] started w = (Inr started, w)"
| "destroy_loop X actor force (p # ps) started w =
     (if force \<and> \<not> pl_online p
      then and_then (forceDeletePlacement X (p_id (pl_row p)) actor w)
             (\<lambda>_ w. destroy_loop X actor force ps started w)
      else and_then (destroyPlacement X (p_id (pl_row p)) actor w)
             (\<lambda>_ w. destroy_loop X actor force ps (started + 1) w))"

fun orphan_loop :: "nat list \<Rightarrow> nat \<Rightarrow> (nat, 'h) op" where
  "orphan_loop [] removed w = (Inr removed, w)"
| "orphan_loop (sid # sids) removed w =
     (if (\<exists>m \<in> set (rows (lab_members w)). m_student_id m = sid) then orphan_loop sids removed w
      else and_then (delete_student sid w) (\<lambda>_ w. orphan_loop sids (removed + 1) w))"

definition destroyLab :: "'h ext \<Rightarrow> nat \<Rightarrow> string option \<Rightarrow> bool \<Rightarrow> (destroy_result, 'h) op" where
  "destroyLab X labId actor force w =
     (case getLab labId w of
        None \<Rightarrow> (Inr \<lparr>dr_deleted = False, dr_teardownStarted = 0\<rparr>, w)
      | Some lab \<Rightarrow>
          and_then (destroy_loop X actor force (teardown_order (listPlacements labId w)) 0 w) (\<lambda>started w.
            if 0 < started then (Inr \<lparr>dr_deleted = False, dr_teardownStarted = started\<rparr>, w)
            else
              let memberIds = map m_student_id (tbl_all (\<lambda>m. m_lab_id m = labId) (lab_members w)) in
              and_then (orphan_loop memberIds 0 (delete_lab labId w)) (\<lambda>removed w.
                (Inr \<lparr>dr_deleted = True, dr_teardownStarted = 0\<rparr>,
                 audit actor ''lab.delete'' (Some (l_name lab))
                   (if 0 < removed then Some (show_nat removed @ '' students removed'') else None) w))))"

end
