(* ===== verification/Students.thy ===== *)
theory Students
  imports Labs
begin

text \<open>
  Students and rosters (src/controller/src/lib/students.ts, src/controller/src/lib/email.ts). A
  student is global; joining a lab provisions an account on every placement of the lab, leaving it
  removes every one of them. Linux UIDs are allocated from 10000..59999.
\<close>

definition normalizeEmail :: "string option \<Rightarrow> string option" where
  "normalizeEmail email = (case email of None \<Rightarrow> None | Some e \<Rightarrow> nonblank (toLower (trim e)))"

record student_input =
  si_username :: string
  si_email :: "string option"
  si_name :: "string option"
  si_studentId :: "string option"

definition listStudents :: "'h world \<Rightarrow> student_row list" where
  "listStudents w = sort_key s_username (rows (students w))"

record member =
  mb_student :: student_row
  mb_member_id :: nat
  mb_is_pi :: bool

definition listMembers :: "nat \<Rightarrow> 'h world \<Rightarrow> member list" where
  "listMembers labId w =
     sort_key (\<lambda>m. s_username (mb_student m))
       (List.map_filter (\<lambda>m. case (student_by_id (m_student_id m) w, lab_by_id (m_lab_id m) w) of
            (Some s, Some l) \<Rightarrow> Some \<lparr>mb_student = s, mb_member_id = m_id m, mb_is_pi = (l_pi_student_id l = Some (s_id s))\<rparr>
          | _ \<Rightarrow> None)
        (tbl_all (\<lambda>m. m_lab_id m = labId) (lab_members w)))"

text \<open>\<open>while (linuxUid <= 59_999 && used.has(linuxUid)) linuxUid++\<close>\<close>

function uid_loop :: "int list \<Rightarrow> int \<Rightarrow> int" where
  "uid_loop used u = (if u \<le> 59999 \<and> u \<in> set used then uid_loop used (u + 1) else u)"
  by pat_completeness auto
termination
  by (relation "measure (\<lambda>(used, u). nat (60000 - u))") auto

declare uid_loop.simps [simp del]

definition next_uid :: "int list \<Rightarrow> int option" where
  "next_uid used = (let u = uid_loop used 10000 in if 59999 < u then None else Some u)"

definition student_lookup :: "student_input \<Rightarrow> 'h world \<Rightarrow> student_row option" where
  "student_lookup inp w =
     (case (case si_studentId inp of
              None \<Rightarrow> None
            | Some sid \<Rightarrow> if sid = [] then None else tbl_get (\<lambda>s. s_student_id s = Some sid) (students w)) of
        Some s \<Rightarrow> Some s
      | None \<Rightarrow> tbl_get (\<lambda>s. s_username s = toLower (trim (si_username inp))) (students w))"

text \<open>The transaction that inserts a new student; the UNIQUE index guards a blank student id.\<close>

definition insert_student :: "student_input \<Rightarrow> (student_row, 'h) op" where
  "insert_student inp w =
     (case next_uid (map s_linux_uid (rows (students w))) of
        None \<Rightarrow> (Inl (LabE UidExhausted), w)
      | Some uid \<Rightarrow>
          if si_studentId inp \<noteq> None \<and> (\<exists>s \<in> set (rows (students w)). s_student_id s = si_studentId inp)
          then (Inl (SqliteConstraint ''UNIQUE students.student_id''), w)
          else
            let now = clock w;
                row = (\<lambda>i. \<lparr>s_id = i, s_student_id = si_studentId inp, s_username = toLower (trim (si_username inp)),
                        s_email = normalizeEmail (si_email inp), s_name = si_name inp,
                        s_created_at = now, s_updated_at = now, s_linux_uid = uid\<rparr>)
            in (Inr (row (tbl_next (students w))), w\<lparr>students := tbl_insert row (students w)\<rparr>))"

definition findOrCreateStudent :: "student_input \<Rightarrow> (student_row, 'h) op" where
  "findOrCreateStudent inp w =
     (case student_lookup inp w of Some s \<Rightarrow> (Inr s, w) | None \<Rightarrow> insert_student inp w)"

definition is_member :: "nat \<Rightarrow> nat \<Rightarrow> 'h world \<Rightarrow> bool" where
  "is_member labId studentId w =
     (tbl_get (\<lambda>m. m_lab_id m = labId \<and> m_student_id m = studentId) (lab_members w) \<noteq> None)"

definition insert_member :: "nat \<Rightarrow> nat \<Rightarrow> 'h world \<Rightarrow> 'h world" where
  "insert_member labId studentId w =
     w\<lparr>lab_members := tbl_insert (\<lambda>i. \<lparr>m_id = i, m_lab_id = labId, m_student_id = studentId, m_created_at = clock w\<rparr>)
         (lab_members w)\<rparr>"

text \<open>\<open>for (const p of listPlacements(labId)) ...\<close>, collecting the nodes provisioned.\<close>

fun provision_on :: "'h ext \<Rightarrow> student_row \<Rightarrow> string option \<Rightarrow> placement list \<Rightarrow> 'h world \<Rightarrow> string list \<times> 'h world" where
  "provision_on X s actor [] w = ([], w)"
| "provision_on X s actor (p # ps) w =
     (let (res, w) = provisionMemberOnPlacement X p s actor w;
          (rest, w) = provision_on X s actor ps w
      in ((case res of None \<Rightarrow> rest | Some n \<Rightarrow> n # rest), w))"

text \<open>The part of \<open>ensurePiAccess\<close> after its guards: align contact details, designate, enrol, provision.\<close>

definition pi_grant ::
    "'h ext \<Rightarrow> lab_row \<Rightarrow> student_row \<Rightarrow> student_input \<Rightarrow> string option \<Rightarrow> (student_row \<times> string list, 'h) op" where
  "pi_grant X lab s inp actor w =
     (let email = normalizeEmail (si_email inp);
          name = (case si_name inp of None \<Rightarrow> None | Some n \<Rightarrow> nonblank (trim n));
          w = w\<lparr>students := tbl_update (\<lambda>r. s_id r = s_id s)
                (\<lambda>r. r\<lparr>s_email := email, s_name := name, s_updated_at := clock w\<rparr>) (students w)\<rparr>;
          w = upd_lab (l_id lab) (\<lambda>l. l\<lparr>l_pi_student_id := Some (s_id s), l_pi_name := name, l_pi_email := email,
                l_updated_at := clock w\<rparr>) w;
          w = (if is_member (l_id lab) (s_id s) w then w else insert_member (l_id lab) (s_id s) w);
          w = audit actor ''pi.access.ensure'' (Some (l_name lab @ ''/'' @ s_username s)) None w;
          (provisioned, w) = provision_on X s actor (listPlacements (l_id lab) w) w
      in (Inr (s, provisioned), w))"

definition ensurePiAccess ::
    "'h ext \<Rightarrow> nat \<Rightarrow> student_input \<Rightarrow> string option \<Rightarrow> (student_row \<times> string list, 'h) op" where
  "ensurePiAccess X labId inp actor w =
     (case getLab labId w of
        None \<Rightarrow> (Inl (LabE UnknownLab), w)
      | Some lab \<Rightarrow>
          if trim (si_username inp) = [] then (Inl (LabE PiUsernameRequired), w)
          else and_then (findOrCreateStudent inp w) (\<lambda>s w.
            case getLab labId w of
              None \<Rightarrow> (Inl JsTypeError, w)
            | Some current \<Rightarrow>
                if l_pi_student_id current \<notin> {None, Some (s_id s)} then (Inl (LabE PiUsernameFixed), w)
                else pi_grant X lab s inp actor w))"

definition addStudentToLab ::
    "'h ext \<Rightarrow> nat \<Rightarrow> student_input \<Rightarrow> string option \<Rightarrow> (student_row \<times> string list, 'h) op" where
  "addStudentToLab X labId inp actor w =
     (case getLab labId w of
        None \<Rightarrow> (Inl (LabE UnknownLab), w)
      | Some lab \<Rightarrow>
          and_then (findOrCreateStudent inp w) (\<lambda>s w.
            if is_member labId (s_id s) w then (Inl (LabE (AlreadyMember (s_username s) (l_name lab))), w)
            else
              let w = insert_member labId (s_id s) w;
                  w = audit actor ''member.add'' (Some (l_name lab @ ''/'' @ s_username s)) None w;
                  (provisioned, w) = provision_on X s actor (listPlacements labId w) w
              in (Inr (s, provisioned), w)))"

definition member_input :: "student_row \<Rightarrow> student_input" where
  "member_input s = \<lparr>si_username = s_username s, si_email = s_email s, si_name = s_name s, si_studentId = s_student_id s\<rparr>"

text \<open>The loop of \<open>copyMembers\<close>; the accumulator is (added, skipped).\<close>

fun copy_loop :: "'h ext \<Rightarrow> nat \<Rightarrow> string option \<Rightarrow> member list \<Rightarrow> nat \<times> nat \<Rightarrow> (nat \<times> nat, 'h) op" where
  "copy_loop X toLabId actor [] acc w = (Inr acc, w)"
| "copy_loop X toLabId actor (m # ms) acc w =
     (if is_member toLabId (s_id (mb_student m)) w then copy_loop X toLabId actor ms (fst acc, snd acc + 1) w
      else and_then (addStudentToLab X toLabId (member_input (mb_student m)) actor w)
             (\<lambda>_ w. copy_loop X toLabId actor ms (fst acc + 1, snd acc) w))"

definition copyMembers :: "'h ext \<Rightarrow> nat \<Rightarrow> nat \<Rightarrow> string option \<Rightarrow> (nat \<times> nat, 'h) op" where
  "copyMembers X fromLabId toLabId actor w = copy_loop X toLabId actor (listMembers fromLabId w) (0, 0) w"

definition removeStudentFromLab ::
    "'h ext \<Rightarrow> nat \<Rightarrow> nat \<Rightarrow> bool \<Rightarrow> string option \<Rightarrow> (unit, 'h) op" where
  "removeStudentFromLab X labId studentId deleteData actor w =
     (case getLab labId w of
        None \<Rightarrow> (Inl (LabE UnknownLab), w)
      | Some lab \<Rightarrow>
          if l_pi_student_id lab = Some studentId then (Inl (LabE PiProtected), w)
          else case (if is_member labId studentId w then student_by_id studentId w else None) of
            None \<Rightarrow> (Inl (LabE NotAMember), w)
          | Some s \<Rightarrow>
              let placements = listPlacements labId w;
                  cleanup = (if deleteData then map pl_node_name (filter (\<lambda>p. pl_node_cold_backend p = LocalZfs) placements) else []);
                  drawn = deleteData \<and> placements \<noteq> [];
                  removal = (if drawn then Some (rand_uuid X (draws w), cleanup) else None);
                  w = (if drawn then w\<lparr>draws := draws w + 1\<rparr> else w);
                  w = fold (\<lambda>p w. removeMemberFromPlacement X p studentId (s_username s) deleteData actor removal w) placements w;
                  w = w\<lparr>lab_members := tbl_delete (\<lambda>m. m_lab_id m = labId \<and> m_student_id m = studentId) (lab_members w)\<rparr>;
                  w = audit actor ''member.remove'' (Some (l_name lab @ ''/'' @ s_username s))
                        (if deleteData then Some ''data deleted'' else None) w
              in (Inr (), (case s_email s of
                     None \<Rightarrow> w
                   | Some e \<Rightarrow> if e = [] then w else send_mail (RemovalMail e (l_name lab) deleteData) w)))"

end
