(* ===== verification/Roster.thy ===== *)
theory Roster
  imports Students
begin

text \<open>
  The contract of rosters and placements. The abstract state is three relations: who is a member of
  which lab, which placement belongs to which lab, and who has an account on which placement. The
  operations of students.ts, labs.ts and placements.ts refine its steps, and in every state they
  reach the accounts of a placement are exactly the members of its lab.
\<close>

section \<open>Abstract specification\<close>

record roster_state =
  rs_member :: "(nat \<times> nat) set"
  rs_placed :: "(nat \<times> nat) set"
  rs_prov :: "(nat \<times> nat) set"

definition roster_sync :: "roster_state \<Rightarrow> bool" where
  "roster_sync r \<longleftrightarrow> rs_prov r = rs_placed r O rs_member r"

definition spec_join :: "nat \<Rightarrow> nat \<Rightarrow> roster_state \<Rightarrow> roster_state" where
  "spec_join l s r = r\<lparr>rs_member := insert (l, s) (rs_member r),
     rs_prov := rs_prov r \<union> {(p, s) | p. (p, l) \<in> rs_placed r}\<rparr>"

definition spec_leave :: "nat \<Rightarrow> nat \<Rightarrow> roster_state \<Rightarrow> roster_state" where
  "spec_leave l s r = r\<lparr>rs_member := rs_member r - {(l, s)},
     rs_prov := rs_prov r - {(p, s) | p. (p, l) \<in> rs_placed r}\<rparr>"

definition spec_place :: "nat \<Rightarrow> nat \<Rightarrow> roster_state \<Rightarrow> roster_state" where
  "spec_place i l r = r\<lparr>rs_placed := insert (i, l) (rs_placed r),
     rs_prov := rs_prov r \<union> {(i, s) | s. (l, s) \<in> rs_member r}\<rparr>"

definition spec_unplace :: "nat set \<Rightarrow> roster_state \<Rightarrow> roster_state" where
  "spec_unplace is r = r\<lparr>rs_placed := {x \<in> rs_placed r. fst x \<notin> is}, rs_prov := {x \<in> rs_prov r. fst x \<notin> is}\<rparr>"

definition spec_drop :: "nat \<Rightarrow> roster_state \<Rightarrow> roster_state" where
  "spec_drop l r = r\<lparr>rs_member := {x \<in> rs_member r. fst x \<noteq> l}, rs_placed := {x \<in> rs_placed r. snd x \<noteq> l},
     rs_prov := {x \<in> rs_prov r. (fst x, l) \<notin> rs_placed r}\<rparr>"

definition spec_purge :: "nat \<Rightarrow> roster_state \<Rightarrow> roster_state" where
  "spec_purge s r = r\<lparr>rs_prov := {x \<in> rs_prov r. snd x \<noteq> s}\<rparr>"

text \<open>
  A placement belongs to one lab, a new placement has a fresh id, and the account record of a
  student is purged only when no lab has the student.
\<close>

inductive roster_step :: "roster_state \<Rightarrow> roster_state \<Rightarrow> bool" where
  join: "roster_step r (spec_join l s r)"
| leave: "(\<And>p l'. (p, l) \<in> rs_placed r \<Longrightarrow> (p, l') \<in> rs_placed r \<Longrightarrow> l' = l) \<Longrightarrow> roster_step r (spec_leave l s r)"
| place: "i \<notin> fst ` rs_placed r \<Longrightarrow> roster_step r (spec_place i l r)"
| unplace: "roster_step r (spec_unplace is r)"
| drop: "(\<And>p l'. (p, l) \<in> rs_placed r \<Longrightarrow> (p, l') \<in> rs_placed r \<Longrightarrow> l' = l) \<Longrightarrow> roster_step r (spec_drop l r)"
| purge: "s \<notin> snd ` rs_member r \<Longrightarrow> roster_step r (spec_purge s r)"

lemma roster_step_sync: "roster_step r r' \<Longrightarrow> roster_sync r \<Longrightarrow> roster_sync r'"
proof (induction rule: roster_step.induct)
  case (join r l s)
  then show ?case by (auto simp: roster_sync_def spec_join_def)
next
  case (leave l r s)
  have "(p, x) \<notin> rs_placed r O (rs_member r - {(l, s)})"
    if "(p, x) \<in> rs_placed r O rs_member r" "x = s" "(p, l) \<in> rs_placed r" for p x
    using leave(1) that by auto
  then show ?case using leave(2) by (auto simp: roster_sync_def spec_leave_def)
next
  case (place i r l)
  then show ?case by (auto simp: roster_sync_def spec_place_def)
next
  case (unplace r "is")
  then show ?case by (auto simp: roster_sync_def spec_unplace_def)
next
  case (drop l r)
  then show ?case by (auto simp: roster_sync_def spec_drop_def)
next
  case (purge s r)
  then show ?case by (force simp: roster_sync_def spec_purge_def)
qed

lemma roster_steps_sync: "roster_step\<^sup>*\<^sup>* r r' \<Longrightarrow> roster_sync r \<Longrightarrow> roster_sync r'"
  by (induction rule: rtranclp_induct) (auto intro: roster_step_sync)

text \<open>
  The interface between the specification and an implementation: every concrete step keeps the
  concrete invariant and is matched by abstract steps.
\<close>

locale roster_impl =
  fixes abs :: "'w \<Rightarrow> roster_state" and ok :: "'w \<Rightarrow> bool" and cstep :: "'w \<Rightarrow> 'w \<Rightarrow> bool"
  assumes cstep_ok: "ok w \<Longrightarrow> cstep w w' \<Longrightarrow> ok w'"
    and cstep_sim: "ok w \<Longrightarrow> cstep w w' \<Longrightarrow> roster_step\<^sup>*\<^sup>* (abs w) (abs w')"
begin

lemma csteps_ok: "cstep\<^sup>*\<^sup>* w w' \<Longrightarrow> ok w \<Longrightarrow> ok w'"
  by (induction rule: rtranclp_induct) (auto intro: cstep_ok)

lemma csteps_sim: "cstep\<^sup>*\<^sup>* w w' \<Longrightarrow> ok w \<Longrightarrow> roster_step\<^sup>*\<^sup>* (abs w) (abs w')"
proof (induction rule: rtranclp_induct)
  case (step v w')
  then have "ok v" using csteps_ok by blast
  with step cstep_sim show ?case by (meson rtranclp_trans)
qed simp

lemma csteps_sync: "cstep\<^sup>*\<^sup>* w w' \<Longrightarrow> ok w \<Longrightarrow> roster_sync (abs w) \<Longrightarrow> roster_sync (abs w')"
  using csteps_sim roster_steps_sync by blast

end

section \<open>The abstraction\<close>

definition placed_key :: "placement_row \<Rightarrow> nat \<times> nat" where
  "placed_key p = (p_id p, p_lab_id p)"

definition abs_roster :: "'h world \<Rightarrow> roster_state" where
  "abs_roster w = \<lparr>rs_member = member_key ` set (rows (lab_members w)),
     rs_placed = placed_key ` set (rows (lab_placements w)),
     rs_prov = pm_key ` set (rows (placement_members w))\<rparr>"

lemma abs_roster_frame:
  assumes "lab_members w' = lab_members w" "lab_placements w' = lab_placements w" "placement_members w' = placement_members w"
  shows "abs_roster w' = abs_roster w"
  by (simp add: abs_roster_def assms)

lemma abs_roster_frames [frame_simps, simp]:
  "abs_roster (audit a b c d w) = abs_roster w"
  "abs_roster (send_mail m w) = abs_roster w"
  "abs_roster (enqueue X n act p r w) = abs_roster w"
  "abs_roster (snd (markTaskState n u s res e ca w)) = abs_roster w"
  "abs_roster (w\<lparr>draws := k\<rparr>) = abs_roster w"
  by (rule abs_roster_frame; simp)+

lemma abs_upd_placement:
  assumes "\<And>p. p_id (f p) = p_id p" "\<And>p. p_lab_id (f p) = p_lab_id p"
  shows "abs_roster (upd_placement i f w) = abs_roster w"
  by (simp add: abs_roster_def colset_tbl_update placed_key_def assms)

lemma abs_upd_pm:
  assumes "\<And>r. pm_placement_id (f r) = pm_placement_id r" "\<And>r. pm_student_id (f r) = pm_student_id r"
  shows "abs_roster (upd_pm i f w) = abs_roster w"
  by (simp add: abs_roster_def colset_tbl_update pm_key_def assms)

lemma placed_fun:
  assumes "schema_ok w" "(p, l) \<in> rs_placed (abs_roster w)" "(p, l') \<in> rs_placed (abs_roster w)"
  shows "l' = l"
  using assms(2,3) pk_unique [OF schema_pk(5) [OF assms(1)]]
  by (auto simp: abs_roster_def placed_key_def)

lemma placed_fresh:
  assumes "schema_ok w" shows "tbl_next (lab_placements w) \<notin> fst ` rs_placed (abs_roster w)"
  using pk_next_fresh [OF schema_pk(5) [OF assms]] by (auto simp: abs_roster_def placed_key_def image_image)

section \<open>Provisioning and removal\<close>

lemma prov_provisionMember:
  "pm_key ` set (rows (placement_members (snd (provisionMemberOnPlacement X p s a w))))
     = insert (p_id (pl_row p), s_id s) (pm_key ` set (rows (placement_members w)))"
proof (cases "pm_lookup (p_id (pl_row p)) (s_id s) w")
  case None
  then show ?thesis by (rule provisionMember_new [where X = X and a = a]) simp
next
  case (Some r)
  then have "pm_lookup (p_id (pl_row p)) (s_id s) w \<noteq> None" by simp
  then have "(p_id (pl_row p), s_id s) \<in> pm_key ` set (rows (placement_members w))"
    by (simp add: pm_lookup_None)
  with Some show ?thesis by (auto simp: provisionMemberOnPlacement_def)
qed

lemma provision_on_frame [frame_simps, simp]:
  "nodes (snd (provision_on X s a ps w)) = nodes w" "students (snd (provision_on X s a ps w)) = students w"
  "labs (snd (provision_on X s a ps w)) = labs w" "lab_members (snd (provision_on X s a ps w)) = lab_members w"
  "lab_placements (snd (provision_on X s a ps w)) = lab_placements w"
  by (induction ps arbitrary: w) (auto simp: Let_def split: prod.splits, (metis provisionMember_frame snd_conv)+)

lemma prov_provision_on:
  "pm_key ` set (rows (placement_members (snd (provision_on X s a ps w))))
     = pm_key ` set (rows (placement_members w)) \<union> {(p_id (pl_row p), s_id s) | p. p \<in> set ps}"
proof (induction ps arbitrary: w)
  case (Cons p ps)
  obtain res w1 where 1: "provisionMemberOnPlacement X p s a w = (res, w1)" by fastforce
  obtain rest w2 where 2: "provision_on X s a ps w1 = (rest, w2)" by fastforce
  from Cons [of w1] prov_provisionMember [of X p s a w] 1 2 show ?case by auto
qed simp

lemma prov_fold_provision:
  "pm_key ` set (rows (placement_members (fold (\<lambda>s w. snd (provisionMemberOnPlacement X p s a w)) ss w)))
     = pm_key ` set (rows (placement_members w)) \<union> {(p_id (pl_row p), s_id s) | s. s \<in> set ss}"
proof (induction ss arbitrary: w)
  case (Cons s ss)
  show ?case unfolding fold_simps comp_apply Cons [of "snd (provisionMemberOnPlacement X p s a w)"] prov_provisionMember
    by auto
qed simp

lemma schema_provision_on:
  assumes "schema_ok w" "\<And>p. p \<in> set ps \<Longrightarrow> p_id (pl_row p) \<in> p_id ` set (rows (lab_placements w))"
    "s_id s \<in> s_id ` set (rows (students w))"
  shows "schema_ok (snd (provision_on X s a ps w))"
  using assms
proof (induction ps arbitrary: w)
  case (Cons p ps)
  obtain res w1 where 1: "provisionMemberOnPlacement X p s a w = (res, w1)" by fastforce
  obtain rest w2 where 2: "provision_on X s a ps w1 = (rest, w2)" by fastforce
  have "schema_ok w1" using schema_provisionMember [of w p s X a] Cons.prems 1 by simp
  moreover have "lab_placements w1 = lab_placements w" "students w1 = students w"
    using provisionMember_frame [where X = X and p = p and s = s and a = a and w = w] 1 by simp_all
  ultimately have "schema_ok (snd (provision_on X s a ps w1))" using Cons by simp
  with 1 2 show ?case by simp
qed simp

text \<open>The ids of a lab's placements.\<close>

lemma listPlacements_ids:
  assumes "schema_ok w"
  shows "(\<lambda>p. p_id (pl_row p)) ` set (listPlacements l w) = {i. (i, l) \<in> rs_placed (abs_roster w)}"
proof -
  have "(\<lambda>p. p_id (pl_row p)) ` set (listPlacements l w) = p_id ` (pl_row ` set (listPlacements l w))"
    by (simp add: image_image)
  also have "\<dots> = {i. (i, l) \<in> rs_placed (abs_roster w)}"
    by (auto simp: listPlacements_rows [OF assms] abs_roster_def placed_key_def image_iff)
  finally show ?thesis .
qed

lemma listPlacements_frame:
  assumes "labs w' = labs w" "nodes w' = nodes w" "lab_placements w' = lab_placements w"
  shows "listPlacements l w' = listPlacements l w"
proof -
  have "placement_join w' = placement_join w"
    unfolding placement_join_def [abs_def] by_id_frame(1) [OF assms(1)] by_id_frame(2) [OF assms(2)] ..
  then show ?thesis by (simp add: listPlacements_def placement_select_def assms)
qed

section \<open>Linux UIDs\<close>

lemma uid_loop_first_free:
  "u \<le> 60000 \<Longrightarrow> (if 59999 < uid_loop used u then None else Some (uid_loop used u)) = first_free u 59999 used"
proof (induction used u rule: uid_loop.induct)
  case (1 used u)
  show ?case
  proof (cases "u \<le> 59999 \<and> u \<in> set used")
    case True
    with 1 show ?thesis by (auto simp: uid_loop.simps [of used u] first_free.simps [of u])
  next
    case False
    with 1 show ?thesis by (auto simp: uid_loop.simps [of used u] first_free.simps [of u])
  qed
qed

lemma next_uid_first_free: "next_uid used = first_free 10000 59999 used"
  using uid_loop_first_free [of 10000 used] by (simp add: next_uid_def Let_def)

interpretation uid_pool: lowest_free next_uid 10000 59999
  unfolding next_uid_first_free [abs_def] by (rule lowest_free_first_free)

lemma insert_student_ok:
  assumes "schema_ok w" "student_lookup inp w = None" "insert_student inp w = (r, w')"
  shows "schema_ok w'" "\<And>e. r = Inl e \<Longrightarrow> w' = w"
    "\<And>s. r = Inr s \<Longrightarrow> s \<in> set (rows (students w')) \<and> s_username s = toLower (trim (si_username inp))"
    "labs w' = labs w \<and> nodes w' = nodes w \<and> lab_members w' = lab_members w \<and> lab_placements w' = lab_placements w \<and>
     placement_members w' = placement_members w"
proof -
  have nm: "toLower (trim (si_username inp)) \<notin> s_username ` set (rows (students w))"
    using assms(2) by (auto simp: student_lookup_def tbl_get_None split: option.splits)
  show "schema_ok w'"
  proof (cases "next_uid (map s_linux_uid (rows (students w)))")
    case None
    with assms show ?thesis by (auto simp: insert_student_def)
  next
    case (Some uid)
    have "10000 \<le> uid" "uid \<le> 59999" "uid \<notin> s_linux_uid ` set (rows (students w))"
      using uid_pool.alloc_free [OF Some] by auto
    with Some nm assms(1,3) show ?thesis
      by (auto simp: insert_student_def Let_def split: if_splits intro!: schema_student_insert)
  qed
qed (use assms(3) in \<open>auto simp: insert_student_def Let_def split: option.splits if_splits\<close>)

lemma student_lookup_mem: "student_lookup inp w = Some s \<Longrightarrow> s \<in> set (rows (students w))"
  by (auto simp: student_lookup_def split: option.splits if_splits dest: tbl_get_Some)

lemma findOrCreate_ok:
  assumes "schema_ok w" "findOrCreateStudent inp w = (r, w')"
  shows "schema_ok w'" "\<And>e. r = Inl e \<Longrightarrow> w' = w" "\<And>s. r = Inr s \<Longrightarrow> s \<in> set (rows (students w'))"
    "labs w' = labs w \<and> nodes w' = nodes w \<and> lab_members w' = lab_members w \<and> lab_placements w' = lab_placements w \<and>
     placement_members w' = placement_members w"
proof -
  consider s where "student_lookup inp w = Some s" "r = Inr s" "w' = w"
    | "student_lookup inp w = None" "insert_student inp w = (r, w')"
    using assms(2) by (auto simp: findOrCreateStudent_def split: option.splits)
  note cases = this
  note new = insert_student_ok [OF assms(1)]
  show "schema_ok w'" using assms(1) new(1) by (cases rule: cases) simp_all
  show "\<And>e. r = Inl e \<Longrightarrow> w' = w" using new(2) by (cases rule: cases) simp_all
  show "s \<in> set (rows (students w'))" if "r = Inr s" for s
    by (cases rule: cases) (use that student_lookup_mem new(3) in auto)
  show "labs w' = labs w \<and> nodes w' = nodes w \<and> lab_members w' = lab_members w \<and> lab_placements w' = lab_placements w \<and>
     placement_members w' = placement_members w"
    by (cases rule: cases) (use new(4) in auto)
qed

section \<open>Joining\<close>

lemma findOrCreate_again:
  assumes "findOrCreateStudent inp w = (Inr s, w')"
  shows "findOrCreateStudent inp w' = (Inr s, w')"
proof (cases "student_lookup inp w")
  case None
  with assms obtain row where s: "s = row (tbl_next (students w))" and w': "w' = w\<lparr>students := tbl_insert row (students w)\<rparr>"
    and row: "\<And>i. s_student_id (row i) = si_studentId inp" "\<And>i. s_username (row i) = toLower (trim (si_username inp))"
    by (force simp: findOrCreateStudent_def insert_student_def Let_def split: option.splits if_splits)
  have "student_lookup inp w' = Some s"
    using None s row by (auto simp: student_lookup_def w' tbl_get_insert split: option.splits if_splits)
  then show ?thesis by (simp add: findOrCreateStudent_def)
next
  case (Some x)
  with assms show ?thesis by (auto simp: findOrCreateStudent_def)
qed

lemma is_member_iff: "is_member l s w \<longleftrightarrow> (l, s) \<in> rs_member (abs_roster w)"
  unfolding is_member_def abs_roster_def member_key_def
  by (cases "tbl_get (\<lambda>m. m_lab_id m = l \<and> m_student_id m = s) (lab_members w)")
     (auto simp: tbl_get_None image_iff dest!: tbl_get_Some)

lemma insert_member_frame [frame_simps, simp]:
  "nodes (insert_member l s w) = nodes w" "students (insert_member l s w) = students w"
  "labs (insert_member l s w) = labs w" "lab_placements (insert_member l s w) = lab_placements w"
  "placement_members (insert_member l s w) = placement_members w"
  "rs_member (abs_roster (insert_member l s w)) = insert (l, s) (rs_member (abs_roster w))"
  "rs_placed (abs_roster (insert_member l s w)) = rs_placed (abs_roster w)"
  "rs_prov (abs_roster (insert_member l s w)) = rs_prov (abs_roster w)"
  by (simp_all add: insert_member_def abs_roster_def member_key_def)

lemma schema_insert_member:
  assumes "schema_ok w" "\<not> is_member l s w" "l \<in> l_id ` set (rows (labs w))" "s \<in> s_id ` set (rows (students w))"
  shows "schema_ok (insert_member l s w)"
  unfolding insert_member_def
  by (rule schema_member_insert) (use assms in \<open>auto simp: member_key_def is_member_iff abs_roster_def\<close>)

text \<open>Enrol (unless enrolled) and provision everywhere: one abstract join.\<close>

lemma enrol_sim:
  assumes "schema_ok w" "l \<in> l_id ` set (rows (labs w))" "s_id s \<in> s_id ` set (rows (students w))"
    and w1: "w1 = (if is_member l (s_id s) w then w else insert_member l (s_id s) w)"
    and w2: "w2 = audit a b c d w1"
  shows "schema_ok (snd (provision_on X s act (listPlacements l w2) w2))"
    "abs_roster (snd (provision_on X s act (listPlacements l w2) w2)) = spec_join l (s_id s) (abs_roster w)"
proof -
  have s1: "schema_ok w1" using assms(1-3) by (simp add: w1 schema_insert_member)
  then have s2: "schema_ok w2" by (simp add: w2)
  have fr: "lab_placements w2 = lab_placements w" "students w2 = students w" by (simp_all add: w2 w1)
  have "p_id (pl_row p) \<in> p_id ` set (rows (lab_placements w2))" if "p \<in> set (listPlacements l w2)" for p
    using that listPlacements_rows [OF s2, of l] by blast
  then show "schema_ok (snd (provision_on X s act (listPlacements l w2) w2))"
    using s2 assms(3) fr by (intro schema_provision_on) auto
  have m: "rs_member (abs_roster w2) = insert (l, s_id s) (rs_member (abs_roster w))"
    "rs_placed (abs_roster w2) = rs_placed (abs_roster w)" "rs_prov (abs_roster w2) = rs_prov (abs_roster w)"
    by (auto simp: w2 w1 is_member_iff)
  have ids: "{(p_id (pl_row p), s_id s) | p. p \<in> set (listPlacements l w2)} = {(i, s_id s) | i. (i, l) \<in> rs_placed (abs_roster w)}"
    using listPlacements_ids [OF s2, of l] m(2) by (auto simp: set_eq_iff image_iff)
  show "abs_roster (snd (provision_on X s act (listPlacements l w2) w2)) = spec_join l (s_id s) (abs_roster w)"
    using m ids prov_provision_on [of X s act "listPlacements l w2" w2]
    by (simp add: abs_roster_def spec_join_def)
qed

lemma getLab_mem: "getLab l w = Some lab \<Longrightarrow> lab \<in> set (rows (labs w)) \<and> l_id lab = l"
  by (simp add: getLab_def by_id_Some)

lemma addStudentToLab_ok:
  assumes "schema_ok w" "addStudentToLab X l inp act w = (r, w')"
  shows "schema_ok w'" "labs w' = labs w" "nodes w' = nodes w" "lab_placements w' = lab_placements w"
    "\<And>e. r = Inl e \<Longrightarrow> abs_roster w' = abs_roster w"
    "\<And>s ns. r = Inr (s, ns) \<Longrightarrow> abs_roster w' = spec_join l (s_id s) (abs_roster w) \<and> \<not> is_member l (s_id s) w"
proof -
  have "schema_ok w' \<and> labs w' = labs w \<and> nodes w' = nodes w \<and> lab_placements w' = lab_placements w \<and>
    (case r of Inl e \<Rightarrow> abs_roster w' = abs_roster w
     | Inr (s, ns) \<Rightarrow> abs_roster w' = spec_join l (s_id s) (abs_roster w) \<and> \<not> is_member l (s_id s) w)"
  proof (cases "getLab l w")
    case (Some lab)
    obtain q w1 where f: "findOrCreateStudent inp w = (q, w1)" by fastforce
    note fo = findOrCreate_ok [OF assms(1) f]
    have a1: "abs_roster w1 = abs_roster w" by (rule abs_roster_frame) (use fo(4) in auto)
    show ?thesis
    proof (cases q)
      case (Inl e)
      with Some f assms a1 fo show ?thesis by (auto simp: addStudentToLab_def)
    next
      case (Inr s)
      have sm: "s_id s \<in> s_id ` set (rows (students w1))" using fo(3) Inr by blast
      have lm: "l \<in> l_id ` set (rows (labs w1))" using getLab_mem [OF Some] fo(4) by auto
      show ?thesis
      proof (cases "is_member l (s_id s) w1")
        case True
        with Some f assms a1 fo Inr show ?thesis by (auto simp: addStudentToLab_def)
      next
        case False
        define w2 where "w2 = audit act ''member.add'' (Some (l_name lab @ ''/'' @ s_username s)) None (insert_member l (s_id s) w1)"
        have "schema_ok (snd (provision_on X s act (listPlacements l w2) w2))"
          "abs_roster (snd (provision_on X s act (listPlacements l w2) w2)) = spec_join l (s_id s) (abs_roster w1)"
          by (rule enrol_sim [OF fo(1) lm sm]; simp add: w2_def False)+
        moreover have "\<not> is_member l (s_id s) w" using False by (simp add: is_member_iff a1)
        moreover have "w' = snd (provision_on X s act (listPlacements l w2) w2)"
          "r = Inr (s, fst (provision_on X s act (listPlacements l w2) w2))"
          using assms(2) Some f Inr False by (auto simp: addStudentToLab_def w2_def Let_def split: prod.splits)
        ultimately show ?thesis using fo(4) a1 by (simp add: w2_def)
      qed
    qed
  qed (use assms in \<open>auto simp: addStudentToLab_def\<close>)
  then show "schema_ok w'" "labs w' = labs w" "nodes w' = nodes w" "lab_placements w' = lab_placements w"
    "\<And>e. r = Inl e \<Longrightarrow> abs_roster w' = abs_roster w"
    "\<And>s ns. r = Inr (s, ns) \<Longrightarrow> abs_roster w' = spec_join l (s_id s) (abs_roster w) \<and> \<not> is_member l (s_id s) w"
    by auto
qed

section \<open>The PI is a member\<close>

definition pi_member :: "'h world \<Rightarrow> bool" where
  "pi_member w \<longleftrightarrow> (\<forall>l \<in> set (rows (labs w)). \<forall>s. l_pi_student_id l = Some s \<longrightarrow> is_member (l_id l) s w)"

lemma pi_member_frame:
  assumes "labs w' = labs w" "rs_member (abs_roster w) \<subseteq> rs_member (abs_roster w')"
  shows "pi_member w \<Longrightarrow> pi_member w'"
  using assms by (auto simp: pi_member_def is_member_iff)

lemma schema_upd_lab:
  assumes "schema_ok w" "\<And>l. l_id (f l) = l_id l" "\<And>l. l_name (f l) = l_name l"
    "\<And>l. l_pi_student_id (f l) = Some s" "s \<in> s_id ` set (rows (students w))"
  shows "schema_ok (upd_lab i f w)"
proof -
  have "l_pi_student_id ` set (rows (tbl_update (\<lambda>l. l_id l = i) f (labs w)))
      \<subseteq> insert (Some s) (l_pi_student_id ` set (rows (labs w)))"
    using assms(4) by (auto simp: rows_tbl_update)
  moreover have "\<forall>y \<in> l_pi_student_id ` set (rows (labs w)). \<forall>i. y = Some i \<longrightarrow> i \<in> s_id ` set (rows (students w))"
    using assms(1) unfolding schema_ok_def fk_all_def by (elim conjE)
  ultimately have "\<forall>y \<in> l_pi_student_id ` set (rows (tbl_update (\<lambda>l. l_id l = i) f (labs w))). \<forall>i. y = Some i \<longrightarrow>
      i \<in> s_id ` set (rows (students w))" using assms(5) by fastforce
  moreover have ids: "l_id ` set (rows (tbl_update (\<lambda>l. l_id l = i) f (labs w))) = l_id ` set (rows (labs w))"
    by (rule colset_tbl_update) (rule assms)
  ultimately have "fk_all (upd_lab i f w)"
    using assms(1) unfolding schema_ok_def fk_all_def upd_lab_def by (simp add: ids del: ball_simps)
  moreover have "pk_all (upd_lab i f w)" "uniq_all (upd_lab i f w)" "uid_range (upd_lab i f w)"
    using assms(1-3) unfolding schema_ok_def pk_all_def uniq_all_def uid_range_def upd_lab_def
    by (simp_all add: pk_ok_update col_tbl_update)
  ultimately show ?thesis by (simp add: schema_ok_def)
qed

lemma pi_grant_ok:
  assumes "schema_ok w" "lab \<in> set (rows (labs w))" "s \<in> set (rows (students w))"
    "pi_grant X lab s inp act w = (r, w')"
  shows "schema_ok w'" "abs_roster w' = spec_join (l_id lab) (s_id s) (abs_roster w)" "nodes w' = nodes w"
    "pi_member w \<Longrightarrow> pi_member w'" "lab_placements w' = lab_placements w"
    "\<exists>l \<in> set (rows (labs w')). l_id l = l_id lab \<and> l_pi_student_id l = Some (s_id s)"
proof -
  define em nm where "em = normalizeEmail (si_email inp)" "nm = (case si_name inp of None \<Rightarrow> None | Some n \<Rightarrow> nonblank (trim n))"
  define fs :: "student_row \<Rightarrow> student_row" where "fs = (\<lambda>r. r\<lparr>s_email := em, s_name := nm, s_updated_at := clock w\<rparr>)"
  define fl :: "lab_row \<Rightarrow> lab_row" where "fl = (\<lambda>l. l\<lparr>l_pi_student_id := Some (s_id s), l_pi_name := nm, l_pi_email := em, l_updated_at := clock w\<rparr>)"
  define w1 where "w1 = w\<lparr>students := tbl_update (\<lambda>r. s_id r = s_id s) fs (students w)\<rparr>"
  define w2 where "w2 = upd_lab (l_id lab) fl w1"
  define w3 where "w3 = (if is_member (l_id lab) (s_id s) w2 then w2 else insert_member (l_id lab) (s_id s) w2)"
  define w4 where "w4 = audit act ''pi.access.ensure'' (Some (l_name lab @ ''/'' @ s_username s)) None w3"
  have w': "w' = snd (provision_on X s act (listPlacements (l_id lab) w4) w4)"
    using assms(4) unfolding pi_grant_def Let_def w4_def w3_def w2_def w1_def fl_def fs_def em_nm_def
    by (auto simp: upd_lab_def split: prod.splits)
  have s1: "schema_ok w1" unfolding w1_def by (rule schema_student_update) (use assms(1) in \<open>auto simp: fs_def\<close>)
  have sid: "s_id ` set (rows (students w1)) = s_id ` set (rows (students w))"
    unfolding w1_def by (simp add: colset_tbl_update fs_def)
  have s2: "schema_ok w2" unfolding w2_def
    by (rule schema_upd_lab [OF s1, of _ "s_id s"]) (use sid assms(3) in \<open>auto simp: fl_def\<close>)
  have lm: "l_id lab \<in> l_id ` set (rows (labs w2))"
  proof -
    have "l_id ` set (rows (labs w2)) = l_id ` set (rows (labs w))"
      by (simp add: w2_def w1_def upd_lab_def colset_tbl_update fl_def)
    with assms(2) show ?thesis by auto
  qed
  have sm: "s_id s \<in> s_id ` set (rows (students w2))"
    using sid assms(3) by (auto simp: w2_def upd_lab_def)
  have a2: "abs_roster w2 = abs_roster w"
    by (rule abs_roster_frame) (simp_all add: w2_def w1_def upd_lab_def)
  show "schema_ok w'" "abs_roster w' = spec_join (l_id lab) (s_id s) (abs_roster w)"
    unfolding w' a2 [symmetric] by (rule enrol_sim [OF s2 lm sm w3_def w4_def])+
  note abs' = this(2)
  show "nodes w' = nodes w" "lab_placements w' = lab_placements w"
    by (simp_all add: w' w4_def w3_def w2_def w1_def upd_lab_def)
  have labs': "labs w' = tbl_update (\<lambda>l. l_id l = l_id lab) fl (labs w)"
    by (simp add: w' w4_def w3_def w2_def w1_def upd_lab_def)
  show "\<exists>l \<in> set (rows (labs w')). l_id l = l_id lab \<and> l_pi_student_id l = Some (s_id s)"
    unfolding labs' by (rule bexI [OF _ tbl_update_hit [OF assms(2)]]) (simp_all add: fl_def)
  assume pm: "pi_member w"
  show "pi_member w'" unfolding pi_member_def is_member_iff abs'
  proof (intro ballI allI impI)
    fix l i assume "l \<in> set (rows (labs w'))" "l_pi_student_id l = Some i"
    then show "(l_id l, i) \<in> rs_member (spec_join (l_id lab) (s_id s) (abs_roster w))"
      unfolding labs' using pm
      by (elim tbl_updateE) (auto simp: fl_def spec_join_def pi_member_def is_member_iff)
  qed
qed

lemma getLab_total:
  "schema_ok w \<Longrightarrow> lab \<in> set (rows (labs w)) \<Longrightarrow> getLab (l_id lab) w = Some lab"
  by (simp add: getLab_def by_id_mem)

lemma ensurePiAccess_ok:
  assumes "schema_ok w" "ensurePiAccess X l inp act w = (r, w')"
  shows "schema_ok w'" "nodes w' = nodes w" "pi_member w \<Longrightarrow> pi_member w'" "lab_placements w' = lab_placements w"
    "\<And>e. r = Inl e \<Longrightarrow> abs_roster w' = abs_roster w"
    "\<And>s ns. r = Inr (s, ns) \<Longrightarrow> abs_roster w' = spec_join l (s_id s) (abs_roster w) \<and>
       (\<exists>lab \<in> set (rows (labs w')). l_id lab = l \<and> l_pi_student_id lab = Some (s_id s))"
proof -
  have "schema_ok w' \<and> nodes w' = nodes w \<and> (pi_member w \<longrightarrow> pi_member w') \<and> lab_placements w' = lab_placements w \<and>
    (case r of Inl e \<Rightarrow> abs_roster w' = abs_roster w
     | Inr (s, ns) \<Rightarrow> abs_roster w' = spec_join l (s_id s) (abs_roster w) \<and>
         (\<exists>lab \<in> set (rows (labs w')). l_id lab = l \<and> l_pi_student_id lab = Some (s_id s)))"
  proof (cases "getLab l w")
    case (Some lab)
    show ?thesis
    proof (cases "trim (si_username inp) = []")
      case False
      obtain q w1 where f: "findOrCreateStudent inp w = (q, w1)" by fastforce
      note fo = findOrCreate_ok [OF assms(1) f]
      have a1: "abs_roster w1 = abs_roster w" by (rule abs_roster_frame) (use fo(4) in auto)
      have p1: "pi_member w1 = pi_member w" using fo(4) by (simp add: pi_member_def is_member_iff a1)
      have lab: "lab \<in> set (rows (labs w1))" "l_id lab = l" "getLab l w1 = Some lab"
        using getLab_mem [OF Some] fo(4) getLab_total [OF fo(1), of lab] by auto
      show ?thesis
      proof (cases q)
        case (Inl e)
        with Some False f assms a1 p1 fo show ?thesis by (auto simp: ensurePiAccess_def)
      next
        case (Inr s)
        show ?thesis
        proof (cases "l_pi_student_id lab \<in> {None, Some (s_id s)}")
          case True
          with Some False f assms(2) Inr lab have g: "pi_grant X lab s inp act w1 = (r, w')"
            by (auto simp: ensurePiAccess_def)
          have r: "\<exists>ns. r = Inr (s, ns)" using g by (auto simp: pi_grant_def Let_def split: prod.splits)
          note pg = pi_grant_ok [OF fo(1) lab(1) _ g]
          have "s \<in> set (rows (students w1))" using fo(3) Inr by blast
          with pg r lab(2) a1 p1 fo(4) show ?thesis by auto
        next
          case F: False
          with Some False f assms(2) Inr lab have "w' = w1" "r = Inl (LabE PiUsernameFixed)"
            by (auto simp: ensurePiAccess_def)
          with fo a1 p1 show ?thesis by auto
        qed
      qed
    qed (use Some assms in \<open>auto simp: ensurePiAccess_def\<close>)
  qed (use assms in \<open>auto simp: ensurePiAccess_def\<close>)
  then show "schema_ok w'" "nodes w' = nodes w" "pi_member w \<Longrightarrow> pi_member w'" "lab_placements w' = lab_placements w"
    "\<And>e. r = Inl e \<Longrightarrow> abs_roster w' = abs_roster w"
    "\<And>s ns. r = Inr (s, ns) \<Longrightarrow> abs_roster w' = spec_join l (s_id s) (abs_roster w) \<and>
       (\<exists>lab \<in> set (rows (labs w')). l_id lab = l \<and> l_pi_student_id lab = Some (s_id s))"
    by auto
qed

section \<open>Leaving\<close>

lemma removeMember_frame [frame_simps, simp]:
  "nodes (removeMemberFromPlacement X p i u d a rm w) = nodes w"
  "students (removeMemberFromPlacement X p i u d a rm w) = students w"
  "labs (removeMemberFromPlacement X p i u d a rm w) = labs w"
  "lab_members (removeMemberFromPlacement X p i u d a rm w) = lab_members w"
  "lab_placements (removeMemberFromPlacement X p i u d a rm w) = lab_placements w"
  by (simp_all add: removeMemberFromPlacement_def Let_def)

lemma fold_removeMember_frame [frame_simps, simp]:
  "nodes (fold (\<lambda>p w. removeMemberFromPlacement X p i u d a rm w) ps w) = nodes w"
  "students (fold (\<lambda>p w. removeMemberFromPlacement X p i u d a rm w) ps w) = students w"
  "labs (fold (\<lambda>p w. removeMemberFromPlacement X p i u d a rm w) ps w) = labs w"
  "lab_members (fold (\<lambda>p w. removeMemberFromPlacement X p i u d a rm w) ps w) = lab_members w"
  "lab_placements (fold (\<lambda>p w. removeMemberFromPlacement X p i u d a rm w) ps w) = lab_placements w"
  by (rule fold_frame, simp)+

lemma prov_removeMember:
  "pm_key ` set (rows (placement_members (removeMemberFromPlacement X p i u d a rm w)))
     = pm_key ` set (rows (placement_members w)) - {(p_id (pl_row p), i)}"
  by (auto simp: removeMemberFromPlacement_def Let_def pm_key_def)

lemma prov_fold_removeMember:
  "pm_key ` set (rows (placement_members (fold (\<lambda>p w. removeMemberFromPlacement X p i u d a rm w) ps w)))
     = pm_key ` set (rows (placement_members w)) - {(p_id (pl_row p), i) | p. p \<in> set ps}"
proof (induction ps arbitrary: w)
  case (Cons p ps)
  show ?case unfolding fold_simps comp_apply Cons [of "removeMemberFromPlacement X p i u d a rm w"] prov_removeMember
    by auto
qed simp

lemma schema_fold_removeMember:
  "schema_ok w \<Longrightarrow> schema_ok (fold (\<lambda>p w. removeMemberFromPlacement X p i u d a rm w) ps w)"
  by (rule fold_pres) (auto intro: schema_placement_ops)

lemma removeStudentFromLab_ok:
  assumes "schema_ok w" "removeStudentFromLab X l i d act w = (r, w')"
  shows "schema_ok w'" "nodes w' = nodes w" "labs w' = labs w" "students w' = students w" "lab_placements w' = lab_placements w"
    "\<And>e. r = Inl e \<Longrightarrow> w' = w"
    "r = Inr () \<Longrightarrow> abs_roster w' = spec_leave l i (abs_roster w) \<and> is_member l i w \<and>
       (\<forall>lab \<in> set (rows (labs w)). l_id lab = l \<longrightarrow> l_pi_student_id lab \<noteq> Some i)"
proof -
  have "schema_ok w' \<and> nodes w' = nodes w \<and> labs w' = labs w \<and> students w' = students w \<and> lab_placements w' = lab_placements w \<and>
    (case r of Inl e \<Rightarrow> w' = w
     | Inr _ \<Rightarrow> abs_roster w' = spec_leave l i (abs_roster w) \<and> is_member l i w \<and>
         (\<forall>lab \<in> set (rows (labs w)). l_id lab = l \<longrightarrow> l_pi_student_id lab \<noteq> Some i))"
  proof (cases "getLab l w")
    case (Some lab)
    show ?thesis
    proof (cases "l_pi_student_id lab = Some i")
      case False
      show ?thesis
      proof (cases "if is_member l i w then student_by_id i w else None")
        case None
        with Some False assms show ?thesis by (auto simp: removeStudentFromLab_def)
      next
        case m: (Some s)
        then have mem: "is_member l i w" by (auto split: if_splits)
        define ps where "ps = listPlacements l w"
        define w1 where "w1 = (if d \<and> ps \<noteq> [] then w\<lparr>draws := draws w + 1\<rparr> else w)"
        define rm where "rm = (if d \<and> ps \<noteq> [] then Some (rand_uuid X (draws w),
            if d then map pl_node_name (filter (\<lambda>p. pl_node_cold_backend p = LocalZfs) ps) else []) else None)"
        define w2 where "w2 = fold (\<lambda>p w. removeMemberFromPlacement X p i (s_username s) d act rm w) ps w1"
        define w3 where "w3 = w2\<lparr>lab_members := tbl_delete (\<lambda>m. m_lab_id m = l \<and> m_student_id m = i) (lab_members w2)\<rparr>"
        define w4 where "w4 = audit act ''member.remove'' (Some (l_name lab @ ''/'' @ s_username s)) (if d then Some ''data deleted'' else None) w3"
        have r: "r = Inr () \<and> (w' = w4 \<or> (\<exists>m. w' = send_mail m w4))"
          using assms(2) Some False m unfolding removeStudentFromLab_def w4_def w3_def w2_def w1_def rm_def ps_def
          by (auto simp: Let_def split: option.splits if_splits)
        have s1: "schema_ok w1" "abs_roster w1 = abs_roster w" using assms(1) by (simp_all add: w1_def)
        have "schema_ok w2" unfolding w2_def by (rule schema_fold_removeMember) (rule s1)
        then have "schema_ok w4" unfolding w4_def w3_def by (simp add: schema_member_delete)
        then have sw: "schema_ok w'" using r by auto
        have ids: "{(p_id (pl_row p), i) | p. p \<in> set ps} = {(j, i) | j. (j, l) \<in> rs_placed (abs_roster w)}"
          using listPlacements_ids [OF assms(1), of l] by (auto simp: set_eq_iff image_iff ps_def)
        have t1: "lab_members w1 = lab_members w" "lab_placements w1 = lab_placements w"
          "placement_members w1 = placement_members w" by (simp_all add: w1_def)
        have "rs_member (abs_roster w4) = rs_member (abs_roster w) - {(l, i)}"
          by (auto simp: w4_def w3_def w2_def t1 abs_roster_def member_key_def)
        moreover have "rs_prov (abs_roster w4) = rs_prov (abs_roster w) - {(j, i) | j. (j, l) \<in> rs_placed (abs_roster w)}"
          unfolding ids [symmetric] using prov_fold_removeMember [of X i "s_username s" d act rm ps w1]
          by (simp add: w4_def w3_def w2_def t1 abs_roster_def)
        moreover have "rs_placed (abs_roster w4) = rs_placed (abs_roster w)"
          by (simp add: w4_def w3_def w2_def t1 abs_roster_def)
        ultimately have "abs_roster w4 = spec_leave l i (abs_roster w)"
          by (simp add: spec_leave_def)
        then have aw: "abs_roster w' = spec_leave l i (abs_roster w)" using r by auto
        have "l_pi_student_id lb \<noteq> Some i" if "lb \<in> set (rows (labs w))" "l_id lb = l" for lb
          using that False getLab_mem [OF Some] pk_unique [OF schema_pk(3) [OF assms(1)], of lab lb] by auto
        moreover have "nodes w' = nodes w \<and> labs w' = labs w \<and> students w' = students w \<and> lab_placements w' = lab_placements w"
          using r by (auto simp: w4_def w3_def w2_def w1_def)
        ultimately show ?thesis using r sw aw mem by auto
      qed
    qed (use Some assms in \<open>auto simp: removeStudentFromLab_def\<close>)
  qed (use assms in \<open>auto simp: removeStudentFromLab_def\<close>)
  then show "schema_ok w'" "nodes w' = nodes w" "labs w' = labs w" "students w' = students w" "lab_placements w' = lab_placements w"
    "\<And>e. r = Inl e \<Longrightarrow> w' = w"
    "r = Inr () \<Longrightarrow> abs_roster w' = spec_leave l i (abs_roster w) \<and> is_member l i w \<and>
       (\<forall>lab \<in> set (rows (labs w)). l_id lab = l \<longrightarrow> l_pi_student_id lab \<noteq> Some i)"
    by auto
qed

lemma removeStudent_pi:
  assumes "schema_ok w" "pi_member w" shows "pi_member (snd (removeStudentFromLab X l i d act w))"
proof (cases "removeStudentFromLab X l i d act w")
  case (Pair r w')
  note ok = removeStudentFromLab_ok [OF assms(1) Pair]
  show ?thesis
  proof (cases r)
    case (Inl e)
    with ok(6) Pair assms(2) show ?thesis by auto
  next
    case (Inr u)
    with ok(7) have "abs_roster w' = spec_leave l i (abs_roster w)"
      "\<forall>lab \<in> set (rows (labs w)). l_id lab = l \<longrightarrow> l_pi_student_id lab \<noteq> Some i" by auto
    with assms(2) ok(3) Pair show ?thesis by (auto simp: pi_member_def is_member_iff spec_leave_def)
  qed
qed

section \<open>Placements\<close>

lemma abs_delete_placements:
  assumes "schema_ok w"
  shows "abs_roster (delete_placements P w) = spec_unplace (p_id ` set (tbl_all P (lab_placements w))) (abs_roster w)"
proof -
  have "p_id p \<in> p_id ` {q \<in> set (rows (lab_placements w)). P q} \<longleftrightarrow> P p" if p: "p \<in> set (rows (lab_placements w))" for p
  proof
    assume "p_id p \<in> p_id ` {q \<in> set (rows (lab_placements w)). P q}"
    then obtain q where "q \<in> set (rows (lab_placements w))" "P q" "p_id p = p_id q" by blast
    with pk_unique [OF schema_pk(5) [OF assms] p] show "P p" by simp
  qed (use p in blast)
  note gone = this
  have "placed_key ` {p \<in> set (rows (lab_placements w)). \<not> P p}
      = {x \<in> placed_key ` set (rows (lab_placements w)). fst x \<notin> p_id ` {q \<in> set (rows (lab_placements w)). P q}}"
    using gone by (fastforce simp: placed_key_def)
  moreover have "pm_key ` {r \<in> set (rows (placement_members w)). pm_placement_id r \<notin> G}
      = {x \<in> pm_key ` set (rows (placement_members w)). fst x \<notin> G}" for G
    by (auto simp: pm_key_def)
  ultimately show ?thesis by (simp add: abs_roster_def spec_unplace_def tbl_all_def)
qed

lemma roster_abs:
  assumes "schema_ok w" shows "s_id ` set (roster l w) = {s. (l, s) \<in> rs_member (abs_roster w)}"
proof -
  have "(l, s) \<in> member_key ` M \<longleftrightarrow> (\<exists>m \<in> M. m_lab_id m = l \<and> m_student_id m = s)" for s and M :: "lab_member_row set"
    by (auto simp: member_key_def)
  then show ?thesis by (auto simp: roster_ids [OF assms] abs_roster_def)
qed

lemma createPlacement_abs:
  assumes "schema_ok w" "createPlacement X inp w = (r, w')"
  shows "abs_roster w' = (case r of Inl e \<Rightarrow> abs_roster w | Inr p \<Rightarrow> spec_place (p_id (pl_row p)) (ci_labId inp) (abs_roster w))"
    "\<And>p. r = Inr p \<Longrightarrow> p_id (pl_row p) = tbl_next (lab_placements w)"
proof -
  have "abs_roster w' = (case r of Inl e \<Rightarrow> abs_roster w | Inr p \<Rightarrow> spec_place (p_id (pl_row p)) (ci_labId inp) (abs_roster w)) \<and>
    (\<forall>p. r = Inr p \<longrightarrow> p_id (pl_row p) = tbl_next (lab_placements w))"
  proof (cases r)
    case (Inl e)
    with assms have "w' = w" using createPlacement_err [OF assms(1)] by blast
    with Inl show ?thesis by simp
  next
    case (Inr p)
    with assms have "createPlacement X inp w = (Inr p, w')" by simp
    then obtain node c sc w1 w2 where
      n: "node_by_id (ci_nodeId inp) w = Some node"
      and i: "insert_placement inp c sc w = (Inr (tbl_next (lab_placements w)), w1)"
      and g: "getPlacement (tbl_next (lab_placements w)) w1 = Some p"
      and w2: "w2 = audit (ci_actor inp) ''placement.create'' (Some (at_node p)) None (enqueuePlacementCreate X p (ci_actor inp) w1)"
      and w': "w' = fold (\<lambda>s w. snd (provisionMemberOnPlacement X p s (ci_actor inp) w)) (roster (ci_labId inp) w2) w2"
      by (rule createPlacement_okE)
    note ins = insert_placement_ok(2,3) [OF i]
    have pid: "p_id (pl_row p) = tbl_next (lab_placements w)" using getPlacement_Some(3) [OF g] .
    have s2: "schema_ok w2" using schema_insert_placement [OF assms(1), of inp c sc] n i
      by (simp add: w2 enqueuePlacementCreate_def)
    have ids: "{(j, s_id s) | s. s \<in> set (roster (ci_labId inp) w2)} = {(j, s) | s. (ci_labId inp, s) \<in> rs_member (abs_roster w)}" for j
    proof -
      have "lab_members w2 = lab_members w" using ins by (simp add: w2 enqueuePlacementCreate_def)
      then have "s_id ` set (roster (ci_labId inp) w2) = {s. (ci_labId inp, s) \<in> rs_member (abs_roster w)}"
        by (simp add: roster_abs [OF s2] abs_roster_def)
      then show ?thesis by (auto simp: set_eq_iff image_iff)
    qed
    have "abs_roster w' = spec_place (p_id (pl_row p)) (ci_labId inp) (abs_roster w)"
      using ins ids [of "p_id (pl_row p)"]
        prov_fold_provision [of X p "ci_actor inp" "roster (ci_labId inp) w2" w2] pid
      by (auto simp: w' abs_roster_def spec_place_def placed_key_def w2 enqueuePlacementCreate_def)
    with Inr pid show ?thesis by simp
  qed
  then show "abs_roster w' = (case r of Inl e \<Rightarrow> abs_roster w | Inr p \<Rightarrow> spec_place (p_id (pl_row p)) (ci_labId inp) (abs_roster w))"
    "\<And>p. r = Inr p \<Longrightarrow> p_id (pl_row p) = tbl_next (lab_placements w)" by auto
qed

lemma abs_reprovision_member [simp]: "abs_roster (reprovision_member X p a v w) = abs_roster w"
  by (simp add: reprovision_member_def Let_def abs_upd_pm)

lemma abs_fold_reprovision [simp]: "abs_roster (fold (reprovision_member X p a) vs w) = abs_roster w"
  by (rule fold_frame) simp

text \<open>Operations that change no membership and no placement.\<close>

lemma abs_placement_ops:
  "abs_roster (snd (updatePlacementQuota X i qi a w)) = abs_roster w"
  "abs_roster (snd (recreatePlacement X i ri a w)) = abs_roster w"
  "abs_roster (snd (retryPlacement X i a w)) = abs_roster w"
  "abs_roster (snd (destroyPlacement X i a w)) = abs_roster w"
  by (auto simp: updatePlacementQuota_def recreatePlacement_def retryPlacement_def destroyPlacement_def
      touch_def enqueuePlacementCreate_def reprovisionPlacementMembers_def
      abs_upd_placement Let_def split: option.splits prod.splits)

lemma abs_result_ops:
  "abs_roster (markPlacementStateByLabNode l n st e w) = abs_roster w"
  "abs_roster (markPlacementMemberState l n u mst e w) = abs_roster w"
  "abs_roster (snd (consumePlacementCredential X i j a w)) = abs_roster w"
  "abs_roster (snd (deliver_begin X l n u w)) = abs_roster w"
  "abs_roster (snd (deliver_finish i b w)) = abs_roster w"
  "abs_roster (snd (completion_finish i b w)) = abs_roster w"
  by (auto simp: markPlacementStateByLabNode_def markPlacementState_def markPlacementMemberState_def
      consumePlacementCredential_def deliver_begin_def deliver_finish_def burn_credential_def completion_finish_def
      abs_upd_placement abs_upd_pm Let_def split: option.splits prod.splits)

lemma abs_completeStudentRemoval: "abs_roster (completeStudentRemoval X u w) = abs_roster w"
  by (rule abs_roster_frame) simp_all

lemma abs_completion_begin [simp]: "abs_roster (snd (completion_begin l n w)) = abs_roster w"
proof -
  have "abs_roster (w\<lparr>lab_placements := tbl_update P (\<lambda>q. q\<lparr>p_completion_email_sent_at := Some (-1)\<rparr>) (lab_placements w)\<rparr>) = abs_roster w" for P
    by (simp add: abs_roster_def colset_tbl_update placed_key_def)
  then show ?thesis by (simp add: completion_begin_def Let_def split: option.splits)
qed

lemma unplace_steps:
  assumes "schema_ok w"
  shows "roster_step\<^sup>*\<^sup>* (abs_roster w) (abs_roster (snd (forceDeletePlacement X i a w)))"
    "roster_step\<^sup>*\<^sup>* (abs_roster w) (abs_roster (confirmPlacementDestroyed l n w))"
  using assms unfolding forceDeletePlacement_def confirmPlacementDestroyed_def Let_def
  by (auto split: option.splits simp: abs_delete_placements intro!: r_into_rtranclp roster_step.unplace)

end
