(* ===== verification/Teardown.thy ===== *)
theory Teardown
  imports Roster
begin

text \<open>
  Deleting a lab (\<open>destroyLab\<close> of src/controller/src/lib/labs.ts): the loop over the placements
  never trips over the shared-cold-storage guard, because SMB clients go first and the topology is
  a forest of depth one; and removing the lab never trips over the RESTRICT on a lab's PI.
\<close>

section \<open>The teardown loop\<close>

lemma smb_dependents_Nil:
  assumes "cold_ok w"
    and "\<And>lp n. lp \<in> set (rows (lab_placements w)) \<Longrightarrow> p_lab_id lp = p_lab_id (pl_row p) \<Longrightarrow> p_state lp \<noteq> PDeleting \<Longrightarrow>
       n \<in> set (rows (nodes w)) \<Longrightarrow> n_id n = p_node_id lp \<Longrightarrow> n_cold_backend n = LocalZfs"
  shows "smb_dependents p w = []"
proof -
  have "x = None" if "x \<in> (\<lambda>lp. case node_by_id (p_node_id lp) w of None \<Rightarrow> None
        | Some n \<Rightarrow> if n_cold_owner_node_id n = Some (p_node_id (pl_row p)) then Some (n_name n) else None) `
       set (tbl_all (\<lambda>lp. p_lab_id lp = p_lab_id (pl_row p) \<and> p_state lp \<noteq> PDeleting) (lab_placements w))" for x
    using that
  proof
    fix lp
    assume x: "x = (case node_by_id (p_node_id lp) w of None \<Rightarrow> None
        | Some n \<Rightarrow> if n_cold_owner_node_id n = Some (p_node_id (pl_row p)) then Some (n_name n) else None)"
      and lp: "lp \<in> set (tbl_all (\<lambda>lp. p_lab_id lp = p_lab_id (pl_row p) \<and> p_state lp \<noteq> PDeleting) (lab_placements w))"
    have "n_cold_owner_node_id n \<noteq> Some (p_node_id (pl_row p))" if n: "node_by_id (p_node_id lp) w = Some n" for n
    proof
      assume "n_cold_owner_node_id n = Some (p_node_id (pl_row p))"
      with assms(1) by_id_Some(2) [OF n] have "n_cold_backend n = Smb" unfolding cold_ok_def by blast
      moreover have "n_cold_backend n = LocalZfs"
        using assms(2) [of lp n] lp by_id_Some(2) [OF n] by (simp add: tbl_all_def)
      ultimately show False by simp
    qed
    with x show "x = None" by (auto split: option.splits)
  qed
  then have "set (smb_dependents p w) = {}" unfolding smb_dependents_def set_map_filter by fastforce
  then show ?thesis by simp
qed

text \<open>
  What the loop relies on for the placements still to come: they are read from the same nodes, and
  every live SMB placement of the lab is still among them.
\<close>

definition teardown_inv :: "nat \<Rightarrow> placement list \<Rightarrow> 'h world \<Rightarrow> bool" where
  "teardown_inv l ps w \<longleftrightarrow>
     (\<forall>p \<in> set ps. \<exists>n \<in> set (rows (nodes w)). n_id n = p_node_id (pl_row p) \<and>
        pl_node_cold_backend p = n_cold_backend n \<and> pl_online p = n_online n) \<and>
     (\<forall>p \<in> set ps. \<forall>q \<in> set (rows (lab_placements w)). p_id q = p_id (pl_row p) \<longrightarrow>
        p_lab_id q = l \<and> p_node_id q = p_node_id (pl_row p)) \<and>
     (\<forall>q \<in> set (rows (lab_placements w)). \<forall>n \<in> set (rows (nodes w)).
        p_lab_id q = l \<and> p_state q \<noteq> PDeleting \<and> n_id n = p_node_id q \<and> n_cold_backend n = Smb \<longrightarrow>
        (\<exists>p \<in> set ps. p_id (pl_row p) = p_id q \<and> pl_node_cold_backend p = Smb))"

lemma teardown_invD:
  assumes "teardown_inv l ps w"
  shows "p \<in> set ps \<Longrightarrow> \<exists>n \<in> set (rows (nodes w)). n_id n = p_node_id (pl_row p) \<and>
        pl_node_cold_backend p = n_cold_backend n \<and> pl_online p = n_online n"
    and "p \<in> set ps \<Longrightarrow> q \<in> set (rows (lab_placements w)) \<Longrightarrow> p_id q = p_id (pl_row p) \<Longrightarrow>
        p_lab_id q = l \<and> p_node_id q = p_node_id (pl_row p)"
    and "q \<in> set (rows (lab_placements w)) \<Longrightarrow> n \<in> set (rows (nodes w)) \<Longrightarrow> p_lab_id q = l \<Longrightarrow> p_state q \<noteq> PDeleting \<Longrightarrow>
        n_id n = p_node_id q \<Longrightarrow> n_cold_backend n = Smb \<Longrightarrow> \<exists>p \<in> set ps. p_id (pl_row p) = p_id q \<and> pl_node_cold_backend p = Smb"
  using assms unfolding teardown_inv_def by (elim conjE, blast)+

lemma teardown_inv_init:
  assumes "schema_ok w" shows "teardown_inv l (teardown_order (listPlacements l w)) w"
proof -
  have row: "pl_row p \<in> set (rows (lab_placements w))" "p_lab_id (pl_row p) = l" "placement_join w (pl_row p) = Some p"
    if "p \<in> set (listPlacements l w)" for p
    using listPlacements_mem [OF that] by (auto simp: set_placement_select)
  have live: "\<exists>p \<in> set (listPlacements l w). p_id (pl_row p) = p_id q \<and> pl_node_cold_backend p = Smb"
    if q: "q \<in> set (rows (lab_placements w))" "p_lab_id q = l" and n: "n \<in> set (rows (nodes w))" "n_id n = p_node_id q" "n_cold_backend n = Smb"
    for q n
  proof -
    have "q \<in> pl_row ` set (listPlacements l w)" using listPlacements_rows [OF assms, of l] q by simp
    then obtain p where p: "p \<in> set (listPlacements l w)" "q = pl_row p" by blast
    obtain n' where n': "n' \<in> set (rows (nodes w))" "n_id n' = p_node_id q" "pl_node_cold_backend p = n_cold_backend n'"
      using placement_join_Some(3) [OF row(3) [OF p(1)]] p(2) by auto
    have "n' = n" using pk_unique [OF schema_pk(1) [OF assms] n'(1) n(1)] n' n by simp
    with p n' n show ?thesis by auto
  qed
  have keys: "p_lab_id q = l \<and> p_node_id q = p_node_id (pl_row p)"
    if "p \<in> set (listPlacements l w)" "q \<in> set (rows (lab_placements w))" "p_id q = p_id (pl_row p)" for p q
    using pk_unique [OF schema_pk(5) [OF assms] that(2) row(1) [OF that(1)] that(3)] row(2) [OF that(1)] by simp
  have node: "\<exists>n \<in> set (rows (nodes w)). n_id n = p_node_id (pl_row p) \<and>
        pl_node_cold_backend p = n_cold_backend n \<and> pl_online p = n_online n" if "p \<in> set (listPlacements l w)" for p
    using placement_join_Some(3) [OF row(3) [OF that]] by auto
  show ?thesis unfolding teardown_inv_def teardown_order_def set_sort
  proof (intro conjI ballI impI)
    fix p assume "p \<in> set (listPlacements l w)"
    then show "\<exists>n \<in> set (rows (nodes w)). n_id n = p_node_id (pl_row p) \<and>
        pl_node_cold_backend p = n_cold_backend n \<and> pl_online p = n_online n" by (rule node)
  next
    fix p q assume "p \<in> set (listPlacements l w)" "q \<in> set (rows (lab_placements w))" "p_id q = p_id (pl_row p)"
    from keys [OF this] show "p_lab_id q = l" "p_node_id q = p_node_id (pl_row p)" by simp_all
  next
    fix q n assume "q \<in> set (rows (lab_placements w))" "n \<in> set (rows (nodes w))"
      and "p_lab_id q = l \<and> p_state q \<noteq> PDeleting \<and> n_id n = p_node_id q \<and> n_cold_backend n = Smb"
    then show "\<exists>p \<in> set (listPlacements l w). p_id (pl_row p) = p_id q \<and> pl_node_cold_backend p = Smb"
      using live [of q n] by simp
  qed
qed

text \<open>A step that leaves the nodes alone and turns the head's row into a deleting one, or removes it.\<close>

lemma teardown_inv_step:
  assumes "teardown_inv l (p # ps) w" "nodes w' = nodes w"
    "\<And>q. q \<in> set (rows (lab_placements w')) \<Longrightarrow>
       (q \<in> set (rows (lab_placements w)) \<and> p_id q \<noteq> p_id (pl_row p)) \<or>
       (p_state q = PDeleting \<and> (\<exists>q0 \<in> set (rows (lab_placements w)). p_id q = p_id q0 \<and> p_lab_id q = p_lab_id q0 \<and> p_node_id q = p_node_id q0))"
  shows "teardown_inv l ps w'"
  unfolding teardown_inv_def
proof (intro conjI ballI impI)
  fix q n assume q: "q \<in> set (rows (lab_placements w'))" and n: "n \<in> set (rows (nodes w'))"
    and c: "p_lab_id q = l \<and> p_state q \<noteq> PDeleting \<and> n_id n = p_node_id q \<and> n_cold_backend n = Smb"
  from assms(3) [OF q] c have "q \<in> set (rows (lab_placements w))" "p_id q \<noteq> p_id (pl_row p)" by auto
  then obtain r where "r \<in> set (p # ps)" "p_id (pl_row r) = p_id q" "pl_node_cold_backend r = Smb"
    using teardown_invD(3) [OF assms(1), of q n] assms(2) n c by auto
  with \<open>p_id q \<noteq> p_id (pl_row p)\<close> show "\<exists>p \<in> set ps. p_id (pl_row p) = p_id q \<and> pl_node_cold_backend p = Smb" by auto
next
  fix r q assume r: "r \<in> set ps" and q: "q \<in> set (rows (lab_placements w'))" "p_id q = p_id (pl_row r)"
  from assms(3) [OF q(1)] obtain q0 where "q0 \<in> set (rows (lab_placements w))" "p_id q = p_id q0"
    "p_lab_id q = p_lab_id q0" "p_node_id q = p_node_id q0" by blast
  with teardown_invD(2) [OF assms(1), of r q0] r q show "p_lab_id q = l" "p_node_id q = p_node_id (pl_row r)" by auto
next
  fix r assume "r \<in> set ps"
  then show "\<exists>n \<in> set (rows (nodes w')). n_id n = p_node_id (pl_row r) \<and>
        pl_node_cold_backend r = n_cold_backend n \<and> pl_online r = n_online n"
    using teardown_invD(1) [OF assms(1), of r] assms(2) by simp
qed

definition smb_first :: "placement list \<Rightarrow> bool" where
  "smb_first ps \<longleftrightarrow> sorted (map (\<lambda>p. if pl_node_cold_backend p = Smb then 0 else (1 :: nat)) ps)"

lemma smb_first_order: "smb_first (teardown_order ps)"
  by (simp add: smb_first_def teardown_order_def)

lemma smb_first_Cons:
  assumes "smb_first (p # ps)"
  shows "smb_first ps" "pl_node_cold_backend p = LocalZfs \<Longrightarrow> r \<in> set (p # ps) \<Longrightarrow> pl_node_cold_backend r = LocalZfs"
proof -
  show "smb_first ps" using assms by (simp add: smb_first_def)
  assume "pl_node_cold_backend p = LocalZfs" "r \<in> set (p # ps)"
  moreover from this assms have "(1 :: nat) \<le> (if pl_node_cold_backend r = Smb then 0 else 1)"
    by (auto simp: smb_first_def)
  ultimately show "pl_node_cold_backend r = LocalZfs" by (cases "pl_node_cold_backend r") auto
qed

lemma teardown_guard:
  assumes "schema_ok w" "cold_ok w" "teardown_inv l (p # ps) w" "smb_first (p # ps)"
    and v: "getPlacement (p_id (pl_row p)) w = Some v"
  shows "assertNoSmbDependents v w = None" "pl_online v = pl_online p"
proof -
  note g = getPlacement_Some [OF v]
  have q: "p_lab_id (pl_row v) = l" "p_node_id (pl_row v) = p_node_id (pl_row p)"
    using teardown_invD(2) [OF assms(3), of p "pl_row v"] g by auto
  obtain n where n: "n \<in> set (rows (nodes w))" "n_id n = p_node_id (pl_row p)" "pl_node_cold_backend p = n_cold_backend n"
    "pl_online p = n_online n" using teardown_invD(1) [OF assms(3), of p] by auto
  obtain n' where n': "n' \<in> set (rows (nodes w))" "n_id n' = p_node_id (pl_row v)" "pl_node_cold_backend v = n_cold_backend n'"
    "pl_online v = n_online n'" using placement_join_Some(3) [OF g(4)] by auto
  have "n' = n" using pk_unique [OF schema_pk(1) [OF assms(1)] n'(1) n(1)] n(2) n'(2) q(2) by simp
  then show "pl_online v = pl_online p" using n n' by simp
  show "assertNoSmbDependents v w = None"
  proof (cases "pl_node_cold_backend p = LocalZfs")
    case True
    have "smb_dependents v w = []"
    proof (rule smb_dependents_Nil [OF assms(2)])
      fix lp m assume "lp \<in> set (rows (lab_placements w))" "p_lab_id lp = p_lab_id (pl_row v)" "p_state lp \<noteq> PDeleting"
        "m \<in> set (rows (nodes w))" "n_id m = p_node_id lp"
      with teardown_invD(3) [OF assms(3), of lp m] smb_first_Cons(2) [OF assms(4) True] q(1)
      show "n_cold_backend m = LocalZfs" by (cases "n_cold_backend m") auto
    qed
    then show ?thesis by (simp add: assertNoSmbDependents_def)
  next
    case False
    with \<open>n' = n\<close> n n' show ?thesis by (simp add: assertNoSmbDependents_def)
  qed
qed

lemma destroyPlacement_unfold:
  assumes "getPlacement i w = None \<or> (\<exists>v. getPlacement i w = Some v \<and> assertNoSmbDependents v w = None)"
  shows "fst (destroyPlacement X i a w) = Inr ()" "nodes (snd (destroyPlacement X i a w)) = nodes w"
    "getPlacement i w \<noteq> None \<Longrightarrow> lab_placements (snd (destroyPlacement X i a w)) =
       tbl_update (\<lambda>p. p_id p = i) (\<lambda>r. r\<lparr>p_state := PDeleting, p_updated_at := clock w\<rparr>) (lab_placements w)"
  using assms by (auto simp: destroyPlacement_def Let_def)

lemma forceDelete_unfold:
  assumes "getPlacement i w = None \<or> (\<exists>v. getPlacement i w = Some v \<and> \<not> pl_online v \<and> assertNoSmbDependents v w = None)"
  shows "fst (forceDeletePlacement X i a w) = Inr ()" "nodes (snd (forceDeletePlacement X i a w)) = nodes w"
    "getPlacement i w \<noteq> None \<Longrightarrow> lab_placements (snd (forceDeletePlacement X i a w)) = tbl_delete (\<lambda>p. p_id p = i) (lab_placements w)"
  using assms by (auto simp: forceDeletePlacement_def Let_def)

lemma getPlacement_None:
  assumes "schema_ok w" "getPlacement i w = None" shows "q \<in> set (rows (lab_placements w)) \<Longrightarrow> p_id q \<noteq> i"
  using getPlacement_total [OF assms(1)] assms(2) by fastforce

lemma teardown_after_destroy:
  assumes "schema_ok w" "cold_ok w" "teardown_inv l (p # ps) w" "smb_first (p # ps)"
  defines "i \<equiv> p_id (pl_row p)"
  shows "fst (destroyPlacement X i a w) = Inr ()" "teardown_inv l ps (snd (destroyPlacement X i a w))"
proof -
  let ?w' = "snd (destroyPlacement X i a w)"
  have g: "getPlacement i w = None \<or> (\<exists>v. getPlacement i w = Some v \<and> assertNoSmbDependents v w = None)"
    using teardown_guard(1) [OF assms(1-4)] by (cases "getPlacement i w") (auto simp: i_def)
  show "fst (destroyPlacement X i a w) = Inr ()" using destroyPlacement_unfold(1) [OF g] .
  show "teardown_inv l ps ?w'"
  proof (rule teardown_inv_step [OF assms(3)])
    show "nodes ?w' = nodes w" using destroyPlacement_unfold(2) [OF g] .
    fix q assume q: "q \<in> set (rows (lab_placements ?w'))"
    show "(q \<in> set (rows (lab_placements w)) \<and> p_id q \<noteq> p_id (pl_row p)) \<or>
       (p_state q = PDeleting \<and> (\<exists>q0 \<in> set (rows (lab_placements w)). p_id q = p_id q0 \<and> p_lab_id q = p_lab_id q0 \<and> p_node_id q = p_node_id q0))"
    proof (cases "getPlacement i w")
      case None
      then have "q \<in> set (rows (lab_placements w))" using q by (simp add: destroyPlacement_def)
      with getPlacement_None [OF assms(1) None] show ?thesis by (auto simp: i_def)
    next
      case (Some v)
      then have "q \<in> set (rows (tbl_update (\<lambda>p. p_id p = i) (\<lambda>r. r\<lparr>p_state := PDeleting, p_updated_at := clock w\<rparr>) (lab_placements w)))"
        using q destroyPlacement_unfold(3) [OF g] by simp
      then show ?thesis
      proof (rule tbl_updateE)
        fix r0 assume "r0 \<in> set (rows (lab_placements w))" "q = r0\<lparr>p_state := PDeleting, p_updated_at := clock w\<rparr>"
        then show ?thesis by (intro disjI2) (auto intro!: bexI [of _ r0])
      qed (simp add: i_def)
    qed
  qed
qed

lemma teardown_after_force:
  assumes "schema_ok w" "cold_ok w" "teardown_inv l (p # ps) w" "smb_first (p # ps)" "\<not> pl_online p"
  defines "i \<equiv> p_id (pl_row p)"
  shows "fst (forceDeletePlacement X i a w) = Inr ()" "teardown_inv l ps (snd (forceDeletePlacement X i a w))"
proof -
  let ?w' = "snd (forceDeletePlacement X i a w)"
  have g: "getPlacement i w = None \<or> (\<exists>v. getPlacement i w = Some v \<and> \<not> pl_online v \<and> assertNoSmbDependents v w = None)"
    using teardown_guard [OF assms(1-4)] assms(5) by (cases "getPlacement i w") (auto simp: i_def)
  show "fst (forceDeletePlacement X i a w) = Inr ()" using forceDelete_unfold(1) [OF g] .
  show "teardown_inv l ps ?w'"
  proof (rule teardown_inv_step [OF assms(3)])
    show "nodes ?w' = nodes w" using forceDelete_unfold(2) [OF g] .
    fix q assume q: "q \<in> set (rows (lab_placements ?w'))"
    have "q \<in> set (rows (lab_placements w)) \<and> p_id q \<noteq> i"
    proof (cases "getPlacement i w")
      case None
      then have "q \<in> set (rows (lab_placements w))" using q by (simp add: forceDeletePlacement_def)
      with getPlacement_None [OF assms(1) None] show ?thesis by auto
    next
      case (Some v)
      then show ?thesis using q forceDelete_unfold(3) [OF g] by simp
    qed
    then show "(q \<in> set (rows (lab_placements w)) \<and> p_id q \<noteq> p_id (pl_row p)) \<or>
       (p_state q = PDeleting \<and> (\<exists>q0 \<in> set (rows (lab_placements w)). p_id q = p_id q0 \<and> p_lab_id q = p_lab_id q0 \<and> p_node_id q = p_node_id q0))"
      by (simp add: i_def)
  qed
qed

lemma destroy_loop_ok:
  assumes "schema_ok w" "cold_ok w" "teardown_inv l ps w" "smb_first ps"
  shows "fst (destroy_loop X a f ps n w) = Inr (n + length (filter (\<lambda>p. \<not> (f \<and> \<not> pl_online p)) ps))"
  using assms
proof (induction ps arbitrary: n w)
  case (Cons p ps)
  let ?i = "p_id (pl_row p)"
  have cold: "cold_ok (snd (destroyPlacement X ?i a w))" "cold_ok (snd (forceDeletePlacement X ?i a w))"
    using Cons.prems(2) registry_placement_ops(4,5) [THEN same_registryD(1), THEN cold_ok_frame] by blast+
  show ?case
  proof (cases "f \<and> \<not> pl_online p")
    case True
    then have "fst (forceDeletePlacement X ?i a w) = Inr ()" "teardown_inv l ps (snd (forceDeletePlacement X ?i a w))"
      using teardown_after_force [OF Cons.prems] by auto
    with True Cons.IH [of "snd (forceDeletePlacement X ?i a w)"] cold smb_first_Cons(1) [OF Cons.prems(4)]
      schema_placement_ops(5) [OF Cons.prems(1), of X ?i a]
    show ?thesis by (cases "forceDeletePlacement X ?i a w") auto
  next
    case False
    have "fst (destroyPlacement X ?i a w) = Inr ()" "teardown_inv l ps (snd (destroyPlacement X ?i a w))"
      using teardown_after_destroy [OF Cons.prems] by auto
    with False Cons.IH [of "snd (destroyPlacement X ?i a w)"] cold smb_first_Cons(1) [OF Cons.prems(4)]
      schema_placement_ops(4) [OF Cons.prems(1), of X ?i a]
    show ?thesis by (cases "destroyPlacement X ?i a w") auto
  qed
qed simp

lemma destroy_loop_pres:
  assumes "\<And>i w. I w \<Longrightarrow> I (snd (destroyPlacement X i a w))" "\<And>i w. I w \<Longrightarrow> I (snd (forceDeletePlacement X i a w))"
  shows "I w \<Longrightarrow> I (snd (destroy_loop X a f ps n w))"
proof (induction ps arbitrary: n w)
  case (Cons p ps)
  show ?case
  proof (cases "f \<and> \<not> pl_online p")
    case True
    have "I (snd (and_then (forceDeletePlacement X (p_id (pl_row p)) a w) (\<lambda>_ w. destroy_loop X a f ps n w)))"
      by (rule and_then_pres) (use Cons assms in auto)
    with True show ?thesis by simp
  next
    case False
    have "I (snd (and_then (destroyPlacement X (p_id (pl_row p)) a w) (\<lambda>_ w. destroy_loop X a f ps (n + 1) w)))"
      by (rule and_then_pres) (use Cons assms in auto)
    with False show ?thesis by auto
  qed
qed simp

lemma same_registry_trans: "same_registry u v \<Longrightarrow> same_registry v w \<Longrightarrow> same_registry u w"
  by (simp add: same_registry_def)

lemma destroy_loop_facts:
  "schema_ok w \<Longrightarrow> schema_ok (snd (destroy_loop X a f ps n w))"
  "same_registry (snd (destroy_loop X a f ps n w)) w"
  "schema_ok w \<Longrightarrow> roster_step\<^sup>*\<^sup>* (abs_roster w) (abs_roster (snd (destroy_loop X a f ps n w)))"
proof -
  show "schema_ok w \<Longrightarrow> schema_ok (snd (destroy_loop X a f ps n w))"
    by (rule destroy_loop_pres [of schema_ok]) (simp_all add: schema_placement_ops)
  show "same_registry (snd (destroy_loop X a f ps n w)) w"
    by (rule destroy_loop_pres [of "\<lambda>v. same_registry v w"])
       (auto intro: same_registry_trans registry_placement_ops simp: same_registry_def [of w w])
  assume "schema_ok w"
  then have "schema_ok w \<and> roster_step\<^sup>*\<^sup>* (abs_roster w) (abs_roster w)" by simp
  then have "schema_ok (snd (destroy_loop X a f ps n w)) \<and>
      roster_step\<^sup>*\<^sup>* (abs_roster w) (abs_roster (snd (destroy_loop X a f ps n w)))"
    by (rule destroy_loop_pres [of "\<lambda>v. schema_ok v \<and> roster_step\<^sup>*\<^sup>* (abs_roster w) (abs_roster v)", rotated 2])
       (auto simp: schema_placement_ops abs_placement_ops intro: rtranclp_trans unplace_steps(1))
  then show "roster_step\<^sup>*\<^sup>* (abs_roster w) (abs_roster (snd (destroy_loop X a f ps n w)))" by simp
qed

section \<open>Removing the lab and its orphans\<close>

lemma image_restrict: "f ` {x \<in> A. P (f x)} = {y \<in> f ` A. P y}"
  by auto

lemma abs_delete_lab:
  assumes "schema_ok w" shows "abs_roster (delete_lab l w) = spec_drop l (abs_roster w)"
proof -
  have "rs_placed (abs_roster (delete_lab l w)) = {x \<in> rs_placed (abs_roster w). snd x \<noteq> l}"
    using image_restrict [of placed_key _ "\<lambda>x. snd x \<noteq> l"] by (simp add: abs_roster_def placed_key_def)
  moreover have "rs_member (abs_roster (delete_lab l w)) = {x \<in> rs_member (abs_roster w). fst x \<noteq> l}"
    using image_restrict [of member_key _ "\<lambda>x. fst x \<noteq> l"] by (simp add: abs_roster_def member_key_def)
  moreover have "rs_prov (abs_roster (delete_lab l w)) = {x \<in> rs_prov (abs_roster w). (fst x, l) \<notin> rs_placed (abs_roster w)}"
  proof -
    have "(i, l) \<in> rs_placed (abs_roster w) \<longleftrightarrow> i \<in> p_id ` set (tbl_all (\<lambda>p. p_lab_id p = l) (lab_placements w))" for i
      by (auto simp: abs_roster_def placed_key_def tbl_all_def)
    then show ?thesis
      using image_restrict [of pm_key _ "\<lambda>x. fst x \<notin> p_id ` set (tbl_all (\<lambda>p. p_lab_id p = l) (lab_placements w))"]
      by (simp add: abs_roster_def pm_key_def)
  qed
  ultimately show ?thesis by (simp add: spec_drop_def)
qed

lemma delete_lab_pi:
  assumes "schema_ok w" "pi_member w" shows "pi_member (delete_lab l w)"
  using assms(2) by (auto simp: pi_member_def is_member_iff abs_delete_lab [OF assms(1)] spec_drop_def)

lemma member_none: "(\<exists>m \<in> set (rows (lab_members w)). m_student_id m = i) \<longleftrightarrow> i \<in> snd ` rs_member (abs_roster w)"
  by (auto simp: abs_roster_def member_key_def image_image)

lemma delete_student_ok:
  assumes "pi_member w" "i \<notin> snd ` rs_member (abs_roster w)"
  shows "fst (delete_student i w) = Inr ()" "abs_roster (snd (delete_student i w)) = spec_purge i (abs_roster w)"
    "labs (snd (delete_student i w)) = labs w" "nodes (snd (delete_student i w)) = nodes w"
    "lab_placements (snd (delete_student i w)) = lab_placements w"
    "students (snd (delete_student i w)) = tbl_delete (\<lambda>s. s_id s = i) (students w)"
proof -
  have "\<not> (\<exists>l \<in> set (rows (labs w)). l_pi_student_id l = Some i)"
    using assms by (force simp: pi_member_def is_member_iff)
  then have d: "delete_student i w = (Inr (), w\<lparr>students := tbl_delete (\<lambda>s. s_id s = i) (students w),
        lab_members := tbl_delete (\<lambda>m. m_student_id m = i) (lab_members w),
        placement_members := tbl_delete (\<lambda>r. pm_student_id r = i) (placement_members w),
        student_quota_alerts := tbl_delete (\<lambda>r. sqa_student_id r = i) (student_quota_alerts w),
        storage_samples := tbl_update (\<lambda>r. sm_student_id r = Some i) (\<lambda>r. r\<lparr>sm_student_id := None\<rparr>) (storage_samples w)\<rparr>)"
    by (simp add: delete_student_def)
  show "fst (delete_student i w) = Inr ()" "labs (snd (delete_student i w)) = labs w" "nodes (snd (delete_student i w)) = nodes w"
    "lab_placements (snd (delete_student i w)) = lab_placements w"
    "students (snd (delete_student i w)) = tbl_delete (\<lambda>s. s_id s = i) (students w)"
    by (simp_all add: d)
  have "\<forall>m \<in> set (rows (lab_members w)). m_student_id m \<noteq> i" using assms(2) member_none by metis
  then have "{m \<in> set (rows (lab_members w)). m_student_id m \<noteq> i} = set (rows (lab_members w))" by blast
  moreover have "pm_key ` {r \<in> M. pm_student_id r \<noteq> i} = {x \<in> pm_key ` M. snd x \<noteq> i}" for M
    by (auto simp: pm_key_def)
  ultimately show "abs_roster (snd (delete_student i w)) = spec_purge i (abs_roster w)"
    by (simp add: d abs_roster_def spec_purge_def)
qed

lemma orphan_loop_ok:
  assumes "schema_ok w" "pi_member w"
  shows "\<exists>n w'. orphan_loop ids k w = (Inr n, w') \<and> schema_ok w' \<and> pi_member w' \<and> nodes w' = nodes w \<and> labs w' = labs w \<and>
     lab_placements w' = lab_placements w \<and> rs_member (abs_roster w') = rs_member (abs_roster w) \<and>
     roster_step\<^sup>*\<^sup>* (abs_roster w) (abs_roster w') \<and>
     s_id ` set (rows (students w')) = {i \<in> s_id ` set (rows (students w)). i \<in> set ids \<longrightarrow> i \<in> snd ` rs_member (abs_roster w)}"
  using assms
proof (induction ids arbitrary: k w)
  case (Cons i ids)
  show ?case
  proof (cases "i \<in> snd ` rs_member (abs_roster w)")
    case True
    have "{j \<in> S. j \<in> set ids \<longrightarrow> j \<in> M} = {j \<in> S. j \<in> set (i # ids) \<longrightarrow> j \<in> M}" if "i \<in> M" for S M :: "nat set"
      using that by auto
    with True Cons show ?thesis unfolding orphan_loop.simps(2) member_none by simp
  next
    case False
    let ?w = "snd (delete_student i w)"
    note ds = delete_student_ok [OF Cons.prems(2) False]
    have m: "rs_member (abs_roster ?w) = rs_member (abs_roster w)" by (simp add: ds spec_purge_def)
    have "schema_ok ?w" using Cons.prems(1) by (rule schema_delete_student)
    moreover have "pi_member ?w" using Cons.prems(2) by (simp add: pi_member_def is_member_iff ds(3) m)
    ultimately obtain n w' where w': "orphan_loop ids (k + 1) ?w = (Inr n, w')" "schema_ok w'" "pi_member w'" "nodes w' = nodes ?w"
      "labs w' = labs ?w" "lab_placements w' = lab_placements ?w" "rs_member (abs_roster w') = rs_member (abs_roster ?w)"
      "roster_step\<^sup>*\<^sup>* (abs_roster ?w) (abs_roster w')"
      "s_id ` set (rows (students w')) = {i \<in> s_id ` set (rows (students ?w)). i \<in> set ids \<longrightarrow> i \<in> snd ` rs_member (abs_roster ?w)}"
      using Cons.IH [of ?w "k + 1"] by blast
    have "orphan_loop (i # ids) k w = (Inr n, w')"
      unfolding orphan_loop.simps(2) member_none using False w'(1) ds(1) by (cases "delete_student i w") simp
    moreover have "roster_step (abs_roster w) (abs_roster ?w)" unfolding ds(2) using False by (rule roster_step.purge)
    moreover have "s_id ` {s \<in> S. s_id s \<noteq> i} = {j \<in> s_id ` S. j \<noteq> i}" for S by auto
    ultimately show ?thesis using w' ds m False by (auto intro: converse_rtranclp_into_rtranclp)
  qed
qed auto

section \<open>The whole operation\<close>

lemma destroyLab_ok:
  assumes "schema_ok w" "cold_ok w" "pi_member w"
  shows "\<exists>r w'. destroyLab X l a f w = (Inr r, w') \<and> schema_ok w' \<and> pi_member w' \<and> nodes w' = nodes w \<and>
     roster_step\<^sup>*\<^sup>* (abs_roster w) (abs_roster w') \<and>
     dr_teardownStarted r = (if getLab l w = None then 0 else length (filter (\<lambda>p. \<not> (f \<and> \<not> pl_online p)) (listPlacements l w))) \<and>
     (dr_deleted r \<longleftrightarrow> getLab l w \<noteq> None \<and> dr_teardownStarted r = 0) \<and>
     (dr_deleted r \<longrightarrow> labs w' = tbl_delete (\<lambda>x. l_id x = l) (labs w) \<and>
        (\<forall>x \<in> rs_member (abs_roster w'). fst x \<noteq> l) \<and> (\<forall>x \<in> rs_placed (abs_roster w'). snd x \<noteq> l) \<and>
        (\<forall>i. (l, i) \<in> rs_member (abs_roster w) \<longrightarrow>
           (i \<in> s_id ` set (rows (students w')) \<longleftrightarrow> (\<exists>k. k \<noteq> l \<and> (k, i) \<in> rs_member (abs_roster w)))))"
proof (cases "getLab l w")
  case (Some lab)
  let ?ps = "teardown_order (listPlacements l w)"
  let ?n = "length (filter (\<lambda>p. \<not> (f \<and> \<not> pl_online p)) (listPlacements l w))"
  obtain w1 where w1: "destroy_loop X a f ?ps 0 w = (Inr ?n, w1)"
  proof -
    have "length (filter P (sort_key k xs)) = length (filter P xs)" for P and k :: "placement \<Rightarrow> nat" and xs
      by (simp add: filter_sort)
    then have "fst (destroy_loop X a f ?ps 0 w) = Inr ?n"
      using destroy_loop_ok [OF assms(1,2) teardown_inv_init [OF assms(1), of l] smb_first_order, of X a f 0] by (simp add: teardown_order_def)
    then show ?thesis using that by (cases "destroy_loop X a f ?ps 0 w") auto
  qed
  note facts = destroy_loop_facts [where w = w and X = X and a = a and f = f and ps = ?ps and n = 0, unfolded w1 snd_conv]
  have s1: "schema_ok w1" and st1: "roster_step\<^sup>*\<^sup>* (abs_roster w) (abs_roster w1)" and reg: "same_registry w1 w"
    using facts assms(1) by auto
  have mem1: "rs_member (abs_roster w1) = rs_member (abs_roster w)" using reg by (simp add: same_registry_def abs_roster_def)
  have p1: "pi_member w1" using assms(3) reg by (simp add: pi_member_def is_member_iff mem1 same_registry_def)
  show ?thesis
  proof (cases "?n = 0")
    case False
    have "destroyLab X l a f w = (Inr \<lparr>dr_deleted = False, dr_teardownStarted = ?n\<rparr>, w1)"
      using False by (simp add: destroyLab_def Some w1)
    with False s1 p1 st1 reg Some show ?thesis by (simp add: same_registry_def)
  next
    case True
    let ?ids = "map m_student_id (tbl_all (\<lambda>m. m_lab_id m = l) (lab_members w1))"
    let ?w2 = "delete_lab l w1"
    have s2: "schema_ok ?w2" using s1 by (rule schema_delete_lab)
    have p2: "pi_member ?w2" using s1 p1 by (rule delete_lab_pi)
    have a2: "abs_roster ?w2 = spec_drop l (abs_roster w1)" using s1 by (rule abs_delete_lab)
    have st2: "roster_step (abs_roster w1) (abs_roster ?w2)" unfolding a2
      by (rule roster_step.drop) (rule placed_fun [OF s1])
    obtain n w3 where w3: "orphan_loop ?ids 0 ?w2 = (Inr n, w3)" "schema_ok w3" "pi_member w3" "nodes w3 = nodes ?w2" "labs w3 = labs ?w2"
      "lab_placements w3 = lab_placements ?w2" "rs_member (abs_roster w3) = rs_member (abs_roster ?w2)"
      "roster_step\<^sup>*\<^sup>* (abs_roster ?w2) (abs_roster w3)"
      "s_id ` set (rows (students w3)) = {i \<in> s_id ` set (rows (students ?w2)). i \<in> set ?ids \<longrightarrow> i \<in> snd ` rs_member (abs_roster ?w2)}"
      using orphan_loop_ok [OF s2 p2] by blast
    obtain d where d: "destroyLab X l a f w = (Inr \<lparr>dr_deleted = True, dr_teardownStarted = 0\<rparr>, audit a ''lab.delete'' (Some (l_name lab)) d w3)"
      using True by (simp add: destroyLab_def Some w1 w3(1) Let_def)
    have ids: "set ?ids = {i. (l, i) \<in> rs_member (abs_roster w)}"
    proof -
      have "i \<in> set ?ids \<longleftrightarrow> (l, i) \<in> rs_member (abs_roster w1)" for i
        by (auto simp: abs_roster_def member_key_def tbl_all_def)
      then show ?thesis by (auto simp: mem1)
    qed
    have m3: "rs_member (abs_roster w3) = {x \<in> rs_member (abs_roster w). fst x \<noteq> l}"
      by (simp add: w3(7) a2 spec_drop_def mem1)
    have "i \<in> s_id ` set (rows (students w3)) \<longleftrightarrow> (\<exists>k. k \<noteq> l \<and> (k, i) \<in> rs_member (abs_roster w))"
      if "(l, i) \<in> rs_member (abs_roster w)" for i
    proof -
      have "i \<in> s_id ` set (rows (students ?w2))"
        using that schema_member_refs(2) [OF assms(1)] reg by (auto simp: abs_roster_def member_key_def same_registry_def)
      moreover have "i \<in> snd ` rs_member (abs_roster ?w2) \<longleftrightarrow> (\<exists>k. k \<noteq> l \<and> (k, i) \<in> rs_member (abs_roster w))"
        using m3 w3(7) by (auto simp: image_iff)
      ultimately show ?thesis using w3(9) ids that by blast
    qed
    moreover have "rs_placed (abs_roster w3) = rs_placed (abs_roster ?w2)" by (simp add: abs_roster_def w3(6))
    then have "\<forall>x \<in> rs_placed (abs_roster w3). snd x \<noteq> l" by (simp add: a2 spec_drop_def)
    moreover have "roster_step\<^sup>*\<^sup>* (abs_roster w) (abs_roster w3)"
      using st1 st2 w3(8) by (meson rtranclp.rtrancl_into_rtrancl rtranclp_trans)
    moreover have "pi_member (audit a ''lab.delete'' (Some (l_name lab)) d w3)"
      using w3(3) by (simp add: pi_member_def is_member_iff)
    moreover have "nodes w3 = nodes w" "labs w3 = tbl_delete (\<lambda>x. l_id x = l) (labs w)"
      using w3(4,5) reg by (simp_all add: same_registry_def)
    ultimately show ?thesis using d w3(2) m3 True Some by simp
  qed
qed (use assms in \<open>simp add: destroyLab_def\<close>)

section \<open>Creating and editing a lab\<close>

lemma createLab_ok:
  assumes "schema_ok w" "createLab inp w = (r, w')"
  shows "schema_ok w'" "nodes w' = nodes w" "abs_roster w' = abs_roster w" "pi_member w \<Longrightarrow> pi_member w'"
    "\<And>lab. r = Inr lab \<Longrightarrow> getLabByName (cl_name inp) w' = Some lab \<and> getLabByName (cl_name inp) w = None"
proof -
  let ?row = "\<lambda>i. \<lparr>l_id = i, l_name = cl_name inp, l_pi_name = cl_piName inp, l_pi_email = cl_piEmail inp,
     l_created_at = clock w, l_updated_at = clock w, l_pi_student_id = None\<rparr>"
  consider e where "r = Inl e" "w' = w" | "getLabByName (cl_name inp) w = None" "r = Inr (?row (tbl_next (labs w)))"
      "w' = audit (cl_actor inp) ''lab.create'' (Some (cl_name inp)) None (w\<lparr>labs := tbl_insert ?row (labs w)\<rparr>)"
  proof (cases "isValidLabName (cl_name inp) \<and> getLabByName (cl_name inp) w = None")
    case True
    then show thesis using assms(2) by (intro that(2)) (simp_all add: createLab_def Let_def)
  next
    case False
    then have "\<exists>e. r = Inl e \<and> w' = w"
      using assms(2) by (cases "isValidLabName (cl_name inp)") (auto simp: createLab_def)
    then show thesis using that(1) by blast
  qed
  note cases = this
  have schema: "schema_ok (w\<lparr>labs := tbl_insert ?row (labs w)\<rparr>)" if "getLabByName (cl_name inp) w = None"
    by (rule schema_lab_insert) (use assms(1) that in \<open>auto simp: getLabByName_def tbl_get_None\<close>)
  show "schema_ok w'" by (cases rule: cases) (use assms(1) schema in simp_all)
  show "nodes w' = nodes w" by (cases rule: cases) simp_all
  show a: "abs_roster w' = abs_roster w" by (cases rule: cases) (simp_all add: abs_roster_def)
  show "pi_member w \<Longrightarrow> pi_member w'" by (cases rule: cases) (use a in \<open>auto simp: pi_member_def is_member_iff\<close>)
  show "getLabByName (cl_name inp) w' = Some lab \<and> getLabByName (cl_name inp) w = None" if "r = Inr lab" for lab
    by (cases rule: cases) (use that in \<open>auto simp: getLabByName_def tbl_get_insert\<close>)
qed

lemma upd_lab_frame [frame_simps, simp]:
  "nodes (upd_lab i f w) = nodes w" "students (upd_lab i f w) = students w" "abs_roster (upd_lab i f w) = abs_roster w"
  by (simp_all add: upd_lab_def abs_roster_def)

lemma schema_upd_lab_meta:
  assumes "schema_ok w" "\<And>l. l_id (f l) = l_id l" "\<And>l. l_name (f l) = l_name l" "\<And>l. l_pi_student_id (f l) = l_pi_student_id l"
  shows "schema_ok (upd_lab i f w)"
  unfolding upd_lab_def by (rule schema_lab_update) (use assms in auto)

lemma pi_upd_lab_meta:
  assumes "pi_member w" "\<And>l. l_id (f l) = l_id l" "\<And>l. l_pi_student_id (f l) = l_pi_student_id l"
  shows "pi_member (upd_lab i f w)"
  using assms by (auto simp: pi_member_def is_member_iff upd_lab_def abs_roster_def rows_tbl_update)

lemma updateLabMeta_ok:
  "schema_ok w \<Longrightarrow> schema_ok (snd (updateLabMeta l inp a w))" "nodes (snd (updateLabMeta l inp a w)) = nodes w"
  "abs_roster (snd (updateLabMeta l inp a w)) = abs_roster w"
  "pi_member w \<Longrightarrow> pi_member (snd (updateLabMeta l inp a w))"
proof -
  have pa: "pi_member (audit a b c d v) = pi_member v" for a b c d and v :: "'a world" by (simp add: pi_member_def is_member_iff)
  show "schema_ok w \<Longrightarrow> schema_ok (snd (updateLabMeta l inp a w))" "nodes (snd (updateLabMeta l inp a w)) = nodes w"
    "abs_roster (snd (updateLabMeta l inp a w)) = abs_roster w" "pi_member w \<Longrightarrow> pi_member (snd (updateLabMeta l inp a w))"
    by (simp_all add: updateLabMeta_def Let_def schema_upd_lab_meta pi_upd_lab_meta pa split: option.splits)
qed

end
