(* ===== verification/Controller.thy ===== *)
theory Controller
  imports Teardown
begin

text \<open>
  The controller as a state machine: one step is one call of an operation of nodes.ts, labs.ts,
  students.ts or placements.ts, with any arguments and any outcome, errors included, or the passing
  of time. The invariants of the database hold in every state it reaches, and the roster
  specification is refined.
\<close>

section \<open>Copying a roster\<close>

lemma copy_loop_pres:
  assumes "\<And>inp w. I w \<Longrightarrow> I (snd (addStudentToLab X l inp a w))"
  shows "I w \<Longrightarrow> I (snd (copy_loop X l a ms acc w))"
proof (induction ms arbitrary: acc w)
  case (Cons m ms)
  have "I (snd (and_then (addStudentToLab X l (member_input (mb_student m)) a w)
      (\<lambda>_ w. copy_loop X l a ms (fst acc + 1, snd acc) w)))"
    by (rule and_then_pres) (use Cons assms in auto)
  with Cons show ?case by auto
qed simp

section \<open>The invariant\<close>

definition core_ok :: "'h world \<Rightarrow> bool" where
  "core_ok w \<longleftrightarrow> schema_ok w \<and> cold_ok w \<and> pi_member w"

text \<open>A step that keeps the rosters, or changes them as the specification allows.\<close>

definition good_step :: "'h world \<Rightarrow> 'h world \<Rightarrow> bool" where
  "good_step w w' \<longleftrightarrow> core_ok w' \<and> roster_step\<^sup>*\<^sup>* (abs_roster w) (abs_roster w')"

lemma pi_member_cong:
  assumes "labs w' = labs w" "abs_roster w' = abs_roster w" shows "pi_member w' = pi_member w"
  using assms by (simp add: pi_member_def is_member_iff)

lemma good_step_same:
  assumes "core_ok w" "schema_ok w'" "cold_ok w'" "labs w' = labs w" "abs_roster w' = abs_roster w"
  shows "good_step w w'"
  using assms pi_member_cong [OF assms(4,5)] by (simp add: good_step_def core_ok_def)

lemma good_step_registry:
  assumes "core_ok w" "schema_ok w'" "same_registry w' w" "roster_step\<^sup>*\<^sup>* (abs_roster w) (abs_roster w')"
  shows "good_step w w'"
proof -
  have "cold_ok w' = cold_ok w" using assms(3) by (intro cold_ok_frame) (simp add: same_registry_def)
  moreover have "pi_member w' = pi_member w"
    using assms(3) by (simp add: pi_member_def is_member_iff abs_roster_def same_registry_def)
  ultimately show ?thesis using assms by (simp add: good_step_def core_ok_def)
qed

lemma good_step_join:
  assumes "core_ok w" "schema_ok w'" "nodes w' = nodes w" "pi_member w'"
    "abs_roster w' = abs_roster w \<or> (\<exists>l s. abs_roster w' = spec_join l s (abs_roster w))"
  shows "good_step w w'"
proof -
  have "roster_step\<^sup>*\<^sup>* (abs_roster w) (abs_roster w')"
    using assms(5) roster_step.join r_into_rtranclp [of roster_step] by (elim disjE exE) simp_all
  with assms cold_ok_frame [OF assms(3)] show ?thesis by (simp add: good_step_def core_ok_def)
qed

lemma good_step_trans: "good_step u v \<Longrightarrow> good_step v w \<Longrightarrow> good_step u w"
  by (auto simp: good_step_def)

lemma good_step_refl: "core_ok w \<Longrightarrow> good_step w w"
  by (simp add: good_step_def)

lemma good_node_op:
  assumes "core_ok w" "schema_ok w'" "cold_ok w'" "labs w' = labs w" "lab_members w' = lab_members w"
    "lab_placements w' = lab_placements w" "placement_members w' = placement_members w"
  shows "good_step w w'"
  using assms by (intro good_step_same) (auto intro: abs_roster_frame)

lemma node_ops_frame:
  "labs (snd (provisionNode X n a w)) = labs w" "lab_members (snd (provisionNode X n a w)) = lab_members w"
  "lab_placements (snd (provisionNode X n a w)) = lab_placements w" "placement_members (snd (provisionNode X n a w)) = placement_members w"
  "labs (snd (setNodeAlias n al a w)) = labs w" "lab_members (snd (setNodeAlias n al a w)) = lab_members w"
  "lab_placements (snd (setNodeAlias n al a w)) = lab_placements w" "placement_members (snd (setNodeAlias n al a w)) = placement_members w"
  "labs (revokeNode n a w) = labs w" "lab_members (revokeNode n a w) = lab_members w"
  "lab_placements (revokeNode n a w) = lab_placements w" "placement_members (revokeNode n a w) = placement_members w"
  "labs (snd (setNodeColdStorage n b ow a w)) = labs w" "lab_members (snd (setNodeColdStorage n b ow a w)) = lab_members w"
  "lab_placements (snd (setNodeColdStorage n b ow a w)) = lab_placements w"
  "placement_members (snd (setNodeColdStorage n b ow a w)) = placement_members w"
  by (simp_all add: provisionNode_def generateNodeToken_def upsert_node_token_def setNodeAlias_def revokeNode_def setNodeColdStorage_def
      set_cold_def Let_def split: option.splits sum.splits cold_backend.splits)

lemma good_node_ops:
  assumes "core_ok w"
  shows "good_step w (snd (provisionNode X n a w))" "good_step w (snd (rotateNodeToken X n a w))"
    "good_step w (snd (setNodeAlias n al a w))" "good_step w (revokeNode n a w)"
    "good_step w (snd (setNodeColdStorage n b ow a w))"
proof -
  have s: "schema_ok w" and c: "cold_ok w" using assms by (simp_all add: core_ok_def)
  show p: "good_step w (snd (provisionNode X n a w))"
    by (rule good_node_op [OF assms]) (simp_all add: s c provisionNode_inv node_ops_frame)
  show "good_step w (snd (rotateNodeToken X n a w))"
    using p good_step_refl [OF assms] by (simp add: rotateNodeToken_def)
  show "good_step w (snd (setNodeAlias n al a w))"
    by (rule good_node_op [OF assms]) (simp_all add: s c setNodeAlias_inv node_ops_frame)
  show "good_step w (revokeNode n a w)"
    by (rule good_node_op [OF assms]) (simp_all add: s c revokeNode_inv node_ops_frame)
  show "good_step w (snd (setNodeColdStorage n b ow a w))"
    by (rule good_node_op [OF assms]) (simp_all add: s c setNodeColdStorage_inv node_ops_frame)
qed

lemma good_deleteNode:
  assumes "core_ok w" shows "good_step w (snd (deleteNode n a f w))"
proof (cases "deleteNode n a f w")
  case (Pair r w')
  have s: "schema_ok w" and c: "cold_ok w" using assms by (simp_all add: core_ok_def)
  have sc: "schema_ok w'" "cold_ok w'" using deleteNode_schema [OF s, of n a f] deleteNode_cold [OF c, of n a f] Pair by simp_all
  show ?thesis
  proof (cases r)
    case (Inl e)
    have "w' = w"
    proof (cases "node_by_name n w")
      case None
      with Pair show ?thesis by (simp add: deleteNode_def)
    next
      case (Some row)
      have "delete_node_tx n (n_id row) f w = (Inl e', v) \<Longrightarrow> v = w" for e' v
        by (auto simp: delete_node_tx_prep split: prod.splits sum.splits)
      with Pair Inl Some show ?thesis
        by (auto simp: deleteNode_def Let_def and_then_def split: if_splits prod.splits sum.splits)
    qed
    with Pair good_step_refl [OF assms] show ?thesis by simp
  next
    case (Inr u)
    then obtain row where row: "node_by_name n w = Some row" using Pair by (auto simp: deleteNode_def split: option.splits)
    have *: "deleteNode n a f w = (Inr (), w')" using Pair Inr by simp
    have "labs w' = labs w \<and> lab_members w' = lab_members w \<and> abs_roster w' =
       (if f then abs_roster (delete_placements (\<lambda>p. p_node_id p = n_id row) w) else abs_roster w)"
      using * row by (auto simp: deleteNode_def Let_def delete_node_tx_ok delete_node_prep_def abs_roster_def split: if_splits)
    moreover have "pi_member w'" using calculation assms
      by (auto simp: core_ok_def pi_member_def is_member_iff abs_roster_def)
    ultimately show ?thesis using sc Pair s
      by (auto simp: good_step_def core_ok_def abs_delete_placements intro!: r_into_rtranclp roster_step.unplace)
  qed
qed

lemma good_lab_ops:
  assumes "core_ok w"
  shows "good_step w (snd (createLab ci w))" "good_step w (snd (updateLabMeta l mi a w))"
    "good_step w (snd (destroyLab X l a f w))"
proof -
  have s: "schema_ok w" and c: "cold_ok w" and p: "pi_member w" using assms by (simp_all add: core_ok_def)
  show "good_step w (snd (createLab ci w))"
  proof (cases "createLab ci w")
    case (Pair r w')
    note k = createLab_ok [OF s Pair]
    show ?thesis using k p Pair by (auto intro!: good_step_join [OF assms])
  qed
  show "good_step w (snd (updateLabMeta l mi a w))"
    by (rule good_step_join [OF assms]) (use s p updateLabMeta_ok in auto)
  obtain r w' where d: "destroyLab X l a f w = (Inr r, w')" "schema_ok w'" "pi_member w'" "nodes w' = nodes w"
    "roster_step\<^sup>*\<^sup>* (abs_roster w) (abs_roster w')" using destroyLab_ok [OF s c p, of X l a f] by blast
  then show "good_step w (snd (destroyLab X l a f w))"
    using cold_ok_frame [OF d(4)] c by (simp add: good_step_def core_ok_def)
qed

lemma good_addStudent:
  assumes "core_ok w" shows "good_step w (snd (addStudentToLab X l inp a w))"
proof (cases "addStudentToLab X l inp a w")
  case (Pair r w')
  have s: "schema_ok w" and p: "pi_member w" using assms by (simp_all add: core_ok_def)
  note k = addStudentToLab_ok [OF s Pair]
  have "abs_roster w' = abs_roster w \<or> (\<exists>l s. abs_roster w' = spec_join l s (abs_roster w))"
  proof (cases r)
    case (Inr x)
    then show ?thesis using k(6) by (cases x) auto
  qed (use k(5) in auto)
  moreover from this have "pi_member w'"
    by (intro pi_member_frame [OF k(2) _ p]) (auto simp: spec_join_def)
  ultimately show ?thesis using k Pair by (auto intro!: good_step_join [OF assms])
qed

lemma good_student_ops:
  assumes "core_ok w"
  shows "good_step w (snd (ensurePiAccess X l inp a w))" "good_step w (snd (removeStudentFromLab X l i d a w))"
    "good_step w (snd (copyMembers X k l a w))"
proof -
  have s: "schema_ok w" and p: "pi_member w" using assms by (simp_all add: core_ok_def)
  show "good_step w (snd (ensurePiAccess X l inp a w))"
  proof (cases "ensurePiAccess X l inp a w")
    case (Pair r w')
    note k = ensurePiAccess_ok [OF s Pair]
    have "abs_roster w' = abs_roster w \<or> (\<exists>l s. abs_roster w' = spec_join l s (abs_roster w))"
    proof (cases r)
      case (Inr x)
      then show ?thesis using k(6) by (cases x) auto
    qed (use k(5) in auto)
    with k p Pair show ?thesis by (auto intro!: good_step_join [OF assms])
  qed
  show "good_step w (snd (removeStudentFromLab X l i d a w))"
  proof (cases "removeStudentFromLab X l i d a w")
    case (Pair r w')
    note k = removeStudentFromLab_ok [OF s Pair]
    have "roster_step\<^sup>*\<^sup>* (abs_roster w) (abs_roster w')"
    proof (cases r)
      case (Inr u)
      then have "abs_roster w' = spec_leave l i (abs_roster w)" using k(7) by simp
      then show ?thesis by (simp add: roster_step.leave [OF placed_fun [OF s]] r_into_rtranclp)
    qed (use k(6) in auto)
    moreover have "pi_member w'" using removeStudent_pi [OF s p, of X l i d a] Pair by simp
    moreover have "cold_ok w'" using cold_ok_frame [OF k(2)] assms by (simp add: core_ok_def)
    ultimately show ?thesis using k(1) Pair by (simp add: good_step_def core_ok_def)
  qed
  have "core_ok v \<and> good_step w v \<Longrightarrow> core_ok (snd (addStudentToLab X l inp a v)) \<and> good_step w (snd (addStudentToLab X l inp a v))" for inp v
    using good_addStudent [of v X l inp a] good_step_trans by (auto simp: good_step_def)
  from copy_loop_pres [where I = "\<lambda>v. core_ok v \<and> good_step w v", OF this] good_step_refl [OF assms] assms
  show "good_step w (snd (copyMembers X k l a w))" by (simp add: copyMembers_def)
qed

lemma good_placement_ops:
  assumes "core_ok w"
  shows "good_step w (snd (createPlacement X inp w))" "good_step w (snd (updatePlacementQuota X i qi a w))"
    "good_step w (snd (recreatePlacement X i ri a w))" "good_step w (snd (retryPlacement X i a w))"
    "good_step w (snd (destroyPlacement X i a w))" "good_step w (snd (forceDeletePlacement X i a w))"
    "good_step w (snd (consumePlacementCredential X i j a w))"
proof -
  have s: "schema_ok w" using assms by (simp add: core_ok_def)
  show "good_step w (snd (createPlacement X inp w))"
  proof (rule good_step_registry [OF assms schema_createPlacement [OF s] registry_createPlacement])
    obtain r w' where c: "createPlacement X inp w = (r, w')" by fastforce
    show "roster_step\<^sup>*\<^sup>* (abs_roster w) (abs_roster (snd (createPlacement X inp w)))"
      using createPlacement_abs [OF s c] c placed_fresh [OF s]
      by (cases r) (auto intro!: r_into_rtranclp roster_step.place)
  qed
  show "good_step w (snd (updatePlacementQuota X i qi a w))" "good_step w (snd (recreatePlacement X i ri a w))"
    "good_step w (snd (retryPlacement X i a w))" "good_step w (snd (destroyPlacement X i a w))"
    "good_step w (snd (consumePlacementCredential X i j a w))"
    by (rule good_step_registry [OF assms]; simp add: schema_placement_ops [OF s] registry_placement_ops abs_placement_ops abs_result_ops)+
  show "good_step w (snd (forceDeletePlacement X i a w))"
    by (rule good_step_registry [OF assms]) (simp_all add: schema_placement_ops [OF s] registry_placement_ops unplace_steps [OF s])
qed

lemma good_result_ops:
  assumes "core_ok w"
  shows "good_step w (markPlacementStateByLabNode ln' n st e w)" "good_step w (markPlacementMemberState ln' n u mst e w)"
    "good_step w (confirmPlacementDestroyed ln' n w)" "good_step w (snd (deliver_begin X ln' n u w))"
    "good_step w (snd (deliver_finish i b w))" "good_step w (snd (completion_begin ln' n w))"
    "good_step w (snd (completion_finish i b w))"
proof -
  have s: "schema_ok w" using assms by (simp add: core_ok_def)
  show "good_step w (markPlacementStateByLabNode ln' n st e w)" "good_step w (markPlacementMemberState ln' n u mst e w)"
    "good_step w (snd (deliver_begin X ln' n u w))" "good_step w (snd (deliver_finish i b w))"
    "good_step w (snd (completion_begin ln' n w))" "good_step w (snd (completion_finish i b w))"
    by (rule good_step_registry [OF assms]; simp add: schema_placement_ops [OF s] registry_placement_ops abs_result_ops)+
  show "good_step w (confirmPlacementDestroyed ln' n w)"
    by (rule good_step_registry [OF assms]) (simp_all add: schema_placement_ops [OF s] registry_placement_ops unplace_steps [OF s])
qed

text \<open>A change outside the core tables: logs, queue, telemetry, time, random draws, mail.\<close>

definition same_core :: "'h world \<Rightarrow> 'h world \<Rightarrow> bool" where
  "same_core w' w \<longleftrightarrow> same_registry w' w \<and> lab_placements w' = lab_placements w \<and> placement_members w' = placement_members w"

lemma good_same_core: "core_ok w \<Longrightarrow> same_core w' w \<Longrightarrow> good_step w w'"
proof -
  assume c: "core_ok w" and e: "same_core w' w"
  have s: "schema_ok w' = schema_ok w" by (rule schema_frame) (use e in \<open>auto simp: same_core_def same_registry_def\<close>)
  have a: "abs_roster w' = abs_roster w" by (rule abs_roster_frame) (use e in \<open>auto simp: same_core_def same_registry_def\<close>)
  show ?thesis by (rule good_step_registry [OF c]) (use c e s a in \<open>auto simp: core_ok_def same_core_def\<close>)
qed

section \<open>The machine\<close>

inductive ctl_step :: "'h ext \<Rightarrow> 'h world \<Rightarrow> 'h world \<Rightarrow> bool" for X where
  provision: "ctl_step X w (snd (provisionNode X n a w))"
| rotate: "ctl_step X w (snd (rotateNodeToken X n a w))"
| set_alias: "ctl_step X w (snd (setNodeAlias n al a w))"
| revoke: "ctl_step X w (revokeNode n a w)"
| cold: "ctl_step X w (snd (setNodeColdStorage n b ow a w))"
| delete_node: "ctl_step X w (snd (deleteNode n a f w))"
| create_lab: "ctl_step X w (snd (createLab ci w))"
| lab_meta: "ctl_step X w (snd (updateLabMeta l mi a w))"
| destroy_lab: "ctl_step X w (snd (destroyLab X l a f w))"
| add_student: "ctl_step X w (snd (addStudentToLab X l inp a w))"
| ensure_pi: "ctl_step X w (snd (ensurePiAccess X l inp a w))"
| remove_student: "ctl_step X w (snd (removeStudentFromLab X l i d a w))"
| copy: "ctl_step X w (snd (copyMembers X k l a w))"
| place: "ctl_step X w (snd (createPlacement X pin w))"
| quota: "ctl_step X w (snd (updatePlacementQuota X i qi a w))"
| recreate: "ctl_step X w (snd (recreatePlacement X i ri a w))"
| retry: "ctl_step X w (snd (retryPlacement X i a w))"
| destroy: "ctl_step X w (snd (destroyPlacement X i a w))"
| force_destroy: "ctl_step X w (snd (forceDeletePlacement X i a w))"
| consume: "ctl_step X w (snd (consumePlacementCredential X i j a w))"
| placement_result: "ctl_step X w (markPlacementStateByLabNode labn n st e w)"
| member_result: "ctl_step X w (markPlacementMemberState labn n u mst e w)"
| destroyed: "ctl_step X w (confirmPlacementDestroyed labn n w)"
| deliver_begins: "ctl_step X w (snd (deliver_begin X labn n u w))"
| deliver_ends: "ctl_step X w (snd (deliver_finish i bb w))"
| completion_begins: "ctl_step X w (snd (completion_begin labn n w))"
| completion_ends: "ctl_step X w (snd (completion_finish i bb w))"
| elsewhere: "same_core w' w \<Longrightarrow> ctl_step X w w'"

lemma ctl_step_good: "ctl_step X w w' \<Longrightarrow> core_ok w \<Longrightarrow> good_step w w'"
  by (induction rule: ctl_step.induct)
     (simp_all add: good_node_ops good_deleteNode good_lab_ops good_addStudent good_student_ops good_placement_ops
        good_result_ops good_same_core)

definition empty_db :: "'h world \<Rightarrow> bool" where
  "empty_db w \<longleftrightarrow> nodes w = tbl_empty \<and> students w = tbl_empty \<and> labs w = tbl_empty \<and> lab_members w = tbl_empty \<and>
     lab_placements w = tbl_empty \<and> placement_members w = tbl_empty"

lemma core_ok_empty: "empty_db w \<Longrightarrow> core_ok w"
  by (simp add: empty_db_def core_ok_def schema_defs cold_ok_def pi_member_def List.map_filter_simps)

lemma sync_empty: "empty_db w \<Longrightarrow> roster_sync (abs_roster w)"
  by (simp add: empty_db_def roster_sync_def abs_roster_def)

interpretation ctl: roster_impl abs_roster core_ok "ctl_step X" for X
proof
  fix w w' assume "core_ok w" "ctl_step X w w'"
  with ctl_step_good show "core_ok w'" "roster_step\<^sup>*\<^sup>* (abs_roster w) (abs_roster w')"
    by (auto simp: good_step_def)
qed

interpretation ctl_inv: invariant_machine empty_db "ctl_step X" core_ok for X
  by unfold_locales (auto intro: core_ok_empty ctl.cstep_ok)

end
