(* ===== verification/Delivery.thy ===== *)
theory Delivery
  imports Controller
begin

text \<open>
  What reaches an agent: the tasks that wait in a node's queue, in order, decoded from their
  encrypted envelopes. Creating or recreating a placement enqueues the container task before the
  accounts, and every account task carries the password that the controller keeps, encrypted, for
  the member until it is delivered.
\<close>

section \<open>Reading a queue\<close>

text \<open>Values on which \<open>JSON.parse(JSON.stringify(v))\<close> is \<open>v\<close>: finite numbers and no repeated key.\<close>

fun json_plain :: "json \<Rightarrow> bool" where
  "json_plain (JInf b) = False"
| "json_plain (JArr xs) = list_all json_plain xs"
| "json_plain (JObj kvs) = (distinct (map fst kvs) \<and> list_all (\<lambda>kv. json_plain (snd kv)) kvs)"
| "json_plain v = True"

definition json_roundtrip :: "'h ext \<Rightarrow> bool" where
  "json_roundtrip X \<longleftrightarrow> (\<forall>j. json_plain j \<longrightarrow> json_parse_string X (json_stringify X j) = Some j)"

lemma json_plain_frame: "json_plain (f_params f) \<Longrightarrow> json_plain (frame_json f)"
  by (simp add: frame_json_def j_int_def split: option.splits)

text \<open>The action and parameters of a waiting payload.\<close>

definition payload_view :: "'h ext \<Rightarrow> payload \<Rightarrow> (string \<times> json) option" where
  "payload_view X p =
     (case decodeFrame X p of
        Inl e \<Rightarrow> None
      | Inr j \<Rightarrow> (case (jstr (jget ''action'' j), jget ''params'' j) of (Some a, Some ps) \<Rightarrow> Some (a, ps) | _ \<Rightarrow> None))"

definition queue_view :: "'h ext \<Rightarrow> (string \<Rightarrow> 'h \<Rightarrow> (nat \<times> payload) list) \<Rightarrow> string \<Rightarrow> 'h world \<Rightarrow> (string \<times> json) option list" where
  "queue_view X pend node w = map (payload_view X) (pending pend node w)"

lemma payload_view_frame:
  assumes "gcm_ok X" "json_roundtrip X" "json_plain (f_params f)"
  shows "payload_view X (frame_payload X k f) = Some (f_action f, f_params f)"
proof -
  have "json_parse_string X (json_stringify X (frame_json f)) = Some (frame_json f)"
    using assms(2) json_plain_frame [OF assms(3)] by (simp add: json_roundtrip_def)
  from decode_frame_payload [OF assms(1) this] show ?thesis
    by (simp add: payload_view_def frame_json_def)
qed

lemma frame_of_fields [simp]: "f_action (frame_of X n a p b w) = a" "f_params (frame_of X n a p b w) = p"
  by (simp_all add: frame_of_def enqueueTask_def Let_def split: prod.splits)

lemma queue_view_enqueue:
  assumes "honker_fifo X pend" "gcm_ok X" "json_roundtrip X" "json_plain p"
  shows "queue_view X pend node (enqueue X n a p b w) =
     queue_view X pend node w @ (if node = n then [Some (a, p)] else [])"
  using payload_view_frame [OF assms(2,3), of "frame_of X n a p b w" "draws w + 1"] assms(4)
  by (simp add: queue_view_def pending_enqueue [OF assms(1)])

lemma queue_view_frame: "hq w' = hq w \<Longrightarrow> queue_view X pend node w' = queue_view X pend node w"
  by (simp add: queue_view_def pending_def)

lemma queue_view_frames [simp]:
  "queue_view X pend node (w\<lparr>draws := k\<rparr>) = queue_view X pend node w"
  "queue_view X pend node (w\<lparr>placement_members := t\<rparr>) = queue_view X pend node w"
  "queue_view X pend node (w\<lparr>lab_placements := ps\<rparr>) = queue_view X pend node w"
  "queue_view X pend node (w\<lparr>lab_members := ms\<rparr>) = queue_view X pend node w"
  "queue_view X pend node (audit a b c d w) = queue_view X pend node w"
  "queue_view X pend node (send_mail m w) = queue_view X pend node w"
  "queue_view X pend node (upd_placement i f w) = queue_view X pend node w"
  "queue_view X pend node (upd_pm i g w) = queue_view X pend node w"
  by (rule queue_view_frame; simp)+

section \<open>Plain parameters\<close>

lemma json_plain_simps [simp]: "json_plain (j_int n)" "json_plain (j_opt_int v)"
  by (simp_all add: j_int_def j_opt_int_def split: option.splits)

lemma plain_student_add [simp]: "json_plain (student_add_params p u uid pw)"
  by (simp add: student_add_params_def)

lemma containerOptionsOf_options:
  "containerOptionsOf (Some (JText (JObj (options_fields o')))) = JObj (options_fields o')"
  by (simp add: containerOptionsOf_def merge_fields_def options_fields_def spread_fields_def)

lemma plain_create_params:
  assumes "p_container_options (pl_row p) = Some (JText (JObj (options_fields o')))"
  shows "json_plain (create_params p)"
  unfolding create_params_def taskContainerOptions_def assms containerOptionsOf_options
  by (simp add: spread_fields_def merge_fields_def options_fields_def)

section \<open>Provisioning a roster\<close>

lemma pm_lookup_frame: "placement_members w' = placement_members w \<Longrightarrow> pm_lookup p s w' = pm_lookup p s w"
  by (simp add: pm_lookup_def)

text \<open>The account task and the stored credential carry the same password.\<close>

lemma provisionMember_queue:
  fixes a :: "string option"
  assumes "honker_fifo X pend" "gcm_ok X" "json_roundtrip X" "pm_lookup (p_id (pl_row p)) (s_id s) w = None"
  defines "w' \<equiv> snd (provisionMemberOnPlacement X p s a w)"
  obtains pw r where
    "queue_view X pend node w' = queue_view X pend node w @
       (if node = pl_node_name p then [Some (''student.add'', student_add_params p (s_username s) (s_linux_uid s) pw)] else [])"
    "rows (placement_members w') = rows (placement_members w) @ [r]" "pm_key r = (p_id (pl_row p), s_id s)"
    "pm_state r = MProvisioning" "map_option (decryptSecret X) (pm_credential_secret r) = Some pw" "length pw = PASSWORD_LEN"
proof -
  let ?k = "draws w" and ?pw = "generatePassword X (draws w) PASSWORD_LEN"
  obtain r where r: "rows (placement_members w') = rows (placement_members w) @ [r]" "pm_key r = (p_id (pl_row p), s_id s)"
    "pm_state r = MProvisioning" "pm_credential_secret r = Some (encryptSecret X (draws w + 1) ?pw)"
    unfolding w'_def by (rule provisionMember_new [OF assms(4), where X = X and a = a]) blast
  have "queue_view X pend node w' = queue_view X pend node w @
      (if node = pl_node_name p then [Some (''student.add'', student_add_params p (s_username s) (s_linux_uid s) ?pw)] else [])"
    unfolding w'_def provisionMemberOnPlacement_def using assms(4)
    by (simp add: Let_def queue_view_enqueue [OF assms(1-3)])
  with r show ?thesis
    using that decrypt_encrypt [OF assms(2)] generatePassword_length [OF assms(2)] by simp
qed

lemma fold_provision_queue:
  assumes "honker_fifo X pend" "gcm_ok X" "json_roundtrip X" "distinct (map s_id ss)"
    "\<And>s. s \<in> set ss \<Longrightarrow> pm_lookup (p_id (pl_row p)) (s_id s) w = None"
  shows "\<exists>pws. length pws = length ss \<and>
     queue_view X pend (pl_node_name p) (fold (\<lambda>s w. snd (provisionMemberOnPlacement X p s a w)) ss w) =
       queue_view X pend (pl_node_name p) w @
       map (\<lambda>(s, pw). Some (''student.add'', student_add_params p (s_username s) (s_linux_uid s) pw)) (zip ss pws) \<and>
     (\<forall>(s, pw) \<in> set (zip ss pws). \<exists>r \<in> set (rows (placement_members (fold (\<lambda>s w. snd (provisionMemberOnPlacement X p s a w)) ss w))).
        pm_key r = (p_id (pl_row p), s_id s) \<and> pm_state r = MProvisioning \<and>
        map_option (decryptSecret X) (pm_credential_secret r) = Some pw)"
  using assms(4,5)
proof (induction ss arbitrary: w)
  case (Cons s ss)
  let ?w1 = "snd (provisionMemberOnPlacement X p s a w)"
  have "pm_lookup (p_id (pl_row p)) (s_id s) w = None" using Cons.prems(2) by simp
  then obtain pw r where q: "queue_view X pend (pl_node_name p) ?w1 = queue_view X pend (pl_node_name p) w @
       [Some (''student.add'', student_add_params p (s_username s) (s_linux_uid s) pw)]"
    and r: "rows (placement_members ?w1) = rows (placement_members w) @ [r]" "pm_key r = (p_id (pl_row p), s_id s)"
    "pm_state r = MProvisioning" "map_option (decryptSecret X) (pm_credential_secret r) = Some pw"
    by (rule provisionMember_queue [OF assms(1-3), where node = "pl_node_name p" and a = a]) auto
  have "pm_lookup (p_id (pl_row p)) (s_id t) ?w1 = None" if "t \<in> set ss" for t
  proof -
    have "s_id t \<noteq> s_id s"
      using Cons.prems(1) that by (metis distinct.simps(2) image_eqI list.map(2) list.set_map)
    with Cons.prems(2) [of t] that r(1,2) show ?thesis by (simp add: pm_lookup_None)
  qed
  with Cons.IH [of ?w1] Cons.prems(1) obtain pws where pws: "length pws = length ss"
    "queue_view X pend (pl_node_name p) (fold (\<lambda>s w. snd (provisionMemberOnPlacement X p s a w)) ss ?w1) =
       queue_view X pend (pl_node_name p) ?w1 @
       map (\<lambda>(s, pw). Some (''student.add'', student_add_params p (s_username s) (s_linux_uid s) pw)) (zip ss pws)"
    "\<forall>(s, pw) \<in> set (zip ss pws). \<exists>r \<in> set (rows (placement_members (fold (\<lambda>s w. snd (provisionMemberOnPlacement X p s a w)) ss ?w1))).
        pm_key r = (p_id (pl_row p), s_id s) \<and> pm_state r = MProvisioning \<and>
        map_option (decryptSecret X) (pm_credential_secret r) = Some pw" by auto
  have keep: "set (rows (placement_members v)) \<subseteq> set (rows (placement_members (fold (\<lambda>s w. snd (provisionMemberOnPlacement X p s a w)) ts v)))"
    for ts and v :: "'a world"
  proof (induction ts arbitrary: v)
    case (Cons t ts)
    have "set (rows (placement_members v)) \<subseteq> set (rows (placement_members (snd (provisionMemberOnPlacement X p t a v))))"
      by (auto simp: provisionMemberOnPlacement_def Let_def split: option.splits)
    with Cons [of "snd (provisionMemberOnPlacement X p t a v)"] show ?case by auto
  qed simp
  have "r \<in> set (rows (placement_members (fold (\<lambda>s w. snd (provisionMemberOnPlacement X p s a w)) ss ?w1)))"
    using keep [of ?w1 ss] r(1) by auto
  with q r pws show ?case by (intro exI [of _ "pw # pws"]) auto
qed (simp add: exI [of _ "[]"])

lemma distinct_map_sort_key: "distinct (map f (sort_key k xs)) = distinct (map f xs)"
  by (simp add: distinct_map)

lemma roster_distinct:
  assumes "schema_ok w" shows "distinct (map s_id (roster l w))"
proof -
  have k: "distinct (map member_key (rows (lab_members w)))" using assms by (simp add: schema_ok_def uniq_all_def)
  let ?ms = "tbl_all (\<lambda>m. m_lab_id m = l) (lab_members w)"
  have "distinct (map member_key ?ms)" using k by (simp add: tbl_all_def distinct_map_filter)
  moreover have "\<forall>m \<in> set ?ms. m_lab_id m = l" by (simp add: tbl_all_def)
  ultimately have d: "distinct (map m_student_id ?ms)"
    by (simp add: distinct_map inj_on_def member_key_def)
  have "map s_id (List.map_filter (\<lambda>m. student_by_id (m_student_id m) w) ms) = map m_student_id ms"
    if "set ms \<subseteq> set (rows (lab_members w))" for ms
    using that
  proof (induction ms)
    case (Cons m ms)
    then have m: "m \<in> set (rows (lab_members w))" by simp
    obtain s where s: "s \<in> set (rows (students w))" "s_id s = m_student_id m"
      using schema_member_refs(2) [OF assms m] by auto
    have "student_by_id (m_student_id m) w = Some s" using by_id_mem(3) [OF assms s(1)] s(2) by simp
    with s(2) Cons show ?case by (simp add: List.map_filter_simps)
  qed (simp add: List.map_filter_simps)
  from this [of ?ms] d have "distinct (map s_id (List.map_filter (\<lambda>m. student_by_id (m_student_id m) w) ?ms))"
    by (simp add: tbl_all_def)
  then show ?thesis by (simp add: roster_def distinct_map_sort_key)
qed

lemma roster_frame: "lab_members w' = lab_members w \<Longrightarrow> students w' = students w \<Longrightarrow> roster l w' = roster l w"
  by (simp add: roster_def student_by_id_def)

lemma createPlacement_queue:
  assumes "honker_fifo X pend" "gcm_ok X" "json_roundtrip X" "schema_ok w" "createPlacement X inp w = (Inr p, w')"
  shows "\<exists>pws. length pws = length (roster (ci_labId inp) w) \<and>
     queue_view X pend (pl_node_name p) w' = queue_view X pend (pl_node_name p) w @ [Some (''lab.create'', create_params p)] @
       map (\<lambda>(s, pw). Some (''student.add'', student_add_params p (s_username s) (s_linux_uid s) pw)) (zip (roster (ci_labId inp) w) pws) \<and>
     (\<forall>(s, pw) \<in> set (zip (roster (ci_labId inp) w) pws). \<exists>r \<in> set (rows (placement_members w')).
        pm_key r = (p_id (pl_row p), s_id s) \<and> pm_state r = MProvisioning \<and>
        map_option (decryptSecret X) (pm_credential_secret r) = Some pw)"
proof -
  obtain node c sc w1 w2 where
    n: "node_by_id (ci_nodeId inp) w = Some node"
    and i: "insert_placement inp c sc w = (Inr (tbl_next (lab_placements w)), w1)"
    and g: "getPlacement (tbl_next (lab_placements w)) w1 = Some p"
    and w2: "w2 = audit (ci_actor inp) ''placement.create'' (Some (at_node p)) None (enqueuePlacementCreate X p (ci_actor inp) w1)"
    and w': "w' = fold (\<lambda>s w. snd (provisionMemberOnPlacement X p s (ci_actor inp) w)) (roster (ci_labId inp) w2) w2"
    using createPlacement_okE [OF assms(5)] by metis
  note ins = insert_placement_ok(2,3) [OF i]
  have ro: "roster (ci_labId inp) w2 = roster (ci_labId inp) w"
    by (rule roster_frame) (use ins in \<open>simp_all add: w2 enqueuePlacementCreate_def\<close>)
  have pid: "p_id (pl_row p) = tbl_next (lab_placements w)" using getPlacement_Some(3) [OF g] .
  have s1: "schema_ok w1" using schema_insert_placement [OF assms(4), of inp c sc] n i by simp
  obtain r where r: "lab_placements w1 = tbl_insert (\<lambda>_. r) (lab_placements w)" "p_id r = tbl_next (lab_placements w)"
    "p_container_options r = Some (JText (JObj (options_fields (ci_containerOptions inp))))" using ins(2) by blast
  have "r \<in> set (rows (lab_placements w1))" using r(1) by simp
  then have "pl_row p = r"
    using pk_unique [OF schema_pk(5) [OF s1] getPlacement_Some(2) [OF g]] pid r(2) by simp
  then have plain: "json_plain (create_params p)" using plain_create_params r(3) by simp
  have q2: "queue_view X pend (pl_node_name p) w2 = queue_view X pend (pl_node_name p) w @ [Some (''lab.create'', create_params p)]"
    using queue_view_frame [of w1 w] ins(1)
    by (simp add: w2 enqueuePlacementCreate_def queue_view_enqueue [OF assms(1-3) plain])
  have fresh: "pm_lookup (p_id (pl_row p)) (s_id s) w2 = None" for s
  proof -
    have "placement_members w2 = placement_members w" using ins(1) by (simp add: w2 enqueuePlacementCreate_def)
    then have "pm_lookup (p_id (pl_row p)) (s_id s) w2 = pm_lookup (p_id (pl_row p)) (s_id s) w" by (rule pm_lookup_frame)
    moreover have "(p_id (pl_row p), s_id s) \<notin> pm_key ` set (rows (placement_members w))"
      using schema_pm_refs(1) [OF assms(4)] pk_next_fresh [OF schema_pk(5) [OF assms(4)]] pid by (auto simp: pm_key_def)
    ultimately show ?thesis by (simp add: pm_lookup_None)
  qed
  from fold_provision_queue [OF assms(1-3) roster_distinct [OF assms(4)] fresh, where a = "ci_actor inp"]
  show ?thesis unfolding w' ro q2 append_assoc .
qed

section \<open>Joined rows after an update\<close>

lemma find_map: "(\<And>x. P (g x) = P x) \<Longrightarrow> List.find P (map g xs) = map_option g (List.find P xs)"
  by (induction xs) auto

lemma credential_join_frame:
  assumes "students w' = students w" "lab_placements w' = lab_placements w" "labs w' = labs w" "nodes w' = nodes w"
  shows "credential_join w' = credential_join w"
  unfolding credential_join_def [abs_def] student_by_id_def lab_by_id_def node_by_id_def assms ..

lemma placement_join_frame:
  assumes "labs w' = labs w" "nodes w' = nodes w" shows "placement_join w' = placement_join w"
  unfolding placement_join_def [abs_def] lab_by_id_def node_by_id_def assms ..

lemma credential_select_frame:
  assumes "students w' = students w" "lab_placements w' = lab_placements w" "labs w' = labs w" "nodes w' = nodes w"
    "placement_members w' = placement_members w"
  shows "credential_select w' = credential_select w"
  unfolding credential_select_def credential_join_frame [OF assms(1-4)] assms(5) ..

lemma placement_select_frame:
  assumes "labs w' = labs w" "nodes w' = nodes w" "lab_placements w' = lab_placements w"
  shows "placement_select w' = placement_select w"
  unfolding placement_select_def placement_join_frame [OF assms(1,2)] assms(3) ..

text \<open>Mapping the rows maps the joined rows.\<close>

lemma map_filter_map_rows:
  assumes "\<And>x. f (h x) = map_option (k x) (f x)" "\<And>x y. f x = Some y \<Longrightarrow> k x y = k' y"
  shows "List.map_filter f (map h xs) = map k' (List.map_filter f xs)"
proof (induction xs)
  case (Cons x xs)
  then show ?case using assms(1) [of x] assms(2) [of x]
    by (cases "f x") (simp_all add: List.map_filter_simps)
qed (simp add: List.map_filter_simps)

lemma credential_select_upd_pm:
  assumes "\<And>r. pm_placement_id (f r) = pm_placement_id r" "\<And>r. pm_student_id (f r) = pm_student_id r"
  shows "credential_select (upd_pm i f w) =
     map (\<lambda>c. if pm_id (cr_pm c) = i then c\<lparr>cr_pm := f (cr_pm c)\<rparr> else c) (credential_select w)"
proof -
  define h where "h = (\<lambda>r. if pm_id r = i then f r else r)"
  have keys: "pm_placement_id (h r) = pm_placement_id r" "pm_student_id (h r) = pm_student_id r" for r
    using assms by (simp_all add: h_def)
  have j: "credential_join (upd_pm i f w) = credential_join w" by (rule credential_join_frame) simp_all
  have g: "credential_join w (h r) = map_option (\<lambda>c. c\<lparr>cr_pm := h r\<rparr>) (credential_join w r)" for r
    by (simp add: credential_join_def keys split: option.splits)
  have pm: "cr_pm c = r" if "credential_join w r = Some c" for r c
    using that by (auto simp: credential_join_def split: option.splits)
  have "List.map_filter (credential_join w) (map h rs) =
      map (\<lambda>c. if pm_id (cr_pm c) = i then c\<lparr>cr_pm := f (cr_pm c)\<rparr> else c) (List.map_filter (credential_join w) rs)" for rs
    by (rule map_filter_map_rows [where k = "\<lambda>r c. c\<lparr>cr_pm := h r\<rparr>"], rule g) (use pm in \<open>auto simp: h_def\<close>)
  then show ?thesis by (simp add: credential_select_def j rows_tbl_update h_def)
qed

lemma placement_select_update:
  assumes "\<And>p. p_lab_id (f p) = p_lab_id p" "\<And>p. p_node_id (f p) = p_node_id p"
  shows "placement_select (w\<lparr>lab_placements := tbl_update P f (lab_placements w)\<rparr>) =
     map (\<lambda>v. if P (pl_row v) then v\<lparr>pl_row := f (pl_row v)\<rparr> else v) (placement_select w)"
proof -
  define h where "h = (\<lambda>p. if P p then f p else p)"
  have keys: "p_lab_id (h p) = p_lab_id p" "p_node_id (h p) = p_node_id p" for p
    using assms by (simp_all add: h_def)
  have j: "placement_join (w\<lparr>lab_placements := t\<rparr>) = placement_join w" for t by (rule placement_join_frame) simp_all
  have g: "placement_join w (h p) = map_option (\<lambda>v. v\<lparr>pl_row := h p\<rparr>) (placement_join w p)" for p
    by (simp add: placement_join_def keys split: option.splits)
  have "List.map_filter (placement_join w) (map h ps) =
      map (\<lambda>v. if P (pl_row v) then v\<lparr>pl_row := f (pl_row v)\<rparr> else v) (List.map_filter (placement_join w) ps)" for ps
    by (rule map_filter_map_rows [where k = "\<lambda>p v. v\<lparr>pl_row := h p\<rparr>"], rule g) (use placement_join_Some(1) in \<open>auto simp: h_def\<close>)
  then show ?thesis by (simp add: placement_select_def j rows_tbl_update h_def)
qed

section \<open>A credential is revealed once\<close>

lemma consume_ok:
  assumes "consumePlacementCredential X i j a w = (Inr (u, pw), w')"
  obtains c where "List.find (\<lambda>c. pm_placement_id (cr_pm c) = i \<and> pm_student_id (cr_pm c) = j) (credential_select w) = Some c"
    "pm_state (cr_pm c) = MActive" "map_option (decryptSecret X) (pm_credential_secret (cr_pm c)) = Some pw" "pw \<noteq> []"
    "u = s_username (cr_student c)"
    "w' = audit a ''placement.credential_reveal'' (Some (l_name (cr_lab c) @ ''/'' @ u @ ''@'' @ n_name (cr_node c))) None
       (burn_credential (pm_id (cr_pm c)) w)"
  using assms by (auto simp: consumePlacementCredential_def Let_def split: option.splits if_splits)

lemma consume_twice:
  assumes "consumePlacementCredential X i j a w = (Inr (u, pw), w')"
  shows "fst (consumePlacementCredential X i j a' w') = Inl (PlacementE CredentialConsumed)"
proof -
  obtain c where c: "List.find (\<lambda>c. pm_placement_id (cr_pm c) = i \<and> pm_student_id (cr_pm c) = j) (credential_select w) = Some c"
    "pm_state (cr_pm c) = MActive"
    and w': "w' = audit a ''placement.credential_reveal'' (Some (l_name (cr_lab c) @ ''/'' @ u @ ''@'' @ n_name (cr_node c))) None
       (burn_credential (pm_id (cr_pm c)) w)" by (rule consume_ok [OF assms])
  have "credential_select w' = credential_select (burn_credential (pm_id (cr_pm c)) w)"
    unfolding w' by (rule credential_select_frame) simp_all
  also have "\<dots> = map (\<lambda>d. if pm_id (cr_pm d) = pm_id (cr_pm c)
       then d\<lparr>cr_pm := (cr_pm d)\<lparr>pm_credential_secret := None, pm_credential_delivered_at := Some (clock w)\<rparr>\<rparr> else d) (credential_select w)"
    unfolding burn_credential_def by (rule credential_select_upd_pm) simp_all
  finally have "List.find (\<lambda>c. pm_placement_id (cr_pm c) = i \<and> pm_student_id (cr_pm c) = j) (credential_select w')
      = Some (c\<lparr>cr_pm := (cr_pm c)\<lparr>pm_credential_secret := None, pm_credential_delivered_at := Some (clock w)\<rparr>\<rparr>)"
    using c(1) by (simp add: find_map)
  with c(2) show ?thesis by (simp add: consumePlacementCredential_def)
qed

section \<open>The completion mail is claimed once\<close>

lemma completion_claimed:
  assumes "completion_begin l n w = (Some i, w1)"
  shows "completion_begin l n w1 = (None, w1)"
proof -
  let ?P = "\<lambda>v. pl_lab_name v = l \<and> pl_node_name v = n"
  obtain v where v: "List.find ?P (placement_select w) = Some v" "p_completion_email_sent_at (pl_row v) = None"
    using assms by (auto simp: completion_begin_def getPlacementByLabNode_def Let_def split: option.splits if_splits)
  let ?Q = "\<lambda>q. p_id q = p_id (pl_row v) \<and> p_completion_email_sent_at q = None"
  let ?f = "\<lambda>q. q\<lparr>p_completion_email_sent_at := Some (-1)\<rparr>"
  obtain m where w1: "w1 = send_mail m (w\<lparr>lab_placements := tbl_update ?Q ?f (lab_placements w)\<rparr>)"
    using assms v by (auto simp: completion_begin_def getPlacementByLabNode_def Let_def split: if_splits)
  have "placement_select w1 = placement_select (w\<lparr>lab_placements := tbl_update ?Q ?f (lab_placements w)\<rparr>)"
    unfolding w1 by (rule placement_select_frame) simp_all
  also have "\<dots> = map (\<lambda>u. if ?Q (pl_row u) then u\<lparr>pl_row := ?f (pl_row u)\<rparr> else u) (placement_select w)"
    by (rule placement_select_update) simp_all
  finally have "List.find ?P (placement_select w1) = Some (v\<lparr>pl_row := ?f (pl_row v)\<rparr>)"
    using v by (simp add: find_map)
  then show ?thesis by (simp add: completion_begin_def getPlacementByLabNode_def Let_def)
qed

end
