(* ===== verification/Sample.thy ===== *)
theory Sample
  imports Delivery "HOL-Library.Countable"
begin

text \<open>
  Concrete instances used by the witnesses: an implementation of the functions outside the
  repository (a FIFO queue engine on a list, a length-preserving cipher, injective digests), the
  empty database, and a small database with two nodes, two labs, three students and a placement.
\<close>

section \<open>External functions\<close>

type_synonym fifo = "nat \<times> (string \<times> nat \<times> payload) list"

definition fifo_pend :: "string \<Rightarrow> fifo \<Rightarrow> (nat \<times> payload) list" where
  "fifo_pend q h = map snd (filter (\<lambda>e. fst e = q) (snd h))"

fun take_first :: "string \<Rightarrow> (string \<times> nat \<times> payload) list \<Rightarrow> ((nat \<times> payload) \<times> (string \<times> nat \<times> payload) list) option" where
  "take_first q [] = None"
| "take_first q (e # es) = (if fst e = q then Some (snd e, es) else map_option (\<lambda>(x, r). (x, e # r)) (take_first q es))"

instance json :: countable
  by countable_datatype

definition X0 :: "fifo ext" where
  "X0 = \<lparr>rand_uuid = (\<lambda>k. ''u'' @ replicate k (CHR ''1'')),
     rand_bytes = (\<lambda>k n. replicate n (char_of (k mod 256))),
     gcm_encrypt = (\<lambda>key iv plain. (plain, ''t'')),
     gcm_decrypt = (\<lambda>key iv tag ct. Some ct),
     scrypt = (\<lambda>p s. s @ p),
     hmac_sha256_hex = (\<lambda>key m. ''h'' @ m),
     sha256 = (\<lambda>m. m),
     json_stringify = (\<lambda>j. replicate (Suc (to_nat j)) (CHR ''x'')),
     json_parse_string = (\<lambda>s. if s = [] then None else Some (from_nat (length s - 1))),
     env_agentToken = ''agent'', env_sessionSecret = ''session'',
     hk_enqueue = (\<lambda>q p h. (fst h, (fst h + 1, snd h @ [(q, fst h, p)]))),
     hk_claimOne = (\<lambda>q wk h. case take_first q (snd h) of None \<Rightarrow> (None, h) | Some (x, r) \<Rightarrow> (Some x, (fst h, r))),
     hk_ackBatch = (\<lambda>q js wk h. h),
     hk_retry = (\<lambda>q j wk d e h. h),
     tz_hour = (\<lambda>t z. Some (nat ((t div 3600000) mod 24))),
     tz_valid = (\<lambda>z. z = ''UTC''),
     tz_parts = (\<lambda>t z. (1970, 1, 1 + t div 86400000, (t div 3600000) mod 24, (t div 60000) mod 60, (t div 1000) mod 60))\<rparr>"

lemma X0_gcm [simp]: "gcm_ok X0"
  by (simp add: gcm_ok_def X0_def)

lemma X0_uuid [simp]: "inj (rand_uuid X0)"
  by (auto simp: inj_def X0_def)

lemma X0_json: "json_parse_string X0 (json_stringify X0 j) = Some j"
  by (simp add: X0_def)

lemma X0_json_roundtrip [simp]: "json_roundtrip X0"
  by (simp add: json_roundtrip_def X0_json)

lemma take_first_None: "take_first q es = None \<longleftrightarrow> filter (\<lambda>e. fst e = q) es = []"
  by (induction es) auto

lemma take_first_Some:
  "take_first q es = Some (x, r) \<Longrightarrow>
     map snd (filter (\<lambda>e. fst e = q) es) = x # map snd (filter (\<lambda>e. fst e = q) r) \<and>
     (\<forall>q'. q' \<noteq> q \<longrightarrow> filter (\<lambda>e. fst e = q') r = filter (\<lambda>e. fst e = q') es)"
  by (induction es arbitrary: r) (auto split: if_splits)

lemma X0_fifo [simp]: "honker_fifo X0 fifo_pend"
  unfolding honker_fifo_def
  by (auto simp: X0_def fifo_pend_def take_first_None split: option.splits dest: take_first_Some)

section \<open>Databases\<close>

definition W0 :: "fifo world" where
  "W0 = \<lparr>admins = tbl_empty, settings = [], nodes = tbl_empty, students = tbl_empty, labs = tbl_empty,
     lab_members = tbl_empty, lab_placements = tbl_empty, placement_members = tbl_empty,
     storage_samples = tbl_empty, quota_alerts = tbl_empty, student_quota_alerts = tbl_empty,
     task_log = tbl_empty, logs = tbl_empty, gpu_snapshot = [], gpu_events = tbl_empty, audit_log = tbl_empty,
     node_groups = tbl_empty, node_group_members = [], announcements = tbl_empty, announcement_templates = tbl_empty, hq = (0, []), alert_state = [], gpu_mail_state = [], outbox = [], clock = 1000, draws = 0\<rparr>"

lemma W0_empty [simp]: "empty_db W0"
  by (simp add: empty_db_def W0_def)

definition mk_node :: "nat \<Rightarrow> string \<Rightarrow> bool \<Rightarrow> cold_backend \<Rightarrow> nat option \<Rightarrow> node_row" where
  "mk_node i name online b ow = \<lparr>n_id = i, n_name = name, n_last_seen = None, n_online = online, n_capabilities = None,
     n_pools = None, n_created_at = 0, n_last_scrub = None, n_scrub_status = None,
     n_token_hash = Some (''h'' @ name @ [NUL] @ ''tok''), n_allowed = True, n_alias = None, n_cold_backend = b,
     n_cold_owner_node_id = ow, n_cold_mount_path = None, n_cold_ready = True\<rparr>"

definition mk_student :: "nat \<Rightarrow> string \<Rightarrow> int \<Rightarrow> student_row" where
  "mk_student i name uid = \<lparr>s_id = i, s_student_id = None, s_username = name, s_email = Some (name @ ''@x''),
     s_name = None, s_created_at = 0, s_updated_at = 0, s_linux_uid = uid\<rparr>"

definition mk_lab :: "nat \<Rightarrow> string \<Rightarrow> nat option \<Rightarrow> lab_row" where
  "mk_lab i name pis = \<lparr>l_id = i, l_name = name, l_pi_name = None, l_pi_email = Some ''pi@x'', l_created_at = 0, l_updated_at = 0,
     l_pi_student_id = pis\<rparr>"

definition mk_member :: "nat \<Rightarrow> nat \<Rightarrow> nat \<Rightarrow> lab_member_row" where
  "mk_member i l s = \<lparr>m_id = i, m_lab_id = l, m_student_id = s, m_created_at = 0\<rparr>"

definition mk_placement :: "nat \<Rightarrow> nat \<Rightarrow> nat \<Rightarrow> int \<Rightarrow> placement_state \<Rightarrow> placement_row" where
  "mk_placement i l n port st = \<lparr>p_id = i, p_lab_id = l, p_node_id = n, p_fast_quota_bytes = 100, p_cold_quota_bytes = Some 200,
     p_ssh_port = port, p_image = ''ubuntu'', p_container_options = None, p_state = st, p_last_error = None,
     p_usage_scanned_at = None, p_last_usage_scan = None, p_created_at = 0, p_updated_at = 0,
     p_student_fast_quota_bytes = None, p_student_cold_quota_bytes = None, p_completion_email_sent_at = None\<rparr>"

definition mk_pm :: "nat \<Rightarrow> nat \<Rightarrow> nat \<Rightarrow> member_state \<Rightarrow> string option \<Rightarrow> placement_member_row" where
  "mk_pm i p s st secret = \<lparr>pm_id = i, pm_placement_id = p, pm_student_id = s, pm_state = st, pm_last_error = None,
     pm_created_at = 0, pm_updated_at = 0, pm_credential_secret = secret, pm_credential_delivered_at = None\<rparr>"

text \<open>
  Lab 1 (PI student 1, member student 2) runs on node 1, which owns cold storage for the SMB node 2;
  lab 2 (member student 3) runs nowhere.
\<close>

definition W1 :: "fifo world" where
  "W1 = W0\<lparr>nodes := \<lparr>rows = [mk_node 1 ''n1'' True LocalZfs None, mk_node 2 ''n2'' True Smb (Some 1)], seq = 2\<rparr>,
     students := \<lparr>rows = [mk_student 1 ''pi'' 10000, mk_student 2 ''ana'' 10001, mk_student 3 ''bob'' 10002], seq = 3\<rparr>,
     labs := \<lparr>rows = [mk_lab 1 ''ai'' (Some 1), mk_lab 2 ''bio'' None], seq = 2\<rparr>,
     lab_members := \<lparr>rows = [mk_member 1 1 1, mk_member 2 1 2, mk_member 3 2 3], seq = 3\<rparr>,
     lab_placements := \<lparr>rows = [mk_placement 1 1 1 50000 PActive], seq = 1\<rparr>,
     placement_members := \<lparr>rows = [mk_pm 1 1 1 MActive None, mk_pm 2 1 2 MActive (Some ''pw'')], seq = 2\<rparr>\<rparr>"

lemmas sample_simps = mk_node_def mk_student_def mk_lab_def mk_member_def mk_placement_def mk_pm_def

lemma W1_schema [simp]: "schema_ok W1"
  by (simp add: W1_def W0_def schema_defs pk_ok_def sample_simps member_key_def pm_key_def place_key_def port_key_def
      List.map_filter_simps)

lemma W1_cold [simp]: "cold_ok W1"
  by (simp add: W1_def W0_def cold_ok_def sample_simps)

lemma W1_pi [simp]: "pi_member W1"
  by (simp add: W1_def W0_def pi_member_def is_member_def tbl_get_def sample_simps)

lemma W1_core [simp]: "core_ok W1"
  by (simp add: core_ok_def)

lemma W1_sync [simp]: "roster_sync (abs_roster W1)"
  by (auto simp: W1_def W0_def roster_sync_def abs_roster_def sample_simps member_key_def pm_key_def placed_key_def)

end
