(* ===== verification/Alerts.thy ===== *)
theory Alerts
  imports Settings
begin

text \<open>
  Admin alerting (src/controller/src/lib/alerts.ts): mail to every admin, at most once per key and
  dedup window, with the number of suppressed alerts carried to the next mail.
\<close>

text \<open>
  \<open>LEVELS[k]\<close> on an object literal also finds the properties of \<open>Object.prototype\<close>; such a value
  compares as NaN. \<open>None\<close> is undefined, \<open>Some None\<close> is NaN.
\<close>

definition LEVELS :: "(string \<times> nat) list" where
  "LEVELS = [(''DEBUG'', 10), (''INFO'', 20), (''WARN'', 30), (''ERROR'', 40)]"

definition PROTO_NAMES :: "string list" where
  "PROTO_NAMES = [''constructor'', ''__defineGetter__'', ''__defineSetter__'', ''hasOwnProperty'', ''__lookupGetter__'',
     ''__lookupSetter__'', ''isPrototypeOf'', ''propertyIsEnumerable'', ''toString'', ''valueOf'', ''__proto__'', ''toLocaleString'']"

definition level_num :: "string \<Rightarrow> nat option option" where
  "level_num k = (case map_of LEVELS k of Some n \<Rightarrow> Some (Some n)
     | None \<Rightarrow> if k \<in> set PROTO_NAMES then Some None else None)"

text \<open>\<open>(LEVELS[level] ?? 0) < threshold\<close>, where a comparison with NaN is false.\<close>

definition below_threshold :: "string \<Rightarrow> string \<Rightarrow> bool" where
  "below_threshold level alertLevel =
     (let threshold = (case level_num alertLevel of Some v \<Rightarrow> v | None \<Rightarrow> Some 40);
          l = (case level_num level of Some v \<Rightarrow> v | None \<Rightarrow> Some 0)
      in case (l, threshold) of (Some a, Some b) \<Rightarrow> a < b | _ \<Rightarrow> False)"

definition adminEmails :: "'h world \<Rightarrow> string list" where
  "adminEmails w = filter (\<lambda>e. e \<noteq> []) (map a_email (rows (admins w)))"

definition alertAdmins :: "'h ext \<Rightarrow> string \<Rightarrow> string \<Rightarrow> string \<Rightarrow> 'h world \<Rightarrow> 'h world" where
  "alertAdmins X key subject body w =
     (if \<not> setting_bool X ''alertsEnabled'' w then w
      else
        let now = clock w;
            windowMs = setting_num X ''alertDedupMinutes'' w * 60 * 1000
        in case map_of (alert_state w) key of
             Some (lastSent, suppressed) \<Rightarrow>
               if of_int (now - lastSent) < windowMs
               then w\<lparr>alert_state := AList.update key (lastSent, suppressed + 1) (alert_state w)\<rparr>
               else fold (\<lambda>to. send_mail (AdminAlertMail to subject body suppressed)) (adminEmails w)
                      (w\<lparr>alert_state := AList.update key (now, 0) (alert_state w)\<rparr>)
           | None \<Rightarrow> fold (\<lambda>to. send_mail (AdminAlertMail to subject body 0)) (adminEmails w)
                      (w\<lparr>alert_state := AList.update key (now, 0) (alert_state w)\<rparr>))"

definition dash :: "string option \<Rightarrow> string" where
  "dash x = (case x of None \<Rightarrow> ''-'' | Some s \<Rightarrow> s)"

definition maybeAlertOnLog ::
    "'h ext \<Rightarrow> string option \<Rightarrow> string \<Rightarrow> string option \<Rightarrow> string \<Rightarrow> string option \<Rightarrow> 'h world \<Rightarrow> 'h world" where
  "maybeAlertOnLog X node level source msg detail w =
     (if below_threshold level (setting_str X ''alertLevel'' w) then w
      else alertAdmins X (''log:'' @ dash node @ '':'' @ dash source @ '':'' @ level)
        (trim (''['' @ level @ ''] '' @ (case node of None \<Rightarrow> ''controller'' | Some n \<Rightarrow> n) @ '' '' @
           (case source of None \<Rightarrow> [] | Some s \<Rightarrow> s)))
        (msg @ (case detail of None \<Rightarrow> [] | Some d \<Rightarrow> if d = [] then [] else [CHR 0x0A, CHR 0x0A] @ d)) w)"

definition alertNodeOffline :: "'h ext \<Rightarrow> string \<Rightarrow> string option \<Rightarrow> 'h world \<Rightarrow> 'h world" where
  "alertNodeOffline X node label w =
     (let display = (case label of None \<Rightarrow> node
            | Some l \<Rightarrow> if l \<noteq> [] \<and> l \<noteq> node then l @ '' ('' @ node @ '')'' else node)
      in alertAdmins X (''node-offline:'' @ node) (''Node offline: '' @ display)
           (''Node '' @ display @ '' has been disconnected from the controller for longer than the grace window.'') w)"

definition alertTaskFailed :: "'h ext \<Rightarrow> string \<Rightarrow> string \<Rightarrow> string \<Rightarrow> 'h world \<Rightarrow> 'h world" where
  "alertTaskFailed X node action error w =
     alertAdmins X (''task-failed:'' @ node @ '':'' @ action) (''Task failed on '' @ node @ '': '' @ action)
       (''A '' @ action @ '' task failed on node '' @ node @ ''.'' @ [CHR 0x0A, CHR 0x0A] @ error) w"

section \<open>What alerting leaves unchanged\<close>

text \<open>Everything but the throttle map and the outbox.\<close>

definition mail_only :: "'h world \<Rightarrow> 'h world \<Rightarrow> bool" where
  "mail_only w' w \<longleftrightarrow> w'\<lparr>alert_state := alert_state w, gpu_mail_state := gpu_mail_state w, outbox := outbox w\<rparr> = w"

lemma mail_only_refl [simp]: "mail_only w w"
  by (simp add: mail_only_def)

lemma mail_onlyD:
  assumes "mail_only w' w"
  shows "admins w' = admins w" "settings w' = settings w" "nodes w' = nodes w" "students w' = students w" "labs w' = labs w"
    "lab_members w' = lab_members w" "lab_placements w' = lab_placements w" "placement_members w' = placement_members w"
    "storage_samples w' = storage_samples w" "task_log w' = task_log w" "logs w' = logs w" "hq w' = hq w"
    "clock w' = clock w" "draws w' = draws w" "gpu_events w' = gpu_events w"
  using assms unfolding mail_only_def by (metis (no_types, lifting) world.select_convs world.update_convs world.surjective)+

lemma mail_only_send: "mail_only (send_mail m w) w"
  by (simp add: mail_only_def send_mail_def)

lemma mail_only_trans: "mail_only u v \<Longrightarrow> mail_only v w \<Longrightarrow> mail_only u w"
  unfolding mail_only_def by (cases u, cases v, cases w) simp

lemma mail_only_fold: "mail_only (fold (\<lambda>to. send_mail (f to)) xs w) w"
proof (induction xs arbitrary: w)
  case (Cons x xs)
  have "mail_only (fold (\<lambda>to. send_mail (f to)) xs (send_mail (f x) w)) (send_mail (f x) w)" by (rule Cons)
  with mail_only_send show ?case by (auto intro: mail_only_trans)
qed simp

lemma outbox_fold_mail: "outbox (fold (\<lambda>to. send_mail (f to)) xs w) = outbox w @ map f xs"
  by (induction xs arbitrary: w) simp_all

lemma alert_state_fold_mail [simp]: "alert_state (fold (\<lambda>to. send_mail (f to)) xs w) = alert_state w"
  by (rule fold_frame) (simp add: send_mail_def)

lemma mail_only_alertAdmins: "mail_only (alertAdmins X k s b w) w"
proof -
  have "mail_only (w\<lparr>alert_state := a\<rparr>) w" for a by (simp add: mail_only_def)
  then show ?thesis using mail_only_fold mail_only_trans
    by (fastforce simp: alertAdmins_def Let_def split: option.splits)
qed

lemma mail_only_alerts:
  "mail_only (maybeAlertOnLog X on l s m d w) w" "mail_only (alertNodeOffline X n lb w) w" "mail_only (alertTaskFailed X n a e w) w"
  by (simp_all add: maybeAlertOnLog_def alertNodeOffline_def alertTaskFailed_def Let_def mail_only_alertAdmins)

section \<open>Throttling\<close>

text \<open>
  The life of one key within a dedup window: the first alert mails every admin, the following ones
  are only counted, and the first one after the window reports the count.
\<close>

fun repeat_alert :: "'h ext \<Rightarrow> string \<Rightarrow> string \<Rightarrow> string \<Rightarrow> int list \<Rightarrow> 'h world \<Rightarrow> 'h world" where
  "repeat_alert X key subject body [] w = w"
| "repeat_alert X key subject body (t # ts) w = repeat_alert X key subject body ts (alertAdmins X key subject body (w\<lparr>clock := t\<rparr>))"

lemma getSetting_frame: "settings w' = settings w \<Longrightarrow> getSetting X k w' = getSetting X k w"
  by (simp add: getSetting_def)

lemma setting_frame:
  assumes "settings w' = settings w"
  shows "setting_num X k w' = setting_num X k w" "setting_bool X k w' = setting_bool X k w" "setting_str X k w' = setting_str X k w"
    "setting_int X k w' = setting_int X k w"
  by (simp_all add: setting_num_def setting_bool_def setting_str_def setting_int_def getSetting_frame [OF assms])

lemma repeat_alert_suppressed:
  assumes "setting_bool X ''alertsEnabled'' w" "map_of (alert_state w) key = Some (t0, n)"
    "\<forall>t \<in> set ts. of_int (t - t0) < setting_num X ''alertDedupMinutes'' w * 60 * 1000"
  shows "outbox (repeat_alert X key s b ts w) = outbox w \<and>
     map_of (alert_state (repeat_alert X key s b ts w)) key = Some (t0, n + length ts) \<and>
     settings (repeat_alert X key s b ts w) = settings w \<and> admins (repeat_alert X key s b ts w) = admins w"
  using assms
proof (induction ts arbitrary: w n)
  case (Cons t ts)
  let ?w = "alertAdmins X key s b (w\<lparr>clock := t\<rparr>)"
  have set: "setting_bool X k (w\<lparr>clock := t\<rparr>) = setting_bool X k w" "setting_num X k (w\<lparr>clock := t\<rparr>) = setting_num X k w" for k
    by (rule setting_frame; simp)+
  have w: "?w = w\<lparr>clock := t, alert_state := AList.update key (t0, n + 1) (alert_state w)\<rparr>"
    using Cons.prems by (simp add: alertAdmins_def Let_def set)
  have "setting_bool X ''alertsEnabled'' ?w" "setting_num X ''alertDedupMinutes'' ?w = setting_num X ''alertDedupMinutes'' w"
    using Cons.prems(1) setting_frame(1,2) [of ?w w] w by simp_all
  with Cons.IH [of ?w "n + 1"] Cons.prems w show ?case by (simp add: update_conv')
qed simp

end
