(* ===== verification/Ingest.thy ===== *)
theory Ingest
  imports Placement_Facts Alerts
begin

text \<open>
  Ingestion of agent telemetry (src/controller/src/lib/ingest.ts): pool free space, the cold-storage
  mount, scrub status, storage samples with the quota alerts they trigger, usage-scan times, and the
  snapshot of GPU processes. A payload is an arbitrary JSON value; an access that JavaScript or the
  SQLite driver refuses ends the call with \<open>JsTypeError\<close>, and what was written before stays.

  A percentage is computed on rationals. A quota that is neither null nor a finite number ends the
  call: the driver refuses booleans and objects, strings and infinities are outside the model.
\<close>

section \<open>JSON access\<close>

text \<open>\<open>v.k ?? None\<close>; \<open>v.k\<close> on null throws, which the callers test first.\<close>

definition jget_nn :: "string \<Rightarrow> json \<Rightarrow> json option" where
  "jget_nn k v = (case jget k v of Some JNull \<Rightarrow> None | x \<Rightarrow> x)"

definition truthy_opt :: "json option \<Rightarrow> bool" where
  "truthy_opt v = (case v of None \<Rightarrow> False | Some j \<Rightarrow> truthy j)"

text \<open>\<open>for (const x of v ?? [])\<close>: \<open>None\<close> when the value is not iterable.\<close>

definition js_iter :: "json option \<Rightarrow> json list option" where
  "js_iter v = (case v of
      None \<Rightarrow> Some []
    | Some (JArr xs) \<Rightarrow> Some xs
    | Some (JStr s) \<Rightarrow> Some (map (\<lambda>c. JStr [c]) s)
    | _ \<Rightarrow> None)"

text \<open>\<open>`${v}`\<close>.\<close>

fun js_string :: "'h ext \<Rightarrow> json option \<Rightarrow> string" where
  "js_string X None = ''undefined''"
| "js_string X (Some (JStr s)) = s"
| "js_string X (Some JNull) = ''null''"
| "js_string X (Some (JBool b)) = (if b then ''true'' else ''false'')"
| "js_string X (Some (JNum r)) = json_stringify X (JNum r)"
| "js_string X (Some (JInf b)) = (if b then ''Infinity'' else ''-Infinity'')"
| "js_string X (Some (JObj kvs)) = ''[object Object]''"
| "js_string X (Some (JArr vs)) =
     join '','' (map (\<lambda>v. if v = JNull then [] else js_string X (Some v)) vs)"

text \<open>What the driver binds; booleans, arrays and objects make it throw.\<close>

fun bindable :: "json option \<Rightarrow> bool" where
  "bindable (Some (JBool b)) = False"
| "bindable (Some (JArr xs)) = False"
| "bindable (Some (JObj kvs)) = False"
| "bindable v = True"

definition fail :: "error \<Rightarrow> ('a, 'h) op" where
  "fail e w = (Inl e, w)"

definition upd_node :: "string \<Rightarrow> (node_row \<Rightarrow> node_row) \<Rightarrow> 'h world \<Rightarrow> 'h world" where
  "upd_node name f w = w\<lparr>nodes := tbl_update (\<lambda>n. n_name n = name) f (nodes w)\<rparr>"

section \<open>Quota alerts\<close>

definition STORAGE_SAMPLE_MIN_INTERVAL_MS :: int where
  "STORAGE_SAMPLE_MIN_INTERVAL_MS = 5 * 60 * 1000"

definition QUOTA_ALERT_DEDUP_MS :: int where
  "QUOTA_ALERT_DEDUP_MS = 6 * 60 * 60 * 1000"

definition STUDENT_QUOTA_ALERT_DEDUP_MS :: int where
  "STUDENT_QUOTA_ALERT_DEDUP_MS = 24 * 60 * 60 * 1000"

text \<open>\<open>Math.round\<close>: halves go up.\<close>

definition math_round :: "rat \<Rightarrow> int" where
  "math_round x = \<lfloor>x + 1 / 2\<rfloor>"

text \<open>The newest of the given times lies within the window before \<open>now\<close>.\<close>

definition recent_within :: "int \<Rightarrow> int \<Rightarrow> int list \<Rightarrow> bool" where
  "recent_within now window ts = (ts \<noteq> [] \<and> now - Max (set ts) < window)"

definition active_admin_emails :: "'h world \<Rightarrow> string list" where
  "active_admin_emails w = map a_email (tbl_all a_is_active (admins w))"

definition maybeStudentQuotaAlert ::
    "'h ext \<Rightarrow> nat \<Rightarrow> nat \<Rightarrow> nat \<Rightarrow> string \<Rightarrow> string \<Rightarrow> rat \<Rightarrow> rat \<Rightarrow> int \<Rightarrow> 'h world \<Rightarrow> 'h world" where
  "maybeStudentQuotaAlert X placementId labId studentId node pool used quota now w =
     (if \<not> setting_bool X ''studentQuotaAlertsEnabled'' w then w
      else let pct = math_round (used / quota * 100) in
      if of_int pct \<le> setting_num X ''studentQuotaAlertPct'' w then w
      else if recent_within now STUDENT_QUOTA_ALERT_DEDUP_MS
          (map sqa_ts (tbl_all (\<lambda>r. sqa_placement_id r = placementId \<and> sqa_student_id r = studentId \<and> sqa_pool r = pool)
             (student_quota_alerts w))) then w
      else case (lab_by_id labId w, node_by_name node w, student_by_id studentId w) of
        (Some l, Some n, Some s) \<Rightarrow>
          (case s_email s of
             None \<Rightarrow> w
           | Some email \<Rightarrow>
               if email = [] then w
               else
                 let w = w\<lparr>student_quota_alerts := tbl_insert (\<lambda>i. \<lparr>sqa_id = i, sqa_placement_id = placementId,
                           sqa_student_id = studentId, sqa_pool = pool, sqa_pct = pct, sqa_ts = now\<rparr>) (student_quota_alerts w)\<rparr>;
                     info = (\<lambda>to. StudentQuotaMail to (or_else (case s_name s of None \<Rightarrow> [] | Some x \<Rightarrow> x) (s_username s))
                        (s_username s) (l_name l) (or_else (alias_trim (n_alias n)) node) pool pct used quota);
                     w = send_mail (info email) w
                 in if setting_bool X ''studentQuotaNotifyAdmins'' w
                    then fold (\<lambda>to. send_mail (info to)) (active_admin_emails w) w else w)
      | _ \<Rightarrow> w)"

text \<open>
  Per student of the placement and pool, the usage of its newest sample (of one of them, when several
  carry the same time), largest first.
\<close>

definition usage_breakdown :: "nat \<Rightarrow> string \<Rightarrow> 'h world \<Rightarrow> (string \<times> rat) list" where
  "usage_breakdown placementId pool w =
     (let ss = tbl_all (\<lambda>r. sm_placement_id r = Some placementId \<and> sm_pool r = pool \<and> sm_student_id r \<noteq> None) (storage_samples w);
          newest = (\<lambda>s. filter (\<lambda>r. sm_student_id r = Some (s_id s) \<and>
             (\<forall>q \<in> set ss. sm_student_id q = Some (s_id s) \<longrightarrow> sm_ts q \<le> sm_ts r)) ss)
      in sort_key (\<lambda>e. - snd e) (List.map_filter
           (\<lambda>s. case newest s of [] \<Rightarrow> None | r # _ \<Rightarrow> Some (s_username s, sm_used_bytes r)) (rows (students w))))"

definition maybeQuotaAlert ::
    "'h ext \<Rightarrow> nat \<Rightarrow> nat \<Rightarrow> string \<Rightarrow> rat \<Rightarrow> rat \<Rightarrow> int \<Rightarrow> 'h world \<Rightarrow> 'h world" where
  "maybeQuotaAlert X placementId labId pool used quota now w =
     (let pct = math_round (used / quota * 100) in
      if of_int pct < setting_num X ''quotaAlertPct'' w then w
      else if recent_within now QUOTA_ALERT_DEDUP_MS
          (map qa_ts (tbl_all (\<lambda>r. qa_placement_id r = Some placementId \<and> qa_pool r = pool) (quota_alerts w))) then w
      else case lab_by_id labId w of
        None \<Rightarrow> w
      | Some l \<Rightarrow>
          let w = w\<lparr>quota_alerts := tbl_insert (\<lambda>i. \<lparr>qa_id = i, qa_placement_id = Some placementId, qa_lab_id = Some labId,
                    qa_pool = pool, qa_pct = pct, qa_ts = now\<rparr>) (quota_alerts w)\<rparr>
          in case l_pi_email l of
               None \<Rightarrow> w
             | Some email \<Rightarrow>
                 if email = [] then w
                 else send_mail (QuotaMail email (l_name l) pool pct used quota (usage_breakdown placementId pool w)) w)"

section \<open>Storage samples\<close>

definition placementByLabNode :: "string \<Rightarrow> string \<Rightarrow> 'h world \<Rightarrow> placement_row option" where
  "placementByLabNode labName node w = map_option pl_row (getPlacementByLabNode labName node w)"

definition studentIdInLab :: "nat \<Rightarrow> string \<Rightarrow> 'h world \<Rightarrow> nat option" where
  "studentIdInLab labId username w =
     map_option s_id (List.find (\<lambda>s. s_username s = username)
       (List.map_filter (\<lambda>m. student_by_id (m_student_id m) w) (tbl_all (\<lambda>m. m_lab_id m = labId) (lab_members w))))"

definition shouldSample :: "nat \<Rightarrow> nat option \<Rightarrow> string \<Rightarrow> rat \<Rightarrow> int \<Rightarrow> bool \<Rightarrow> 'h world \<Rightarrow> bool" where
  "shouldSample placementId studentId pool used now scanDerived w =
     (case rev (tbl_all (\<lambda>r. sm_placement_id r = Some placementId \<and> sm_student_id r = studentId \<and> sm_pool r = pool)
         (storage_samples w)) of
        [] \<Rightarrow> True
      | row # _ \<Rightarrow> STORAGE_SAMPLE_MIN_INTERVAL_MS \<le> now - sm_ts row \<or> (scanDerived \<and> sm_used_bytes row \<noteq> used))"

definition TIERS :: "string list" where
  "TIERS = [''fast'', ''cold'', ''rootfs'']"

text \<open>\<open>ds.user ? studentIdInLab(...) : null\<close>: the student, and whether a user was named.\<close>

definition sample_user :: "json \<Rightarrow> nat \<Rightarrow> 'h world \<Rightarrow> error + nat option" where
  "sample_user ds labId w =
     (let user = jget ''user'' ds in
      if \<not> truthy_opt user then Inr None
      else if \<not> bindable user then Inl JsTypeError
      else Inr (case user of Some (JStr u) \<Rightarrow> studentIdInLab labId u w | _ \<Rightarrow> None))"

definition num_or_null :: "json option \<Rightarrow> error + rat option" where
  "num_or_null v = (case v of None \<Rightarrow> Inr None | Some (JNum r) \<Rightarrow> Inr (Some r) | _ \<Rightarrow> Inl JsTypeError)"

definition int_quota :: "int option \<Rightarrow> rat option" where
  "int_quota q = map_option of_int q"

definition first_some :: "'a option \<Rightarrow> 'a option \<Rightarrow> 'a option" where
  "first_some a b = (case a of None \<Rightarrow> b | Some x \<Rightarrow> Some x)"

definition assigned_user_quota :: "string \<Rightarrow> rat option \<Rightarrow> placement_row \<Rightarrow> rat option" where
  "assigned_user_quota tier quota ref =
     (if tier = ''fast'' then first_some quota (first_some (int_quota (p_student_fast_quota_bytes ref)) (Some (of_int (p_fast_quota_bytes ref))))
      else if tier = ''cold'' then first_some quota (first_some (int_quota (p_student_cold_quota_bytes ref)) (int_quota (p_cold_quota_bytes ref)))
      else None)"

definition insert_sample :: "placement_row \<Rightarrow> nat option \<Rightarrow> string \<Rightarrow> rat \<Rightarrow> rat option \<Rightarrow> int \<Rightarrow> 'h world \<Rightarrow> 'h world" where
  "insert_sample ref studentId tier used quota now w =
     w\<lparr>storage_samples := tbl_insert (\<lambda>i. \<lparr>sm_id = i, sm_placement_id = Some (p_id ref), sm_lab_id = Some (p_lab_id ref),
        sm_student_id = studentId, sm_pool = tier, sm_used_bytes = used, sm_quota_bytes = quota, sm_ts = now\<rparr>) (storage_samples w)\<rparr>"

definition sample_alerts ::
    "'h ext \<Rightarrow> string \<Rightarrow> bool \<Rightarrow> placement_row \<Rightarrow> nat option \<Rightarrow> string \<Rightarrow> rat \<Rightarrow> rat option \<Rightarrow> int \<Rightarrow> 'h world \<Rightarrow> 'h world" where
  "sample_alerts X node named ref studentId tier used quota now w =
     (let w = (case (studentId, assigned_user_quota tier quota ref) of
            (Some sid, Some q) \<Rightarrow> if q \<noteq> 0 then maybeStudentQuotaAlert X (p_id ref) (p_lab_id ref) sid node tier used q now w else w
          | _ \<Rightarrow> w)
      in case quota of
           Some q \<Rightarrow> if \<not> named \<and> q \<noteq> 0 \<and> tier \<noteq> ''rootfs'' then maybeQuotaAlert X (p_id ref) (p_lab_id ref) tier used q now w else w
         | None \<Rightarrow> w)"

definition ingest_storage :: "'h ext \<Rightarrow> string \<Rightarrow> int \<Rightarrow> json \<Rightarrow> (unit, 'h) op" where
  "ingest_storage X node now ds w =
     (case (jstr (jget ''lab'' ds), jstr (jget ''tier'' ds), jnum (jget ''used_bytes'' ds)) of
        (Some lab, Some tier, Some used) \<Rightarrow>
          if tier \<notin> set TIERS then (Inr (), w)
          else (case placementByLabNode lab node w of
            None \<Rightarrow> (Inr (), w)
          | Some ref \<Rightarrow>
              (case sample_user ds (p_lab_id ref) w of
                 Inl e \<Rightarrow> (Inl e, w)
               | Inr studentId \<Rightarrow>
                   let named = truthy_opt (jget ''user'' ds);
                       scanDerived = (tier = ''rootfs'' \<or> jget ''user'' ds \<noteq> Some JNull)
                   in if named \<and> studentId = None then (Inr (), w)
                   else if \<not> shouldSample (p_id ref) studentId tier used now scanDerived w then (Inr (), w)
                   else (case num_or_null (jget_nn ''quota_bytes'' ds) of
                       Inl e \<Rightarrow> (Inl e, w)
                     | Inr quota \<Rightarrow> (Inr (), sample_alerts X node named ref studentId tier used quota now
                         (insert_sample ref studentId tier used quota now w)))))
      | _ \<Rightarrow> (Inr (), w))"

section \<open>Cold storage, scrub, scans, GPU\<close>

definition ingestColdStorage :: "string \<Rightarrow> json option \<Rightarrow> 'h world \<Rightarrow> 'h world" where
  "ingestColdStorage node cold w =
     (let store = (\<lambda>c. upd_node node (\<lambda>n. n\<lparr>n_cold_mount_path := map_option (take 512) (jstr (jget ''mount_path'' c)),
            n_cold_ready := (jget ''ready'' c = Some (JBool True))\<rparr>) w)
      in case cold of Some (JObj kvs) \<Rightarrow> store (JObj kvs) | Some (JArr xs) \<Rightarrow> store (JArr xs) | _ \<Rightarrow> w)"

text \<open>\<open>p.healthy\<close> throws on null; the entries are tested before.\<close>

definition isBadScrub :: "json \<Rightarrow> bool" where
  "isBadScrub p = (jget ''healthy'' p = Some (JBool False) \<or>
     (case jget ''errors'' p of Some (JNum r) \<Rightarrow> r \<noteq> 0 | Some (JInf b) \<Rightarrow> True | _ \<Rightarrow> False))"

text \<open>Membership in a \<open>Set\<close>: values of the primitive types by value, arrays and objects by identity.\<close>

definition primitive :: "json option \<Rightarrow> bool" where
  "primitive v = (case v of Some (JArr xs) \<Rightarrow> False | Some (JObj kvs) \<Rightarrow> False | _ \<Rightarrow> True)"

definition prev_scrub :: "node_row option \<Rightarrow> error + json list" where
  "prev_scrub row =
     (case row of
        None \<Rightarrow> Inr []
      | Some n \<Rightarrow> (case n_scrub_status n of
            None \<Rightarrow> Inr []
          | Some t \<Rightarrow> (case json_parse t of None \<Rightarrow> Inr [] | Some (JArr ps) \<Rightarrow> Inr ps | Some v \<Rightarrow> Inl JsTypeError)))"

definition insert_log :: "log_row \<Rightarrow> 'h world \<Rightarrow> 'h world" where
  "insert_log r w = w\<lparr>logs := tbl_insert (\<lambda>i. r\<lparr>lg_id := i\<rparr>) (logs w)\<rparr>"

definition or_mark :: "'h ext \<Rightarrow> json option \<Rightarrow> string \<Rightarrow> string" where
  "or_mark X v mark = (case v of None \<Rightarrow> mark | Some j \<Rightarrow> js_string X (Some j))"

definition scrub_alert :: "'h ext \<Rightarrow> string \<Rightarrow> int \<Rightarrow> json option set \<Rightarrow> json \<Rightarrow> (unit, 'h) op" where
  "scrub_alert X node now prevBad p w =
     (if p = JNull then (Inl JsTypeError, w)
      else if \<not> isBadScrub p \<or> (primitive (jget ''pool'' p) \<and> jget ''pool'' p \<in> prevBad) then (Inr (), w)
      else
        let msg = ''ZFS scrub on '' @ node @ '': pool '' @ [CHR 0x27] @ js_string X (jget ''pool'' p) @ [CHR 0x27] @ '' reports errors'';
            d = jget_nn ''detail'' p;
            detail = (case d of Some j \<Rightarrow> js_string X (Some j)
              | None \<Rightarrow> ''state='' @ or_mark X (jget_nn ''state'' p) ''?'' @ ''; errors='' @ or_mark X (jget_nn ''errors'' p) ''?'' @
                  ''; scan='' @ or_mark X (jget_nn ''last_scrub'' p) ''n/a'')
        in if \<not> bindable d then (Inl JsTypeError, w)
           else (Inr (), alertAdmins X (''scrub:'' @ node @ '':'' @ js_string X (jget ''pool'' p)) (''ZFS scrub errors on '' @ node)
             (msg @ [CHR 0x0A, CHR 0x0A] @ detail)
             (insert_log \<lparr>lg_id = 0, lg_ts = of_int now, lg_node = Some node, lg_level = ''ERROR'', lg_source = Some ''scrub'',
                lg_lab = None, lg_user = None, lg_task_id = None, lg_msg = msg, lg_detail = Some detail\<rparr> w)))"

definition ingestScrub :: "'h ext \<Rightarrow> string \<Rightarrow> int \<Rightarrow> json option \<Rightarrow> (unit, 'h) op" where
  "ingestScrub X node now scrub w =
     (case scrub of
        Some (JArr entries) \<Rightarrow>
          (case prev_scrub (node_by_name node w) of
             Inl e \<Rightarrow> (Inl e, w)
           | Inr prev \<Rightarrow>
               if JNull \<in> set prev then (Inl JsTypeError, w)
               else
                 let prevBad = jget ''pool'' ` set (filter isBadScrub prev);
                     w = upd_node node (\<lambda>n. n\<lparr>n_scrub_status := Some (json_text (JArr entries))\<rparr>) w
                 in each (scrub_alert X node now prevBad) entries w)
      | _ \<Rightarrow> (Inr (), w))"

definition scan_update :: "nat \<Rightarrow> rat \<Rightarrow> 'h world \<Rightarrow> 'h world" where
  "scan_update i t w = w\<lparr>lab_placements := tbl_update
     (\<lambda>p. p_id p = i \<and> (case p_usage_scanned_at p of None \<Rightarrow> True | Some s \<Rightarrow> s < t))
     (\<lambda>p. p\<lparr>p_usage_scanned_at := Some t\<rparr>) (lab_placements w)\<rparr>"

definition ingest_scan :: "string \<Rightarrow> json \<Rightarrow> (unit, 'h) op" where
  "ingest_scan node u w =
     (if u = JNull then (Inl JsTypeError, w)
      else if \<not> truthy_opt (jget ''lab'' u) then (Inr (), w)
      else case jnum (jget ''scanned_at'' u) of
        None \<Rightarrow> (Inr (), w)
      | Some t \<Rightarrow>
          if \<not> bindable (jget ''lab'' u) then (Inl JsTypeError, w)
          else (case (case jstr (jget ''lab'' u) of None \<Rightarrow> None | Some lab \<Rightarrow> placementByLabNode lab node w) of
            None \<Rightarrow> (Inr (), w)
          | Some ref \<Rightarrow> (Inr (), scan_update (p_id ref) t w)))"

text \<open>One row of the snapshot; \<open>Number.isFinite\<close> holds of numbers only.\<close>

definition gpu_row :: "string \<Rightarrow> int \<Rightarrow> json \<Rightarrow> 'h world \<Rightarrow> error + gpu_snapshot_row" where
  "gpu_row node now p w =
     (if p = JNull then Inl JsTypeError
      else
        let labName = jstr (jget ''lab'' p);
            placementId = (case labName of None \<Rightarrow> None | Some l \<Rightarrow> map_option p_id (placementByLabNode l node w))
        in if \<not> list_all (\<lambda>k. bindable (jget k p)) [''pid'', ''user'', ''vram_bytes'', ''util''] then Inl JsTypeError
           else case jget_nn ''pid'' p of
             None \<Rightarrow> Inl (SqliteConstraint ''NOT NULL gpu_snapshot.pid'')
           | Some pid \<Rightarrow> Inr \<lparr>gs_node = node, gs_pid = pid, gs_user = jget_nn ''user'' p, gs_lab = labName,
               gs_vram_bytes = jget_nn ''vram_bytes'' p, gs_util = jget_nn ''util'' p, gs_ts = now, gs_placement_id = placementId,
               gs_cmd = map_option (take 200) (jstr (jget ''cmd'' p)), gs_started_at = jnum (jget ''started_at'' p)\<rparr>)"

definition gpu_insert :: "string \<Rightarrow> int \<Rightarrow> json \<Rightarrow> (unit, 'h) op" where
  "gpu_insert node now p w =
     (case gpu_row node now p w of
        Inl e \<Rightarrow> (Inl e, w)
      | Inr r \<Rightarrow> (Inr (), w\<lparr>gpu_snapshot := filter (\<lambda>x. \<not> (gs_node x = gs_node r \<and> gs_pid x = gs_pid r)) (gpu_snapshot w) @ [r]\<rparr>))"

text \<open>The transaction: an error rolls the snapshot back.\<close>

definition ingest_gpu :: "string \<Rightarrow> int \<Rightarrow> json list \<Rightarrow> (unit, 'h) op" where
  "ingest_gpu node now gpu w =
     (case each (gpu_insert node now) gpu (w\<lparr>gpu_snapshot := filter (\<lambda>r. gs_node r \<noteq> node) (gpu_snapshot w)\<rparr>) of
        (Inl e, _) \<Rightarrow> (Inl e, w) | (Inr _, w') \<Rightarrow> (Inr (), w'))"

definition iterate :: "(json \<Rightarrow> (unit, 'h) op) \<Rightarrow> json option \<Rightarrow> (unit, 'h) op" where
  "iterate f v w = (case js_iter v of None \<Rightarrow> (Inl JsTypeError, w) | Some xs \<Rightarrow> each f xs w)"

definition ingestTelemetry :: "'h ext \<Rightarrow> string \<Rightarrow> json \<Rightarrow> (unit, 'h) op" where
  "ingestTelemetry X node payload w =
     (let now = clock w;
          pools = (case jget_nn ''pools'' payload of None \<Rightarrow> JArr [] | Some v \<Rightarrow> v);
          w = upd_node node (\<lambda>n. n\<lparr>n_pools := Some (json_text pools), n_last_seen := Some now\<rparr>) w;
          w = ingestColdStorage node (jget ''cold'' payload) w
      in and_then (ingestScrub X node now (jget ''scrub'' payload) w) (\<lambda>_ w.
         and_then (iterate (ingest_storage X node now) (jget_nn ''storage'' payload) w) (\<lambda>_ w.
         and_then (iterate (ingest_scan node) (jget_nn ''usage_scans'' payload) w) (\<lambda>_ w.
           (case js_iter (jget_nn ''gpu_processes'' payload) of
              None \<Rightarrow> (Inl JsTypeError, w) | Some gpu \<Rightarrow> ingest_gpu node now gpu w)))))"

end
