(* ===== verification/RateLimit.thy ===== *)
theory RateLimit
  imports Prelude
begin

text \<open>
  Token buckets: the per-key limiter of the unauthenticated endpoints
  (src/controller/src/lib/ratelimit.ts) and the per-socket limiter of the hub (createHub in
  src/controller/src/lib/hub.ts). The doubles of the source are rationals here. The contract is one
  locale: over any period the number of admissions is at most the tokens at its start plus what the
  period refills, and a bucket with a token admits.
\<close>

section \<open>The contract\<close>

text \<open>
  \<open>level s t\<close> is the tokens at time \<open>t\<close> (ms), \<open>call t s\<close> asks for one, \<open>other e t s\<close> is unrelated
  traffic, and \<open>room n s\<close> says that \<open>n\<close> more events fit without evicting the bucket.
\<close>

datatype 'e event = Mine int | Other 'e int

fun event_time :: "'e event \<Rightarrow> int" where
  "event_time (Mine t) = t"
| "event_time (Other e t) = t"

locale token_bucket =
  fixes level :: "'s \<Rightarrow> int \<Rightarrow> rat" and call :: "int \<Rightarrow> 's \<Rightarrow> bool \<times> 's" and other :: "'e \<Rightarrow> int \<Rightarrow> 's \<Rightarrow> 's"
    and room :: "nat \<Rightarrow> 's \<Rightarrow> bool" and rate :: rat and burst :: rat
  assumes level_burst: "level s t \<le> burst"
    and level_grow: "t \<le> t' \<Longrightarrow> level s t' \<le> level s t + rate * of_int (t' - t) / 1000"
    and call_admit: "room (Suc n) s \<Longrightarrow> 1 \<le> level s t \<Longrightarrow> \<exists>s'. call t s = (True, s') \<and> level s' t = level s t - 1 \<and> room n s'"
    and call_reject: "room (Suc n) s \<Longrightarrow> level s t < 1 \<Longrightarrow> \<exists>s'. call t s = (False, s') \<and> level s' t = level s t \<and> room n s'"
    and other_level: "room (Suc n) s \<Longrightarrow> level (other e t s) t = level s t \<and> room n (other e t s)"
begin

fun admitted :: "'e event list \<Rightarrow> 's \<Rightarrow> nat" where
  "admitted [] s = 0"
| "admitted (Mine t # es) s = (case call t s of (b, s') \<Rightarrow> (if b then 1 else 0) + admitted es s')"
| "admitted (Other e t # es) s = admitted es (other e t s)"

lemma admitted_bound:
  assumes "room (length es) s" "sorted (t0 # map event_time es)" "\<forall>e \<in> set es. event_time e \<le> t1" "0 \<le> rate" "t0 \<le> t1"
  shows "of_nat (admitted es s) \<le> max 0 (level s t0) + rate * of_int (t1 - t0) / 1000"
  using assms
proof (induction es arbitrary: s t0)
  case Nil
  then show ?case by simp
next
  case (Cons e es)
  let ?t = "event_time e"
  have t: "t0 \<le> ?t" "?t \<le> t1" "sorted (?t # map event_time es)" "room (Suc (length es)) s" using Cons.prems by auto
  have grow: "level s ?t \<le> level s t0 + rate * of_int (?t - t0) / 1000" using level_grow t(1) by blast
  have nn: "0 \<le> rate * of_int (?t - t0) / 1000" using t(1) Cons.prems(4) by simp
  have sum: "rate * of_int (?t - t0) / 1000 + rate * of_int (t1 - ?t) / 1000 = rate * of_int (t1 - t0) / 1000"
    by (simp add: field_simps)
  have IH: "of_nat (admitted es s') \<le> max 0 (level s' ?t) + rate * of_int (t1 - ?t) / 1000" if "room (length es) s'" for s'
    using Cons.IH [OF that t(3)] Cons.prems t(2) by auto
  show ?case
  proof (cases e)
    case (Mine u)
    show ?thesis
    proof (cases "1 \<le> level s u")
      case True
      then obtain s' where s': "call u s = (True, s')" "level s' u = level s u - 1" "room (length es) s'"
        using call_admit [OF t(4)] by blast
      with IH [of s'] True grow sum Mine show ?thesis by simp
    next
      case False
      then obtain s' where s': "call u s = (False, s')" "level s' u = level s u" "room (length es) s'"
        using call_reject [OF t(4)] by force
      with IH [of s'] grow sum Mine nn show ?thesis by simp
    qed
  next
    case (Other x u)
    have "level (other x u s) u = level s u" "room (length es) (other x u s)"
      using other_level [OF t(4), of x u] by simp_all
    with IH [of "other x u s"] Other grow sum nn show ?thesis by simp
  qed
qed

lemma call_iff: "room (Suc n) s \<Longrightarrow> fst (call t s) \<longleftrightarrow> 1 \<le> level s t"
  using call_admit call_reject by (metis fst_conv not_le)

end

section \<open>One bucket\<close>

text \<open>A bucket is its tokens and the time of its last refill.\<close>

definition refilled :: "rat \<Rightarrow> rat \<Rightarrow> rat \<times> int \<Rightarrow> int \<Rightarrow> rat" where
  "refilled rate burst b now = min burst (fst b + of_int (now - snd b) / 1000 * rate)"

definition spend :: "rat \<Rightarrow> rat \<Rightarrow> int \<Rightarrow> rat \<times> int \<Rightarrow> bool \<times> (rat \<times> int)" where
  "spend rate burst now b =
     (let tokens = refilled rate burst b now in
      if tokens < 1 then (False, (tokens, now)) else (True, (tokens - 1, now)))"

definition MSG_RATE_PER_SEC :: rat where
  "MSG_RATE_PER_SEC = 50"

definition MSG_BURST :: rat where
  "MSG_BURST = 100"

text \<open>The first lines of the hub's message handler, and the state of a fresh socket.\<close>

definition socket_bucket :: "int \<Rightarrow> rat \<times> int" where
  "socket_bucket now = (MSG_BURST, now)"

definition socket_spend :: "int \<Rightarrow> rat \<times> int \<Rightarrow> bool \<times> (rat \<times> int)" where
  "socket_spend now b = spend MSG_RATE_PER_SEC MSG_BURST now b"

lemma refilled_grow:
  assumes "0 \<le> rate" "t \<le> t'" shows "refilled rate burst b t' \<le> refilled rate burst b t + rate * of_int (t' - t) / 1000"
proof -
  have "of_int (t' - snd b) / 1000 * rate = of_int (t - snd b) / 1000 * rate + rate * of_int (t' - t) / 1000"
    by (simp add: field_simps)
  moreover have "0 \<le> rate * of_int (t' - t) / 1000" using assms by simp
  ultimately show ?thesis unfolding refilled_def by linarith
qed

lemma refilled_now: "x \<le> burst \<Longrightarrow> refilled rate burst (x, t) t = x"
  by (simp add: refilled_def)

interpretation socket: token_bucket "refilled MSG_RATE_PER_SEC MSG_BURST" socket_spend
  "\<lambda>(e :: unit) t s. s" "\<lambda>n s. True" MSG_RATE_PER_SEC MSG_BURST
proof
  fix s t t' :: "_" and n :: nat and e :: unit
  show "refilled MSG_RATE_PER_SEC MSG_BURST s t \<le> MSG_BURST" by (simp add: refilled_def)
  show "t \<le> t' \<Longrightarrow> refilled MSG_RATE_PER_SEC MSG_BURST s t' \<le> refilled MSG_RATE_PER_SEC MSG_BURST s t + MSG_RATE_PER_SEC * of_int (t' - t) / 1000"
    by (rule refilled_grow) (simp_all add: MSG_RATE_PER_SEC_def)
  show "1 \<le> refilled MSG_RATE_PER_SEC MSG_BURST s t \<Longrightarrow> \<exists>s'. socket_spend t s = (True, s') \<and>
      refilled MSG_RATE_PER_SEC MSG_BURST s' t = refilled MSG_RATE_PER_SEC MSG_BURST s t - 1 \<and> True"
    by (auto simp: socket_spend_def spend_def Let_def refilled_now refilled_def)
  show "refilled MSG_RATE_PER_SEC MSG_BURST s t < 1 \<Longrightarrow> \<exists>s'. socket_spend t s = (False, s') \<and>
      refilled MSG_RATE_PER_SEC MSG_BURST s' t = refilled MSG_RATE_PER_SEC MSG_BURST s t \<and> True"
    by (auto simp: socket_spend_def spend_def Let_def refilled_now refilled_def)
qed simp

section \<open>Buckets by key\<close>

record rate_limit_options =
  ratePerSec :: rat
  rl_burst :: rat

definition AUTH_LIMIT :: rate_limit_options where
  "AUTH_LIMIT = \<lparr>ratePerSec = 1 / 12, rl_burst = 5\<rparr>"

definition MAX_BUCKETS :: nat where
  "MAX_BUCKETS = 10000"

definition IDLE_MS :: int where
  "IDLE_MS = 60 * 60 * 1000"

text \<open>A JavaScript Map keeps insertion order; \<open>set\<close> on a present key keeps its place.\<close>

type_synonym buckets = "(string \<times> rat \<times> int) list"

definition prune :: "int \<Rightarrow> buckets \<Rightarrow> buckets" where
  "prune now bs =
     (if length bs \<le> MAX_BUCKETS then bs
      else let kept = filter (\<lambda>(k, b). \<not> now - snd b > IDLE_MS) bs
           in drop (length kept - MAX_BUCKETS) kept)"

definition consume :: "string \<Rightarrow> rate_limit_options \<Rightarrow> int \<Rightarrow> buckets \<Rightarrow> bool \<times> buckets" where
  "consume key opts now bs =
     (let bs = prune now bs;
          b = (case map_of bs key of Some b \<Rightarrow> b | None \<Rightarrow> (rl_burst opts, now));
          (ok, b') = spend (ratePerSec opts) (rl_burst opts) now b
      in (ok, AList.update key b' bs))"

definition key_level :: "string \<Rightarrow> buckets \<Rightarrow> int \<Rightarrow> rat" where
  "key_level key bs t =
     (case map_of bs key of
        Some b \<Rightarrow> refilled (ratePerSec AUTH_LIMIT) (rl_burst AUTH_LIMIT) b t
      | None \<Rightarrow> rl_burst AUTH_LIMIT)"

definition key_room :: "nat \<Rightarrow> buckets \<Rightarrow> bool" where
  "key_room n bs \<longleftrightarrow> length bs + n \<le> Suc MAX_BUCKETS"

lemma prune_roomy: "key_room (Suc n) bs \<Longrightarrow> prune now bs = bs"
  by (simp add: key_room_def prune_def)

lemma key_room_update: "key_room (Suc n) bs \<Longrightarrow> key_room n (AList.update k v bs)"
  using length_update_le [of k v bs] by (simp add: key_room_def)

lemma consume_snd: "\<exists>v. snd (consume key opts now bs) = AList.update key v (prune now bs)"
  by (auto simp: consume_def Let_def split: prod.splits)

lemma key_level_None: "map_of bs key = None \<Longrightarrow> key_level key bs t = refilled (ratePerSec AUTH_LIMIT) (rl_burst AUTH_LIMIT) (rl_burst AUTH_LIMIT, t) t"
  by (simp add: key_level_def refilled_def)

interpretation auth_key: token_bucket "key_level key" "consume key AUTH_LIMIT"
  "\<lambda>e t bs. if e = key then bs else snd (consume e AUTH_LIMIT t bs)" key_room "ratePerSec AUTH_LIMIT" "rl_burst AUTH_LIMIT" for key
proof
  fix s :: buckets and t t' :: int and n :: nat and e :: string
  let ?b = "case map_of s key of Some b \<Rightarrow> b | None \<Rightarrow> (rl_burst AUTH_LIMIT, t)"
  have lev: "key_level key s t = refilled (ratePerSec AUTH_LIMIT) (rl_burst AUTH_LIMIT) ?b t"
    by (simp add: key_level_def refilled_def split: option.splits)
  have upd: "key_level key (AList.update key (x, t) s) t = x" if "x \<le> rl_burst AUTH_LIMIT" for x
    using that by (simp add: key_level_def update_conv' refilled_now)
  show "key_level key s t \<le> rl_burst AUTH_LIMIT" by (simp add: key_level_def refilled_def split: option.splits)
  show "t \<le> t' \<Longrightarrow> key_level key s t' \<le> key_level key s t + ratePerSec AUTH_LIMIT * of_int (t' - t) / 1000"
    using refilled_grow [of "ratePerSec AUTH_LIMIT" t t' "rl_burst AUTH_LIMIT"]
    by (auto simp: key_level_def AUTH_LIMIT_def split: option.splits)
  have spent: "consume key AUTH_LIMIT t s = (if key_level key s t < 1 then (False, AList.update key (key_level key s t, t) s)
      else (True, AList.update key (key_level key s t - 1, t) s))" if "key_room (Suc n) s"
    by (simp add: consume_def prune_roomy [OF that] spend_def Let_def lev)
  have bound: "key_level key s t \<le> rl_burst AUTH_LIMIT" by (simp add: lev refilled_def)
  show "\<exists>s'. consume key AUTH_LIMIT t s = (True, s') \<and> key_level key s' t = key_level key s t - 1 \<and> key_room n s'"
    if "key_room (Suc n) s" "1 \<le> key_level key s t"
    using spent [OF that(1)] that bound by (simp add: upd key_room_update)
  show "\<exists>s'. consume key AUTH_LIMIT t s = (False, s') \<and> key_level key s' t = key_level key s t \<and> key_room n s'"
    if "key_room (Suc n) s" "key_level key s t < 1"
    using spent [OF that(1)] that bound by (simp add: upd key_room_update)
  show "key_level key (if e = key then s else snd (consume e AUTH_LIMIT t s)) t = key_level key s t \<and>
      key_room n (if e = key then s else snd (consume e AUTH_LIMIT t s))" if "key_room (Suc n) s"
  proof (cases "e = key")
    case True
    with that show ?thesis by (simp add: key_room_def)
  next
    case False
    from that have "prune t s = s" by (rule prune_roomy)
    then obtain v where "snd (consume e AUTH_LIMIT t s) = AList.update e v s"
      using consume_snd [of e AUTH_LIMIT t s] by auto
    with False that show ?thesis by (simp add: key_level_def update_conv' key_room_update)
  qed
qed

text \<open>Memory stays bounded whatever keys are asked for.\<close>

lemma prune_bounded: "length (prune now bs) \<le> MAX_BUCKETS"
  by (auto simp: prune_def Let_def)

lemma consume_bounded: "length (snd (consume key opts now bs)) \<le> Suc MAX_BUCKETS"
proof -
  obtain v where "snd (consume key opts now bs) = AList.update key v (prune now bs)"
    using consume_snd by blast
  then show ?thesis using length_update_le [of key v "prune now bs"] prune_bounded [of now bs] by simp
qed

section \<open>Runs\<close>

text \<open>
  How many of the messages that arrive at the given times a socket lets through, and how many of the
  attempts in a mixed sequence of (key, time) the login limiter lets through for one key.
\<close>

fun socket_admitted :: "int list \<Rightarrow> rat \<times> int \<Rightarrow> nat" where
  "socket_admitted [] b = 0"
| "socket_admitted (t # ts) b = (case socket_spend t b of (ok, b') \<Rightarrow> (if ok then 1 else 0) + socket_admitted ts b')"

fun auth_admitted :: "string \<Rightarrow> (string \<times> int) list \<Rightarrow> buckets \<Rightarrow> nat" where
  "auth_admitted key [] bs = 0"
| "auth_admitted key ((k, t) # es) bs =
     (case consume k AUTH_LIMIT t bs of (ok, bs') \<Rightarrow> (if ok \<and> k = key then 1 else 0) + auth_admitted key es bs')"

lemma socket_admitted_eq: "socket_admitted ts b = socket.admitted (map Mine ts) b"
  by (induction ts arbitrary: b) (simp_all split: prod.splits)

lemma auth_admitted_eq:
  "auth_admitted key es bs = auth_key.admitted key (map (\<lambda>(k, t). if k = key then Mine t else Other k t) es) bs"
proof (induction es arbitrary: bs)
  case (Cons e es)
  obtain k t where "e = (k, t)" by fastforce
  with Cons show ?case by (cases "k = key") (simp_all split: prod.splits)
qed simp

lemma socket_admitted_bound:
  assumes "sorted (t0 # ts)" "\<forall>t \<in> set ts. t \<le> t1" "t0 \<le> t1"
  shows "of_nat (socket_admitted ts (socket_bucket t0)) \<le> MSG_BURST + MSG_RATE_PER_SEC * of_int (t1 - t0) / 1000"
proof -
  have "refilled MSG_RATE_PER_SEC MSG_BURST (socket_bucket t0) t0 = MSG_BURST"
    by (simp add: socket_bucket_def refilled_now)
  moreover have "of_nat (socket.admitted (map Mine ts) (socket_bucket t0)) \<le>
      max 0 (refilled MSG_RATE_PER_SEC MSG_BURST (socket_bucket t0) t0) + MSG_RATE_PER_SEC * of_int (t1 - t0) / 1000"
    by (rule socket.admitted_bound) (use assms in \<open>simp_all add: o_def MSG_RATE_PER_SEC_def\<close>)
  ultimately show ?thesis by (simp add: socket_admitted_eq MSG_BURST_def)
qed

lemma auth_admitted_bound:
  assumes "sorted (t0 # map snd es)" "\<forall>e \<in> set es. snd e \<le> t1" "t0 \<le> t1" "length bs + length es \<le> Suc MAX_BUCKETS"
  shows "of_nat (auth_admitted key es bs) \<le> rl_burst AUTH_LIMIT + ratePerSec AUTH_LIMIT * of_int (t1 - t0) / 1000"
proof -
  let ?es = "map (\<lambda>(k, t). if k = key then Mine t else Other k t) es"
  have t: "map event_time ?es = map snd es" by (induction es) auto
  have "of_nat (auth_key.admitted key ?es bs) \<le> max 0 (key_level key bs t0) + ratePerSec AUTH_LIMIT * of_int (t1 - t0) / 1000"
  proof (rule auth_key.admitted_bound)
    show "key_room (length ?es) bs" using assms(4) by (simp add: key_room_def)
    show "sorted (t0 # map event_time ?es)" unfolding t by (rule assms(1))
    show "\<forall>e \<in> set ?es. event_time e \<le> t1" using assms(2) by auto
  qed (use assms(3) in \<open>simp_all add: AUTH_LIMIT_def\<close>)
  moreover have "max 0 (key_level key bs t0) \<le> rl_burst AUTH_LIMIT"
    using auth_key.level_burst [of key bs t0] by (simp add: AUTH_LIMIT_def)
  ultimately show ?thesis unfolding auth_admitted_eq by (rule order_trans [OF _ add_right_mono])
qed

end
