(* ===== verification/Protocol.thy ===== *)
theory Protocol
  imports Json
begin

text \<open>
  The wire protocol (src/controller/src/lib/protocol.ts): the schema of every frame an agent may
  send, as a validator on JSON values, and the version check. A schema is a test on the optional
  value of a field; a frame keeps the fields its schema names, so unknown keys are stripped.
\<close>

definition PROTOCOL_VERSION :: int where
  "PROTOCOL_VERSION = 2"

section \<open>Field schemas\<close>

text \<open>\<open>z.string().min(lo).max(hi)\<close>, \<open>z.number().finite()\<close>, \<open>z.boolean()\<close>, \<open>z.record(z.string(), z.unknown())\<close>.\<close>

definition z_string :: "nat \<Rightarrow> nat \<Rightarrow> json option \<Rightarrow> bool" where
  "z_string lo hi v = (case v of Some (JStr s) \<Rightarrow> lo \<le> length s \<and> length s \<le> hi | _ \<Rightarrow> False)"

definition z_finite :: "json option \<Rightarrow> bool" where
  "z_finite v = (case v of Some (JNum r) \<Rightarrow> True | _ \<Rightarrow> False)"

definition z_bool :: "json option \<Rightarrow> bool" where
  "z_bool v = (case v of Some (JBool b) \<Rightarrow> True | _ \<Rightarrow> False)"

definition z_record :: "json option \<Rightarrow> bool" where
  "z_record v = (case v of Some (JObj kvs) \<Rightarrow> True | _ \<Rightarrow> False)"

text \<open>\<open>z.number().int().nonnegative()\<close>: an integer in the safe range.\<close>

definition z_nat :: "json option \<Rightarrow> bool" where
  "z_nat v = (case jint v of Some n \<Rightarrow> 0 \<le> n \<and> n \<le> 2 ^ 53 - 1 | None \<Rightarrow> False)"

definition optional :: "(json option \<Rightarrow> bool) \<Rightarrow> json option \<Rightarrow> bool" where
  "optional z v = (v = None \<or> z v)"

definition nullish :: "(json option \<Rightarrow> bool) \<Rightarrow> json option \<Rightarrow> bool" where
  "nullish z v = (v = None \<or> v = Some JNull \<or> z v)"

section \<open>Frames\<close>

text \<open>A validated frame: an absent or null field is \<open>None\<close>.\<close>

record result_frame =
  rf_id :: string
  rf_ok :: bool
  rf_result :: "json option"
  rf_error :: "string option"
  rf_logs :: "string option"
  rf_cached :: bool

record log_frame =
  lf_level :: "string option"
  lf_source :: "string option"
  lf_lab :: "string option"
  lf_user :: "string option"
  lf_task_id :: "string option"
  lf_msg :: "string option"
  lf_detail :: "string option"
  lf_ts :: "rat option"

datatype inbound =
    HelloFrame string string "int option" "json option"
  | ResultFrame result_frame
  | ReceiptFrame string
  | LogFrame log_frame
  | EventFrame string "json option" "rat option"
  | TelemetryFrame "json option"

definition fstr :: "string \<Rightarrow> json \<Rightarrow> string" where
  "fstr k j = (case jget k j of Some (JStr s) \<Rightarrow> s | _ \<Rightarrow> [])"

definition z_ts :: "json \<Rightarrow> bool" where
  "z_ts j = optional z_finite (jget ''ts'' j)"

definition z_hello :: "json \<Rightarrow> bool" where
  "z_hello j \<longleftrightarrow> optional z_nat (jget ''v'' j) \<and> z_string 1 63 (jget ''node'' j) \<and> z_string 1 512 (jget ''token'' j) \<and>
     optional z_record (jget ''capabilities'' j) \<and> z_ts j"

definition z_result :: "json \<Rightarrow> bool" where
  "z_result j \<longleftrightarrow> z_string 1 64 (jget ''id'' j) \<and> z_bool (jget ''ok'' j) \<and> nullish (z_string 0 20000) (jget ''error'' j) \<and>
     nullish (z_string 0 20000) (jget ''logs'' j) \<and> optional z_bool (jget ''cached'' j) \<and> z_ts j"

definition z_receipt :: "json \<Rightarrow> bool" where
  "z_receipt j \<longleftrightarrow> z_string 1 64 (jget ''id'' j) \<and> z_ts j"

definition z_log :: "json \<Rightarrow> bool" where
  "z_log j \<longleftrightarrow> optional (z_string 0 16) (jget ''level'' j) \<and> nullish (z_string 0 64) (jget ''source'' j) \<and>
     nullish (z_string 0 64) (jget ''lab'' j) \<and> nullish (z_string 0 64) (jget ''user'' j) \<and>
     nullish (z_string 0 64) (jget ''task_id'' j) \<and> optional (z_string 0 20000) (jget ''msg'' j) \<and>
     nullish (z_string 0 20000) (jget ''detail'' j) \<and> z_ts j"

definition z_event :: "json \<Rightarrow> bool" where
  "z_event j \<longleftrightarrow> z_string 0 32 (jget ''kind'' j) \<and> optional z_record (jget ''payload'' j) \<and> z_ts j"

definition z_telemetry :: "json \<Rightarrow> bool" where
  "z_telemetry j \<longleftrightarrow> optional z_record (jget ''payload'' j) \<and> z_ts j"

definition parseInboundFrame :: "json \<Rightarrow> inbound option" where
  "parseInboundFrame j =
     (case jstr (jget ''type'' j) of
        None \<Rightarrow> None
      | Some t \<Rightarrow>
          if t = ''hello'' then
            (if z_hello j then Some (HelloFrame (fstr ''node'' j) (fstr ''token'' j) (jint (jget ''v'' j)) (jget ''capabilities'' j)) else None)
          else if t = ''result'' then
            (if z_result j then Some (ResultFrame \<lparr>rf_id = fstr ''id'' j, rf_ok = (jget ''ok'' j = Some (JBool True)),
               rf_result = jget ''result'' j, rf_error = jstr (jget ''error'' j), rf_logs = jstr (jget ''logs'' j),
               rf_cached = (jget ''cached'' j = Some (JBool True))\<rparr>) else None)
          else if t = ''receipt'' then (if z_receipt j then Some (ReceiptFrame (fstr ''id'' j)) else None)
          else if t = ''log'' then
            (if z_log j then Some (LogFrame \<lparr>lf_level = jstr (jget ''level'' j), lf_source = jstr (jget ''source'' j),
               lf_lab = jstr (jget ''lab'' j), lf_user = jstr (jget ''user'' j), lf_task_id = jstr (jget ''task_id'' j),
               lf_msg = jstr (jget ''msg'' j), lf_detail = jstr (jget ''detail'' j), lf_ts = jnum (jget ''ts'' j)\<rparr>) else None)
          else if t = ''event'' then
            (if z_event j then Some (EventFrame (fstr ''kind'' j) (jget ''payload'' j) (jnum (jget ''ts'' j))) else None)
          else if t = ''telemetry'' then (if z_telemetry j then Some (TelemetryFrame (jget ''payload'' j)) else None)
          else None)"

definition isProtocolCompatible :: "int option \<Rightarrow> bool" where
  "isProtocolCompatible v = ((case v of Some n \<Rightarrow> n | None \<Rightarrow> 0) = PROTOCOL_VERSION)"

section \<open>Bounds of an accepted frame\<close>

fun inbound_bounded :: "inbound \<Rightarrow> bool" where
  "inbound_bounded (HelloFrame node token v caps) \<longleftrightarrow>
     1 \<le> length node \<and> length node \<le> 63 \<and> 1 \<le> length token \<and> length token \<le> 512 \<and> (\<forall>n. v = Some n \<longrightarrow> 0 \<le> n)"
| "inbound_bounded (ResultFrame r) \<longleftrightarrow> 1 \<le> length (rf_id r) \<and> length (rf_id r) \<le> 64 \<and>
     (\<forall>e. rf_error r = Some e \<longrightarrow> length e \<le> 20000) \<and> (\<forall>l. rf_logs r = Some l \<longrightarrow> length l \<le> 20000)"
| "inbound_bounded (ReceiptFrame i) \<longleftrightarrow> 1 \<le> length i \<and> length i \<le> 64"
| "inbound_bounded (LogFrame l) \<longleftrightarrow> (\<forall>x. lf_level l = Some x \<longrightarrow> length x \<le> 16) \<and> (\<forall>x. lf_source l = Some x \<longrightarrow> length x \<le> 64) \<and>
     (\<forall>x. lf_lab l = Some x \<longrightarrow> length x \<le> 64) \<and> (\<forall>x. lf_user l = Some x \<longrightarrow> length x \<le> 64) \<and>
     (\<forall>x. lf_task_id l = Some x \<longrightarrow> length x \<le> 64) \<and> (\<forall>x. lf_msg l = Some x \<longrightarrow> length x \<le> 20000) \<and>
     (\<forall>x. lf_detail l = Some x \<longrightarrow> length x \<le> 20000)"
| "inbound_bounded (EventFrame k p t) \<longleftrightarrow> length k \<le> 32"
| "inbound_bounded (TelemetryFrame p) \<longleftrightarrow> True"

lemma z_stringD: "z_string lo hi (jget k j) \<Longrightarrow> lo \<le> length (fstr k j) \<and> length (fstr k j) \<le> hi"
  by (auto simp: z_string_def fstr_def split: option.splits json.splits)

lemma z_string_jstr:
  "optional (z_string lo hi) v \<Longrightarrow> jstr v = Some x \<Longrightarrow> length x \<le> hi"
  "nullish (z_string lo hi) v \<Longrightarrow> jstr v = Some x \<Longrightarrow> length x \<le> hi"
  by (auto simp: optional_def nullish_def z_string_def split: option.splits json.splits)

lemma z_nat_jint: "optional z_nat v \<Longrightarrow> jint v = Some n \<Longrightarrow> 0 \<le> n"
  by (auto simp: optional_def z_nat_def)

lemma parseInboundFrame_bounded: "parseInboundFrame j = Some f \<Longrightarrow> inbound_bounded f"
  by (auto simp: parseInboundFrame_def z_hello_def z_result_def z_receipt_def z_log_def z_event_def z_telemetry_def
      split: option.splits if_splits dest: z_stringD z_string_jstr z_nat_jint)

end
