(* ===== verification/Hub.thy ===== *)
theory Hub
  imports Ingest RateLimit Protocol
begin

text \<open>
  The WebSocket hub (src/controller/src/lib/hub.ts): the sockets of the agents, the map of registered
  connections, the pending offline alerts, the handlers of every event (message, pong, close, error,
  consumer tick, liveness sweep, timers) and the persistence of result, log, event and telemetry
  frames. A handler runs to its end without yielding; the two mail deliveries that it starts and does
  not wait for are jobs, completed by an event of their own.

  A consumer timer exists exactly while its connection is registered, so it has no state of its own. A
  handler that lets an exception escape returns it: nothing catches it, and the process ends.
\<close>

section \<open>State\<close>

text \<open>\<open>Closing\<close>: \<open>close\<close> or \<open>terminate\<close> was called and the close event is still to come; frames may still arrive.\<close>

datatype ready_state = Open | Closing | Closed

record sock =
  sk_ready :: ready_state
  sk_node :: "string option"
  sk_bucket :: "rat \<times> int"
  sk_hello_timer :: bool
  sk_sent :: "json list"
  sk_close :: "(nat \<times> string) option"

record node_conn =
  cn_sock :: nat
  cn_tokenHash :: string
  cn_isAlive :: bool

text \<open>A delivery in flight: the row to settle, and node, lab and user for the log of a failure.\<close>

datatype job = CredentialJob nat string string string | CompletionJob nat string string

record 'h hub =
  hb_world :: "'h world"
  hb_socks :: "sock list"
  connections :: "(string \<times> node_conn) list"
  pendingOfflineAlerts :: "(string \<times> rat) list"
  hb_jobs :: "job list"

type_synonym ('a, 'h) hub_op = "'h hub \<Rightarrow> (error, 'a, 'h hub) res"

definition upd_world :: "('h world \<Rightarrow> 'h world) \<Rightarrow> 'h hub \<Rightarrow> 'h hub" where
  "upd_world f h = h\<lparr>hb_world := f (hb_world h)\<rparr>"

definition upd_sock :: "nat \<Rightarrow> (sock \<Rightarrow> sock) \<Rightarrow> 'h hub \<Rightarrow> 'h hub" where
  "upd_sock i f h = (if i < length (hb_socks h) then h\<lparr>hb_socks := (hb_socks h)[i := f (hb_socks h ! i)]\<rparr> else h)"

definition socket_ready :: "nat \<Rightarrow> 'h hub \<Rightarrow> ready_state" where
  "socket_ready i h = (if i < length (hb_socks h) then sk_ready (hb_socks h ! i) else Closed)"

definition socket_node :: "nat \<Rightarrow> 'h hub \<Rightarrow> string option" where
  "socket_node i h = (if i < length (hb_socks h) then sk_node (hb_socks h ! i) else None)"

text \<open>\<open>ws.close(code, reason)\<close>: no effect on a socket that is closing or closed.\<close>

definition ws_close :: "nat \<Rightarrow> nat \<Rightarrow> string \<Rightarrow> 'h hub \<Rightarrow> 'h hub" where
  "ws_close i code reason h =
     upd_sock i (\<lambda>s. if sk_ready s = Open then s\<lparr>sk_ready := Closing, sk_close := Some (code, reason)\<rparr> else s) h"

definition ws_terminate :: "nat \<Rightarrow> 'h hub \<Rightarrow> 'h hub" where
  "ws_terminate i h = upd_sock i (\<lambda>s. if sk_ready s = Open then s\<lparr>sk_ready := Closing\<rparr> else s) h"

definition ws_send :: "nat \<Rightarrow> json \<Rightarrow> 'h hub \<Rightarrow> 'h hub" where
  "ws_send i frame h = upd_sock i (\<lambda>s. s\<lparr>sk_sent := sk_sent s @ [frame]\<rparr>) h"

definition conn_of :: "string \<Rightarrow> 'h hub \<Rightarrow> node_conn option" where
  "conn_of node h = map_of (connections h) node"

definition connectedNodes :: "'h hub \<Rightarrow> string list" where
  "connectedNodes h = map fst (connections h)"

definition sendToNode :: "string \<Rightarrow> json \<Rightarrow> 'h hub \<Rightarrow> bool \<times> 'h hub" where
  "sendToNode node frame h =
     (case conn_of node h of
        None \<Rightarrow> (False, h)
      | Some c \<Rightarrow> if socket_ready (cn_sock c) h \<noteq> Open then (False, h) else (True, ws_send (cn_sock c) frame h))"

section \<open>Registry of nodes\<close>

definition cancelOfflineAlert :: "string \<Rightarrow> 'h hub \<Rightarrow> 'h hub" where
  "cancelOfflineAlert node h = h\<lparr>pendingOfflineAlerts := AList.delete node (pendingOfflineAlerts h)\<rparr>"

definition register_row :: "string \<Rightarrow> json \<Rightarrow> 'h world \<Rightarrow> 'h world" where
  "register_row node capabilities w =
     (let now = clock w in
      case node_by_name node w of
        None \<Rightarrow> w\<lparr>nodes := tbl_insert (\<lambda>i. \<lparr>n_id = i, n_name = node, n_last_seen = Some now,
            n_online = True, n_capabilities = Some (json_text capabilities), n_pools = None, n_created_at = now,
            n_last_scrub = None, n_scrub_status = None, n_token_hash = None,
            n_allowed = False, n_alias = None, n_cold_backend = LocalZfs,
            n_cold_owner_node_id = None, n_cold_mount_path = None, n_cold_ready = False\<rparr>) (nodes w)\<rparr>
      | Some _ \<Rightarrow> upd_node node (\<lambda>n. n\<lparr>n_last_seen := Some now, n_online := True, n_capabilities := Some (json_text capabilities)\<rparr>) w)"

definition registerNode :: "string \<Rightarrow> json \<Rightarrow> 'h hub \<Rightarrow> 'h hub" where
  "registerNode node capabilities h = upd_world (register_row node capabilities) (cancelOfflineAlert node h)"

text \<open>The callback of the offline timer.\<close>

definition offline_fire :: "'h ext \<Rightarrow> string \<Rightarrow> 'h hub \<Rightarrow> 'h hub" where
  "offline_fire X node h =
     (let h = h\<lparr>pendingOfflineAlerts := AList.delete node (pendingOfflineAlerts h)\<rparr> in
      if conn_of node h \<noteq> None then h
      else case node_by_name node (hb_world h) of
        None \<Rightarrow> h
      | Some row \<Rightarrow> if n_online row then h else upd_world (alertNodeOffline X node (n_alias row)) h)"

definition deregisterNode :: "'h ext \<Rightarrow> string \<Rightarrow> 'h hub \<Rightarrow> 'h hub" where
  "deregisterNode X node h =
     (let h = h\<lparr>connections := AList.delete node (connections h)\<rparr>;
          h = upd_world (\<lambda>w. upd_node node (\<lambda>n. n\<lparr>n_online := False, n_last_seen := Some (clock w)\<rparr>) w) h;
          h = cancelOfflineAlert node h;
          graceMs = max 0 (setting_num X ''nodeOfflineGraceSeconds'' (hb_world h)) * 1000
      in if graceMs = 0 then offline_fire X node h
         else h\<lparr>pendingOfflineAlerts := AList.update node (of_int (clock (hb_world h)) + graceMs) (pendingOfflineAlerts h)\<rparr>)"

section \<open>Hello\<close>

text \<open>The new value of the socket's \<open>node\<close>.\<close>

definition handleHello :: "'h ext \<Rightarrow> nat \<Rightarrow> string \<Rightarrow> string \<Rightarrow> int option \<Rightarrow> json option \<Rightarrow> 'h hub \<Rightarrow> string option \<times> 'h hub" where
  "handleHello X i node token v capabilities h =
     (case verifyNodeAuth X node token (hb_world h) of
        AuthFail reason \<Rightarrow> (None, ws_close i 4001 reason h)
      | AuthOk tokenHash \<Rightarrow>
          if \<not> isProtocolCompatible v
          then (None, ws_close i 4009 ''incompatible protocol version (need v2); upgrade the agent'' h)
          else
            let existing = conn_of node h in
            if (case existing of None \<Rightarrow> False | Some c \<Rightarrow> socket_ready (cn_sock c) h = Open)
            then (None, ws_close i 4003 ''node already connected'' h)
            else
              let h = (case existing of None \<Rightarrow> h | Some c \<Rightarrow> ws_close (cn_sock c) 1005 [] h);
                  h = registerNode node (case capabilities of None \<Rightarrow> JObj [] | Some c \<Rightarrow> c) h
              in (Some node, h\<lparr>connections := AList.update node
                    \<lparr>cn_sock = i, cn_tokenHash = tokenHash, cn_isAlive = True\<rparr> (connections h)\<rparr>))"

section \<open>The consumer\<close>

definition WORKER_PREFIX :: string where
  "WORKER_PREFIX = ''controller-hub''"

definition worker_id :: "string \<Rightarrow> string" where
  "worker_id node = WORKER_PREFIX @ ''-'' @ node"

text \<open>\<open>sends f\<close>: whether \<open>ws.send\<close> of the frame returned. A frame without an id matches no row.\<close>

definition mark_sent :: "string \<Rightarrow> json \<Rightarrow> 'h world \<Rightarrow> 'h world" where
  "mark_sent node frame w =
     (case jstr (jget ''id'' frame) of
        None \<Rightarrow> w
      | Some u \<Rightarrow> bumpAttempts node u (snd (markTaskState node u TSent None None False w)))"

fun drain_loop :: "'h ext \<Rightarrow> (json \<Rightarrow> bool) \<Rightarrow> string \<Rightarrow> nat \<Rightarrow> nat \<Rightarrow> (unit, 'h) hub_op" where
  "drain_loop X sends node i 0 h = (Inr (), h)"
| "drain_loop X sends node i (Suc n) h =
     (case claimTask X node (worker_id node) (hb_world h) of
        (Inl e, w) \<Rightarrow> (Inl e, h\<lparr>hb_world := w\<rparr>)
      | (Inr None, w) \<Rightarrow> (Inr (), h\<lparr>hb_world := w\<rparr>)
      | (Inr (Some (jobId, frame)), w) \<Rightarrow>
          if sends frame
          then drain_loop X sends node i n
            (ws_send i frame (h\<lparr>hb_world := mark_sent node frame (ackTask X node jobId (worker_id node) w)\<rparr>))
          else (Inr (), h\<lparr>hb_world := retryTask X node jobId (worker_id node) ''send failed'' w\<rparr>))"

definition drainNode :: "'h ext \<Rightarrow> (json \<Rightarrow> bool) \<Rightarrow> string \<Rightarrow> nat \<Rightarrow> (unit, 'h) hub_op" where
  "drainNode X sends node i h =
     (if socket_ready i h \<noteq> Open then (Inr (), h)
      else case conn_of node h of
        None \<Rightarrow> (Inr (), h)
      | Some c \<Rightarrow>
          if cn_sock c \<noteq> i then (Inr (), h)
          else if \<not> nodeStillAuthorized node (cn_tokenHash c) (hb_world h)
          then (Inr (), deregisterNode X node (ws_close i 4001 ''revoked'' h))
          else drain_loop X sends node i 20 h)"

end
