(* ===== verification/Hub_Frames.thy ===== *)
theory Hub_Frames
  imports Hub
begin

text \<open>
  The persistence of the frames of an authenticated agent, and the events of the hub as one step
  relation (src/controller/src/lib/hub.ts, from safeParams to the end, and the listeners installed by
  createHub).
\<close>

section \<open>Results\<close>

text \<open>The parameters of a task row are an object in every row that \<open>enqueueTask\<close> writes.\<close>

definition safeParams :: "jtext option \<Rightarrow> json" where
  "safeParams params =
     (case params of None \<Rightarrow> JObj [] | Some t \<Rightarrow> (case json_parse t of None \<Rightarrow> JObj [] | Some j \<Rightarrow> j))"

definition nullish_json :: "json option \<Rightarrow> json option" where
  "nullish_json v = (case v of Some JNull \<Rightarrow> None | x \<Rightarrow> x)"

definition frame_lab :: "result_frame \<Rightarrow> json \<Rightarrow> json option" where
  "frame_lab frame params =
     (case (case rf_result frame of None \<Rightarrow> None | Some r \<Rightarrow> jget_nn ''lab'' r) of
        Some l \<Rightarrow> Some l | None \<Rightarrow> jget ''lab'' params)"

definition set_capabilities :: "string \<Rightarrow> json \<Rightarrow> 'h world \<Rightarrow> 'h world" where
  "set_capabilities node caps w =
     upd_node node (\<lambda>n. n\<lparr>n_capabilities := Some (json_text caps), n_last_seen := Some (clock w)\<rparr>) w"

text \<open>The two deliveries that a finished account starts, each up to the call of the mailer.\<close>

definition start_deliveries :: "'h ext \<Rightarrow> string \<Rightarrow> string \<Rightarrow> string \<Rightarrow> 'h hub \<Rightarrow> 'h hub" where
  "start_deliveries X lab node user h =
     (let (a, w) = deliver_begin X lab node user (hb_world h);
          (b, w) = completion_begin lab node w
      in h\<lparr>hb_world := w, hb_jobs := hb_jobs h
           @ (case a of None \<Rightarrow> [] | Some i \<Rightarrow> [CredentialJob i node lab user])
           @ (case b of None \<Rightarrow> [] | Some i \<Rightarrow> [CompletionJob i node lab])\<rparr>)"

definition error_or :: "string \<Rightarrow> result_frame \<Rightarrow> string option" where
  "error_or dflt frame = (if rf_ok frame then None else Some (case rf_error frame of Some e \<Rightarrow> e | None \<Rightarrow> dflt))"

text \<open>
  The branches on the task's action, for a lab that the driver can bind: a number is bound as a number
  and equals no lab name.
\<close>

definition lab_result :: "'h ext \<Rightarrow> string \<Rightarrow> task_row \<Rightarrow> json \<Rightarrow> result_frame \<Rightarrow> string \<Rightarrow> 'h hub \<Rightarrow> 'h hub" where
  "lab_result X node t params frame lab h =
     (let user = str_field ''username'' params in
      if t_action t = ''lab.create'' then
        upd_world (markPlacementStateByLabNode lab node (if rf_ok frame then PActive else PFailed) (error_or ''lab.create failed'' frame)) h
      else if t_action t = ''lab.destroy'' then
        (if rf_ok frame then upd_world (confirmPlacementDestroyed lab node) h
         else upd_world (markPlacementStateByLabNode lab node PDeleting (error_or ''lab.destroy failed'' frame)) h)
      else if user \<noteq> [] \<and> t_action t = ''student.add'' then
        (let h = upd_world (markPlacementMemberState lab node user (if rf_ok frame then MActive else MFailed)
               (error_or ''student.add failed'' frame)) h
         in if rf_ok frame then start_deliveries X lab node user h else h)
      else h)"

definition lab_actions :: "string list" where
  "lab_actions = [''lab.create'', ''lab.destroy'', ''student.add'']"

definition result_lifecycle :: "'h ext \<Rightarrow> string \<Rightarrow> task_row \<Rightarrow> result_frame \<Rightarrow> (unit, 'h) hub_op" where
  "result_lifecycle X node t frame h =
     (let params = safeParams (t_params t);
          lab = frame_lab frame params;
          health = (case rf_result frame of None \<Rightarrow> None | Some r \<Rightarrow> jget ''health'' r);
          user = str_field ''username'' params
      in if rf_ok frame \<and> t_action t = ''node.check'' \<and> truthy_opt (rf_result frame)
         then (Inr (), upd_world (set_capabilities node (the (rf_result frame))) h)
         else if rf_ok frame \<and> t_action t = ''node.repair'' \<and> truthy_opt health
         then (Inr (), upd_world (set_capabilities node (the health)) h)
         else if \<not> truthy_opt lab then (Inr (), h)
         else if t_action t \<in> set lab_actions \<and> (t_action t = ''student.add'' \<longrightarrow> user \<noteq> []) then
           (case lab of
              Some (JStr l) \<Rightarrow> (Inr (), lab_result X node t params frame l h)
            | l \<Rightarrow> if bindable l then (Inr (), h) else (Inl JsTypeError, h))
         else if user \<noteq> [] \<and> t_action t = ''student.remove'' \<and> rf_ok frame
         then (Inr (), upd_world (completeStudentRemoval X (rf_id frame)) h)
         else (Inr (), h))"

definition result_log :: "result_frame \<Rightarrow> 'h world \<Rightarrow> 'h world" where
  "result_log frame w =
     (case rf_logs frame of
        None \<Rightarrow> w
      | Some l \<Rightarrow> if l = [] then w else insert_log \<lparr>lg_id = 0, lg_ts = of_int (clock w), lg_node = None,
          lg_level = (if rf_ok frame then ''INFO'' else ''ERROR''), lg_source = Some ''task'', lg_lab = None, lg_user = None,
          lg_task_id = Some (rf_id frame), lg_msg = (if rf_ok frame then ''task ok'' else ''task failed''), lg_detail = Some l\<rparr> w)"

definition handleResult :: "'h ext \<Rightarrow> string \<Rightarrow> result_frame \<Rightarrow> (unit, 'h) hub_op" where
  "handleResult X node frame h =
     (let (changed, w) = markTaskState node (rf_id frame) (if rf_ok frame then TOk else TFailed) (rf_result frame)
            (if rf_ok frame then None else rf_error frame) (rf_cached frame) (hb_world h);
          h = h\<lparr>hb_world := w\<rparr>
      in if \<not> changed then (Inr (), h)
         else case getTask (rf_id frame) w of
           None \<Rightarrow> (Inr (), upd_world (result_log frame) h)
         | Some t \<Rightarrow>
             let h = (if rf_ok frame then h
                else upd_world (alertTaskFailed X (t_node t) (t_action t)
                       (case rf_error frame of Some e \<Rightarrow> e | None \<Rightarrow> ''unknown error'')) h)
             in and_then (result_lifecycle X node t frame h) (\<lambda>_ h. (Inr (), upd_world (result_log frame) h)))"

section \<open>Logs\<close>

definition boundedStr :: "json option \<Rightarrow> nat \<Rightarrow> string option" where
  "boundedStr v mx = (case v of
      Some (JStr s) \<Rightarrow> nonblank (take mx (filter (\<lambda>c. 32 \<le> code_unit c \<and> code_unit c \<noteq> 127) s))
    | _ \<Rightarrow> None)"

text \<open>\<open>Math.trunc\<close>.\<close>

definition intOrNull :: "json option \<Rightarrow> int option" where
  "intOrNull v = map_option (\<lambda>r. if 0 \<le> r then \<lfloor>r\<rfloor> else \<lceil>r\<rceil>) (jnum v)"

definition clampText :: "string option \<Rightarrow> nat \<Rightarrow> string option" where
  "clampText v mx = map_option (take mx) v"

definition handleLog :: "'h ext \<Rightarrow> string \<Rightarrow> log_frame \<Rightarrow> 'h world \<Rightarrow> 'h world" where
  "handleLog X node frame w =
     (let lvl = (case lf_level frame of Some l \<Rightarrow> l | None \<Rightarrow> ''INFO'');
          b = (\<lambda>v. boundedStr (map_option JStr v));
          w = insert_log \<lparr>lg_id = 0, lg_ts = (case lf_ts frame of Some t \<Rightarrow> t | None \<Rightarrow> of_int (clock w)), lg_node = Some node,
            lg_level = lvl, lg_source = b (lf_source frame) 32, lg_lab = b (lf_lab frame) 40, lg_user = b (lf_user frame) 32,
            lg_task_id = b (lf_task_id frame) 64, lg_msg = (case clampText (lf_msg frame) 2000 of Some m \<Rightarrow> m | None \<Rightarrow> []),
            lg_detail = clampText (lf_detail frame) 8000\<rparr> w
      in maybeAlertOnLog X (Some node) lvl (lf_source frame) (case lf_msg frame of Some m \<Rightarrow> m | None \<Rightarrow> []) (lf_detail frame) w)"

section \<open>GPU events\<close>

definition GPU_MAIL_WINDOW_MS :: int where
  "GPU_MAIL_WINDOW_MS = 10 * 60 * 1000"

definition gpu_state_of :: "json option \<Rightarrow> gpu_state" where
  "gpu_state_of v = (case jstr v of
      Some s \<Rightarrow> if s = ''warned'' then GWarned else if s = ''killed'' then GKilled else GIdle
    | None \<Rightarrow> GIdle)"

definition gpu_state_name :: "gpu_state \<Rightarrow> string" where
  "gpu_state_name s = (case s of GIdle \<Rightarrow> ''idle'' | GWarned \<Rightarrow> ''warned'' | GKilled \<Rightarrow> ''killed'')"

text \<open>The student is on the roster of a lab that has a placement on the node.\<close>

definition node_hosts_user :: "string \<Rightarrow> string \<Rightarrow> 'h world \<Rightarrow> bool" where
  "node_hosts_user node user w =
     (\<exists>s \<in> set (rows (students w)). s_username s = user \<and>
       (\<exists>m \<in> set (rows (lab_members w)). m_student_id m = s_id s \<and>
         (\<exists>p \<in> set (rows (lab_placements w)). p_lab_id p = m_lab_id m \<and>
           (\<exists>n \<in> set (rows (nodes w)). n_id n = p_node_id p \<and> n_name n = node))))"

definition emailGpuEvent :: "'h ext \<Rightarrow> string \<Rightarrow> string option \<Rightarrow> string option \<Rightarrow> int option \<Rightarrow> gpu_state \<Rightarrow> 'h world \<Rightarrow> 'h world" where
  "emailGpuEvent X node user lab pid st w =
     (case user of
        None \<Rightarrow> w
      | Some u \<Rightarrow>
          if st = GIdle \<or> \<not> node_hosts_user node u w then w
          else (case tbl_get (\<lambda>s. s_username s = u) (students w) of
            None \<Rightarrow> w
          | Some s \<Rightarrow> (case s_email s of
              None \<Rightarrow> w
            | Some email \<Rightarrow>
                let key = node @ '':'' @ u @ '':'' @ gpu_state_name st;
                    now = clock w;
                    last = (case map_of (gpu_mail_state w) key of Some t \<Rightarrow> t | None \<Rightarrow> 0)
                in if email = [] \<or> now - last < GPU_MAIL_WINDOW_MS then w
                   else send_mail (if st = GWarned
                            then GpuWarnMail email u lab pid node (setting_num X ''gpuGraceMinutes'' w)
                            else GpuKillMail email u lab pid node)
                          (w\<lparr>gpu_mail_state := AList.update key now (gpu_mail_state w)\<rparr>))))"

definition handleEvent :: "'h ext \<Rightarrow> string \<Rightarrow> string \<Rightarrow> json option \<Rightarrow> rat option \<Rightarrow> 'h world \<Rightarrow> 'h world" where
  "handleEvent X node kind payload ts w =
     (if kind \<noteq> ''gpu'' then w
      else
        let raw = (case payload of None \<Rightarrow> JObj [] | Some p \<Rightarrow> p);
            pid = intOrNull (jget ''pid'' raw); user = boundedStr (jget ''user'' raw) 32; lab = boundedStr (jget ''lab'' raw) 40;
            st = gpu_state_of (jget ''state'' raw);
            placementId = (case lab of None \<Rightarrow> None | Some l \<Rightarrow> map_option p_id (placementByLabNode l node w));
            w = w\<lparr>gpu_events := tbl_insert (\<lambda>i. \<lparr>ge_id = i, ge_node = node, ge_pid = pid, ge_user = user, ge_lab = lab,
                  ge_vram_bytes = intOrNull (jget ''vram_bytes'' raw), ge_state = st,
                  ge_ts = (case intOrNull (map_option JNum ts) of Some t \<Rightarrow> t | None \<Rightarrow> clock w),
                  ge_placement_id = placementId, ge_cmd = boundedStr (jget ''cmd'' raw) 200,
                  ge_idle_s = intOrNull (jget ''idle_s'' raw)\<rparr>) (gpu_events w)\<rparr>
        in emailGpuEvent X node user lab pid st w)"

section \<open>Dispatch\<close>

definition lift_world :: "('a, 'h) op \<Rightarrow> ('a, 'h) hub_op" where
  "lift_world f h = (case f (hb_world h) of (r, w) \<Rightarrow> (r, h\<lparr>hb_world := w\<rparr>))"

definition ingestFrame :: "'h ext \<Rightarrow> string \<Rightarrow> inbound \<Rightarrow> (unit, 'h) hub_op" where
  "ingestFrame X node frame h =
     (case frame of
        ResultFrame r \<Rightarrow> handleResult X node r h
      | ReceiptFrame i \<Rightarrow> (Inr (), upd_world (markTaskReceived node i) h)
      | LogFrame l \<Rightarrow> (Inr (), upd_world (handleLog X node l) h)
      | EventFrame k p t \<Rightarrow> (Inr (), upd_world (handleEvent X node k p t) h)
      | TelemetryFrame p \<Rightarrow> lift_world (ingestTelemetry X node (case p of None \<Rightarrow> JObj [] | Some v \<Rightarrow> v)) h
      | HelloFrame a b c d \<Rightarrow> (Inr (), h))"

section \<open>Events of a socket\<close>

definition on_connection :: "'h hub \<Rightarrow> 'h hub" where
  "on_connection h = h\<lparr>hb_socks := hb_socks h @ [\<lparr>sk_ready = Open, sk_node = None,
     sk_bucket = socket_bucket (clock (hb_world h)), sk_hello_timer = True, sk_sent = [], sk_close = None\<rparr>]\<rparr>"

definition hello_timeout :: "nat \<Rightarrow> 'h hub \<Rightarrow> 'h hub" where
  "hello_timeout i h =
     (let h' = upd_sock i (\<lambda>s. s\<lparr>sk_hello_timer := False\<rparr>) h in
      if socket_node i h = None then ws_close i 4002 ''hello timeout'' h' else h')"

text \<open>A message; \<open>None\<close> is a text on which \<open>JSON.parse\<close> throws.\<close>

definition on_message :: "'h ext \<Rightarrow> nat \<Rightarrow> json option \<Rightarrow> (unit, 'h) hub_op" where
  "on_message X i raw h =
     (let (ok, b) = socket_spend (clock (hb_world h)) (sk_bucket (hb_socks h ! i));
          h = upd_sock i (\<lambda>s. s\<lparr>sk_bucket := b\<rparr>) h
      in if \<not> ok then (Inr (), ws_close i 4008 ''rate limit exceeded'' h)
         else case raw of
           None \<Rightarrow> (Inr (), h)
         | Some parsed \<Rightarrow>
             (case parseInboundFrame parsed of
                None \<Rightarrow> (Inr (), h)
              | Some (HelloFrame node token v capabilities) \<Rightarrow>
                  (case handleHello X i node token v capabilities h of (r, h) \<Rightarrow>
                     (Inr (), upd_sock i (\<lambda>s. s\<lparr>sk_node := r, sk_hello_timer := (if r = None then sk_hello_timer s else False)\<rparr>) h))
              | Some frame \<Rightarrow>
                  (case socket_node i h of None \<Rightarrow> (Inr (), h) | Some node \<Rightarrow> ingestFrame X node frame h)))"

definition deregister_socket :: "'h ext \<Rightarrow> nat \<Rightarrow> 'h hub \<Rightarrow> 'h hub" where
  "deregister_socket X i h = (case socket_node i h of None \<Rightarrow> h | Some node \<Rightarrow> deregisterNode X node h)"

definition on_close :: "'h ext \<Rightarrow> nat \<Rightarrow> 'h hub \<Rightarrow> 'h hub" where
  "on_close X i h = deregister_socket X i (upd_sock i (\<lambda>s. s\<lparr>sk_hello_timer := False, sk_ready := Closed\<rparr>) h)"

text \<open>An error event is followed by a close event.\<close>

definition on_error :: "'h ext \<Rightarrow> nat \<Rightarrow> 'h hub \<Rightarrow> 'h hub" where
  "on_error X i h = deregister_socket X i (upd_sock i (\<lambda>s. s\<lparr>sk_hello_timer := False, sk_ready := Closing\<rparr>) h)"

definition on_pong :: "nat \<Rightarrow> 'h hub \<Rightarrow> 'h hub" where
  "on_pong i h = h\<lparr>connections := map (\<lambda>(n, c). (n, if cn_sock c = i then c\<lparr>cn_isAlive := True\<rparr> else c)) (connections h)\<rparr>"

text \<open>The liveness sweep.\<close>

definition liveness :: "'h hub \<Rightarrow> 'h hub" where
  "liveness h =
     (let h' = fold (\<lambda>(n, c) h. if cn_isAlive c then h else ws_terminate (cn_sock c) h) (connections h) h
      in h'\<lparr>connections := map (\<lambda>(n, c). (n, c\<lparr>cn_isAlive := False\<rparr>)) (connections h)\<rparr>)"

section \<open>Completion of the deliveries\<close>

text \<open>\<open>Inr sent\<close> is what the mailer reports, \<open>Inl msg\<close> a rejected promise, caught by a log entry.\<close>

definition job_log :: "string \<Rightarrow> string \<Rightarrow> string \<Rightarrow> string option \<Rightarrow> string \<Rightarrow> string \<Rightarrow> 'h world \<Rightarrow> 'h world" where
  "job_log source node lab user msg detail w =
     insert_log \<lparr>lg_id = 0, lg_ts = of_int (clock w), lg_node = Some node, lg_level = ''ERROR'', lg_source = Some source,
       lg_lab = Some lab, lg_user = user, lg_task_id = None, lg_msg = msg, lg_detail = Some detail\<rparr> w"

definition finish_job :: "job \<Rightarrow> string + bool \<Rightarrow> 'h world \<Rightarrow> 'h world" where
  "finish_job j outcome w =
     (case (j, outcome) of
        (CredentialJob i node lab user, Inr sent) \<Rightarrow> snd (deliver_finish i sent w)
      | (CredentialJob i node lab user, Inl e) \<Rightarrow> job_log ''credential'' node lab (Some user) ''credential delivery failed'' e w
      | (CompletionJob i node lab, Inr sent) \<Rightarrow> snd (completion_finish i sent w)
      | (CompletionJob i node lab, Inl e) \<Rightarrow> job_log ''placement-completion'' node lab None ''PI completion email failed'' e w)"

definition settle_job :: "nat \<Rightarrow> string + bool \<Rightarrow> 'h hub \<Rightarrow> 'h hub" where
  "settle_job k outcome h =
     (if k < length (hb_jobs h)
      then h\<lparr>hb_world := finish_job (hb_jobs h ! k) outcome (hb_world h), hb_jobs := take k (hb_jobs h) @ drop (Suc k) (hb_jobs h)\<rparr>
      else h)"

section \<open>Upgrades\<close>

text \<open>The \<open>x-forwarded-for\<close> style host header (its first value) and the host header.\<close>

definition requestHost :: "string option \<Rightarrow> string option \<Rightarrow> string" where
  "requestHost forwarded hst =
     (let raw = or_else (case forwarded of None \<Rightarrow> [] | Some f \<Rightarrow> f) (case hst of None \<Rightarrow> [] | Some x \<Rightarrow> x)
      in toLower (hd (splitOn (CHR '':'') (trim (hd (splitOn (CHR '','') raw))))))"

definition upgrade_allowed :: "string \<Rightarrow> string option \<Rightarrow> string option \<Rightarrow> bool" where
  "upgrade_allowed domain forwarded hst = (domain = [] \<or> requestHost forwarded hst = domain)"

section \<open>The machine\<close>

text \<open>
  One event. A handler that throws ends the process: the sockets, the timers and the throttles are
  gone, the database stays, and the controller starts again with no connection.
\<close>

definition restart :: "'h hub \<Rightarrow> 'h hub" where
  "restart h = \<lparr>hb_world = (hb_world h)\<lparr>alert_state := [], gpu_mail_state := []\<rparr>, hb_socks = [], connections = [],
     pendingOfflineAlerts = [], hb_jobs = []\<rparr>"

definition settled :: "(error, unit, 'h hub) res \<Rightarrow> 'h hub" where
  "settled r = (case r of (Inr _, h) \<Rightarrow> h | (Inl _, h) \<Rightarrow> restart h)"

inductive hub_step :: "'h ext \<Rightarrow> 'h hub \<Rightarrow> 'h hub \<Rightarrow> bool" for X where
  opened: "hub_step X h (on_connection h)"
| hello_deadline: "i < length (hb_socks h) \<Longrightarrow> sk_hello_timer (hb_socks h ! i) \<Longrightarrow> hub_step X h (hello_timeout i h)"
| message: "socket_ready i h \<noteq> Closed \<Longrightarrow> hub_step X h (settled (on_message X i raw h))"
| closed: "socket_ready i h \<noteq> Closed \<Longrightarrow> hub_step X h (on_close X i h)"
| errored: "socket_ready i h \<noteq> Closed \<Longrightarrow> hub_step X h (on_error X i h)"
| pong: "socket_ready i h \<noteq> Closed \<Longrightarrow> hub_step X h (on_pong i h)"
| sweep: "hub_step X h (liveness h)"
| tick: "hub_step X h (settled (drainNode X sends node i h))"
| offline: "map_of (pendingOfflineAlerts h) node = Some t \<Longrightarrow> t \<le> of_int (clock (hb_world h)) \<Longrightarrow> hub_step X h (offline_fire X node h)"
| job_done: "k < length (hb_jobs h) \<Longrightarrow> hub_step X h (settle_job k outcome h)"
| restarted: "hub_step X h (restart h)"

end
