(* ===== verification/Ingest_Facts.thy ===== *)
theory Ingest_Facts
  imports Ingest Controller
begin

text \<open>
  Facts on ingestion: what one telemetry frame can change. Its rows are bound to the authenticated
  node, times of usage scans only move forward, and the registry of the controller stays as it was.
\<close>

section \<open>Frames\<close>

lemma upd_node_frame [frame_simps, simp]:
  "students (upd_node n f w) = students w" "labs (upd_node n f w) = labs w" "lab_members (upd_node n f w) = lab_members w"
  "lab_placements (upd_node n f w) = lab_placements w" "placement_members (upd_node n f w) = placement_members w"
  "storage_samples (upd_node n f w) = storage_samples w" "task_log (upd_node n f w) = task_log w" "hq (upd_node n f w) = hq w"
  "clock (upd_node n f w) = clock w" "settings (upd_node n f w) = settings w" "draws (upd_node n f w) = draws w"
  "outbox (upd_node n f w) = outbox w" "gpu_events (upd_node n f w) = gpu_events w" "logs (upd_node n f w) = logs w"
  by (simp_all add: upd_node_def)

text \<open>Everything outside samples, quota alerts and mail.\<close>

definition samples_only :: "'h world \<Rightarrow> 'h world \<Rightarrow> bool" where
  "samples_only w' w \<longleftrightarrow> nodes w' = nodes w \<and> students w' = students w \<and> labs w' = labs w \<and> lab_members w' = lab_members w \<and>
     lab_placements w' = lab_placements w \<and> placement_members w' = placement_members w \<and> task_log w' = task_log w \<and>
     hq w' = hq w \<and> clock w' = clock w \<and> settings w' = settings w \<and> draws w' = draws w \<and> gpu_snapshot w' = gpu_snapshot w"

lemma samples_only_refl [simp]: "samples_only w w"
  by (simp add: samples_only_def)

lemma samples_only_trans: "samples_only u v \<Longrightarrow> samples_only v w \<Longrightarrow> samples_only u w"
  by (simp add: samples_only_def)

text \<open>The same, with the samples unchanged.\<close>

definition quiet :: "'h world \<Rightarrow> 'h world \<Rightarrow> bool" where
  "quiet w' w \<longleftrightarrow> samples_only w' w \<and> storage_samples w' = storage_samples w"

lemma quiet_intros:
  "quiet w w" "quiet (w\<lparr>student_quota_alerts := a\<rparr>) w" "quiet (w\<lparr>quota_alerts := b\<rparr>) w"
  "quiet v w \<Longrightarrow> quiet (send_mail m v) w"
  by (simp_all add: quiet_def samples_only_def send_mail_def)

lemma quiet_mails: "quiet v w \<Longrightarrow> quiet (fold (\<lambda>to. send_mail (f to)) xs v) w"
  by (induction xs arbitrary: v) (simp_all add: quiet_intros)

lemma quiet_trans: "quiet u v \<Longrightarrow> quiet v w \<Longrightarrow> quiet u w"
  by (auto simp: quiet_def intro: samples_only_trans)

lemma quiet_quota_alert: "quiet (maybeQuotaAlert X p l pool u q t w) w"
  by (simp add: maybeQuotaAlert_def Let_def quiet_intros split: option.split)

lemma quiet_student_alert: "quiet (maybeStudentQuotaAlert X p l s n pool u q t w) w"
  by (simp add: maybeStudentQuotaAlert_def Let_def quiet_intros quiet_mails split: option.split)

lemma quiet_sample_alerts: "quiet (sample_alerts X n nm r s tr u q t w) w"
proof -
  have "quiet (case q of Some q \<Rightarrow> if \<not> nm \<and> q \<noteq> 0 \<and> tr \<noteq> ''rootfs'' then maybeQuotaAlert X (p_id r) (p_lab_id r) tr u q t v else v
      | None \<Rightarrow> v) v" for v :: "'a world"
    by (simp add: quiet_intros quiet_quota_alert split: option.split)
  moreover have "quiet (case (s, assigned_user_quota tr q r) of
      (Some sid, Some q) \<Rightarrow> if q \<noteq> 0 then maybeStudentQuotaAlert X (p_id r) (p_lab_id r) sid n tr u q t w else w | _ \<Rightarrow> w) w"
    by (simp add: quiet_intros quiet_student_alert split: option.split)
  ultimately show ?thesis unfolding sample_alerts_def Let_def by (rule quiet_trans)
qed

lemma sample_alerts_frame:
  "samples_only (sample_alerts X n nm r s tr u q t w) w" "storage_samples (sample_alerts X n nm r s tr u q t w) = storage_samples w"
  by (rule quiet_sample_alerts [unfolded quiet_def, THEN conjunct1]) (rule quiet_sample_alerts [unfolded quiet_def, THEN conjunct2])

section \<open>Samples are bound to the authenticated node\<close>

text \<open>The sample belongs to a placement on the node, carries its lab, and names nobody or a member of that lab.\<close>

definition hosted_sample :: "string \<Rightarrow> 'h world \<Rightarrow> sample_row \<Rightarrow> bool" where
  "hosted_sample node w r \<longleftrightarrow>
     (\<exists>p \<in> set (rows (lab_placements w)). \<exists>n \<in> set (rows (nodes w)). n_name n = node \<and> p_node_id p = n_id n \<and>
        sm_placement_id r = Some (p_id p) \<and> sm_lab_id r = Some (p_lab_id p) \<and>
        (sm_student_id r = None \<or> (\<exists>m \<in> set (rows (lab_members w)). m_lab_id m = p_lab_id p \<and> sm_student_id r = Some (m_student_id m))))"

lemma placementByLabNode_Some:
  assumes "placementByLabNode lab node w = Some p"
  shows "p \<in> set (rows (lab_placements w))" "\<exists>n \<in> set (rows (nodes w)). n_name n = node \<and> p_node_id p = n_id n"
proof -
  obtain v where v: "getPlacementByLabNode lab node w = Some v" "p = pl_row v"
    using assms by (auto simp: placementByLabNode_def)
  note g = getPlacementByLabNode_Some [OF v(1)]
  show "p \<in> set (rows (lab_placements w))" using g(2) v(2) by simp
  show "\<exists>n \<in> set (rows (nodes w)). n_name n = node \<and> p_node_id p = n_id n"
    using placement_join_Some(3) [OF g(5)] v(2) g(4) by auto
qed

lemma studentIdInLab_Some:
  assumes "studentIdInLab l u w = Some i"
  shows "\<exists>m \<in> set (rows (lab_members w)). m_lab_id m = l \<and> m_student_id m = i"
proof -
  obtain s where s: "s \<in> set (List.map_filter (\<lambda>m. student_by_id (m_student_id m) w) (tbl_all (\<lambda>m. m_lab_id m = l) (lab_members w)))"
    "s_id s = i"
    using assms by (auto simp: studentIdInLab_def find_Some_iff dest: nth_mem)
  then obtain m where "m \<in> set (rows (lab_members w))" "m_lab_id m = l" "student_by_id (m_student_id m) w = Some s"
    by (auto simp: List.map_filter_def tbl_all_def)
  with s(2) show ?thesis by (auto simp: student_by_id_def dest!: tbl_get_Some)
qed

lemma ingest_storage_cases:
  obtains "snd (ingest_storage X node now ds w) = w"
  | ref s tier used quota where "snd (ingest_storage X node now ds w) =
       sample_alerts X node (truthy_opt (jget ''user'' ds)) ref s tier used quota now (insert_sample ref s tier used quota now w)"
     "ref \<in> set (rows (lab_placements w))" "\<exists>n \<in> set (rows (nodes w)). n_name n = node \<and> p_node_id ref = n_id n"
     "s = None \<or> (\<exists>m \<in> set (rows (lab_members w)). m_lab_id m = p_lab_id ref \<and> s = Some (m_student_id m))" "tier \<in> set TIERS"
     "shouldSample (p_id ref) s tier used now (tier = ''rootfs'' \<or> jget ''user'' ds \<noteq> Some JNull) w"
proof (cases "\<exists>lab tier used ref s quota. jstr (jget ''lab'' ds) = Some lab \<and> jstr (jget ''tier'' ds) = Some tier \<and>
    jnum (jget ''used_bytes'' ds) = Some used \<and> tier \<in> set TIERS \<and> placementByLabNode lab node w = Some ref \<and>
    sample_user ds (p_lab_id ref) w = Inr s \<and> \<not> (truthy_opt (jget ''user'' ds) \<and> s = None) \<and>
    shouldSample (p_id ref) s tier used now (tier = ''rootfs'' \<or> jget ''user'' ds \<noteq> Some JNull) w \<and>
    num_or_null (jget_nn ''quota_bytes'' ds) = Inr quota")
  case True
  then obtain lab tier used ref s quota where k: "jstr (jget ''lab'' ds) = Some lab" "jstr (jget ''tier'' ds) = Some tier"
    "jnum (jget ''used_bytes'' ds) = Some used" "tier \<in> set TIERS" "placementByLabNode lab node w = Some ref"
    "sample_user ds (p_lab_id ref) w = Inr s" "\<not> (truthy_opt (jget ''user'' ds) \<and> s = None)"
    "shouldSample (p_id ref) s tier used now (tier = ''rootfs'' \<or> jget ''user'' ds \<noteq> Some JNull) w"
    "num_or_null (jget_nn ''quota_bytes'' ds) = Inr quota" by blast
  have "s = None \<or> (\<exists>m \<in> set (rows (lab_members w)). m_lab_id m = p_lab_id ref \<and> s = Some (m_student_id m))"
    using k(6) by (cases s) (auto simp: sample_user_def Let_def split: if_splits option.splits json.splits dest!: studentIdInLab_Some)
  moreover have "snd (ingest_storage X node now ds w) =
       sample_alerts X node (truthy_opt (jget ''user'' ds)) ref s tier used quota now (insert_sample ref s tier used quota now w)"
    unfolding ingest_storage_def Let_def k(1-3) option.case prod.case k(5,6) sum.case k(9)
    using k(4,7,8) by (simp only: if_False if_True not_True_eq_False snd_conv)
  ultimately show ?thesis using that(2) placementByLabNode_Some [OF k(5)] k(4,8) by blast
next
  case False
  then have "snd (ingest_storage X node now ds w) = w"
    by (auto simp: ingest_storage_def Let_def split: option.splits sum.splits)
  then show ?thesis by (rule that(1))
qed

lemma ingest_storage_frame: "samples_only (snd (ingest_storage X node now ds w)) w"
proof (cases rule: ingest_storage_cases [of X node now ds w])
  case (2 ref s tier used quota)
  have "samples_only (insert_sample ref s tier used quota now w) w" by (simp add: samples_only_def insert_sample_def)
  then show ?thesis unfolding 2(1) by (rule samples_only_trans [OF sample_alerts_frame(1)])
qed simp

lemma ingest_storage_hosted:
  assumes "r \<in> set (rows (storage_samples (snd (ingest_storage X node now ds w))))"
  shows "r \<in> set (rows (storage_samples w)) \<or> (hosted_sample node w r \<and> sm_ts r = now)"
proof (cases rule: ingest_storage_cases [of X node now ds w])
  case (2 ref s tier used quota)
  with assms have "r \<in> set (rows (storage_samples w)) \<or> (sm_placement_id r = Some (p_id ref) \<and> sm_lab_id r = Some (p_lab_id ref) \<and>
      sm_student_id r = s \<and> sm_ts r = now)"
    by (auto simp: sample_alerts_frame insert_sample_def)
  with 2(2-4) show ?thesis unfolding hosted_sample_def by auto
qed (use assms in simp)

section \<open>A rule for the whole frame\<close>

text \<open>What telemetry writes on a node's row.\<close>

definition telemetry_write :: "(node_row \<Rightarrow> node_row) \<Rightarrow> bool" where
  "telemetry_write f \<longleftrightarrow> (\<forall>n. \<exists>a b c d e. f n = n\<lparr>n_pools := a, n_last_seen := b, n_cold_mount_path := c, n_cold_ready := d, n_scrub_status := e\<rparr>)"

lemma telemetry_writes:
  "telemetry_write (\<lambda>n. n\<lparr>n_pools := a, n_last_seen := b\<rparr>)"
  "telemetry_write (\<lambda>n. n\<lparr>n_cold_mount_path := c, n_cold_ready := d\<rparr>)"
  "telemetry_write (\<lambda>n. n\<lparr>n_scrub_status := e\<rparr>)"
proof -
  have "n\<lparr>n_pools := a, n_last_seen := b\<rparr> =
      n\<lparr>n_pools := a, n_last_seen := b, n_cold_mount_path := n_cold_mount_path n, n_cold_ready := n_cold_ready n, n_scrub_status := n_scrub_status n\<rparr>"
    "n\<lparr>n_cold_mount_path := c, n_cold_ready := d\<rparr> =
      n\<lparr>n_pools := n_pools n, n_last_seen := n_last_seen n, n_cold_mount_path := c, n_cold_ready := d, n_scrub_status := n_scrub_status n\<rparr>"
    "n\<lparr>n_scrub_status := e\<rparr> =
      n\<lparr>n_pools := n_pools n, n_last_seen := n_last_seen n, n_cold_mount_path := n_cold_mount_path n, n_cold_ready := n_cold_ready n, n_scrub_status := e\<rparr>"
    for n by simp_all
  then show "telemetry_write (\<lambda>n. n\<lparr>n_pools := a, n_last_seen := b\<rparr>)"
    "telemetry_write (\<lambda>n. n\<lparr>n_cold_mount_path := c, n_cold_ready := d\<rparr>)"
    "telemetry_write (\<lambda>n. n\<lparr>n_scrub_status := e\<rparr>)"
    unfolding telemetry_write_def by blast+
qed

lemma telemetry_write_keys:
  assumes "telemetry_write f"
  shows "n_id (f n) = n_id n" "n_name (f n) = n_name n" "n_cold_owner_node_id (f n) = n_cold_owner_node_id n"
    "n_cold_backend (f n) = n_cold_backend n" "n_token_hash (f n) = n_token_hash n" "n_allowed (f n) = n_allowed n"
    "n_online (f n) = n_online n" "n_alias (f n) = n_alias n"
proof -
  obtain a b c d e where "f n = n\<lparr>n_pools := a, n_last_seen := b, n_cold_mount_path := c, n_cold_ready := d, n_scrub_status := e\<rparr>"
    using assms unfolding telemetry_write_def by blast
  then show "n_id (f n) = n_id n" "n_name (f n) = n_name n" "n_cold_owner_node_id (f n) = n_cold_owner_node_id n"
    "n_cold_backend (f n) = n_cold_backend n" "n_token_hash (f n) = n_token_hash n" "n_allowed (f n) = n_allowed n"
    "n_online (f n) = n_online n" "n_alias (f n) = n_alias n" by simp_all
qed

lemma iterate_pres:
  assumes "\<And>x v. I v \<Longrightarrow> I (snd (f x v))" shows "I w \<Longrightarrow> I (snd (iterate f j w))"
  using each_pres [of _ I f] assms by (auto simp: iterate_def split: option.splits)

lemma ingest_gpu_cases: "\<exists>g. snd (ingest_gpu node now xs w) = w\<lparr>gpu_snapshot := g\<rparr>"
proof -
  let ?I = "\<lambda>v. \<exists>g. v = w\<lparr>gpu_snapshot := g\<rparr>"
  have "?I (snd (gpu_insert node now p v))" if "?I v" for p v
    using that by (auto simp: gpu_insert_def split: sum.splits)
  then have "?I (snd (each (gpu_insert node now) xs (w\<lparr>gpu_snapshot := filter (\<lambda>r. gs_node r \<noteq> node) (gpu_snapshot w)\<rparr>)))"
    by (intro each_pres [where I = ?I]) auto
  moreover have "?I w" by (rule exI [of _ "gpu_snapshot w"]) simp
  ultimately show ?thesis by (auto simp: ingest_gpu_def split: prod.split sum.split)
qed

lemma ingestTelemetry_pres:
  assumes U: "\<And>f v. telemetry_write f \<Longrightarrow> I v \<Longrightarrow> I (upd_node node f v)"
    and L: "\<And>r v. I v \<Longrightarrow> I (insert_log r v)" and A: "\<And>k s b v. I v \<Longrightarrow> I (alertAdmins X k s b v)"
    and S: "\<And>now ds v. I v \<Longrightarrow> I (snd (ingest_storage X node now ds v))"
    and C: "\<And>u v. I v \<Longrightarrow> I (snd (ingest_scan node u v))"
    and G: "\<And>g v. I v \<Longrightarrow> I (v\<lparr>gpu_snapshot := g\<rparr>)"
  shows "I w \<Longrightarrow> I (snd (ingestTelemetry X node payload w))"
proof -
  have cold: "I (ingestColdStorage node c v)" if "I v" for c v
    using U [OF telemetry_writes(2)] that by (auto simp: ingestColdStorage_def Let_def split: option.split json.split)
  have sa: "I (snd (scrub_alert X node now b p v))" if "I v" for now b p v
    using L A that by (auto simp: scrub_alert_def Let_def)
  have scrub: "I (snd (ingestScrub X node now sc v))" if "I v" for now sc v
  proof -
    have "I (snd (each (scrub_alert X node now b) xs v))" if "I v" for b xs v
      by (rule each_pres [where I = I, OF sa that])
    with U [OF telemetry_writes(3)] that show ?thesis
      by (auto simp: ingestScrub_def Let_def split: option.split json.split sum.split)
  qed
  have gpu: "I (snd (ingest_gpu node now xs v))" if "I v" for now xs v
    using ingest_gpu_cases [of node now xs v] G that by auto
  assume "I w"
  then have 1: "I (upd_node node (\<lambda>n. n\<lparr>n_pools := a, n_last_seen := b\<rparr>) w)" for a b by (rule U [OF telemetry_writes(1)])
  show ?thesis unfolding ingestTelemetry_def Let_def
    by (intro and_then_pres [where I = I] scrub cold 1 iterate_pres [where I = I] S C)
      (auto intro: gpu split: option.split)
qed

lemma ingest_scan_cases: "snd (ingest_scan node u w) = w \<or> (\<exists>i t. snd (ingest_scan node u w) = scan_update i t w)"
  by (auto simp: ingest_scan_def split: option.splits)

section \<open>What telemetry preserves\<close>

lemma insert_log_frame [frame_simps, simp]:
  "nodes (insert_log r w) = nodes w" "students (insert_log r w) = students w" "labs (insert_log r w) = labs w"
  "lab_members (insert_log r w) = lab_members w" "lab_placements (insert_log r w) = lab_placements w"
  "placement_members (insert_log r w) = placement_members w" "storage_samples (insert_log r w) = storage_samples w"
  "task_log (insert_log r w) = task_log w" "hq (insert_log r w) = hq w" "clock (insert_log r w) = clock w"
  "settings (insert_log r w) = settings w" "draws (insert_log r w) = draws w" "outbox (insert_log r w) = outbox w"
  by (simp_all add: insert_log_def)

lemma scan_update_frame [frame_simps, simp]:
  "nodes (scan_update i t w) = nodes w" "students (scan_update i t w) = students w" "labs (scan_update i t w) = labs w"
  "lab_members (scan_update i t w) = lab_members w" "placement_members (scan_update i t w) = placement_members w"
  "storage_samples (scan_update i t w) = storage_samples w" "task_log (scan_update i t w) = task_log w"
  "hq (scan_update i t w) = hq w" "clock (scan_update i t w) = clock w" "settings (scan_update i t w) = settings w"
  "draws (scan_update i t w) = draws w"
  by (simp_all add: scan_update_def)

lemmas alert_frame = mail_onlyD [OF mail_only_alertAdmins]

text \<open>A fact about the tables that telemetry never writes.\<close>

lemma telemetry_frame:
  "students (snd (ingestTelemetry X node payload w)) = students w" "labs (snd (ingestTelemetry X node payload w)) = labs w"
  "lab_members (snd (ingestTelemetry X node payload w)) = lab_members w"
  "placement_members (snd (ingestTelemetry X node payload w)) = placement_members w"
  "task_log (snd (ingestTelemetry X node payload w)) = task_log w" "hq (snd (ingestTelemetry X node payload w)) = hq w"
  "settings (snd (ingestTelemetry X node payload w)) = settings w" "clock (snd (ingestTelemetry X node payload w)) = clock w"
  "draws (snd (ingestTelemetry X node payload w)) = draws w"
proof -
  let ?I = "\<lambda>v. students v = students w \<and> labs v = labs w \<and> lab_members v = lab_members w \<and> placement_members v = placement_members w \<and>
     task_log v = task_log w \<and> hq v = hq w \<and> settings v = settings w \<and> clock v = clock w \<and> draws v = draws w"
  have "?I (snd (ingestTelemetry X node payload w))"
  proof (rule ingestTelemetry_pres [where I = ?I])
    show "?I (snd (ingest_storage X node now ds v))" if "?I v" for now ds v
      using that ingest_storage_frame [of X node now ds v] by (simp add: samples_only_def)
    show "?I (snd (ingest_scan node u v))" if "?I v" for u v
      using that ingest_scan_cases [of node u v] by (auto simp: scan_update_frame)
  qed (simp_all add: alert_frame)
  then show "students (snd (ingestTelemetry X node payload w)) = students w" "labs (snd (ingestTelemetry X node payload w)) = labs w"
    "lab_members (snd (ingestTelemetry X node payload w)) = lab_members w"
    "placement_members (snd (ingestTelemetry X node payload w)) = placement_members w"
    "task_log (snd (ingestTelemetry X node payload w)) = task_log w" "hq (snd (ingestTelemetry X node payload w)) = hq w"
    "settings (snd (ingestTelemetry X node payload w)) = settings w" "clock (snd (ingestTelemetry X node payload w)) = clock w"
    "draws (snd (ingestTelemetry X node payload w)) = draws w" by simp_all
qed

lemma core_upd_node:
  assumes "telemetry_write f"
  shows "schema_ok w \<Longrightarrow> schema_ok (upd_node node f w)" "cold_ok w \<Longrightarrow> cold_ok (upd_node node f w)"
  unfolding upd_node_def
  by (rule schema_node_update; simp add: telemetry_write_keys [OF assms])
     (rule cold_ok_update; simp add: telemetry_write_keys [OF assms])

lemma core_scan_update:
  "schema_ok w \<Longrightarrow> schema_ok (scan_update i t w)" "abs_roster (scan_update i t w) = abs_roster w"
proof -
  show "schema_ok w \<Longrightarrow> schema_ok (scan_update i t w)"
    unfolding scan_update_def by (rule schema_placement_update) (simp_all add: place_key_def port_key_def)
  show "abs_roster (scan_update i t w) = abs_roster w"
    by (simp add: abs_roster_def scan_update_def colset_tbl_update placed_key_def)
qed

lemma telemetry_good:
  assumes "core_ok w" shows "good_step w (snd (ingestTelemetry X node payload w))"
proof -
  let ?I = "\<lambda>v :: 'a world. schema_ok v \<and> cold_ok v \<and> abs_roster v = abs_roster w"
  have frame: "?I v'" if "?I v" "nodes v' = nodes v" "students v' = students v" "labs v' = labs v" "lab_members v' = lab_members v"
    "lab_placements v' = lab_placements v" "placement_members v' = placement_members v" for v v' :: "'a world"
    using that schema_frame [of v' v] cold_ok_frame [of v' v] abs_roster_frame [of v' v] by simp
  have "?I (snd (ingestTelemetry X node payload w))"
  proof (rule ingestTelemetry_pres [where I = ?I])
    show "?I (upd_node node f v)" if "telemetry_write f" "?I v" for f v
      by (intro conjI core_upd_node [OF that(1)]) (use that abs_roster_frame [of "upd_node node f v" v] in simp_all)
    show "?I (snd (ingest_scan node u v))" if "?I v" for u v
    proof -
      have "?I (scan_update i t v)" for i t
        using that core_scan_update [where w = v and i = i and t = t] cold_ok_frame [of "scan_update i t v" v] by simp
      then show ?thesis using that ingest_scan_cases [of node u v] by auto
    qed
    show "?I (snd (ingest_storage X node now ds v))" if "?I v" for now ds v
      by (rule frame [OF that]) (use ingest_storage_frame [of X node now ds v] in \<open>simp_all add: samples_only_def\<close>)
    show "?I (insert_log r v)" if "?I v" for r v by (rule frame [OF that]) simp_all
    show "?I (alertAdmins X k s b v)" if "?I v" for k s b v by (rule frame [OF that]) (simp_all add: alert_frame)
    show "?I (v\<lparr>gpu_snapshot := g\<rparr>)" if "?I v" for g v by (rule frame [OF that]) simp_all
    show "?I w" using assms by (simp add: core_ok_def)
  qed
  then show ?thesis by (intro good_step_same [OF assms]) (simp_all add: telemetry_frame)
qed

section \<open>What telemetry writes\<close>

text \<open>Rows up to the columns that telemetry writes.\<close>

definition same_hosts :: "'h world \<Rightarrow> 'h world \<Rightarrow> bool" where
  "same_hosts w' w \<longleftrightarrow> lab_members w' = lab_members w \<and>
     map (\<lambda>n. (n_id n, n_name n)) (rows (nodes w')) = map (\<lambda>n. (n_id n, n_name n)) (rows (nodes w)) \<and>
     map (\<lambda>p. (p_id p, p_lab_id p, p_node_id p)) (rows (lab_placements w')) = map (\<lambda>p. (p_id p, p_lab_id p, p_node_id p)) (rows (lab_placements w))"

lemma hosted_sample_alt:
  "hosted_sample node w r \<longleftrightarrow>
     (\<exists>(i, l, k) \<in> set (map (\<lambda>p. (p_id p, p_lab_id p, p_node_id p)) (rows (lab_placements w))).
      \<exists>(j, nm) \<in> set (map (\<lambda>n. (n_id n, n_name n)) (rows (nodes w))). nm = node \<and> k = j \<and>
        sm_placement_id r = Some i \<and> sm_lab_id r = Some l \<and>
        (sm_student_id r = None \<or> (\<exists>m \<in> set (rows (lab_members w)). m_lab_id m = l \<and> sm_student_id r = Some (m_student_id m))))"
  unfolding hosted_sample_def set_map by fastforce

lemma hosted_sample_same: "same_hosts w' w \<Longrightarrow> hosted_sample node w' r = hosted_sample node w r"
  unfolding hosted_sample_alt same_hosts_def by (elim conjE) (simp only:)

lemma same_hosts_upd_node: "telemetry_write f \<Longrightarrow> same_hosts (upd_node node f v) v"
  by (simp add: same_hosts_def upd_node_def rows_tbl_update telemetry_write_keys)

lemma same_hosts_scan: "same_hosts (scan_update i t v) v"
  by (simp add: same_hosts_def scan_update_def rows_tbl_update)

lemma same_hosts_trans: "same_hosts u v \<Longrightarrow> same_hosts v w \<Longrightarrow> same_hosts u w"
  by (simp add: same_hosts_def)

lemma same_hosts_eq: "nodes w' = nodes w \<Longrightarrow> lab_members w' = lab_members w \<Longrightarrow> lab_placements w' = lab_placements w \<Longrightarrow> same_hosts w' w"
  by (simp add: same_hosts_def)

lemma telemetry_samples:
  assumes "r \<in> set (rows (storage_samples (snd (ingestTelemetry X node payload w))))"
  shows "r \<in> set (rows (storage_samples w)) \<or> hosted_sample node w r"
proof -
  let ?I = "\<lambda>v :: 'a world. same_hosts v w \<and> (\<forall>r \<in> set (rows (storage_samples v)). r \<in> set (rows (storage_samples w)) \<or> hosted_sample node w r)"
  have step: "?I v'" if "?I v" "same_hosts v' v" "storage_samples v' = storage_samples v" for v v' :: "'a world"
    using that same_hosts_trans [OF that(2)] by simp
  have "?I (snd (ingestTelemetry X node payload w))"
  proof (rule ingestTelemetry_pres [where I = ?I])
    show "?I (upd_node node f v)" if "telemetry_write f" "?I v" for f v
      by (rule step [OF that(2) same_hosts_upd_node [OF that(1)]]) simp
    show "?I (snd (ingest_scan node u v))" if "?I v" for u v
      using ingest_scan_cases [of node u v] step [OF that same_hosts_scan scan_update_frame(6)] that by auto
    show "?I (snd (ingest_storage X node now ds v))" if "?I v" for now ds v
    proof -
      have "same_hosts (snd (ingest_storage X node now ds v)) v"
        using ingest_storage_frame [of X node now ds v] by (simp add: samples_only_def same_hosts_eq)
      moreover have "r \<in> set (rows (storage_samples v)) \<or> hosted_sample node w r"
        if "r \<in> set (rows (storage_samples (snd (ingest_storage X node now ds v))))" for r
        using ingest_storage_hosted [OF that] hosted_sample_same [of v w] \<open>?I v\<close> by auto
      ultimately show ?thesis using that same_hosts_trans by blast
    qed
    show "?I (insert_log r v)" if "?I v" for r v by (rule step [OF that]) (simp_all add: same_hosts_eq)
    show "?I (alertAdmins X k s b v)" if "?I v" for k s b v by (rule step [OF that]) (simp_all add: same_hosts_eq alert_frame)
    show "?I (v\<lparr>gpu_snapshot := g\<rparr>)" if "?I v" for g v by (rule step [OF that]) (simp_all add: same_hosts_eq)
    show "?I w" by (simp add: same_hosts_def)
  qed
  with assms show ?thesis by blast
qed

text \<open>A scrub report that holds a null entry is stored and blocks every later frame that reports scrubs.\<close>

definition poisoned :: "string \<Rightarrow> 'h world \<Rightarrow> bool" where
  "poisoned node w \<longleftrightarrow> (case prev_scrub (node_by_name node w) of Inr prev \<Rightarrow> JNull \<in> set prev | Inl e \<Rightarrow> True)"

lemma upd_node_lookup:
  assumes "telemetry_write f" shows "node_by_name node (upd_node node f w) = map_option f (node_by_name node w)"
proof -
  have "node_by_name node (upd_node node f w) = map_option (\<lambda>n. if n_name n = node then f n else n) (node_by_name node w)"
    unfolding upd_node_def by (rule node_by_name_update) (simp add: telemetry_write_keys [OF assms])
  then show ?thesis using node_by_name_Some [of node w] by (cases "node_by_name node w") auto
qed

lemma node_by_name_telemetry_head:
  "prev_scrub (node_by_name node (ingestColdStorage node c (upd_node node (\<lambda>n. n\<lparr>n_pools := a, n_last_seen := b\<rparr>) w))) =
     prev_scrub (node_by_name node w)"
proof -
  have 1: "prev_scrub (node_by_name node (upd_node node (\<lambda>n. n\<lparr>n_pools := a, n_last_seen := b\<rparr>) v)) = prev_scrub (node_by_name node v)" for v :: "'a world"
    unfolding upd_node_lookup [OF telemetry_writes(1)] by (cases "node_by_name node v") (simp_all add: prev_scrub_def)
  have 2: "prev_scrub (node_by_name node (upd_node node (\<lambda>n. n\<lparr>n_cold_mount_path := x, n_cold_ready := y\<rparr>) v)) = prev_scrub (node_by_name node v)" for x y and v :: "'a world"
    unfolding upd_node_lookup [OF telemetry_writes(2)] by (cases "node_by_name node v") (simp_all add: prev_scrub_def)
  show ?thesis using 1 2 by (auto simp: ingestColdStorage_def Let_def split: option.split json.split)
qed

lemma poisoned_telemetry_fails:
  assumes "poisoned node w" "jget ''scrub'' payload = Some (JArr entries)"
  shows "fst (ingestTelemetry X node payload w) = Inl JsTypeError"
    "storage_samples (snd (ingestTelemetry X node payload w)) = storage_samples w"
proof -
  let ?w = "ingestColdStorage node (jget ''cold'' payload)
     (upd_node node (\<lambda>n. n\<lparr>n_pools := Some (json_text (case jget_nn ''pools'' payload of None \<Rightarrow> JArr [] | Some v \<Rightarrow> v)), n_last_seen := Some (clock w)\<rparr>) w)"
  have "ingestScrub X node (clock w) (Some (JArr entries)) ?w = (Inl JsTypeError, ?w)"
    using assms(1) node_by_name_telemetry_head [of node _ _ _ w]
    by (auto simp: ingestScrub_def poisoned_def prev_scrub_def split: sum.splits option.splits json.splits)
  then have t: "ingestTelemetry X node payload w = (Inl JsTypeError, ?w)"
    by (simp add: ingestTelemetry_def Let_def assms(2))
  then show "fst (ingestTelemetry X node payload w) = Inl JsTypeError" by simp
  have "storage_samples (ingestColdStorage node c v) = storage_samples v" for c and v :: "'a world"
    by (simp add: ingestColdStorage_def Let_def split: option.split json.split)
  then show "storage_samples (snd (ingestTelemetry X node payload w)) = storage_samples w" by (simp add: t)
qed

lemma scrub_alerts_null:
  "JNull \<in> set entries \<Longrightarrow> fst (each (scrub_alert X node now bad) entries w) = Inl JsTypeError"
  "nodes (snd (each (scrub_alert X node now bad) entries w)) = nodes w"
proof -
  have n: "nodes (snd (scrub_alert X node now bad p v)) = nodes v" for p and v :: "'a world"
    by (simp add: scrub_alert_def Let_def alert_frame)
  have e: "fst (scrub_alert X node now bad p v) \<noteq> Inr () \<Longrightarrow> fst (scrub_alert X node now bad p v) = Inl JsTypeError" for p and v :: "'a world"
    by (auto simp: scrub_alert_def Let_def split: if_splits)
  show "nodes (snd (each (scrub_alert X node now bad) entries w)) = nodes w"
    by (rule each_pres [where I = "\<lambda>v. nodes v = nodes w"]) (simp_all add: n)
  show "JNull \<in> set entries \<Longrightarrow> fst (each (scrub_alert X node now bad) entries w) = Inl JsTypeError"
  proof (induction entries arbitrary: w)
    case (Cons p ps)
    show ?case
    proof (cases "scrub_alert X node now bad p w")
      case (Pair r v)
      with e [of p w] Cons show ?thesis by (cases r) (auto simp: scrub_alert_def)
    qed
  qed simp
qed

lemma stringified_null: "JNull \<in> set entries \<Longrightarrow> JNull \<in> set (map stringified entries)"
  by (force simp: image_iff)

lemma null_scrub_poisons:
  assumes "node_by_name node w \<noteq> None" "jget ''scrub'' payload = Some (JArr entries)" "JNull \<in> set entries"
  shows "fst (ingestTelemetry X node payload w) = Inl JsTypeError" "poisoned node (snd (ingestTelemetry X node payload w))"
proof -
  let ?f = "\<lambda>n. n\<lparr>n_pools := Some (json_text (case jget_nn ''pools'' payload of None \<Rightarrow> JArr [] | Some v \<Rightarrow> v)), n_last_seen := Some (clock w)\<rparr>"
  let ?w = "ingestColdStorage node (jget ''cold'' payload) (upd_node node ?f w)"
  have prev: "prev_scrub (node_by_name node ?w) = prev_scrub (node_by_name node w)" by (rule node_by_name_telemetry_head)
  have row: "node_by_name node ?w \<noteq> None"
    using assms(1) by (simp add: ingestColdStorage_def Let_def upd_node_lookup [OF telemetry_writes(1)] upd_node_lookup [OF telemetry_writes(2)]
        split: option.split json.split)
  have scrub: "fst (ingestScrub X node (clock w) (Some (JArr entries)) ?w) = Inl JsTypeError \<and>
      poisoned node (snd (ingestScrub X node (clock w) (Some (JArr entries)) ?w))"
  proof (cases "poisoned node w")
    case True
    then show ?thesis
      using prev by (auto simp: ingestScrub_def poisoned_def prev_scrub_def split: sum.splits option.splits json.splits)
  next
    case False
    then obtain ps where ps: "prev_scrub (node_by_name node ?w) = Inr ps" "JNull \<notin> set ps"
      using prev by (auto simp: poisoned_def split: sum.splits)
    let ?v = "upd_node node (\<lambda>n. n\<lparr>n_scrub_status := Some (json_text (JArr entries))\<rparr>) ?w"
    let ?e = "each (scrub_alert X node (clock w) (jget ''pool'' ` set (filter isBadScrub ps))) entries ?v"
    have "node_by_name node (snd ?e) = node_by_name node ?v" by (rule node_by_name_frame) (rule scrub_alerts_null(2))
    also have "\<dots> = map_option (\<lambda>n. n\<lparr>n_scrub_status := Some (json_text (JArr entries))\<rparr>) (node_by_name node ?w)"
      by (rule upd_node_lookup [OF telemetry_writes(3)])
    finally have "prev_scrub (node_by_name node (snd ?e)) = Inr (map stringified entries)"
      using row by (auto simp: prev_scrub_def)
    then have "poisoned node (snd ?e)" using stringified_null [OF assms(3)] by (simp add: poisoned_def)
    moreover have "ingestScrub X node (clock w) (Some (JArr entries)) ?w = ?e"
      using ps by (simp add: ingestScrub_def Let_def)
    ultimately show ?thesis using scrub_alerts_null(1) [OF assms(3)] by simp
  qed
  have t: "ingestTelemetry X node payload w = and_then (ingestScrub X node (clock w) (Some (JArr entries)) ?w) k" if
    "k = (\<lambda>_ w'. and_then (iterate (ingest_storage X node (clock w)) (jget_nn ''storage'' payload) w') (\<lambda>_ w'.
         and_then (iterate (ingest_scan node) (jget_nn ''usage_scans'' payload) w') (\<lambda>_ w'.
           (case js_iter (jget_nn ''gpu_processes'' payload) of
              None \<Rightarrow> (Inl JsTypeError, w') | Some gpu \<Rightarrow> ingest_gpu node (clock w) gpu w'))))" for k
    unfolding that by (simp add: ingestTelemetry_def Let_def assms(2))
  have "fst (and_then m k) = Inl JsTypeError \<and> poisoned node (snd (and_then m k))"
    if "fst m = Inl JsTypeError \<and> poisoned node (snd m)" for m and k :: "unit \<Rightarrow> 'a world \<Rightarrow> (error, unit, 'a world) res"
    using that by (cases m) auto
  from this [OF scrub] show "fst (ingestTelemetry X node payload w) = Inl JsTypeError"
    "poisoned node (snd (ingestTelemetry X node payload w))" unfolding t [OF refl] by (rule conjunct1, rule conjunct2)
qed

end
