(* ===== verification/Hub_Facts.thy ===== *)
theory Hub_Facts
  imports Hub_Frames Ingest_Facts
begin

text \<open>
  Facts on the hub: every event preserves the integrity of the database, what a frame of one node may
  change, what a consumer tick sends, and how connections, tokens and offline alerts interact.
\<close>

section \<open>Frames\<close>

lemma hub_world_frame [frame_simps, simp]:
  "hb_world (upd_sock i f h) = hb_world h" "hb_world (ws_close i c r h) = hb_world h" "hb_world (ws_terminate i h) = hb_world h"
  "hb_world (ws_send i fr h) = hb_world h" "hb_world (cancelOfflineAlert n h) = hb_world h" "hb_world (on_connection h) = hb_world h"
  "hb_world (hello_timeout i h) = hb_world h" "hb_world (on_pong i h) = hb_world h" "hb_world (upd_world g h) = g (hb_world h)"
  by (simp_all add: upd_sock_def ws_close_def ws_terminate_def ws_send_def cancelOfflineAlert_def on_connection_def hello_timeout_def
      on_pong_def upd_world_def Let_def)

lemma hub_conn_frame [frame_simps, simp]:
  "connections (upd_sock i f h) = connections h" "connections (ws_close i c r h) = connections h" "connections (ws_terminate i h) = connections h"
  "connections (ws_send i fr h) = connections h" "connections (cancelOfflineAlert n h) = connections h"
  "connections (upd_world g h) = connections h" "connections (hello_timeout i h) = connections h" "connections (on_connection h) = connections h"
  by (simp_all add: upd_sock_def ws_close_def ws_terminate_def ws_send_def cancelOfflineAlert_def upd_world_def hello_timeout_def
      on_connection_def Let_def)

lemma hub_sock_frame [frame_simps, simp]:
  "hb_socks (cancelOfflineAlert n h) = hb_socks h" "hb_socks (upd_world g h) = hb_socks h" "hb_socks (on_pong i h) = hb_socks h"
  "length (hb_socks (upd_sock i f h)) = length (hb_socks h)" "length (hb_socks (ws_close i c r h)) = length (hb_socks h)"
  "length (hb_socks (ws_terminate i h)) = length (hb_socks h)" "length (hb_socks (ws_send i fr h)) = length (hb_socks h)"
  by (simp_all add: cancelOfflineAlert_def upd_world_def on_pong_def upd_sock_def ws_close_def ws_terminate_def ws_send_def)

lemma liveness_world [simp]: "hb_world (liveness h) = hb_world h"
proof -
  have "hb_world (fold (\<lambda>(n, c) h. if cn_isAlive c then h else ws_terminate (cn_sock c) h) cs v) = hb_world v" for cs and v :: "'a hub"
    by (rule fold_frame) (simp add: split_beta)
  then show ?thesis by (simp add: liveness_def Let_def)
qed

lemma upd_node_good:
  assumes "core_ok w" "\<And>n. n_id (f n) = n_id n" "\<And>n. n_name (f n) = n_name n" "\<And>n. n_cold_owner_node_id (f n) = n_cold_owner_node_id n"
    "\<And>n. n_cold_backend (f n) = n_cold_backend n"
  shows "good_step w (upd_node node f w)"
proof (rule good_node_op [OF assms(1)])
  show "schema_ok (upd_node node f w)"
    unfolding upd_node_def by (rule schema_node_update) (use assms in \<open>simp_all add: core_ok_def\<close>)
  show "cold_ok (upd_node node f w)"
    unfolding upd_node_def by (rule cold_ok_update) (use assms in \<open>simp_all add: core_ok_def\<close>)
qed simp_all

lemma register_row_good:
  assumes "core_ok w" shows "good_step w (register_row node caps w)"
proof (cases "node_by_name node w")
  case None
  then have n: "node \<notin> n_name ` set (rows (nodes w))" by (simp add: node_by_name_None)
  have e: "register_row node caps w = w\<lparr>nodes := tbl_insert (\<lambda>i. \<lparr>n_id = i, n_name = node, n_last_seen = Some (clock w),
            n_online = True, n_capabilities = Some (json_text caps), n_pools = None, n_created_at = clock w,
            n_last_scrub = None, n_scrub_status = None, n_token_hash = None,
            n_allowed = False, n_alias = None, n_cold_backend = LocalZfs,
            n_cold_owner_node_id = None, n_cold_mount_path = None, n_cold_ready = False\<rparr>) (nodes w)\<rparr>"
    using None by (simp add: register_row_def Let_def)
  show ?thesis
    unfolding e
  proof (rule good_node_op [OF assms])
    show "schema_ok (w\<lparr>nodes := tbl_insert (\<lambda>i. \<lparr>n_id = i, n_name = node, n_last_seen = Some (clock w),
            n_online = True, n_capabilities = Some (json_text caps), n_pools = None, n_created_at = clock w,
            n_last_scrub = None, n_scrub_status = None, n_token_hash = None,
            n_allowed = False, n_alias = None, n_cold_backend = LocalZfs,
            n_cold_owner_node_id = None, n_cold_mount_path = None, n_cold_ready = False\<rparr>) (nodes w)\<rparr>)"
      by (rule schema_node_insert) (use assms n in \<open>simp_all add: core_ok_def\<close>)
    show "cold_ok (w\<lparr>nodes := tbl_insert (\<lambda>i. \<lparr>n_id = i, n_name = node, n_last_seen = Some (clock w),
            n_online = True, n_capabilities = Some (json_text caps), n_pools = None, n_created_at = clock w,
            n_last_scrub = None, n_scrub_status = None, n_token_hash = None,
            n_allowed = False, n_alias = None, n_cold_backend = LocalZfs,
            n_cold_owner_node_id = None, n_cold_mount_path = None, n_cold_ready = False\<rparr>) (nodes w)\<rparr>)"
      by (rule cold_ok_insert) (use assms in \<open>simp_all add: core_ok_def\<close>)
  qed simp_all
next
  case (Some n)
  with upd_node_good [OF assms] show ?thesis by (simp add: register_row_def Let_def)
qed

text \<open>Everything outside the core tables: \<open>same_core\<close> as an intro rule for each writer.\<close>

lemma same_core_refl: "same_core w w"
  by (simp add: same_core_def same_registry_def)

lemma same_core_trans: "same_core u v \<Longrightarrow> same_core v w \<Longrightarrow> same_core u w"
  by (simp add: same_core_def same_registry_def)

lemma same_coreI:
  assumes "nodes w' = nodes w" "students w' = students w" "labs w' = labs w" "lab_members w' = lab_members w"
    "lab_placements w' = lab_placements w" "placement_members w' = placement_members w"
  shows "same_core w' w"
  using assms by (simp add: same_core_def same_registry_def)

lemma same_core_mail_only: "mail_only w' w \<Longrightarrow> same_core w' w"
  by (rule same_coreI) (simp_all add: mail_onlyD)

lemma same_core_queue:
  "same_core (w\<lparr>hq := h\<rparr>) w" "same_core (ackTask X n j wk w) w" "same_core (retryTask X n j wk e w) w"
  "same_core (snd (markTaskState n u s r e' c w)) w" "same_core (bumpAttempts n u w) w" "same_core (markTaskReceived n u w) w"
  "same_core (snd (claimTask X n wk w)) w" "same_core (insert_log r' w) w" "same_core (completeStudentRemoval X u w) w"
  by (rule same_coreI; simp add: ackTask_def retryTask_def bumpAttempts_def markTaskReceived_def claimTask_def
      split: option.split prod.split sum.split)+

lemma same_core_mark_sent: "same_core (mark_sent node f w) w"
  using same_core_trans [OF same_core_queue(5) same_core_queue(4)]
  by (auto simp: mark_sent_def same_core_refl split: option.split)

section \<open>Every event preserves the database\<close>

lemma good_trans_same: "good_step u v \<Longrightarrow> same_core w v \<Longrightarrow> good_step u w"
  using good_step_trans good_same_core by (fastforce simp: good_step_def)

lemma good_offline_fire:
  assumes "core_ok (hb_world h)" shows "good_step (hb_world h) (hb_world (offline_fire X node h))"
  using good_step_refl [OF assms] good_same_core [OF assms same_core_mail_only [OF mail_only_alerts(2)]]
  by (auto simp: offline_fire_def Let_def upd_world_def conn_of_def split: option.split)

lemma good_deregister:
  assumes "core_ok (hb_world h)" shows "good_step (hb_world h) (hb_world (deregisterNode X node h))"
proof -
  let ?h = "cancelOfflineAlert node (upd_world (\<lambda>w. upd_node node (\<lambda>n. n\<lparr>n_online := False, n_last_seen := Some (clock w)\<rparr>) w)
      (h\<lparr>connections := AList.delete node (connections h)\<rparr>))"
  have 1: "good_step (hb_world h) (hb_world ?h)" using upd_node_good [OF assms] by simp
  then have "core_ok (hb_world ?h)" by (simp add: good_step_def)
  from good_offline_fire [OF this] have "good_step (hb_world h) (hb_world (offline_fire X node ?h))" by (rule good_step_trans [OF 1])
  with 1 show ?thesis by (simp add: deregisterNode_def Let_def)
qed

lemma good_hello:
  assumes "core_ok (hb_world h)" shows "good_step (hb_world h) (hb_world (snd (handleHello X i node token v caps h)))"
  using good_step_refl [OF assms] register_row_good [OF assms]
  by (auto simp: handleHello_def Let_def registerNode_def split: node_auth.split option.split)

lemma same_core_drain_loop: "same_core (hb_world (snd (drain_loop X sends node i n h))) (hb_world h)"
proof (induction n arbitrary: h)
  case 0
  then show ?case by (simp add: same_core_refl)
next
  case (Suc n)
  obtain r w where c: "claimTask X node (worker_id node) (hb_world h) = (r, w)" by fastforce
  have w: "same_core w (hb_world h)" using same_core_queue(7) [of X node "worker_id node" "hb_world h"] c by simp
  show ?case
  proof (cases r)
    case (Inr x)
    show ?thesis
    proof (cases x)
      case (Some jf)
      obtain j f where jf: "jf = (j, f)" by fastforce
      let ?h = "ws_send i f (h\<lparr>hb_world := mark_sent node f (ackTask X node j (worker_id node) w)\<rparr>)"
      have "same_core (hb_world ?h) (hb_world h)"
        using same_core_trans [OF same_core_mark_sent same_core_trans [OF same_core_queue(2) w]] by simp
      with Suc.IH [of ?h] same_core_trans have "same_core (hb_world (snd (drain_loop X sends node i n ?h))) (hb_world h)" by blast
      with Inr Some jf c same_core_trans [OF same_core_queue(3) w] show ?thesis by simp
    qed (use c Inr w in simp)
  qed (use c w in simp)
qed

lemma good_drain:
  assumes "core_ok (hb_world h)" shows "good_step (hb_world h) (hb_world (snd (drainNode X sends node i h)))"
proof -
  have "good_step (hb_world h) (hb_world (deregisterNode X node (ws_close i c r h)))" for c r
    using good_deregister [of "ws_close i c r h"] assms by simp
  with good_step_refl [OF assms] good_same_core [OF assms same_core_drain_loop] show ?thesis
    by (simp add: drainNode_def split: option.split)
qed

lemma good_start_deliveries:
  assumes "core_ok (hb_world h)" shows "good_step (hb_world h) (hb_world (start_deliveries X lab node user h))"
proof -
  obtain a w1 where a: "deliver_begin X lab node user (hb_world h) = (a, w1)" by fastforce
  have 1: "good_step (hb_world h) w1" using good_result_ops(4) [OF assms, of X lab node user] a by simp
  obtain b w2 where b: "completion_begin lab node w1 = (b, w2)" by fastforce
  have "core_ok w1" using 1 by (simp add: good_step_def)
  then have "good_step w1 w2" using good_result_ops(6) [of w1 lab node] b by simp
  with 1 good_step_trans show ?thesis by (fastforce simp: start_deliveries_def a b)
qed

lemma good_lab_result:
  assumes "core_ok (hb_world h)" shows "good_step (hb_world h) (hb_world (lab_result X node t params frame lab h))"
proof -
  note g = good_result_ops [OF assms]
  have "good_step (hb_world h) (hb_world (start_deliveries X lab node user (upd_world (markPlacementMemberState lab node user st e) h)))"
    for user st e
  proof -
    have "core_ok (hb_world (upd_world (markPlacementMemberState lab node user st e) h))" using g(2) by (simp add: good_step_def)
    from good_step_trans [OF _ good_start_deliveries [OF this]] g(2) show ?thesis by simp
  qed
  with g good_step_refl [OF assms] show ?thesis by (simp add: lab_result_def Let_def)
qed

lemma good_lifecycle:
  assumes "core_ok (hb_world h)" shows "good_step (hb_world h) (hb_world (snd (result_lifecycle X node t frame h)))"
proof -
  have "good_step (hb_world h) (set_capabilities node c (hb_world h))" for c
    unfolding set_capabilities_def by (rule upd_node_good [OF assms]) simp_all
  moreover have "good_step (hb_world h) (completeStudentRemoval X u (hb_world h))" for u
    by (rule good_same_core [OF assms same_core_queue(9)])
  ultimately show ?thesis using good_lab_result [OF assms] good_step_refl [OF assms]
    by (auto simp: result_lifecycle_def Let_def split: option.split json.split)
qed

lemma same_core_result_log: "same_core (result_log frame w) w"
  using same_core_queue(8) by (auto simp: result_log_def same_core_refl split: option.split)

lemma good_result:
  assumes "core_ok (hb_world h)" shows "good_step (hb_world h) (hb_world (snd (handleResult X node frame h)))"
proof -
  obtain ch w where m: "markTaskState node (rf_id frame) (if rf_ok frame then TOk else TFailed) (rf_result frame)
      (if rf_ok frame then None else rf_error frame) (rf_cached frame) (hb_world h) = (ch, w)" by fastforce
  have w: "same_core w (hb_world h)" using same_core_queue(4) m by (metis snd_conv)
  have g: "good_step (hb_world h) w" by (rule good_same_core [OF assms w])
  have alert: "good_step (hb_world h) (alertTaskFailed X a b c w)" for a b c
    by (rule good_trans_same [OF g same_core_mail_only [OF mail_only_alerts(3)]])
  have log: "good_step (hb_world h) (result_log frame v)" if "good_step (hb_world h) v" for v
    by (rule good_trans_same [OF that same_core_result_log])
  have rest: "good_step (hb_world h) (hb_world (snd (and_then (result_lifecycle X node t frame k) (\<lambda>_ h. (Inr (), upd_world (result_log frame) h)))))"
    if "good_step (hb_world h) (hb_world k)" for t k
  proof -
    have "core_ok (hb_world k)" using that by (simp add: good_step_def)
    then have "good_step (hb_world h) (hb_world (snd (result_lifecycle X node t frame k)))"
      using good_step_trans [OF that good_lifecycle] by blast
    then show ?thesis by (rule and_then_pres [where I = "\<lambda>k. good_step (hb_world h) (hb_world k)"]) (simp add: log)
  qed
  show ?thesis
    using g alert log rest by (auto simp: handleResult_def m Let_def split: option.split)
qed

lemma same_core_handleLog: "same_core (handleLog X node frame w) w"
  unfolding handleLog_def Let_def
  by (rule same_core_trans [OF same_core_mail_only [OF mail_only_alerts(1)] same_core_queue(8)])

lemma same_core_emailGpu: "same_core (emailGpuEvent X node user lab pid st w) w"
proof -
  have "same_core (send_mail m (w\<lparr>gpu_mail_state := g\<rparr>)) w" for m g by (rule same_coreI) simp_all
  then show ?thesis by (simp add: emailGpuEvent_def Let_def same_core_refl split: option.split)
qed

lemma same_core_handleEvent: "same_core (handleEvent X node kind payload ts w) w"
proof -
  have "same_core (w\<lparr>gpu_events := e\<rparr>) w" for e by (rule same_coreI) simp_all
  from same_core_trans [OF same_core_emailGpu this] show ?thesis
    by (simp add: handleEvent_def Let_def same_core_refl)
qed

lemma good_ingestFrame:
  assumes "core_ok (hb_world h)" shows "good_step (hb_world h) (hb_world (snd (ingestFrame X node frame h)))"
proof (cases frame)
  case (TelemetryFrame p)
  with telemetry_good [OF assms] show ?thesis by (simp add: ingestFrame_def lift_world_def split_beta)
qed (use good_result [OF assms] good_step_refl [OF assms] good_same_core [OF assms same_core_queue(6)]
    good_same_core [OF assms same_core_handleLog] good_same_core [OF assms same_core_handleEvent] in
    \<open>simp_all add: ingestFrame_def\<close>)

lemma good_message:
  assumes "core_ok (hb_world h)" shows "good_step (hb_world h) (hb_world (snd (on_message X i raw h)))"
proof -
  let ?h = "\<lambda>b. upd_sock i (\<lambda>s. s\<lparr>sk_bucket := b\<rparr>) h"
  have "good_step (hb_world h) (hb_world (snd (ingestFrame X node frame (?h b))))" for node frame b
    using good_ingestFrame [of "?h b"] assms by simp
  moreover have "good_step (hb_world h) (hb_world (snd (handleHello X i n t v c (?h b))))" for n t v c b
    using good_hello [of "?h b"] assms by simp
  ultimately show ?thesis using good_step_refl [OF assms]
    by (simp add: on_message_def split_beta Let_def split: option.split inbound.split)
qed

lemma good_finish_job:
  assumes "core_ok w" shows "good_step w (finish_job j oc w)"
  using good_result_ops(5,7) [OF assms] good_same_core [OF assms same_core_queue(8)]
  by (auto simp: finish_job_def job_log_def split: job.split sum.split)

lemma good_restart: "core_ok (hb_world h) \<Longrightarrow> good_step (hb_world h) (hb_world (restart h))"
  by (rule good_same_core) (simp_all add: restart_def same_coreI)

lemma good_settled:
  assumes "core_ok (hb_world h)" "good_step (hb_world h) (hb_world (snd r))"
  shows "good_step (hb_world h) (hb_world (settled r))"
proof (cases r)
  case (Pair x k)
  have "core_ok (hb_world k)" using assms(2) Pair by (simp add: good_step_def)
  with good_step_trans [OF assms(2) good_restart] assms(2) Pair show ?thesis
    by (cases x) (simp_all add: settled_def)
qed

lemma good_hub_step:
  assumes "hub_step X h h'" "core_ok (hb_world h)" shows "good_step (hb_world h) (hb_world h')"
  using assms
proof (induction rule: hub_step.induct)
  case (message i h raw)
  then show ?case by (intro good_settled good_message)
next
  case (tick h sends node i)
  then show ?case by (intro good_settled good_drain)
next
  case (closed i h)
  let ?h = "upd_sock i (\<lambda>s. s\<lparr>sk_hello_timer := False, sk_ready := Closed\<rparr>) h"
  have c: "core_ok (hb_world ?h)" using closed by simp
  show ?case using good_step_refl [OF c] good_deregister [OF c] by (simp add: on_close_def deregister_socket_def split: option.split)
next
  case (errored i h)
  let ?h = "upd_sock i (\<lambda>s. s\<lparr>sk_hello_timer := False, sk_ready := Closing\<rparr>) h"
  have c: "core_ok (hb_world ?h)" using errored by simp
  show ?case using good_step_refl [OF c] good_deregister [OF c] by (simp add: on_error_def deregister_socket_def split: option.split)
next
  case (job_done k h outcome)
  then show ?case using good_finish_job good_step_refl by (simp add: settle_job_def)
qed (simp_all add: good_step_refl good_offline_fire good_restart)

end
