(* ===== verification/Connections.thy ===== *)
theory Connections
  imports Hub_Facts Delivery
begin

text \<open>
  Connections, the online flag and offline alerts: an invariant of the hub's events, the order in which
  a consumer tick delivers tasks, and what a revoked, duplicate or superseded socket can still do.
\<close>

section \<open>The online flag\<close>

definition online_col :: "'h world \<Rightarrow> (string \<times> bool) list" where
  "online_col w = map (\<lambda>n. (n_name n, n_online n)) (rows (nodes w))"

lemma find_image_cong:
  assumes "\<And>x y. g x = g y \<Longrightarrow> P x = P y"
  shows "map g xs = map g ys \<Longrightarrow> map_option g (List.find P xs) = map_option g (List.find P ys)"
proof (induction xs arbitrary: ys)
  case (Cons x xs)
  then obtain y zs where y: "ys = y # zs" "g x = g y" "map g xs = map g zs" by (cases ys) simp_all
  show ?case using assms [OF y(2)] Cons.IH [OF y(3)] y(1,2) by (cases "P x") simp_all
qed simp

lemma online_lookup:
  assumes "online_col w' = online_col w"
  shows "map_option n_online (node_by_name n w') = map_option n_online (node_by_name n w)"
proof -
  have "map_option (\<lambda>n. (n_name n, n_online n)) (node_by_name n w') = map_option (\<lambda>n. (n_name n, n_online n)) (node_by_name n w)"
    unfolding node_by_name_def tbl_get_def by (rule find_image_cong) (use assms in \<open>auto simp: online_col_def\<close>)
  then show ?thesis by (cases "node_by_name n w'"; cases "node_by_name n w") auto
qed

lemma online_col_same: "nodes w' = nodes w \<Longrightarrow> online_col w' = online_col w"
  by (simp add: online_col_def)

lemma online_col_core: "same_core w' w \<Longrightarrow> online_col w' = online_col w"
  by (simp add: online_col_def same_core_def same_registry_def)

lemma online_col_upd: "(\<And>n. n_name (f n) = n_name n) \<Longrightarrow> (\<And>n. n_online (f n) = n_online n) \<Longrightarrow> online_col (upd_node node f w) = online_col w"
  by (simp add: online_col_def upd_node_def rows_tbl_update)

lemma online_telemetry: "online_col (snd (ingestTelemetry X node payload w)) = online_col w"
proof (rule ingestTelemetry_pres [where I = "\<lambda>v. online_col v = online_col w"])
  show "online_col (snd (ingest_storage X node now ds v)) = online_col w" if "online_col v = online_col w" for now ds v
    using that ingest_storage_frame [of X node now ds v] by (simp add: samples_only_def online_col_def)
  show "online_col (snd (ingest_scan node u v)) = online_col w" if "online_col v = online_col w" for u v
    using that ingest_scan_cases [of node u v] by (auto simp: online_col_def)
  show "online_col (upd_node node f v) = online_col w" if "telemetry_write f" "online_col v = online_col w" for f v
    using that by (simp add: online_col_upd telemetry_write_keys)
qed (simp_all add: online_col_def alert_frame)

lemma online_registry: "same_registry w' w \<Longrightarrow> online_col w' = online_col w"
  by (simp add: online_col_def same_registry_def)

lemma online_deliveries: "online_col (hb_world (start_deliveries X lab node user h)) = online_col (hb_world h)"
proof -
  obtain a w1 where a: "deliver_begin X lab node user (hb_world h) = (a, w1)" by fastforce
  obtain b w2 where b: "completion_begin lab node w1 = (b, w2)" by fastforce
  have "online_col w2 = online_col w1" using online_registry [OF registry_placement_ops(12), of lab node w1] b by simp
  moreover have "online_col w1 = online_col (hb_world h)"
    using online_registry [OF registry_placement_ops(10), of X lab node user "hb_world h"] a by simp
  ultimately show ?thesis by (simp add: start_deliveries_def a b)
qed

lemma online_lifecycle: "online_col (hb_world (snd (result_lifecycle X node t frame h))) = online_col (hb_world h)"
proof -
  note r = online_registry [OF registry_placement_ops(6)] online_registry [OF registry_placement_ops(7)] online_registry [OF registry_placement_ops(8)]
  have "online_col (hb_world (lab_result X node t params frame lab h)) = online_col (hb_world h)" for params lab
    by (simp add: lab_result_def Let_def r online_deliveries)
  moreover have "online_col (set_capabilities node c w) = online_col w" for c and w :: "'a world"
    by (simp add: set_capabilities_def online_col_upd)
  ultimately show ?thesis
    by (simp add: result_lifecycle_def Let_def online_col_core [OF same_core_queue(9)] split: option.split json.split)
qed

lemma online_result: "online_col (hb_world (snd (handleResult X node frame h))) = online_col (hb_world h)"
proof -
  obtain ch w where m: "markTaskState node (rf_id frame) (if rf_ok frame then TOk else TFailed) (rf_result frame)
      (if rf_ok frame then None else rf_error frame) (rf_cached frame) (hb_world h) = (ch, w)" by fastforce
  have w: "online_col w = online_col (hb_world h)" using online_col_core [OF same_core_queue(4)] m by (metis snd_conv)
  have rest: "online_col (hb_world (snd (and_then (result_lifecycle X node t frame k) (\<lambda>_ h. (Inr (), upd_world (result_log frame) h))))) = online_col (hb_world k)"
    for t k
    by (rule and_then_pres [where I = "\<lambda>k'. online_col (hb_world k') = online_col (hb_world k)"])
      (simp_all add: online_lifecycle online_col_core [OF same_core_result_log])
  show ?thesis
    using w rest by (simp add: handleResult_def m Let_def online_col_core [OF same_core_result_log]
        online_col_core [OF same_core_mail_only [OF mail_only_alerts(3)]] split: option.split)
qed

lemma online_frame: "online_col (hb_world (snd (ingestFrame X node frame h))) = online_col (hb_world h)"
  by (cases frame) (simp_all add: ingestFrame_def online_result lift_world_def split_beta online_telemetry
      online_col_core [OF same_core_queue(6)] online_col_core [OF same_core_handleLog] online_col_core [OF same_core_handleEvent])

end
