(* ===== verification/Presence.thy ===== *)
theory Presence
  imports Connections
begin

text \<open>
  Which nodes are connected: a specification (a set of names that nodes join and leave, emptied by a
  restart), the proof that every event of the hub is a step of it, and the invariant that ties the
  connection map to the online column and to the pending offline alerts.
\<close>

section \<open>The specification\<close>

definition connected :: "'h hub \<Rightarrow> string \<Rightarrow> bool" where
  "connected h n \<longleftrightarrow> conn_of n h \<noteq> None"

definition shown_online :: "'h hub \<Rightarrow> string \<Rightarrow> bool" where
  "shown_online h n \<longleftrightarrow> map_option n_online (node_by_name n (hb_world h)) = Some True"

definition alert_pending :: "'h hub \<Rightarrow> string \<Rightarrow> bool" where
  "alert_pending h n \<longleftrightarrow> map_of (pendingOfflineAlerts h) n \<noteq> None"

text \<open>A node joins, a node leaves (with an offline alert pending or already settled), an alert is settled, or the process restarts.\<close>

inductive presence_step :: "'h hub \<Rightarrow> 'h hub \<Rightarrow> bool" where
  stay: "connected h' = connected h \<Longrightarrow> shown_online h' = shown_online h \<Longrightarrow> alert_pending h' = alert_pending h \<Longrightarrow> presence_step h h'"
| join: "connected h' = (connected h)(n := True) \<Longrightarrow> shown_online h' = (shown_online h)(n := True) \<Longrightarrow>
    alert_pending h' = (alert_pending h)(n := False) \<Longrightarrow> presence_step h h'"
| leave: "connected h' = (connected h)(n := False) \<Longrightarrow> shown_online h' = (shown_online h)(n := False) \<Longrightarrow>
    alert_pending h' = (alert_pending h)(n := b) \<Longrightarrow> presence_step h h'"
| settle: "connected h' = connected h \<Longrightarrow> shown_online h' = shown_online h \<Longrightarrow>
    alert_pending h' = (alert_pending h)(n := False) \<Longrightarrow> presence_step h h'"
| crash: "connected h' = (\<lambda>_. False) \<Longrightarrow> shown_online h' = shown_online h \<Longrightarrow> alert_pending h' = (\<lambda>_. False) \<Longrightarrow> presence_step h h'"

inductive_cases presence_stepE: "presence_step h h'"

text \<open>A connected node is shown online and has no offline alert pending.\<close>

definition hub_ok :: "'h hub \<Rightarrow> bool" where
  "hub_ok h \<longleftrightarrow> (\<forall>n. connected h n \<longrightarrow> shown_online h n \<and> \<not> alert_pending h n)"

lemma hub_ok_step: "presence_step h h' \<Longrightarrow> hub_ok h \<Longrightarrow> hub_ok h'"
  by (erule presence_stepE) (simp_all add: hub_ok_def)

text \<open>Since the last restart, exactly the connected nodes among those seen are shown online.\<close>

definition online_exact :: "'h hub \<Rightarrow> bool" where
  "online_exact h \<longleftrightarrow> shown_online h = connected h"

lemma online_exact_step:
  "presence_step h h' \<Longrightarrow> online_exact h \<Longrightarrow> online_exact h' \<or> (connected h' = (\<lambda>_. False) \<and> shown_online h' = connected h)"
  by (erule presence_stepE) (auto simp: online_exact_def)

section \<open>The handlers\<close>

lemma shown_online_col:
  assumes "online_col (hb_world h') = online_col (hb_world h)" shows "shown_online h' = shown_online h"
  using online_lookup [OF assms] by (auto simp: shown_online_def fun_eq_iff)

lemma stay_step:
  assumes "connections h' = connections h" "pendingOfflineAlerts h' = pendingOfflineAlerts h"
    "online_col (hb_world h') = online_col (hb_world h)"
  shows "presence_step h h'"
  by (rule presence_step.stay) (use assms shown_online_col in \<open>auto simp: connected_def conn_of_def alert_pending_def fun_eq_iff\<close>)

lemma pending_frame [frame_simps, simp]:
  "pendingOfflineAlerts (upd_sock i f h) = pendingOfflineAlerts h" "pendingOfflineAlerts (ws_close i c r h) = pendingOfflineAlerts h"
  "pendingOfflineAlerts (ws_terminate i h) = pendingOfflineAlerts h" "pendingOfflineAlerts (ws_send i fr h) = pendingOfflineAlerts h"
  "pendingOfflineAlerts (upd_world g h) = pendingOfflineAlerts h" "pendingOfflineAlerts (hello_timeout i h) = pendingOfflineAlerts h"
  "pendingOfflineAlerts (on_connection h) = pendingOfflineAlerts h" "pendingOfflineAlerts (on_pong i h) = pendingOfflineAlerts h"
  by (simp_all add: upd_sock_def ws_close_def ws_terminate_def ws_send_def upd_world_def hello_timeout_def on_connection_def on_pong_def Let_def)

lemma frame_conn [simp]:
  "connections (snd (ingestFrame X node frame h)) = connections h"
  "pendingOfflineAlerts (snd (ingestFrame X node frame h)) = pendingOfflineAlerts h"
proof -
  have d: "connections (start_deliveries X lab node user k) = connections k \<and> pendingOfflineAlerts (start_deliveries X lab node user k) = pendingOfflineAlerts k"
    for lab user and k :: "'a hub" by (simp add: start_deliveries_def split_beta)
  have l: "connections (lab_result X node t p f lab k) = connections k \<and> pendingOfflineAlerts (lab_result X node t p f lab k) = pendingOfflineAlerts k"
    for t p f lab and k :: "'a hub" by (simp add: lab_result_def Let_def d)
  have c: "connections (snd (result_lifecycle X node t f k)) = connections k \<and> pendingOfflineAlerts (snd (result_lifecycle X node t f k)) = pendingOfflineAlerts k"
    for t f and k :: "'a hub" by (simp add: result_lifecycle_def Let_def l split: option.split json.split)
  have r: "connections (snd (handleResult X node f k)) = connections k \<and> pendingOfflineAlerts (snd (handleResult X node f k)) = pendingOfflineAlerts k"
    for f and k :: "'a hub"
  proof -
    have "connections (snd (and_then (result_lifecycle X node t f k') (\<lambda>_ h. (Inr (), upd_world (result_log f) h)))) = connections k' \<and>
      pendingOfflineAlerts (snd (and_then (result_lifecycle X node t f k') (\<lambda>_ h. (Inr (), upd_world (result_log f) h)))) = pendingOfflineAlerts k'"
      for t and k' :: "'a hub" by (rule and_then_pres) (use c in simp_all)
    then show ?thesis by (simp add: handleResult_def Let_def split_beta split: option.split)
  qed
  show "connections (snd (ingestFrame X node frame h)) = connections h"
    "pendingOfflineAlerts (snd (ingestFrame X node frame h)) = pendingOfflineAlerts h"
    using r by (cases frame; simp add: ingestFrame_def lift_world_def split_beta)+
qed

lemma ingestFrame_stays: "presence_step h (snd (ingestFrame X node frame h))"
  by (rule stay_step) (simp_all add: online_frame)

lemma shown_online_upd:
  assumes "\<And>n. n_name (f n) = n_name n" "nodes (hb_world h') = nodes (upd_node node f (hb_world h))"
  shows "shown_online h' n = (if n = node then map_option (\<lambda>r. n_online (f r)) (node_by_name n (hb_world h)) = Some True else shown_online h n)"
proof -
  have "node_by_name n (hb_world h') = map_option (\<lambda>r. if n_name r = node then f r else r) (node_by_name n (hb_world h))"
    using assms by (simp add: node_by_name_def upd_node_def tbl_get_update)
  moreover have "node_by_name n (hb_world h) = Some r \<Longrightarrow> n_name r = n" for r
    unfolding node_by_name_def by (drule tbl_get_Some) simp
  ultimately show ?thesis by (cases "node_by_name n (hb_world h)") (auto simp: shown_online_def)
qed

lemma offline_fire_effect:
  "connected (offline_fire X node h) = connected h" "shown_online (offline_fire X node h) = shown_online h"
  "alert_pending (offline_fire X node h) = (alert_pending h)(node := False)"
proof -
  have c: "connections (offline_fire X node h) = connections h"
    "pendingOfflineAlerts (offline_fire X node h) = AList.delete node (pendingOfflineAlerts h)"
    by (simp_all add: offline_fire_def Let_def split: option.split)
  show "connected (offline_fire X node h) = connected h" by (simp add: connected_def conn_of_def c fun_eq_iff)
  show "alert_pending (offline_fire X node h) = (alert_pending h)(node := False)"
    by (simp add: alert_pending_def c fun_eq_iff delete_conv)
  have "online_col (hb_world (offline_fire X node h)) = online_col (hb_world h)"
    by (simp add: offline_fire_def Let_def online_col_core [OF same_core_mail_only [OF mail_only_alerts(2)]] split: option.split)
  then show "shown_online (offline_fire X node h) = shown_online h" by (rule shown_online_col)
qed

lemma leave_settled:
  assumes l: "connected v = (connected h)(node := False)" "shown_online v = (shown_online h)(node := False)"
      "alert_pending v = (alert_pending h)(node := b)"
    and s: "connected w = connected v" "shown_online w = shown_online v" "alert_pending w = (alert_pending v)(node := b')"
  shows "presence_step h w"
  by (rule presence_step.leave [where n = node and b = b']) (simp_all add: l s)

lemma deregister_leaves: "presence_step h (deregisterNode X node h)"
proof -
  let ?off = "\<lambda>n. n\<lparr>n_online := False, n_last_seen := Some (clock (hb_world h))\<rparr>"
  define v where "v = cancelOfflineAlert node (upd_world (\<lambda>w. upd_node node (\<lambda>n. n\<lparr>n_online := False, n_last_seen := Some (clock w)\<rparr>) w)
      (h\<lparr>connections := AList.delete node (connections h)\<rparr>))"
  have vw: "hb_world v = upd_node node ?off (hb_world h)" and vc: "connections v = AList.delete node (connections h)"
    and vp: "pendingOfflineAlerts v = AList.delete node (pendingOfflineAlerts h)"
    by (simp_all add: v_def cancelOfflineAlert_def upd_world_def)
  have c: "connected v = (connected h)(node := False)" by (simp add: connected_def conn_of_def vc delete_conv fun_eq_iff)
  have p: "alert_pending v = (alert_pending h)(node := False)" by (simp add: alert_pending_def vp delete_conv fun_eq_iff)
  have o: "shown_online v = (shown_online h)(node := False)"
    using shown_online_upd [of ?off v node h] vw by (auto simp: fun_eq_iff)
  obtain g where "deregisterNode X node h = offline_fire X node v \<or>
      deregisterNode X node h = v\<lparr>pendingOfflineAlerts := AList.update node g (pendingOfflineAlerts v)\<rparr>"
    unfolding deregisterNode_def Let_def v_def [symmetric] by (metis (full_types))
  then show ?thesis
  proof
    assume d: "deregisterNode X node h = offline_fire X node v"
    show ?thesis unfolding d
    proof (rule leave_settled [OF c o p])
      show "connected (offline_fire X node v) = connected v" "shown_online (offline_fire X node v) = shown_online v"
        "alert_pending (offline_fire X node v) = (alert_pending v)(node := False)"
        using offline_fire_effect [of X node v] by simp_all
    qed
  next
    assume d: "deregisterNode X node h = v\<lparr>pendingOfflineAlerts := AList.update node g (pendingOfflineAlerts v)\<rparr>"
    show ?thesis unfolding d
      by (rule leave_settled [OF c o p, where b' = True])
        (simp_all add: connected_def conn_of_def shown_online_def alert_pending_def fun_eq_iff update_conv)
  qed
qed

lemma register_row_online:
  assumes "hb_world h' = register_row node caps (hb_world h)"
  shows "shown_online h' = (shown_online h)(node := True)"
proof (cases "node_by_name node (hb_world h)")
  case None
  have "node_by_name n (hb_world h') = node_by_name n (hb_world h)" if "n \<noteq> node" for n
    using None that by (simp add: assms register_row_def Let_def node_by_name_def tbl_get_insert split: option.split)
  moreover have "map_option n_online (node_by_name node (hb_world h')) = Some True"
    using None by (simp add: assms register_row_def Let_def node_by_name_def tbl_get_insert)
  ultimately show ?thesis by (simp add: shown_online_def fun_eq_iff)
next
  case (Some r)
  let ?f = "\<lambda>n. n\<lparr>n_last_seen := Some (clock (hb_world h)), n_online := True, n_capabilities := Some (json_text caps)\<rparr>"
  have "nodes (hb_world h') = nodes (upd_node node ?f (hb_world h))" using Some by (simp add: assms register_row_def Let_def)
  from shown_online_upd [OF _ this] Some show ?thesis by (auto simp: fun_eq_iff)
qed

lemma handleHello_presence: "presence_step h (snd (handleHello X i node token v caps h))"
proof (cases "fst (handleHello X i node token v caps h)")
  case None
  then have "connections (snd (handleHello X i node token v caps h)) = connections h \<and>
      pendingOfflineAlerts (snd (handleHello X i node token v caps h)) = pendingOfflineAlerts h \<and>
      hb_world (snd (handleHello X i node token v caps h)) = hb_world h"
    by (simp add: handleHello_def Let_def split: node_auth.splits if_split_asm)
  then show ?thesis by (intro stay_step) simp_all
next
  case (Some n)
  let ?c = "case caps of None \<Rightarrow> JObj [] | Some c \<Rightarrow> c"
  define u where "u = (case conn_of node h of None \<Rightarrow> h | Some c \<Rightarrow> ws_close (cn_sock c) 1005 [] h)"
  have u: "connections u = connections h" "pendingOfflineAlerts u = pendingOfflineAlerts h" "hb_world u = hb_world h"
    by (simp_all add: u_def split: option.split)
  obtain th where e: "snd (handleHello X i node token v caps h) = (registerNode node ?c u)\<lparr>connections := AList.update node
      \<lparr>cn_sock = i, cn_tokenHash = th, cn_isAlive = True\<rparr> (connections (registerNode node ?c u))\<rparr>"
    using Some unfolding handleHello_def Let_def u_def [symmetric] by (simp split: node_auth.splits if_split_asm)
  then obtain c where h: "connections (snd (handleHello X i node token v caps h)) = AList.update node c (connections h)"
    "pendingOfflineAlerts (snd (handleHello X i node token v caps h)) = AList.delete node (pendingOfflineAlerts h)"
    "hb_world (snd (handleHello X i node token v caps h)) = register_row node ?c (hb_world h)"
    by (simp add: registerNode_def cancelOfflineAlert_def upd_world_def u)
  show ?thesis
    by (rule presence_step.join [where n = node, OF _ register_row_online [OF h(3)]])
      (auto simp: connected_def alert_pending_def conn_of_def h update_conv delete_conv fun_eq_iff)
qed

lemma stay_then:
  assumes "connections u = connections h" "pendingOfflineAlerts u = pendingOfflineAlerts h" "hb_world u = hb_world h" "presence_step u v"
    "connections w = connections v" "pendingOfflineAlerts w = pendingOfflineAlerts v" "hb_world w = hb_world v"
  shows "presence_step h w"
proof -
  have "connected u = connected h" "shown_online u = shown_online h" "alert_pending u = alert_pending h"
    using assms(1-3) by (auto simp: connected_def conn_of_def shown_online_def alert_pending_def fun_eq_iff)
  moreover have "connected w = connected v" "shown_online w = shown_online v" "alert_pending w = alert_pending v"
    using assms(5-7) by (auto simp: connected_def conn_of_def shown_online_def alert_pending_def fun_eq_iff)
  ultimately show ?thesis using assms(4) by (elim presence_stepE) (auto intro: presence_step.intros)
qed

lemma message_presence: "presence_step h (snd (on_message X i raw h))"
proof -
  obtain ok b where b: "socket_spend (clock (hb_world h)) (sk_bucket (hb_socks h ! i)) = (ok, b)" by (rule prod.exhaust)
  define u where "u = upd_sock i (\<lambda>s. s\<lparr>sk_bucket := b\<rparr>) h"
  have u: "connections u = connections h" "pendingOfflineAlerts u = pendingOfflineAlerts h" "hb_world u = hb_world h" by (simp_all add: u_def)
  have stay: "presence_step h u" by (rule stay_step) (simp_all add: u)
  show ?thesis
  proof (cases "raw = None \<or> \<not> ok \<or> (raw \<noteq> None \<and> parseInboundFrame (the raw) = None)")
    case True
    have "presence_step h (ws_close i c r u)" for c r by (rule stay_step) (simp_all add: u)
    with True stay show ?thesis by (auto simp: on_message_def b u_def [symmetric] split: option.split)
  next
    case False
    then obtain parsed f where p: "raw = Some parsed" "ok" "parseInboundFrame parsed = Some f" by auto
    show ?thesis
    proof (cases "\<exists>n t v c. f = HelloFrame n t v c")
      case True
      then obtain n t v c where f: "f = HelloFrame n t v c" by blast
      have "presence_step h (upd_sock i g (snd (handleHello X i n t v c u)))" for g
        by (rule stay_then [OF u handleHello_presence]) simp_all
      then show ?thesis using p f by (simp add: on_message_def b u_def [symmetric] split_beta)
    next
      case False
      have "presence_step h (snd (ingestFrame X node f u))" for node
        by (rule stay_then [OF u ingestFrame_stays]) simp_all
      then show ?thesis using p False stay by (auto simp: on_message_def b u_def [symmetric] split: option.split inbound.split)
    qed
  qed
qed

lemma drain_loop_conn:
  "connections (snd (drain_loop X sends node i n h)) = connections h \<and>
   pendingOfflineAlerts (snd (drain_loop X sends node i n h)) = pendingOfflineAlerts h"
  by (induction n arbitrary: h) (auto split: prod.split sum.split option.split)

lemma drain_presence: "presence_step h (snd (drainNode X sends node i h))"
proof -
  have "presence_step h (snd (drain_loop X sends node i 20 h))"
    by (rule stay_step) (simp_all add: drain_loop_conn online_col_core [OF same_core_drain_loop])
  moreover have "presence_step h (deregisterNode X node (ws_close i c r h))" for c r
    by (rule stay_then [OF _ _ _ deregister_leaves]) simp_all
  moreover have "presence_step h h" by (rule stay_step) simp_all
  ultimately show ?thesis by (simp add: drainNode_def split: option.split)
qed

lemma crash_presence: "presence_step h v \<Longrightarrow> shown_online v = shown_online h \<Longrightarrow> presence_step h (restart v)"
  by (rule presence_step.crash) (simp_all add: connected_def conn_of_def alert_pending_def restart_def shown_online_def node_by_name_def fun_eq_iff)

text \<open>What throws is a frame handler or a claim: neither touches the registry of connections.\<close>

lemma settled_presence:
  assumes "presence_step h (snd r)" "\<And>e. fst r = Inl e \<Longrightarrow> shown_online (snd r) = shown_online h"
  shows "presence_step h (settled r)"
proof (cases r)
  case (Pair x v)
  then show ?thesis using assms crash_presence [of h v] by (cases x) (simp_all add: settled_def)
qed

lemma message_throws:
  assumes "fst (on_message X i raw h) = Inl e" shows "shown_online (snd (on_message X i raw h)) = shown_online h"
proof -
  obtain ok b where b: "socket_spend (clock (hb_world h)) (sk_bucket (hb_socks h ! i)) = (ok, b)" by (rule prod.exhaust)
  obtain node f where e: "on_message X i raw h = ingestFrame X node f (upd_sock i (\<lambda>s. s\<lparr>sk_bucket := b\<rparr>) h)"
    using assms unfolding on_message_def b Let_def by (auto simp: split_beta split: if_split_asm option.splits inbound.splits)
  show ?thesis unfolding e by (rule shown_online_col) (simp add: online_frame)
qed

lemma drain_throws:
  assumes "fst (drainNode X sends node i h) = Inl e" shows "shown_online (snd (drainNode X sends node i h)) = shown_online h"
proof -
  have "drainNode X sends node i h = drain_loop X sends node i 20 h"
    using assms by (auto simp: drainNode_def split: if_split_asm option.splits)
  then show ?thesis by (metis shown_online_col online_col_core same_core_drain_loop)
qed

lemma liveness_conn:
  "connected (liveness h) = connected h" "pendingOfflineAlerts (liveness h) = pendingOfflineAlerts h"
proof -
  have "pendingOfflineAlerts (fold (\<lambda>(n, c) h. if cn_isAlive c then h else ws_terminate (cn_sock c) h) cs v) = pendingOfflineAlerts v"
    for cs and v :: "'a hub" by (rule fold_frame) (simp add: split_beta)
  then show "pendingOfflineAlerts (liveness h) = pendingOfflineAlerts h" by (simp add: liveness_def Let_def)
  show "connected (liveness h) = connected h"
    by (auto simp: connected_def conn_of_def liveness_def Let_def fun_eq_iff map_of_map [symmetric] split_beta map_of_eq_None_iff image_image)
qed

lemma pong_conn: "connected (on_pong i h) = connected h"
  by (auto simp: connected_def conn_of_def on_pong_def fun_eq_iff split_beta map_of_eq_None_iff image_image)

lemma online_finish_job: "online_col (finish_job j oc w) = online_col w"
proof -
  have "online_col (job_log a b c d e f w) = online_col w" for a b c d e f
    unfolding job_log_def by (rule online_col_core [OF same_core_queue(8)])
  then show ?thesis by (simp add: finish_job_def online_registry [OF registry_placement_ops(11)]
    online_registry [OF registry_placement_ops(13)] split: job.split sum.split)
qed

lemma deregister_socket_presence:
  assumes "connections u = connections h" "pendingOfflineAlerts u = pendingOfflineAlerts h" "hb_world u = hb_world h"
  shows "presence_step h (deregister_socket X i u)"
  using stay_step [of u h] stay_then [OF assms deregister_leaves refl refl refl] assms
  by (auto simp: deregister_socket_def intro: stay_step split: option.split)

theorem hub_step_presence: "hub_step X h h' \<Longrightarrow> presence_step h h'"
proof (induction rule: hub_step.cases)
  case (message i h raw)
  then show ?case using settled_presence [OF message_presence message_throws] by simp
next
  case (tick h sends node i)
  then show ?case using settled_presence [OF drain_presence drain_throws] by simp
next
  case (closed i h)
  have "presence_step h (on_close X i h)" unfolding on_close_def by (rule deregister_socket_presence) simp_all
  with closed show ?case by simp
next
  case (errored i h)
  have "presence_step h (on_error X i h)" unfolding on_error_def by (rule deregister_socket_presence) simp_all
  with errored show ?case by simp
next
  case (sweep h)
  have "presence_step h (liveness h)"
    by (rule presence_step.stay) (simp_all add: liveness_conn alert_pending_def shown_online_def fun_eq_iff)
  with sweep show ?case by simp
next
  case (pong i h)
  have "presence_step h (on_pong i h)"
    by (rule presence_step.stay) (simp_all add: pong_conn alert_pending_def shown_online_def fun_eq_iff)
  with pong show ?case by simp
next
  case (offline h node t)
  then show ?case using presence_step.settle [OF offline_fire_effect] by simp
next
  case (job_done k h outcome)
  have "presence_step h (settle_job k outcome h)" by (rule stay_step) (simp_all add: settle_job_def online_finish_job)
  with job_done show ?case by simp
next
  case (restarted h)
  have "presence_step h (restart h)" by (rule crash_presence) (simp_all add: stay_step)
  with restarted show ?case by simp
qed (simp_all add: stay_step)

end
