(* ===== verification/Node_Auth.thy ===== *)
theory Node_Auth
  imports Nodes
begin

text \<open>
  Consequences of the authentication of agents (verifyNodeAuth, nodeStillAuthorized and the operations
  that change a node's credential, src/controller/src/lib/nodes.ts).
\<close>

lemma provisioned_auth:
  assumes "gcm_ok X" "nodeTokenHash X name token \<noteq> []" "provisionNode X name actor w = (Inr token, w')"
  shows "verifyNodeAuth X name token w' = AuthOk (nodeTokenHash X name token)"
    and "verifyNodeAuth X name t w' = AuthOk h \<Longrightarrow> t = token \<or>
        collision (sha256 X) (nodeTokenHash X name t) (nodeTokenHash X name token) \<or>
        collision (hmac_sha256_hex X (env_agentToken X)) (name @ [NUL] @ t) (name @ [NUL] @ token)"
proof -
  note p = provisionNode_ok [OF assms(3)]
  obtain n where n: "node_by_name name w' = Some n" "n_allowed n" "n_token_hash n = Some (nodeTokenHash X name token)"
    using p(4) by blast
  have "rand_bytes X (draws w) 32 \<noteq> []"
    using assms(1) unfolding gcm_ok_def by (metis list.size(3) zero_neq_numeral)
  then have "token \<noteq> []" using p(2) by (auto simp: to_hex_def)
  with n p(1) assms(2) show "verifyNodeAuth X name token w' = AuthOk (nodeTokenHash X name token)"
    by (simp add: verifyNodeAuth_iff safeEqual_def)
  assume a: "verifyNodeAuth X name t w' = AuthOk h"
  then have "h = nodeTokenHash X name token" using n by (auto simp: verifyNodeAuth_iff)
  with accepted_token_or_collision [of X name t w' name token] a p(1)
  show "t = token \<or> collision (sha256 X) (nodeTokenHash X name t) (nodeTokenHash X name token) \<or>
      collision (hmac_sha256_hex X (env_agentToken X)) (name @ [NUL] @ t) (name @ [NUL] @ token)" by blast
qed

lemma revoked_row:
  "node_by_name nm (revokeNode name actor w) = map_option (\<lambda>n. if n_name n = name then n\<lparr>n_allowed := False\<rparr> else n) (node_by_name nm w)"
proof -
  let ?v = "w\<lparr>nodes := tbl_update (\<lambda>n. n_name n = name) (\<lambda>n. n\<lparr>n_allowed := False\<rparr>) (nodes w)\<rparr>"
  have "node_by_name nm (revokeNode name actor w) = node_by_name nm ?v"
    by (rule node_by_name_frame) (simp add: revokeNode_def)
  also have "\<dots> = map_option (\<lambda>n. if n_name n = name then n\<lparr>n_allowed := False\<rparr> else n) (node_by_name nm w)"
    by (rule node_by_name_update) simp
  finally show ?thesis .
qed

lemma revoked_auth:
  "\<exists>why. verifyNodeAuth X name token (revokeNode name actor w) = AuthFail why"
  "\<not> nodeStillAuthorized name h (revokeNode name actor w)"
proof -
  have blocked: "\<not> n_allowed n" if "node_by_name name (revokeNode name actor w) = Some n" for n
    using that node_by_name_Some [of name w] by (auto simp: revoked_row)
  then have "verifyNodeAuth X name token (revokeNode name actor w) \<noteq> AuthOk k" for k
    by (auto simp: verifyNodeAuth_iff)
  then show "\<exists>why. verifyNodeAuth X name token (revokeNode name actor w) = AuthFail why"
    using node_auth.exhaust by metis
  show "\<not> nodeStillAuthorized name h (revokeNode name actor w)"
    using blocked by (auto simp: nodeStillAuthorized_def split: option.splits)
qed

lemma revoked_other:
  assumes "other \<noteq> name"
  shows "verifyNodeAuth X other t (revokeNode name actor w) = verifyNodeAuth X other t w"
    "nodeStillAuthorized other h (revokeNode name actor w) = nodeStillAuthorized other h w"
proof -
  have "node_by_name other (revokeNode name actor w) = node_by_name other w"
    using assms node_by_name_Some [of other w] by (cases "node_by_name other w") (auto simp: revoked_row)
  then show "verifyNodeAuth X other t (revokeNode name actor w) = verifyNodeAuth X other t w"
    "nodeStillAuthorized other h (revokeNode name actor w) = nodeStillAuthorized other h w"
    by (simp_all add: verifyNodeAuth_def nodeStillAuthorized_def)
qed

lemma rotated_auth:
  assumes "rotateNodeToken X name actor w = (Inr token, w')"
  shows "nodeStillAuthorized name h w' \<longleftrightarrow> h = nodeTokenHash X name token"
proof -
  have "provisionNode X name actor w = (Inr token, w')"
    using assms by (simp add: rotateNodeToken_def split: if_splits)
  from provisionNode_ok(4) [OF this] show ?thesis by (auto simp: nodeStillAuthorized_def)
qed

end
