(* ===== verification/Sessions.thy ===== *)
theory Sessions
  imports Presence Node_Auth
begin

text \<open>
  What an agent's session can do: what it must show before a message reaches the database, the order
  in which the consumer delivers the tasks of its queue, and what becomes of a revoked, a duplicate
  and a superseded connection.
\<close>

section \<open>The consumer delivers in order\<close>

definition sent_on :: "nat \<Rightarrow> 'h hub \<Rightarrow> json list" where
  "sent_on i h = sk_sent (hb_socks h ! i)"

lemma mark_sent_hq [simp]: "hq (mark_sent node f w) = hq w"
  by (simp add: mark_sent_def bumpAttempts_def split: option.split)

text \<open>The state after one delivery.\<close>

definition deliver_one :: "'h ext \<Rightarrow> string \<Rightarrow> nat \<Rightarrow> nat \<Rightarrow> json \<Rightarrow> 'h world \<Rightarrow> 'h hub \<Rightarrow> 'h hub" where
  "deliver_one X node i j f w h = ws_send i f (h\<lparr>hb_world := mark_sent node f (ackTask X node j (worker_id node) w)\<rparr>)"

lemma deliver_one_effect:
  assumes "honker_fifo X pend" "i < length (hb_socks h)"
  shows "pending pend n' (hb_world (deliver_one X node i j f w h)) = pending pend n' w"
    "sent_on i (deliver_one X node i j f w h) = sent_on i h @ [f]" "length (hb_socks (deliver_one X node i j f w h)) = length (hb_socks h)"
  using assms(2) honker_fifoD(6) [OF assms(1)]
  by (simp_all add: deliver_one_def pending_def ackTask_def sent_on_def ws_send_def upd_sock_def)

lemma drain_loop_fifo:
  assumes "honker_fifo X pend"
  shows "i < length (hb_socks h) \<Longrightarrow> map (decodeFrame X) (take n (pending pend node (hb_world h))) = map Inr fs \<Longrightarrow>
     \<exists>h'. drain_loop X (\<lambda>_. True) node i n h = (Inr (), h') \<and> sent_on i h' = sent_on i h @ fs \<and>
       pending pend node (hb_world h') = drop n (pending pend node (hb_world h))"
proof (induction n arbitrary: h fs)
  case (Suc n)
  obtain r w where c: "claimTask X node (worker_id node) (hb_world h) = (r, w)" by (rule prod.exhaust)
  show ?case
  proof (cases "pending pend node (hb_world h)")
    case Nil
    have r: "r = Inr None" using claimTask_cases(1) [OF assms Nil, of "worker_id node"] c by simp
    have "pending pend node w = []"
    proof -
      have "hk_claimOne X (nodeQueue node) (worker_id node) (hq (hb_world h)) = (None, hq w)"
        using c r by (auto simp: claimTask_def split: prod.splits option.splits sum.splits)
      from honker_fifoD(3) [OF assms this] Nil show ?thesis by (simp add: pending_def)
    qed
    with r c Nil Suc.prems show ?thesis by (simp add: sent_on_def)
  next
    case (Cons p ps)
    then obtain f gs where fs: "fs = f # gs" "decodeFrame X p = Inr f" "map (decodeFrame X) (take n ps) = map Inr gs"
      using Suc.prems(2) by (cases fs) auto
    have w: "pending pend node w = ps" and "\<exists>j. r = Inr (Some (j, f))"
      using claimTask_cases(2) [OF assms Cons, of "worker_id node"] c fs(2) by simp_all
    then obtain j where r: "r = Inr (Some (j, f))" by blast
    let ?k = "deliver_one X node i j f w h"
    have k: "pending pend node (hb_world ?k) = ps" "sent_on i ?k = sent_on i h @ [f]" "i < length (hb_socks ?k)"
      using deliver_one_effect [OF assms Suc.prems(1)] w Suc.prems(1) by simp_all
    obtain h' where "drain_loop X (\<lambda>_. True) node i n ?k = (Inr (), h')" "sent_on i h' = sent_on i ?k @ gs"
      "pending pend node (hb_world h') = drop n (pending pend node (hb_world ?k))"
      using Suc.IH [OF k(3), of gs] k(1) fs(3) by auto
    with r c k fs(1) Cons show ?thesis by (simp add: deliver_one_def [symmetric])
  qed
qed (simp add: sent_on_def)

lemma drainNode_authorised:
  assumes "socket_ready i h = Open" "conn_of node h = Some c" "cn_sock c = i" "nodeStillAuthorized node (cn_tokenHash c) (hb_world h)"
  shows "drainNode X sends node i h = drain_loop X sends node i 20 h"
  using assms by (simp add: drainNode_def)

lemma socket_ready_index: "socket_ready i h \<noteq> Closed \<Longrightarrow> i < length (hb_socks h)"
  by (simp add: socket_ready_def split: if_splits)

text \<open>A frame that cannot be sent is handed back; nothing is recorded as sent and the tick ends.\<close>

lemma drain_send_failed:
  assumes "claimTask X node (worker_id node) (hb_world h) = (Inr (Some (j, f)), w)" "\<not> sends f"
  shows "drain_loop X sends node i (Suc n) h = (Inr (), h\<lparr>hb_world := retryTask X node j (worker_id node) ''send failed'' w\<rparr>)"
    "task_log w = task_log (hb_world h)"
  using assms by (auto simp: claimTask_def split: prod.splits option.splits sum.splits)

section \<open>Revocation\<close>

lemma deregister_frame:
  "hb_socks (deregisterNode X node h) = hb_socks h" "hq (hb_world (deregisterNode X node h)) = hq (hb_world h)"
  "task_log (hb_world (deregisterNode X node h)) = task_log (hb_world h)" "conn_of node (deregisterNode X node h) = None"
proof -
  have o: "hb_socks (offline_fire X node k) = hb_socks k" "hq (hb_world (offline_fire X node k)) = hq (hb_world k)"
    "task_log (hb_world (offline_fire X node k)) = task_log (hb_world k)" "connections (offline_fire X node k) = connections k" for k :: "'a hub"
    by (simp_all add: offline_fire_def Let_def upd_world_def mail_onlyD [OF mail_only_alerts(2)] split: option.split)
  show "hb_socks (deregisterNode X node h) = hb_socks h" "hq (hb_world (deregisterNode X node h)) = hq (hb_world h)"
    "task_log (hb_world (deregisterNode X node h)) = task_log (hb_world h)" "conn_of node (deregisterNode X node h) = None"
    by (simp_all add: deregisterNode_def Let_def o upd_node_def conn_of_def delete_conv)
qed

lemma drainNode_revoked:
  assumes "socket_ready i h = Open" "conn_of node h = Some c" "cn_sock c = i" "\<not> nodeStillAuthorized node (cn_tokenHash c) (hb_world h)"
  shows "drainNode X sends node i h = (Inr (), deregisterNode X node (ws_close i 4001 ''revoked'' h))"
  using assms by (simp add: drainNode_def)

lemma ws_close_open:
  assumes "socket_ready i h = Open"
  shows "socket_ready i (ws_close i c r h) = Closing" "sent_on i (ws_close i c r h) = sent_on i h"
    "sk_close (hb_socks (ws_close i c r h) ! i) = Some (c, r)"
  using assms by (auto simp: ws_close_def upd_sock_def socket_ready_def sent_on_def split: if_splits)

section \<open>Superseded connections\<close>

lemma handleHello_sockets:
  assumes "fst (handleHello X j node token v caps h) = Some n"
  shows "n = node" "\<exists>c. conn_of node (snd (handleHello X j node token v caps h)) = Some c \<and> cn_sock c = j"
    "conn_of node h = Some c \<Longrightarrow> socket_ready (cn_sock c) h \<noteq> Open"
    "hb_socks (snd (handleHello X j node token v caps h)) = hb_socks h"
proof -
  obtain th where a: "verifyNodeAuth X node token (hb_world h) = AuthOk th"
    and p: "isProtocolCompatible v" "\<not> (case conn_of node h of None \<Rightarrow> False | Some c \<Rightarrow> socket_ready (cn_sock c) h = Open)"
    using assms unfolding handleHello_def Let_def by (simp split: node_auth.splits if_split_asm)
  show "n = node" using assms a p by (simp add: handleHello_def Let_def)
  show "\<exists>c. conn_of node (snd (handleHello X j node token v caps h)) = Some c \<and> cn_sock c = j"
    using a p(1) by (simp add: handleHello_def Let_def p(2) conn_of_def update_conv del: option.case_distrib)
      (metis p(2) conn_of_def node_conn.select_convs(1))
  show r: "conn_of node h = Some c \<Longrightarrow> socket_ready (cn_sock c) h \<noteq> Open" using p(2) by simp
  have "hb_socks (case conn_of node h of None \<Rightarrow> h | Some c \<Rightarrow> ws_close (cn_sock c) 1005 [] h) = hb_socks h"
  proof (cases "conn_of node h")
    case (Some c)
    have "upd_sock i (\<lambda>s. if sk_ready s = Open then s\<lparr>sk_ready := Closing, sk_close := x\<rparr> else s) h = h"
      if "socket_ready i h \<noteq> Open" for i x
      using that by (auto simp: upd_sock_def socket_ready_def)
    with Some p(2) show ?thesis by (simp add: ws_close_def)
  qed simp
  then show "hb_socks (snd (handleHello X j node token v caps h)) = hb_socks h"
    using a p by (simp add: handleHello_def Let_def registerNode_def)
qed

text \<open>The whole event of a message that carries a hello.\<close>

lemma hello_message:
  assumes "parseInboundFrame parsed = Some (HelloFrame node token v caps)"
    and "socket_spend (clock (hb_world h)) (sk_bucket (hb_socks h ! j)) = (True, b)"
  defines "u \<equiv> upd_sock j (\<lambda>s. s\<lparr>sk_bucket := b\<rparr>) h"
  shows "on_message X j (Some parsed) h = (Inr (), upd_sock j (\<lambda>s. s\<lparr>sk_node := fst (handleHello X j node token v caps u),
      sk_hello_timer := (if fst (handleHello X j node token v caps u) = None then sk_hello_timer s else False)\<rparr>)
      (snd (handleHello X j node token v caps u)))"
  using assms(1,2) by (simp add: on_message_def Let_def split_beta u_def)

lemma socket_after_update:
  "i < length (hb_socks h) \<Longrightarrow> hb_socks (upd_sock i f h) ! k = (if k = i then f (hb_socks h ! i) else hb_socks h ! k)"
  by (simp add: upd_sock_def)

lemma deregister_conn:
  assumes "socket_node i h = Some node" "i < length (hb_socks h)"
  shows "conn_of node (on_close X i h) = None" "k \<noteq> i \<Longrightarrow> hb_socks (on_close X i h) ! k = hb_socks h ! k"
    "length (hb_socks (on_close X i h)) = length (hb_socks h)"
proof -
  let ?u = "upd_sock i (\<lambda>s. s\<lparr>sk_hello_timer := False, sk_ready := Closed\<rparr>) h"
  have "socket_node i ?u = Some node" using assms by (auto simp: socket_node_def socket_after_update split: if_splits)
  then have e: "on_close X i h = deregisterNode X node ?u" by (simp add: on_close_def deregister_socket_def)
  show "conn_of node (on_close X i h) = None" "k \<noteq> i \<Longrightarrow> hb_socks (on_close X i h) ! k = hb_socks h ! k"
    "length (hb_socks (on_close X i h)) = length (hb_socks h)"
    by (simp_all add: e deregister_frame socket_after_update assms(2))
qed

text \<open>
  A node that reconnects while the close of its former socket is still to come is registered, and then
  struck off by that close: its new socket stays open and authenticated, and no consumer serves it.
\<close>

lemma superseded_close:
  assumes "parseInboundFrame parsed = Some (HelloFrame node token v caps)"
    and "socket_spend (clock (hb_world h)) (sk_bucket (hb_socks h ! j)) = (True, b)"
    and "fst (handleHello X j node token v caps (upd_sock j (\<lambda>s. s\<lparr>sk_bucket := b\<rparr>) h)) = Some node"
    and "socket_node i h = Some node" "i < length (hb_socks h)" "socket_ready j h = Open" "i \<noteq> j"
  defines "h1 \<equiv> snd (on_message X j (Some parsed) h)"
  shows "connected h1 node" "\<not> connected (on_close X i h1) node" "socket_ready j (on_close X i h1) = Open"
    "socket_node j (on_close X i h1) = Some node"
proof -
  let ?u = "upd_sock j (\<lambda>s. s\<lparr>sk_bucket := b\<rparr>) h"
  let ?v = "snd (handleHello X j node token v caps ?u)"
  have j: "j < length (hb_socks h)" using socket_ready_index assms(6) by (metis ready_state.distinct(3))
  have h1: "h1 = upd_sock j (\<lambda>s. s\<lparr>sk_node := Some node, sk_hello_timer := False\<rparr>) ?v"
    unfolding h1_def using hello_message [OF assms(1,2), of X] assms(3) by simp
  have socks: "hb_socks ?v = hb_socks ?u" and reg: "conn_of node ?v \<noteq> None" using handleHello_sockets [OF assms(3)] by auto
  show "connected h1 node" using reg by (simp add: connected_def h1 conn_of_def)
  have i: "socket_node i h1 = Some node" "i < length (hb_socks h1)" and jj: "sk_ready (hb_socks h1 ! j) = Open" "sk_node (hb_socks h1 ! j) = Some node"
    using assms(4-7) j by (auto simp: h1 socket_node_def socket_ready_def socks socket_after_update split: if_splits)
  show "\<not> connected (on_close X i h1) node" using deregister_conn(1) [OF i] by (simp add: connected_def)
  have k: "hb_socks (on_close X i h1) ! j = hb_socks h1 ! j" "length (hb_socks (on_close X i h1)) = length (hb_socks h)"
    using deregister_conn(2,3) [OF i] assms(7) by (simp_all add: h1 socks)
  show "socket_ready j (on_close X i h1) = Open" "socket_node j (on_close X i h1) = Some node"
    using k j jj by (simp_all add: socket_ready_def socket_node_def)
qed

section \<open>Before the hello\<close>

lemma unauthenticated_message:
  assumes "socket_node i h = None" "hb_world (snd (on_message X i raw h)) \<noteq> hb_world h"
  obtains parsed node token v caps th where "raw = Some parsed" "parseInboundFrame parsed = Some (HelloFrame node token v caps)"
    "verifyNodeAuth X node token (hb_world h) = AuthOk th" "isProtocolCompatible v"
proof -
  obtain ok b where b: "socket_spend (clock (hb_world h)) (sk_bucket (hb_socks h ! i)) = (ok, b)" by (rule prod.exhaust)
  define u where "u = upd_sock i (\<lambda>s. s\<lparr>sk_bucket := b\<rparr>) h"
  have u: "hb_world u = hb_world h" by (simp add: u_def)
  have n: "socket_node i u = None" using assms(1) by (auto simp: u_def socket_node_def upd_sock_def split: if_splits)
  have q: "raw = None \<or> \<not> ok \<Longrightarrow> hb_world (snd (on_message X i raw h)) = hb_world h"
    by (auto simp: on_message_def b u_def [symmetric] u)
  then obtain parsed where p: "raw = Some parsed" "ok" using assms(2) by (cases raw) auto
  show thesis
  proof (cases "\<exists>n t v c. parseInboundFrame parsed = Some (HelloFrame n t v c)")
    case True
    then obtain nd t v c where f: "parseInboundFrame parsed = Some (HelloFrame nd t v c)" by blast
    have "hb_world (snd (on_message X i raw h)) = hb_world (snd (handleHello X i nd t v c u))"
      using hello_message [OF f, of h i b X] b p by (simp add: u_def)
    then have "hb_world (snd (handleHello X i nd t v c u)) \<noteq> hb_world u" using assms(2) u by simp
    then obtain th where "verifyNodeAuth X nd t (hb_world u) = AuthOk th" "isProtocolCompatible v"
      unfolding handleHello_def Let_def by (auto split: node_auth.splits if_split_asm)
    with p f u show thesis by (auto intro: that)
  next
    case False
    then have "hb_world (snd (on_message X i raw h)) = hb_world h"
      using p n by (auto simp: on_message_def b u_def [symmetric] u split: option.split inbound.split)
    with assms(2) show thesis by simp
  qed
qed

text \<open>A second connection of a node whose socket is open is refused and changes nothing else.\<close>

lemma duplicate_hello:
  assumes "conn_of node h = Some c" "socket_ready (cn_sock c) h = Open"
  shows "fst (handleHello X i node token v caps h) = None" "connections (snd (handleHello X i node token v caps h)) = connections h"
    "hb_world (snd (handleHello X i node token v caps h)) = hb_world h"
    "k \<noteq> i \<Longrightarrow> hb_socks (snd (handleHello X i node token v caps h)) ! k = hb_socks h ! k"
  using assms by (simp_all add: handleHello_def ws_close_def upd_sock_def split: node_auth.split)

end
