(* ===== verification/Isolation.thy ===== *)
theory Isolation
  imports Hub_Facts
begin

text \<open>
  What a frame from one node may change: its own row, its own tasks, and the placements that run on it
  with their accounts. Every other row of these tables is still there afterwards, unchanged.
\<close>

text \<open>The ids of the placements on a node.\<close>

definition own_placements :: "string \<Rightarrow> 'h world \<Rightarrow> nat set" where
  "own_placements node w =
     {p_id p | p. p \<in> set (rows (lab_placements w)) \<and> (\<exists>n \<in> set (rows (nodes w)). n_id n = p_node_id p \<and> n_name n = node)}"

definition foreign_kept :: "nat set \<Rightarrow> string \<Rightarrow> 'h world \<Rightarrow> 'h world \<Rightarrow> bool" where
  "foreign_kept O' node w w' \<longleftrightarrow>
     (\<forall>t \<in> set (rows (task_log w)). t_node t \<noteq> node \<longrightarrow> t \<in> set (rows (task_log w'))) \<and>
     (\<forall>n \<in> set (rows (nodes w)). n_name n \<noteq> node \<longrightarrow> n \<in> set (rows (nodes w'))) \<and>
     (\<forall>p \<in> set (rows (lab_placements w)). p_id p \<notin> O' \<longrightarrow> p \<in> set (rows (lab_placements w'))) \<and>
     (\<forall>r \<in> set (rows (placement_members w)). pm_placement_id r \<notin> O' \<longrightarrow> r \<in> set (rows (placement_members w'))) \<and>
     students w' = students w \<and> labs w' = labs w \<and> lab_members w' = lab_members w \<and> settings w' = settings w"

text \<open>One step of a handler, from a state in which the node's placements lie in \<open>O'\<close>.\<close>

definition confined :: "nat set \<Rightarrow> string \<Rightarrow> 'h world \<Rightarrow> 'h world \<Rightarrow> bool" where
  "confined O' node w w' \<longleftrightarrow> foreign_kept O' node w w' \<and> own_placements node w' \<subseteq> O'"

lemma confined_trans: "confined O' node u v \<Longrightarrow> confined O' node v w \<Longrightarrow> confined O' node u w"
  by (auto simp: confined_def foreign_kept_def)

lemma own_placements_cong: "nodes w' = nodes w \<Longrightarrow> lab_placements w' = lab_placements w \<Longrightarrow> own_placements node w' = own_placements node w"
  by (simp add: own_placements_def)

lemma own_placements_alt:
  "own_placements node w = {i. \<exists>k. (i, k) \<in> set (map (\<lambda>p. (p_id p, p_node_id p)) (rows (lab_placements w))) \<and>
      (k, node) \<in> set (map (\<lambda>n. (n_id n, n_name n)) (rows (nodes w)))}"
  unfolding own_placements_def set_map by force

lemma own_placements_cong_keys:
  assumes "map (\<lambda>p. (p_id p, p_node_id p)) (rows (lab_placements w')) = map (\<lambda>p. (p_id p, p_node_id p)) (rows (lab_placements w))"
    "map (\<lambda>n. (n_id n, n_name n)) (rows (nodes w')) = map (\<lambda>n. (n_id n, n_name n)) (rows (nodes w))"
  shows "own_placements node w' \<subseteq> own_placements node w"
  unfolding own_placements_alt assms ..

lemma confined_refl: "own_placements node w \<subseteq> O' \<Longrightarrow> confined O' node w w"
  by (simp add: confined_def foreign_kept_def)

lemma confined_eq:
  assumes "own_placements node w \<subseteq> O'" "same_core w' w" "settings w' = settings w"
    "\<forall>t \<in> set (rows (task_log w)). t_node t \<noteq> node \<longrightarrow> t \<in> set (rows (task_log w'))"
  shows "confined O' node w w'"
  using assms own_placements_cong [of w' w node] by (auto simp: confined_def foreign_kept_def same_core_def same_registry_def)

lemma confined_mail:
  assumes "own_placements node w \<subseteq> O'" "mail_only w' w" shows "confined O' node w w'"
  by (rule confined_eq [OF assms(1) same_core_mail_only [OF assms(2)]]) (simp_all add: mail_onlyD [OF assms(2)])

lemma confined_upd_node:
  assumes "own_placements node w \<subseteq> O'" "\<And>n. n_id (f n) = n_id n" "\<And>n. n_name (f n) = n_name n"
  shows "confined O' node w (upd_node node f w)"
proof -
  have "own_placements node (upd_node node f w) \<subseteq> own_placements node w"
    using own_placements_cong_keys [of "upd_node node f w" w] assms(2,3)
    by (simp add: upd_node_def rows_tbl_update)
  moreover have "n \<in> set (rows (nodes (upd_node node f w)))" if "n \<in> set (rows (nodes w))" "n_name n \<noteq> node" for n
    using that by (simp add: upd_node_def tbl_update_keep)
  ultimately show ?thesis using assms(1) by (simp add: confined_def foreign_kept_def)
qed

lemma confined_upd_placements:
  assumes "own_placements node w \<subseteq> O'" "\<And>p. P p \<Longrightarrow> p_id p \<in> O'" "\<And>p. p_id (f p) = p_id p" "\<And>p. p_node_id (f p) = p_node_id p"
  shows "confined O' node w (w\<lparr>lab_placements := tbl_update P f (lab_placements w)\<rparr>)"
proof -
  have "own_placements node (w\<lparr>lab_placements := tbl_update P f (lab_placements w)\<rparr>) \<subseteq> own_placements node w"
    using own_placements_cong_keys [of "w\<lparr>lab_placements := tbl_update P f (lab_placements w)\<rparr>" w] assms(3,4)
    by (simp add: rows_tbl_update)
  moreover have "p \<in> set (rows (tbl_update P f (lab_placements w)))" if "p \<in> set (rows (lab_placements w))" "p_id p \<notin> O'" for p
    using that assms(2) by (blast intro: tbl_update_keep)
  ultimately show ?thesis using assms(1) by (simp add: confined_def foreign_kept_def)
qed

lemma confined_upd_pm:
  assumes "own_placements node w \<subseteq> O'" "\<And>r. r \<in> set (rows (placement_members w)) \<Longrightarrow> pm_id r = i \<Longrightarrow> pm_placement_id r \<in> O'"
  shows "confined O' node w (upd_pm i f w)"
proof -
  have "own_placements node (upd_pm i f w) = own_placements node w" by (rule own_placements_cong) simp_all
  moreover have "r \<in> set (rows (tbl_update (\<lambda>r. pm_id r = i) f (placement_members w)))"
    if "r \<in> set (rows (placement_members w))" "pm_placement_id r \<notin> O'" for r
    using that assms(2) by (blast intro: tbl_update_keep)
  ultimately show ?thesis using assms(1) by (simp add: confined_def foreign_kept_def upd_pm_def)
qed

lemma confined_delete:
  assumes "own_placements node w \<subseteq> O'" "\<And>p. P p \<Longrightarrow> p_id p \<in> O'"
  shows "confined O' node w (delete_placements P w)"
proof -
  have "own_placements node (delete_placements P w) \<subseteq> own_placements node w"
    by (auto simp: own_placements_def delete_placements_def Let_def)
  then show ?thesis using assms by (auto simp: confined_def foreign_kept_def delete_placements_def Let_def tbl_all_def)
qed

lemma confined_mark:
  assumes "own_placements node w \<subseteq> O'"
  shows "confined O' node w (snd (markTaskState node u s r e c w))" "confined O' node w (markTaskReceived node u w)"
    "confined O' node w (insert_log lr w)"
proof -
  have "t \<in> set (rows (task_log (snd (markTaskState node u s r e c w))))" if "t \<in> set (rows (task_log w))" "t_node t \<noteq> node" for t
    by (rule markTaskState_foreign [OF that])
  then show "confined O' node w (snd (markTaskState node u s r e c w))"
    by (intro confined_eq [OF assms same_core_queue(4)]) simp_all
  show "confined O' node w (markTaskReceived node u w)"
    by (rule confined_eq [OF assms same_core_queue(6)])
      (auto simp: markTaskReceived_def intro: tbl_update_keep)
  show "confined O' node w (insert_log lr w)"
    by (rule confined_eq [OF assms same_core_queue(8)]) simp_all
qed

lemma confined_enqueue:
  assumes "own_placements node w \<subseteq> O'" shows "confined O' node w (enqueue X n a p b w)"
  by (rule confined_eq [OF assms]) (simp_all add: same_coreI task_log_enqueue)

lemma confined_fold:
  assumes "\<And>x v. own_placements node v \<subseteq> O' \<Longrightarrow> confined O' node v (f x v)"
  shows "own_placements node w \<subseteq> O' \<Longrightarrow> confined O' node w (fold f xs w)"
proof (induction xs arbitrary: w)
  case (Cons x xs)
  have 1: "confined O' node w (f x w)" by (rule assms [OF Cons.prems])
  then have "own_placements node (f x w) \<subseteq> O'" by (simp add: confined_def)
  from confined_trans [OF 1 Cons.IH [OF this]] show ?case by simp
qed (simp add: confined_refl)

lemma confined_removal:
  assumes "own_placements node w \<subseteq> O'" shows "confined O' node w (completeStudentRemoval X u w)"
proof -
  have "confined O' node v (cleanup_node X ps b n v)" if "own_placements node v \<subseteq> O'" for ps b n v
    using that by (simp add: cleanup_node_def confined_refl confined_enqueue)
  from confined_fold [OF this] assms confined_refl [OF assms] show ?thesis
    by (auto simp: completeStudentRemoval_def split: option.split jtext.split)
qed

section \<open>The operations a result triggers\<close>

lemma own_placementI:
  assumes "getPlacementByLabNode lab node w = Some v" shows "p_id (pl_row v) \<in> own_placements node w"
proof -
  have "placementByLabNode lab node w = Some (pl_row v)" using assms by (simp add: placementByLabNode_def)
  from placementByLabNode_Some [OF this] show ?thesis by (force simp: own_placements_def)
qed

lemma confined_placement_state:
  assumes "own_placements node w \<subseteq> O'" shows "confined O' node w (markPlacementStateByLabNode lab node st e w)"
proof (cases "getPlacementByLabNode lab node w")
  case (Some v)
  then have "p_id (pl_row v) \<in> O'" using own_placementI assms by blast
  then have "confined O' node w (upd_placement (p_id (pl_row v)) (\<lambda>r. r\<lparr>p_state := st, p_last_error := e, p_updated_at := clock w\<rparr>) w)"
    unfolding upd_placement_def by (intro confined_upd_placements [OF assms]) auto
  with Some show ?thesis by (simp add: markPlacementStateByLabNode_def markPlacementState_def)
qed (use confined_refl [OF assms] in \<open>simp add: markPlacementStateByLabNode_def\<close>)

lemma confined_destroyed:
  assumes "own_placements node w \<subseteq> O'" shows "confined O' node w (confirmPlacementDestroyed lab node w)"
proof (cases "getPlacementByLabNode lab node w")
  case (Some v)
  then have "p_id (pl_row v) \<in> O'" using own_placementI assms by blast
  then have "confined O' node w (delete_placements (\<lambda>r. p_id r = p_id (pl_row v)) w)" by (intro confined_delete [OF assms]) simp
  with Some confined_refl [OF assms] show ?thesis by (simp add: confirmPlacementDestroyed_def)
qed (use confined_refl [OF assms] in \<open>simp add: confirmPlacementDestroyed_def\<close>)

lemma pendingCredential_own:
  assumes "pendingCredential lab node user w = Some c"
  shows "cr_pm c \<in> set (rows (placement_members w))" "pm_placement_id (cr_pm c) \<in> own_placements node w"
proof -
  have c: "c \<in> set (credential_select w)" "n_name (cr_node c) = node"
    using assms by (auto simp: pendingCredential_def dest!: find_SomeD)
  then obtain r where r: "r \<in> set (rows (placement_members w))" "credential_join w r = Some c"
    by (auto simp: credential_select_def List.map_filter_def)
  obtain p n where p: "tbl_get (\<lambda>p. p_id p = pm_placement_id r) (lab_placements w) = Some p" "node_by_id (p_node_id p) w = Some n"
    "cr_pm c = r" "cr_node c = n"
    using r(2) by (auto simp: credential_join_def split: option.splits)
  then show "cr_pm c \<in> set (rows (placement_members w))" using r(1) by simp
  have "p \<in> set (rows (lab_placements w))" "p_id p = pm_placement_id r" using tbl_get_Some [OF p(1)] by auto
  moreover have "n \<in> set (rows (nodes w))" "n_id n = p_node_id p" using p(2) by (auto simp: node_by_id_def dest!: tbl_get_Some)
  ultimately show "pm_placement_id (cr_pm c) \<in> own_placements node w" using c(2) p(3,4) by (force simp: own_placements_def)
qed

lemma confined_member_state:
  assumes "own_placements node w \<subseteq> O'" "schema_ok w" shows "confined O' node w (markPlacementMemberState lab node user st e w)"
proof (cases "pendingCredential lab node user w")
  case (Some c)
  have "r = cr_pm c" if "r \<in> set (rows (placement_members w))" "pm_id r = pm_id (cr_pm c)" for r
    using pk_unique [OF schema_pk(6) [OF assms(2)] that(1) pendingCredential_own(1) [OF Some]] that(2) by simp
  then have "confined O' node w (upd_pm (pm_id (cr_pm c)) f w)" for f
    using pendingCredential_own(2) [OF Some] assms(1) by (intro confined_upd_pm) auto
  with Some show ?thesis by (simp add: markPlacementMemberState_def)
qed (use confined_refl [OF assms(1)] in \<open>simp add: markPlacementMemberState_def\<close>)

lemma confined_deliver:
  assumes "own_placements node w \<subseteq> O'" shows "confined O' node w (snd (deliver_begin X lab node user w))"
  using confined_refl [OF assms] confined_mail [OF assms mail_only_send]
  by (simp add: deliver_begin_def Let_def split: option.split)

lemma confined_completion:
  assumes "own_placements node w \<subseteq> O'" shows "confined O' node w (snd (completion_begin lab node w))"
proof (cases "getPlacementByLabNode lab node w")
  case (Some v)
  let ?v = "w\<lparr>lab_placements := tbl_update (\<lambda>q. p_id q = p_id (pl_row v) \<and> p_completion_email_sent_at q = None)
      (\<lambda>q. q\<lparr>p_completion_email_sent_at := Some (-1)\<rparr>) (lab_placements w)\<rparr>"
  have i: "p_id (pl_row v) \<in> O'" using own_placementI [OF Some] assms by blast
  then have 1: "confined O' node w ?v" by (intro confined_upd_placements [OF assms]) auto
  then have "own_placements node ?v \<subseteq> O'" by (simp add: confined_def)
  then have "confined O' node w (send_mail m ?v)" for m
    using confined_trans [OF 1 confined_mail [OF _ mail_only_send]] by blast
  with Some confined_refl [OF assms] show ?thesis by (simp add: completion_begin_def Let_def)
qed (use confined_refl [OF assms] in \<open>simp add: completion_begin_def\<close>)

section \<open>The frames\<close>

lemma ingest_scan_owned:
  "snd (ingest_scan node u v) = v \<or>
   (\<exists>l ref t. placementByLabNode l node v = Some ref \<and> snd (ingest_scan node u v) = scan_update (p_id ref) t v)"
  by (auto simp: ingest_scan_def split: option.splits)

lemma confined_telemetry:
  assumes "own_placements node w \<subseteq> O'" shows "confined O' node w (snd (ingestTelemetry X node payload w))"
proof -
  let ?I = "\<lambda>v. confined O' node w v"
  have own: "own_placements node v \<subseteq> O'" if "?I v" for v using that by (simp add: confined_def)
  show ?thesis
  proof (rule ingestTelemetry_pres [where I = ?I])
    show "?I (upd_node node f v)" if "telemetry_write f" "?I v" for f v
      by (rule confined_trans [OF that(2) confined_upd_node [OF own [OF that(2)]]]) (simp_all add: telemetry_write_keys [OF that(1)])
    show "?I (insert_log r v)" if "?I v" for r v by (rule confined_trans [OF that confined_mark(3) [OF own [OF that]]])
    show "?I (alertAdmins X k s b v)" if "?I v" for k s b v
      by (rule confined_trans [OF that confined_mail [OF own [OF that] mail_only_alertAdmins]])
    show "?I (v\<lparr>gpu_snapshot := g\<rparr>)" if "?I v" for g v
      by (rule confined_trans [OF that confined_eq [OF own [OF that] same_coreI]]) simp_all
    show "?I (snd (ingest_storage X node now ds v))" if "?I v" for now ds v
      using ingest_storage_frame [of X node now ds v]
      by (intro confined_trans [OF that confined_eq [OF own [OF that] same_coreI]]) (simp_all add: samples_only_def)
    show "?I (snd (ingest_scan node u v))" if "?I v" for u v
      using ingest_scan_owned [of node u v]
    proof (elim disjE exE conjE)
      fix l ref t assume r: "placementByLabNode l node v = Some ref" "snd (ingest_scan node u v) = scan_update (p_id ref) t v"
      have "p_id ref \<in> O'" using r(1) own_placementI own [OF that] by (fastforce simp: placementByLabNode_def)
      then have "confined O' node v (scan_update (p_id ref) t v)"
        unfolding scan_update_def by (intro confined_upd_placements [OF own [OF that]]) auto
      from confined_trans [OF that this] r(2) show ?thesis by simp
    qed (use that in simp)
    show "?I w" by (rule confined_refl [OF assms])
  qed
qed

lemma confined_own: "confined O' node w w' \<Longrightarrow> own_placements node w' \<subseteq> O'"
  by (simp add: confined_def)

lemma confined_deliveries:
  assumes "own_placements node (hb_world h) \<subseteq> O'"
  shows "confined O' node (hb_world h) (hb_world (start_deliveries X lab node user h))"
proof -
  obtain a w1 where a: "deliver_begin X lab node user (hb_world h) = (a, w1)" by fastforce
  obtain b w2 where b: "completion_begin lab node w1 = (b, w2)" by fastforce
  have 1: "confined O' node (hb_world h) w1" using confined_deliver [OF assms, of X lab user] a by simp
  have "confined O' node w1 w2" using confined_completion [OF confined_own [OF 1], of lab] b by simp
  with confined_trans [OF 1] show ?thesis by (simp add: start_deliveries_def a b)
qed

lemma confined_lab_result:
  assumes "own_placements node (hb_world h) \<subseteq> O'" "schema_ok (hb_world h)"
  shows "confined O' node (hb_world h) (hb_world (lab_result X node t params frame lab h))"
proof -
  have "confined O' node (hb_world h) (hb_world (start_deliveries X lab node user (upd_world (markPlacementMemberState lab node user st e) h)))"
    for user st e
  proof -
    have 1: "confined O' node (hb_world h) (hb_world (upd_world (markPlacementMemberState lab node user st e) h))"
      using confined_member_state [OF assms] by simp
    show ?thesis by (rule confined_trans [OF 1 confined_deliveries [OF confined_own [OF 1]]])
  qed
  with confined_placement_state [OF assms(1)] confined_destroyed [OF assms(1)] confined_member_state [OF assms] confined_refl [OF assms(1)]
  show ?thesis by (simp add: lab_result_def Let_def)
qed

lemma confined_lifecycle:
  assumes "own_placements node (hb_world h) \<subseteq> O'" "schema_ok (hb_world h)"
  shows "confined O' node (hb_world h) (hb_world (snd (result_lifecycle X node t frame h)))"
proof -
  have "confined O' node (hb_world h) (set_capabilities node c (hb_world h))" for c
    unfolding set_capabilities_def by (rule confined_upd_node [OF assms(1)]) simp_all
  with confined_lab_result [OF assms] confined_removal [OF assms(1)] confined_refl [OF assms(1)] show ?thesis
    by (auto simp: result_lifecycle_def Let_def split: option.split json.split)
qed

lemma confined_result_log: "own_placements node w \<subseteq> O' \<Longrightarrow> confined O' node w (result_log frame w)"
  by (simp add: result_log_def confined_refl confined_mark(3) split: option.split)

lemma confined_result:
  assumes "own_placements node (hb_world h) \<subseteq> O'" "schema_ok (hb_world h)"
  shows "confined O' node (hb_world h) (hb_world (snd (handleResult X node frame h)))"
proof -
  obtain ch w where m: "markTaskState node (rf_id frame) (if rf_ok frame then TOk else TFailed) (rf_result frame)
      (if rf_ok frame then None else rf_error frame) (rf_cached frame) (hb_world h) = (ch, w)" by fastforce
  have g: "confined O' node (hb_world h) w"
    using confined_mark(1) [OF assms(1)] m by (metis snd_conv)
  have s: "schema_ok w" using assms(2) m schema_frames(4) by (metis snd_conv)
  have log: "confined O' node (hb_world h) (result_log frame v)" if "confined O' node (hb_world h) v" for v
    by (rule confined_trans [OF that confined_result_log [OF confined_own [OF that]]])
  have rest: "confined O' node (hb_world h) (hb_world (snd (and_then (result_lifecycle X node t frame k) (\<lambda>_ h. (Inr (), upd_world (result_log frame) h)))))"
    if "confined O' node (hb_world h) (hb_world k)" "schema_ok (hb_world k)" for t k
    by (rule and_then_pres [where I = "\<lambda>k. confined O' node (hb_world h) (hb_world k)"])
      (simp_all add: log confined_trans [OF that(1) confined_lifecycle [OF confined_own [OF that(1)] that(2)]])
  have alert: "confined O' node (hb_world h) (alertTaskFailed X a b c w)" "schema_ok (alertTaskFailed X a b c w)" for a b c
    using confined_trans [OF g confined_mail [OF confined_own [OF g] mail_only_alerts(3)]]
      schema_frame [of "alertTaskFailed X a b c w" w] s by (simp_all add: mail_onlyD [OF mail_only_alerts(3)])
  show ?thesis
    using g s alert log rest by (auto simp: handleResult_def m Let_def split: option.split)
qed

lemma mail_only_emailGpu: "mail_only (emailGpuEvent X node user lab pid st w) w"
proof -
  have "mail_only (send_mail m (w\<lparr>gpu_mail_state := g\<rparr>)) w" for m g by (simp add: mail_only_def send_mail_def)
  then show ?thesis by (simp add: emailGpuEvent_def Let_def split: option.split)
qed

lemma confined_frame:
  assumes "own_placements node (hb_world h) \<subseteq> O'" "schema_ok (hb_world h)"
  shows "confined O' node (hb_world h) (hb_world (snd (ingestFrame X node frame h)))"
proof (cases frame)
  case (LogFrame l)
  have "confined O' node (hb_world h) (insert_log r (hb_world h))" for r by (rule confined_mark(3) [OF assms(1)])
  then have "confined O' node (hb_world h) (handleLog X node l (hb_world h))"
    unfolding handleLog_def Let_def using confined_trans confined_mail [OF confined_own mail_only_alerts(1)] by blast
  with LogFrame show ?thesis by (simp add: ingestFrame_def)
next
  case (EventFrame k p ts)
  have "confined O' node (hb_world h) ((hb_world h)\<lparr>gpu_events := e\<rparr>)" for e
    by (rule confined_eq [OF assms(1) same_coreI]) simp_all
  then have "confined O' node (hb_world h) (handleEvent X node k p ts (hb_world h))"
    unfolding handleEvent_def Let_def
    using confined_trans confined_mail [OF confined_own mail_only_emailGpu] confined_refl [OF assms(1)] by (simp, blast)
  with EventFrame show ?thesis by (simp add: ingestFrame_def)
next
  case (TelemetryFrame p)
  with confined_telemetry [OF assms(1)] show ?thesis by (simp add: ingestFrame_def lift_world_def split_beta)
qed (use confined_result [OF assms] confined_mark(2) [OF assms(1)] confined_refl [OF assms(1)] in \<open>simp_all add: ingestFrame_def\<close>)

end
