(* ===== verification/Maintenance.thy ===== *)
theory Maintenance
  imports Hub_Facts
begin

text \<open>
  The periodic maintenance (src/controller/src/lib/maintenance.ts): the retention of logs and samples,
  the grid of scheduled backups, and the scheduling of scrubs and usage scans.

  The caps on the number of log rows are whole numbers, as the settings form stores them.
\<close>

section \<open>Retention\<close>

definition opt_len :: "string option \<Rightarrow> nat" where
  "opt_len s = (case s of None \<Rightarrow> 0 | Some t \<Rightarrow> length t)"

definition LOG_ROW_BYTES :: "log_row \<Rightarrow> nat" where
  "LOG_ROW_BYTES r = length (lg_msg r) + opt_len (lg_detail r) + opt_len (lg_source r) + opt_len (lg_node r) +
     opt_len (lg_lab r) + opt_len (lg_user r) + opt_len (lg_task_id r) + 48"

definition logsContentBytes :: "'h world \<Rightarrow> nat" where
  "logsContentBytes w = sum_list (map LOG_ROW_BYTES (rows (logs w)))"

text \<open>\<open>DELETE FROM logs WHERE P\<close>, with the number of rows removed.\<close>

definition delete_logs :: "(log_row \<Rightarrow> bool) \<Rightarrow> 'h world \<Rightarrow> nat \<times> 'h world" where
  "delete_logs P w = (tbl_changes P (logs w), w\<lparr>logs := tbl_delete P (logs w)\<rparr>)"

text \<open>\<open>SELECT id FROM logs ORDER BY id DESC LIMIT 1 OFFSET n\<close>.\<close>

definition nth_newest :: "nat \<Rightarrow> 'h world \<Rightarrow> nat option" where
  "nth_newest n w = (let ids = rev (sort (map lg_id (rows (logs w)))) in if n < length ids then Some (ids ! n) else None)"

text \<open>\<open>SUM(size) OVER (ORDER BY id DESC)\<close> at a row.\<close>

definition cum_size :: "'h world \<Rightarrow> log_row \<Rightarrow> nat" where
  "cum_size w r = sum_list (map LOG_ROW_BYTES (filter (\<lambda>q. lg_id r \<le> lg_id q) (rows (logs w))))"

definition prune_age :: "'h ext \<Rightarrow> rat \<Rightarrow> 'h world \<Rightarrow> nat \<times> 'h world" where
  "prune_age X now w =
     (let days = setting_num X ''logRetentionDays'' w in
      if 0 < days then delete_logs (\<lambda>r. lg_ts r < now - days * 86400 * 1000) w else (0, w))"

definition prune_count :: "'h ext \<Rightarrow> 'h world \<Rightarrow> nat \<times> 'h world" where
  "prune_count X w =
     (let maxEntries = setting_int X ''logMaxEntries'' w in
      if 0 < maxEntries
      then (case nth_newest (nat maxEntries) w of None \<Rightarrow> delete_logs (\<lambda>_. False) w | Some k \<Rightarrow> delete_logs (\<lambda>r. lg_id r \<le> k) w)
      else (0, w))"

definition prune_size :: "'h ext \<Rightarrow> 'h world \<Rightarrow> nat \<times> 'h world" where
  "prune_size X w =
     (let maxBytes = setting_num X ''logMaxSizeMb'' w * 1024 * 1024 in
      if 0 < maxBytes then delete_logs (\<lambda>r. maxBytes < of_nat (cum_size w r)) w else (0, w))"

definition pruneLogs :: "'h ext \<Rightarrow> rat \<Rightarrow> 'h world \<Rightarrow> nat \<times> 'h world" where
  "pruneLogs X now w =
     (let (a, w) = prune_age X now w; (b, w) = prune_count X w; (c, w) = prune_size X w in (a + b + c, w))"

definition STORAGE_SAMPLE_RETENTION_DAYS :: int where
  "STORAGE_SAMPLE_RETENTION_DAYS = 180"

record prune_counts =
  pc_logs :: nat
  pc_gpuEvents :: nat
  pc_storageSamples :: nat
  pc_quotaAlerts :: nat

definition pruneOldData :: "'h ext \<Rightarrow> 'h world \<Rightarrow> prune_counts \<times> 'h world" where
  "pruneOldData X w =
     (let now = clock w;
          (logs', w) = pruneLogs X (of_int now) w;
          days = setting_num X ''logRetentionDays'' w;
          cutoff = of_int now - days * 86400 * 1000;
          oldEvent = (\<lambda>r. 0 < days \<and> of_int (ge_ts r) < cutoff);
          oldAlert = (\<lambda>r. 0 < days \<and> of_int (qa_ts r) < cutoff);
          oldSample = (\<lambda>r. sm_ts r < now - STORAGE_SAMPLE_RETENTION_DAYS * 86400 * 1000)
      in (\<lparr>pc_logs = logs', pc_gpuEvents = tbl_changes oldEvent (gpu_events w),
            pc_storageSamples = tbl_changes oldSample (storage_samples w), pc_quotaAlerts = tbl_changes oldAlert (quota_alerts w)\<rparr>,
          w\<lparr>gpu_events := tbl_delete oldEvent (gpu_events w), quota_alerts := tbl_delete oldAlert (quota_alerts w),
            storage_samples := tbl_delete oldSample (storage_samples w)\<rparr>))"

section \<open>The backup grid\<close>

definition hourInTimezone :: "'h ext \<Rightarrow> int \<Rightarrow> string \<Rightarrow> nat option" where
  "hourInTimezone X now tz = map_option (\<lambda>h. h mod 24) (tz_hour X now tz)"

text \<open>\<open>Date.UTC(y, mo, d, h, mi, s)\<close>, the month counted from 0.\<close>

definition days_from_civil :: "int \<Rightarrow> int \<Rightarrow> int \<Rightarrow> int" where
  "days_from_civil y m d =
     (let y' = (if m \<le> 2 then y - 1 else y); yoe = y' mod 400;
          doy = (153 * (if 2 < m then m - 3 else m + 9) + 2) div 5 + d - 1
      in (y' div 400) * 146097 + yoe * 365 + yoe div 4 - yoe div 100 + doy - 719468)"

definition date_utc :: "int \<Rightarrow> int \<Rightarrow> int \<Rightarrow> int \<Rightarrow> int \<Rightarrow> int \<Rightarrow> int" where
  "date_utc y mo d h mi s = (((days_from_civil y (mo + 1) d * 24 + h) * 60 + mi) * 60 + s) * 1000"

definition tzOffsetMs :: "'h ext \<Rightarrow> int \<Rightarrow> string \<Rightarrow> int" where
  "tzOffsetMs X utcMs tz = (case tz_parts X utcMs tz of (y, mo, d, h, mi, s) \<Rightarrow> date_utc y (mo - 1) d h mi s - utcMs)"

definition wallClockToUtc :: "'h ext \<Rightarrow> int \<Rightarrow> int \<Rightarrow> int \<Rightarrow> int \<Rightarrow> int \<Rightarrow> string \<Rightarrow> int" where
  "wallClockToUtc X y mo d h mi tz =
     (let utc = date_utc y mo d h mi 0; ts = utc; ts = utc - tzOffsetMs X ts tz in utc - tzOffsetMs X ts tz)"

record grid =
  gr_anchor :: int
  gr_intervalMs :: rat

definition backupGrid :: "'h ext \<Rightarrow> int \<Rightarrow> 'h world \<Rightarrow> grid option" where
  "backupGrid X now w =
     (if \<not> setting_bool X ''backupEnabled'' w then None
      else let intervalHours = setting_num X ''backupIntervalHours'' w in
      if \<not> 0 < intervalHours then None
      else let tz = setting_str X ''backupTimezone'' w in
      if \<not> tz_valid X tz then None
      else case tz_parts X now tz of (y, mo, d, _, _, _) \<Rightarrow>
        Some \<lparr>gr_anchor = wallClockToUtc X y (mo - 1) d (setting_int X ''backupAnchorHour'' w) (setting_int X ''backupAnchorMinute'' w) tz,
              gr_intervalMs = intervalHours * 3600 * 1000\<rparr>)"

text \<open>The first guess for the slot, and the loop that steps past the reference.\<close>

definition grid_slot :: "grid \<Rightarrow> rat \<Rightarrow> rat" where
  "grid_slot g ref = (let k = \<lfloor>(ref - of_int (gr_anchor g)) / gr_intervalMs g\<rfloor> + 1 in of_int (gr_anchor g) + of_int k * gr_intervalMs g)"

partial_function (option) step_past :: "rat \<Rightarrow> rat \<Rightarrow> rat \<Rightarrow> rat option" where
  "step_past interval ref t = (if t \<le> ref then step_past interval ref (t + interval) else Some t)"

definition slotAfter :: "'h ext \<Rightarrow> rat \<Rightarrow> int \<Rightarrow> 'h world \<Rightarrow> rat option" where
  "slotAfter X ref now w =
     (case backupGrid X now w of None \<Rightarrow> None | Some g \<Rightarrow> step_past (gr_intervalMs g) ref (grid_slot g ref))"

definition nextBackupRun :: "'h ext \<Rightarrow> int \<Rightarrow> 'h world \<Rightarrow> rat option" where
  "nextBackupRun X now w =
     (let intervalMs = setting_num X ''backupIntervalHours'' w * 3600 * 1000;
          ref = max (setting_num X ''backupLastRun'' w) (of_int now - intervalMs)
      in slotAfter X ref now w)"

definition backupDue :: "'h ext \<Rightarrow> int \<Rightarrow> 'h world \<Rightarrow> bool" where
  "backupDue X now w = (case slotAfter X (setting_num X ''backupLastRun'' w) now w of None \<Rightarrow> False | Some t \<Rightarrow> t \<le> of_int now)"

section \<open>Scrubs and scans\<close>

definition off_hour :: "'h ext \<Rightarrow> int \<Rightarrow> string \<Rightarrow> string \<Rightarrow> 'h world \<Rightarrow> bool" where
  "off_hour X now tzKey hourKey w =
     (case hourInTimezone X now (setting_str X tzKey w) of None \<Rightarrow> False | Some h \<Rightarrow> of_nat h \<noteq> setting_num X hourKey w)"

text \<open>\<open>caps.zfs\<close>: throws on null.\<close>

definition zfs_capable :: "jtext option \<Rightarrow> error + bool" where
  "zfs_capable caps =
     (case caps of
        None \<Rightarrow> Inr False
      | Some t \<Rightarrow> (case json_parse t of None \<Rightarrow> Inr False | Some JNull \<Rightarrow> Inl JsTypeError | Some j \<Rightarrow> Inr (truthy_opt (jget ''zfs'' j))))"

definition last_within :: "int option \<Rightarrow> int \<Rightarrow> rat \<Rightarrow> bool" where
  "last_within l now window = (case l of None \<Rightarrow> False | Some t \<Rightarrow> t \<noteq> 0 \<and> of_int (now - t) < window)"

fun scrub_loop :: "'h ext \<Rightarrow> int \<Rightarrow> rat \<Rightarrow> node_row list \<Rightarrow> string list \<Rightarrow> (string list, 'h) op" where
  "scrub_loop X now interval [] acc w = (Inr (rev acc), w)"
| "scrub_loop X now interval (n # ns) acc w =
     (case zfs_capable (n_capabilities n) of
        Inl e \<Rightarrow> (Inl e, w)
      | Inr zfs \<Rightarrow>
          if \<not> zfs \<or> last_within (n_last_scrub n) now interval then scrub_loop X now interval ns acc w
          else scrub_loop X now interval ns (n_name n # acc)
            (upd_node (n_name n) (\<lambda>r. r\<lparr>n_last_scrub := Some now\<rparr>)
              (enqueue X (n_name n) ''node.scrub'' (JObj []) (Some ''scrub-scheduler'') w)))"

definition scheduleScrubs :: "'h ext \<Rightarrow> int \<Rightarrow> (string list, 'h) op" where
  "scheduleScrubs X now w =
     (if \<not> setting_bool X ''scrubEnabled'' w \<or> off_hour X now ''scrubTimezone'' ''scrubHour'' w then (Inr [], w)
      else scrub_loop X now (setting_num X ''scrubIntervalDays'' w * 86400 * 1000) (tbl_all n_online (nodes w)) [] w)"

definition USAGE_SCAN_MIN_GAP_MS :: int where
  "USAGE_SCAN_MIN_GAP_MS = 20 * 3600 * 1000"

definition roster_names :: "nat \<Rightarrow> 'h world \<Rightarrow> string list" where
  "roster_names labId w =
     List.map_filter (\<lambda>m. map_option s_username (student_by_id (m_student_id m) w)) (tbl_all (\<lambda>m. m_lab_id m = labId) (lab_members w))"

fun scan_loop :: "'h ext \<Rightarrow> int \<Rightarrow> placement list \<Rightarrow> string list \<Rightarrow> 'h world \<Rightarrow> string list \<times> 'h world" where
  "scan_loop X now [] acc w = (rev acc, w)"
| "scan_loop X now (p # ps) acc w =
     (if last_within (p_last_usage_scan (pl_row p)) now (of_int USAGE_SCAN_MIN_GAP_MS) then scan_loop X now ps acc w
      else scan_loop X now ps (at_node p # acc)
        (upd_placement (p_id (pl_row p)) (\<lambda>r. r\<lparr>p_last_usage_scan := Some now\<rparr>)
          (enqueue X (pl_node_name p) ''usage.scan''
            (JObj [(''lab'', JStr (pl_lab_name p)), (''users'', JArr (map JStr (roster_names (p_lab_id (pl_row p)) w)))])
            (Some ''usage-scheduler'') w)))"

definition scheduleUsageScans :: "'h ext \<Rightarrow> int \<Rightarrow> 'h world \<Rightarrow> string list \<times> 'h world" where
  "scheduleUsageScans X now w =
     (if \<not> setting_bool X ''usageScanEnabled'' w \<or> off_hour X now ''usageScanTimezone'' ''usageScanHour'' w then ([], w)
      else scan_loop X now (filter (\<lambda>p. pl_online p \<and> p_state (pl_row p) = PActive) (placement_select w)) [] w)"

text \<open>One tick, up to the start of a due backup.\<close>

definition maintenance_tick :: "'h ext \<Rightarrow> (bool, 'h) op" where
  "maintenance_tick X w =
     (let now = clock w; w = snd (pruneOldData X w) in
      and_then (scheduleScrubs X now w) (\<lambda>_ w.
        let w = snd (scheduleUsageScans X now w) in (Inr (backupDue X now w), w)))"

end
