(* ===== verification/Maintenance_Facts.thy ===== *)
theory Maintenance_Facts
  imports Maintenance "HOL-Library.Multiset"
begin

text \<open>
  Facts on the maintenance: the caps that pruning establishes, the backup grid, and that a scan or a
  scrub is not scheduled twice.
\<close>

section \<open>Retention\<close>

lemma setting_cong:
  "settings w' = settings w \<Longrightarrow> setting_num X k w' = setting_num X k w"
  "settings w' = settings w \<Longrightarrow> setting_int X k w' = setting_int X k w"
  "settings w' = settings w \<Longrightarrow> setting_bool X k w' = setting_bool X k w"
  "settings w' = settings w \<Longrightarrow> setting_str X k w' = setting_str X k w"
  by (simp_all add: setting_num_def setting_int_def setting_bool_def setting_str_def getSetting_def)

text \<open>A pruning step: it removes rows of \<open>logs\<close>, counts them, and removes no row newer than one it keeps.\<close>

definition prune_step :: "(log_row \<Rightarrow> bool) \<Rightarrow> 'h world \<Rightarrow> nat \<times> 'h world \<Rightarrow> bool" where
  "prune_step excuse w r \<longleftrightarrow>
     (\<exists>P. snd r = w\<lparr>logs := tbl_delete P (logs w)\<rparr> \<and> fst r = tbl_changes P (logs w) \<and>
       (\<forall>a \<in> set (rows (logs w)). \<forall>b \<in> set (rows (logs w)). P b \<and> \<not> P a \<and> lg_id a \<le> lg_id b \<longrightarrow> excuse b))"

lemma prune_step_none: "prune_step e w (0, w)"
  unfolding prune_step_def by (rule exI [of _ "\<lambda>_. False"]) (simp add: tbl_changes_def tbl_delete_def)

lemma prune_step_delete:
  assumes "\<And>a b. a \<in> set (rows (logs w)) \<Longrightarrow> b \<in> set (rows (logs w)) \<Longrightarrow> P b \<Longrightarrow> \<not> P a \<Longrightarrow> lg_id a \<le> lg_id b \<Longrightarrow> e b"
  shows "prune_step e w (delete_logs P w)"
  unfolding prune_step_def using assms by (intro exI [of _ P]) (auto simp: delete_logs_def)

lemma prune_age_step: "prune_step (\<lambda>r. 0 < setting_num X ''logRetentionDays'' w \<and> lg_ts r < now - setting_num X ''logRetentionDays'' w * 86400 * 1000) w
    (prune_age X now w)"
  by (auto simp: prune_age_def Let_def prune_step_none intro!: prune_step_delete)

lemma prune_count_step: "prune_step (\<lambda>_. False) w (prune_count X w)"
  by (auto simp: prune_count_def Let_def prune_step_none split: option.split intro!: prune_step_delete)

lemma cum_size_antimono: "lg_id a \<le> lg_id b \<Longrightarrow> cum_size w b \<le> cum_size w a"
proof -
  assume "lg_id a \<le> lg_id b"
  then have f: "filter (\<lambda>q. lg_id b \<le> lg_id q) rs = filter (\<lambda>q. lg_id b \<le> lg_id q) (filter (\<lambda>q. lg_id a \<le> lg_id q) rs)" for rs
    by (induction rs) auto
  have "sum_list (map LOG_ROW_BYTES (filter P rs)) \<le> sum_list (map LOG_ROW_BYTES rs)" for P rs
    by (induction rs) auto
  then show ?thesis unfolding cum_size_def f [of "rows (logs w)"] by blast
qed

lemma prune_size_step: "prune_step (\<lambda>_. False) w (prune_size X w)"
proof -
  have "\<not> mx < of_nat (cum_size w b)" if "lg_id a \<le> lg_id b" "\<not> mx < of_nat (cum_size w a)" for a b and mx :: rat
    using cum_size_antimono [OF that(1), of w] that(2) by (meson le_less_trans not_less of_nat_le_iff)
  then show ?thesis by (auto simp: prune_size_def Let_def prune_step_none intro!: prune_step_delete)
qed

lemma prune_stepD:
  assumes "prune_step e w (n, w')"
  shows "settings w' = settings w" "set (rows (logs w')) \<subseteq> set (rows (logs w))" "length (rows (logs w)) = n + length (rows (logs w'))"
    "a \<in> set (rows (logs w')) \<Longrightarrow> b \<in> set (rows (logs w)) \<Longrightarrow> lg_id a \<le> lg_id b \<Longrightarrow> b \<in> set (rows (logs w')) \<or> e b"
    "distinct (map lg_id (rows (logs w))) \<Longrightarrow> distinct (map lg_id (rows (logs w')))"
    "w' = w\<lparr>logs := logs w'\<rparr>"
proof -
  obtain P where P: "w' = w\<lparr>logs := tbl_delete P (logs w)\<rparr>" "n = tbl_changes P (logs w)"
    "\<And>a b. a \<in> set (rows (logs w)) \<Longrightarrow> b \<in> set (rows (logs w)) \<Longrightarrow> P b \<Longrightarrow> \<not> P a \<Longrightarrow> lg_id a \<le> lg_id b \<Longrightarrow> e b"
    using assms unfolding prune_step_def by auto
  show "settings w' = settings w" "set (rows (logs w')) \<subseteq> set (rows (logs w))" "w' = w\<lparr>logs := logs w'\<rparr>"
    "distinct (map lg_id (rows (logs w))) \<Longrightarrow> distinct (map lg_id (rows (logs w')))"
    by (auto simp: P(1) distinct_map_filter)
  show "length (rows (logs w)) = n + length (rows (logs w'))"
    by (simp add: P(1,2) tbl_changes_def sum_length_filter_compl)
  show "a \<in> set (rows (logs w')) \<Longrightarrow> b \<in> set (rows (logs w)) \<Longrightarrow> lg_id a \<le> lg_id b \<Longrightarrow> b \<in> set (rows (logs w')) \<or> e b"
    using P(3) by (auto simp: P(1))
qed

lemma filter_above_nth:
  "sorted_wrt (>) (xs :: nat list) \<Longrightarrow> m < length xs \<Longrightarrow> length (filter (\<lambda>i. xs ! m < i) xs) = m"
proof (induction xs arbitrary: m)
  case (Cons x xs)
  show ?case
  proof (cases m)
    case 0
    have "filter (\<lambda>i. x < i) xs = []" using Cons.prems(1) by (auto simp: filter_empty_conv)
    with 0 show ?thesis by simp
  next
    case (Suc k)
    with Cons.prems have "xs ! k < x" by (auto simp: nth_mem)
    with Suc Cons show ?thesis by simp
  qed
qed simp

lemma prune_count_cap:
  assumes "distinct (map lg_id (rows (logs w)))" "0 < setting_int X ''logMaxEntries'' w"
  shows "length (rows (logs (snd (prune_count X w)))) \<le> nat (setting_int X ''logMaxEntries'' w)"
proof -
  define m where "m = nat (setting_int X ''logMaxEntries'' w)"
  define ids where "ids = rev (sort (map lg_id (rows (logs w))))"
  have "sorted_wrt (<) (sort (map lg_id (rows (logs w))))" using assms(1) by (simp add: strict_sorted_iff)
  then have s: "sorted_wrt (>) ids" by (simp add: ids_def sorted_wrt_rev)
  have l: "length ids = length (rows (logs w))" by (simp add: ids_def)
  show ?thesis
  proof (cases "m < length ids")
    case True
    have "mset (filter P (map lg_id (rows (logs w)))) = mset (filter P ids)" for P
      by (simp only: ids_def mset_filter mset_rev mset_sort)
    then have "length (filter (\<lambda>i. ids ! m < i) (map lg_id (rows (logs w)))) = m"
      using filter_above_nth [OF s True] by (metis size_mset)
    then have "length (filter (\<lambda>r. ids ! m < lg_id r) (rows (logs w))) = m" by (simp add: filter_map comp_def)
    then show ?thesis using True assms(2)
      by (simp add: prune_count_def Let_def nth_newest_def m_def [symmetric] ids_def [symmetric] delete_logs_def not_le)
  next
    case False
    then show ?thesis using assms(2) l
      by (simp add: prune_count_def Let_def nth_newest_def m_def [symmetric] ids_def [symmetric] delete_logs_def)
  qed
qed

lemma prune_size_cap:
  assumes "0 < setting_num X ''logMaxSizeMb'' w"
  shows "of_nat (logsContentBytes (snd (prune_size X w))) \<le> setting_num X ''logMaxSizeMb'' w * 1024 * 1024"
proof -
  define mx where "mx = setting_num X ''logMaxSizeMb'' w * 1024 * 1024"
  define ks where "ks = filter (\<lambda>r. \<not> mx < of_nat (cum_size w r)) (rows (logs w))"
  have p: "rows (logs (snd (prune_size X w))) = ks"
    using assms by (simp add: prune_size_def Let_def mx_def [symmetric] delete_logs_def ks_def) (simp add: mx_def)
  have "of_nat (sum_list (map LOG_ROW_BYTES ks)) \<le> mx"
  proof (cases "ks = []")
    case True
    with assms show ?thesis by (simp add: mx_def)
  next
    case False
    then obtain r where r: "r \<in> set ks" "\<forall>q \<in> set ks. lg_id r \<le> lg_id q"
      using arg_min_if_finite [of "set ks" lg_id] by (metis List.finite_set not_less set_empty)
    have "ks = filter (\<lambda>q. q \<in> set ks) (filter (\<lambda>q. lg_id r \<le> lg_id q) (rows (logs w)))"
    proof -
      have "filter (\<lambda>q. q \<in> set ks) (filter (\<lambda>q. lg_id r \<le> lg_id q) (rows (logs w))) = filter (\<lambda>q. q \<in> set ks) (rows (logs w))"
        using r(2) by (auto intro: filter_cong)
      also have "\<dots> = ks" by (auto simp: ks_def intro: filter_cong)
      finally show ?thesis by simp
    qed
    moreover have "sum_list (map LOG_ROW_BYTES (filter P rs)) \<le> sum_list (map LOG_ROW_BYTES rs)" for P rs
      by (induction rs) auto
    ultimately have "sum_list (map LOG_ROW_BYTES ks) \<le> cum_size w r" unfolding cum_size_def by metis
    moreover have "of_nat (cum_size w r) \<le> mx" using r(1) by (simp add: ks_def)
    ultimately show ?thesis by (meson of_nat_le_iff order_trans)
  qed
  then show ?thesis by (simp add: logsContentBytes_def p mx_def)
qed

lemma logs_only_trans: "u = w\<lparr>logs := a\<rparr> \<Longrightarrow> v = u\<lparr>logs := b\<rparr> \<Longrightarrow> v = w\<lparr>logs := b\<rparr>"
  by simp

text \<open>The three caps together.\<close>

lemma pruneLogs_caps:
  assumes "pruneLogs X now w = (n, w')" "distinct (map lg_id (rows (logs w)))"
  defines "days \<equiv> setting_num X ''logRetentionDays'' w" and "entries \<equiv> setting_int X ''logMaxEntries'' w"
    and "mb \<equiv> setting_num X ''logMaxSizeMb'' w"
  shows "length (rows (logs w)) = n + length (rows (logs w'))" "set (rows (logs w')) \<subseteq> set (rows (logs w))"
    and "0 < days \<Longrightarrow> r \<in> set (rows (logs w')) \<Longrightarrow> now - days * 86400 * 1000 \<le> lg_ts r"
    and "0 < entries \<Longrightarrow> length (rows (logs w')) \<le> nat entries"
    and "0 < mb \<Longrightarrow> of_nat (logsContentBytes w') \<le> mb * 1024 * 1024"
    and "a \<in> set (rows (logs w')) \<Longrightarrow> b \<in> set (rows (logs w)) \<Longrightarrow> lg_id a \<le> lg_id b \<Longrightarrow>
      b \<in> set (rows (logs w')) \<or> (0 < days \<and> lg_ts b < now - days * 86400 * 1000)"
    and "w' = w\<lparr>logs := logs w'\<rparr>"
proof -
  obtain i u where u: "prune_age X now w = (i, u)" by (rule prod.exhaust)
  obtain j v where v: "prune_count X u = (j, v)" by (rule prod.exhaust)
  obtain k z where z: "prune_size X v = (k, z)" by (rule prod.exhaust)
  have e: "n = i + j + k" "w' = z" using assms(1) by (simp_all add: pruneLogs_def u v z)
  note U = prune_stepD [OF prune_age_step [where X = X and w = w and now = now, unfolded u], folded days_def]
  note V = prune_stepD [OF prune_count_step [where X = X and w = u, unfolded v]]
  note Z = prune_stepD [OF prune_size_step [where X = X and w = v, unfolded z]]
  show "length (rows (logs w)) = n + length (rows (logs w'))" using U(3) V(3) Z(3) e by simp
  show sub: "set (rows (logs w')) \<subseteq> set (rows (logs w))" using U(2) V(2) Z(2) e by blast
  show "now - days * 86400 * 1000 \<le> lg_ts r" if "0 < days" "r \<in> set (rows (logs w'))"
  proof -
    have "r \<in> set (rows (logs u))" using that(2) V(2) Z(2) e by blast
    then show ?thesis using u that(1) by (auto simp: prune_age_def days_def [symmetric] Let_def delete_logs_def)
  qed
  have su: "setting_int X ''logMaxEntries'' u = entries" "setting_num X ''logMaxSizeMb'' v = mb"
    using setting_cong(2) [OF U(1)] setting_cong(1) [OF V(1)] setting_cong(1) [OF U(1)] by (simp_all add: entries_def mb_def)
  show "length (rows (logs w')) \<le> nat entries" if "0 < entries"
  proof -
    have "length (rows (logs v)) \<le> nat entries" using prune_count_cap [OF U(5) [OF assms(2)], where X = X] that su(1) v by simp
    then show ?thesis using Z(3) e by simp
  qed
  show "of_nat (logsContentBytes w') \<le> mb * 1024 * 1024" if "0 < mb"
    using prune_size_cap [where X = X and w = v] that su(2) z e by simp
  show "b \<in> set (rows (logs w')) \<or> (0 < days \<and> lg_ts b < now - days * 86400 * 1000)"
    if "a \<in> set (rows (logs w'))" "b \<in> set (rows (logs w))" "lg_id a \<le> lg_id b"
    using that e Z(2,4) V(2,4) U(4) by blast
  show "w' = w\<lparr>logs := logs w'\<rparr>" 
  proof -
    have "z = w\<lparr>logs := logs z\<rparr>" by (rule logs_only_trans [OF logs_only_trans [OF U(6) V(6)] Z(6)])
    then show ?thesis by (simp add: e)
  qed
qed

lemma find_map_same: "(\<And>x. P (g x) = P x) \<Longrightarrow> List.find P (map g xs) = map_option g (List.find P xs)"
  by (induction xs) simp_all

lemma placement_select_stamp:
  assumes "\<And>r. p_id (f r) = p_id r" "\<And>r. p_lab_id (f r) = p_lab_id r" "\<And>r. p_node_id (f r) = p_node_id r"
  shows "placement_select (upd_placement i f w) =
    map (\<lambda>v. if p_id (pl_row v) = i then v\<lparr>pl_row := f (pl_row v)\<rparr> else v) (placement_select w)"
proof -
  let ?w = "upd_placement i f w"
  have j: "placement_join ?w (if p_id r = i then f r else r) =
      map_option (\<lambda>v. if p_id (pl_row v) = i then v\<lparr>pl_row := f (pl_row v)\<rparr> else v) (placement_join w r)" for r
    using assms by (simp add: placement_join_def lab_by_id_def node_by_id_def upd_placement_def split: option.split)
  have "List.map_filter (placement_join ?w) (map (\<lambda>r. if p_id r = i then f r else r) rs) =
      map (\<lambda>v. if p_id (pl_row v) = i then v\<lparr>pl_row := f (pl_row v)\<rparr> else v) (List.map_filter (placement_join w) rs)" for rs
    by (induction rs) (simp_all add: List.map_filter_simps j split: option.split)
  then show ?thesis by (simp add: placement_select_def upd_placement_def rows_tbl_update)
qed


section \<open>The backup grid\<close>

lemma grid_slot_after:
  assumes "0 < gr_intervalMs g"
  shows "ref < grid_slot g ref" "grid_slot g ref - gr_intervalMs g \<le> ref"
    "ref < of_int (gr_anchor g) + of_int j * gr_intervalMs g \<Longrightarrow> grid_slot g ref \<le> of_int (gr_anchor g) + of_int j * gr_intervalMs g"
proof -
  define q where "q = (ref - of_int (gr_anchor g)) / gr_intervalMs g"
  have r: "ref = of_int (gr_anchor g) + q * gr_intervalMs g" using assms by (simp add: q_def)
  have s: "grid_slot g ref = of_int (gr_anchor g) + of_int (\<lfloor>q\<rfloor> + 1) * gr_intervalMs g" by (simp add: grid_slot_def Let_def q_def)
  have "q < of_int (\<lfloor>q\<rfloor> + 1)" "of_int \<lfloor>q\<rfloor> \<le> q" by linarith+
  then have "q * gr_intervalMs g < of_int (\<lfloor>q\<rfloor> + 1) * gr_intervalMs g" "of_int \<lfloor>q\<rfloor> * gr_intervalMs g \<le> q * gr_intervalMs g"
    using assms by (simp_all only: mult_strict_right_mono mult_right_mono less_imp_le)
  moreover have "of_int (\<lfloor>q\<rfloor> + 1) * gr_intervalMs g = of_int \<lfloor>q\<rfloor> * gr_intervalMs g + gr_intervalMs g" by (simp add: distrib_right)
  ultimately show "ref < grid_slot g ref" "grid_slot g ref - gr_intervalMs g \<le> ref" unfolding s using r by linarith+
  assume "ref < of_int (gr_anchor g) + of_int j * gr_intervalMs g"
  then have "q < of_int j" using assms r by (simp add: mult_less_cancel_right)
  then have "\<lfloor>q\<rfloor> + 1 \<le> j" by linarith
  then show "grid_slot g ref \<le> of_int (gr_anchor g) + of_int j * gr_intervalMs g"
    unfolding s using assms by (simp add: mult_right_mono)
qed

lemma backupGrid_interval: "backupGrid X now w = Some g \<Longrightarrow> 0 < gr_intervalMs g"
  by (auto simp: backupGrid_def Let_def split: if_splits prod.splits)

lemma slotAfter_grid:
  assumes "backupGrid X now w = Some g" shows "slotAfter X ref now w = Some (grid_slot g ref)"
proof -
  have "ref < grid_slot g ref" by (rule grid_slot_after(1) [OF backupGrid_interval [OF assms]])
  then show ?thesis by (simp add: slotAfter_def assms step_past.simps [of _ ref "grid_slot g ref"])
qed

lemma slotAfter_cases:
  "slotAfter X ref now w = (case backupGrid X now w of None \<Rightarrow> None | Some g \<Rightarrow> Some (grid_slot g ref))"
  by (cases "backupGrid X now w") (simp_all add: slotAfter_grid, simp add: slotAfter_def)

text \<open>No second start before the next slot: once the last run is now or later, nothing is due.\<close>

lemma backup_not_due_again:
  assumes "of_int now \<le> setting_num X ''backupLastRun'' w" shows "\<not> backupDue X now w"
proof (cases "backupGrid X now w")
  case (Some g)
  have "setting_num X ''backupLastRun'' w < grid_slot g (setting_num X ''backupLastRun'' w)"
    by (rule grid_slot_after(1) [OF backupGrid_interval [OF Some]])
  with assms show ?thesis by (simp add: backupDue_def slotAfter_cases Some)
qed (simp add: backupDue_def slotAfter_cases)

section \<open>Scans and scrubs are not scheduled twice\<close>

lemma last_within_now: "now \<noteq> 0 \<Longrightarrow> 0 < window \<Longrightarrow> last_within (Some now) now window"
  by (simp add: last_within_def)

definition stamp_scan :: "int \<Rightarrow> nat set \<Rightarrow> placement \<Rightarrow> placement" where
  "stamp_scan now I v = (if p_id (pl_row v) \<in> I then v\<lparr>pl_row := (pl_row v)\<lparr>p_last_usage_scan := Some now\<rparr>\<rparr> else v)"

lemma select_enqueue [simp]: "placement_select (enqueue X n a p b w) = placement_select w"
proof -
  have "placement_join (enqueue X n a p b w) r = placement_join w r" for r
    by (simp add: placement_join_def lab_by_id_def node_by_id_def split: option.split)
  then have "placement_join (enqueue X n a p b w) = placement_join w" by (rule ext)
  then show ?thesis by (simp add: placement_select_def)
qed

lemma settings_scan_step [simp]: "settings (upd_placement i f w) = settings w" "settings (upd_node n g w) = settings w"
  by (simp_all add: upd_placement_def upd_node_def)

lemma scan_loop_select:
  "\<exists>I. placement_select (snd (scan_loop X now ps acc w)) = map (stamp_scan now I) (placement_select w) \<and>
     (\<forall>p \<in> set ps. last_within (p_last_usage_scan (pl_row p)) now (of_int USAGE_SCAN_MIN_GAP_MS) \<or> p_id (pl_row p) \<in> I) \<and>
     settings (snd (scan_loop X now ps acc w)) = settings w"
proof (induction ps arbitrary: acc w)
  case Nil
  have "stamp_scan now {} = id" by (simp add: stamp_scan_def fun_eq_iff)
  then show ?case by (intro exI [of _ "{}"]) simp
next
  case (Cons p ps)
  show ?case
  proof (cases "last_within (p_last_usage_scan (pl_row p)) now (of_int USAGE_SCAN_MIN_GAP_MS)")
    case True
    with Cons.IH [of acc w] show ?thesis by auto
  next
    case False
    let ?u = "enqueue X (pl_node_name p) ''usage.scan''
            (JObj [(''lab'', JStr (pl_lab_name p)), (''users'', JArr (map JStr (roster_names (p_lab_id (pl_row p)) w)))])
            (Some ''usage-scheduler'') w"
    let ?v = "upd_placement (p_id (pl_row p)) (\<lambda>r. r\<lparr>p_last_usage_scan := Some now\<rparr>) ?u"
    obtain I where I: "placement_select (snd (scan_loop X now ps (at_node p # acc) ?v)) = map (stamp_scan now I) (placement_select ?v)"
      "\<forall>p \<in> set ps. last_within (p_last_usage_scan (pl_row p)) now (of_int USAGE_SCAN_MIN_GAP_MS) \<or> p_id (pl_row p) \<in> I"
      "settings (snd (scan_loop X now ps (at_node p # acc) ?v)) = settings ?v"
      using Cons.IH [of "at_node p # acc" ?v] by blast
    have "placement_select ?v = map (stamp_scan now {p_id (pl_row p)}) (placement_select w)"
      by (simp add: placement_select_stamp stamp_scan_def)
    moreover have "stamp_scan now I \<circ> stamp_scan now {p_id (pl_row p)} = stamp_scan now (insert (p_id (pl_row p)) I)"
      by (auto simp: stamp_scan_def fun_eq_iff)
    ultimately show ?thesis using False I by (intro exI [of _ "insert (p_id (pl_row p)) I"]) auto
  qed
qed

lemma scan_loop_recent:
  assumes "\<And>p. p \<in> set ps \<Longrightarrow> last_within (p_last_usage_scan (pl_row p)) now (of_int USAGE_SCAN_MIN_GAP_MS)"
  shows "scan_loop X now ps acc w = (rev acc, w)"
  using assms by (induction ps) simp_all

lemma usage_scans_idempotent:
  assumes "scheduleUsageScans X now w = (names, w')" "now \<noteq> 0"
  shows "scheduleUsageScans X now w' = ([], w')"
proof (cases "\<not> setting_bool X ''usageScanEnabled'' w \<or> off_hour X now ''usageScanTimezone'' ''usageScanHour'' w")
  case True
  with assms(1) show ?thesis by (simp add: scheduleUsageScans_def)
next
  case False
  let ?P = "\<lambda>p. pl_online p \<and> p_state (pl_row p) = PActive"
  let ?r = "\<lambda>p. last_within (p_last_usage_scan (pl_row p)) now (of_int USAGE_SCAN_MIN_GAP_MS)"
  have e: "scan_loop X now (filter ?P (placement_select w)) [] w = (names, w')" using assms(1) False by (simp add: scheduleUsageScans_def)
  obtain I where I: "placement_select w' = map (stamp_scan now I) (placement_select w)"
    "\<forall>p \<in> set (filter ?P (placement_select w)). ?r p \<or> p_id (pl_row p) \<in> I" and s: "settings w' = settings w"
    using scan_loop_select [of X now "filter ?P (placement_select w)" "[]" w] e by auto
  have "?r (stamp_scan now I v)" if "v \<in> set (placement_select w)" "?P (stamp_scan now I v)" for v
    using that I(2) last_within_now [OF assms(2), of "of_int USAGE_SCAN_MIN_GAP_MS"]
    by (auto simp: stamp_scan_def USAGE_SCAN_MIN_GAP_MS_def split: if_splits)
  then have "scan_loop X now (filter ?P (placement_select w')) [] w' = (rev [], w')"
    by (intro scan_loop_recent) (auto simp: I(1))
  then show ?thesis by (simp add: scheduleUsageScans_def)
qed

section \<open>The database stays consistent\<close>

lemma pruneLogs_only_logs: "\<exists>a. snd (pruneLogs X now w) = w\<lparr>logs := a\<rparr>"
proof -
  have "\<exists>a. snd (delete_logs P w) = w\<lparr>logs := a\<rparr>" for P and w :: "'a world" by (auto simp: delete_logs_def)
  moreover have "\<exists>a. w = w\<lparr>logs := a\<rparr>" for w :: "'a world" by (rule exI [of _ "logs w"]) simp
  ultimately have step: "\<exists>a. snd (prune_age X now w) = w\<lparr>logs := a\<rparr>" "\<exists>a. snd (prune_count X w) = w\<lparr>logs := a\<rparr>"
    "\<exists>a. snd (prune_size X w) = w\<lparr>logs := a\<rparr>" for now and w :: "'a world"
    unfolding prune_age_def prune_count_def prune_size_def Let_def by (auto split: option.split)
  obtain a where a: "snd (prune_age X now w) = w\<lparr>logs := a\<rparr>" using step(1) by blast
  obtain b where b: "snd (prune_count X (w\<lparr>logs := a\<rparr>)) = w\<lparr>logs := a, logs := b\<rparr>" using step(2) by blast
  obtain c where c: "snd (prune_size X (w\<lparr>logs := a, logs := b\<rparr>)) = w\<lparr>logs := a, logs := b, logs := c\<rparr>" using step(3) by blast
  show ?thesis using a b c by (auto simp: pruneLogs_def split_beta)
qed

lemma same_core_prune: "same_core (snd (pruneLogs X now w)) w" "same_core (snd (pruneOldData X w)) w"
proof -
  obtain a where "snd (pruneLogs X now w) = w\<lparr>logs := a\<rparr>" using pruneLogs_only_logs [of X now w] by blast
  then show "same_core (snd (pruneLogs X now w)) w" by (intro same_coreI) simp_all
  obtain a where "snd (pruneLogs X (of_int (clock w)) w) = w\<lparr>logs := a\<rparr>" using pruneLogs_only_logs [of X _ w] by blast
  then show "same_core (snd (pruneOldData X w)) w" by (intro same_coreI) (simp_all add: pruneOldData_def Let_def split_beta)
qed

lemma good_enqueue: "core_ok w \<Longrightarrow> good_step w (enqueue X n a p b w)"
  by (rule good_same_core) (simp_all add: same_coreI)

lemma good_scrub_loop: "core_ok w \<Longrightarrow> good_step w (snd (scrub_loop X now interval ns acc w))"
proof (induction ns arbitrary: acc w)
  case (Cons n ns)
  let ?u = "enqueue X (n_name n) ''node.scrub'' (JObj []) (Some ''scrub-scheduler'') w"
  let ?v = "upd_node (n_name n) (\<lambda>r. r\<lparr>n_last_scrub := Some now\<rparr>) ?u"
  have u: "good_step w ?u" by (rule good_enqueue [OF Cons.prems])
  then have "good_step ?u ?v" by (intro upd_node_good) (simp_all add: good_step_def)
  with u have v: "good_step w ?v" by (rule good_step_trans)
  then have "good_step w (snd (scrub_loop X now interval ns (n_name n # acc) ?v))"
    using Cons.IH [of ?v] good_step_trans by (auto simp: good_step_def)
  then show ?case using Cons.IH [OF Cons.prems] good_step_refl [OF Cons.prems] by (simp split: sum.split)
qed (simp add: good_step_refl)

lemma good_scan_stamp:
  assumes "core_ok w" shows "good_step w (upd_placement i (\<lambda>r. r\<lparr>p_last_usage_scan := Some t\<rparr>) w)"
proof (rule good_step_same [OF assms])
  show "schema_ok (upd_placement i (\<lambda>r. r\<lparr>p_last_usage_scan := Some t\<rparr>) w)"
    unfolding upd_placement_def by (rule schema_placement_update) (use assms in \<open>simp_all add: place_key_def port_key_def core_ok_def\<close>)
  show "cold_ok (upd_placement i (\<lambda>r. r\<lparr>p_last_usage_scan := Some t\<rparr>) w)"
    using assms cold_ok_frame [of "upd_placement i (\<lambda>r. r\<lparr>p_last_usage_scan := Some t\<rparr>) w" w] by (simp add: core_ok_def upd_placement_def)
  show "abs_roster (upd_placement i (\<lambda>r. r\<lparr>p_last_usage_scan := Some t\<rparr>) w) = abs_roster w"
    by (simp add: abs_roster_def upd_placement_def colset_tbl_update placed_key_def)
qed (simp add: upd_placement_def)

lemma good_scan_loop: "core_ok w \<Longrightarrow> good_step w (snd (scan_loop X now ps acc w))"
proof (induction ps arbitrary: acc w)
  case (Cons p ps)
  have "good_step w (snd (scan_loop X now ps acc' (upd_placement i (\<lambda>r. r\<lparr>p_last_usage_scan := Some now\<rparr>) (enqueue X n a q b w))))"
    for acc' i n a q b
  proof -
    let ?u = "enqueue X n a q b w"
    let ?v = "upd_placement i (\<lambda>r. r\<lparr>p_last_usage_scan := Some now\<rparr>) ?u"
    have u: "good_step w ?u" by (rule good_enqueue [OF Cons.prems])
    then have "good_step ?u ?v" by (intro good_scan_stamp) (simp add: good_step_def)
    with u have v: "good_step w ?v" by (rule good_step_trans)
    then show ?thesis using Cons.IH [of ?v] good_step_trans by (auto simp: good_step_def)
  qed
  then show ?case using Cons by simp
qed (simp add: good_step_refl)

lemma good_maintenance:
  assumes "core_ok w" shows "good_step w (snd (maintenance_tick X w))"
proof -
  let ?u = "snd (pruneOldData X w)"
  have u: "good_step w ?u" by (rule good_same_core [OF assms same_core_prune(2)])
  then have cu: "core_ok ?u" by (simp add: good_step_def)
  have s: "good_step w (snd (scheduleScrubs X now ?u))" for now
    using good_step_trans [OF u good_scrub_loop [OF cu]] u by (simp add: scheduleScrubs_def)
  have "good_step w (snd (scheduleUsageScans X now v))" if "good_step w v" for now v
    using good_step_trans [OF that good_scan_loop] that by (auto simp: scheduleUsageScans_def good_step_def [of w v])
  then show ?thesis
    unfolding maintenance_tick_def Let_def by (intro and_then_pres [where I = "good_step w"] s) simp
qed

end
