(* ===== verification/NodeGroups.thy ===== *)
theory NodeGroups
  imports Nodes
begin

text \<open>
  Named groups of nodes (src/controller/src/lib/nodegroups.ts): creation, renaming, deletion and the
  replacement of a group's members, with the integrity of the two tables and what each call changes.
\<close>

record node_group =
  ng_id :: nat
  ng_name :: string
  ng_created_at :: int
  ng_nodeIds :: "nat list"

definition MAX_NAME_LEN :: nat where
  "MAX_NAME_LEN = 40"

text \<open>\<open>replace(/\s+/g, " ")\<close>: every run of blanks becomes one space.\<close>

fun collapse :: "string \<Rightarrow> string" where
  "collapse [] = []"
| "collapse [c] = (if js_space c then '' '' else [c])"
| "collapse (c # d # s) =
     (if js_space c then (if js_space d then collapse (d # s) else CHR '' '' # collapse (d # s)) else c # collapse (d # s))"

definition cleanGroupName :: "string \<Rightarrow> error + string" where
  "cleanGroupName name =
     (let clean = collapse (trim name) in
      if clean = [] then Inl (GroupE GroupNameRequired)
      else if MAX_NAME_LEN < length clean then Inl (GroupE GroupNameTooLong)
      else Inr clean)"

definition group_nodes :: "nat \<Rightarrow> 'h world \<Rightarrow> nat list" where
  "group_nodes i w = map gm_node_id (filter (\<lambda>m. gm_group_id m = i) (node_group_members w))"

definition listNodeGroups :: "'h world \<Rightarrow> node_group list" where
  "listNodeGroups w =
     map (\<lambda>g. \<lparr>ng_id = g_id g, ng_name = g_name g, ng_created_at = g_created_at g, ng_nodeIds = group_nodes (g_id g) w\<rparr>)
       (sort_key g_name (rows (node_groups w)))"

definition group_by_id :: "nat \<Rightarrow> 'h world \<Rightarrow> node_group_row option" where
  "group_by_id i w = tbl_get (\<lambda>g. g_id g = i) (node_groups w)"

definition createNodeGroup :: "string \<Rightarrow> string option \<Rightarrow> (node_group, 'h) op" where
  "createNodeGroup name actor w =
     (case cleanGroupName name of
        Inl e \<Rightarrow> (Inl e, w)
      | Inr clean \<Rightarrow>
          if tbl_get (\<lambda>g. g_name g = clean) (node_groups w) \<noteq> None then (Inl (GroupE (GroupNameTaken clean)), w)
          else
            let i = tbl_next (node_groups w);
                v = w\<lparr>node_groups := tbl_insert (\<lambda>i. \<lparr>g_id = i, g_name = clean, g_created_at = clock w\<rparr>) (node_groups w)\<rparr>
            in (Inr \<lparr>ng_id = i, ng_name = clean, ng_created_at = clock w, ng_nodeIds = []\<rparr>,
                audit actor ''nodegroup.create'' (Some clean) None v))"

definition renameNodeGroup :: "nat \<Rightarrow> string \<Rightarrow> string option \<Rightarrow> (unit, 'h) op" where
  "renameNodeGroup i name actor w =
     (case cleanGroupName name of
        Inl e \<Rightarrow> (Inl e, w)
      | Inr clean \<Rightarrow>
          (case group_by_id i w of
             None \<Rightarrow> (Inl (GroupE UnknownGroup), w)
           | Some g \<Rightarrow>
               if tbl_get (\<lambda>g. g_name g = clean \<and> g_id g \<noteq> i) (node_groups w) \<noteq> None then (Inl (GroupE (GroupNameTaken clean)), w)
               else (Inr (), audit actor ''nodegroup.rename'' (Some (g_name g)) (Some clean)
                      (w\<lparr>node_groups := tbl_update (\<lambda>g. g_id g = i) (\<lambda>g. g\<lparr>g_name := clean\<rparr>) (node_groups w)\<rparr>))))"

definition deleteNodeGroup :: "nat \<Rightarrow> string option \<Rightarrow> 'h world \<Rightarrow> 'h world" where
  "deleteNodeGroup i actor w =
     (case group_by_id i w of
        None \<Rightarrow> w
      | Some g \<Rightarrow> audit actor ''nodegroup.delete'' (Some (g_name g)) None
          (w\<lparr>node_groups := tbl_delete (\<lambda>g. g_id g = i) (node_groups w),
             node_group_members := filter (\<lambda>m. gm_group_id m \<noteq> i) (node_group_members w)\<rparr>))"

definition setNodeGroupMembers :: "nat \<Rightarrow> nat list \<Rightarrow> string option \<Rightarrow> (unit, 'h) op" where
  "setNodeGroupMembers i nodeIds actor w =
     (case group_by_id i w of
        None \<Rightarrow> (Inl (GroupE UnknownGroup), w)
      | Some g \<Rightarrow>
          let valid = n_id ` set (rows (nodes w));
              wanted = filter (\<lambda>n. n \<in> valid) (js_set nodeIds)
          in (Inr (), audit actor ''nodegroup.members'' (Some (g_name g)) (Some (show_nat (length wanted) @ '' node(s)''))
                (w\<lparr>node_group_members := filter (\<lambda>m. gm_group_id m \<noteq> i) (node_group_members w) @
                   map (\<lambda>n. \<lparr>gm_group_id = i, gm_node_id = n\<rparr>) wanted\<rparr>)))"

section \<open>Integrity\<close>

definition gm_key :: "node_group_member_row \<Rightarrow> nat \<times> nat" where
  "gm_key m = (gm_group_id m, gm_node_id m)"

text \<open>Keys, the unique name, the unique pair, and the two foreign keys of the membership.\<close>

definition groups_ok :: "'h world \<Rightarrow> bool" where
  "groups_ok w \<longleftrightarrow> pk_ok g_id (node_groups w) \<and> distinct (map g_name (rows (node_groups w))) \<and>
     distinct (map gm_key (node_group_members w)) \<and>
     (\<forall>m \<in> set (node_group_members w). gm_group_id m \<in> g_id ` set (rows (node_groups w)) \<and> gm_node_id m \<in> n_id ` set (rows (nodes w)))"

lemma cleanGroupName_ok:
  assumes "cleanGroupName name = Inr clean" shows "clean \<noteq> []" "length clean \<le> MAX_NAME_LEN"
  using assms by (auto simp: cleanGroupName_def Let_def split: if_splits)

lemma group_by_id_Some: "group_by_id i w = Some g \<Longrightarrow> g \<in> set (rows (node_groups w)) \<and> g_id g = i"
  unfolding group_by_id_def by (drule tbl_get_Some) simp

lemma audit_groups [simp]:
  "node_groups (audit a b c d w) = node_groups w" "node_group_members (audit a b c d w) = node_group_members w"
  by (simp_all add: audit_def)

lemma create_groups_ok:
  assumes "groups_ok w" shows "groups_ok (snd (createNodeGroup name actor w))"
proof (cases "cleanGroupName name")
  case (Inr clean)
  show ?thesis
  proof (cases "tbl_get (\<lambda>g. g_name g = clean) (node_groups w)")
    case None
    with assms Inr show ?thesis
      by (auto simp: createNodeGroup_def groups_ok_def Let_def tbl_get_None intro!: pk_ok_insert)
  qed (simp add: createNodeGroup_def Inr assms)
qed (simp add: createNodeGroup_def assms)

lemma rename_groups_ok:
  assumes "groups_ok w" shows "groups_ok (snd (renameNodeGroup i name actor w))"
proof (cases "cleanGroupName name")
  case (Inr clean)
  show ?thesis
  proof (cases "group_by_id i w")
    case (Some g)
    show ?thesis
    proof (cases "tbl_get (\<lambda>g. g_name g = clean \<and> g_id g \<noteq> i) (node_groups w)")
      case None
      let ?f = "\<lambda>g :: node_group_row. g\<lparr>g_name := clean\<rparr>"
      have "distinct (map g_name (map (\<lambda>g. if g_id g = i then ?f g else g) rs))"
        if "distinct (map g_name rs)" "distinct (map g_id rs)" "\<forall>g \<in> set rs. \<not> (g_name g = clean \<and> g_id g \<noteq> i)" for rs
        using that
      proof (induction rs)
        case (Cons r rs)
        show ?case
        proof (cases "g_id r = i")
          case True
          have other: "g_id x \<noteq> i" if x: "x \<in> set rs" for x
            using Cons.prems(2) True imageI [OF x, of g_id] by auto
          then have "map (\<lambda>g. if g_id g = i then ?f g else g) rs = rs" by (simp add: map_idI)
          moreover have "clean \<notin> g_name ` set rs" using Cons.prems(3) other by auto
          ultimately show ?thesis using True Cons.prems(1) by simp
        next
          case False
          let ?F = "\<lambda>g. if g_id g = i then ?f g else g"
          have other: "g_name (?F x) \<noteq> g_name r" if x: "x \<in> set rs" for x
          proof (cases "g_id x = i")
            case True
            with Cons.prems(3) False show ?thesis by auto
          next
            case False
            have "g_name r \<notin> g_name ` set rs" using Cons.prems(1) by simp
            with imageI [OF x, of g_name] have "g_name x \<noteq> g_name r" by metis
            with False show ?thesis by simp
          qed
          have "g_name r \<notin> set (map g_name (map ?F rs))"
          proof
            assume "g_name r \<in> set (map g_name (map ?F rs))"
            then have "g_name r \<in> (\<lambda>x. g_name (?F x)) ` set rs" by (simp only: set_map image_image)
            then obtain x where "g_name r = g_name (?F x)" "x \<in> set rs" by (rule imageE)
            then show False using other [of x] by simp
          qed
          moreover have "distinct (map g_name (map ?F rs))" using Cons by simp
          moreover have "?F r = r" using False by simp
          ultimately show ?thesis by (simp only: list.map distinct.simps not_False_eq_True simp_thms)
        qed
      qed simp
      moreover have "distinct (map g_id (rows (node_groups w)))" using assms by (simp add: groups_ok_def pk_ok_def)
      ultimately have "distinct (map g_name (rows (tbl_update (\<lambda>g. g_id g = i) ?f (node_groups w))))"
        using assms None by (auto simp: groups_ok_def tbl_get_None rows_tbl_update)
      with assms show ?thesis
        by (simp add: renameNodeGroup_def Inr Some None groups_ok_def pk_ok_update colset_tbl_update)
    qed (simp add: renameNodeGroup_def Inr Some assms)
  qed (simp add: renameNodeGroup_def Inr assms)
qed (simp add: renameNodeGroup_def assms)

lemma delete_groups_ok:
  assumes "groups_ok w" shows "groups_ok (deleteNodeGroup i actor w)"
  using assms by (auto simp: deleteNodeGroup_def groups_ok_def pk_ok_delete distinct_map_filter split: option.split)

lemma set_members_ok:
  assumes "groups_ok w" shows "groups_ok (snd (setNodeGroupMembers i ns actor w))"
proof (cases "group_by_id i w")
  case (Some g)
  let ?old = "filter (\<lambda>m. gm_group_id m \<noteq> i) (node_group_members w)"
  let ?new = "map (\<lambda>n. \<lparr>gm_group_id = i, gm_node_id = n\<rparr>) (filter (\<lambda>n. n \<in> n_id ` set (rows (nodes w))) (js_set ns))"
  have e: "node_group_members (snd (setNodeGroupMembers i ns actor w)) = ?old @ ?new"
    "node_groups (snd (setNodeGroupMembers i ns actor w)) = node_groups w" "nodes (snd (setNodeGroupMembers i ns actor w)) = nodes w"
    using Some by (simp_all add: setNodeGroupMembers_def Let_def)
  have "distinct (map gm_key ?new)" by (simp add: gm_key_def comp_def distinct_map inj_on_def)
  moreover have "distinct (map gm_key ?old)" using assms by (simp add: groups_ok_def distinct_map_filter)
  moreover have "set (map gm_key ?old) \<inter> set (map gm_key ?new) = {}" by (auto simp: gm_key_def)
  ultimately have "distinct (map gm_key (?old @ ?new))" by simp
  moreover have "i \<in> g_id ` set (rows (node_groups w))" using group_by_id_Some [OF Some] by blast
  then have "\<forall>m \<in> set (?old @ ?new). gm_group_id m \<in> g_id ` set (rows (node_groups w)) \<and> gm_node_id m \<in> n_id ` set (rows (nodes w))"
    using assms by (auto simp: groups_ok_def)
  ultimately show ?thesis using assms by (simp only: groups_ok_def e)
qed (simp add: setNodeGroupMembers_def assms)

section \<open>What a replacement of members does\<close>

lemma set_members_effect:
  assumes "group_by_id i w = Some g" "setNodeGroupMembers i ns actor w = (r, w')"
  shows "set (group_nodes i w') = set ns \<inter> n_id ` set (rows (nodes w))" "distinct (group_nodes i w')"
    "j \<noteq> i \<Longrightarrow> group_nodes j w' = group_nodes j w" "node_groups w' = node_groups w"
proof -
  have e: "node_group_members w' = filter (\<lambda>m. gm_group_id m \<noteq> i) (node_group_members w) @
      map (\<lambda>n. \<lparr>gm_group_id = i, gm_node_id = n\<rparr>) (filter (\<lambda>n. n \<in> n_id ` set (rows (nodes w))) (js_set ns))"
    "node_groups w' = node_groups w"
    using assms by (auto simp: setNodeGroupMembers_def Let_def)
  have "group_nodes i w' = filter (\<lambda>n. n \<in> n_id ` set (rows (nodes w))) (js_set ns)"
    by (simp add: group_nodes_def e filter_map comp_def)
  then show "set (group_nodes i w') = set ns \<inter> n_id ` set (rows (nodes w))" "distinct (group_nodes i w')" by auto
  show "j \<noteq> i \<Longrightarrow> group_nodes j w' = group_nodes j w" by (auto simp: group_nodes_def e filter_map comp_def conj_commute intro: arg_cong [where f = "map gm_node_id"] filter_cong)
  show "node_groups w' = node_groups w" by (rule e)
qed

end
