(* ===== verification/Csv.thy ===== *)
theory Csv
  imports Prelude "HOL-Library.AList"
begin

text \<open>
  The CSV reader and the validation of imported rows (src/controller/src/lib/csv.ts): the character
  loop of \<open>parseCsv\<close> as a recursive scanner, the column mapping, and \<open>validateImportRows\<close>, which the
  browser preview and the server action share. A header named \<open>__proto__\<close> or like a method of
  \<open>Object.prototype\<close> is outside the model.
\<close>

definition quote_char :: char where
  "quote_char = CHR 0x22"

section \<open>The scanner\<close>

text \<open>State: inside quotes, the field so far, the row so far; the result is the list of records.\<close>

fun csv_scan :: "bool \<Rightarrow> string \<Rightarrow> string list \<Rightarrow> string \<Rightarrow> string list list" where
  "csv_scan q field row [] = (if field \<noteq> [] \<or> row \<noteq> [] then [row @ [field]] else [])"
| "csv_scan True field row [c] =
     (if c = quote_char then csv_scan False field row [] else csv_scan True (field @ [c]) row [])"
| "csv_scan True field row (c # d # s) =
     (if c = quote_char then (if d = quote_char then csv_scan True (field @ [quote_char]) row s else csv_scan False field row (d # s))
      else csv_scan True (field @ [c]) row (d # s))"
| "csv_scan False field row (c # s) =
     (if c = quote_char then csv_scan True field row s
      else if c = CHR '','' then csv_scan False [] (row @ [field]) s
      else if c = CHR 0x0A then (row @ [field]) # csv_scan False [] [] s
      else if c = CHR 0x0D then csv_scan False field row s
      else csv_scan False (field @ [c]) row s)"

record parsed_csv =
  csv_headers :: "string list"
  csv_rows :: "(string \<times> string) list list"

text \<open>\<open>headers.forEach((h, idx) => obj[h] = (r[idx] ?? "").trim())\<close>.\<close>

definition csv_object :: "string list \<Rightarrow> string list \<Rightarrow> (string \<times> string) list" where
  "csv_object headers r =
     fold (\<lambda>(idx, h) obj. AList.update h (trim (if idx < length r then r ! idx else [])) obj) (enumerate 0 headers) []"

definition parseCsv :: "string \<Rightarrow> parsed_csv" where
  "parseCsv text' =
     (let nonEmpty = filter (\<lambda>r. \<exists>cell \<in> set r. trim cell \<noteq> []) (csv_scan False [] [] text') in
      case nonEmpty of
        [] \<Rightarrow> \<lparr>csv_headers = [], csv_rows = []\<rparr>
      | h # rs \<Rightarrow> let headers = map trim h in \<lparr>csv_headers = headers, csv_rows = map (csv_object headers) rs\<rparr>)"

section \<open>Rows to import\<close>

record column_mapping =
  cm_username :: string
  cm_email :: "string option"
  cm_name :: "string option"
  cm_studentId :: "string option"

record raw_import_row =
  rr_username :: "string option"
  rr_email :: "string option"
  rr_name :: "string option"
  rr_studentId :: "string option"

record import_row =
  ir_username :: string
  ir_email :: "string option"
  ir_name :: "string option"
  ir_studentId :: "string option"
  ir_issues :: "string list"

definition is_name_char :: "char \<Rightarrow> bool" where
  "is_name_char c = (is_az c \<or> is_digit c \<or> c = CHR ''_'' \<or> c = CHR ''-'')"

definition USERNAME_RE :: "string \<Rightarrow> bool" where
  "USERNAME_RE = name_re (\<lambda>c. is_az c \<or> c = CHR ''_'') is_name_char 31"

text \<open>\<open>v?.trim() || undefined\<close>.\<close>

definition trimmed :: "string option \<Rightarrow> string option" where
  "trimmed v = (case v of None \<Rightarrow> None | Some s \<Rightarrow> nonblank (trim s))"

definition row_username :: "raw_import_row \<Rightarrow> string" where
  "row_username r = toLower (trim (case rr_username r of None \<Rightarrow> [] | Some u \<Rightarrow> u))"

definition validate_row :: "bool \<Rightarrow> string list \<Rightarrow> raw_import_row \<Rightarrow> import_row" where
  "validate_row requireEmail seen r =
     (let username = row_username r; email = trimmed (rr_email r) in
      \<lparr>ir_username = username, ir_email = email, ir_name = trimmed (rr_name r), ir_studentId = trimmed (rr_studentId r),
       ir_issues =
         (if username = [] then [''missing username'']
          else if \<not> USERNAME_RE username then [''invalid username'']
          else if username \<in> set seen then [''duplicate username in file''] else []) @
         (if requireEmail \<and> email = None then [''missing email''] else [])\<rparr>)"

fun validate_loop :: "bool \<Rightarrow> string list \<Rightarrow> raw_import_row list \<Rightarrow> import_row list" where
  "validate_loop requireEmail seen [] = []"
| "validate_loop requireEmail seen (r # rs) =
     (let u = row_username r in
      validate_row requireEmail seen r # validate_loop requireEmail (if u = [] then seen else u # seen) rs)"

definition validateImportRows :: "bool \<Rightarrow> raw_import_row list \<Rightarrow> import_row list" where
  "validateImportRows requireEmail rs = validate_loop requireEmail [] rs"

definition csv_cell :: "(string \<times> string) list \<Rightarrow> string \<Rightarrow> string" where
  "csv_cell r col = (case map_of r col of None \<Rightarrow> [] | Some v \<Rightarrow> v)"

text \<open>An empty column name is falsy, like an absent one.\<close>

definition mapped :: "(string \<times> string) list \<Rightarrow> string option \<Rightarrow> string option" where
  "mapped r col = (case col of None \<Rightarrow> None | Some c \<Rightarrow> if c = [] then None else Some (csv_cell r c))"

definition applyMapping :: "parsed_csv \<Rightarrow> column_mapping \<Rightarrow> import_row list" where
  "applyMapping parsed m =
     validateImportRows (case cm_email m of None \<Rightarrow> False | Some c \<Rightarrow> c \<noteq> [])
       (map (\<lambda>r. \<lparr>rr_username = Some (csv_cell r (cm_username m)), rr_email = mapped r (cm_email m), rr_name = mapped r (cm_name m),
          rr_studentId = mapped r (cm_studentId m)\<rparr>) (csv_rows parsed))"

section \<open>Reading back what a writer quotes\<close>

text \<open>The specification: a writer that quotes every field, doubles the quotes inside and ends records with CRLF.\<close>

definition quote_field :: "string \<Rightarrow> string" where
  "quote_field f = quote_char # concat (map (\<lambda>c. if c = quote_char then [quote_char, quote_char] else [c]) f) @ [quote_char]"

definition write_record :: "string list \<Rightarrow> string" where
  "write_record r = join '','' (map quote_field r) @ [CHR 0x0D, CHR 0x0A]"

definition write_csv :: "string list list \<Rightarrow> string" where
  "write_csv rs = concat (map write_record rs)"

lemma csv_scan_quoted:
  "s = [] \<or> hd s \<noteq> quote_char \<Longrightarrow>
   csv_scan True acc row (concat (map (\<lambda>c. if c = quote_char then [quote_char, quote_char] else [c]) f) @ quote_char # s) =
     csv_scan False (acc @ f) row s"
proof (induction f arbitrary: acc)
  case Nil
  then show ?case by (cases s) simp_all
next
  case (Cons c f)
  let ?t = "concat (map (\<lambda>c. if c = quote_char then [quote_char, quote_char] else [c]) f) @ quote_char # s"
  have "?t \<noteq> []" by simp
  then obtain d t where t: "?t = d # t" by (cases ?t) simp_all
  show ?case
  proof (cases "c = quote_char")
    case True
    then show ?thesis using Cons.IH [OF Cons.prems, of "acc @ [quote_char]"] by simp
  next
    case False
    then show ?thesis using Cons.IH [OF Cons.prems, of "acc @ [c]"] t by simp
  qed
qed

lemma quote_char_differs [simp]: "quote_char \<noteq> CHR '',''" "quote_char \<noteq> CHR 0x0A" "quote_char \<noteq> CHR 0x0D"
    "CHR '','' \<noteq> quote_char" "CHR 0x0A \<noteq> quote_char" "CHR 0x0D \<noteq> quote_char"
  by (simp_all add: quote_char_def)

lemma csv_scan_field:
  "s = [] \<or> hd s \<noteq> quote_char \<Longrightarrow> csv_scan False [] row (quote_field f @ s) = csv_scan False f row s"
  using csv_scan_quoted [of s "[]" row f] by (simp add: quote_field_def)

lemma csv_scan_record:
  "r \<noteq> [] \<Longrightarrow> csv_scan False [] row (write_record r @ s) = (row @ r) # csv_scan False [] [] s"
proof (induction r arbitrary: row)
  case (Cons f r)
  show ?case
  proof (cases r)
    case Nil
    then show ?thesis by (simp add: write_record_def csv_scan_field)
  next
    case (Cons g r')
    have "csv_scan False [] row (write_record (f # r) @ s) = csv_scan False f row (CHR '','' # (write_record r @ s))"
      by (simp add: write_record_def Cons csv_scan_field)
    also have "\<dots> = csv_scan False [] (row @ [f]) (write_record r @ s)" by simp
    also have "\<dots> = (row @ f # r) # csv_scan False [] [] s" using Cons.IH [of "row @ [f]"] Cons by simp
    finally show ?thesis .
  qed
qed simp

lemma csv_scan_write: "[] \<notin> set rs \<Longrightarrow> csv_scan False [] [] (write_csv rs) = rs"
proof (induction rs)
  case (Cons r rs)
  then show ?case using csv_scan_record [of r "[]" "write_csv rs"] by (auto simp: write_csv_def)
qed (simp add: write_csv_def)

section \<open>Validation\<close>

lemma validate_loop_length [simp]: "length (validate_loop q seen rs) = length rs"
  by (induction rs arbitrary: seen) (simp_all add: Let_def)

lemma validate_row_simps [simp]: "ir_username (validate_row q seen r) = row_username r"
  by (simp add: validate_row_def Let_def)

lemma validate_row_clean:
  assumes "ir_issues (validate_row q seen r) = []"
  shows "USERNAME_RE (row_username r)" "row_username r \<notin> set seen" "q \<longrightarrow> ir_email (validate_row q seen r) \<noteq> None"
  using assms by (auto simp: validate_row_def Let_def split: if_splits)

lemma validate_loop_clean:
  "x \<in> set (validate_loop q seen rs) \<Longrightarrow> ir_issues x = [] \<Longrightarrow>
     USERNAME_RE (ir_username x) \<and> ir_username x \<notin> set seen \<and> (q \<longrightarrow> ir_email x \<noteq> None)"
proof (induction rs arbitrary: seen)
  case (Cons r rs)
  let ?seen = "if row_username r = [] then seen else row_username r # seen"
  from Cons.prems(1) consider "x = validate_row q seen r" | "x \<in> set (validate_loop q ?seen rs)" by (auto simp: Let_def)
  then show ?case
  proof cases
    case 1
    with Cons.prems(2) validate_row_clean [of q seen r] show ?thesis by simp
  next
    case 2
    with Cons.IH [OF 2 Cons.prems(2)] show ?thesis by (auto split: if_splits)
  qed
qed simp

lemma validate_loop_distinct:
  "distinct (map ir_username (filter (\<lambda>x. ir_issues x = []) (validate_loop q seen rs)))"
proof (induction rs arbitrary: seen)
  case (Cons r rs)
  let ?seen = "if row_username r = [] then seen else row_username r # seen"
  have "row_username r \<notin> ir_username ` set (filter (\<lambda>x. ir_issues x = []) (validate_loop q ?seen rs))" if "row_username r \<noteq> []"
    using validate_loop_clean [of _ q ?seen rs] that by fastforce
  moreover have "row_username r \<noteq> []" if "ir_issues (validate_row q seen r) = []"
    using that by (auto simp: validate_row_def Let_def split: if_splits)
  ultimately show ?case using Cons [of ?seen] by (cases "row_username r = []") (auto simp: Let_def)
qed simp

text \<open>What the browser sends back for a validated row.\<close>

definition resend :: "import_row \<Rightarrow> raw_import_row" where
  "resend x = \<lparr>rr_username = Some (ir_username x), rr_email = ir_email x, rr_name = ir_name x, rr_studentId = ir_studentId x\<rparr>"

lemma js_space_lower [simp]: "js_space (lower_char c) = js_space c"
  by (auto simp: lower_char_def js_space_def is_upper_def Let_def code_unit_def)

lemma dropWhile_lower: "dropWhile js_space (map lower_char s) = map lower_char (dropWhile js_space s)"
  by (induction s) auto

lemma trim_lower: "trim (toLower s) = toLower (trim s)"
  by (simp add: trim_def trimStart_def trimEnd_def toLower_def dropWhile_lower rev_map)

lemma trimmed_idem [simp]: "trimmed (trimmed v) = trimmed v"
  by (auto simp: trimmed_def nonblank_def split: option.split)

lemma revalidate_row: "validate_row q seen (resend (validate_row q' seen' r)) = validate_row q seen r"
  and revalidate_username: "row_username (resend (validate_row q' seen' r)) = row_username r"
proof -
  show u: "row_username (resend (validate_row q' seen' r)) = row_username r"
    by (simp add: resend_def row_username_def [of "raw_import_row.make a b c d" for a b c d] row_username_def trim_lower)
  have "trimmed (rr_email (resend (validate_row q' seen' r))) = trimmed (rr_email r)"
    "trimmed (rr_name (resend (validate_row q' seen' r))) = trimmed (rr_name r)"
    "trimmed (rr_studentId (resend (validate_row q' seen' r))) = trimmed (rr_studentId r)"
    by (simp_all add: resend_def validate_row_def Let_def)
  then show "validate_row q seen (resend (validate_row q' seen' r)) = validate_row q seen r"
    by (simp add: validate_row_def [of q seen] u)
qed

lemma revalidate:
  "validate_loop q seen (map resend (validate_loop q' seen' rs)) = validate_loop q seen rs"
  by (induction rs arbitrary: seen seen') (simp_all add: Let_def revalidate_row revalidate_username)

end
