(* ===== verification/LabImport.thy ===== *)
theory LabImport
  imports Csv Controller
begin

text \<open>
  The roster import of a lab (src/controller/src/lib/labimport.ts): the plan computed from the CSV text
  and the database without writing, and its application in one transaction followed by the provisioning
  of the new members.
\<close>

definition MAX_IMPORT_BYTES :: nat where
  "MAX_IMPORT_BYTES = 1000000"

definition MAX_IMPORT_ROWS :: nat where
  "MAX_IMPORT_ROWS = 5000"

text \<open>\<open>/^[^\s@]+@[^\s@]+\.[^\s@]+$/\<close>: one at sign, no blank, and a dot inside the part after it.\<close>

definition EMAIL_RE :: "string \<Rightarrow> bool" where
  "EMAIL_RE s =
     (list_all (\<lambda>c. \<not> js_space c) s \<and>
      (case splitOn (CHR ''@'') s of
         [a, d] \<Rightarrow> a \<noteq> [] \<and> (case d of [] \<Rightarrow> False | c # r \<Rightarrow> CHR ''.'' \<in> set (butlast r))
       | _ \<Rightarrow> False))"

definition STUDENT_ID_RE :: "string \<Rightarrow> bool" where
  "STUDENT_ID_RE = name_re is_alnum (\<lambda>c. is_alnum c \<or> c = CHR ''.'' \<or> c = CHR ''_'' \<or> c = CHR ''-'') 63"

section \<open>The plan\<close>

record import_issue =
  ii_line :: nat
  ii_message :: string

record student_create =
  sc_username :: string
  sc_studentId :: "string option"
  sc_name :: "string option"
  sc_email :: "string option"

record student_update =
  su_username :: string
  su_studentId :: "string option"
  su_name :: "string option"
  su_email :: "string option"

record pi_update =
  pu_piUsername :: "string option"
  pu_piName :: "string option"
  pu_piEmail :: "string option"

record roster_plan =
  rp_lab :: string
  rp_piUpdate :: "pi_update option"
  rp_studentsToCreate :: "student_create list"
  rp_studentsToUpdate :: "student_update list"
  rp_membershipsToAdd :: "string list"
  rp_conflicts :: "import_issue list"
  rp_invalid :: "import_issue list"
  rp_ok :: bool

datatype row_role = StudentRole | PiRole

record valid_row =
  vr_line :: nat
  vr_role :: row_role
  vr_user :: string
  vr_sid :: "string option"
  vr_sname :: "string option"
  vr_semail :: "string option"

definition norm :: "string option \<Rightarrow> string" where
  "norm v = trim (case v of None \<Rightarrow> [] | Some s \<Rightarrow> s)"

definition lower :: "string option \<Rightarrow> string" where
  "lower v = toLower (norm v)"

definition emptyPlan :: "string \<Rightarrow> import_issue option \<Rightarrow> roster_plan" where
  "emptyPlan lab issue = \<lparr>rp_lab = lab, rp_piUpdate = None, rp_studentsToCreate = [], rp_studentsToUpdate = [],
     rp_membershipsToAdd = [], rp_conflicts = [], rp_invalid = (case issue of None \<Rightarrow> [] | Some i \<Rightarrow> [i]), rp_ok = False\<rparr>"

definition quoted :: "string \<Rightarrow> string" where
  "quoted s = [CHR 0x27] @ s @ [CHR 0x27]"

text \<open>Phase A, one row: the message of the first failed test, or the validated row.\<close>

definition roster_row :: "nat \<Rightarrow> (string \<times> string) list \<Rightarrow> string + valid_row" where
  "roster_row line r =
     (let roleRaw = or_else (lower (map_of r ''role'')) ''student'';
          user = lower (map_of r ''username'');
          sid = nonblank (norm (map_of r ''student_id''));
          sname = nonblank (norm (map_of r ''name''));
          semail = nonblank (lower (map_of r ''email''));
          bad_email = (case semail of None \<Rightarrow> False | Some e \<Rightarrow> \<not> EMAIL_RE e);
          bad_sid = (case sid of None \<Rightarrow> False | Some i \<Rightarrow> \<not> STUDENT_ID_RE i);
          sid_message = ''invalid student_id '' @ quoted (case sid of None \<Rightarrow> [] | Some i \<Rightarrow> i);
          accepted = (\<lambda>role. Inr \<lparr>vr_line = line, vr_role = role, vr_user = user, vr_sid = sid, vr_sname = sname, vr_semail = semail\<rparr>)
      in if roleRaw \<noteq> ''student'' \<and> roleRaw \<noteq> ''pi''
         then Inl (''unknown role '' @ quoted roleRaw @ '' (use '' @ quoted ''student'' @ '' or '' @ quoted ''pi'' @ '')'')
         else if roleRaw = ''pi'' then
           (if user = [] then Inl ''username required on a pi row''
            else if \<not> USERNAME_RE user then Inl (''invalid username '' @ quoted user)
            else if semail = None then Inl ''email required on a pi row''
            else if bad_email then Inl ''invalid pi email''
            else if bad_sid then Inl sid_message
            else accepted PiRole)
         else if user = [] then Inl ''username required on a student row''
         else if \<not> USERNAME_RE user then Inl (''invalid username '' @ quoted user)
         else if bad_sid then Inl sid_message
         else if bad_email then Inl ''invalid email''
         else accepted StudentRole)"

fun roster_rows :: "nat \<Rightarrow> (string \<times> string) list list \<Rightarrow> import_issue list \<times> valid_row list" where
  "roster_rows line [] = ([], [])"
| "roster_rows line (r # rs) =
     (let (invalid, valid) = roster_rows (Suc line) rs in
      case roster_row line r of
        Inl msg \<Rightarrow> (\<lparr>ii_line = line, ii_message = msg\<rparr> # invalid, valid)
      | Inr v \<Rightarrow> (invalid, v # valid))"

text \<open>Phase B: one field of the effective PI, and the three fields over the pi rows.\<close>

definition pi_field :: "nat \<Rightarrow> string \<Rightarrow> string option \<Rightarrow> string option \<Rightarrow> import_issue list \<times> string option" where
  "pi_field line what cur new =
     (case new of
        None \<Rightarrow> ([], cur)
      | Some x \<Rightarrow>
          if cur \<noteq> None \<and> cur \<noteq> Some x then ([\<lparr>ii_line = line, ii_message = ''conflicting PI '' @ what @ '' in '' @ quoted ''pi'' @ '' rows''\<rparr>], cur)
          else ([], Some x))"

fun pi_phase :: "valid_row list \<Rightarrow> pi_update \<Rightarrow> import_issue list \<times> pi_update" where
  "pi_phase [] p = ([], p)"
| "pi_phase (r # rs) p =
     (if vr_role r \<noteq> PiRole then pi_phase rs p
      else
        let (c1, u) = pi_field (vr_line r) ''username'' (pu_piUsername p) (Some (vr_user r));
            (c2, n) = pi_field (vr_line r) ''name'' (pu_piName p) (vr_sname r);
            (c3, e) = pi_field (vr_line r) ''email'' (pu_piEmail p) (vr_semail r);
            (cs, q) = pi_phase rs \<lparr>pu_piUsername = u, pu_piName = n, pu_piEmail = e\<rparr>
        in (c1 @ c2 @ c3 @ cs, q))"

text \<open>Phase C: the rows merged by username, in the order of their first appearance.\<close>

record batch_student =
  bs_sid :: "string option"
  bs_name :: "string option"
  bs_email :: "string option"
  bs_line :: nat

definition keep_first :: "'a option \<Rightarrow> 'a option \<Rightarrow> 'a option" where
  "keep_first a b = (case a of None \<Rightarrow> b | Some x \<Rightarrow> Some x)"

fun merge_phase :: "valid_row list \<Rightarrow> (string \<times> batch_student) list \<Rightarrow> import_issue list \<times> (string \<times> batch_student) list" where
  "merge_phase [] batch = ([], batch)"
| "merge_phase (r # rs) batch =
     (case map_of batch (vr_user r) of
        None \<Rightarrow> merge_phase rs (AList.update (vr_user r)
          \<lparr>bs_sid = vr_sid r, bs_name = vr_sname r, bs_email = vr_semail r, bs_line = vr_line r\<rparr> batch)
      | Some prev \<Rightarrow>
          let clash = (vr_sid r \<noteq> None \<and> bs_sid prev \<noteq> None \<and> vr_sid r \<noteq> bs_sid prev);
              (cs, b) = merge_phase rs (AList.update (vr_user r)
                (prev\<lparr>bs_sid := keep_first (bs_sid prev) (vr_sid r), bs_name := keep_first (bs_name prev) (vr_sname r),
                   bs_email := keep_first (bs_email prev) (vr_semail r)\<rparr>) batch)
          in ((if clash then [\<lparr>ii_line = vr_line r,
                 ii_message = ''username '' @ quoted (vr_user r) @ '' mapped to two student IDs''\<rparr>] else []) @ cs, b))"

fun shared_sids :: "(string \<times> batch_student) list \<Rightarrow> (string \<times> string) list \<Rightarrow> import_issue list" where
  "shared_sids [] seen = []"
| "shared_sids ((user, info) # bs) seen =
     (case bs_sid info of
        None \<Rightarrow> shared_sids bs seen
      | Some sid \<Rightarrow>
          (case map_of seen sid of
             Some other \<Rightarrow>
               if other \<noteq> user
               then \<lparr>ii_line = bs_line info, ii_message = ''student_id '' @ quoted sid @ '' used by two usernames ('' @ quoted other @ '', '' @ quoted user @ '')''\<rparr>
                    # shared_sids bs seen
               else shared_sids bs (AList.update sid user seen)
           | None \<Rightarrow> shared_sids bs (AList.update sid user seen)))"

text \<open>The lookups \<open>dbByName\<close> and \<open>dbById\<close>.\<close>

definition db_by_name :: "string \<Rightarrow> 'h world \<Rightarrow> student_row option" where
  "db_by_name u w = tbl_get (\<lambda>s. s_username s = u) (students w)"

definition db_by_sid :: "string option \<Rightarrow> 'h world \<Rightarrow> student_row option" where
  "db_by_sid sid w = (case sid of None \<Rightarrow> None | Some i \<Rightarrow> tbl_get (\<lambda>s. s_student_id s = Some i) (students w))"

text \<open>Phase C2: what becomes of one student of the batch.\<close>

datatype resolution = Conflict import_issue | Create student_create | Update student_update | NoChange

definition changed_field :: "string option \<Rightarrow> string option \<Rightarrow> string option" where
  "changed_field new old = (if new \<noteq> None \<and> new \<noteq> old then new else None)"

definition known_sid :: "student_row \<Rightarrow> string option" where
  "known_sid s = (case s_student_id s of None \<Rightarrow> None | Some i \<Rightarrow> nonblank i)"

definition resolve_existing :: "string \<Rightarrow> batch_student \<Rightarrow> student_row \<Rightarrow> resolution" where
  "resolve_existing user info s =
     (let u = \<lparr>su_username = user, su_studentId = (if known_sid s = None then bs_sid info else None),
               su_name = changed_field (bs_name info) (s_name s), su_email = changed_field (bs_email info) (s_email s)\<rparr>
      in if su_studentId u = None \<and> su_name u = None \<and> su_email u = None then NoChange else Update u)"

definition resolve :: "'h world \<Rightarrow> string \<Rightarrow> batch_student \<Rightarrow> resolution" where
  "resolve w user info =
     (let byId = db_by_sid (bs_sid info) w; byName = db_by_name user w;
          sid_text = quoted (case bs_sid info of None \<Rightarrow> [] | Some i \<Rightarrow> i);
          foreign = (case byId of None \<Rightarrow> None | Some s \<Rightarrow> if s_username s \<noteq> user then Some (s_username s) else None);
          renumbered = (case byName of None \<Rightarrow> None | Some s \<Rightarrow>
             if known_sid s \<noteq> None \<and> bs_sid info \<noteq> None \<and> known_sid s \<noteq> bs_sid info then known_sid s else None)
      in case foreign of
           Some other \<Rightarrow> Conflict \<lparr>ii_line = bs_line info, ii_message = ''student_id '' @ sid_text @ '' already belongs to '' @ quoted other\<rparr>
         | None \<Rightarrow>
             (case renumbered of
                Some i \<Rightarrow> Conflict \<lparr>ii_line = bs_line info, ii_message = ''username '' @ quoted user @ '' already has student_id '' @ quoted i\<rparr>
              | None \<Rightarrow>
                  (case keep_first byId byName of
                     None \<Rightarrow> Create \<lparr>sc_username = user, sc_studentId = bs_sid info, sc_name = bs_name info, sc_email = bs_email info\<rparr>
                   | Some s \<Rightarrow> resolve_existing user info s)))"

definition conflicts_of :: "resolution list \<Rightarrow> import_issue list" where
  "conflicts_of rs = List.map_filter (\<lambda>r. case r of Conflict i \<Rightarrow> Some i | _ \<Rightarrow> None) rs"

definition creates_of :: "resolution list \<Rightarrow> student_create list" where
  "creates_of rs = List.map_filter (\<lambda>r. case r of Create c \<Rightarrow> Some c | _ \<Rightarrow> None) rs"

definition updates_of :: "resolution list \<Rightarrow> student_update list" where
  "updates_of rs = List.map_filter (\<lambda>r. case r of Update u \<Rightarrow> Some u | _ \<Rightarrow> None) rs"

text \<open>The PI fields that differ from the lab's.\<close>

definition pi_changes :: "lab_row \<Rightarrow> pi_update \<Rightarrow> 'h world \<Rightarrow> pi_update option" where
  "pi_changes lab p w =
     (let current = (case l_pi_student_id lab of None \<Rightarrow> None | Some i \<Rightarrow> map_option s_username (student_by_id i w));
          q = \<lparr>pu_piUsername = changed_field (pu_piUsername p) current, pu_piName = changed_field (pu_piName p) (l_pi_name lab),
               pu_piEmail = changed_field (pu_piEmail p) (l_pi_email lab)\<rparr>
      in if pu_piUsername q = None \<and> pu_piName q = None \<and> pu_piEmail q = None then None else Some q)"

definition new_members :: "nat \<Rightarrow> (string \<times> batch_student) list \<Rightarrow> 'h world \<Rightarrow> string list" where
  "new_members labId batch w =
     filter (\<lambda>u. case keep_first (db_by_name u w) (db_by_sid (case map_of batch u of None \<Rightarrow> None | Some b \<Rightarrow> bs_sid b) w) of
         None \<Rightarrow> True
       | Some s \<Rightarrow> \<not> is_member labId (s_id s) w) (map fst batch)"

text \<open>What the text alone determines.\<close>

record roster_text =
  rt_invalid :: "import_issue list"
  rt_conflicts :: "import_issue list"
  rt_pi :: pi_update
  rt_batch :: "(string \<times> batch_student) list"

definition no_pi :: pi_update where
  "no_pi = \<lparr>pu_piUsername = None, pu_piName = None, pu_piEmail = None\<rparr>"

definition read_roster :: "(string \<times> string) list list \<Rightarrow> roster_text" where
  "read_roster rs =
     (let (invalid, valid) = roster_rows 2 rs; (c1, p) = pi_phase valid no_pi; (c2, batch) = merge_phase valid []
      in \<lparr>rt_invalid = invalid, rt_conflicts = c1 @ c2 @ shared_sids batch [], rt_pi = p, rt_batch = batch\<rparr>)"

definition plan_roster :: "lab_row \<Rightarrow> roster_text \<Rightarrow> 'h world \<Rightarrow> roster_plan" where
  "plan_roster lab t w =
     (let rs = map (\<lambda>(u, b). resolve w u b) (rt_batch t);
          conflicts = rt_conflicts t @ conflicts_of rs
      in \<lparr>rp_lab = l_name lab, rp_piUpdate = pi_changes lab (rt_pi t) w, rp_studentsToCreate = creates_of rs,
          rp_studentsToUpdate = updates_of rs, rp_membershipsToAdd = new_members (l_id lab) (rt_batch t) w,
          rp_conflicts = conflicts, rp_invalid = rt_invalid t, rp_ok = (conflicts = [] \<and> rt_invalid t = [])\<rparr>)"

definition planRosterImport :: "nat \<Rightarrow> string \<Rightarrow> 'h world \<Rightarrow> roster_plan" where
  "planRosterImport labId txt w =
     (case getLab labId w of
        None \<Rightarrow> emptyPlan [] (Some \<lparr>ii_line = 0, ii_message = ''Unknown lab''\<rparr>)
      | Some lab \<Rightarrow>
          let issue = (\<lambda>line msg. emptyPlan (l_name lab) (Some \<lparr>ii_line = line, ii_message = msg\<rparr>));
              parsed = parseCsv txt
          in if MAX_IMPORT_BYTES < length txt
             then issue 0 (''File too large ('' @ show_nat (length txt) @ '' bytes; max '' @ show_nat MAX_IMPORT_BYTES @ '')'')
             else if csv_headers parsed = [] then issue 0 ''Empty CSV''
             else if ''username'' \<notin> set (csv_headers parsed) then issue 1 (''Missing required column '' @ quoted ''username'')
             else if MAX_IMPORT_ROWS < length (csv_rows parsed)
             then issue 0 (''Too many rows ('' @ show_nat (length (csv_rows parsed)) @ ''; max '' @ show_nat MAX_IMPORT_ROWS @ '')'')
             else plan_roster lab (read_roster (csv_rows parsed)) w)"

section \<open>The application\<close>

text \<open>The statements of the transaction, each with the UNIQUE index that can refuse it.\<close>

definition import_create :: "student_create \<Rightarrow> (unit, 'h) op" where
  "import_create s w =
     (case next_uid (map s_linux_uid (rows (students w))) of
        None \<Rightarrow> (Inl (LabE UidExhausted), w)
      | Some uid \<Rightarrow>
          if sc_username s \<in> s_username ` set (rows (students w)) then (Inl (SqliteConstraint ''UNIQUE students.username''), w)
          else if sc_studentId s \<noteq> None \<and> sc_studentId s \<in> s_student_id ` set (rows (students w))
          then (Inl (SqliteConstraint ''UNIQUE students.student_id''), w)
          else (Inr (), w\<lparr>students := tbl_insert (\<lambda>i. \<lparr>s_id = i, s_student_id = sc_studentId s, s_username = sc_username s,
              s_email = sc_email s, s_name = sc_name s, s_created_at = clock w, s_updated_at = clock w, s_linux_uid = uid\<rparr>) (students w)\<rparr>))"

definition import_fields :: "int \<Rightarrow> student_update \<Rightarrow> student_row \<Rightarrow> student_row" where
  "import_fields now u r =
     r\<lparr>s_student_id := keep_first (su_studentId u) (s_student_id r), s_name := keep_first (su_name u) (s_name r),
       s_email := keep_first (su_email u) (s_email r), s_updated_at := now\<rparr>"

definition import_update :: "student_update \<Rightarrow> (unit, 'h) op" where
  "import_update u w =
     (if su_studentId u \<noteq> None \<and>
          (\<exists>r \<in> set (rows (students w)). s_username r \<noteq> su_username u \<and> s_student_id r = su_studentId u)
      then (Inl (SqliteConstraint ''UNIQUE students.student_id''), w)
      else (Inr (), w\<lparr>students := tbl_update (\<lambda>r. s_username r = su_username u) (import_fields (clock w) u) (students w)\<rparr>))"

definition import_pi_fields :: "nat \<Rightarrow> pi_update option \<Rightarrow> 'h world \<Rightarrow> 'h world" where
  "import_pi_fields labId p w =
     (case p of
        None \<Rightarrow> w
      | Some q \<Rightarrow> upd_lab labId (\<lambda>l. l\<lparr>l_pi_name := keep_first (pu_piName q) (l_pi_name l),
          l_pi_email := keep_first (pu_piEmail q) (l_pi_email l), l_updated_at := clock w\<rparr>) w)"

definition import_pi_account :: "nat \<Rightarrow> pi_update option \<Rightarrow> (unit, 'h) op" where
  "import_pi_account labId p w =
     (case p of
        None \<Rightarrow> (Inr (), w)
      | Some q \<Rightarrow>
          (case pu_piUsername q of
             None \<Rightarrow> (Inr (), w)
           | Some u \<Rightarrow>
               (case db_by_name u w of
                  None \<Rightarrow> (Inl (LabE PiNotCreated), w)
                | Some s \<Rightarrow> (Inr (), upd_lab labId (\<lambda>l. l\<lparr>l_pi_student_id := Some (s_id s)\<rparr>) w))))"

fun import_members :: "nat \<Rightarrow> string list \<Rightarrow> (student_row list, 'h) op" where
  "import_members labId [] w = (Inr [], w)"
| "import_members labId (u # us) w =
     (case db_by_name u w of
        None \<Rightarrow> (Inl (SqliteConstraint ''NOT NULL lab_members.student_id''), w)
      | Some s \<Rightarrow>
          if is_member labId (s_id s) w then import_members labId us w
          else and_then (import_members labId us (insert_member labId (s_id s) w)) (\<lambda>ss w. (Inr (s # ss), w)))"

definition import_tx :: "nat \<Rightarrow> roster_plan \<Rightarrow> (student_row list, 'h) op" where
  "import_tx labId plan w =
     (let w1 = import_pi_fields labId (rp_piUpdate plan) w in
      and_then (each import_create (rp_studentsToCreate plan) w1) (\<lambda>_ w2.
      and_then (each import_update (rp_studentsToUpdate plan) w2) (\<lambda>_ w3.
      and_then (import_pi_account labId (rp_piUpdate plan) w3) (\<lambda>_ w4.
        import_members labId (rp_membershipsToAdd plan) w4))))"

record import_result =
  im_piUpdated :: bool
  im_studentsCreated :: nat
  im_studentsUpdated :: nat
  im_membershipsAdded :: nat
  im_provisioned :: nat

definition result_json :: "import_result \<Rightarrow> json" where
  "result_json r = JObj [(''piUpdated'', JBool (im_piUpdated r)), (''studentsCreated'', j_int (int (im_studentsCreated r))),
     (''studentsUpdated'', j_int (int (im_studentsUpdated r))), (''membershipsAdded'', j_int (int (im_membershipsAdded r))),
     (''provisioned'', j_int (int (im_provisioned r)))]"

fun provision_added :: "'h ext \<Rightarrow> nat \<Rightarrow> string option \<Rightarrow> student_row list \<Rightarrow> 'h world \<Rightarrow> nat \<times> 'h world" where
  "provision_added X labId actor [] w = (0, w)"
| "provision_added X labId actor (s # ss) w =
     (let (ns, w) = provision_on X s actor (listPlacements labId w) w; (k, w) = provision_added X labId actor ss w in (length ns + k, w))"

definition applyRosterImport :: "'h ext \<Rightarrow> nat \<Rightarrow> string \<Rightarrow> string option \<Rightarrow> (import_result, 'h) op" where
  "applyRosterImport X labId txt actor w =
     (let plan = planRosterImport labId txt w in
      if \<not> rp_ok plan then
        (Inl (LabE (ImportNotCommittable (length (rp_invalid plan)) (length (rp_conflicts plan))
           (case rp_invalid plan @ rp_conflicts plan of [] \<Rightarrow> None | i # _ \<Rightarrow> Some (ii_line i, ii_message i)))), w)
      else case import_tx labId plan w of
        (Inl e, _) \<Rightarrow> (Inl e, w)
      | (Inr added, w) \<Rightarrow>
          let r = \<lparr>im_piUpdated = (rp_piUpdate plan \<noteq> None), im_studentsCreated = length (rp_studentsToCreate plan),
                   im_studentsUpdated = length (rp_studentsToUpdate plan), im_membershipsAdded = length added, im_provisioned = 0\<rparr>;
              w = audit actor ''lab.roster_import'' (Some (rp_lab plan)) (Some (json_stringify X (result_json r))) w;
              (k, w) = provision_added X labId actor added w
          in (Inr (r\<lparr>im_provisioned := k\<rparr>), w))"

end
