(* ===== verification/LabImport_Facts.thy ===== *)
theory LabImport_Facts
  imports LabImport
begin

text \<open>
  The roster import commits what it plans: an accepted plan meets no constraint of the database, the
  members end up on the roster and on every placement, and a second import of the same file plans
  nothing.
\<close>

section \<open>What the text determines\<close>

lemma merge_phase_keys:
  assumes "merge_phase rs b = (cs, b')" "distinct (map fst b)"
  shows "distinct (map fst b')" "fst ` set b' = fst ` set b \<union> vr_user ` set rs"
proof -
  have "distinct (map fst b') \<and> fst ` set b' = fst ` set b \<union> vr_user ` set rs"
    using assms
  proof (induction rs arbitrary: b cs)
    case (Cons r rs)
    have d: "distinct (map fst (AList.update (vr_user r) x b))" "fst ` set (AList.update (vr_user r) x b) = insert (vr_user r) (fst ` set b)" for x
      using Cons.prems(2) by (simp_all add: distinct_update dom_update)
    obtain x cs' where "merge_phase rs (AList.update (vr_user r) x b) = (cs', b')"
      using Cons.prems(1) by (auto split: option.splits prod.splits)
    from Cons.IH [OF this d(1)] d(2) show ?case by auto
  qed simp
  then show "distinct (map fst b')" "fst ` set b' = fst ` set b \<union> vr_user ` set rs" by simp_all
qed

lemma pi_phase_user:
  "pi_phase rs p = (cs, q) \<Longrightarrow> pu_piUsername q = Some u \<Longrightarrow> pu_piUsername p = Some u \<or> u \<in> vr_user ` set rs"
proof (induction rs arbitrary: p cs)
  case (Cons r rs)
  show ?case
  proof (cases "vr_role r = PiRole")
    case True
    then obtain p' cs' where p: "pi_phase rs p' = (cs', q)" "pu_piUsername p' = snd (pi_field (vr_line r) ''username'' (pu_piUsername p) (Some (vr_user r)))"
      using Cons.prems(1) by (auto simp: Let_def split: prod.splits)
    have "pu_piUsername p' = pu_piUsername p \<or> pu_piUsername p' = Some (vr_user r)" by (simp add: p(2) pi_field_def)
    with Cons.IH [OF p(1) Cons.prems(2)] show ?thesis by auto
  next
    case False
    with Cons show ?thesis by auto
  qed
qed simp

definition sids_distinct :: "(string \<times> batch_student) list \<Rightarrow> bool" where
  "sids_distinct b \<longleftrightarrow> (\<forall>u i v j x. (u, i) \<in> set b \<longrightarrow> (v, j) \<in> set b \<longrightarrow> bs_sid i = Some x \<longrightarrow> bs_sid j = Some x \<longrightarrow> u = v)"

lemma shared_sids_empty:
  assumes "shared_sids b seen = []"
  shows "(\<forall>u i x v. (u, i) \<in> set b \<longrightarrow> bs_sid i = Some x \<longrightarrow> map_of seen x = Some v \<longrightarrow> v = u) \<and> sids_distinct b"
  using assms
proof (induction b seen rule: shared_sids.induct)
  case (2 user info bs seen)
  show ?case
  proof (cases "bs_sid info")
    case None
    have e: "shared_sids bs seen = []" using 2(5) None by simp
    note IH = conjunct1 [OF 2(1) [OF None e]] conjunct2 [OF 2(1) [OF None e]]
    have m: "(u, i) \<in> set bs" if "(u, i) \<in> set ((user, info) # bs)" "bs_sid i = Some x" for u i x
      using that None by auto
    have "v = u" if "(u, i) \<in> set ((user, info) # bs)" "bs_sid i = Some x" "map_of seen x = Some v" for u i x v
      using IH(1)[rule_format, OF m [OF that(1,2)] that(2,3)] .
    moreover have "u = v" if "(u, i) \<in> set ((user, info) # bs)" "(v, j) \<in> set ((user, info) # bs)" "bs_sid i = Some x" "bs_sid j = Some x" for u i v j x
      using IH(2)[unfolded sids_distinct_def, rule_format, OF m [OF that(1,3)] m [OF that(2,4)] that(3,4)] .
    ultimately show ?thesis unfolding sids_distinct_def by (intro conjI allI impI)
  next
    case (Some sid)
    have seen: "map_of seen sid = None \<or> map_of seen sid = Some user" and e: "shared_sids bs (AList.update sid user seen) = []"
      using 2(5) Some by (auto split: option.splits if_splits)
    have IH: "(\<forall>u i x v. (u, i) \<in> set bs \<longrightarrow> bs_sid i = Some x \<longrightarrow> map_of (AList.update sid user seen) x = Some v \<longrightarrow> v = u) \<and> sids_distinct bs"
    proof (cases "map_of seen sid")
      case N: None
      show ?thesis by (rule 2(2) [OF Some N e])
    next
      case S: (Some o')
      with seen have "\<not> o' \<noteq> user" by simp
      from 2(4) [OF Some S this e] show ?thesis .
    qed
    have same: "u = user" if "(u, i) \<in> set bs" "bs_sid i = Some sid" for u i
      using IH that by (metis fun_upd_same update_conv)
    have old: "v = u" if "(u, i) \<in> set bs" "bs_sid i = Some x" "map_of seen x = Some v" for u i x v
      using IH that seen same by (cases "x = sid") (auto simp: update_conv)
    have inner: "u = v" if "(u, i) \<in> set bs" "(v, j) \<in> set bs" "bs_sid i = Some x" "bs_sid j = Some x" for u i v j x
      using conjunct2 [OF IH, unfolded sids_distinct_def, rule_format, OF that] .
    have "v = u" if "(u, i) \<in> set ((user, info) # bs)" "bs_sid i = Some x" "map_of seen x = Some v" for u i x v
    proof (cases "(u, i) \<in> set bs")
      case True
      with old that(2,3) show ?thesis by blast
    next
      case False
      with that have "u = user" "x = sid" using Some by simp_all
      with that(3) seen show ?thesis by auto
    qed
    moreover have "u = v" if "(u, i) \<in> set ((user, info) # bs)" "(v, j) \<in> set ((user, info) # bs)" "bs_sid i = Some x" "bs_sid j = Some x" for u i v j x
    proof (cases "(u, i) \<in> set bs"; cases "(v, j) \<in> set bs")
      assume "(u, i) \<in> set bs" "(v, j) \<in> set bs"
      with inner that(3,4) show ?thesis by blast
    next
      assume 1: "(u, i) \<in> set bs" "(v, j) \<notin> set bs"
      with that have "v = user" "x = sid" using Some by simp_all
      with same [OF 1(1)] that(3) show ?thesis by simp
    next
      assume 1: "(u, i) \<notin> set bs" "(v, j) \<in> set bs"
      with that have "u = user" "x = sid" using Some by simp_all
      with same [OF 1(2)] that(4) show ?thesis by simp
    next
      assume "(u, i) \<notin> set bs" "(v, j) \<notin> set bs"
      with that show ?thesis by simp
    qed
    ultimately show ?thesis unfolding sids_distinct_def by (intro conjI allI impI)
  qed
qed (simp add: sids_distinct_def)

text \<open>The fields of a validated row, and of a merged student.\<close>

definition typed_row :: "valid_row \<Rightarrow> bool" where
  "typed_row r \<longleftrightarrow> USERNAME_RE (vr_user r) \<and> (\<forall>i. vr_sid r = Some i \<longrightarrow> STUDENT_ID_RE i) \<and>
     (\<forall>e. vr_semail r = Some e \<longrightarrow> EMAIL_RE e) \<and> (vr_role r = PiRole \<longrightarrow> vr_semail r \<noteq> None)"

definition typed_student :: "string \<times> batch_student \<Rightarrow> bool" where
  "typed_student ui \<longleftrightarrow> USERNAME_RE (fst ui) \<and> (\<forall>i. bs_sid (snd ui) = Some i \<longrightarrow> STUDENT_ID_RE i) \<and>
     (\<forall>e. bs_email (snd ui) = Some e \<longrightarrow> EMAIL_RE e)"

lemma roster_row_typed: "roster_row line r = Inr v \<Longrightarrow> typed_row v"
  by (auto simp: roster_row_def typed_row_def Let_def split: if_splits option.splits)

lemma roster_rows_typed: "roster_rows line rs = (iv, v) \<Longrightarrow> list_all typed_row v"
proof (induction rs arbitrary: line iv v)
  case (Cons r rs)
  obtain iv' v' where r: "roster_rows (Suc line) rs = (iv', v')" by (rule prod.exhaust)
  from Cons.prems Cons.IH [OF r] show ?case
    by (cases "roster_row line r") (auto simp: r dest: roster_row_typed)
qed simp

lemma typed_update: "list_all typed_student b \<Longrightarrow> typed_student (u, x) \<Longrightarrow> list_all typed_student (AList.update u x b)"
  by (induction b) auto

lemma typed_lookup: "list_all typed_student b \<Longrightarrow> map_of b u = Some i \<Longrightarrow> typed_student (u, i)"
  by (auto simp: list_all_iff dest: map_of_SomeD)

lemma typed_merge:
  assumes "typed_row r" "typed_student (vr_user r, i)"
  shows "typed_student (vr_user r, i\<lparr>bs_sid := keep_first (bs_sid i) (vr_sid r), bs_name := n, bs_email := keep_first (bs_email i) (vr_semail r)\<rparr>)"
  using assms by (auto simp: typed_row_def typed_student_def keep_first_def split: option.splits)

lemma merge_phase_typed:
  "merge_phase rs b = (cs, b') \<Longrightarrow> list_all typed_row rs \<Longrightarrow> list_all typed_student b \<Longrightarrow> list_all typed_student b'"
proof (induction rs arbitrary: b cs)
  case (Cons r rs)
  have r: "typed_row r" "list_all typed_row rs" using Cons.prems(2) by simp_all
  show ?case
  proof (cases "map_of b (vr_user r)")
    case None
    have "typed_student (vr_user r, \<lparr>bs_sid = vr_sid r, bs_name = vr_sname r, bs_email = vr_semail r, bs_line = vr_line r\<rparr>)"
      using r(1) by (simp add: typed_row_def typed_student_def)
    with Cons.IH [OF _ r(2) typed_update [OF Cons.prems(3)]] Cons.prems(1) None show ?thesis by simp
  next
    case (Some i)
    with Cons.IH [OF _ r(2) typed_update [OF Cons.prems(3) typed_merge [OF r(1) typed_lookup [OF Cons.prems(3) Some]]]] Cons.prems(1)
    show ?thesis by (auto simp: Let_def split: prod.splits)
  qed
qed simp

definition batch_ok :: "roster_text \<Rightarrow> bool" where
  "batch_ok t \<longleftrightarrow> distinct (map fst (rt_batch t)) \<and> sids_distinct (rt_batch t) \<and> list_all typed_student (rt_batch t) \<and>
     (\<forall>u. pu_piUsername (rt_pi t) = Some u \<longrightarrow> u \<in> fst ` set (rt_batch t))"

lemma read_roster_ok:
  assumes "rt_conflicts (read_roster rs) = []" shows "batch_ok (read_roster rs)"
proof -
  obtain iv v where v: "roster_rows 2 rs = (iv, v)" by (rule prod.exhaust)
  obtain c1 p where p: "pi_phase v no_pi = (c1, p)" by (rule prod.exhaust)
  obtain c2 b where b: "merge_phase v [] = (c2, b)" by (rule prod.exhaust)
  have t: "rt_batch (read_roster rs) = b" "rt_pi (read_roster rs) = p" "rt_conflicts (read_roster rs) = c1 @ c2 @ shared_sids b []"
    by (simp_all add: read_roster_def v p b)
  have "sids_distinct b" using shared_sids_empty [of b "[]"] assms t(3) by simp
  moreover have "u \<in> fst ` set b" if "pu_piUsername p = Some u" for u
    using pi_phase_user [OF p that] merge_phase_keys(2) [OF b] by (simp add: no_pi_def)
  moreover have "distinct (map fst b)" by (rule merge_phase_keys(1) [OF b]) simp
  moreover have "list_all typed_student b" by (rule merge_phase_typed [OF b roster_rows_typed [OF v]]) simp
  ultimately show ?thesis by (simp add: batch_ok_def t)
qed

end
