(* ===== verification/Import_Commit.thy ===== *)
theory Import_Commit
  imports LabImport_Facts
begin

text \<open>
  The transaction of the roster import: an accepted plan meets no constraint of the database, so that
  the one error left is the end of the UID range; what it writes is what the text says; and it refines
  the joining of its new members to the roster.
\<close>

section \<open>What a student of the text asks of the database\<close>

definition matches :: "batch_student \<Rightarrow> student_row \<Rightarrow> bool" where
  "matches i r \<longleftrightarrow> (bs_sid i = None \<or> s_student_id r = bs_sid i) \<and> (bs_name i = None \<or> s_name r = bs_name i) \<and>
     (bs_email i = None \<or> s_email r = bs_email i)"

definition registered :: "string \<Rightarrow> batch_student \<Rightarrow> 'h world \<Rightarrow> bool" where
  "registered u i w \<longleftrightarrow> (\<exists>r \<in> set (rows (students w)). s_username r = u \<and> matches i r)"

definition sid_free :: "(string \<times> batch_student) list \<Rightarrow> 'h world \<Rightarrow> bool" where
  "sid_free b w \<longleftrightarrow> (\<forall>u i x. (u, i) \<in> set b \<longrightarrow> bs_sid i = Some x \<longrightarrow>
     (\<forall>r \<in> set (rows (students w)). s_student_id r = Some x \<longrightarrow> s_username r = u))"

definition account :: "student_row \<Rightarrow> string \<times> nat" where
  "account s = (s_username s, s_id s)"

definition accounts :: "'h world \<Rightarrow> (string \<times> nat) set" where
  "accounts w = account ` set (rows (students w))"

lemma sid_freeD: "sid_free b w \<Longrightarrow> (u, i) \<in> set b \<Longrightarrow> bs_sid i = Some x \<Longrightarrow> r \<in> set (rows (students w)) \<Longrightarrow> s_student_id r = Some x \<Longrightarrow> s_username r = u"
  unfolding sid_free_def by blast

lemma distinct_map_filter:
  assumes "distinct (map k xs)"
  shows "distinct (List.map_filter g xs) \<longleftrightarrow> (\<forall>r \<in> set xs. \<forall>r' \<in> set xs. \<forall>x. g r = Some x \<longrightarrow> g r' = Some x \<longrightarrow> k r = k r')"
  using assms
proof (induction xs)
  case (Cons a xs)
  have m: "x \<in> set (List.map_filter g xs) \<longleftrightarrow> (\<exists>r \<in> set xs. g r = Some x)" for x
    by (force simp: List.map_filter_def image_iff)
  show ?case
  proof (cases "g a")
    case None
    with Cons show ?thesis by (simp add: List.map_filter_simps)
  next
    case (Some x)
    have ne: "k a \<noteq> k r" "k r \<noteq> k a" if "r \<in> set xs" for r using Cons.prems that by (auto simp: image_iff)
    have IH: "distinct (List.map_filter g xs) \<longleftrightarrow> (\<forall>r \<in> set xs. \<forall>r' \<in> set xs. \<forall>x. g r = Some x \<longrightarrow> g r' = Some x \<longrightarrow> k r = k r')"
      using Cons by simp
    have "distinct (List.map_filter g (a # xs)) \<longleftrightarrow> (\<forall>r \<in> set xs. g r \<noteq> Some x) \<and> distinct (List.map_filter g xs)"
      by (simp add: Some List.map_filter_simps m)
    moreover have "(\<forall>r \<in> set (a # xs). \<forall>r' \<in> set (a # xs). \<forall>x. g r = Some x \<longrightarrow> g r' = Some x \<longrightarrow> k r = k r') \<longleftrightarrow>
        (\<forall>r \<in> set xs. g r \<noteq> Some x) \<and> (\<forall>r \<in> set xs. \<forall>r' \<in> set xs. \<forall>x. g r = Some x \<longrightarrow> g r' = Some x \<longrightarrow> k r = k r')" (is "?all \<longleftrightarrow> ?none \<and> ?rest")
    proof (intro iffI conjI)
      assume all: ?all
      show ?none
      proof (intro ballI notI)
        fix r assume r: "r \<in> set xs" "g r = Some x"
        have "a \<in> set (a # xs)" "r \<in> set (a # xs)" using r(1) by simp_all
        from all [rule_format, OF this Some r(2)] ne(1) [OF r(1)] show False by contradiction
      qed
      show ?rest
      proof (intro ballI allI impI)
        fix r r' y assume r: "r \<in> set xs" "r' \<in> set xs" "g r = Some y" "g r' = Some y"
        then have "r \<in> set (a # xs)" "r' \<in> set (a # xs)" by simp_all
        from all [rule_format, OF this r(3,4)] show "k r = k r'" .
      qed
    next
      assume n: "?none \<and> ?rest"
      show ?all
      proof (intro ballI allI impI)
        fix r r' y assume m: "r \<in> set (a # xs)" "r' \<in> set (a # xs)" "g r = Some y" "g r' = Some y"
        show "k r = k r'"
        proof (cases "r = a \<or> r' = a")
          case True
          with m Some have "y = x" by auto
          have "r = a" if "r \<in> set (a # xs)" "g r = Some y" for r using that n \<open>y = x\<close> by auto
          from this [OF m(1,3)] this [OF m(2,4)] show ?thesis by simp
        next
          case False
          with m have "r \<in> set xs" "r' \<in> set xs" by simp_all
          with n m(3,4) show ?thesis by blast
        qed
      qed
    qed
    ultimately show ?thesis using IH by simp
  qed
qed (simp add: List.map_filter_simps)

lemma schema_students:
  assumes "schema_ok w"
  shows "distinct (map s_username (rows (students w)))" "distinct (List.map_filter s_student_id (rows (students w)))"
  using assms unfolding schema_ok_def uniq_all_def by blast+

lemma schema_sids:
  assumes "schema_ok w" "r \<in> set (rows (students w))" "r' \<in> set (rows (students w))" "s_student_id r = Some x" "s_student_id r' = Some x"
  shows "s_username r = s_username r'"
  by (rule iffD1 [OF distinct_map_filter [OF schema_students(1)[OF assms(1)]] schema_students(2)[OF assms(1)], rule_format, OF assms(2-5)])

lemma username_unique:
  assumes "schema_ok w" "r \<in> set (rows (students w))" "r' \<in> set (rows (students w))" "s_username r = s_username r'"
  shows "r = r'"
proof -
  have "inj_on s_username (set (rows (students w)))"
    using schema_students(1) [OF assms(1)] by (simp add: distinct_map)
  with assms(2-) show ?thesis by (simp add: inj_on_def)
qed

lemma db_by_name_iff:
  assumes "schema_ok w"
  shows "db_by_name u w = Some r \<longleftrightarrow> r \<in> set (rows (students w)) \<and> s_username r = u"
proof
  assume "r \<in> set (rows (students w)) \<and> s_username r = u"
  then show "db_by_name u w = Some r"
    using username_unique [OF assms] by (cases "db_by_name u w") (auto simp: db_by_name_def tbl_get_None dest: tbl_get_Some)
qed (auto simp: db_by_name_def dest: tbl_get_Some)

lemma db_by_name_None: "db_by_name u w = None \<longleftrightarrow> u \<notin> s_username ` set (rows (students w))"
  by (auto simp: db_by_name_def tbl_get_None)

section \<open>A student without conflict\<close>

definition new_student :: "string \<times> batch_student \<Rightarrow> student_create" where
  "new_student ui = \<lparr>sc_username = fst ui, sc_studentId = bs_sid (snd ui), sc_name = bs_name (snd ui), sc_email = bs_email (snd ui)\<rparr>"

lemma resolve_clean:
  assumes "schema_ok w" "\<And>c. resolve w u i \<noteq> Conflict c"
  shows "resolve w u i = (case db_by_name u w of None \<Rightarrow> Create (new_student (u, i)) | Some s \<Rightarrow> resolve_existing u i s)"
    "\<And>x r. bs_sid i = Some x \<Longrightarrow> r \<in> set (rows (students w)) \<Longrightarrow> s_student_id r = Some x \<Longrightarrow> s_username r = u"
    "\<And>s. db_by_name u w = Some s \<Longrightarrow> known_sid s \<noteq> None \<Longrightarrow> bs_sid i \<noteq> None \<Longrightarrow> known_sid s = bs_sid i"
proof -
  have id: "s_username s = u" if "db_by_sid (bs_sid i) w = Some s" for s
  proof (rule ccontr)
    assume "s_username s \<noteq> u"
    then have "\<exists>c. resolve w u i = Conflict c" by (simp add: resolve_def Let_def that)
    with assms(2) show False by blast
  qed
  show own: "s_username r = u" if "bs_sid i = Some x" "r \<in> set (rows (students w))" "s_student_id r = Some x" for x r
  proof -
    note r = that(2,3) and bs = that(1)
    obtain s where s: "db_by_sid (bs_sid i) w = Some s"
      using r bs by (cases "db_by_sid (bs_sid i) w") (auto simp: db_by_sid_def tbl_get_None)
    with that(1) have "s \<in> set (rows (students w))" "s_student_id s = Some x" using tbl_get_Some [of _ "students w" s] by (auto simp: db_by_sid_def)
    from schema_sids [OF assms(1) that(2) this(1) that(3) this(2)] id [OF s] show ?thesis by simp
  qed
  show k: "known_sid s = bs_sid i" if "db_by_name u w = Some s" "known_sid s \<noteq> None" "bs_sid i \<noteq> None" for s
  proof (rule ccontr)
    assume ne: "known_sid s \<noteq> bs_sid i"
    have n: "(case db_by_sid (bs_sid i) w of None \<Rightarrow> None | Some s \<Rightarrow> if s_username s \<noteq> u then Some (s_username s) else None) = None"
      using id by (simp split: option.split)
    from that(2) obtain x where x: "known_sid s = Some x" by blast
    have "\<exists>c. resolve w u i = Conflict c" unfolding resolve_def Let_def n using that ne x by simp
    with assms(2) show False by blast
  qed
  have f: "keep_first (db_by_sid (bs_sid i) w) (db_by_name u w) = db_by_name u w"
  proof (cases "db_by_sid (bs_sid i) w")
    case (Some s)
    then have "s \<in> set (rows (students w))" by (auto simp: db_by_sid_def split: option.splits dest: tbl_get_Some)
    with id [OF Some] have "db_by_name u w = Some s" by (simp add: db_by_name_iff [OF assms(1)])
    then show ?thesis by (simp add: Some keep_first_def)
  qed (simp add: keep_first_def)
  have n: "(case db_by_sid (bs_sid i) w of None \<Rightarrow> None | Some s \<Rightarrow> if s_username s \<noteq> u then Some (s_username s) else None) = None"
    using id by (simp split: option.split)
  have m: "(case db_by_name u w of None \<Rightarrow> None | Some s \<Rightarrow>
      if known_sid s \<noteq> None \<and> bs_sid i \<noteq> None \<and> known_sid s \<noteq> bs_sid i then known_sid s else None) = None"
    using k by (cases "db_by_name u w") auto
  show "resolve w u i = (case db_by_name u w of None \<Rightarrow> Create (new_student (u, i)) | Some s \<Rightarrow> resolve_existing u i s)"
    unfolding resolve_def Let_def n m f by (simp add: new_student_def split: option.split)
qed

lemma known_sid_Some: "known_sid s = Some x \<Longrightarrow> s_student_id s = Some x"
  by (auto simp: known_sid_def nonblank_def split: option.splits if_splits)

lemma resolve_existing_matches:
  assumes "known_sid s \<noteq> None \<Longrightarrow> bs_sid i \<noteq> None \<Longrightarrow> known_sid s = bs_sid i"
  shows "resolve_existing u i s = NoChange \<Longrightarrow> matches i s"
    "resolve_existing u i s = Update upd \<Longrightarrow> matches i (import_fields t upd s) \<and> su_username upd = u \<and> (su_studentId upd = None \<or> su_studentId upd = bs_sid i)"
    "resolve_existing u i s \<noteq> Create c" "resolve_existing u i s \<noteq> Conflict d"
  using assms known_sid_Some [of s]
  by (cases "known_sid s"; cases "bs_sid i"; auto simp: resolve_existing_def matches_def import_fields_def changed_field_def keep_first_def Let_def split: if_splits)+

section \<open>The statements on the students\<close>

lemma schema_student_sids:
  assumes "schema_ok w" "\<And>s. s_id (f s) = s_id s" "\<And>s. s_username (f s) = s_username s" "\<And>s. s_linux_uid (f s) = s_linux_uid s"
    and "distinct (List.map_filter s_student_id (rows (tbl_update P f (students w))))"
  shows "schema_ok (w\<lparr>students := tbl_update P f (students w)\<rparr>)"
  using assms(1,5) by (simp add: schema_defs pk_ok_def col_tbl_update colset_tbl_update assms(2-4))

lemma import_create_step:
  assumes "schema_ok w" "sid_free b w" "sids_distinct b" "ui \<in> set b" "fst ui \<notin> s_username ` set (rows (students w))"
    and "import_create (new_student ui) w = (r, w')"
  shows "r = Inl (LabE UidExhausted) \<or>
     r = Inr () \<and> schema_ok w' \<and> sid_free b w' \<and> (\<exists>t. w' = w\<lparr>students := t\<rparr>) \<and>
     (\<exists>row. rows (students w') = rows (students w) @ [row] \<and> s_username row = fst ui \<and> matches (snd ui) row)"
proof (cases "next_uid (map s_linux_uid (rows (students w)))")
  case None
  with assms(6) show ?thesis by (simp add: import_create_def)
next
  case (Some uid)
  define mk where "mk = (\<lambda>i. \<lparr>s_id = i, s_student_id = bs_sid (snd ui), s_username = fst ui, s_email = bs_email (snd ui), s_name = bs_name (snd ui),
      s_created_at = clock w, s_updated_at = clock w, s_linux_uid = uid\<rparr>)"
  have own: "s_username r = fst ui" if "r \<in> set (rows (students w))" "s_student_id r = Some x" "bs_sid (snd ui) = Some x" for r x
    using sid_freeD [OF assms(2) _ that(3,1,2), of "fst ui"] assms(4) by simp
  have fresh: "bs_sid (snd ui) \<notin> s_student_id ` set (rows (students w))" if "bs_sid (snd ui) \<noteq> None"
    using that own assms(5) by force
  from Some assms(5,6) fresh have w': "r = Inr ()" "w' = w\<lparr>students := tbl_insert mk (students w)\<rparr>"
    by (auto simp: import_create_def new_student_def mk_def split: if_splits)
  have "schema_ok w'" unfolding w'
    by (rule schema_student_insert [OF assms(1), where u = "fst ui" and uid = uid and sid = "bs_sid (snd ui)"])
      (use assms(5) fresh uid_pool.alloc_free [OF Some] in \<open>auto simp: mk_def\<close>)
  moreover have "sid_free b w'" unfolding sid_free_def
  proof (intro allI impI ballI)
    fix u i x r assume r: "(u, i) \<in> set b" "bs_sid i = Some x" "r \<in> set (rows (students w'))" "s_student_id r = Some x"
    show "s_username r = u"
    proof (cases "r \<in> set (rows (students w))")
      case True
      with sid_freeD [OF assms(2)] r show ?thesis by blast
    next
      case False
      with r w' have m: "r = mk (tbl_next (students w))" by simp
      have p: "(fst ui, snd ui) \<in> set b" using assms(4) by simp
      have "bs_sid (snd ui) = Some x" using r(4) by (simp add: m mk_def)
      with assms(3) [unfolded sids_distinct_def, rule_format, OF p r(1) _ r(2)] have "fst ui = u" by simp
      then show ?thesis by (simp add: m mk_def)
    qed
  qed
  moreover have "s_username (mk i) = fst ui \<and> matches (snd ui) (mk i)" for i by (simp add: mk_def matches_def)
  ultimately show ?thesis using w' by auto
qed

lemma import_creates:
  assumes "each import_create (map new_student es) w = (r, w')" "set es \<subseteq> set b" "distinct (map fst es)"
    and "fst ` set es \<inter> s_username ` set (rows (students w)) = {}" "schema_ok w" "sid_free b w" "sids_distinct b"
  shows "r = Inl (LabE UidExhausted) \<or>
     r = Inr () \<and> schema_ok w' \<and> sid_free b w' \<and> (\<exists>t. w' = w\<lparr>students := t\<rparr>) \<and>
     (\<exists>new. rows (students w') = rows (students w) @ new \<and> list_all2 (\<lambda>ui row. s_username row = fst ui \<and> matches (snd ui) row) es new)"
  using assms
proof (induction es arbitrary: w)
  case Nil
  have "\<exists>t. w = w\<lparr>students := t\<rparr>" by (rule exI [of _ "students w"]) simp
  with Nil show ?case by simp
next
  case (Cons ui es)
  obtain r1 w1 where 1: "import_create (new_student ui) w = (r1, w1)" by (rule prod.exhaust)
  from import_create_step [OF Cons.prems(5,6,7) _ _ 1] Cons.prems(2,4)
  consider "r1 = Inl (LabE UidExhausted)" | row t where "r1 = Inr ()" "schema_ok w1" "sid_free b w1" "w1 = w\<lparr>students := t\<rparr>"
      "rows (students w1) = rows (students w) @ [row]" "s_username row = fst ui" "matches (snd ui) row" by auto
  then show ?case
  proof cases
    case 1
    with Cons.prems(1) \<open>import_create (new_student ui) w = (r1, w1)\<close> show ?thesis by simp
  next
    case 2
    have e: "each import_create (map new_student es) w1 = (r, w')" using Cons.prems(1) 1 2(1) by simp
    have d: "fst ` set es \<inter> s_username ` set (rows (students w1)) = {}" using Cons.prems(3,4) 2(5,6) by auto
    have s: "set es \<subseteq> set b" "distinct (map fst es)" using Cons.prems(2,3) by simp_all
    from Cons.IH [OF e s d 2(2,3) Cons.prems(7)] 2(4-7) show ?thesis by fastforce
  qed
qed

text \<open>What an update must bring about for the student it names.\<close>

definition completes :: "(string \<times> batch_student) list \<Rightarrow> student_update \<Rightarrow> 'h world \<Rightarrow> bool" where
  "completes b upd w \<longleftrightarrow> (\<exists>i. (su_username upd, i) \<in> set b \<and> (su_studentId upd = None \<or> su_studentId upd = bs_sid i) \<and>
     (\<forall>r \<in> set (rows (students w)). s_username r = su_username upd \<longrightarrow> (\<forall>t. matches i (import_fields t upd r))))"

lemma import_fields_keeps [simp]:
  "s_id (import_fields t upd r) = s_id r" "s_username (import_fields t upd r) = s_username r" "s_linux_uid (import_fields t upd r) = s_linux_uid r"
  "s_student_id (import_fields t upd r) = keep_first (su_studentId upd) (s_student_id r)"
  by (simp_all add: import_fields_def)

lemma import_update_step:
  assumes "schema_ok w" "sid_free b w" "sids_distinct b" "distinct (map fst b)" "completes b upd w"
    and "import_update upd w = (r, w')"
  shows "r = Inr ()" "w' = w\<lparr>students := tbl_update (\<lambda>r. s_username r = su_username upd) (import_fields (clock w) upd) (students w)\<rparr>"
    "schema_ok w'" "sid_free b w'" "accounts w' = accounts w"
    "\<And>u i. (u, i) \<in> set b \<Longrightarrow> registered u i w \<Longrightarrow> u \<noteq> su_username upd \<Longrightarrow> registered u i w'"
    "\<And>i. (su_username upd, i) \<in> set b \<Longrightarrow> su_username upd \<in> s_username ` set (rows (students w)) \<Longrightarrow> registered (su_username upd) i w'"
proof -
  let ?P = "\<lambda>r. s_username r = su_username upd" and ?f = "import_fields (clock w) upd"
  obtain i where i: "(su_username upd, i) \<in> set b" "su_studentId upd = None \<or> su_studentId upd = bs_sid i"
      "\<And>r t. r \<in> set (rows (students w)) \<Longrightarrow> ?P r \<Longrightarrow> matches i (import_fields t upd r)"
    using assms(5) unfolding completes_def by blast
  have own: "s_username r = su_username upd" if "r \<in> set (rows (students w))" "su_studentId upd = Some x" "s_student_id r = Some x" for r x
    using sid_freeD [OF assms(2) i(1) _ that(1,3)] i(2) that(2) by simp
  show w': "r = Inr ()" "w' = w\<lparr>students := tbl_update ?P ?f (students w)\<rparr>"
    using assms(6) own by (auto simp: import_update_def split: if_splits)
  have rows': "rows (students w') = map (\<lambda>r. if ?P r then ?f r else r) (rows (students w))" by (simp add: w'(2) rows_tbl_update)
  have sid: "s_student_id r = Some x \<and> r \<in> set (rows (students w)) \<or> ?P r \<and> su_studentId upd = Some x"
    if "r' \<in> set (rows (students w'))" "r' = (if ?P r then ?f r else r)" "r \<in> set (rows (students w))" "s_student_id r' = Some x" for r r' x
    using that by (auto simp: keep_first_def split: if_splits option.splits)
  show free: "sid_free b w'" unfolding sid_free_def
  proof (intro allI impI ballI)
    fix u j x r' assume h: "(u, j) \<in> set b" "bs_sid j = Some x" "r' \<in> set (rows (students w'))" "s_student_id r' = Some x"
    obtain r where r: "r \<in> set (rows (students w))" "r' = (if ?P r then ?f r else r)" using h(3) by (auto simp: rows')
    then have n: "s_username r' = s_username r" by simp
    from sid [OF h(3) r(2,1) h(4)] show "s_username r' = u"
    proof
      assume "s_student_id r = Some x \<and> r \<in> set (rows (students w))"
      with sid_freeD [OF assms(2) h(1,2)] n show ?thesis by simp
    next
      assume s: "?P r \<and> su_studentId upd = Some x"
      with i(2) have "bs_sid i = Some x" by simp
      from assms(3) [unfolded sids_distinct_def, rule_format, OF i(1) h(1) this h(2)] s n show ?thesis by simp
    qed
  qed
  show "schema_ok w'" unfolding w'(2)
  proof (rule schema_student_sids [OF assms(1)])
    have d: "distinct (map s_username (rows (students w')))"
      using schema_students(1) [OF assms(1)] by (simp add: w'(2) col_tbl_update)
    have "s_username r' = s_username q'" if "r' \<in> set (rows (students w'))" "q' \<in> set (rows (students w'))"
      "s_student_id r' = Some x" "s_student_id q' = Some x" for r' q' x
    proof -
      from that(1,2) obtain r q where r: "r \<in> set (rows (students w))" "r' = (if ?P r then ?f r else r)"
          and q: "q \<in> set (rows (students w))" "q' = (if ?P q then ?f q else q)" by (auto simp: rows')
      have n: "s_username r' = s_username r" "s_username q' = s_username q" using r(2) q(2) by simp_all
      note sr = sid [OF that(1) r(2,1) that(3)] and sq = sid [OF that(2) q(2,1) that(4)]
      have "s_username r = s_username q"
      proof (cases "s_student_id r = Some x"; cases "s_student_id q = Some x")
        assume "s_student_id r = Some x" "s_student_id q = Some x"
        then show ?thesis by (rule schema_sids [OF assms(1) r(1) q(1)])
      next
        assume h: "s_student_id r = Some x" "s_student_id q \<noteq> Some x"
        with sq have "?P q" "su_studentId upd = Some x" by simp_all
        with own [OF r(1) this(2) h(1)] show ?thesis by simp
      next
        assume h: "s_student_id r \<noteq> Some x" "s_student_id q = Some x"
        with sr have "?P r" "su_studentId upd = Some x" by simp_all
        with own [OF q(1) this(2) h(2)] show ?thesis by simp
      next
        assume "s_student_id r \<noteq> Some x" "s_student_id q \<noteq> Some x"
        with sr sq show ?thesis by simp
      qed
      then show ?thesis unfolding n .
    qed
    then have "\<forall>r' \<in> set (rows (students w')). \<forall>q' \<in> set (rows (students w')). \<forall>x.
        s_student_id r' = Some x \<longrightarrow> s_student_id q' = Some x \<longrightarrow> s_username r' = s_username q'"
      by (intro ballI allI impI)
    then have "distinct (List.map_filter s_student_id (rows (students w')))" by (rule iffD2 [OF distinct_map_filter [OF d]])
    then show "distinct (List.map_filter s_student_id (rows (tbl_update ?P ?f (students w))))" by (simp add: w'(2))
  qed simp_all
  show "accounts w' = accounts w"
    unfolding accounts_def w'(2) by (simp add: colset_tbl_update account_def)
  show "registered u j w'" if "(u, j) \<in> set b" "registered u j w" "u \<noteq> su_username upd" for u j
    using that(2,3) unfolding registered_def rows' by force
  show "registered (su_username upd) j w'" if "(su_username upd, j) \<in> set b" "su_username upd \<in> s_username ` set (rows (students w))" for j
  proof -
    have "j = i" using assms(4) that(1) i(1) by (simp add: eq_key_imp_eq_value)
    from that(2) obtain r where r: "r \<in> set (rows (students w))" "?P r" by auto
    have "?f r \<in> set (rows (students w'))" unfolding rows' using r by force
    moreover have "s_username (?f r) = su_username upd" using r by simp
    ultimately show ?thesis unfolding registered_def using i(3) [OF r] \<open>j = i\<close> by blast
  qed
qed

lemma accounts_usernames: "s_username ` set (rows (students w)) = fst ` accounts w"
  by (simp add: accounts_def account_def image_comp comp_def)

lemma import_updates:
  assumes "each import_update us w = (r, w')" "distinct (map su_username us)" "\<And>upd. upd \<in> set us \<Longrightarrow> completes b upd w"
    and "schema_ok w" "sid_free b w" "sids_distinct b" "distinct (map fst b)"
  shows "r = Inr () \<and> schema_ok w' \<and> accounts w' = accounts w \<and> (\<exists>t. w' = w\<lparr>students := t\<rparr>) \<and>
     (\<forall>u i. (u, i) \<in> set b \<longrightarrow> u \<in> s_username ` set (rows (students w)) \<longrightarrow> u \<in> su_username ` set us \<or> registered u i w \<longrightarrow> registered u i w')"
  using assms
proof (induction us arbitrary: w)
  case Nil
  have "\<exists>t. w = w\<lparr>students := t\<rparr>" by (rule exI [of _ "students w"]) simp
  with Nil show ?case by simp
next
  case (Cons upd us)
  obtain r1 w1 where 1: "import_update upd w = (r1, w1)" by (rule prod.exhaust)
  have c: "completes b upd w" by (rule Cons.prems(3)) simp
  note step = import_update_step [OF Cons.prems(4-7) c 1]
  have e: "each import_update us w1 = (r, w')" using Cons.prems(1) 1 step(1) by simp
  have o: "completes b v w1" if v: "v \<in> set us" for v
  proof -
    have ne: "su_username v \<noteq> su_username upd" using Cons.prems(2) v by (auto simp: image_iff)
    have "r \<in> set (rows (students w))" if "r \<in> set (rows (students w1))" "s_username r = su_username v" for r
      using that ne by (auto simp: step(2) rows_tbl_update split: if_splits)
    with Cons.prems(3) [of v] v show ?thesis unfolding completes_def by fastforce
  qed
  have d: "distinct (map su_username us)" using Cons.prems(2) by simp
  have un: "s_username ` set (rows (students w1)) = s_username ` set (rows (students w))" by (simp add: accounts_usernames step(5))
  from Cons.IH [OF e d o step(3,4) Cons.prems(6,7)]
  have IH: "r = Inr ()" "schema_ok w'" "accounts w' = accounts w1" "\<exists>t. w' = w1\<lparr>students := t\<rparr>"
    "\<And>u i. (u, i) \<in> set b \<Longrightarrow> u \<in> s_username ` set (rows (students w)) \<Longrightarrow> u \<in> su_username ` set us \<or> registered u i w1 \<Longrightarrow> registered u i w'"
    unfolding un by blast+
  have "registered u i w'" if "(u, i) \<in> set b" "u \<in> s_username ` set (rows (students w))" "u \<in> su_username ` set (upd # us) \<or> registered u i w" for u i
  proof -
    from that(3) consider "u = su_username upd" | "u \<in> su_username ` set us" | "u \<noteq> su_username upd" "registered u i w" by auto
    then have "u \<in> su_username ` set us \<or> registered u i w1"
      using step(6) [OF that(1)] step(7) [of i] that(1,2) by cases simp_all
    then show ?thesis by (rule IH(5) [OF that(1,2)])
  qed
  moreover have "\<exists>t. w' = w\<lparr>students := t\<rparr>" using IH(4) step(2) by auto
  ultimately show ?case using IH(1-3) step(5) by simp
qed

section \<open>The statements on the roster\<close>

lemma students_insert_member: "db_by_name u (insert_member l s w) = db_by_name u w"
  by (simp add: db_by_name_def insert_member_def)

lemma import_members_run:
  assumes "import_members l us w = (r, w')" "schema_ok w" "l \<in> l_id ` set (rows (labs w))"
    and "\<And>u. u \<in> set us \<Longrightarrow> u \<in> s_username ` set (rows (students w))"
  shows "schema_ok w' \<and> (\<exists>t. w' = w\<lparr>lab_members := t\<rparr>) \<and>
    (\<exists>ss. r = Inr ss \<and> set ss \<subseteq> set (rows (students w)) \<and>
      rs_member (abs_roster w') = rs_member (abs_roster w) \<union> {l} \<times> s_id ` set ss) \<and>
    (\<forall>u s. u \<in> set us \<longrightarrow> db_by_name u w = Some s \<longrightarrow> (l, s_id s) \<in> rs_member (abs_roster w'))"
  using assms
proof (induction us arbitrary: w w' r)
  case Nil
  have "\<exists>t. w = w\<lparr>lab_members := t\<rparr>" by (rule exI [of _ "lab_members w"]) simp
  moreover have "r = Inr []" "w' = w" using Nil(1) by simp_all
  ultimately show ?case using Nil(2) by simp
next
  case (Cons u us)
  from Cons.prems(4) [of u] obtain s where s: "db_by_name u w = Some s" using db_by_name_None [of u w] by fastforce
  then have mem: "s \<in> set (rows (students w))" using db_by_name_iff [OF Cons.prems(2)] by blast
  show ?case
  proof (cases "is_member l (s_id s) w")
    case True
    have e: "import_members l us w = (r, w')" using Cons.prems(1) s True by simp
    have "\<And>u. u \<in> set us \<Longrightarrow> u \<in> s_username ` set (rows (students w))" using Cons.prems(4) by simp
    note IH = Cons.IH [OF e Cons.prems(2,3) this]
    have "(l, s_id s) \<in> rs_member (abs_roster w')" using IH True by (auto simp: is_member_iff)
    with IH s show ?thesis by auto
  next
    case False
    let ?w = "insert_member l (s_id s) w"
    obtain r1 w1 where e: "import_members l us ?w = (r1, w1)" by (rule prod.exhaust)
    have ok: "schema_ok ?w" by (rule schema_insert_member [OF Cons.prems(2) False Cons.prems(3)]) (use mem in simp)
    have "\<And>u. u \<in> set us \<Longrightarrow> u \<in> s_username ` set (rows (students ?w))" using Cons.prems(4) by simp
    note IH = Cons.IH [OF e ok _ this]
    have l: "l \<in> l_id ` set (rows (labs ?w))" using Cons.prems(3) by simp
    from IH [OF l] obtain ss where ss: "r1 = Inr ss" "schema_ok w1" "set ss \<subseteq> set (rows (students w))" "\<exists>t. w1 = ?w\<lparr>lab_members := t\<rparr>"
        "rs_member (abs_roster w1) = insert (l, s_id s) (rs_member (abs_roster w)) \<union> {l} \<times> s_id ` set ss"
        "\<And>u s. u \<in> set us \<Longrightarrow> db_by_name u w = Some s \<Longrightarrow> (l, s_id s) \<in> rs_member (abs_roster w1)"
      by (auto simp: students_insert_member)
    have r: "r = Inr (s # ss)" "w' = w1" using Cons.prems(1) s False e ss(1) by simp_all
    have "\<exists>t. w' = w\<lparr>lab_members := t\<rparr>" using ss(4) r(2) by (auto simp: insert_member_def)
    moreover have "rs_member (abs_roster w') = rs_member (abs_roster w) \<union> {l} \<times> s_id ` set (s # ss)" using ss(5) r(2) by auto
    moreover have "(l, s_id s') \<in> rs_member (abs_roster w')" if "v \<in> set (u # us)" "db_by_name v w = Some s'" for v s'
      using that s ss(5,6) r(2) by auto
    ultimately show ?thesis using r ss(2,3) mem by simp
  qed
qed

section \<open>The plan of an accepted text\<close>

definition clean_batch :: "(string \<times> batch_student) list \<Rightarrow> 'h world \<Rightarrow> bool" where
  "clean_batch b w \<longleftrightarrow> (\<forall>(u, i) \<in> set b. \<forall>c. resolve w u i \<noteq> Conflict c)"

lemma clean_batchD: "clean_batch b w \<Longrightarrow> (u, i) \<in> set b \<Longrightarrow> resolve w u i \<noteq> Conflict c"
  unfolding clean_batch_def by blast

lemma conflicts_clean: "conflicts_of (map (\<lambda>(u, i). resolve w u i) b) = [] \<Longrightarrow> clean_batch b w"
  unfolding clean_batch_def
  by (induction b) (auto simp: conflicts_of_def List.map_filter_simps split: resolution.splits)

lemma accepted_plan:
  fixes w :: "'h world"
  assumes "rp_ok (planRosterImport l txt w)"
  obtains lab rs where "getLab l w = Some lab" "rs = csv_rows (parseCsv txt)" "batch_ok (read_roster rs)" "clean_batch (rt_batch (read_roster rs)) w"
    "rt_invalid (read_roster rs) = []" "rt_conflicts (read_roster rs) = []"
    "\<And>(w' :: 'h world) lab'. getLab l w' = Some lab' \<Longrightarrow> planRosterImport l txt w' = plan_roster lab' (read_roster rs) w'"
proof -
  obtain lab where lab: "getLab l w = Some lab"
    using assms by (cases "getLab l w") (simp_all add: planRosterImport_def emptyPlan_def)
  have sizes: "\<not> MAX_IMPORT_BYTES < length txt" "csv_headers (parseCsv txt) \<noteq> []" "''username'' \<in> set (csv_headers (parseCsv txt))"
      "\<not> MAX_IMPORT_ROWS < length (csv_rows (parseCsv txt))"
    using assms lab by (auto simp: planRosterImport_def emptyPlan_def Let_def split: if_splits)
  have plan: "planRosterImport l txt w' = plan_roster lab' (read_roster (csv_rows (parseCsv txt))) w'" if "getLab l w' = Some lab'" for w' :: "'h world" and lab'
    using sizes by (simp add: planRosterImport_def that Let_def)
  have ok: "rp_ok (plan_roster lab (read_roster (csv_rows (parseCsv txt))) w)" using assms plan [OF lab] by simp
  then have c: "rt_conflicts (read_roster (csv_rows (parseCsv txt))) = []" "rt_invalid (read_roster (csv_rows (parseCsv txt))) = []"
      "conflicts_of (map (\<lambda>(u, i). resolve w u i) (rt_batch (read_roster (csv_rows (parseCsv txt))))) = []"
    by (simp_all add: plan_roster_def Let_def)
  show thesis by (rule that [OF lab refl read_roster_ok [OF c(1)] conflicts_clean [OF c(3)] c(2,1) plan])
qed

lemma creates_of_batch:
  assumes "schema_ok w" "clean_batch b w"
  shows "creates_of (map (\<lambda>(u, i). resolve w u i) b) = map new_student (filter (\<lambda>ui. db_by_name (fst ui) w = None) b)"
  using assms(2)
proof (induction b)
  case (Cons ui b)
  obtain u i where ui: "ui = (u, i)" by (rule prod.exhaust)
  have c: "\<And>c. resolve w u i \<noteq> Conflict c" "clean_batch b w" using Cons.prems by (auto simp: ui clean_batch_def)
  have IH: "List.map_filter (\<lambda>r. case r of Create c \<Rightarrow> Some c | _ \<Rightarrow> None) (map (\<lambda>(u, i). resolve w u i) b) =
      map new_student (filter (\<lambda>ui. db_by_name (fst ui) w = None) b)"
    using Cons.IH [OF c(2)] by (simp add: creates_of_def)
  show ?case
  proof (cases "db_by_name u w")
    case None
    then show ?thesis using resolve_clean(1) [OF assms(1) c(1)] by (simp add: creates_of_def ui List.map_filter_simps IH)
  next
    case (Some s)
    have "resolve w u i = resolve_existing u i s" using resolve_clean(1) [OF assms(1) c(1)] by (simp add: Some)
    moreover have "resolve_existing u i s \<noteq> Create x" for x by (auto simp: resolve_existing_def Let_def)
    ultimately show ?thesis by (simp add: creates_of_def ui List.map_filter_simps IH Some split: resolution.split)
  qed
qed (simp add: creates_of_def List.map_filter_simps)

lemma updates_of_batch:
  assumes "schema_ok w" "clean_batch b w" "distinct (map fst b)"
  shows "upd \<in> set (updates_of (map (\<lambda>(u, i). resolve w u i) b)) \<Longrightarrow>
      \<exists>i s. (su_username upd, i) \<in> set b \<and> db_by_name (su_username upd) w = Some s \<and> resolve_existing (su_username upd) i s = Update upd"
    and "distinct (map su_username (updates_of (map (\<lambda>(u, i). resolve w u i) b)))"
    and "(u, i) \<in> set b \<Longrightarrow> db_by_name u w = Some s \<Longrightarrow> u \<notin> su_username ` set (updates_of (map (\<lambda>(u, i). resolve w u i) b)) \<Longrightarrow>
      resolve_existing u i s = NoChange"
proof -
  let ?g = "\<lambda>(u, i). case resolve w u i of Update x \<Rightarrow> Some x | _ \<Rightarrow> None"
  have us: "updates_of (map (\<lambda>(u, i). resolve w u i) b) = List.map_filter ?g b" for b
    by (simp add: updates_of_def List.map_filter_def filter_map comp_def case_prod_unfold)
  have g: "?g (u, i) = Some upd \<Longrightarrow> \<exists>s. su_username upd = u \<and> db_by_name u w = Some s \<and> resolve_existing u i s = Update upd"
    if "(u, i) \<in> set b" for u i upd
  proof -
    assume "?g (u, i) = Some upd"
    then have "resolve w u i = Update upd" by (simp split: resolution.splits)
    with resolve_clean(1) [OF assms(1) clean_batchD [OF assms(2) that]]
    obtain s where "db_by_name u w = Some s" "resolve_existing u i s = Update upd" by (auto split: option.splits)
    moreover from this have "su_username upd = u" by (auto simp: resolve_existing_def Let_def split: if_splits)
    ultimately show ?thesis by blast
  qed
  have mem: "upd \<in> set (List.map_filter ?g b) \<longleftrightarrow> (\<exists>ui \<in> set b. ?g ui = Some upd)" for b upd
    by (auto simp: List.map_filter_def image_iff) (force)+
  show 1: "\<exists>i s. (su_username upd, i) \<in> set b \<and> db_by_name (su_username upd) w = Some s \<and> resolve_existing (su_username upd) i s = Update upd"
    if "upd \<in> set (updates_of (map (\<lambda>(u, i). resolve w u i) b))"
  proof -
    obtain u i where ui: "(u, i) \<in> set b" "?g (u, i) = Some upd" using \<open>upd \<in> _\<close> unfolding us mem by (auto simp del: split_paired_Ex)
    with g [OF ui] show ?thesis by blast
  qed
  show "distinct (map su_username (updates_of (map (\<lambda>(u, i). resolve w u i) b)))" unfolding us
    using assms(3) g
  proof (induction b)
    case (Cons ui b)
    have IH: "distinct (map su_username (List.map_filter ?g b))" by (rule Cons.IH) (use Cons.prems in auto)
    obtain u i where ui: "ui = (u, i)" by (rule prod.exhaust)
    show ?case
    proof (cases "?g (u, i)")
      case None
      with IH show ?thesis by (simp add: ui List.map_filter_simps)
    next
      case (Some x)
      have x: "su_username x = u" using Cons.prems(2) [of u i x] Some by (simp add: ui)
      have ne: "su_username y \<noteq> u" if "y \<in> set (List.map_filter ?g b)" for y
      proof -
        obtain v j where "(v, j) \<in> set b" "?g (v, j) = Some y" using \<open>y \<in> _\<close> unfolding mem by auto
        with Cons.prems(2) [of v j y] have "su_username y \<in> fst ` set b" by force
        with Cons.prems(1) show ?thesis by (auto simp: ui)
      qed
      have "su_username x \<notin> su_username ` set (List.map_filter ?g b)"
      proof
        assume "su_username x \<in> su_username ` set (List.map_filter ?g b)"
        then obtain y where "y \<in> set (List.map_filter ?g b)" "su_username x = su_username y" by (rule imageE)
        with ne [OF this(1)] x show False by simp
      qed
      with IH Some show ?thesis by (simp add: ui List.map_filter_simps)
    qed
  qed (simp add: List.map_filter_simps)
  show "resolve_existing u i s = NoChange" if "(u, i) \<in> set b" "db_by_name u w = Some s"
      "u \<notin> su_username ` set (updates_of (map (\<lambda>(u, i). resolve w u i) b))"
  proof (cases "resolve_existing u i s")
    case (Update x)
    have "resolve w u i = Update x" using resolve_clean(1) [OF assms(1) clean_batchD [OF assms(2) that(1)]] that(2) Update by simp
    then have "?g (u, i) = Some x" by simp
    with g [OF that(1) this] that(1,3) show ?thesis unfolding us by (metis image_eqI mem)
  qed (auto simp: resolve_existing_def Let_def split: if_splits)
qed

text \<open>The accounts an accepted plan creates: valid, new, and one per username and per student id.\<close>

definition valid_create :: "student_create \<Rightarrow> bool" where
  "valid_create c \<longleftrightarrow> USERNAME_RE (sc_username c) \<and> (\<forall>i. sc_studentId c = Some i \<longrightarrow> STUDENT_ID_RE i) \<and> (\<forall>e. sc_email c = Some e \<longrightarrow> EMAIL_RE e)"

lemma accepted_creates:
  assumes "schema_ok w" "rp_ok (planRosterImport l txt w)" "cs = rp_studentsToCreate (planRosterImport l txt w)"
  shows "list_all valid_create cs" "distinct (map sc_username cs)" "distinct (List.map_filter sc_studentId cs)"
    "sc_username ` set cs \<inter> s_username ` set (rows (students w)) = {}"
    "sc_studentId ` set cs \<inter> s_student_id ` set (rows (students w)) \<subseteq> {None}"
proof -
  from accepted_plan [OF assms(2)] obtain lab rs where t: "getLab l w = Some lab" "batch_ok (read_roster rs)" "clean_batch (rt_batch (read_roster rs)) w"
      "planRosterImport l txt w = plan_roster lab (read_roster rs) w" by metis
  let ?b = "rt_batch (read_roster rs)"
  let ?es = "filter (\<lambda>ui. db_by_name (fst ui) w = None) ?b"
  have cs: "cs = map new_student ?es"
    by (simp add: assms(3) t(4) plan_roster_def Let_def creates_of_batch [OF assms(1) t(3)])
  have b: "distinct (map fst ?b)" "sids_distinct ?b" "list_all typed_student ?b" using t(2) by (simp_all add: batch_ok_def)
  show "list_all valid_create cs"
    using b(3) by (auto simp: cs list_all_iff valid_create_def new_student_def typed_student_def)
  have u: "map sc_username cs = map fst ?es" by (simp add: cs new_student_def comp_def)
  show d: "distinct (map sc_username cs)" unfolding u using b(1) by (simp add: distinct_map inj_on_def)
  show "sc_username ` set cs \<inter> s_username ` set (rows (students w)) = {}"
    by (auto simp: cs new_student_def db_by_name_None image_iff)
  show "distinct (List.map_filter sc_studentId cs)"
  proof (rule iffD2 [OF distinct_map_filter [OF d]], intro ballI allI impI)
    fix c c' x assume h: "c \<in> set cs" "c' \<in> set cs" "sc_studentId c = Some x" "sc_studentId c' = Some x"
    then obtain v j v' j' where v: "(v, j) \<in> set ?b" "c = new_student (v, j)" "(v', j') \<in> set ?b" "c' = new_student (v', j')" by (auto simp: cs)
    from b(2) [unfolded sids_distinct_def, rule_format, OF v(1,3)] h(3,4) show "sc_username c = sc_username c'" by (simp add: v new_student_def)
  qed
  show "sc_studentId ` set cs \<inter> s_student_id ` set (rows (students w)) \<subseteq> {None}"
  proof
    fix y assume y: "y \<in> sc_studentId ` set cs \<inter> s_student_id ` set (rows (students w))"
    then obtain v j s where h: "(v, j) \<in> set ?b" "db_by_name v w = None" "y = bs_sid j" "s \<in> set (rows (students w))" "y = s_student_id s"
      by (auto simp: cs new_student_def)
    show "y \<in> {None}"
    proof (cases y)
      case (Some x)
      with h(3,5) have "bs_sid j = Some x" "s_student_id s = Some x" by simp_all
      with resolve_clean(2) [OF assms(1) clean_batchD [OF t(3) h(1)]] h(4) have "s_username s = v" by blast
      with h(2,4) show ?thesis by (auto simp: db_by_name_None)
    qed simp
  qed
qed

end
