(* ===== verification/Import_Effect.thy ===== *)
theory Import_Effect
  imports Import_Commit
begin

text \<open>
  The whole transaction of the roster import and the provisioning after it: the one error, the state it
  leaves, the step of the abstract roster it is, and that a second import of the same text plans nothing.
\<close>

lemma db_by_name_same: "students w' = students w \<Longrightarrow> db_by_name u w' = db_by_name u w"
  by (simp add: db_by_name_def)

lemma registered_same: "students w' = students w \<Longrightarrow> registered u i w' = registered u i w"
  by (simp add: registered_def)

lemma sid_free_clean:
  assumes "schema_ok w" "clean_batch b w"
  shows "sid_free b w"
  unfolding sid_free_def using resolve_clean(2) [OF assms(1) clean_batchD [OF assms(2)]] by blast

lemma list_all2_left: "list_all2 P xs ys \<Longrightarrow> x \<in> set xs \<Longrightarrow> \<exists>y \<in> set ys. P x y"
  by (induction rule: list_all2_induct) auto

lemma list_all2_right: "list_all2 P xs ys \<Longrightarrow> y \<in> set ys \<Longrightarrow> \<exists>x \<in> set xs. P x y"
  by (induction rule: list_all2_induct) auto

lemma import_students_run:
  assumes "schema_ok w" "clean_batch b w" "distinct (map fst b)" "sids_distinct b" "schema_ok v" "students v = students w"
    and "each import_create (creates_of (map (\<lambda>(u, i). resolve w u i) b)) v = (r2, w2)"
    and "each import_update (updates_of (map (\<lambda>(u, i). resolve w u i) b)) w2 = (r3, w3)"
  shows "r2 = Inl (LabE UidExhausted) \<or>
    r2 = Inr () \<and> r3 = Inr () \<and> schema_ok w3 \<and> (\<exists>t. w3 = v\<lparr>students := t\<rparr>) \<and> accounts v \<subseteq> accounts w3 \<and>
    (\<forall>u i. (u, i) \<in> set b \<longrightarrow> registered u i w3)"
proof -
  let ?es = "filter (\<lambda>ui. db_by_name (fst ui) w = None) b" and ?us = "updates_of (map (\<lambda>(u, i). resolve w u i) b)"
  have rv: "rows (students v) = rows (students w)" by (simp add: assms(6))
  have c: "each import_create (map new_student ?es) v = (r2, w2)" using assms(7) by (simp add: creates_of_batch [OF assms(1,2)])
  have free: "sid_free b v" using sid_free_clean [OF assms(1,2)] by (simp add: sid_free_def rv)
  have d: "distinct (map fst ?es)" using assms(3) by (simp add: distinct_map inj_on_def)
  have e: "set ?es \<subseteq> set b" "fst ` set ?es \<inter> s_username ` set (rows (students v)) = {}" by (auto simp: db_by_name_None rv)
  show ?thesis
  proof (cases "r2 = Inl (LabE UidExhausted)")
    case False
    with import_creates [OF c e(1) d e(2) assms(5) free assms(4)] obtain new t where n: "r2 = Inr ()" "schema_ok w2" "sid_free b w2" "w2 = v\<lparr>students := t\<rparr>"
        "rows (students w2) = rows (students w) @ new" "list_all2 (\<lambda>ui row. s_username row = fst ui \<and> matches (snd ui) row) ?es new"
      by (auto simp: rv)
    have new_user: "\<exists>ui \<in> set ?es. s_username r = fst ui \<and> matches (snd ui) r" if "r \<in> set new" for r
      by (rule list_all2_right [OF n(6) that])
    have created: "registered u i w2" if "(u, i) \<in> set ?es" for u i
      using list_all2_left [OF n(6) that] n(5) by (auto simp: registered_def)
    have comp: "completes b upd w2" if "upd \<in> set ?us" for upd
    proof -
      from updates_of_batch(1) [OF assms(1-3) that] obtain i s where s: "(su_username upd, i) \<in> set b" "db_by_name (su_username upd) w = Some s"
          "resolve_existing (su_username upd) i s = Update upd" by blast
      have k: "known_sid s = bs_sid i" if "known_sid s \<noteq> None" "bs_sid i \<noteq> None"
        using resolve_clean(3) [OF assms(1) clean_batchD [OF assms(2) s(1)] s(2) that] .
      have m: "matches i (import_fields t upd s)" "su_studentId upd = None \<or> su_studentId upd = bs_sid i" for t
        using resolve_existing_matches(2) [of s i, OF k s(3)] by simp_all
      have "r = s" if "r \<in> set (rows (students w2))" "s_username r = su_username upd" for r
      proof -
        have "r \<notin> set new" using new_user that(2) s(2) by fastforce
        with that n(5) have "r \<in> set (rows (students w))" by simp
        with that(2) have "db_by_name (su_username upd) w = Some r" by (simp add: db_by_name_iff [OF assms(1)])
        with s(2) show ?thesis by simp
      qed
      with s(1) m show ?thesis unfolding completes_def by blast
    qed
    from import_updates [OF assms(8) updates_of_batch(2) [OF assms(1-3)] comp n(2,3) assms(4,3)]
    have u: "r3 = Inr ()" "schema_ok w3" "accounts w3 = accounts w2" "\<exists>t. w3 = w2\<lparr>students := t\<rparr>"
      "\<And>u i. (u, i) \<in> set b \<Longrightarrow> u \<in> s_username ` set (rows (students w2)) \<Longrightarrow> u \<in> su_username ` set ?us \<or> registered u i w2 \<Longrightarrow> registered u i w3"
      by blast+
    have "registered u i w3" if "(u, i) \<in> set b" for u i
    proof (cases "db_by_name u w")
      case None
      with that have "registered u i w2" by (intro created) simp
      then show ?thesis using u(5) [OF that] by (auto simp: registered_def)
    next
      case (Some s)
      then have s: "s \<in> set (rows (students w2))" "s_username s = u" using db_by_name_iff [OF assms(1)] n(5) by auto
      have k: "known_sid s = bs_sid i" if "known_sid s \<noteq> None" "bs_sid i \<noteq> None"
        using resolve_clean(3) [OF assms(1) clean_batchD [OF assms(2) \<open>(u, i) \<in> set b\<close>] Some that] .
      have "u \<in> su_username ` set ?us \<or> registered u i w2"
        using updates_of_batch(3) [OF assms(1-3) that Some] resolve_existing_matches(1) [of s i u, OF k] s unfolding registered_def by blast
      with u(5) [OF that] s show ?thesis by blast
    qed
    moreover have "accounts v \<subseteq> accounts w3" unfolding u(3) using n(5) rv by (auto simp: accounts_def)
    moreover have "\<exists>t. w3 = v\<lparr>students := t\<rparr>" using u(4) n(4) by auto
    ultimately show ?thesis using n(1) u(1,2) by simp
  qed simp
qed

section \<open>The PI of the lab\<close>

definition pi_done :: "pi_update \<Rightarrow> lab_row \<Rightarrow> lab_row \<Rightarrow> 'h world \<Rightarrow> bool" where
  "pi_done p lab lab' w \<longleftrightarrow> (pu_piName p = None \<or> l_pi_name lab' = pu_piName p) \<and> (pu_piEmail p = None \<or> l_pi_email lab' = pu_piEmail p) \<and>
     (case pu_piUsername p of None \<Rightarrow> l_pi_student_id lab' = l_pi_student_id lab
      | Some u \<Rightarrow> \<exists>s \<in> set (rows (students w)). s_username s = u \<and> l_pi_student_id lab' = Some (s_id s))"

lemma upd_lab_id [simp]: "upd_lab l (\<lambda>x. x) w = w"
  by (simp add: upd_lab_def tbl_update_def)

lemma upd_lab_upd_lab:
  "(\<And>x. l_id (f x) = l_id x) \<Longrightarrow> upd_lab l g (upd_lab l f w) = upd_lab l (\<lambda>x. g (f x)) w"
  by (simp add: upd_lab_def tbl_update_def comp_def if_distrib cong: if_cong)

definition pi_fields :: "pi_update option \<Rightarrow> int \<Rightarrow> lab_row \<Rightarrow> lab_row" where
  "pi_fields q t l = (case q of None \<Rightarrow> l | Some q \<Rightarrow>
     l\<lparr>l_pi_name := keep_first (pu_piName q) (l_pi_name l), l_pi_email := keep_first (pu_piEmail q) (l_pi_email l), l_updated_at := t\<rparr>)"

lemma pi_fields_keeps [simp]:
  "l_id (pi_fields q t l) = l_id l" "l_name (pi_fields q t l) = l_name l" "l_pi_student_id (pi_fields q t l) = l_pi_student_id l"
  by (simp_all add: pi_fields_def split: option.split)

lemma import_pi_fields_upd: "import_pi_fields l q w = upd_lab l (pi_fields q (clock w)) w"
proof (cases q)
  case None
  have "pi_fields None (clock w) = (\<lambda>x. x)" by (rule ext) (simp add: pi_fields_def)
  then show ?thesis by (simp add: import_pi_fields_def None)
next
  case (Some x)
  have "pi_fields q (clock w) = (\<lambda>l. l\<lparr>l_pi_name := keep_first (pu_piName x) (l_pi_name l),
      l_pi_email := keep_first (pu_piEmail x) (l_pi_email l), l_updated_at := clock w\<rparr>)" by (rule ext) (simp add: pi_fields_def Some)
  then show ?thesis by (simp add: import_pi_fields_def Some)
qed

lemma pi_fields_done:
  assumes "q = pi_changes lab p w"
  shows "pu_piName p = None \<or> l_pi_name (pi_fields q t lab) = pu_piName p" "pu_piEmail p = None \<or> l_pi_email (pi_fields q t lab) = pu_piEmail p"
  unfolding assms by (auto simp: pi_changes_def pi_fields_def changed_field_def keep_first_def Let_def)

lemma pi_changes_username:
  "(case pi_changes lab p w of None \<Rightarrow> None | Some q \<Rightarrow> pu_piUsername q) =
     changed_field (pu_piUsername p) (case l_pi_student_id lab of None \<Rightarrow> None | Some i \<Rightarrow> map_option s_username (student_by_id i w))"
  by (simp add: pi_changes_def Let_def)

lemma import_pi_account_run:
  assumes "import_pi_account l q v = (r, v')" "schema_ok v"
    and "\<And>u. q \<noteq> None \<Longrightarrow> pu_piUsername (the q) = Some u \<Longrightarrow> u \<in> s_username ` set (rows (students v))"
  shows "r = Inr ()" "schema_ok v'"
    "\<exists>g. v' = upd_lab l g v \<and> (\<forall>x. l_id (g x) = l_id x \<and> l_name (g x) = l_name x \<and> l_pi_name (g x) = l_pi_name x \<and> l_pi_email (g x) = l_pi_email x) \<and>
       (case (case q of None \<Rightarrow> None | Some q \<Rightarrow> pu_piUsername q) of None \<Rightarrow> g = (\<lambda>x. x)
        | Some u \<Rightarrow> \<exists>s \<in> set (rows (students v)). s_username s = u \<and> (\<forall>x. l_pi_student_id (g x) = Some (s_id s)))"
proof -
  let ?u = "case q of None \<Rightarrow> None | Some q \<Rightarrow> pu_piUsername q"
  let ?Q = "\<lambda>g. v' = upd_lab l g v \<and> (\<forall>x. l_id (g x) = l_id x \<and> l_name (g x) = l_name x \<and> l_pi_name (g x) = l_pi_name x \<and> l_pi_email (g x) = l_pi_email x) \<and>
       (case ?u of None \<Rightarrow> g = (\<lambda>x. x)
        | Some u \<Rightarrow> \<exists>s \<in> set (rows (students v)). s_username s = u \<and> (\<forall>x. l_pi_student_id (g x) = Some (s_id s)))"
  have "r = Inr () \<and> schema_ok v' \<and> Ex ?Q"
  proof (cases ?u)
    case None
    then have "r = Inr ()" "v' = v" using assms(1) by (auto simp: import_pi_account_def split: option.splits)
    moreover from this None have "?Q (\<lambda>x. x)" by simp
    ultimately show ?thesis using assms(2) by blast
  next
    case (Some u)
    then obtain p where p: "q = Some p" "pu_piUsername p = Some u" by (auto split: option.splits)
    with assms(3) [of u] have "u \<in> s_username ` set (rows (students v))" by simp
    then obtain s where s: "db_by_name u v = Some s" using db_by_name_None [of u v] by fastforce
    then have mem: "s \<in> set (rows (students v))" "s_username s = u" using db_by_name_iff [OF assms(2)] by blast+
    let ?g = "\<lambda>x. x\<lparr>l_pi_student_id := Some (s_id s)\<rparr>"
    have r: "r = Inr ()" "v' = upd_lab l ?g v" using assms(1) p s by (simp_all add: import_pi_account_def)
    have "schema_ok v'" unfolding r(2) by (rule schema_upd_lab [OF assms(2), of _ "s_id s"]) (use mem in simp_all)
    moreover have "?Q ?g" using r(2) Some mem by auto
    ultimately show ?thesis using r(1) by blast
  qed
  then show "r = Inr ()" "schema_ok v'" "Ex ?Q" by blast+
qed

section \<open>The transaction\<close>

definition enrolled :: "nat \<Rightarrow> (string \<times> batch_student) list \<Rightarrow> 'h world \<Rightarrow> bool" where
  "enrolled l b w \<longleftrightarrow> (\<forall>u i. (u, i) \<in> set b \<longrightarrow> registered u i w \<and>
     (\<forall>s \<in> set (rows (students w)). s_username s = u \<longrightarrow> (l, s_id s) \<in> rs_member (abs_roster w)))"

definition lab_written :: "nat \<Rightarrow> lab_row \<Rightarrow> pi_update \<Rightarrow> 'h world \<Rightarrow> 'h world \<Rightarrow> bool" where
  "lab_written l lab p w w' \<longleftrightarrow> (\<exists>f. labs w' = tbl_update (\<lambda>x. l_id x = l) f (labs w) \<and> (\<forall>x. l_id (f x) = l_id x \<and> l_name (f x) = l_name x) \<and>
     pi_done p lab (f lab) w')"

lemma old_accounts:
  assumes "schema_ok w'" "accounts w \<subseteq> accounts w'" "s \<in> set (rows (students w))" "s' \<in> set (rows (students w'))" "s_username s' = s_username s"
  shows "s_id s' = s_id s"
proof -
  have "account s \<in> accounts w'" using assms(2,3) by (auto simp: accounts_def)
  then obtain r where r: "r \<in> set (rows (students w'))" "s_username r = s_username s" "s_id r = s_id s" by (auto simp: accounts_def account_def)
  with username_unique [OF assms(1) r(1) assms(4)] assms(5) show ?thesis by simp
qed

lemma current_pi:
  assumes "schema_ok w" "(case l_pi_student_id lab of None \<Rightarrow> None | Some i \<Rightarrow> map_option s_username (student_by_id i w)) = Some u"
  obtains s where "s \<in> set (rows (students w))" "s_username s = u" "l_pi_student_id lab = Some (s_id s)"
proof -
  obtain i where i: "l_pi_student_id lab = Some i" using assms(2) by (cases "l_pi_student_id lab") auto
  with assms(2) obtain s where s: "student_by_id i w = Some s" "s_username s = u" by auto
  then have "s \<in> set (rows (students w))" "s_id s = i" by (auto simp: student_by_id_def dest: tbl_get_Some)
  with i s that show thesis by blast
qed

lemma not_new_member:
  assumes "schema_ok w" "clean_batch b w" "distinct (map fst b)" "(u, i) \<in> set b" "u \<notin> set (new_members l b w)"
  obtains s where "s \<in> set (rows (students w))" "s_username s = u" "(l, s_id s) \<in> rs_member (abs_roster w)"
proof -
  have m: "map_of b u = Some i" using assms(3,4) by simp
  from assms(4,5) m obtain s where s: "keep_first (db_by_name u w) (db_by_sid (bs_sid i) w) = Some s" "is_member l (s_id s) w"
    by (force simp: new_members_def split: option.splits)
  have "db_by_name u w = Some s"
  proof (cases "db_by_name u w")
    case None
    with s(1) have "db_by_sid (bs_sid i) w = Some s" by (simp add: keep_first_def)
    then obtain x where "bs_sid i = Some x" "s \<in> set (rows (students w))" "s_student_id s = Some x"
      by (auto simp: db_by_sid_def split: option.splits dest: tbl_get_Some)
    with resolve_clean(2) [OF assms(1) clean_batchD [OF assms(2,4)]] have "s_username s = u" by blast
    with None \<open>s \<in> _\<close> show ?thesis by (auto simp: db_by_name_None)
  qed (use s(1) in \<open>simp add: keep_first_def\<close>)
  with s(2) that db_by_name_iff [OF assms(1)] show thesis by (auto simp: is_member_iff)
qed

lemma import_tx_run:
  assumes "schema_ok w" "getLab l w = Some lab" "batch_ok t" "clean_batch (rt_batch t) w" "import_tx l (plan_roster lab t w) w = (r, w')"
  shows "r = Inl (LabE UidExhausted) \<or> (\<exists>added. r = Inr added \<and> schema_ok w' \<and> nodes w' = nodes w \<and> lab_placements w' = lab_placements w \<and>
     placement_members w' = placement_members w \<and> set added \<subseteq> set (rows (students w')) \<and>
     rs_member (abs_roster w') = rs_member (abs_roster w) \<union> {l} \<times> s_id ` set added \<and>
     enrolled l (rt_batch t) w' \<and> lab_written l lab (rt_pi t) w w')"
proof -
  let ?b = "rt_batch t" and ?q = "pi_changes lab (rt_pi t) w"
  let ?R = "map (\<lambda>(u, i). resolve w u i) ?b"
  have b: "distinct (map fst ?b)" "sids_distinct ?b" "\<And>u. pu_piUsername (rt_pi t) = Some u \<Longrightarrow> u \<in> fst ` set ?b"
    using assms(3) by (auto simp: batch_ok_def)
  have lab: "lab \<in> set (rows (labs w))" "l_id lab = l" using getLab_mem [OF assms(2)] by auto
  define w1 where "w1 = upd_lab l (pi_fields ?q (clock w)) w"
  have w1: "schema_ok w1" "students w1 = students w"
    unfolding w1_def upd_lab_def by (simp_all add: schema_lab_update [OF assms(1)])
  obtain r2 w2 where c: "each import_create (creates_of ?R) w1 = (r2, w2)" by (rule prod.exhaust)
  obtain r3 w3 where u: "each import_update (updates_of ?R) w2 = (r3, w3)" by (rule prod.exhaust)
  obtain r4 w4 where p: "import_pi_account l ?q w3 = (r4, w4)" by (rule prod.exhaust)
  obtain r5 w5 where m: "import_members l (new_members l ?b w) w4 = (r5, w5)" by (rule prod.exhaust)
  note tx = assms(5) [unfolded import_tx_def plan_roster_def Let_def roster_plan.simps lab(2) import_pi_fields_upd, folded w1_def]
  show ?thesis
  proof (cases "r2 = Inl (LabE UidExhausted)")
    case True
    with tx c show ?thesis by simp
  next
    case False
    with import_students_run [OF assms(1,4) b(1,2) w1 c u] obtain t3 where w3: "r2 = Inr ()" "r3 = Inr ()" "schema_ok w3" "w3 = w1\<lparr>students := t3\<rparr>"
        "accounts w1 \<subseteq> accounts w3" "\<And>u i. (u, i) \<in> set ?b \<Longrightarrow> registered u i w3" by blast
    have named: "u \<in> s_username ` set (rows (students w3))" if "u \<in> fst ` set ?b" for u
      using that w3(6) by (force simp: registered_def)
    have qu: "u \<in> fst ` set ?b" if "?q \<noteq> None" "pu_piUsername (the ?q) = Some u" for u
      using that b(3) [of u] by (auto simp: pi_changes_def changed_field_def Let_def split: if_splits)
    note acc = import_pi_account_run [OF p w3(3)]
    from acc(1,2) [OF named [OF qu]] have w4: "r4 = Inr ()" "schema_ok w4" by blast+
    from acc(3) [OF named [OF qu]] obtain g where g: "w4 = upd_lab l g w3"
        "\<And>x. l_id (g x) = l_id x \<and> l_name (g x) = l_name x \<and> l_pi_name (g x) = l_pi_name x \<and> l_pi_email (g x) = l_pi_email x"
        "case (case ?q of None \<Rightarrow> None | Some q \<Rightarrow> pu_piUsername q) of None \<Rightarrow> g = (\<lambda>x. x)
         | Some u \<Rightarrow> \<exists>s \<in> set (rows (students w3)). s_username s = u \<and> (\<forall>x. l_pi_student_id (g x) = Some (s_id s))" by blast
    have s4: "students w4 = students w3" by (simp add: g(1) upd_lab_def)
    have l4: "l \<in> l_id ` set (rows (labs w4))"
    proof -
      have "l_id ` set (rows (labs w4)) = l_id ` set (rows (labs w))"
        using g(2) by (simp add: g(1) w3(4) w1_def upd_lab_def colset_tbl_update)
      with lab show ?thesis by auto
    qed
    have nm: "u \<in> s_username ` set (rows (students w4))" if "u \<in> set (new_members l ?b w)" for u
      using that named by (simp add: new_members_def s4)
    from import_members_run [OF m w4(2) l4 nm] obtain t5 ss where w5: "schema_ok w5" "w5 = w4\<lparr>lab_members := t5\<rparr>" "r5 = Inr ss"
        "set ss \<subseteq> set (rows (students w4))" "rs_member (abs_roster w5) = rs_member (abs_roster w4) \<union> {l} \<times> s_id ` set ss"
        "\<And>u s. u \<in> set (new_members l ?b w) \<Longrightarrow> db_by_name u w4 = Some s \<Longrightarrow> (l, s_id s) \<in> rs_member (abs_roster w5)" by blast
    have r: "r = Inr ss" "w' = w5" using tx c u p m w3(1,2) w4(1) w5(3) by simp_all
    have s5: "students w' = students w3" by (simp add: r(2) w5(2) s4)
    have mem: "rs_member (abs_roster w4) = rs_member (abs_roster w)" by (simp add: g(1) w3(4) w1_def upd_lab_def abs_roster_def)
    have labs: "labs w' = tbl_update (\<lambda>x. l_id x = l) (\<lambda>x. g (pi_fields ?q (clock w) x)) (labs w)"
    proof -
      have "labs w' = labs (upd_lab l g w1)" by (simp add: r(2) w5(2) g(1) w3(4) upd_lab_def)
      then show ?thesis unfolding w1_def by (simp add: upd_lab_upd_lab) (simp add: upd_lab_def)
    qed
    have "enrolled l ?b w'" unfolding enrolled_def
    proof (intro allI impI conjI ballI)
      show "registered u i w'" if "(u, i) \<in> set ?b" for u i using w3(6) [OF that] by (simp add: registered_def s5)
      fix u i s assume h: "(u, i) \<in> set ?b" "s \<in> set (rows (students w'))" "s_username s = u"
      show "(l, s_id s) \<in> rs_member (abs_roster w')"
      proof (cases "u \<in> set (new_members l ?b w)")
        case True
        have "db_by_name u w4 = Some s" using h db_by_name_iff [OF w4(2)] by (simp add: s4 s5)
        with w5(6) [OF True] show ?thesis by (simp add: r(2))
      next
        case False
        from not_new_member [OF assms(1,4) b(1) h(1) False] obtain s0 where s0: "s0 \<in> set (rows (students w))" "s_username s0 = u"
            "(l, s_id s0) \<in> rs_member (abs_roster w)" .
        have "accounts w \<subseteq> accounts w'" using w3(5) by (simp add: accounts_def w1(2) s5)
        from old_accounts [OF _ this s0(1) h(2)] w5(1) r(2) s0(2,3) h(3) have "(l, s_id s) \<in> rs_member (abs_roster w)" by simp
        then show ?thesis by (simp add: r(2) w5(5) mem)
      qed
    qed
    moreover have "pi_done (rt_pi t) lab (g (pi_fields ?q (clock w) lab)) w'"
    proof -
      let ?cur = "case l_pi_student_id lab of None \<Rightarrow> None | Some i \<Rightarrow> map_option s_username (student_by_id i w)"
      have "case pu_piUsername (rt_pi t) of None \<Rightarrow> l_pi_student_id (g (pi_fields ?q (clock w) lab)) = l_pi_student_id lab
          | Some u \<Rightarrow> \<exists>s \<in> set (rows (students w')). s_username s = u \<and> l_pi_student_id (g (pi_fields ?q (clock w) lab)) = Some (s_id s)"
      proof (cases "changed_field (pu_piUsername (rt_pi t)) ?cur")
        case None
        then have g': "g = (\<lambda>x. x)" using g(3) unfolding pi_changes_username by simp
        show ?thesis
        proof (cases "pu_piUsername (rt_pi t)")
          case S: (Some u)
          with None have cur: "?cur = Some u" by (simp add: changed_field_def split: if_splits)
          from current_pi [OF assms(1) cur] obtain s where s: "s \<in> set (rows (students w))" "s_username s = u" "l_pi_student_id lab = Some (s_id s)" .
          have "account s \<in> accounts w3" using w3(5) s(1) by (auto simp: accounts_def w1(2))
          then obtain s' where "s' \<in> set (rows (students w3))" "s_username s' = u" "s_id s' = s_id s" using s(2) by (auto simp: accounts_def account_def)
          with s(3) show ?thesis by (auto simp: S g' s5 intro!: bexI [of _ s'])
        qed (simp add: g')
      next
        case (Some u)
        then have "pu_piUsername (rt_pi t) = Some u" by (auto simp: changed_field_def split: if_splits)
        with Some g(3) show ?thesis unfolding pi_changes_username by (auto simp: s5)
      qed
      moreover have "l_pi_name (g x) = l_pi_name x" "l_pi_email (g x) = l_pi_email x" for x using g(2) by simp_all
      ultimately show ?thesis unfolding pi_done_def using pi_fields_done [of ?q lab "rt_pi t" w "clock w"] by simp
    qed
    ultimately show ?thesis
      using r w5(1,4,5) s4 mem g(1,2) labs by (auto simp: lab_written_def w5(2) w3(4) w1_def upd_lab_def s5)
  qed
qed

section \<open>The import\<close>

lemma fold_spec_join:
  "fold (spec_join l) ss r = r\<lparr>rs_member := rs_member r \<union> {l} \<times> set ss, rs_prov := rs_prov r \<union> {(p, s). (p, l) \<in> rs_placed r \<and> s \<in> set ss}\<rparr>"
proof (induction ss arbitrary: r)
  case (Cons a ss)
  show ?case unfolding fold.simps o_apply Cons.IH by (rule roster_state.equality) (auto simp: spec_join_def)
qed simp

lemma fold_join_steps: "roster_step\<^sup>*\<^sup>* r (fold (spec_join l) ss r)"
proof (induction ss arbitrary: r)
  case (Cons a ss)
  from roster_step.join [of r l a] Cons.IH [of "spec_join l a r"] show ?case by (simp add: converse_rtranclp_into_rtranclp)
qed simp

lemma provision_added_run:
  assumes "provision_added X l a ss w = (k, w')" "schema_ok w" "set ss \<subseteq> set (rows (students w))"
  shows "schema_ok w' \<and> nodes w' = nodes w \<and> students w' = students w \<and> labs w' = labs w \<and> lab_members w' = lab_members w \<and>
    lab_placements w' = lab_placements w \<and> rs_prov (abs_roster w') = rs_prov (abs_roster w) \<union> {(p, s). (p, l) \<in> rs_placed (abs_roster w) \<and> s \<in> s_id ` set ss}"
  using assms
proof (induction ss arbitrary: w k)
  case (Cons s ss)
  obtain ns w1 where 1: "provision_on X s a (listPlacements l w) w = (ns, w1)" by (rule prod.exhaust)
  obtain k2 w2 where 2: "provision_added X l a ss w1 = (k2, w2)" by (rule prod.exhaust)
  have w': "w' = w2" using Cons.prems(1) 1 2 by simp
  have w1: "w1 = snd (provision_on X s a (listPlacements l w) w)" by (simp add: 1)
  note ids = listPlacements_ids [OF Cons.prems(2), of l]
  have ok: "schema_ok w1" unfolding w1
  proof (rule schema_provision_on [OF Cons.prems(2)])
    show "p_id (pl_row p) \<in> p_id ` set (rows (lab_placements w))" if "p \<in> set (listPlacements l w)" for p
    proof -
      have "(p_id (pl_row p), l) \<in> rs_placed (abs_roster w)" using ids that by blast
      then show ?thesis by (auto simp: abs_roster_def placed_key_def)
    qed
    show "s_id s \<in> s_id ` set (rows (students w))" using Cons.prems(3) by simp
  qed
  have f: "nodes w1 = nodes w" "students w1 = students w" "labs w1 = labs w" "lab_members w1 = lab_members w" "lab_placements w1 = lab_placements w"
    by (simp_all add: w1)
  have pl: "rs_placed (abs_roster w1) = rs_placed (abs_roster w)" by (simp add: abs_roster_def f(5))
  have prov: "rs_prov (abs_roster w1) = rs_prov (abs_roster w) \<union> {(p, s_id s) | p. (p, l) \<in> rs_placed (abs_roster w)}"
  proof -
    have "{(p_id (pl_row p), s_id s) | p. p \<in> set (listPlacements l w)} = {(p, s_id s) | p. (p, l) \<in> rs_placed (abs_roster w)}"
      using ids by auto
    then show ?thesis using prov_provision_on [of X s a "listPlacements l w" w] by (simp add: abs_roster_def w1)
  qed
  have "set ss \<subseteq> set (rows (students w1))" using Cons.prems(3) f(2) by simp
  from Cons.IH [OF 2 [folded w'] ok this] show ?case unfolding f pl prov by auto
qed simp

lemma applyRosterImport_run:
  assumes "schema_ok w" "applyRosterImport X l txt a w = (r, w')"
  shows "(\<not> rp_ok (planRosterImport l txt w) \<and> (\<exists>m n i. r = Inl (LabE (ImportNotCommittable m n i))) \<and> w' = w) \<or>
     (rp_ok (planRosterImport l txt w) \<and> r = Inl (LabE UidExhausted) \<and> w' = w) \<or>
     (\<exists>res lab t ids. rp_ok (planRosterImport l txt w) \<and> r = Inr res \<and> getLab l w = Some lab \<and> rp_ok (planRosterImport l txt w) \<and>
        t = read_roster (csv_rows (parseCsv txt)) \<and> schema_ok w' \<and> nodes w' = nodes w \<and> abs_roster w' = fold (spec_join l) ids (abs_roster w) \<and>
        enrolled l (rt_batch t) w' \<and> lab_written l lab (rt_pi t) w w')"
proof (cases "rp_ok (planRosterImport l txt w)")
  case False
  with assms(2) show ?thesis by (auto simp: applyRosterImport_def Let_def)
next
  case True
  obtain lab rs where t: "getLab l w = Some lab" "rs = csv_rows (parseCsv txt)" "batch_ok (read_roster rs)" "clean_batch (rt_batch (read_roster rs)) w"
    "planRosterImport l txt w = plan_roster lab (read_roster rs) w"
    by (rule accepted_plan [OF True]) blast
  obtain r1 w1 where tx: "import_tx l (planRosterImport l txt w) w = (r1, w1)" by (rule prod.exhaust)
  from import_tx_run [OF assms(1) t(1,3,4) tx [unfolded t(5)]] show ?thesis
  proof (elim disjE exE conjE)
    assume "r1 = Inl (LabE UidExhausted)"
    with True tx assms(2) show ?thesis by (simp add: applyRosterImport_def)
  next
    fix added
    assume h: "r1 = Inr added" "schema_ok w1" "nodes w1 = nodes w" "lab_placements w1 = lab_placements w" "placement_members w1 = placement_members w"
      "set added \<subseteq> set (rows (students w1))" "rs_member (abs_roster w1) = rs_member (abs_roster w) \<union> {l} \<times> s_id ` set added"
      "enrolled l (rt_batch (read_roster rs)) w1" "lab_written l lab (rt_pi (read_roster rs)) w w1"
    let ?w = "\<lambda>d. audit a ''lab.roster_import'' (Some (rp_lab (planRosterImport l txt w))) d w1"
    have "\<exists>d k. provision_added X l a added (?w d) = (k, w') \<and> (\<exists>x. r = Inr x)"
      using assms(2) True tx h(1) by (auto simp: applyRosterImport_def Let_def split: prod.splits)
    then obtain d k where k: "provision_added X l a added (?w d) = (k, w')" and wa: "\<exists>x. r = Inr x" by blast
    have ok: "schema_ok (?w d)" "set added \<subseteq> set (rows (students (?w d)))" using h(2,6) by simp_all
    from provision_added_run [OF k ok]
    have p: "schema_ok w'" "nodes w' = nodes w1" "students w' = students w1" "labs w' = labs w1" "lab_members w' = lab_members w1"
        "lab_placements w' = lab_placements w1"
        "rs_prov (abs_roster w') = rs_prov (abs_roster w1) \<union> {(p, s). (p, l) \<in> rs_placed (abs_roster w1) \<and> s \<in> s_id ` set added}" by simp_all
    have "rs_member (abs_roster w') = rs_member (abs_roster w1)" "rs_placed (abs_roster w') = rs_placed (abs_roster w)"
        "rs_placed (abs_roster w1) = rs_placed (abs_roster w)" "rs_prov (abs_roster w1) = rs_prov (abs_roster w)"
      using p(5,6) h(4,5) by (simp_all add: abs_roster_def)
    with p(7) h(7) have "abs_roster w' = fold (spec_join l) (map s_id added) (abs_roster w)" by (simp add: fold_spec_join)
    moreover have "enrolled l (rt_batch (read_roster rs)) w'"
      using h(8) p(3,5) by (simp add: enrolled_def registered_def abs_roster_def)
    moreover have "lab_written l lab (rt_pi (read_roster rs)) w w'"
      using h(9) unfolding lab_written_def pi_done_def p(3,4) .
    ultimately show ?thesis using True t(1,2) p(1,2) h(3) wa by auto
  qed
qed

lemma lab_written_lookup:
  assumes "schema_ok w" "getLab l w = Some lab" "lab_written l lab p w w'"
  obtains f where "getLab l w' = Some (f lab)" "\<And>x. x \<in> set (rows (labs w')) \<Longrightarrow> x \<in> set (rows (labs w)) \<and> l_id x \<noteq> l \<or> x = f lab"
    "l_id (f lab) = l" "l_name (f lab) = l_name lab" "pi_done p lab (f lab) w'"
proof -
  obtain f where f: "labs w' = tbl_update (\<lambda>x. l_id x = l) f (labs w)" "\<And>x. l_id (f x) = l_id x" "\<And>x. l_name (f x) = l_name x" "pi_done p lab (f lab) w'"
    using assms(3) unfolding lab_written_def by blast
  have lab: "lab \<in> set (rows (labs w))" "l_id lab = l" using getLab_mem [OF assms(2)] by auto
  have "x = lab" if "x \<in> set (rows (labs w))" "l_id x = l" for x
    using getLab_total [OF assms(1) that(1)] that(2) assms(2) by simp
  then have "x \<in> set (rows (labs w)) \<and> l_id x \<noteq> l \<or> x = f lab" if "x \<in> set (rows (labs w'))" for x
    using that by (auto simp: f(1) rows_tbl_update split: if_splits)
  moreover have "getLab l w' = Some (f lab)"
    using assms(2) lab(2) by (simp add: getLab_def lab_by_id_def f(1,2) tbl_get_update)
  ultimately show thesis using that f(2-4) lab(2) by simp
qed

lemma good_applyRosterImport:
  assumes "core_ok w" shows "good_step w (snd (applyRosterImport X l txt a w))"
proof -
  obtain r w' where e: "applyRosterImport X l txt a w = (r, w')" by (rule prod.exhaust)
  have s: "schema_ok w" and pm: "pi_member w" using assms by (simp_all add: core_ok_def)
  from applyRosterImport_run [OF s e] show ?thesis
  proof (elim disjE exE conjE)
    fix res lab t ids
    assume h: "rp_ok (planRosterImport l txt w)" "getLab l w = Some lab" "t = read_roster (csv_rows (parseCsv txt))" "schema_ok w'" "nodes w' = nodes w"
      "abs_roster w' = fold (spec_join l) ids (abs_roster w)" "enrolled l (rt_batch t) w'" "lab_written l lab (rt_pi t) w w'"
    have sub: "rs_member (abs_roster w) \<subseteq> rs_member (abs_roster w')" by (auto simp: h(6) fold_spec_join)
    obtain rs where b: "rs = csv_rows (parseCsv txt)" "batch_ok (read_roster rs)" by (rule accepted_plan [OF h(1)]) blast
    from lab_written_lookup [OF s h(2,8)] obtain f where f: "\<And>x. x \<in> set (rows (labs w')) \<Longrightarrow> x \<in> set (rows (labs w)) \<and> l_id x \<noteq> l \<or> x = f lab"
        "l_id (f lab) = l" "pi_done (rt_pi t) lab (f lab) w'" by metis
    have old: "is_member (l_id x) i w'" if "x \<in> set (rows (labs w))" "l_pi_student_id x = Some i" for x i
      using pm that sub by (auto simp: pi_member_def is_member_iff)
    have "is_member l i w'" if "l_pi_student_id (f lab) = Some i" for i
    proof (cases "pu_piUsername (rt_pi t)")
      case None
      with f(3) that have "l_pi_student_id lab = Some i" by (simp add: pi_done_def)
      with old getLab_mem [OF h(2)] show ?thesis by blast
    next
      case (Some u)
      with f(3) that obtain st where st: "st \<in> set (rows (students w'))" "s_username st = u" "i = s_id st" by (auto simp: pi_done_def)
      from Some b h(3) obtain inf where "(u, inf) \<in> set (rt_batch t)" by (auto simp: batch_ok_def)
      with h(7) st show ?thesis by (auto simp: enrolled_def is_member_iff)
    qed
    with f(1,2) old have "pi_member w'" unfolding pi_member_def by blast
    moreover have "cold_ok w'" using assms h(5) by (simp add: core_ok_def cold_ok_def)
    ultimately show ?thesis using h(4,6) fold_join_steps [of "abs_roster w" l ids] by (simp add: good_step_def core_ok_def e)
  qed (simp_all add: e good_step_refl assms)
qed

text \<open>After an import of a text, the same text asks for nothing more.\<close>

lemma registered_row: "registered u i w \<Longrightarrow> schema_ok w \<Longrightarrow> \<exists>r. db_by_name u w = Some r \<and> matches i r"
  using db_by_name_iff unfolding registered_def by blast

lemma resolve_registered:
  assumes "schema_ok w" "registered u i w" "typed_student (u, i)"
  shows "resolve w u i = NoChange" "\<exists>r \<in> set (rows (students w)). s_username r = u \<and> keep_first (db_by_name u w) sid = Some r"
proof -
  from registered_row [OF assms(2,1)] obtain r where r: "db_by_name u w = Some r" "matches i r" by blast
  then have mem: "r \<in> set (rows (students w))" "s_username r = u" using db_by_name_iff [OF assms(1)] by blast+
  show "\<exists>r \<in> set (rows (students w)). s_username r = u \<and> keep_first (db_by_name u w) sid = Some r"
    using mem r(1) by (auto simp: keep_first_def)
  have sid: "s_student_id r = Some x \<and> known_sid r = Some x" if "bs_sid i = Some x" for x
  proof -
    have "STUDENT_ID_RE x" using assms(3) that by (simp add: typed_student_def)
    then have "x \<noteq> []" by (auto simp: STUDENT_ID_RE_def name_re_def)
    with r(2) that show ?thesis by (simp add: matches_def known_sid_def nonblank_def)
  qed
  have id: "db_by_sid (bs_sid i) w = None \<or> db_by_sid (bs_sid i) w = Some r"
  proof (cases "db_by_sid (bs_sid i) w")
    case (Some q)
    then obtain x where x: "bs_sid i = Some x" "q \<in> set (rows (students w))" "s_student_id q = Some x"
      by (auto simp: db_by_sid_def split: option.splits dest: tbl_get_Some)
    have "s_username q = s_username r" by (rule schema_sids [OF assms(1) x(2) mem(1) x(3)]) (use sid [OF x(1)] in simp)
    with username_unique [OF assms(1) x(2) mem(1)] Some show ?thesis by simp
  qed simp
  have "resolve_existing u i r = NoChange"
    using sid r(2) by (cases "bs_sid i") (auto simp: resolve_existing_def changed_field_def matches_def Let_def)
  moreover have "bs_sid i = known_sid r" if "bs_sid i \<noteq> None" using sid that by auto
  ultimately show "resolve w u i = NoChange"
    using id r(1) mem(2) by (auto simp: resolve_def Let_def keep_first_def)
qed

lemma import_again:
  assumes "schema_ok w" "applyRosterImport X l txt a w = (Inr res, w')"
  shows "\<exists>name. planRosterImport l txt w' = \<lparr>rp_lab = name, rp_piUpdate = None, rp_studentsToCreate = [], rp_studentsToUpdate = [],
    rp_membershipsToAdd = [], rp_conflicts = [], rp_invalid = [], rp_ok = True\<rparr>"
proof -
  from applyRosterImport_run [OF assms] obtain lab t where h: "rp_ok (planRosterImport l txt w)" "getLab l w = Some lab" "t = read_roster (csv_rows (parseCsv txt))"
      "schema_ok w'" "enrolled l (rt_batch t) w'" "lab_written l lab (rt_pi t) w w'" by auto
  from accepted_plan [OF h(1)] obtain rs where b: "rs = csv_rows (parseCsv txt)" "batch_ok (read_roster rs)" "rt_invalid (read_roster rs) = []"
      "rt_conflicts (read_roster rs) = []" "\<And>(w' :: 'a world) lab'. getLab l w' = Some lab' \<Longrightarrow> planRosterImport l txt w' = plan_roster lab' (read_roster rs) w'" by metis
  have t: "batch_ok t" "rt_invalid t = []" "rt_conflicts t = []" using b(1-4) h(3) by simp_all
  from lab_written_lookup [OF assms(1) h(2,6)] obtain f where f: "getLab l w' = Some (f lab)" "l_id (f lab) = l" "pi_done (rt_pi t) lab (f lab) w'" by metis
  have plan: "planRosterImport l txt w' = plan_roster (f lab) t w'" using b(5) [OF f(1)] b(1) h(3) by simp
  have typed: "typed_student (u, i)" and reg: "registered u i w'" if "(u, i) \<in> set (rt_batch t)" for u i
    using t(1) h(5) that by (auto simp: batch_ok_def list_all_iff enrolled_def)
  have rs: "map (\<lambda>(u, i). resolve w' u i) (rt_batch t) = map (\<lambda>_. NoChange) (rt_batch t)"
    using resolve_registered(1) [OF h(4) reg typed] by auto
  have none: "conflicts_of (map (\<lambda>_. NoChange) xs) = []" "creates_of (map (\<lambda>_. NoChange) xs) = []" "updates_of (map (\<lambda>_. NoChange) xs) = []"
    for xs :: "(string \<times> batch_student) list"
    by (induction xs) (simp_all add: conflicts_of_def creates_of_def updates_of_def List.map_filter_simps)
  have "new_members l (rt_batch t) w' = []"
  proof -
    have "False" if "(u, i) \<in> set (rt_batch t)" "case keep_first (db_by_name u w') sid of None \<Rightarrow> True | Some s \<Rightarrow> \<not> is_member l (s_id s) w'" for u i sid
    proof -
      from resolve_registered(2) [OF h(4) reg [OF that(1)] typed [OF that(1)], of sid] obtain r where r: "r \<in> set (rows (students w'))" "s_username r = u"
          "keep_first (db_by_name u w') sid = Some r" by blast
      then have "is_member l (s_id r) w'" using h(5) that(1) by (auto simp: enrolled_def is_member_iff)
      with that(2) r(3) show False by simp
    qed
    then show ?thesis by (auto simp: new_members_def filter_empty_conv)
  qed
  moreover have "pi_changes (f lab) (rt_pi t) w' = None"
  proof -
    have "changed_field (pu_piUsername (rt_pi t)) (case l_pi_student_id (f lab) of None \<Rightarrow> None | Some i \<Rightarrow> map_option s_username (student_by_id i w')) = None"
    proof (cases "pu_piUsername (rt_pi t)")
      case (Some u)
      with f(3) obtain s where s: "s \<in> set (rows (students w'))" "s_username s = u" "l_pi_student_id (f lab) = Some (s_id s)" by (auto simp: pi_done_def)
      have "student_by_id (s_id s) w' = Some s" unfolding student_by_id_def by (rule pk_get [OF schema_pk(2) [OF h(4)] s(1)])
      with s Some show ?thesis by (simp add: changed_field_def)
    qed (simp add: changed_field_def)
    then show ?thesis using f(3) by (auto simp: pi_changes_def pi_done_def changed_field_def Let_def)
  qed
  ultimately show ?thesis unfolding plan by (simp add: plan_roster_def Let_def rs none f(2) t(2,3))
qed

end
