(* ===== verification/System.thy ===== *)
theory System
  imports Sessions Isolation Maintenance_Facts NodeGroups Import_Effect
begin

section \<open>Operations on groups, settings and rosters\<close>

text \<open>The pages' operations on node groups and settings, and the roster import.\<close>

inductive page_step :: "'h ext \<Rightarrow> 'h world \<Rightarrow> 'h world \<Rightarrow> bool" for X where
  create_group: "page_step X w (snd (createNodeGroup name a w))"
| rename_group: "page_step X w (snd (renameNodeGroup i name a w))"
| delete_group: "page_step X w (deleteNodeGroup i a w)"
| group_members: "page_step X w (snd (setNodeGroupMembers i ns a w))"
| set_setting: "page_step X w (snd (setSetting X key v w))"
| import_roster: "page_step X w (snd (applyRosterImport X l txt a w))"

definition same_tables :: "'h world \<Rightarrow> 'h world \<Rightarrow> bool" where
  "same_tables w w' \<longleftrightarrow> nodes w' = nodes w \<and> students w' = students w \<and> labs w' = labs w \<and> lab_members w' = lab_members w \<and>
     lab_placements w' = lab_placements w \<and> placement_members w' = placement_members w"

lemma good_same_tables: "core_ok w \<Longrightarrow> same_tables w w' \<Longrightarrow> good_step w w'"
  by (rule good_node_op) (simp_all add: same_tables_def core_ok_def schema_frame [of w'] cold_ok_frame [of w'])

lemma group_ops_tables:
  "same_tables w (snd (createNodeGroup name a w))" "same_tables w (snd (renameNodeGroup i name a w))"
  "same_tables w (deleteNodeGroup i a w)" "same_tables w (snd (setNodeGroupMembers i ns a w))"
  by (simp_all add: same_tables_def createNodeGroup_def renameNodeGroup_def deleteNodeGroup_def setNodeGroupMembers_def Let_def
      split: sum.split option.split)

lemma setting_tables: "same_tables w (snd (setSetting X key v w))"
  by (simp add: same_tables_def setSetting_def store_setting_def split: json.split option.split)

lemma page_step_good: "page_step X w w' \<Longrightarrow> core_ok w \<Longrightarrow> good_step w w'"
  by (induction rule: page_step.induct) (simp_all add: good_same_tables group_ops_tables setting_tables good_applyRosterImport)

section \<open>The controller\<close>

text \<open>
  The controller as one machine: the pages' and the cron jobs' calls of the operations on nodes, labs,
  students and placements, the maintenance tick (a throw there ends the process, as nothing catches it)
  and the events of the hub, in any order. Every call and every handler runs to
  its end before the next one starts, as on the event loop of the one controller process.
\<close>

inductive sys_step :: "'h ext \<Rightarrow> 'h hub \<Rightarrow> 'h hub \<Rightarrow> bool" for X where
  call: "ctl_step X (hb_world h) w \<Longrightarrow> sys_step X h (h\<lparr>hb_world := w\<rparr>)"
| page: "page_step X (hb_world h) w \<Longrightarrow> sys_step X h (h\<lparr>hb_world := w\<rparr>)"
| event: "hub_step X h h' \<Longrightarrow> sys_step X h h'"
| maintain: "maintenance_tick X (hb_world h) = (Inr due, w) \<Longrightarrow> sys_step X h (h\<lparr>hb_world := w\<rparr>)"
| maintenance_fails: "maintenance_tick X (hb_world h) = (Inl e, w) \<Longrightarrow> sys_step X h (restart (h\<lparr>hb_world := w\<rparr>))"

inductive_cases sys_stepE: "sys_step X h h'"

lemma sys_step_good: "sys_step X h h' \<Longrightarrow> core_ok (hb_world h) \<Longrightarrow> good_step (hb_world h) (hb_world h')"
proof (erule sys_stepE)
  assume c: "core_ok (hb_world h)"
  have m: "good_step (hb_world h) w" if "maintenance_tick X (hb_world h) = (r, w)" for r w
    using good_maintenance [OF c, of X] that by simp
  show "good_step (hb_world h) (hb_world h')" if "h' = h\<lparr>hb_world := w\<rparr>" "maintenance_tick X (hb_world h) = (Inr due, w)" for due w
    using m that by simp
  show "good_step (hb_world h) (hb_world h')" if "h' = restart (h\<lparr>hb_world := w\<rparr>)" "maintenance_tick X (hb_world h) = (Inl e, w)" for e w
  proof -
    have g: "good_step (hb_world h) w" by (rule m [OF that(2)])
    then have "good_step (hb_world (h\<lparr>hb_world := w\<rparr>)) (hb_world h')"
      unfolding that(1) by (intro good_restart) (simp add: good_step_def)
    with g show ?thesis using good_step_trans by simp
  qed
qed (auto intro: ctl_step_good page_step_good good_hub_step)

text \<open>The state of a controller that starts on a database.\<close>

definition boots_on :: "('h world \<Rightarrow> bool) \<Rightarrow> 'h hub \<Rightarrow> bool" where
  "boots_on P h \<longleftrightarrow> P (hb_world h) \<and> hb_socks h = [] \<and> connections h = [] \<and> pendingOfflineAlerts h = [] \<and> hb_jobs h = []"

interpretation sys: roster_impl "\<lambda>h. abs_roster (hb_world h)" "\<lambda>h. core_ok (hb_world h)" "sys_step X" for X
proof
  fix h h' assume "core_ok (hb_world h)" "sys_step X h h'"
  with sys_step_good show "core_ok (hb_world h')" "roster_step\<^sup>*\<^sup>* (abs_roster (hb_world h)) (abs_roster (hb_world h'))"
    by (auto simp: good_step_def)
qed

interpretation sys_inv: invariant_machine "boots_on empty_db" "sys_step X" "\<lambda>h. core_ok (hb_world h)" for X
  by unfold_locales (auto simp: boots_on_def intro: core_ok_empty sys.cstep_ok)

interpretation presence_inv: invariant_machine "boots_on (\<lambda>_. True)" "hub_step X" hub_ok for X
  by unfold_locales
    (simp add: boots_on_def hub_ok_def connected_def conn_of_def, rule hub_ok_step [OF hub_step_presence])

section \<open>A destroyed placement that comes back\<close>

text \<open>
  The result of the creation of a placement sets its state whatever it is, and only a placement that is
  being deleted is removed when its destruction is confirmed.
\<close>

lemma late_creation_result:
  assumes "getPlacementByLabNode lab node w = Some p"
  shows "\<exists>q. getPlacementByLabNode lab node (markPlacementStateByLabNode lab node PActive None w) = Some q \<and>
      p_id (pl_row q) = p_id (pl_row p) \<and> p_state (pl_row q) = PActive"
    "confirmPlacementDestroyed lab node (markPlacementStateByLabNode lab node PActive None w) =
      markPlacementStateByLabNode lab node PActive None w"
proof -
  show 1: "\<exists>q. getPlacementByLabNode lab node (markPlacementStateByLabNode lab node PActive None w) = Some q \<and>
      p_id (pl_row q) = p_id (pl_row p) \<and> p_state (pl_row q) = PActive"
    using assms by (simp add: markPlacementStateByLabNode_def markPlacementState_def getPlacementByLabNode_def
        placement_select_stamp find_map_same)
  then show "confirmPlacementDestroyed lab node (markPlacementStateByLabNode lab node PActive None w) =
      markPlacementStateByLabNode lab node PActive None w"
    by (auto simp: confirmPlacementDestroyed_def)
qed

end
