(* ===== verification/Progress.thy ===== *)
theory Progress
  imports Sessions Presence
begin

text \<open>
  Progress of the consumer of a connected node: the ticks of drainNode, one after the other, empty its
  queue, twenty tasks at a time and in order.
\<close>

text \<open>Ticks of one connection, with every send accepted by the socket.\<close>

fun drain_ticks :: "'h ext \<Rightarrow> string \<Rightarrow> nat \<Rightarrow> nat \<Rightarrow> 'h hub \<Rightarrow> 'h hub" where
  "drain_ticks X node i 0 h = h"
| "drain_ticks X node i (Suc k) h = drain_ticks X node i k (settled (drainNode X (\<lambda>_. True) node i h))"

lemma drain_ticks_steps: "(hub_step X)\<^sup>*\<^sup>* h (drain_ticks X node i k h)"
proof (induction k arbitrary: h)
  case (Suc k)
  from hub_step.tick [of X h "\<lambda>_. True" node i] Suc show ?case by (simp add: converse_rtranclp_into_rtranclp)
qed simp

lemma drain_loop_ready: "socket_ready k (snd (drain_loop X sends node i n h)) = socket_ready k h"
proof (induction n arbitrary: h)
  case (Suc n)
  show ?case
    by (simp add: Suc.IH split: prod.split sum.split option.split) (simp add: ws_send_def upd_sock_def socket_ready_def nth_list_update)
qed simp

definition serving :: "'h hub \<Rightarrow> nat \<Rightarrow> string \<Rightarrow> bool" where
  "serving h i node \<longleftrightarrow> socket_ready i h = Open \<and> (\<exists>c. conn_of node h = Some c \<and> cn_sock c = i \<and> nodeStillAuthorized node (cn_tokenHash c) (hb_world h))"

lemma drain_loop_serving: "serving (snd (drain_loop X sends node i n h)) i node = serving h i node"
proof -
  have "nodes (hb_world (snd (drain_loop X sends node i n h))) = nodes (hb_world h)"
    using same_core_drain_loop [of X sends node i n h] by (simp add: same_core_def same_registry_def)
  then show ?thesis
    by (simp add: serving_def drain_loop_ready conn_of_def drain_loop_conn nodeStillAuthorized_def node_by_name_def)
qed

lemma serving_tick:
  assumes "honker_fifo X pend" "serving h i node" "map (decodeFrame X) (pending pend node (hb_world h)) = map Inr fs"
  obtains h' where "drainNode X (\<lambda>_. True) node i h = (Inr (), h')" "serving h' i node" "sent_on i h' = sent_on i h @ take 20 fs"
    "pending pend node (hb_world h') = drop 20 (pending pend node (hb_world h))"
    "map (decodeFrame X) (pending pend node (hb_world h')) = map Inr (drop 20 fs)"
proof -
  from assms(2) obtain c where c: "socket_ready i h = Open" "conn_of node h = Some c" "cn_sock c = i" "nodeStillAuthorized node (cn_tokenHash c) (hb_world h)"
    unfolding serving_def by blast
  have i: "i < length (hb_socks h)" by (rule socket_ready_index) (simp add: c(1))
  have "map (decodeFrame X) (take 20 (pending pend node (hb_world h))) = map Inr (take 20 fs)"
    using assms(3) by (simp flip: take_map)
  from drain_loop_fifo [OF assms(1) i this] obtain h' where h': "drain_loop X (\<lambda>_. True) node i 20 h = (Inr (), h')"
      "sent_on i h' = sent_on i h @ take 20 fs" "pending pend node (hb_world h') = drop 20 (pending pend node (hb_world h))" by blast
  have "serving h' i node" using drain_loop_serving [of X "\<lambda>_. True" node i 20 h] assms(2) h'(1) by simp
  moreover have "map (decodeFrame X) (pending pend node (hb_world h')) = map Inr (drop 20 fs)"
    using assms(3) h'(3) by (simp flip: drop_map)
  ultimately show thesis using that h' drainNode_authorised [OF c] by simp
qed

lemma drain_ticks_send:
  assumes "honker_fifo X pend" "serving h i node" "map (decodeFrame X) (pending pend node (hb_world h)) = map Inr fs"
  shows "sent_on i (drain_ticks X node i k h) = sent_on i h @ take (20 * k) fs \<and>
    pending pend node (hb_world (drain_ticks X node i k h)) = drop (20 * k) (pending pend node (hb_world h)) \<and> serving (drain_ticks X node i k h) i node"
  using assms(2,3)
proof (induction k arbitrary: h fs)
  case (Suc k)
  from serving_tick [OF assms(1) Suc.prems] obtain h' where h': "drainNode X (\<lambda>_. True) node i h = (Inr (), h')" "serving h' i node"
      "sent_on i h' = sent_on i h @ take 20 fs" "pending pend node (hb_world h') = drop 20 (pending pend node (hb_world h))"
      "map (decodeFrame X) (pending pend node (hb_world h')) = map Inr (drop 20 fs)" .
  have "take (20 * Suc k) fs = take 20 fs @ take (20 * k) (drop 20 fs)" by (metis mult_Suc_right take_add)
  with Suc.IH [OF h'(2,5)] h'(1,3,4) show ?case by (simp add: settled_def add.commute)
qed simp

end
