(* ===== verification/Sample_Hub.thy ===== *)
theory Sample_Hub
  imports Sample System Progress
begin

text \<open>Concrete hubs on the sample database: no socket, one authenticated socket, a socket that is being replaced.\<close>

definition hello_n1 :: json where
  "hello_n1 = JObj [(''type'', JStr ''hello''), (''node'', JStr ''n1''), (''token'', JStr ''tok''), (''v'', JNum 2)]"

definition H0 :: "fifo world \<Rightarrow> fifo hub" where
  "H0 w = \<lparr>hb_world = w, hb_socks = [], connections = [], pendingOfflineAlerts = [], hb_jobs = []\<rparr>"

definition mk_sock :: "ready_state \<Rightarrow> string option \<Rightarrow> sock" where
  "mk_sock r n = \<lparr>sk_ready = r, sk_node = n, sk_bucket = (60, 1000), sk_hello_timer = False, sk_sent = [], sk_close = None\<rparr>"

definition n1_hash :: string where
  "n1_hash = ''h'' @ ''n1'' @ [NUL] @ ''tok''"

text \<open>Node n1 on socket 0 (in state \<open>r\<close>); socket 1 is open and has not said hello.\<close>

definition H1 :: "ready_state \<Rightarrow> fifo world \<Rightarrow> fifo hub" where
  "H1 r w = \<lparr>hb_world = w, hb_socks = [mk_sock r (Some ''n1''), mk_sock Open None],
     connections = [(''n1'', \<lparr>cn_sock = 0, cn_tokenHash = n1_hash, cn_isAlive = True\<rparr>)], pendingOfflineAlerts = [], hb_jobs = []\<rparr>"

lemma H0_boots [simp]: "boots_on (\<lambda>_. True) (H0 w)"
  by (simp add: boots_on_def H0_def)

lemma H1_sockets [simp]:
  "socket_ready 0 (H1 r w) = r" "socket_node 0 (H1 r w) = Some ''n1''" "socket_ready (Suc 0) (H1 r w) = Open"
  "socket_node (Suc 0) (H1 r w) = None" "length (hb_socks (H1 r w)) = 2" "hb_world (H1 r w) = w"
  "conn_of ''n1'' (H1 r w) = Some \<lparr>cn_sock = 0, cn_tokenHash = n1_hash, cn_isAlive = True\<rparr>"
  by (simp_all add: H1_def mk_sock_def socket_ready_def socket_node_def conn_of_def)

lemma n1_row: "node_by_name ''n1'' W1 = Some (mk_node 1 ''n1'' True LocalZfs None)"
  by (simp add: node_by_name_def tbl_get_def W1_def sample_simps)

lemma n1_authorized [simp]: "nodeStillAuthorized ''n1'' n1_hash W1"
  by (simp add: nodeStillAuthorized_def n1_row mk_node_def n1_hash_def)

lemma n1_auth [simp]: "verifyNodeAuth X0 ''n1'' ''tok'' W1 = AuthOk n1_hash"
  by (simp add: verifyNodeAuth_def n1_row mk_node_def n1_hash_def isValidNodeName_def name_re_def is_az_def is_digit_def code_unit_def
      nodeTokenHash_def X0_def safeEqual_def)

lemma hello_n1_parses [simp]: "parseInboundFrame hello_n1 = Some (HelloFrame ''n1'' ''tok'' (Some 2) None)"
  by (simp add: hello_n1_def parseInboundFrame_def z_hello_def z_string_def z_nat_def z_record_def z_ts_def optional_def
      fstr_def)

text \<open>A telemetry frame of n1 with one entry, for the root file system of lab ai.\<close>

lemma W1_cols: "storage_samples W1 = tbl_empty" "clock W1 = 1000"
  by (simp_all add: W1_def W0_def)

definition W1_seen :: "fifo world" where
  "W1_seen = upd_node ''n1'' (\<lambda>n. n\<lparr>n_pools := Some (json_text (JArr [])), n_last_seen := Some 1000\<rparr>) W1"

lemma W1_seen_samples: "storage_samples W1_seen = tbl_empty"
  by (simp add: W1_seen_def upd_node_def W1_cols)

lemma W1_seen_placement: "placementByLabNode ''ai'' ''n1'' W1_seen = Some (mk_placement 1 1 1 50000 PActive)"
  by (simp add: W1_seen_def placementByLabNode_def getPlacementByLabNode_def placement_select_def placement_join_def lab_by_id_def node_by_id_def
      tbl_get_def W1_def upd_node_def sample_simps rows_tbl_update List.map_filter_simps)

lemma telemetry_W1:
  "ingestTelemetry X0 ''n1'' (JObj [(''storage'', JArr [JObj [(''lab'', JStr ''ai''), (''tier'', JStr ''rootfs''), (''used_bytes'', JNum u)]])]) W1 =
     (Inr (), insert_sample (mk_placement 1 1 1 50000 PActive) None ''rootfs'' u None 1000 W1_seen)"
proof -
  have "ingest_storage X0 ''n1'' 1000 (JObj [(''lab'', JStr ''ai''), (''tier'', JStr ''rootfs''), (''used_bytes'', JNum u)]) W1_seen =
      (Inr (), insert_sample (mk_placement 1 1 1 50000 PActive) None ''rootfs'' u None 1000 W1_seen)"
    by (simp add: ingest_storage_def W1_seen_placement TIERS_def sample_user_def shouldSample_def W1_seen_samples tbl_all_def tbl_empty_def
        jget_nn_def num_or_null_def sample_alerts_def truthy_opt_def)
  moreover have "w\<lparr>gpu_snapshot := filter P (gpu_snapshot w)\<rparr> = w" if "gpu_snapshot w = []" for w :: "fifo world" and P
    using that by (cases w) simp
  moreover have "gpu_snapshot (insert_sample a b c d e f W1_seen) = []" for a b c d e f
    by (simp add: insert_sample_def W1_seen_def upd_node_def W1_def W0_def)
  ultimately show ?thesis
    by (simp add: ingestTelemetry_def W1_cols jget_nn_def W1_seen_def [symmetric] ingestColdStorage_def ingestScrub_def iterate_def js_iter_def
        ingest_gpu_def)
qed

text \<open>The hub on the sample database after node n1 has connected and said hello.\<close>

definition H2 :: "fifo hub" where
  "H2 = settled (on_message X0 0 (Some hello_n1) (on_connection (H0 W1)))"

lemma H2_reached: "(hub_step X0)\<^sup>*\<^sup>* (H0 W1) H2"
proof -
  have "hub_step X0 (on_connection (H0 W1)) H2"
    unfolding H2_def by (rule hub_step.message) (simp add: on_connection_def H0_def socket_ready_def)
  with hub_step.opened [of X0 "H0 W1"] show ?thesis by (meson rtranclp.rtrancl_into_rtrancl r_into_rtranclp)
qed

lemma H2_connected: "connected H2 ''n1''"
proof -
  let ?h = "upd_sock 0 (\<lambda>s. s\<lparr>sk_bucket := (99, 1000)\<rparr>) (on_connection (H0 W1))"
  have s: "socket_spend (clock (hb_world (on_connection (H0 W1)))) (sk_bucket (hb_socks (on_connection (H0 W1)) ! 0)) = (True, (99, 1000))"
    by (simp add: H0_def on_connection_def W1_cols socket_bucket_def socket_spend_def spend_def refilled_def MSG_BURST_def MSG_RATE_PER_SEC_def)
  have n: "conn_of ''n1'' ?h = None" "hb_world ?h = W1"
    by (simp_all add: conn_of_def on_connection_def H0_def upd_sock_def)
  then have r: "fst (handleHello X0 0 ''n1'' ''tok'' (Some 2) None ?h) = Some ''n1''"
    by (simp add: handleHello_def isProtocolCompatible_def PROTOCOL_VERSION_def Let_def)
  obtain g where g: "handleHello X0 0 ''n1'' ''tok'' (Some 2) None ?h = (Some ''n1'', g)" using r by (metis prod.collapse)
  obtain c where c: "conn_of ''n1'' g = Some c" using handleHello_sockets(2) [OF r] unfolding g by auto
  have "on_message X0 0 (Some hello_n1) (on_connection (H0 W1)) =
      (Inr (), upd_sock 0 (\<lambda>s. s\<lparr>sk_node := Some ''n1'', sk_hello_timer := False\<rparr>) g)"
    unfolding on_message_def s by (simp add: g)
  then show ?thesis using c by (simp add: H2_def settled_def connected_def conn_of_def)
qed

text \<open>One task queued for n1.\<close>

definition check_W1 :: "fifo world" where
  "check_W1 = enqueue X0 ''n1'' ''node.check'' (JObj []) None W1"

definition check_frame :: json where
  "check_frame = frame_json (frame_of X0 ''n1'' ''node.check'' (JObj []) None W1)"

lemma check_pending: "map (decodeFrame X0) (pending fifo_pend ''n1'' check_W1) = [Inr check_frame]"
proof -
  let ?f = "frame_of X0 ''n1'' ''node.check'' (JObj []) None W1"
  have "pending fifo_pend ''n1'' check_W1 = [frame_payload X0 (draws W1 + 1) ?f]"
    using pending_enqueue [OF X0_fifo, of "''n1''" "''n1''"] by (simp add: check_W1_def pending_def fifo_pend_def W1_def W0_def)
  moreover have "decodeFrame X0 (frame_payload X0 (draws W1 + 1) ?f) = Inr (frame_json ?f)"
    by (rule decode_frame_payload) (simp_all add: X0_json)
  ultimately show ?thesis by (simp add: check_frame_def)
qed

lemma check_authorized: "nodeStillAuthorized ''n1'' n1_hash check_W1"
  using n1_authorized by (simp add: check_W1_def nodeStillAuthorized_def node_by_name_def)

lemma check_serving: "serving (H1 Open check_W1) 0 ''n1''"
  by (simp add: serving_def check_authorized)

lemma H1_sent: "sent_on 0 (H1 r w) = []"
  by (simp add: sent_on_def H1_def mk_sock_def)

text \<open>A roster file with one new student.\<close>

definition zoe_csv :: string where
  "zoe_csv = write_csv [[''username''], [''zoe'']]"

lemma zoe_parsed: "parseCsv zoe_csv = \<lparr>csv_headers = [''username''], csv_rows = [[(''username'', ''zoe'')]]\<rparr>"
proof -
  have "trim ''username'' = ''username''" "trim ''zoe'' = ''zoe''" by code_simp+
  then show ?thesis using csv_scan_write [of "[[''username''], [''zoe'']]"] by (simp add: zoe_csv_def parseCsv_def csv_object_def)
qed

lemma zoe_roster: "read_roster [[(''username'', ''zoe'')]] =
    \<lparr>rt_invalid = [], rt_conflicts = [], rt_pi = no_pi, rt_batch = [(''zoe'', \<lparr>bs_sid = None, bs_name = None, bs_email = None, bs_line = 2\<rparr>)]\<rparr>"
  by code_simp

lemma zoe_accepted: "rp_ok (planRosterImport 1 zoe_csv W1)"
proof -
  have "getLab 1 W1 = Some (mk_lab 1 ''ai'' (Some 1))"
    by (simp add: getLab_def lab_by_id_def tbl_get_def W1_def sample_simps)
  moreover have "length zoe_csv = 19" by code_simp
  moreover have "\<exists>c. resolve W1 ''zoe'' \<lparr>bs_sid = None, bs_name = None, bs_email = None, bs_line = 2\<rparr> = Create c"
    by (simp add: resolve_def db_by_sid_def db_by_name_def tbl_get_def W1_def sample_simps keep_first_def)
  then obtain c where "resolve W1 ''zoe'' \<lparr>bs_sid = None, bs_name = None, bs_email = None, bs_line = 2\<rparr> = Create c" ..
  ultimately show ?thesis
    by (simp add: planRosterImport_def zoe_parsed zoe_roster MAX_IMPORT_BYTES_def MAX_IMPORT_ROWS_def plan_roster_def conflicts_of_def
        List.map_filter_simps Let_def)
qed

end
