(* ===== verification/Forms.thy ===== *)
theory Forms
  imports Ingest
begin

text \<open>
  What the server actions read from a form: text fields, JavaScript's \<open>Number\<close> of a text, and the quota
  amounts of src/controller/src/lib/format.ts and src/controller/src/app/(app)/labs/actions.ts. A field is
  a text or absent; uploaded files are not modelled.
\<close>

section \<open>Numbers\<close>

text \<open>
  A JavaScript number; finite ones are rationals, rounding to the nearest double is not modelled except
  for the overflow to an infinity.
\<close>

datatype js_num = NaN | PosInf | NegInf | Fin rat

definition MAX_DOUBLE_EXCLUSIVE :: rat where
  "MAX_DOUBLE_EXCLUSIVE = 2 ^ 1024 - 2 ^ 970"

definition to_num :: "rat \<Rightarrow> js_num" where
  "to_num r = (if MAX_DOUBLE_EXCLUSIVE \<le> r then PosInf else if r \<le> - MAX_DOUBLE_EXCLUSIVE then NegInf else Fin r)"

definition dec_value :: "string \<Rightarrow> nat" where
  "dec_value ds = fold (\<lambda>c v. 10 * v + (code_unit c - 48)) ds 0"

definition hex_value :: "char \<Rightarrow> nat option" where
  "hex_value c =
     (let n = code_unit c in
      if is_digit c then Some (n - 48) else if 97 \<le> n \<and> n \<le> 102 then Some (n - 87) else if 65 \<le> n \<and> n \<le> 70 then Some (n - 55) else None)"

text \<open>The digits after \<open>0x\<close>, \<open>0o\<close> and \<open>0b\<close>; at least one.\<close>

definition radix_digits :: "nat \<Rightarrow> string \<Rightarrow> rat option" where
  "radix_digits b s =
     (if s = [] \<or> (\<exists>c \<in> set s. case hex_value c of None \<Rightarrow> True | Some d \<Rightarrow> b \<le> d) then None
      else Some (of_nat (fold (\<lambda>c v. b * v + (case hex_value c of None \<Rightarrow> 0 | Some d \<Rightarrow> d)) s 0)))"

definition take_sign :: "string \<Rightarrow> bool \<times> string" where
  "take_sign s = (case s of [] \<Rightarrow> (False, []) | c # t \<Rightarrow> if c = CHR ''-'' then (True, t) else if c = CHR ''+'' then (False, t) else (False, s))"

definition exponent :: "string \<Rightarrow> rat option" where
  "exponent s =
     (case s of
        [] \<Rightarrow> Some 1
      | c # t \<Rightarrow>
          if c \<noteq> CHR ''e'' \<and> c \<noteq> CHR ''E'' then None
          else let (neg, ds) = take_sign t in
            if ds = [] \<or> \<not> list_all is_digit ds then None
            else Some (if neg then 1 / 10 ^ dec_value ds else 10 ^ dec_value ds))"

definition unsigned_decimal :: "string \<Rightarrow> rat option" where
  "unsigned_decimal s =
     (let ip = takeWhile is_digit s; r = dropWhile is_digit s;
          dot = (r \<noteq> [] \<and> hd r = CHR ''.'');
          fp = (if dot then takeWhile is_digit (tl r) else []);
          r = (if dot then dropWhile is_digit (tl r) else r)
      in if ip = [] \<and> fp = [] then None
         else map_option (\<lambda>e. of_nat (dec_value (ip @ fp)) / 10 ^ length fp * e) (exponent r))"

definition js_Number :: "string \<Rightarrow> js_num" where
  "js_Number s =
     (let t = trim s; (neg, u) = take_sign t; opt = (\<lambda>r. case r of None \<Rightarrow> NaN | Some x \<Rightarrow> to_num x) in
      if t = [] then Fin 0
      else if startsWith t ''0x'' \<or> startsWith t ''0X'' then opt (radix_digits 16 (drop 2 t))
      else if startsWith t ''0o'' \<or> startsWith t ''0O'' then opt (radix_digits 8 (drop 2 t))
      else if startsWith t ''0b'' \<or> startsWith t ''0B'' then opt (radix_digits 2 (drop 2 t))
      else if u = ''Infinity'' then (if neg then NegInf else PosInf)
      else opt (map_option (\<lambda>x. if neg then - x else x) (unsigned_decimal u)))"

text \<open>\<open>x || d\<close> on numbers, \<open>x > c\<close>, and the value in a stored JSON text.\<close>

definition num_or :: "js_num \<Rightarrow> rat \<Rightarrow> js_num" where
  "num_or x d = (if x = NaN \<or> x = Fin 0 then Fin d else x)"

definition num_gt :: "js_num \<Rightarrow> rat \<Rightarrow> bool" where
  "num_gt x c = (case x of Fin r \<Rightarrow> c < r | PosInf \<Rightarrow> True | _ \<Rightarrow> False)"

definition falsy_num :: "js_num \<Rightarrow> bool" where
  "falsy_num x = (x = NaN \<or> x = Fin 0)"

definition num_json :: "js_num \<Rightarrow> json" where
  "num_json x = (case x of Fin r \<Rightarrow> JNum r | _ \<Rightarrow> JNull)"

definition math_trunc :: "rat \<Rightarrow> int" where
  "math_trunc r = (if 0 \<le> r then \<lfloor>r\<rfloor> else \<lceil>r\<rceil>)"

text \<open>A number bound to an id column; 0 stands for every number that is no key.\<close>

definition as_id :: "js_num \<Rightarrow> nat" where
  "as_id x = (case x of Fin r \<Rightarrow> if 0 \<le> r \<and> of_int \<lfloor>r\<rfloor> = r then nat \<lfloor>r\<rfloor> else 0 | _ \<Rightarrow> 0)"

section \<open>Forms\<close>

type_synonym form = "(string \<times> string) list"

text \<open>\<open>Number(formData.get(k))\<close>: an absent field is null, whose number is 0. \<open>String(formData.get(k) ?? d)\<close>.\<close>

definition field_num :: "form \<Rightarrow> string \<Rightarrow> js_num" where
  "field_num fd k = (case map_of fd k of None \<Rightarrow> Fin 0 | Some s \<Rightarrow> js_Number s)"

definition field_str :: "form \<Rightarrow> string \<Rightarrow> string \<Rightarrow> string" where
  "field_str fd k d = (case map_of fd k of None \<Rightarrow> d | Some s \<Rightarrow> s)"

definition field_on :: "form \<Rightarrow> string \<Rightarrow> bool" where
  "field_on fd k = (map_of fd k = Some ''on'')"

definition field_trim :: "form \<Rightarrow> string \<Rightarrow> string" where
  "field_trim fd k = trim (field_str fd k [])"

definition field_name :: "form \<Rightarrow> string \<Rightarrow> string" where
  "field_name fd k = toLower (field_trim fd k)"

section \<open>Quota amounts\<close>

definition QUOTA_UNIT_BYTES :: "(string \<times> int) list" where
  "QUOTA_UNIT_BYTES = [(''MB'', 1024 ^ 2), (''GB'', 1024 ^ 3), (''TB'', 1024 ^ 4)]"

definition MAX_QUOTA_BYTES :: int where
  "MAX_QUOTA_BYTES = 100000 * TIB"

datatype form_error = QuotaTb string | QuotaUnitUnknown string | QuotaNotPositive string | QuotaTooLarge string
  | LabAndNodeRequired | LabNameRequired | UsernameRequired | InvalidNodeName | EventNotFound

definition tbToBytes :: "js_num \<Rightarrow> string \<Rightarrow> form_error + int" where
  "tbToBytes v label =
     (case v of
        Fin tb \<Rightarrow> if tb \<le> 0 \<or> 100000 < tb then Inl (QuotaTb label) else Inr (math_round (tb * of_int TIB))
      | _ \<Rightarrow> Inl (QuotaTb label))"

text \<open>
  An absent unit reads as the text ''null'', which is no unit; the names inherited from
  \<open>Object.prototype\<close> give a function, whose product with a number is NaN.
\<close>

definition amountToBytes :: "js_num \<Rightarrow> string \<Rightarrow> string \<Rightarrow> form_error + js_num" where
  "amountToBytes n unit label =
     (case map_of QUOTA_UNIT_BYTES unit of
        None \<Rightarrow>
          if unit \<in> set PROTO_NAMES then (case n of Fin x \<Rightarrow> if x \<le> 0 then Inl (QuotaNotPositive label) else Inr NaN | _ \<Rightarrow> Inl (QuotaNotPositive label))
          else Inl (QuotaUnitUnknown label)
      | Some perUnit \<Rightarrow>
          (case n of
             Fin x \<Rightarrow>
               if x \<le> 0 then Inl (QuotaNotPositive label)
               else let bytes = math_round (x * of_int perUnit) in
                 if MAX_QUOTA_BYTES < bytes then Inl (QuotaTooLarge label) else Inr (Fin (of_int bytes))
           | _ \<Rightarrow> Inl (QuotaNotPositive label)))"

text \<open>The unit and amount that pre-fill the form.\<close>

definition bytesToQuotaInput :: "rat \<Rightarrow> rat \<times> string" where
  "bytesToQuotaInput bytes =
     (let unit = (if 1024 ^ 4 \<le> bytes then ''TB'' else if 1024 ^ 3 \<le> bytes then ''GB'' else ''MB'');
          per = (case map_of QUOTA_UNIT_BYTES unit of None \<Rightarrow> 1 | Some n \<Rightarrow> of_int n)
      in (of_int (math_round (bytes / per * 1000)) / 1000, unit))"

definition pct :: "rat \<Rightarrow> rat option \<Rightarrow> int option" where
  "pct used quota = (case quota of None \<Rightarrow> None | Some q \<Rightarrow> if q \<le> 0 then None else Some (min 100 (math_round (used / q * 100))))"

text \<open>\<open>None\<close> is the dash shown for an absent or negative duration.\<close>

definition fmtDuration :: "rat option \<Rightarrow> string option" where
  "fmtDuration seconds =
     (case seconds of
        None \<Rightarrow> None
      | Some r \<Rightarrow>
          if r < 0 then None
          else let s = nat \<lfloor>r\<rfloor>; m = (s mod 3600) div 60; h = (s mod 86400) div 3600 in
            if s < 60 then Some (show_nat s @ ''s'')
            else if s < 3600 then Some (show_nat (s div 60) @ ''m'')
            else if s < 86400 then Some (show_nat (s div 3600) @ ''h'' @ (if m = 0 then [] else '' '' @ show_nat m @ ''m''))
            else Some (show_nat (s div 86400) @ ''d'' @ (if h = 0 then [] else '' '' @ show_nat h @ ''h'')))"

definition show_int :: "int \<Rightarrow> string" where
  "show_int n = (if n < 0 then ''-'' @ show_nat (nat (- n)) else show_nat (nat n))"

definition ago :: "int \<Rightarrow> rat option \<Rightarrow> string" where
  "ago now ts =
     (case ts of
        None \<Rightarrow> ''never''
      | Some t \<Rightarrow>
          if t = 0 then ''never''
          else let s = \<lfloor>(of_int now - t) / 1000\<rfloor> in
            if s < 60 then show_int s @ ''s ago''
            else if s < 3600 then show_int (s div 60) @ ''m ago''
            else if s < 86400 then show_int (s div 3600) @ ''h ago''
            else show_int (s div 86400) @ ''d ago'')"

section \<open>Facts\<close>

text \<open>A quota accepted in TB lies in the range the message states, up to the rounding of tiny amounts to 0.\<close>

lemma math_round_mono: "x \<le> y \<Longrightarrow> math_round x \<le> math_round y"
  by (simp add: math_round_def floor_mono)

lemma math_round_int [simp]: "math_round (of_int n) = n"
  by (simp add: math_round_def floor_eq_iff)

lemma tbToBytes_bounds:
  assumes "tbToBytes v label = Inr b" shows "0 \<le> b" "b \<le> MAX_QUOTA_BYTES"
proof -
  obtain tb where tb: "v = Fin tb" "0 < tb" "tb \<le> 100000" "b = math_round (tb * of_int TIB)"
    using assms by (cases v) (auto simp: tbToBytes_def split: if_splits)
  have "tb * of_int TIB \<le> of_int MAX_QUOTA_BYTES" using tb(3) by (simp add: MAX_QUOTA_BYTES_def TIB_def)
  from math_round_mono [OF this] show "b \<le> MAX_QUOTA_BYTES" unfolding tb(4) by simp
  have "(of_int 0 :: rat) \<le> tb * of_int TIB" using tb(2) by (simp add: TIB_def)
  from math_round_mono [OF this] show "0 \<le> b" unfolding tb(4) math_round_int .
qed

lemma amountToBytes_bounds:
  assumes "amountToBytes n unit label = Inr (Fin b)" shows "0 \<le> b" "b \<le> of_int MAX_QUOTA_BYTES"
proof -
  obtain x per where x: "n = Fin x" "0 < x" "map_of QUOTA_UNIT_BYTES unit = Some per" "b = of_int (math_round (x * of_int per))"
      "math_round (x * of_int per) \<le> MAX_QUOTA_BYTES"
    using assms by (cases n) (auto simp: amountToBytes_def Let_def split: option.splits if_splits)
  show "b \<le> of_int MAX_QUOTA_BYTES" using x(4,5) by simp
  have "0 < per" using x(3) by (auto simp: QUOTA_UNIT_BYTES_def split: if_splits)
  then have "(of_int 0 :: rat) \<le> x * of_int per" using x(2) by simp
  from math_round_mono [OF this] show "0 \<le> b" unfolding x(4) math_round_int by simp
qed

text \<open>The id a page writes into a hidden field is the number the action reads back.\<close>

lemma digit_not_space: "is_digit c \<Longrightarrow> \<not> js_space c"
  by (auto simp: is_digit_def js_space_def Let_def)

lemma trim_digits: "list_all is_digit s \<Longrightarrow> trim s = s"
proof -
  have drop: "dropWhile js_space t = t" if "list_all is_digit t" for t
    using that by (cases t) (auto dest: digit_not_space)
  assume "list_all is_digit s"
  with drop [of s] drop [of "rev s"] show ?thesis
    by (simp add: trim_def trimStart_def trimEnd_def list_all_rev)
qed

lemma js_Number_digits:
  assumes d: "list_all is_digit ds" and "ds \<noteq> []" and "of_nat (dec_value ds) < MAX_DOUBLE_EXCLUSIVE"
  shows "js_Number ds = Fin (of_nat (dec_value ds))"
proof -
  have sign: "take_sign ds = (False, ds)"
    using d by (cases ds) (auto simp: take_sign_def is_digit_def code_unit_def Let_def)
  have x: "\<not> startsWith ds [CHR ''0'', c]" if "\<not> is_digit c" for c
    using d that by (cases ds; cases "tl ds") auto
  have inf: "ds \<noteq> ''Infinity''" using d by (auto simp: is_digit_def code_unit_def)
  have all: "takeWhile is_digit ds = ds" "dropWhile is_digit ds = []" using d by (auto simp: list_all_iff)
  have u: "unsigned_decimal ds = Some (of_nat (dec_value ds))"
    using assms(2) by (simp add: unsigned_decimal_def exponent_def all)
  have z: "- MAX_DOUBLE_EXCLUSIVE < of_nat (dec_value ds)"
  proof -
    have "0 < MAX_DOUBLE_EXCLUSIVE" by (rule le_less_trans [OF of_nat_0_le_iff assms(3)])
    then show ?thesis by (intro less_le_trans [OF _ of_nat_0_le_iff]) simp
  qed
  have nd: "\<not> is_digit (CHR ''x'')" "\<not> is_digit (CHR ''X'')" "\<not> is_digit (CHR ''o'')" "\<not> is_digit (CHR ''O'')"
    "\<not> is_digit (CHR ''b'')" "\<not> is_digit (CHR ''B'')" by code_simp+
  show ?thesis
    using assms(2,3) z x nd by (simp add: js_Number_def trim_digits [OF d] sign inf u to_num_def)
qed

lemma dec_value_snoc: "dec_value (ds @ [c]) = 10 * dec_value ds + (code_unit c - 48)"
  by (simp add: dec_value_def)

lemma show_nat_digits: "list_all is_digit (show_nat n) \<and> show_nat n \<noteq> [] \<and> dec_value (show_nat n) = n"
proof (induction n rule: show_nat.induct)
  case (1 n)
  have c: "code_unit (char_of (k + 48)) = k + 48" if "k < 10" for k :: nat
    using that by (simp add: code_unit_def)
  show ?case
  proof (cases "n < 10")
    case True
    then show ?thesis by (simp add: show_nat.simps [of n] is_digit_def Let_def c dec_value_def)
  next
    case False
    with 1 show ?thesis by (simp add: show_nat.simps [of n] is_digit_def Let_def c dec_value_snoc)
  qed
qed

lemma js_Number_show_nat: "of_nat n < MAX_DOUBLE_EXCLUSIVE \<Longrightarrow> js_Number (show_nat n) = Fin (of_nat n)"
  using js_Number_digits [of "show_nat n"] show_nat_digits [of n] by simp

lemma as_id_show_nat: "of_nat n < MAX_DOUBLE_EXCLUSIVE \<Longrightarrow> as_id (js_Number (show_nat n)) = n"
  by (simp add: js_Number_show_nat as_id_def)

text \<open>Half a byte and less is accepted as a positive amount and stored as the quota 0.\<close>

lemma js_Number_tiny: "js_Number ''0.0000001'' = Fin (1 / 10000000)"
proof -
  have "trim ''0.0000001'' = ''0.0000001''" by code_simp
  moreover have "take_sign ''0.0000001'' = (False, ''0.0000001'')" by code_simp
  moreover have "unsigned_decimal ''0.0000001'' = Some (1 / 10000000)"
    by (simp add: unsigned_decimal_def is_digit_def code_unit_def dec_value_def exponent_def)
  ultimately show ?thesis by (simp add: js_Number_def to_num_def MAX_DOUBLE_EXCLUSIVE_def)
qed

lemma tiny_amount_is_zero: "amountToBytes (js_Number ''0.0000001'') ''MB'' label = Inr (Fin 0)"
proof -
  have "math_round (1 / 10000000 * 1048576) = 0" by (simp add: math_round_def floor_eq_iff)
  then show ?thesis by (simp add: js_Number_tiny amountToBytes_def QUOTA_UNIT_BYTES_def MAX_QUOTA_BYTES_def TIB_def)
qed

lemma pct_range: "0 \<le> used \<Longrightarrow> pct used quota = Some p \<Longrightarrow> 0 \<le> p \<and> p \<le> 100"
proof -
  assume u: "0 \<le> used" and p: "pct used quota = Some p"
  then obtain q where q: "quota = Some q" "0 < q" "p = min 100 (math_round (used / q * 100))"
    by (auto simp: pct_def split: option.splits if_splits)
  have "(of_int 0 :: rat) \<le> used / q * 100" using u q(2) by simp
  from math_round_mono [OF this] show ?thesis unfolding q(3) math_round_int by simp
qed

end
