(* ===== verification/Retention.thy ===== *)
theory Retention
  imports Forms
begin

text \<open>
  Which backups are kept (parseStamp and selectKeep of src/controller/src/lib/backup.ts), with its
  grandfather-father-son policy. The main facts: what is kept, stated without the loop; pruning after every
  backup keeps exactly what one pruning of the whole history would keep; the number of files is bounded.
\<close>

definition LATEST :: string where
  "LATEST = ''controller-latest.db''"

definition PREFIX :: string where
  "PREFIX = ''controller-''"

definition endsWith :: "string \<Rightarrow> string \<Rightarrow> bool" where
  "endsWith s p = startsWith (rev s) (rev p)"

text \<open>\<open>name.slice(PREFIX.length, -3)\<close>.\<close>

definition parseStamp :: "string \<Rightarrow> rat option" where
  "parseStamp name =
     (if \<not> startsWith name PREFIX \<or> \<not> endsWith name ''.db'' \<or> name = LATEST then None
      else case js_Number (take (length name - 3 - length PREFIX) (drop (length PREFIX) name)) of
        Fin n \<Rightarrow> if 0 < n then Some n else None
      | _ \<Rightarrow> None)"

section \<open>Calendar buckets\<close>

text \<open>The year and the month (from 0) of \<open>new Date(s)\<close> in UTC, for the instants a Date can hold.\<close>

definition civil_of_days :: "int \<Rightarrow> int \<times> int" where
  "civil_of_days days =
     (let z = days + 719468; doe = z mod 146097;
          yoe = (doe - doe div 1460 + doe div 36524 - doe div 146096) div 365;
          mp = (5 * (doe - (365 * yoe + yoe div 4 - yoe div 100)) + 2) div 153;
          y = yoe + 400 * (z div 146097)
      in (if mp < 10 then (y, mp + 2) else (y + 1, mp - 10)))"

definition MAX_DATE_MS :: rat where
  "MAX_DATE_MS = 8640000000000000"

definition date_year_month :: "rat \<Rightarrow> (int \<times> int) option" where
  "date_year_month s = (if \<bar>s\<bar> \<le> MAX_DATE_MS then Some (civil_of_days (math_trunc s div 86400000)) else None)"

definition week_bucket :: "rat \<Rightarrow> string" where
  "week_bucket s = show_int \<lfloor>s / 604800000\<rfloor>"

definition month_bucket :: "rat \<Rightarrow> string" where
  "month_bucket s = (case date_year_month s of None \<Rightarrow> ''NaN-NaN'' | Some (y, mo) \<Rightarrow> show_int y @ ''-'' @ show_int mo)"

definition year_bucket :: "rat \<Rightarrow> string" where
  "year_bucket s = (case date_year_month s of None \<Rightarrow> ''NaN'' | Some (y, mo) \<Rightarrow> show_int y)"

section \<open>Selection\<close>

record retention =
  rk_recent :: rat
  rk_weekly :: rat
  rk_monthly :: rat
  rk_yearly :: rat

text \<open>The loop over the stamps, newest first, with the buckets seen so far; it returns the stamps it adds.\<close>

fun bucket_loop :: "('a \<Rightarrow> 'b) \<Rightarrow> rat \<Rightarrow> 'b list \<Rightarrow> 'a list \<Rightarrow> 'a list" where
  "bucket_loop f count seen [] = []"
| "bucket_loop f count seen (s # ss) =
     (if f s \<in> set seen then bucket_loop f count seen ss
      else if count \<le> of_nat (length seen) then []
      else s # bucket_loop f count (f s # seen) ss)"

definition keepPerBucket :: "('a \<Rightarrow> 'b) \<Rightarrow> rat \<Rightarrow> 'a list \<Rightarrow> 'a list" where
  "keepPerBucket f count newest = (if count \<le> 0 then [] else bucket_loop f count [] newest)"

definition newest_first :: "rat list \<Rightarrow> rat list" where
  "newest_first stamps = rev (sort stamps)"

definition selectKeep :: "rat list \<Rightarrow> retention \<Rightarrow> rat list" where
  "selectKeep stamps k =
     (let newest = newest_first stamps in
      take (nat \<lceil>rk_recent k\<rceil>) newest @ keepPerBucket week_bucket (rk_weekly k) newest @
      keepPerBucket month_bucket (rk_monthly k) newest @ keepPerBucket year_bucket (rk_yearly k) newest)"

section \<open>What is kept\<close>

abbreviation newer :: "rat \<Rightarrow> rat list \<Rightarrow> rat list" where
  "newer s ss \<equiv> filter (\<lambda>t. s < t) ss"

text \<open>
  The newest of its bucket, and its bucket is among the first \<open>n\<close>; the policy on a set of stamps. The
  newest stamps are those whose own bucket is among the first.
\<close>

definition represents :: "(rat \<Rightarrow> 'b) \<Rightarrow> rat \<Rightarrow> rat set \<Rightarrow> rat \<Rightarrow> bool" where
  "represents f n S s \<longleftrightarrow> s \<in> S \<and> (\<forall>t \<in> S. f t = f s \<longrightarrow> t \<le> s) \<and> of_nat (card (f ` {t \<in> S. s < t})) < n"

definition kept :: "retention \<Rightarrow> rat set \<Rightarrow> rat \<Rightarrow> bool" where
  "kept k S s \<longleftrightarrow> represents (\<lambda>t. t) (rk_recent k) S s \<or> represents week_bucket (rk_weekly k) S s \<or>
     represents month_bucket (rk_monthly k) S s \<or> represents year_bucket (rk_yearly k) S s"

lemma bucket_loop_iff:
  fixes f :: "rat \<Rightarrow> 'b"
  assumes "sorted_wrt (\<ge>) ss" "distinct seen"
  shows "s \<in> set (bucket_loop f n seen ss) \<longleftrightarrow>
     s \<in> set ss \<and> f s \<notin> set seen \<and> (\<forall>t \<in> set ss. f t = f s \<longrightarrow> t \<le> s) \<and>
     of_nat (card (set seen \<union> f ` set (newer s ss))) < n"
  using assms
proof (induction ss arbitrary: seen)
  case (Cons x xs)
  have le: "t \<le> x" if "t \<in> set xs" for t using Cons.prems(1) that by simp
  have IH: "s \<in> set (bucket_loop f n seen' xs) \<longleftrightarrow>
     s \<in> set xs \<and> f s \<notin> set seen' \<and> (\<forall>t \<in> set xs. f t = f s \<longrightarrow> t \<le> s) \<and>
     of_nat (card (set seen' \<union> f ` set (newer s xs))) < n" if "distinct seen'" for seen'
    using Cons.IH Cons.prems(1) that by simp
  consider "f x \<in> set seen" | "f x \<notin> set seen" "n \<le> of_nat (length seen)" | "f x \<notin> set seen" "\<not> n \<le> of_nat (length seen)"
    by blast
  then show ?case
  proof cases
    case 1
    then have "set seen \<union> f ` set (newer s (x # xs)) = set seen \<union> f ` set (newer s xs)" by auto
    with 1 IH [OF Cons.prems(2)] show ?thesis by auto
  next
    case 2
    have "length seen \<le> card (set seen \<union> f ` set (newer s (x # xs)))"
      by (subst distinct_card [OF Cons.prems(2), symmetric]) (intro card_mono; simp)
    with 2 have "\<not> of_nat (card (set seen \<union> f ` set (newer s (x # xs)))) < n"
      by (meson le_less_trans not_less of_nat_le_iff order_trans)
    with 2 show ?thesis by simp
  next
    case 3
    show ?thesis
    proof (cases "s = x")
      case True
      have "newer x (x # xs) = []" using le by (auto simp: filter_empty_conv not_less)
      with True 3 le distinct_card [OF Cons.prems(2)] show ?thesis by auto
    next
      case False
      have "set (f x # seen) \<union> f ` set (newer s xs) = set seen \<union> f ` set (newer s (x # xs))" if "s < x" using that by auto
      moreover have "s < x" if "s \<in> set xs" using le [OF that] False by simp
      ultimately show ?thesis using 3 False IH [of "f x # seen"] Cons.prems(2)
        by (auto simp: not_le)
    qed
  qed
qed simp

lemma newest_first_facts:
  "sorted_wrt (\<ge>) (newest_first ss)" "set (newest_first ss) = set ss" "distinct (newest_first ss) = distinct ss"
  by (simp_all add: newest_first_def sorted_wrt_rev)

lemma keepPerBucket_iff: "s \<in> set (keepPerBucket f n (newest_first ss)) \<longleftrightarrow> represents f n (set ss) s"
proof -
  have "\<not> represents f n (set ss) s" if "n \<le> 0"
    using that by (auto simp: represents_def not_less intro: order_trans [OF _ of_nat_0_le_iff])
  then show ?thesis
    by (auto simp: keepPerBucket_def bucket_loop_iff [OF newest_first_facts(1)] newest_first_facts represents_def)
qed

lemma take_newest:
  "sorted_wrt (>) xs \<Longrightarrow> s \<in> set (take m xs) \<longleftrightarrow> s \<in> set xs \<and> card {t \<in> set xs. s < t} < m" for xs :: "rat list"
proof (induction xs arbitrary: m)
  case (Cons x xs)
  show ?case
  proof (cases m)
    case (Suc m')
    show ?thesis
    proof (cases "s = x")
      case True
      have "{t \<in> set (x # xs). s < t} = {}" using Cons.prems True by auto
      with True Suc show ?thesis by (simp only: card.empty) simp
    next
      case False
      have "card {t \<in> set (x # xs). s < t} = Suc (card {t \<in> set xs. s < t})" if "s \<in> set xs"
      proof -
        have "s < x" using Cons.prems that by simp
        then have "{t \<in> set (x # xs). s < t} = insert x {t \<in> set xs. s < t}" by auto
        moreover have "x \<notin> {t \<in> set xs. s < t}" using Cons.prems by auto
        ultimately show ?thesis by simp
      qed
      with False Suc Cons show ?thesis by auto
    qed
  qed simp
qed simp

lemma take_newest_iff:
  assumes "distinct ss"
  shows "s \<in> set (take (nat \<lceil>n\<rceil>) (newest_first ss)) \<longleftrightarrow> represents (\<lambda>t. t) n (set ss) s"
proof -
  have d: "sorted_wrt (>) (newest_first ss)"
    by (simp add: newest_first_def sorted_wrt_rev strict_sorted_iff assms)
  have "card A < nat \<lceil>n\<rceil> \<longleftrightarrow> of_nat (card A) < n" for A :: "rat set"
    by (simp add: zless_nat_eq_int_zless less_ceiling_iff)
  then show ?thesis by (simp add: take_newest [OF d] newest_first_facts represents_def)
qed

lemma selectKeep_iff: "distinct ss \<Longrightarrow> s \<in> set (selectKeep ss k) \<longleftrightarrow> kept k (set ss) s"
  by (simp add: selectKeep_def Let_def kept_def keepPerBucket_iff take_newest_iff)

section \<open>Pruning again\<close>

lemma represents_mono:
  assumes "represents f n S s" "K \<subseteq> S" "s \<in> K" "finite S"
  shows "represents f n K s"
proof -
  have "card (f ` {t \<in> K. s < t}) \<le> card (f ` {t \<in> S. s < t})"
    using assms(2,4) by (intro card_mono finite_imageI) auto
  then have "of_nat (card (f ` {t \<in> K. s < t})) < n"
    using assms(1) unfolding represents_def by (meson le_less_trans of_nat_le_iff)
  with assms(1-3) show ?thesis by (auto simp: represents_def)
qed

lemma kept_mono:
  assumes "kept k S s" "K \<subseteq> S" "s \<in> K" "finite S"
  shows "kept k K s"
  using assms(1) unfolding kept_def by (elim disjE) (simp_all add: represents_mono [OF _ assms(2-4)])

text \<open>A set that keeps the representatives has as many buckets above every instant, up to the limit.\<close>

lemma newest_of_bucket:
  fixes u :: rat
  assumes "finite S" "u \<in> S"
  obtains t where "t \<in> S" "f t = f u" "u \<le> t" "\<forall>v \<in> S. f v = f t \<longrightarrow> v \<le> t"
proof -
  define m where "m = Max {v \<in> S. f v = f u}"
  have m: "m \<in> {v \<in> S. f v = f u}" unfolding m_def by (rule Max_in) (use assms in auto)
  have ge: "v \<le> m" if "v \<in> S" "f v = f u" for v
    unfolding m_def by (rule Max_ge) (use that assms(1) in auto)
  show ?thesis
  proof (rule that [of m])
    show "m \<in> S" "f m = f u" using m by simp_all
    show "u \<le> m" using ge assms(2) by blast
    show "\<forall>v \<in> S. f v = f m \<longrightarrow> v \<le> m" using ge \<open>f m = f u\<close> by simp
  qed
qed

lemma buckets_above:
  fixes S :: "rat set"
  assumes "finite S" "K \<subseteq> S" "\<And>t. represents f n S t \<Longrightarrow> t \<in> K"
  shows "n \<le> of_nat (card (f ` {u \<in> S. x < u})) \<Longrightarrow> n \<le> of_nat (card (f ` {u \<in> K. x < u}))"
proof (induction "card {u \<in> S. x < u}" arbitrary: x rule: less_induct)
  case less
  show ?case
  proof (cases "f ` {u \<in> S. x < u} \<subseteq> f ` {u \<in> K. x < u}")
    case True
    then have "card (f ` {u \<in> S. x < u}) \<le> card (f ` {u \<in> K. x < u})"
      using finite_subset [OF assms(2,1)] by (intro card_mono) simp_all
    with less.prems show ?thesis by (meson of_nat_le_iff order_trans)
  next
    case False
    then obtain u where u: "u \<in> S" "x < u" "f u \<notin> f ` {u \<in> K. x < u}" by auto
    obtain t where t: "t \<in> S" "f t = f u" "u \<le> t" "\<forall>v \<in> S. f v = f t \<longrightarrow> v \<le> t"
      by (rule newest_of_bucket [OF assms(1) u(1)])
    have "t \<notin> K"
    proof
      assume "t \<in> K"
      then have "f t \<in> f ` {u \<in> K. x < u}" using t(3) u(2) by auto
      with u(3) t(2) show False by simp
    qed
    then have "\<not> represents f n S t" using assms(3) by blast
    with t(1,4) have le: "n \<le> of_nat (card (f ` {u \<in> S. t < u}))" by (auto simp: represents_def not_less)
    have xt: "x < t" using t(3) u(2) by simp
    have "{u \<in> S. t < u} \<subset> {u \<in> S. x < u}" using t(1) xt by auto
    then have "card {u \<in> S. t < u} < card {u \<in> S. x < u}" using assms(1) by (intro psubset_card_mono) auto
    from less.hyps [OF this le] have "n \<le> of_nat (card (f ` {u \<in> K. t < u}))" .
    moreover have "card (f ` {u \<in> K. t < u}) \<le> card (f ` {u \<in> K. x < u})"
      using finite_subset [OF assms(2,1)] xt by (intro card_mono finite_imageI image_mono) auto
    ultimately show ?thesis by (meson of_nat_le_iff order_trans)
  qed
qed

lemma represents_absorb:
  fixes S :: "rat set"
  assumes "finite S" "K \<subseteq> S" "\<And>t. represents f n S t \<Longrightarrow> t \<in> K"
  shows "represents f n K s \<longleftrightarrow> represents f n S s"
proof
  assume "represents f n S s"
  with assms show "represents f n K s" by (blast intro: represents_mono)
next
  assume r: "represents f n K s"
  then have s: "s \<in> S" "\<not> n \<le> of_nat (card (f ` {u \<in> K. s < u}))" using assms(2) by (auto simp: represents_def)
  have few: "\<not> n \<le> of_nat (card (f ` {u \<in> S. s < u}))"
    using s(2) buckets_above [OF assms] by blast
  have "t \<le> s" if t: "t \<in> S" "f t = f s" for t
  proof (rule ccontr)
    assume "\<not> t \<le> s"
    obtain m where m: "m \<in> S" "f m = f t" "t \<le> m" "\<forall>v \<in> S. f v = f m \<longrightarrow> v \<le> m"
      by (rule newest_of_bucket [OF assms(1) t(1)])
    then have "m \<notin> K" using r t(2) \<open>\<not> t \<le> s\<close> by (auto simp: represents_def)
    then have "\<not> represents f n S m" using assms(3) by blast
    then have "n \<le> of_nat (card (f ` {u \<in> S. m < u}))"
      using m(1,4) by (auto simp: represents_def not_less)
    moreover have "card (f ` {u \<in> S. m < u}) \<le> card (f ` {u \<in> S. s < u})"
      using assms(1) m(3) \<open>\<not> t \<le> s\<close> by (intro card_mono finite_imageI image_mono) auto
    ultimately show False using few by (meson of_nat_le_iff order_trans)
  qed
  with s(1) few show "represents f n S s" by (auto simp: represents_def not_le)
qed

lemma kept_absorb:
  assumes "finite S" "K \<subseteq> S" "\<And>t. kept k S t \<Longrightarrow> t \<in> K"
  shows "kept k K s \<longleftrightarrow> kept k S s"
  using assms(3) unfolding kept_def by (simp add: represents_absorb [OF assms(1,2)])

text \<open>What a pruning leaves of the stamps of a collection.\<close>

definition retained :: "retention \<Rightarrow> rat list \<Rightarrow> rat list" where
  "retained k ss = filter (\<lambda>s. s \<in> set (selectKeep ss k)) ss"

lemma retained_kept: "distinct ss \<Longrightarrow> retained k ss = filter (kept k (set ss)) ss"
  by (simp add: retained_def selectKeep_iff)

lemma retained_step:
  assumes "distinct (ss @ [n])"
  shows "retained k (retained k ss @ [n]) = retained k (ss @ [n])"
proof -
  let ?S = "set (ss @ [n])" and ?K = "set (retained k ss @ [n])"
  have d: "distinct ss" "distinct (retained k ss @ [n])" using assms by (auto simp: retained_def)
  have mono: "kept k (set ss) s" if "kept k ?S s" "s \<in> set ss" for s
    using that by (intro kept_mono [OF that(1)]) auto
  have in_K: "t \<in> ?K" if "kept k ?S t" for t
  proof -
    have "t \<in> ?S" using that by (auto simp: kept_def represents_def)
    with mono [OF that] show ?thesis by (auto simp: retained_kept [OF d(1)])
  qed
  have K: "kept k ?K = kept k ?S"
    by (intro ext kept_absorb in_K) (auto simp: retained_def)
  have "filter (kept k ?S) (retained k ss) = filter (kept k ?S) ss"
    unfolding retained_kept [OF d(1)] filter_filter using mono by (intro filter_cong) auto
  then show ?thesis unfolding retained_kept [OF d(2)] retained_kept [OF assms] K by simp
qed

lemma retained_fold: "distinct ss \<Longrightarrow> foldl (\<lambda>K n. retained k (K @ [n])) [] ss = retained k ss"
proof (induction ss rule: rev_induct)
  case (snoc n ss)
  then show ?case using retained_step [OF snoc.prems, of k] by simp
qed (simp add: retained_def)

lemma bucket_loop_length: "length (bucket_loop f n seen ss) \<le> nat \<lceil>n\<rceil> - length seen"
proof (induction ss arbitrary: seen)
  case (Cons s ss)
  show ?case
  proof (cases "f s \<in> set seen \<or> n \<le> of_nat (length seen)")
    case True
    then show ?thesis using Cons.IH [of seen] by auto
  next
    case False
    then have "int (length seen) < \<lceil>n\<rceil>" by (simp add: less_ceiling_iff)
    with False Cons.IH [of "f s # seen"] show ?thesis by auto
  qed
qed simp

definition quota_sum :: "retention \<Rightarrow> nat" where
  "quota_sum k = nat \<lceil>rk_recent k\<rceil> + nat \<lceil>rk_weekly k\<rceil> + nat \<lceil>rk_monthly k\<rceil> + nat \<lceil>rk_yearly k\<rceil>"

lemma selectKeep_length: "length (selectKeep ss k) \<le> quota_sum k"
proof -
  have b: "length (keepPerBucket f n xs) \<le> nat \<lceil>n\<rceil>" for f :: "rat \<Rightarrow> string" and n xs
    using bucket_loop_length [of f n "[]" xs] by (simp add: keepPerBucket_def)
  show ?thesis
    using b [of week_bucket "rk_weekly k" "newest_first ss"] b [of month_bucket "rk_monthly k" "newest_first ss"]
      b [of year_bucket "rk_yearly k" "newest_first ss"]
    by (simp add: selectKeep_def Let_def quota_sum_def)
qed

lemma retained_bound: "distinct ss \<Longrightarrow> length (retained k ss) \<le> quota_sum k"
proof -
  assume d: "distinct ss"
  have "length (retained k ss) = card (set (retained k ss))" by (rule distinct_card [symmetric]) (simp add: retained_def d)
  also have "\<dots> \<le> card (set (selectKeep ss k))" by (intro card_mono) (auto simp: retained_def)
  also have "\<dots> \<le> length (selectKeep ss k)" by (rule card_length)
  finally show ?thesis using selectKeep_length [of ss k] by simp
qed

lemma newest_retained:
  assumes "distinct ss" "s \<in> set ss" "\<forall>t \<in> set ss. t \<le> s" "0 < rk_recent k \<or> 0 < rk_weekly k \<or> 0 < rk_monthly k \<or> 0 < rk_yearly k"
  shows "s \<in> set (retained k ss)"
proof -
  have "{t \<in> set ss. s < t} = {}" using assms(3) by auto
  then show ?thesis using assms by (auto simp: retained_kept kept_def represents_def simp del: Collect_empty_eq)
qed

section \<open>Names\<close>

lemma startsWith_app: "startsWith (p @ s) p"
  by (induction p) auto

lemma parseStamp_name:
  assumes "0 < n" "of_nat n < MAX_DOUBLE_EXCLUSIVE"
  shows "parseStamp (PREFIX @ show_nat n @ ''.db'') = Some (of_nat n)"
proof -
  have "endsWith (PREFIX @ show_nat n @ ''.db'') ''.db''"
    using startsWith_app [of "rev ''.db''"] by (simp add: endsWith_def)
  moreover have "PREFIX @ show_nat n @ ''.db'' \<noteq> LATEST"
  proof
    assume "PREFIX @ show_nat n @ ''.db'' = LATEST"
    then have "hd (show_nat n @ ''.db'') = CHR ''l''" by (simp add: PREFIX_def LATEST_def)
    with show_nat_digits [of n] show False by (cases "show_nat n") (auto simp: is_digit_def code_unit_def)
  qed
  ultimately show ?thesis using assms
    by (simp add: parseStamp_def startsWith_app js_Number_show_nat)
qed

lemma parseStamp_latest: "parseStamp LATEST = None"
  by (simp add: parseStamp_def)

end
