(* ===== verification/Webdav.thy ===== *)
theory Webdav
  imports Retention
begin

text \<open>
  The WebDAV client of the backups (src/controller/src/lib/webdav.ts) over the HTTP client of the platform:
  \<open>fetch\<close> is a parameter, from a request to an error or a response and the state of the network. Bodies
  are strings of bytes. The scanner of a listing is the regular expression of the code; an escaped name
  outside Latin-1 is beyond the strings of the model.
\<close>

record webdav_config =
  wd_url :: string
  wd_user :: string
  wd_pass :: string

record http_request =
  rq_method :: string
  rq_url :: string
  rq_headers :: "(string \<times> string) list"
  rq_body :: "string option"

record http_response =
  rs_status :: nat
  rs_statusText :: string
  rs_text :: string

record 's net =
  fetch :: "http_request \<Rightarrow> 's \<Rightarrow> (string + http_response) \<times> 's"
  url_parts :: "string \<Rightarrow> (string \<times> string) option"

definition authHeader :: "webdav_config \<Rightarrow> (string \<times> string) list" where
  "authHeader cfg =
     (if wd_user cfg = [] then []
      else [(''Authorization'', ''Basic '' @ b64_encode (wd_user cfg @ '':'' @ wd_pass cfg))])"

definition rs_ok :: "http_response \<Rightarrow> bool" where
  "rs_ok r = (200 \<le> rs_status r \<and> rs_status r \<le> 299)"

text \<open>The loop over the segments of the path; a failed request is ignored, as its status is.\<close>

fun mkcol_loop :: "'s net \<Rightarrow> webdav_config \<Rightarrow> string \<Rightarrow> string \<Rightarrow> string list \<Rightarrow> 's \<Rightarrow> 's" where
  "mkcol_loop N cfg origin path [] s = s"
| "mkcol_loop N cfg origin path (seg # segs) s =
     (let path = path @ ''/'' @ seg;
          s = snd (fetch N \<lparr>rq_method = ''MKCOL'', rq_url = origin @ path, rq_headers = authHeader cfg, rq_body = None\<rparr> s)
      in mkcol_loop N cfg origin path segs s)"

definition ensureCollection :: "'s net \<Rightarrow> webdav_config \<Rightarrow> 's \<Rightarrow> 's" where
  "ensureCollection N cfg s =
     (case url_parts N (wd_url cfg) of
        None \<Rightarrow> s
      | Some (origin, pathname) \<Rightarrow> mkcol_loop N cfg origin [] (filter (\<lambda>x. x \<noteq> []) (splitOn (CHR ''/'') pathname)) s)"

definition dav_put :: "'s net \<Rightarrow> webdav_config \<Rightarrow> string \<Rightarrow> string \<Rightarrow> 's \<Rightarrow> (string + unit) \<times> 's" where
  "dav_put N cfg name data s =
     (case fetch N \<lparr>rq_method = ''PUT'', rq_url = wd_url cfg @ ''/'' @ name,
            rq_headers = authHeader cfg @ [(''Content-Type'', ''application/octet-stream'')], rq_body = Some data\<rparr> s of
        (Inl e, s) \<Rightarrow> (Inl e, s)
      | (Inr r, s) \<Rightarrow>
          if \<not> rs_ok r then (Inl (''WebDAV PUT '' @ name @ '' failed: '' @ show_nat (rs_status r) @ '' '' @ rs_statusText r), s)
          else (Inr (), s))"

definition dav_get :: "'s net \<Rightarrow> webdav_config \<Rightarrow> string \<Rightarrow> 's \<Rightarrow> (string + string) \<times> 's" where
  "dav_get N cfg name s =
     (case fetch N \<lparr>rq_method = ''GET'', rq_url = wd_url cfg @ ''/'' @ name, rq_headers = authHeader cfg, rq_body = None\<rparr> s of
        (Inl e, s) \<Rightarrow> (Inl e, s)
      | (Inr r, s) \<Rightarrow>
          if \<not> rs_ok r then (Inl (''WebDAV GET '' @ name @ '' failed: '' @ show_nat (rs_status r)), s) else (Inr (rs_text r), s))"

definition dav_del :: "'s net \<Rightarrow> webdav_config \<Rightarrow> string \<Rightarrow> 's \<Rightarrow> (string + unit) \<times> 's" where
  "dav_del N cfg name s =
     (case fetch N \<lparr>rq_method = ''DELETE'', rq_url = wd_url cfg @ ''/'' @ name, rq_headers = authHeader cfg, rq_body = None\<rparr> s of
        (Inl e, s) \<Rightarrow> (Inl e, s) | (Inr r, s) \<Rightarrow> (Inr (), s))"

section \<open>Listings\<close>

text \<open>What is between \<open><\<close> and \<open>>\<close>: \<open>[a-z]*:?href\<close>, the case ignored.\<close>

definition href_tag :: "string \<Rightarrow> bool" where
  "href_tag t =
     (let l = toLower t; p = take (length l - 4) l; q = (if p \<noteq> [] \<and> last p = CHR '':'' then butlast p else p)
      in endsWith l ''href'' \<and> list_all is_az q)"

text \<open>The match of \<open>/<[a-z]*:?href>([^<]+)<\/[a-z]*:?href>/i\<close> at the head: its group and what follows.\<close>

definition href_match :: "string \<Rightarrow> (string \<times> string) option" where
  "href_match s =
     (case s of
        [] \<Rightarrow> None
      | c # s1 \<Rightarrow>
          let tag = takeWhile (\<lambda>x. x \<noteq> CHR ''>'') s1; r1 = dropWhile (\<lambda>x. x \<noteq> CHR ''>'') s1;
              val = takeWhile (\<lambda>x. x \<noteq> CHR ''<'') (tl r1); r2 = dropWhile (\<lambda>x. x \<noteq> CHR ''<'') (tl r1);
              tag2 = takeWhile (\<lambda>x. x \<noteq> CHR ''>'') (drop 2 r2); r3 = dropWhile (\<lambda>x. x \<noteq> CHR ''>'') (drop 2 r2)
          in if c = CHR ''<'' \<and> r1 \<noteq> [] \<and> href_tag tag \<and> val \<noteq> [] \<and> startsWith r2 ''</'' \<and> r3 \<noteq> [] \<and> href_tag tag2
             then Some (val, tl r3) else None)"

lemma href_match_shorter: "href_match s = Some (v, r) \<Longrightarrow> length r < length s"
proof -
  assume m: "href_match s = Some (v, r)"
  then obtain c s1 where s: "s = c # s1" by (auto simp: href_match_def split: list.splits)
  define r1 where "r1 = dropWhile (\<lambda>x. x \<noteq> CHR ''>'') s1"
  define r2 where "r2 = dropWhile (\<lambda>x. x \<noteq> CHR ''<'') (tl r1)"
  define r3 where "r3 = dropWhile (\<lambda>x. x \<noteq> CHR ''>'') (drop 2 r2)"
  have "length r1 \<le> length s1" "length r2 \<le> length (tl r1)" "length r3 \<le> length (drop 2 r2)"
    unfolding r1_def r2_def r3_def by (rule length_dropWhile_le)+
  moreover have "r = tl r3"
    using m s by (auto simp: href_match_def Let_def r1_def r2_def r3_def split: if_splits)
  ultimately have "length r \<le> length s1" by simp
  with s show ?thesis by simp
qed

function hrefs :: "string \<Rightarrow> string list" where
  "hrefs s =
     (case href_match s of
        Some (v, r) \<Rightarrow> v # hrefs r
      | None \<Rightarrow> (case s of [] \<Rightarrow> [] | c # t \<Rightarrow> hrefs t))"
  by auto

termination hrefs
  by (relation "measure length") (auto dest: href_match_shorter)

declare hrefs.simps [simp del]

text \<open>
  \<open>decodeURIComponent\<close>: the bytes of the escapes are UTF-8; an escape that is malformed, or that names a
  character outside Latin-1, has no value here.
\<close>

definition hex_pair :: "char \<Rightarrow> char \<Rightarrow> nat option" where
  "hex_pair a b = (case (hex_value a, hex_value b) of (Some x, Some y) \<Rightarrow> Some (16 * x + y) | _ \<Rightarrow> None)"

fun decode_uri :: "string \<Rightarrow> string option" where
  "decode_uri [] = Some []"
| "decode_uri (c # s) =
     (if c \<noteq> CHR ''%'' then map_option (Cons c) (decode_uri s)
      else case s of
        a # b # t \<Rightarrow>
          (case hex_pair a b of
             None \<Rightarrow> None
           | Some n \<Rightarrow>
               if n < 128 then map_option (Cons (char_of n)) (decode_uri t)
               else if n = 194 \<or> n = 195
               then (case t of
                       d # e # f # u \<Rightarrow>
                         (case hex_pair e f of
                            Some m \<Rightarrow> if d = CHR ''%'' \<and> 128 \<le> m \<and> m < 192
                                      then map_option (Cons (char_of (64 * (n - 192) + (m - 128)))) (decode_uri u) else None
                          | None \<Rightarrow> None)
                     | _ \<Rightarrow> None)
               else None)
      | _ \<Rightarrow> None)"

text \<open>\<open>h.replace(/\/$/, "").split("/").pop()\<close>; the names of the entries, the collection itself left out.\<close>

definition last_segment :: "string \<Rightarrow> string" where
  "last_segment h = last (splitOn (CHR ''/'') (if h \<noteq> [] \<and> last h = CHR ''/'' then butlast h else h))"

definition dav_names :: "webdav_config \<Rightarrow> string \<Rightarrow> (string + string list)" where
  "dav_names cfg xml =
     (let hs = map decode_uri (hrefs xml) in
      if None \<in> set hs then Inl ''URI malformed''
      else Inr (filter (\<lambda>b. b \<noteq> [] \<and> \<not> endsWith (wd_url cfg) b) (map (\<lambda>h. last_segment (the h)) hs)))"

definition dq :: "string \<Rightarrow> string" where
  "dq s = [CHR 0x22] @ s @ [CHR 0x22]"

definition listStrict :: "'s net \<Rightarrow> webdav_config \<Rightarrow> 's \<Rightarrow> (string + string list) \<times> 's" where
  "listStrict N cfg s =
     (case fetch N \<lparr>rq_method = ''PROPFIND'', rq_url = wd_url cfg,
            rq_headers = authHeader cfg @ [(''Depth'', ''1''), (''Content-Type'', ''application/xml'')],
            rq_body = Some (''<?xml version='' @ dq ''1.0'' @ ''?><d:propfind xmlns:d='' @ dq ''DAV:'' @
              ''><d:prop><d:displayname/></d:prop></d:propfind>'')\<rparr> s of
        (Inl e, s) \<Rightarrow> (Inl e, s)
      | (Inr r, s) \<Rightarrow>
          if \<not> rs_ok r then (Inl (''WebDAV PROPFIND failed: '' @ show_nat (rs_status r) @ '' '' @ rs_statusText r), s)
          else (dav_names cfg (rs_text r), s))"

definition dav_list :: "'s net \<Rightarrow> webdav_config \<Rightarrow> 's \<Rightarrow> string list \<times> 's" where
  "dav_list N cfg s = (case listStrict N cfg s of (Inl e, s) \<Rightarrow> ([], s) | (Inr ns, s) \<Rightarrow> (ns, s))"

end
