(* ===== verification/Backup.thy ===== *)
theory Backup
  imports Webdav Maintenance
begin

text \<open>
  Backup and restore of the controller database (src/controller/src/lib/backup.ts, backupcrypto.ts, and
  webdavConfig of settings.ts). A run is taken as one step: other steps of the controller that come between its
  requests are not modelled. The snapshot of SQLite (VACUUM INTO) is a parameter, as the network is; the file
  staged for the next start is a field of the state.
\<close>

record ('h, 's) backup_ext =
  bx_net :: "'s net"
  bx_key :: string
  bx_prod :: bool
  bx_snapshot :: "'h world \<Rightarrow> string"

record ('h, 's) site =
  st_world :: "'h world"
  st_remote :: 's
  st_staged :: "string option"

section \<open>Encryption\<close>

text \<open>\<open>LMBK1\0\<close>.\<close>

definition MAGIC :: string where
  "MAGIC = ''LMBK1'' @ [CHR 0x00]"

definition IV_LEN :: nat where
  "IV_LEN = 12"

definition TAG_LEN :: nat where
  "TAG_LEN = 16"

definition backup_key :: "'h ext \<Rightarrow> ('h, 's) backup_ext \<Rightarrow> string" where
  "backup_key X B = scrypt X (bx_key B) ''lab-manager:backup:v1''"

definition backupEncryptionEnabled :: "('h, 's) backup_ext \<Rightarrow> bool" where
  "backupEncryptionEnabled B = (bx_key B \<noteq> [])"

definition maybeEncryptBackup :: "'h ext \<Rightarrow> ('h, 's) backup_ext \<Rightarrow> nat \<Rightarrow> string \<Rightarrow> string" where
  "maybeEncryptBackup X B k plain =
     (if \<not> backupEncryptionEnabled B then plain
      else let iv = rand_bytes X k IV_LEN; (ct, tag) = gcm_encrypt X (backup_key X B) iv plain in MAGIC @ iv @ tag @ ct)"

definition isEncryptedBackup :: "string \<Rightarrow> bool" where
  "isEncryptedBackup data = (length MAGIC \<le> length data \<and> take (length MAGIC) data = MAGIC)"

definition decryptBackup :: "'h ext \<Rightarrow> ('h, 's) backup_ext \<Rightarrow> string \<Rightarrow> string + string" where
  "decryptBackup X B data =
     (if \<not> isEncryptedBackup data then Inr data
      else if \<not> backupEncryptionEnabled B then Inl ''backup is encrypted but BACKUP_KEY is not set''
      else let m = length MAGIC; iv = take IV_LEN (drop m data); tag = take TAG_LEN (drop (m + IV_LEN) data);
             ct = drop (m + IV_LEN + TAG_LEN) data
           in case gcm_decrypt X (backup_key X B) iv tag ct of
                None \<Rightarrow> Inl ''Unsupported state or unable to authenticate data''
              | Some plain \<Rightarrow> Inr plain)"

section \<open>Configuration\<close>

definition strip_end :: "string \<Rightarrow> string" where
  "strip_end s = rev (dropWhile (\<lambda>c. c = CHR ''/'') (rev s))"

definition strip_start :: "string \<Rightarrow> string" where
  "strip_start s = dropWhile (\<lambda>c. c = CHR ''/'') s"

definition isWebdavConfigured :: "'h ext \<Rightarrow> 'h world \<Rightarrow> bool" where
  "isWebdavConfigured X w = (trim (setting_str X ''webdavUrl'' w) \<noteq> [])"

definition backupEnv :: "('h, 's) backup_ext \<Rightarrow> string" where
  "backupEnv B = (if bx_prod B then ''prod'' else ''dev'')"

definition join_slash :: "string list \<Rightarrow> string" where
  "join_slash xs = (case xs of [] \<Rightarrow> [] | y # ys \<Rightarrow> y @ concat (map (\<lambda>z. ''/'' @ z) ys))"

definition webdavConfig :: "'h ext \<Rightarrow> ('h, 's) backup_ext \<Rightarrow> 'h world \<Rightarrow> webdav_config" where
  "webdavConfig X B w =
     (let root = strip_end (trim (setting_str X ''webdavUrl'' w));
          base = strip_end (strip_start (trim (setting_str X ''webdavBaseDir'' w)))
      in \<lparr>wd_url = join_slash (filter (\<lambda>x. x \<noteq> []) [root, base, backupEnv B]),
          wd_user = setting_str X ''webdavUser'' w, wd_pass = setting_str X ''webdavPass'' w\<rparr>)"

section \<open>Backup\<close>

text \<open>A successful run: the name and the size; a failed run: its message.\<close>

type_synonym backup_result = "string + (string \<times> nat)"

record backup_entry =
  be_name :: string
  be_stamp :: rat

definition backup_entries :: "string list \<Rightarrow> backup_entry list" where
  "backup_entries ns = List.map_filter (\<lambda>n. map_option (\<lambda>t. \<lparr>be_name = n, be_stamp = t\<rparr>) (parseStamp n)) ns"

definition retention_of :: "'h ext \<Rightarrow> 'h world \<Rightarrow> retention" where
  "retention_of X w = \<lparr>rk_recent = setting_num X ''backupKeepRecent'' w, rk_weekly = setting_num X ''backupKeepWeekly'' w,
     rk_monthly = setting_num X ''backupKeepMonthly'' w, rk_yearly = setting_num X ''backupKeepYearly'' w\<rparr>"

fun del_loop :: "'s net \<Rightarrow> webdav_config \<Rightarrow> rat list \<Rightarrow> backup_entry list \<Rightarrow> 's \<Rightarrow> (string + unit) \<times> 's" where
  "del_loop N cfg keep [] s = (Inr (), s)"
| "del_loop N cfg keep (e # es) s =
     (if be_stamp e \<in> set keep then del_loop N cfg keep es s
      else case dav_del N cfg (be_name e) s of
        (Inl m, s) \<Rightarrow> (Inl m, s)
      | (Inr _, s) \<Rightarrow> del_loop N cfg keep es s)"

definition pruneBackups :: "'h ext \<Rightarrow> ('h, 's) backup_ext \<Rightarrow> 'h world \<Rightarrow> 's \<Rightarrow> (string + unit) \<times> 's" where
  "pruneBackups X B w s =
     (let cfg = webdavConfig X B w; (ns, s) = dav_list (bx_net B) cfg s; es = backup_entries ns
      in del_loop (bx_net B) cfg (selectKeep (map be_stamp es) (retention_of X w)) es s)"

definition backup_name :: "int \<Rightarrow> string" where
  "backup_name stamp = PREFIX @ show_int stamp @ ''.db''"

definition backupNow :: "'h ext \<Rightarrow> ('h, 's) backup_ext \<Rightarrow> int \<Rightarrow> ('h, 's) site \<Rightarrow> backup_result \<times> ('h, 's) site" where
  "backupNow X B stamp st =
     (let w = st_world st in
      if \<not> isWebdavConfigured X w then (Inl ''WebDAV not configured'', st)
      else
        let cfg = webdavConfig X B w; N = bx_net B; s = ensureCollection N cfg (st_remote st);
            data = maybeEncryptBackup X B (draws w) (bx_snapshot B w);
            w = (if backupEncryptionEnabled B then w\<lparr>draws := draws w + 1\<rparr> else w);
            name = backup_name stamp; done = (\<lambda>r s. (r, st\<lparr>st_world := w, st_remote := s\<rparr>))
        in case dav_put N cfg name data s of
             (Inl e, s) \<Rightarrow> done (Inl e) s
           | (Inr _, s) \<Rightarrow>
               (case dav_put N cfg LATEST data s of
                  (Inl e, s) \<Rightarrow> done (Inl e) s
                | (Inr _, s) \<Rightarrow>
                    (case pruneBackups X B w s of
                       (Inl e, s) \<Rightarrow> done (Inl e) s
                     | (Inr _, s) \<Rightarrow> done (Inr (name, length data)) s)))"

definition put_set :: "'h ext \<Rightarrow> string \<Rightarrow> json \<Rightarrow> 'h world \<Rightarrow> 'h world" where
  "put_set X k v w = snd (setSetting X k v w)"

definition recordRun :: "'h ext \<Rightarrow> int \<Rightarrow> backup_result \<Rightarrow> 'h world \<Rightarrow> 'h world" where
  "recordRun X stamp r w =
     (let w = put_set X ''backupLastRun'' (j_int stamp) w in
      case r of
        Inl e \<Rightarrow> put_set X ''backupLastError'' (JStr e) (put_set X ''backupLastStatus'' (JStr ''failed'') w)
      | Inr (name, n) \<Rightarrow>
          put_set X ''backupLastName'' (JStr name)
            (put_set X ''backupLastError'' (JStr []) (put_set X ''backupLastStatus'' (JStr ''ok'') w)))"

definition backupAll :: "'h ext \<Rightarrow> ('h, 's) backup_ext \<Rightarrow> int \<Rightarrow> ('h, 's) site \<Rightarrow> backup_result \<times> ('h, 's) site" where
  "backupAll X B stamp st =
     (case backupNow X B stamp st of (r, st) \<Rightarrow> (r, st\<lparr>st_world := recordRun X stamp r (st_world st)\<rparr>))"

section \<open>Listing and restore\<close>

definition by_age :: "backup_entry list \<Rightarrow> backup_entry list" where
  "by_age es = sort_key (\<lambda>e. - be_stamp e) es"

definition listBackups :: "'h ext \<Rightarrow> ('h, 's) backup_ext \<Rightarrow> 'h world \<Rightarrow> 's \<Rightarrow> backup_entry list \<times> 's" where
  "listBackups X B w s =
     (if \<not> isWebdavConfigured X w then ([], s)
      else case dav_list (bx_net B) (webdavConfig X B w) s of (ns, s) \<Rightarrow> (by_age (backup_entries ns), s))"

text \<open>\<open>webdavStatus\<close>: \<open>None\<close> when not configured, else the error or the backups.\<close>

definition webdavStatus :: "'h ext \<Rightarrow> ('h, 's) backup_ext \<Rightarrow> 'h world \<Rightarrow> 's \<Rightarrow> (string + backup_entry list) option \<times> 's" where
  "webdavStatus X B w s =
     (if \<not> isWebdavConfigured X w then (None, s)
      else case listStrict (bx_net B) (webdavConfig X B w) s of
        (Inl e, s) \<Rightarrow> (Some (Inl e), s)
      | (Inr ns, s) \<Rightarrow> (Some (Inr (by_age (backup_entries ns))), s))"

definition testConnection :: "'h ext \<Rightarrow> ('h, 's) backup_ext \<Rightarrow> 'h world \<Rightarrow> 's \<Rightarrow> (string + unit) \<times> 's" where
  "testConnection X B w s =
     (if \<not> isWebdavConfigured X w then (Inl ''WebDAV not configured'', s)
      else let cfg = webdavConfig X B w; N = bx_net B; s = ensureCollection N cfg s in
        case dav_put N cfg ''.labmgr-probe'' ''ok'' s of
          (Inl e, s) \<Rightarrow> (Inl e, s)
        | (Inr _, s) \<Rightarrow> dav_del N cfg ''.labmgr-probe'' s)"

text \<open>\<open>basename\<close> of node:path.\<close>

definition basename :: "string \<Rightarrow> string" where
  "basename p = last (splitOn (CHR ''/'') (strip_end p))"

definition stageRestore :: "'h ext \<Rightarrow> ('h, 's) backup_ext \<Rightarrow> string \<Rightarrow> ('h, 's) site \<Rightarrow> (string + unit) \<times> ('h, 's) site" where
  "stageRestore X B name st =
     (let w = st_world st in
      if \<not> isWebdavConfigured X w then (Inl ''WebDAV not configured'', st)
      else let safe = basename name; (known, s) = listBackups X B w (st_remote st); st = st\<lparr>st_remote := s\<rparr> in
      if \<not> (\<exists>e \<in> set known. be_name e = safe) then (Inl ''Unknown backup name'', st)
      else case dav_get (bx_net B) (webdavConfig X B w) safe s of
        (Inl e, s) \<Rightarrow> (Inl e, st\<lparr>st_remote := s\<rparr>)
      | (Inr data, s) \<Rightarrow>
          (case decryptBackup X B data of
             Inl e \<Rightarrow> (Inl e, st\<lparr>st_remote := s\<rparr>)
           | Inr plain \<Rightarrow> (Inr (), st\<lparr>st_remote := s, st_staged := Some plain\<rparr>)))"

end
