(* ===== verification/Backup_Facts.thy ===== *)
theory Backup_Facts
  imports Backup
begin

text \<open>
  A backup that was reported as made can be restored: the envelope, the collection on a server that keeps
  what it is given, the retention and the whitelist of names composed.
\<close>

section \<open>The server\<close>

definition plain_name :: "string \<Rightarrow> bool" where
  "plain_name n \<longleftrightarrow> n \<noteq> [] \<and> list_all (\<lambda>c. is_alnum c \<or> c = CHR ''-'' \<or> c = CHR ''.'') n"

text \<open>
  A reachable WebDAV server that stores bodies under their URLs, serves and deletes them, and lists a collection:
  RFC 4918, with the credentials accepted.
\<close>

definition webdav_server :: "'s net \<Rightarrow> ('s \<Rightarrow> string \<Rightarrow> string option) \<Rightarrow> bool" where
  "webdav_server N store \<longleftrightarrow>
     (\<forall>s url hd body. \<exists>r s'. fetch N \<lparr>rq_method = ''PUT'', rq_url = url, rq_headers = hd, rq_body = Some body\<rparr> s = (Inr r, s') \<and>
        rs_ok r \<and> store s' = (store s)(url \<mapsto> body)) \<and>
     (\<forall>s url hd d. store s url = Some d \<longrightarrow>
        (\<exists>r. fetch N \<lparr>rq_method = ''GET'', rq_url = url, rq_headers = hd, rq_body = None\<rparr> s = (Inr r, s) \<and> rs_ok r \<and> rs_text r = d)) \<and>
     (\<forall>s url hd. \<exists>r s'. fetch N \<lparr>rq_method = ''DELETE'', rq_url = url, rq_headers = hd, rq_body = None\<rparr> s = (Inr r, s') \<and>
        store s' = (store s)(url := None)) \<and>
     (\<forall>s url hd. store (snd (fetch N \<lparr>rq_method = ''MKCOL'', rq_url = url, rq_headers = hd, rq_body = None\<rparr> s)) = store s) \<and>
     (\<forall>s cfg hd body. (\<forall>n. store s (wd_url cfg @ ''/'' @ n) \<noteq> None \<longrightarrow> plain_name n) \<longrightarrow>
        (\<exists>r ns. fetch N \<lparr>rq_method = ''PROPFIND'', rq_url = wd_url cfg, rq_headers = hd, rq_body = body\<rparr> s = (Inr r, s) \<and>
           rs_ok r \<and> dav_names cfg (rs_text r) = Inr ns \<and>
           set ns = {n. store s (wd_url cfg @ ''/'' @ n) \<noteq> None \<and> \<not> endsWith (wd_url cfg) n}))"

definition collection :: "('s \<Rightarrow> string \<Rightarrow> string option) \<Rightarrow> webdav_config \<Rightarrow> 's \<Rightarrow> string \<Rightarrow> string option" where
  "collection store cfg s n = store s (wd_url cfg @ ''/'' @ n)"

lemma server_put:
  assumes "webdav_server N store"
  obtains s' where "dav_put N cfg n d s = (Inr (), s')" "collection store cfg s' = (collection store cfg s)(n \<mapsto> d)"
proof -
  obtain r s' where r: "fetch N \<lparr>rq_method = ''PUT'', rq_url = wd_url cfg @ ''/'' @ n,
      rq_headers = authHeader cfg @ [(''Content-Type'', ''application/octet-stream'')], rq_body = Some d\<rparr> s = (Inr r, s')"
    "rs_ok r" "store s' = (store s)(wd_url cfg @ ''/'' @ n \<mapsto> d)"
    using assms unfolding webdav_server_def by meson
  show thesis
  proof (rule that [of s'])
    show "dav_put N cfg n d s = (Inr (), s')" using r(1,2) by (simp add: dav_put_def)
    show "collection store cfg s' = (collection store cfg s)(n \<mapsto> d)" using r(3) by (auto simp: collection_def)
  qed
qed

lemma server_del:
  assumes "webdav_server N store"
  obtains s' where "dav_del N cfg n s = (Inr (), s')" "collection store cfg s' = (collection store cfg s)(n := None)"
proof -
  obtain r s' where r: "fetch N \<lparr>rq_method = ''DELETE'', rq_url = wd_url cfg @ ''/'' @ n, rq_headers = authHeader cfg, rq_body = None\<rparr> s = (Inr r, s')"
    "store s' = (store s)(wd_url cfg @ ''/'' @ n := None)"
    using assms unfolding webdav_server_def by meson
  show thesis
  proof (rule that [of s'])
    show "dav_del N cfg n s = (Inr (), s')" using r(1) by (simp add: dav_del_def)
    show "collection store cfg s' = (collection store cfg s)(n := None)" using r(2) by (auto simp: collection_def)
  qed
qed

lemma server_get:
  assumes "webdav_server N store" "collection store cfg s n = Some d"
  shows "dav_get N cfg n s = (Inr d, s)"
proof -
  obtain r where "fetch N \<lparr>rq_method = ''GET'', rq_url = wd_url cfg @ ''/'' @ n, rq_headers = authHeader cfg, rq_body = None\<rparr> s = (Inr r, s)"
    "rs_ok r" "rs_text r = d"
    using assms unfolding webdav_server_def collection_def by meson
  then show ?thesis by (simp add: dav_get_def)
qed

lemma server_list:
  assumes "webdav_server N store" "\<forall>n. collection store cfg s n \<noteq> None \<longrightarrow> plain_name n"
  obtains ns where "dav_list N cfg s = (ns, s)" "set ns = {n. collection store cfg s n \<noteq> None \<and> \<not> endsWith (wd_url cfg) n}"
proof -
  have "\<forall>n. store s (wd_url cfg @ ''/'' @ n) \<noteq> None \<longrightarrow> plain_name n" using assms(2) by (simp add: collection_def)
  then obtain r ns where r: "fetch N \<lparr>rq_method = ''PROPFIND'', rq_url = wd_url cfg,
      rq_headers = authHeader cfg @ [(''Depth'', ''1''), (''Content-Type'', ''application/xml'')],
      rq_body = Some (''<?xml version='' @ dq ''1.0'' @ ''?><d:propfind xmlns:d='' @ dq ''DAV:'' @
        ''><d:prop><d:displayname/></d:prop></d:propfind>'')\<rparr> s = (Inr r, s)" "rs_ok r" "dav_names cfg (rs_text r) = Inr ns"
    "set ns = {n. store s (wd_url cfg @ ''/'' @ n) \<noteq> None \<and> \<not> endsWith (wd_url cfg) n}"
    using assms(1) unfolding webdav_server_def by meson
  then show thesis by (intro that [of ns]) (simp_all add: dav_list_def listStrict_def collection_def)
qed

lemma server_mkcol:
  assumes "webdav_server N store"
  shows "store (ensureCollection N cfg s) = store s"
proof -
  have step: "store (snd (fetch N \<lparr>rq_method = ''MKCOL'', rq_url = u, rq_headers = h, rq_body = None\<rparr> s)) = store s" for u h s
    using assms unfolding webdav_server_def by blast
  have "store (mkcol_loop N cfg o' p segs s) = store s" for o' p segs
    by (induction segs arbitrary: p s) (simp_all add: Let_def step)
  then show ?thesis by (simp add: ensureCollection_def split: option.split)
qed

text \<open>Deletion removes exactly the entries whose stamp is not kept.\<close>

lemma del_loop_server:
  assumes "webdav_server N store"
  shows "\<exists>s'. del_loop N cfg keep es s = (Inr (), s') \<and>
     collection store cfg s' = (\<lambda>n. if \<exists>e \<in> set es. be_name e = n \<and> be_stamp e \<notin> set keep then None else collection store cfg s n)"
proof (induction es arbitrary: s)
  case (Cons e es)
  show ?case
  proof (cases "be_stamp e \<in> set keep")
    case True
    with Cons.IH [of s] show ?thesis by auto
  next
    case False
    obtain s1 where s1: "dav_del N cfg (be_name e) s = (Inr (), s1)" "collection store cfg s1 = (collection store cfg s)(be_name e := None)"
      by (rule server_del [OF assms])
    obtain s2 where "del_loop N cfg keep es s1 = (Inr (), s2)"
      "collection store cfg s2 = (\<lambda>n. if \<exists>e \<in> set es. be_name e = n \<and> be_stamp e \<notin> set keep then None else collection store cfg s1 n)"
      using Cons.IH by blast
    with False s1 show ?thesis by (intro exI [of _ s2]) (auto simp: fun_eq_iff)
  qed
qed simp

section \<open>The envelope\<close>

definition gcm_tag16 :: "'h ext \<Rightarrow> bool" where
  "gcm_tag16 X \<longleftrightarrow> (\<forall>key iv plain. length (snd (gcm_encrypt X key iv plain)) = 16)"

lemma decrypt_backup:
  assumes "gcm_ok X" "gcm_tag16 X" "backupEncryptionEnabled B \<or> \<not> isEncryptedBackup plain"
  shows "decryptBackup X B (maybeEncryptBackup X B k plain) = Inr plain"
proof (cases "backupEncryptionEnabled B")
  case True
  let ?iv = "rand_bytes X k IV_LEN"
  obtain ct tag where e: "gcm_encrypt X (backup_key X B) ?iv plain = (ct, tag)" by fastforce
  have l: "length ?iv = IV_LEN" "length tag = TAG_LEN"
    using assms(1,2) e unfolding gcm_ok_def gcm_tag16_def TAG_LEN_def by (metis snd_conv)+
  have d: "gcm_decrypt X (backup_key X B) ?iv tag ct = Some plain" using assms(1) e unfolding gcm_ok_def by blast
  have "maybeEncryptBackup X B k plain = MAGIC @ ?iv @ tag @ ct" using True e by (simp add: maybeEncryptBackup_def)
  with True d l show ?thesis by (simp add: decryptBackup_def isEncryptedBackup_def Let_def)
next
  case False
  with assms(3) show ?thesis by (simp add: maybeEncryptBackup_def decryptBackup_def)
qed

section \<open>Names\<close>

lemma backup_name_nat: "0 < stamp \<Longrightarrow> backup_name stamp = PREFIX @ show_nat (nat stamp) @ ''.db''"
  by (simp add: backup_name_def show_int_def)

lemma parse_backup_name:
  "0 < stamp \<Longrightarrow> of_int stamp < MAX_DOUBLE_EXCLUSIVE \<Longrightarrow> parseStamp (backup_name stamp) = Some (of_int stamp)"
  using parseStamp_name [of "nat stamp"] by (simp add: backup_name_nat)

lemma plain_backup_name: "0 < stamp \<Longrightarrow> plain_name (backup_name stamp)"
proof -
  assume p: "0 < stamp"
  have "list_all (\<lambda>c. is_alnum c \<or> c = CHR ''-'' \<or> c = CHR ''.'') (show_nat (nat stamp))"
    using show_nat_digits [of "nat stamp"] by (auto simp: list_all_iff is_alnum_def)
  moreover have "list_all (\<lambda>c. is_alnum c \<or> c = CHR ''-'' \<or> c = CHR ''.'') PREFIX"
    "list_all (\<lambda>c. is_alnum c \<or> c = CHR ''-'' \<or> c = CHR ''.'') ''.db''" by code_simp+
  ultimately show ?thesis using p by (simp add: plain_name_def backup_name_nat)
qed

lemma plain_latest: "plain_name LATEST"
  by code_simp

lemma url_tail: "\<exists>u. wd_url (webdavConfig X B w) = u @ backupEnv B"
proof -
  have "\<exists>u. join_slash (filter (\<lambda>x. x \<noteq> []) [a, b, backupEnv B]) = u @ backupEnv B" for a b
    by (auto simp: join_slash_def backupEnv_def)
  then show ?thesis by (simp add: webdavConfig_def Let_def)
qed

lemma stamped_not_hidden:
  assumes "parseStamp n = Some t" shows "\<not> endsWith (wd_url (webdavConfig X B w)) n"
proof
  assume e: "endsWith (wd_url (webdavConfig X B w)) n"
  have "endsWith n ''.db''" using assms by (simp add: parseStamp_def split: if_splits)
  then obtain r where r: "rev n = rev ''.db'' @ r" unfolding endsWith_def startsWith_iff by blast
  obtain u where u: "wd_url (webdavConfig X B w) = u @ backupEnv B" using url_tail by blast
  obtain q where "rev (u @ backupEnv B) = rev ''.db'' @ q" using e r u unfolding endsWith_def startsWith_iff by auto
  then show False by (auto simp: backupEnv_def split: if_splits)
qed

lemma basename_plain: "plain_name n \<Longrightarrow> basename n = n"
proof -
  assume "plain_name n"
  then have ne: "n \<noteq> []" and sl: "CHR ''/'' \<notin> set n"
    by (auto simp: plain_name_def list_all_iff is_alnum_def is_digit_def is_az_def is_AZ_def code_unit_def)
  from sl have "strip_end n = n" unfolding strip_end_def by (cases n rule: rev_cases) auto
  with sl show ?thesis by (simp add: basename_def splitOn_no_sep)
qed

section \<open>Pruning the collection\<close>

lemma entries_iff: "e \<in> set (backup_entries ns) \<longleftrightarrow> be_name e \<in> set ns \<and> parseStamp (be_name e) = Some (be_stamp e)"
  by (cases e) (force simp: backup_entries_def set_map_filter)

lemma newest_kept:
  assumes "s \<in> set ss" "\<forall>t \<in> set ss. t \<le> s" "0 < rk_recent k \<or> 0 < rk_weekly k \<or> 0 < rk_monthly k \<or> 0 < rk_yearly k"
  shows "s \<in> set (selectKeep ss k)"
proof -
  have none: "{t \<in> set ss. s < t} = {}" using assms(2) by auto
  have rep: "s \<in> set (keepPerBucket f n (newest_first ss))" if "0 < n" for f :: "rat \<Rightarrow> string" and n
    unfolding keepPerBucket_iff represents_def none using assms(1,2) that by simp
  have "s \<in> set (take (nat \<lceil>rk_recent k\<rceil>) (newest_first ss))" if "0 < rk_recent k"
  proof -
    obtain x xs where x: "newest_first ss = x # xs" using assms(1) newest_first_facts(2) by (metis empty_iff list.set(1) neq_Nil_conv)
    have "x \<in> set ss" "s \<in> set (x # xs)" "\<forall>t \<in> set xs. t \<le> x"
      using newest_first_facts(1,2) [of ss] assms(1) unfolding x by auto
    then have "x \<le> s" "s \<le> x" using assms(2) by auto
    then have "x = s" by simp
    moreover have "0 < nat \<lceil>rk_recent k\<rceil>" using that by simp
    ultimately show ?thesis unfolding x by (cases "nat \<lceil>rk_recent k\<rceil>") simp_all
  qed
  with rep assms(3) show ?thesis unfolding selectKeep_def Let_def by auto
qed

text \<open>What a pruning leaves on the server: everything but the stamped files whose stamp is not selected.\<close>

lemma pruneBackups_server:
  assumes "webdav_server (bx_net B) store" "\<forall>n. collection store (webdavConfig X B w) s n \<noteq> None \<longrightarrow> plain_name n"
  shows "\<exists>s' ss. pruneBackups X B w s = (Inr (), s') \<and>
     set ss = {t. \<exists>n. collection store (webdavConfig X B w) s n \<noteq> None \<and> parseStamp n = Some t} \<and>
     collection store (webdavConfig X B w) s' =
       (\<lambda>n. if \<exists>t. parseStamp n = Some t \<and> t \<notin> set (selectKeep ss (retention_of X w)) then None
            else collection store (webdavConfig X B w) s n)"
proof -
  let ?cfg = "webdavConfig X B w"
  obtain ns where ns: "dav_list (bx_net B) ?cfg s = (ns, s)" "set ns = {n. collection store ?cfg s n \<noteq> None \<and> \<not> endsWith (wd_url ?cfg) n}"
    by (rule server_list [OF assms])
  let ?es = "backup_entries ns" and ?ss = "map be_stamp (backup_entries ns)"
  have in_ns: "n \<in> set ns \<longleftrightarrow> collection store ?cfg s n \<noteq> None" if "parseStamp n = Some t" for n t
    using ns(2) stamped_not_hidden [OF that] by auto
  have ss: "set ?ss = {t. \<exists>n. collection store ?cfg s n \<noteq> None \<and> parseStamp n = Some t}"
  proof (rule set_eqI)
    fix t
    have "t \<in> set ?ss \<longleftrightarrow> (\<exists>n. n \<in> set ns \<and> parseStamp n = Some t)"
      by (auto simp: entries_iff image_iff Bex_def) (metis backup_entry.select_convs)
    then show "t \<in> set ?ss \<longleftrightarrow> t \<in> {t. \<exists>n. collection store ?cfg s n \<noteq> None \<and> parseStamp n = Some t}" using in_ns by auto
  qed
  obtain s' where s': "del_loop (bx_net B) ?cfg (selectKeep ?ss (retention_of X w)) ?es s = (Inr (), s')"
    "collection store ?cfg s' = (\<lambda>n. if \<exists>e \<in> set ?es. be_name e = n \<and> be_stamp e \<notin> set (selectKeep ?ss (retention_of X w)) then None
       else collection store ?cfg s n)"
    using del_loop_server [OF assms(1)] by blast
  have "(\<exists>e \<in> set ?es. be_name e = n \<and> be_stamp e \<notin> K) \<longleftrightarrow> n \<in> set ns \<and> (\<exists>t. parseStamp n = Some t \<and> t \<notin> K)" for n K
    by (auto simp: entries_iff Bex_def) (metis backup_entry.select_convs)
  with s'(2) in_ns have "collection store ?cfg s' = (\<lambda>n. if \<exists>t. parseStamp n = Some t \<and> t \<notin> set (selectKeep ?ss (retention_of X w)) then None
       else collection store ?cfg s n)" by (auto simp: fun_eq_iff)
  moreover have "pruneBackups X B w s = (Inr (), s')" using ns(1) s'(1) by (simp add: pruneBackups_def Let_def)
  ultimately show ?thesis using ss by blast
qed

section \<open>Backup, then restore\<close>

lemma site_config:
  assumes "settings w' = settings w"
  shows "webdavConfig X B w' = webdavConfig X B w" "isWebdavConfigured X w' = isWebdavConfigured X w" "retention_of X w' = retention_of X w"
  by (simp_all add: webdavConfig_def isWebdavConfigured_def retention_of_def setting_frame [OF assms])

lemma stageRestore_ok:
  assumes "isWebdavConfigured X (st_world st)" "dav_list (bx_net B) (webdavConfig X B (st_world st)) (st_remote st) = (ns, st_remote st)"
    "\<exists>e \<in> set (by_age (backup_entries ns)). be_name e = n" "basename n = n"
    "dav_get (bx_net B) (webdavConfig X B (st_world st)) n (st_remote st) = (Inr data, st_remote st)" "decryptBackup X B data = Inr plain"
  shows "stageRestore X B n st = (Inr (), st\<lparr>st_staged := Some plain\<rparr>)"
  using assms by (simp add: stageRestore_def listBackups_def Let_def)

lemma backup_restore:
  assumes server: "webdav_server (bx_net B) store"
    and crypto: "gcm_ok X" "gcm_tag16 X" "backupEncryptionEnabled B \<or> \<not> isEncryptedBackup (bx_snapshot B (st_world st))"
    and conf: "isWebdavConfigured X (st_world st)"
    and plain: "\<forall>n. collection store (webdavConfig X B (st_world st)) (st_remote st) n \<noteq> None \<longrightarrow> plain_name n"
    and stamp: "0 < stamp" "of_int stamp < MAX_DOUBLE_EXCLUSIVE"
    and latest: "\<forall>n t. collection store (webdavConfig X B (st_world st)) (st_remote st) n \<noteq> None \<and> parseStamp n = Some t \<longrightarrow> t \<le> of_int stamp"
    and keep: "0 < rk_recent (retention_of X (st_world st)) \<or> 0 < rk_weekly (retention_of X (st_world st)) \<or>
       0 < rk_monthly (retention_of X (st_world st)) \<or> 0 < rk_yearly (retention_of X (st_world st))"
  shows "\<exists>size st'. backupNow X B stamp st = (Inr (backup_name stamp, size), st') \<and>
     (\<exists>st''. stageRestore X B (backup_name stamp) st' = (Inr (), st'') \<and> st_staged st'' = Some (bx_snapshot B (st_world st)))"
proof -
  let ?w = "st_world st" and ?N = "bx_net B" and ?n = "backup_name stamp"
  let ?cfg = "webdavConfig X B ?w" and ?data = "maybeEncryptBackup X B (draws ?w) (bx_snapshot B ?w)"
  let ?w1 = "if backupEncryptionEnabled B then ?w\<lparr>draws := draws ?w + 1\<rparr> else ?w"
  let ?s0 = "ensureCollection ?N ?cfg (st_remote st)"
  have c0: "collection store ?cfg ?s0 = collection store ?cfg (st_remote st)"
    by (rule ext) (simp add: collection_def server_mkcol [OF server])
  obtain s1 where s1: "dav_put ?N ?cfg ?n ?data ?s0 = (Inr (), s1)" "collection store ?cfg s1 = (collection store ?cfg ?s0)(?n \<mapsto> ?data)"
    by (rule server_put [OF server])
  obtain s2 where s2: "dav_put ?N ?cfg LATEST ?data s1 = (Inr (), s2)" "collection store ?cfg s2 = (collection store ?cfg s1)(LATEST \<mapsto> ?data)"
    by (rule server_put [OF server])
  have same: "settings ?w1 = settings ?w" by simp
  have cfg1: "webdavConfig X B ?w1 = ?cfg" "isWebdavConfigured X ?w1" "retention_of X ?w1 = retention_of X ?w"
    using conf by (simp_all only: site_config [OF same])
  have p2: "\<forall>n. collection store ?cfg s2 n \<noteq> None \<longrightarrow> plain_name n"
    using plain plain_latest plain_backup_name [OF stamp(1)] by (simp add: s2(2) s1(2) c0)
  obtain s3 ss where s3: "pruneBackups X B ?w1 s2 = (Inr (), s3)"
    "set ss = {t. \<exists>n. collection store ?cfg s2 n \<noteq> None \<and> parseStamp n = Some t}"
    "collection store ?cfg s3 = (\<lambda>n. if \<exists>t. parseStamp n = Some t \<and> t \<notin> set (selectKeep ss (retention_of X ?w)) then None else collection store ?cfg s2 n)"
    using pruneBackups_server [of B store X ?w1 s2] server p2 unfolding cfg1 by blast
  have name: "parseStamp ?n = Some (of_int stamp)" "?n \<noteq> LATEST"
    using parse_backup_name [OF stamp] parseStamp_latest by auto
  have "of_int stamp \<in> set ss" using name by (auto simp: s3(2) s2(2) s1(2) intro!: exI [of _ ?n])
  moreover have "\<forall>t \<in> set ss. t \<le> of_int stamp"
  proof
    fix t assume "t \<in> set ss"
    then obtain n where n: "collection store ?cfg s2 n \<noteq> None" "parseStamp n = Some t" using s3(2) by blast
    then have "n \<noteq> LATEST" using parseStamp_latest by auto
    with n name latest show "t \<le> of_int stamp" by (cases "n = ?n") (auto simp: s2(2) s1(2) c0)
  qed
  ultimately have "of_int stamp \<in> set (selectKeep ss (retention_of X ?w))" by (rule newest_kept [OF _ _ keep])
  with name have got: "collection store ?cfg s3 ?n = Some ?data" by (simp add: s3(3) s2(2) s1(2))
  have p3: "\<forall>n. collection store ?cfg s3 n \<noteq> None \<longrightarrow> plain_name n" using p2 by (simp add: s3(3))
  let ?st = "st\<lparr>st_world := ?w1, st_remote := s3\<rparr>"
  have run: "backupNow X B stamp st = (Inr (?n, length ?data), ?st)"
    using conf s1(1) s2(1) s3(1) by (simp add: backupNow_def Let_def)
  obtain ns where ns: "dav_list ?N ?cfg s3 = (ns, s3)" "set ns = {n. collection store ?cfg s3 n \<noteq> None \<and> \<not> endsWith (wd_url ?cfg) n}"
    by (rule server_list [OF server p3])
  have "\<lparr>be_name = ?n, be_stamp = of_int stamp\<rparr> \<in> set (by_age (backup_entries ns))"
    using name got ns(2) stamped_not_hidden [OF name(1)] by (simp add: by_age_def entries_iff)
  then have known: "\<exists>e \<in> set (by_age (backup_entries ns)). be_name e = ?n" by force
  have "stageRestore X B ?n ?st = (Inr (), ?st\<lparr>st_staged := Some (bx_snapshot B ?w)\<rparr>)"
  proof (rule stageRestore_ok [OF _ _ known basename_plain [OF plain_backup_name [OF stamp(1)]] _ decrypt_backup [OF crypto]])
    show "isWebdavConfigured X (st_world ?st)" using cfg1(2) by simp
    show "dav_list ?N (webdavConfig X B (st_world ?st)) (st_remote ?st) = (ns, st_remote ?st)" using ns(1) cfg1(1) by simp
    show "dav_get ?N (webdavConfig X B (st_world ?st)) ?n (st_remote ?st) = (Inr ?data, st_remote ?st)"
      using server_get [OF server got] cfg1(1) by simp
  qed
  with run show ?thesis by auto
qed

end
