(* ===== verification/Sample_Backup.thy ===== *)
theory Sample_Backup
  imports Backup_Facts Sample
begin

text \<open>
  A concrete WebDAV server on which the backup properties are applied: its state is the list of its files, and
  its listing names each of them in an element that the scanner of the client reads back.
\<close>

definition href_xml :: "string \<Rightarrow> string" where
  "href_xml n = ''<href>'' @ n @ ''</href>''"

lemma href_match_xml: "plain_name n \<Longrightarrow> href_match (href_xml n @ r) = Some (n, r)"
proof -
  assume p: "plain_name n"
  have lt: "\<forall>c \<in> set n. c \<noteq> CHR ''<''"
    using p by (auto simp: plain_name_def list_all_iff is_alnum_def is_digit_def is_az_def is_AZ_def code_unit_def)
  have "takeWhile (\<lambda>x. x \<noteq> CHR ''<'') (n @ CHR ''<'' # z) = n" "dropWhile (\<lambda>x. x \<noteq> CHR ''<'') (n @ CHR ''<'' # z) = CHR ''<'' # z" for z
    using lt by (simp_all add: takeWhile_append2 dropWhile_append2)
  moreover have "href_tag ''href''" "href_tag ''/href'' = False" by code_simp+
  moreover have "n \<noteq> []" using p by (simp add: plain_name_def)
  ultimately show ?thesis by (simp add: href_match_def href_xml_def Let_def)
qed

lemma hrefs_xml: "\<forall>n \<in> set ns. plain_name n \<Longrightarrow> hrefs (concat (map href_xml ns)) = ns"
proof (induction ns)
  case Nil
  show ?case by (simp add: hrefs.simps [of "[]"] href_match_def)
next
  case (Cons n ns)
  then show ?case by (simp add: hrefs.simps [of "href_xml n @ _"] href_match_xml)
qed

lemma decode_plain: "\<forall>c \<in> set s. c \<noteq> CHR ''%'' \<Longrightarrow> decode_uri s = Some s"
  by (induction s) auto

lemma plain_parts: "plain_name n \<Longrightarrow> decode_uri n = Some n \<and> last_segment n = n \<and> n \<noteq> []"
proof -
  assume p: "plain_name n"
  then have ne: "n \<noteq> []" and c: "\<forall>c \<in> set n. c \<noteq> CHR ''%''" "CHR ''/'' \<notin> set n"
    by (auto simp: plain_name_def list_all_iff is_alnum_def is_digit_def is_az_def is_AZ_def code_unit_def)
  from ne c(2) have "last n \<noteq> CHR ''/''" by (metis last_in_set)
  with ne c show ?thesis by (simp add: decode_plain last_segment_def splitOn_no_sep)
qed

lemma dav_names_xml:
  assumes "\<forall>n \<in> set ns. plain_name n"
  shows "dav_names cfg (concat (map href_xml ns)) = Inr (filter (\<lambda>n. \<not> endsWith (wd_url cfg) n) ns)"
proof -
  have d: "map decode_uri ns = map Some ns" using assms plain_parts by auto
  have s: "map last_segment ns = ns" using assms plain_parts by (simp add: map_idI)
  have "filter (\<lambda>b. b \<noteq> [] \<and> \<not> endsWith (wd_url cfg) b) ns = filter (\<lambda>n. \<not> endsWith (wd_url cfg) n) ns"
    using assms plain_parts by (intro filter_cong) auto
  with s show ?thesis by (simp add: dav_names_def hrefs_xml [OF assms] d comp_def Let_def image_iff)
qed

definition files_under :: "string \<Rightarrow> (string \<times> string) list \<Rightarrow> string list" where
  "files_under base fs = List.map_filter (\<lambda>k. if startsWith k base then Some (drop (length base) k) else None) (map fst fs)"

definition http_ok :: "string \<Rightarrow> http_response" where
  "http_ok t = \<lparr>rs_status = 200, rs_statusText = ''OK'', rs_text = t\<rparr>"

definition N0 :: "(string \<times> string) list net" where
  "N0 = \<lparr>fetch = (\<lambda>rq fs.
       if rq_method rq = ''PUT'' then (Inr (http_ok []), AList.update (rq_url rq) (case rq_body rq of None \<Rightarrow> [] | Some b \<Rightarrow> b) fs)
       else if rq_method rq = ''GET''
       then (case map_of fs (rq_url rq) of
               None \<Rightarrow> (Inr \<lparr>rs_status = 404, rs_statusText = ''Not Found'', rs_text = []\<rparr>, fs) | Some d \<Rightarrow> (Inr (http_ok d), fs))
       else if rq_method rq = ''DELETE'' then (Inr (http_ok []), AList.delete (rq_url rq) fs)
       else if rq_method rq = ''PROPFIND'' then (Inr (http_ok (concat (map href_xml (files_under (rq_url rq @ ''/'') fs)))), fs)
       else (Inl ''fetch failed'', fs)),
     url_parts = (\<lambda>u. None)\<rparr>"

lemma files_under_iff: "n \<in> set (files_under (u @ ''/'') fs) \<longleftrightarrow> map_of fs (u @ ''/'' @ n) \<noteq> None"
proof -
  have "n \<in> set (files_under (u @ ''/'') fs) \<longleftrightarrow> u @ ''/'' @ n \<in> fst ` set fs"
    by (auto simp: files_under_def set_map_filter startsWith_iff image_iff split: if_splits) force+
  then show ?thesis by (simp add: map_of_eq_None_iff)
qed

lemma N0_server: "webdav_server N0 map_of"
proof -
  have list: "\<exists>r ns. fetch N0 \<lparr>rq_method = ''PROPFIND'', rq_url = wd_url cfg, rq_headers = hd, rq_body = body\<rparr> fs = (Inr r, fs) \<and>
      rs_ok r \<and> dav_names cfg (rs_text r) = Inr ns \<and> set ns = {n. map_of fs (wd_url cfg @ ''/'' @ n) \<noteq> None \<and> \<not> endsWith (wd_url cfg) n}"
    if "\<forall>n. map_of fs (wd_url cfg @ ''/'' @ n) \<noteq> None \<longrightarrow> plain_name n" for fs cfg hd body
  proof -
    have "\<forall>n \<in> set (files_under (wd_url cfg @ ''/'') fs). plain_name n" using that files_under_iff by metis
    from dav_names_xml [OF this, of cfg] show ?thesis
      by (simp add: N0_def http_ok_def rs_ok_def) (auto simp: files_under_iff)
  qed
  show ?thesis unfolding webdav_server_def
    using list by (auto simp: N0_def http_ok_def rs_ok_def update_conv' delete_conv' fun_eq_iff)
qed

definition X1 :: "fifo ext" where
  "X1 = X0\<lparr>gcm_encrypt := (\<lambda>key iv plain. (plain, replicate 16 (CHR ''t'')))\<rparr>"

lemma X1_gcm: "gcm_ok X1" "gcm_tag16 X1"
  by (simp_all add: gcm_ok_def gcm_tag16_def X1_def X0_def)

definition B0 :: "(fifo, (string \<times> string) list) backup_ext" where
  "B0 = \<lparr>bx_net = N0, bx_key = ''backup'', bx_prod = True, bx_snapshot = (\<lambda>_. ''database'')\<rparr>"

definition site0 :: "(fifo, (string \<times> string) list) site" where
  "site0 = \<lparr>st_world = store_setting ''webdavUrl'' (JStr ''https://dav'') W0, st_remote = [], st_staged = None\<rparr>"

lemma site0_remote: "st_remote site0 = []"
  by (simp add: site0_def)

lemma site0_config: "isWebdavConfigured X1 (st_world site0)" "rk_recent (retention_of X1 (st_world site0)) = 7"
proof -
  have "setting_str X1 ''webdavUrl'' (st_world site0) = ''https://dav''"
    by (simp add: setting_str_def getSetting_def site0_def store_setting_def ENCRYPTED_KEYS_def W0_def)
  moreover have "trim ''https://dav'' \<noteq> []" by code_simp
  ultimately show "isWebdavConfigured X1 (st_world site0)" by (simp add: isWebdavConfigured_def)
  show "rk_recent (retention_of X1 (st_world site0)) = 7"
    by (simp add: retention_of_def setting_num_def getSetting_def site0_def store_setting_def W0_def default_setting_def DEFAULT_SETTINGS_def j_int_def)
qed

end
