(* ===== verification/Flash.thy ===== *)
theory Flash
  imports Forms
begin

text \<open>
  The one-time flash store (src/controller/src/lib/flash.ts): a secret or a message put under a random id
  for the page a redirect leads to, read and deleted by the first reader, dropped after a minute. The
  store is a Map of the process: a list of entries in insertion order.
\<close>

text \<open>A flashed value: a text, or the message of an error.\<close>

datatype 'e flash_value = Text string | ErrorMessage 'e

record 'e flash_entry =
  fe_value :: "'e flash_value"
  fe_expires :: int

type_synonym 'e flash_store = "(string \<times> 'e flash_entry) list"

definition TTL_MS :: int where
  "TTL_MS = 60 * 1000"

definition MAX_ENTRIES :: nat where
  "MAX_ENTRIES = 1000"

definition flash_prune :: "int \<Rightarrow> 'e flash_store \<Rightarrow> 'e flash_store" where
  "flash_prune now st = filter (\<lambda>(i, e). now \<le> fe_expires e) st"

text \<open>Eviction of the oldest entries until there is room for one.\<close>

fun evict_loop :: "'e flash_store \<Rightarrow> 'e flash_store" where
  "evict_loop [] = []"
| "evict_loop (e # st) = (if MAX_ENTRIES \<le> length (e # st) then evict_loop st else e # st)"

definition putFlash :: "int \<Rightarrow> string \<Rightarrow> 'e flash_value \<Rightarrow> 'e flash_store \<Rightarrow> 'e flash_store" where
  "putFlash now i v st = AList.update i \<lparr>fe_value = v, fe_expires = now + TTL_MS\<rparr> (evict_loop (flash_prune now st))"

definition takeFlash :: "int \<Rightarrow> string \<Rightarrow> 'e flash_store \<Rightarrow> 'e flash_value option \<times> 'e flash_store" where
  "takeFlash now i st =
     (case map_of st i of
        None \<Rightarrow> (None, st)
      | Some e \<Rightarrow> (if fe_expires e < now then None else Some (fe_value e), AList.delete i st))"

section \<open>Facts\<close>

lemma evict_loop_eq: "evict_loop st = drop (length st - (MAX_ENTRIES - 1)) st"
proof (induction st)
  case (Cons e st)
  show ?case
  proof (cases "MAX_ENTRIES \<le> length (e # st)")
    case True
    then have "length (e # st) - (MAX_ENTRIES - 1) = Suc (length st - (MAX_ENTRIES - 1))" by (simp add: MAX_ENTRIES_def)
    with Cons True show ?thesis by simp
  qed simp
qed simp

lemma evict_length: "length (evict_loop st) \<le> MAX_ENTRIES - 1"
  by (simp add: evict_loop_eq)

lemma putFlash_bounded: "length (putFlash now i v st) \<le> MAX_ENTRIES"
proof -
  have "length (putFlash now i v st) \<le> Suc (length (evict_loop (flash_prune now st)))"
    unfolding putFlash_def by (rule length_update_le)
  with evict_length [of "flash_prune now st"] show ?thesis by (simp add: MAX_ENTRIES_def)
qed

lemma takeFlash_after_put:
  assumes "now \<le> t" "t \<le> now + TTL_MS"
  shows "fst (takeFlash t i (putFlash now i v st)) = Some v"
  using assms by (simp add: takeFlash_def putFlash_def update_conv)

lemma takeFlash_once: "fst (takeFlash t' i (snd (takeFlash t i st))) = None"
  by (simp add: takeFlash_def delete_conv split: option.split)

lemma takeFlash_expired: "now + TTL_MS < t \<Longrightarrow> fst (takeFlash t i (putFlash now i v st)) = None"
  by (simp add: takeFlash_def putFlash_def update_conv)

lemma takeFlash_other: "i \<noteq> j \<Longrightarrow> map_of (snd (takeFlash t i st)) j = map_of st j"
  by (simp add: takeFlash_def delete_conv split: option.split)

end
