(* ===== verification/Actions.thy ===== *)
theory Actions
  imports Flash System "HOL-Library.State_Monad"
begin

text \<open>
  The monad of the server actions (the files actions.ts under src/controller/src/app/(app)). An action is
  called by a signed-in administrator, whose e-mail address is the actor; it reads a form, calls
  operations, flashes a message for the page it leads to, and redirects. Its state is the database and
  the flash store. What an action invalidates in the page cache is not modelled.
\<close>

datatype act_error = Op error | Form form_error

record 'h app =
  ap_world :: "'h world"
  ap_flash :: "act_error flash_store"

datatype page = LabsPage | LabPage js_num | PlacementPage nat js_num | RecreatePage nat js_num | NodesPage | StudentsPage
  | SettingsPage | GpuPage | BackupsPage | StatsPage | TemplatesPage | AnnouncementsPage | LoginPage

text \<open>A redirect with its query (texts, or the message of an error), a normal return, or an error that leaves the action.\<close>

datatype outcome = Redirect page "(string \<times> act_error flash_value) list" | Returned | Thrown act_error

type_synonym ('h, 'a) act = "('h app, 'a) state"

section \<open>Steps of an action\<close>

definition call :: "('a, 'h) op \<Rightarrow> ('h, error + 'a) act" where
  "call f = State (\<lambda>s. case f (ap_world s) of (r, w) \<Rightarrow> (r, s\<lparr>ap_world := w\<rparr>))"

definition peek :: "('h world \<Rightarrow> 'a) \<Rightarrow> ('h, 'a) act" where
  "peek f = State (\<lambda>s. (f (ap_world s), s))"

definition modify :: "('h world \<Rightarrow> 'h world) \<Rightarrow> ('h, unit) act" where
  "modify f = State (\<lambda>s. ((), s\<lparr>ap_world := f (ap_world s)\<rparr>))"

text \<open>\<open>putFlash(v)\<close>, with a fresh random id of 16 bytes.\<close>

definition flash :: "'h ext \<Rightarrow> act_error flash_value \<Rightarrow> ('h, string) act" where
  "flash X v = State (\<lambda>s. let w = ap_world s; fid = to_hex (rand_bytes X (draws w) 16) in
     (fid, \<lparr>ap_world = w\<lparr>draws := draws w + 1\<rparr>, ap_flash = putFlash (clock w) fid v (ap_flash s)\<rparr>))"

definition with_error :: "'h ext \<Rightarrow> page \<Rightarrow> act_error \<Rightarrow> ('h, outcome) act" where
  "with_error X p e = do { fid \<leftarrow> flash X (ErrorMessage e); State_Monad.return (Redirect p [(''error'', Text fid)]) }"

definition with_saved :: "'h ext \<Rightarrow> page \<Rightarrow> string \<Rightarrow> ('h, outcome) act" where
  "with_saved X p msg = do { fid \<leftarrow> flash X (Text msg); State_Monad.return (Redirect p [(''saved'', Text fid)]) }"

section \<open>Safety\<close>

text \<open>An action that takes the database through steps that are allowed.\<close>

definition allowed :: "'h app \<Rightarrow> 'h app \<Rightarrow> bool" where
  "allowed s s' \<longleftrightarrow> (core_ok (ap_world s) \<longrightarrow> good_step (ap_world s) (ap_world s'))"

lemma allowed_trans: "allowed s t \<Longrightarrow> allowed t u \<Longrightarrow> allowed s u"
  by (auto simp: allowed_def good_step_def)

lemma allowed_same: "ap_world s' = ap_world s \<Longrightarrow> allowed s s'"
  by (simp add: allowed_def good_step_refl)

named_theorems act_intros

abbreviation safe :: "('h, 'a) act \<Rightarrow> bool" where
  "safe m \<equiv> state_io_rel allowed m"

lemma safe_bind [act_intros]: "safe m \<Longrightarrow> (\<And>x. safe (k x)) \<Longrightarrow> safe (m \<bind> k)"
  unfolding state_io_rel_def State_Monad.bind_def by (auto simp: split_beta intro: allowed_trans)

lemma safe_return [act_intros]: "safe (State_Monad.return x)"
  by (auto simp: state_io_rel_def allowed_same)

lemma safe_peek [act_intros]: "safe (peek f)"
  by (auto simp: state_io_rel_def peek_def allowed_same)

lemma safe_call: "(\<And>w. core_ok w \<Longrightarrow> good_step w (snd (f w))) \<Longrightarrow> safe (call f)"
  by (auto simp: state_io_rel_def call_def allowed_def split_beta)

lemma safe_modify: "(\<And>w. core_ok w \<Longrightarrow> good_step w (f w)) \<Longrightarrow> safe (modify f)"
  by (auto simp: state_io_rel_def modify_def allowed_def)

lemma safe_flash [act_intros]: "safe (flash X v)"
proof -
  have "good_step w (w\<lparr>draws := k\<rparr>)" if "core_ok w" for w :: "'a world" and k
    by (rule good_same_tables [OF that]) (simp add: same_tables_def)
  then show ?thesis by (auto simp: state_io_rel_def flash_def allowed_def Let_def)
qed

lemma safe_with [act_intros]: "safe (with_error X p e)" "safe (with_saved X p m)"
  unfolding with_error_def with_saved_def by (intro act_intros)+

lemma safe_if [act_intros]: "(b \<Longrightarrow> safe m) \<Longrightarrow> (\<not> b \<Longrightarrow> safe n) \<Longrightarrow> safe (if b then m else n)"
  by simp

lemma safe_sum [act_intros]: "(\<And>e. safe (f e)) \<Longrightarrow> (\<And>x. safe (g x)) \<Longrightarrow> safe (case r of Inl e \<Rightarrow> f e | Inr x \<Rightarrow> g x)"
  by (simp split: sum.split)

lemma safe_option [act_intros]: "safe m \<Longrightarrow> (\<And>x. safe (g x)) \<Longrightarrow> safe (case r of None \<Rightarrow> m | Some x \<Rightarrow> g x)"
  by (simp split: option.split)

lemma safe_prod [act_intros]: "(\<And>a b. safe (f a b)) \<Longrightarrow> safe (case p of (a, b) \<Rightarrow> f a b)"
  by (simp split: prod.split)

text \<open>The operations the actions call.\<close>

lemmas op_safe [act_intros] =
  safe_call [OF ctl_step_good [OF ctl_step.provision]] safe_call [OF ctl_step_good [OF ctl_step.rotate]]
  safe_call [OF ctl_step_good [OF ctl_step.set_alias]] safe_modify [OF ctl_step_good [OF ctl_step.revoke]]
  safe_call [OF ctl_step_good [OF ctl_step.cold]] safe_call [OF ctl_step_good [OF ctl_step.delete_node]]
  safe_call [OF ctl_step_good [OF ctl_step.create_lab]] safe_call [OF ctl_step_good [OF ctl_step.lab_meta]]
  safe_call [OF ctl_step_good [OF ctl_step.destroy_lab]] safe_call [OF ctl_step_good [OF ctl_step.add_student]]
  safe_call [OF ctl_step_good [OF ctl_step.ensure_pi]] safe_call [OF ctl_step_good [OF ctl_step.remove_student]]
  safe_call [OF ctl_step_good [OF ctl_step.copy]] safe_call [OF ctl_step_good [OF ctl_step.place]]
  safe_call [OF ctl_step_good [OF ctl_step.quota]] safe_call [OF ctl_step_good [OF ctl_step.recreate]]
  safe_call [OF ctl_step_good [OF ctl_step.retry]] safe_call [OF ctl_step_good [OF ctl_step.destroy]]
  safe_call [OF ctl_step_good [OF ctl_step.force_destroy]] safe_call [OF ctl_step_good [OF ctl_step.consume]]
  safe_call [OF page_step_good [OF page_step.set_setting]] safe_call [OF page_step_good [OF page_step.import_roster]]

end
