(* ===== verification/LabActions.thy ===== *)
theory LabActions
  imports Actions
begin

text \<open>
  The server actions of the lab and student pages (src/controller/src/app/(app)/labs/actions.ts and
  students/actions.ts). The long dash of the messages is written as a hyphen.
\<close>

definition containerOptionsFromForm :: "form \<Rightarrow> container_options" where
  "containerOptionsFromForm fd = \<lparr>co_cpus = field_str fd ''cpus'' ''4'', co_memory = field_str fd ''memory'' ''8g'',
     co_shm_size = field_str fd ''shmSize'' ''1g'', co_rootfs_quota = field_str fd ''rootfsQuota'' ''300g'',
     co_restart = field_str fd ''restart'' ''unless-stopped''\<rparr>"

definition DEFAULT_IMAGE :: string where
  "DEFAULT_IMAGE = ''ghcr.io/ec061/custom-ssh:latest''"

definition form_image :: "form \<Rightarrow> string" where
  "form_image fd = or_else (field_trim fd ''image'') DEFAULT_IMAGE"

definition lab_page :: "nat \<Rightarrow> page" where
  "lab_page i = LabPage (Fin (of_nat i))"

section \<open>Labs\<close>

definition copied_message :: "string \<Rightarrow> nat \<times> nat \<Rightarrow> string" where
  "copied_message name res =
     ''Created '' @ name @ ''. Copied '' @ show_nat (fst res) @ '' student'' @ (if fst res = 1 then [] else ''s'') @ '' to the roster'' @
     (if snd res = 0 then [] else ''; '' @ show_nat (snd res) @ '' already members'') @
     ''. Grant the lab access to a node to provision them.''"

definition createLabAction :: "'h ext \<Rightarrow> string \<Rightarrow> form \<Rightarrow> ('h, outcome) act" where
  "createLabAction X who fd =
     (let name = field_trim fd ''name''; piName = nonblank (field_trim fd ''piName''); piEmail = nonblank (field_trim fd ''piEmail'');
          piUsername = field_name fd ''piUsername''; copyFrom = field_num fd ''copyFromLabId'' in
      if name = [] then State_Monad.return (Thrown (Form LabNameRequired))
      else do {
        created \<leftarrow> call (createLab \<lparr>cl_name = name, cl_piName = piName, cl_piEmail = piEmail, cl_actor = Some who\<rparr>);
        (case created of
           Inl e \<Rightarrow> State_Monad.return (Thrown (Op e))
         | Inr lab \<Rightarrow> do {
             granted \<leftarrow> (if piUsername = [] then State_Monad.return (Inr ())
               else do { r \<leftarrow> call (ensurePiAccess X (l_id lab)
                   \<lparr>si_username = piUsername, si_email = piEmail, si_name = piName, si_studentId = None\<rparr> (Some who));
                 State_Monad.return (case r of Inl e \<Rightarrow> Inl e | Inr _ \<Rightarrow> Inr ()) });
             (case granted of
                Inl e \<Rightarrow> State_Monad.return (Thrown (Op e))
              | Inr _ \<Rightarrow>
                  if falsy_num copyFrom \<or> \<not> field_on fd ''copyStudents'' then State_Monad.return (Redirect (lab_page (l_id lab)) [])
                  else do {
                    copied \<leftarrow> call (copyMembers X (as_id copyFrom) (l_id lab) (Some who));
                    (case copied of
                       Inl e \<Rightarrow> State_Monad.return (Thrown (Op e))
                     | Inr res \<Rightarrow> with_saved X (lab_page (l_id lab)) (copied_message (l_name lab) res)) }) }) })"

definition updateLabMetaAction :: "'h ext \<Rightarrow> string \<Rightarrow> form \<Rightarrow> ('h, outcome) act" where
  "updateLabMetaAction X who fd =
     (let labId = field_num fd ''labId''; piName = field_trim fd ''piName''; piEmail = field_trim fd ''piEmail'';
          piUsername = field_name fd ''piUsername'' in
      do {
        r \<leftarrow> (if piUsername \<noteq> []
          then do { r \<leftarrow> call (ensurePiAccess X (as_id labId)
              \<lparr>si_username = piUsername, si_email = Some piEmail, si_name = Some piName, si_studentId = None\<rparr> (Some who));
            State_Monad.return (case r of Inl e \<Rightarrow> Inl e | Inr _ \<Rightarrow> Inr ()) }
          else call (updateLabMeta (as_id labId) \<lparr>lm_piName = Some (Some piName), lm_piEmail = Some (Some piEmail)\<rparr> (Some who)));
        (case r of Inl e \<Rightarrow> State_Monad.return (Thrown (Op e)) | Inr _ \<Rightarrow> with_saved X (LabPage labId) ''Lab metadata saved.'') })"

definition destroyLabAction :: "'h ext \<Rightarrow> string \<Rightarrow> form \<Rightarrow> ('h, outcome) act" where
  "destroyLabAction X who fd =
     (let labId = field_num fd ''labId'' in
      do {
        r \<leftarrow> call (destroyLab X (as_id labId) (Some who) (map_of fd ''force'' = Some ''1''));
        (case r of
           Inl e \<Rightarrow> with_error X (LabPage labId) (Op e)
         | Inr res \<Rightarrow>
             if dr_deleted res then State_Monad.return (Redirect LabsPage [])
             else with_saved X (LabPage labId) (''Tearing down '' @ show_nat (dr_teardownStarted res) @
               '' placement(s). The lab is removed once every node confirms; delete again then.'')) })"

section \<open>Placements\<close>

text \<open>The quotas of a form in the order the code reads them; the first error is thrown.\<close>

definition opt_tb :: "bool \<Rightarrow> js_num \<Rightarrow> string \<Rightarrow> form_error + int option" where
  "opt_tb b v label = (if b then (case tbToBytes v label of Inl e \<Rightarrow> Inl e | Inr n \<Rightarrow> Inr (Some n)) else Inr None)"

definition student_quotas :: "bool \<Rightarrow> form \<Rightarrow> form_error + int option \<times> int option" where
  "student_quotas cold fd =
     (case opt_tb (field_on fd ''enableStudentFastQuota'') (field_num fd ''studentFastTb'') ''Per-student fast'' of
        Inl e \<Rightarrow> Inl e
      | Inr f \<Rightarrow>
          (case opt_tb (cold \<and> field_on fd ''enableStudentColdQuota'') (field_num fd ''studentColdTb'') ''Per-student cold'' of
             Inl e \<Rightarrow> Inl e
           | Inr c \<Rightarrow> Inr (f, c)))"

definition grant_input :: "'h ext \<Rightarrow> string \<Rightarrow> form \<Rightarrow> 'h world \<Rightarrow> act_error + create_placement_input" where
  "grant_input X who fd w =
     (let labId = field_num fd ''labId''; nodeId = field_num fd ''nodeId''; coldTb = map_of fd ''coldTb'' in
      if falsy_num labId \<or> falsy_num nodeId then Inl (Form LabAndNodeRequired)
      else case tbToBytes (field_num fd ''fastTb'') ''Fast'' of
        Inl e \<Rightarrow> Inl (Form e)
      | Inr fast \<Rightarrow>
      case opt_tb (coldTb \<noteq> None \<and> coldTb \<noteq> Some []) (field_num fd ''coldTb'') ''Cold'' of
        Inl e \<Rightarrow> Inl (Form e)
      | Inr cold \<Rightarrow>
      case student_quotas True fd of
        Inl e \<Rightarrow> Inl (Form e)
      | Inr (sf, sc) \<Rightarrow>
      case nextSshPortForNode X (as_id nodeId) w of
        Inl e \<Rightarrow> Inl (Op e)
      | Inr port \<Rightarrow> Inr \<lparr>ci_labId = as_id labId, ci_nodeId = as_id nodeId, ci_fastQuotaBytes = fast, ci_coldQuotaBytes = cold,
          ci_studentFastQuotaBytes = sf, ci_studentColdQuotaBytes = sc, ci_sshPort = port, ci_image = form_image fd,
          ci_containerOptions = containerOptionsFromForm fd, ci_actor = Some who\<rparr>)"

definition grantNodeAccessAction :: "'h ext \<Rightarrow> string \<Rightarrow> form \<Rightarrow> ('h, outcome) act" where
  "grantNodeAccessAction X who fd =
     do {
       inp \<leftarrow> peek (grant_input X who fd);
       (case inp of
          Inl e \<Rightarrow> with_error X (LabPage (field_num fd ''labId'')) e
        | Inr i \<Rightarrow> do {
            r \<leftarrow> call (createPlacement X i);
            (case r of
               Inl e \<Rightarrow> with_error X (LabPage (field_num fd ''labId'')) (Op e)
             | Inr _ \<Rightarrow> with_saved X (LabPage (field_num fd ''labId''))
                 ''Node access granted - provisioning the lab and roster on that node.'') }) }"

definition placement_page :: "placement \<Rightarrow> page" where
  "placement_page p = PlacementPage (p_lab_id (pl_row p)) (Fin (of_nat (p_id (pl_row p))))"

text \<open>
  An amount that is NaN would be stored as NULL, which the column of the fast quota refuses; only a unit
  the form does not offer leads there, and the model rejects it as the unknown unit.
\<close>

definition opt_amount :: "bool \<Rightarrow> js_num \<Rightarrow> string option \<Rightarrow> string \<Rightarrow> form_error + int option" where
  "opt_amount b v unit label =
     (if \<not> b then Inr None
      else let u = (case unit of None \<Rightarrow> ''null'' | Some u \<Rightarrow> u) in
        case amountToBytes v u label of
          Inl e \<Rightarrow> Inl e
        | Inr (Fin n) \<Rightarrow> Inr (Some \<lfloor>n\<rfloor>)
        | Inr _ \<Rightarrow> Inl (QuotaUnitUnknown label))"

definition given :: "form \<Rightarrow> string \<Rightarrow> bool" where
  "given fd k = (map_of fd k \<noteq> None \<and> map_of fd k \<noteq> Some [])"

definition quota_of_form :: "form \<Rightarrow> placement \<Rightarrow> form_error + quota_input" where
  "quota_of_form fd p =
     (case opt_amount (given fd ''fastAmount'') (field_num fd ''fastAmount'') (map_of fd ''fastUnit'') ''Fast'' of
        Inl e \<Rightarrow> Inl e
      | Inr fast \<Rightarrow>
      case opt_amount (p_cold_quota_bytes (pl_row p) \<noteq> None \<and> given fd ''coldAmount'') (field_num fd ''coldAmount'') (map_of fd ''coldUnit'') ''Cold'' of
        Inl e \<Rightarrow> Inl e
      | Inr cold \<Rightarrow> Inr \<lparr>qi_fast = fast, qi_cold = map_option Some cold\<rparr>)"

definition setPlacementQuotaAction :: "'h ext \<Rightarrow> string \<Rightarrow> form \<Rightarrow> ('h, outcome) act" where
  "setPlacementQuotaAction X who fd =
     do {
       found \<leftarrow> peek (getPlacement (as_id (field_num fd ''placementId'')));
       (case found of
          None \<Rightarrow> State_Monad.return Returned
        | Some p \<Rightarrow>
            (case quota_of_form fd p of
               Inl e \<Rightarrow> with_error X (placement_page p) (Form e)
             | Inr q \<Rightarrow> do {
                 r \<leftarrow> call (updatePlacementQuota X (as_id (field_num fd ''placementId'')) q (Some who));
                 (case r of
                    Inl e \<Rightarrow> with_error X (placement_page p) (Op e)
                  | Inr _ \<Rightarrow> with_saved X (placement_page p)
                      ''Quota update queued. Desired and agent-reported values are shown separately until it applies.'') })) }"

definition recreatePlacementAction :: "'h ext \<Rightarrow> string \<Rightarrow> form \<Rightarrow> ('h, outcome) act" where
  "recreatePlacementAction X who fd =
     do {
       found \<leftarrow> peek (getPlacement (as_id (field_num fd ''placementId'')));
       (case found of
          None \<Rightarrow> State_Monad.return Returned
        | Some p \<Rightarrow> do {
            r \<leftarrow> call (recreatePlacement X (as_id (field_num fd ''placementId''))
              \<lparr>ri_image = None, ri_containerOptions = None, ri_studentFastQuotaBytes = None, ri_studentColdQuotaBytes = None\<rparr> (Some who));
            State_Monad.return (case r of Inl e \<Rightarrow> Thrown (Op e) | Inr _ \<Rightarrow> Returned) }) }"

definition recreatePlacementSettingsAction :: "'h ext \<Rightarrow> string \<Rightarrow> form \<Rightarrow> ('h, outcome) act" where
  "recreatePlacementSettingsAction X who fd =
     (let placementId = field_num fd ''placementId'' in
      do {
        found \<leftarrow> peek (getPlacement (as_id placementId));
        (case found of
           None \<Rightarrow> State_Monad.return (Redirect LabsPage [])
         | Some p \<Rightarrow>
             let labId = p_lab_id (pl_row p) in
             (case student_quotas (pl_node_cold_backend p \<noteq> Smb) fd of
                Inl e \<Rightarrow> with_error X (RecreatePage labId placementId) (Form e)
              | Inr (sf, sc) \<Rightarrow> do {
                  r \<leftarrow> call (recreatePlacement X (as_id placementId)
                    \<lparr>ri_image = Some (form_image fd), ri_containerOptions = Some (containerOptionsFromForm fd),
                      ri_studentFastQuotaBytes = Some sf, ri_studentColdQuotaBytes = Some sc\<rparr> (Some who));
                  (case r of
                     Inl e \<Rightarrow> with_error X (RecreatePage labId placementId) (Op e)
                   | Inr _ \<Rightarrow> with_saved X (PlacementPage labId placementId)
                       (''Container recreate queued - the node validates the image, brings up a candidate, '' @
                        ''verifies readiness, then promotes it (data preserved).'')) })) })"

definition retryPlacementAction :: "'h ext \<Rightarrow> string \<Rightarrow> form \<Rightarrow> ('h, outcome) act" where
  "retryPlacementAction X who fd =
     (let placementId = field_num fd ''placementId'' in
      do {
        found \<leftarrow> peek (getPlacement (as_id placementId));
        (case found of
           None \<Rightarrow> State_Monad.return (Redirect LabsPage [])
         | Some p \<Rightarrow> do {
             r \<leftarrow> call (retryPlacement X (as_id placementId) (Some who));
             (case r of
                Inl e \<Rightarrow> with_error X (PlacementPage (p_lab_id (pl_row p)) placementId) (Op e)
              | Inr _ \<Rightarrow> with_saved X (PlacementPage (p_lab_id (pl_row p)) placementId)
                  ''Placement retry queued with its existing storage and container settings.'') }) })"

text \<open>The password is flashed; the redirect carries its id and the username, not the password.\<close>

definition revealPlacementCredentialAction :: "'h ext \<Rightarrow> string \<Rightarrow> form \<Rightarrow> ('h, outcome) act" where
  "revealPlacementCredentialAction X who fd =
     (let placementId = field_num fd ''placementId'' in
      do {
        found \<leftarrow> peek (getPlacement (as_id placementId));
        (case found of
           None \<Rightarrow> State_Monad.return (Redirect LabsPage [])
         | Some p \<Rightarrow> do {
             r \<leftarrow> call (consumePlacementCredential X (as_id placementId) (as_id (field_num fd ''studentId'')) (Some who));
             (case r of
                Inl e \<Rightarrow> with_error X (PlacementPage (p_lab_id (pl_row p)) placementId) (Op e)
              | Inr (username, password) \<Rightarrow> do {
                  fid \<leftarrow> flash X (Text password);
                  State_Monad.return (Redirect (PlacementPage (p_lab_id (pl_row p)) placementId)
                    [(''credential'', Text fid), (''username'', Text username)]) }) }) })"

definition removePlacementAction :: "'h ext \<Rightarrow> string \<Rightarrow> form \<Rightarrow> ('h, outcome) act" where
  "removePlacementAction X who fd =
     (let placementId = field_num fd ''placementId''; force = (map_of fd ''force'' = Some ''1'') in
      do {
        found \<leftarrow> peek (getPlacement (as_id placementId));
        (case found of
           None \<Rightarrow> State_Monad.return (Redirect LabsPage [])
         | Some p \<Rightarrow> do {
             r \<leftarrow> (if force then call (forceDeletePlacement X (as_id placementId) (Some who))
                  else call (destroyPlacement X (as_id placementId) (Some who)));
             (case r of
                Inl e \<Rightarrow> with_error X (PlacementPage (p_lab_id (pl_row p)) placementId) (Op e)
              | Inr _ \<Rightarrow> with_saved X (lab_page (p_lab_id (pl_row p)))
                  (if force
                   then ''Placement force-removed from the controller. If the node ever reconnects, its leftover container and data are cleaned up then.''
                   else ''Removal queued. The placement remains visible on the lab page until the node confirms destruction.'')) }) })"

section \<open>Members\<close>

definition added_message :: "string \<Rightarrow> nat \<Rightarrow> string" where
  "added_message username n =
     (if n = 0 then ''Added '' @ username @ '' to the roster. They are provisioned automatically when the lab is granted node access.''
      else ''Added '' @ username @ ''; provisioning queued on '' @ show_nat n @ '' node(s). Credentials are delivered only after each node confirms success.'')"

definition addMemberAction :: "'h ext \<Rightarrow> string \<Rightarrow> form \<Rightarrow> ('h, outcome) act" where
  "addMemberAction X who fd =
     (let labId = field_num fd ''labId''; username = field_name fd ''username'' in
      if username = [] then State_Monad.return (Thrown (Form UsernameRequired))
      else do {
        r \<leftarrow> call (addStudentToLab X (as_id labId) \<lparr>si_username = username, si_email = nonblank (field_trim fd ''email''),
            si_name = nonblank (field_trim fd ''name''), si_studentId = nonblank (field_trim fd ''studentId'')\<rparr> (Some who));
        (case r of
           Inl e \<Rightarrow> State_Monad.return (Thrown (Op e))
         | Inr (s, provisioned) \<Rightarrow> with_saved X (LabPage labId) (added_message username (length provisioned))) })"

definition removed_message :: "bool \<Rightarrow> string" where
  "removed_message deleteData =
     (if deleteData then ''Student removed from the roster; their account and data are being deleted on every node.''
      else ''Student removed from the roster; their account is being deprovisioned on every node (data kept).'')"

definition removeMemberAction :: "'h ext \<Rightarrow> string \<Rightarrow> form \<Rightarrow> ('h, outcome) act" where
  "removeMemberAction X who fd =
     (let labId = field_num fd ''labId''; deleteData = field_on fd ''deleteData'' in
      do {
        r \<leftarrow> call (removeStudentFromLab X (as_id labId) (as_id (field_num fd ''studentId'')) deleteData (Some who));
        (case r of
           Inl e \<Rightarrow> with_error X (LabPage labId) (Op e)
         | Inr _ \<Rightarrow> with_saved X (LabPage labId) (removed_message deleteData)) })"

definition removeStudentAction :: "'h ext \<Rightarrow> string \<Rightarrow> form \<Rightarrow> ('h, outcome) act" where
  "removeStudentAction X who fd =
     do {
       r \<leftarrow> call (removeStudentFromLab X (as_id (field_num fd ''labId'')) (as_id (field_num fd ''studentId'')) (field_on fd ''deleteData'') (Some who));
       State_Monad.return (case r of Inl e \<Rightarrow> Thrown (Op e) | Inr _ \<Rightarrow> Redirect StudentsPage []) }"

section \<open>Imports\<close>

definition previewRosterImportAction :: "js_num \<Rightarrow> string \<Rightarrow> ('h, roster_plan) act" where
  "previewRosterImportAction labId txt = peek (planRosterImport (as_id labId) txt)"

definition applyRosterImportAction :: "'h ext \<Rightarrow> string \<Rightarrow> js_num \<Rightarrow> string \<Rightarrow> ('h, error + import_result) act" where
  "applyRosterImportAction X who labId txt = call (applyRosterImport X (as_id labId) txt (Some who))"

definition MAX_ROWS_PER_IMPORT :: nat where
  "MAX_ROWS_PER_IMPORT = 500"

record students_import =
  sm_added :: nat
  sm_skipped :: nat
  sm_error :: "string option"

text \<open>The loop of \<open>importStudentsAction\<close>: a row with issues is skipped, as is one whose operation throws.\<close>

fun import_loop :: "'h ext \<Rightarrow> string \<Rightarrow> nat \<Rightarrow> import_row list \<Rightarrow> nat \<times> nat \<Rightarrow> ('h, nat \<times> nat) act" where
  "import_loop X who labId [] acc = State_Monad.return acc"
| "import_loop X who labId (r # rs) acc =
     (if ir_issues r \<noteq> [] then import_loop X who labId rs (fst acc, snd acc + 1)
      else do {
        res \<leftarrow> call (addStudentToLab X labId \<lparr>si_username = ir_username r, si_email = ir_email r, si_name = ir_name r, si_studentId = ir_studentId r\<rparr>
          (Some who));
        (case res of
           Inl _ \<Rightarrow> import_loop X who labId rs (fst acc, snd acc + 1)
         | Inr _ \<Rightarrow> import_loop X who labId rs (fst acc + 1, snd acc)) })"

definition importStudentsAction :: "'h ext \<Rightarrow> string \<Rightarrow> js_num \<Rightarrow> raw_import_row list \<Rightarrow> bool \<Rightarrow> ('h, students_import) act" where
  "importStudentsAction X who labId rs requireEmail =
     (let refuse = (\<lambda>msg. State_Monad.return \<lparr>sm_added = 0, sm_skipped = 0, sm_error = Some msg\<rparr>) in
      if falsy_num labId then refuse ''Select a target lab''
      else if rs = [] then refuse ''No rows to import''
      else if MAX_ROWS_PER_IMPORT < length rs
      then refuse (''Too many rows ('' @ show_nat (length rs) @ ''); max '' @ show_nat MAX_ROWS_PER_IMPORT @ '' per import'')
      else do {
        n \<leftarrow> import_loop X who (as_id labId) (validateImportRows requireEmail rs) (0, 0);
        State_Monad.return \<lparr>sm_added = fst n, sm_skipped = snd n, sm_error = None\<rparr> })"

section \<open>Facts\<close>

lemma safe_lab_actions:
  "safe (createLabAction X who fd)" "safe (updateLabMetaAction X who fd)" "safe (destroyLabAction X who fd)"
  "safe (grantNodeAccessAction X who fd)" "safe (setPlacementQuotaAction X who fd)" "safe (recreatePlacementAction X who fd)"
  "safe (recreatePlacementSettingsAction X who fd)" "safe (retryPlacementAction X who fd)" "safe (revealPlacementCredentialAction X who fd)"
  "safe (removePlacementAction X who fd)" "safe (addMemberAction X who fd)" "safe (removeMemberAction X who fd)"
  "safe (removeStudentAction X who fd)" "safe (previewRosterImportAction n txt)" "safe (applyRosterImportAction X who n txt)"
  unfolding createLabAction_def updateLabMetaAction_def destroyLabAction_def grantNodeAccessAction_def setPlacementQuotaAction_def
    recreatePlacementAction_def recreatePlacementSettingsAction_def retryPlacementAction_def revealPlacementCredentialAction_def
    removePlacementAction_def addMemberAction_def removeMemberAction_def removeStudentAction_def previewRosterImportAction_def
    applyRosterImportAction_def Let_def
  by (intro act_intros | assumption)+

lemma safe_import_loop [act_intros]: "safe (import_loop X who l rs acc)"
proof (induction rs arbitrary: acc)
  case (Cons r rs)
  show ?case unfolding import_loop.simps by (intro act_intros Cons.IH | assumption)+
qed (simp add: act_intros)

lemma safe_importStudents: "safe (importStudentsAction X who n rs q)"
  unfolding importStudentsAction_def Let_def by (intro act_intros | assumption)+

end
