(* ===== verification/Reveal.thy ===== *)
theory Reveal
  imports LabActions
begin

text \<open>
  The whole path of an initial password: the action revealPlacementCredentialAction takes it out of the
  database (consumePlacementCredential of placements.ts) and into the flash store (flash.ts), from where
  the next page reads it once.
\<close>

lemma consume_draws:
  "consumePlacementCredential X i j a (w\<lparr>draws := d\<rparr>) =
     map_prod id (\<lambda>v. v\<lparr>draws := d\<rparr>) (consumePlacementCredential X i j a w)"
proof -
  have "credential_join (w\<lparr>draws := d\<rparr>) = credential_join w"
    by (rule ext) (simp add: credential_join_def student_by_id_def lab_by_id_def node_by_id_def cong: option.case_cong)
  then have "credential_select (w\<lparr>draws := d\<rparr>) = credential_select w" by (simp add: credential_select_def)
  then show ?thesis
    by (simp add: consumePlacementCredential_def burn_credential_def upd_pm_def audit_def Let_def split: option.split)
qed

lemma getPlacement_same:
  assumes "lab_placements w' = lab_placements w" "labs w' = labs w" "nodes w' = nodes w"
  shows "getPlacement i w' = getPlacement i w"
proof -
  have "placement_join w' = placement_join w"
    by (rule ext) (simp add: placement_join_def lab_by_id_def node_by_id_def assms cong: option.case_cong)
  then show ?thesis by (simp add: getPlacement_def placement_select_def assms)
qed

lemma consume_frame:
  assumes "consumePlacementCredential X i j a w = (Inr (u, pw), w')"
  shows "lab_placements w' = lab_placements w" "labs w' = labs w" "nodes w' = nodes w" "clock w' = clock w"
  using assms by (auto simp: consumePlacementCredential_def burn_credential_def upd_pm_def Let_def split: option.splits if_splits)

text \<open>What a run of the action that shows a credential has done.\<close>

lemma reveal_run:
  assumes "run_state (revealPlacementCredentialAction X who fd) s = (Redirect p [(''credential'', Text fid), (''username'', Text u)], s')"
  obtains pl pw w where "getPlacement (as_id (field_num fd ''placementId'')) (ap_world s) = Some pl"
    "consumePlacementCredential X (as_id (field_num fd ''placementId'')) (as_id (field_num fd ''studentId'')) (Some who) (ap_world s) = (Inr (u, pw), w)"
    "p = PlacementPage (p_lab_id (pl_row pl)) (field_num fd ''placementId'')"
    "s' = \<lparr>ap_world = w\<lparr>draws := draws w + 1\<rparr>, ap_flash = putFlash (clock w) fid (Text pw) (ap_flash s)\<rparr>"
proof -
  let ?c = "consumePlacementCredential X (as_id (field_num fd ''placementId'')) (as_id (field_num fd ''studentId'')) (Some who) (ap_world s)"
  obtain pl where pl: "getPlacement (as_id (field_num fd ''placementId'')) (ap_world s) = Some pl"
    using assms by (cases "getPlacement (as_id (field_num fd ''placementId'')) (ap_world s)")
      (simp_all add: revealPlacementCredentialAction_def peek_def State_Monad.bind_def Let_def)
  obtain r w where c: "?c = (r, w)" by fastforce
  show thesis
  proof (cases r)
    case (Inl e)
    with assms pl c show ?thesis
      by (simp add: revealPlacementCredentialAction_def peek_def call_def with_error_def flash_def State_Monad.bind_def Let_def split_beta)
  next
    case (Inr v)
    obtain u' pw where v: "v = (u', pw)" by fastforce
    with assms pl c Inr show ?thesis
      by (intro that [of pl pw w]) (auto simp: revealPlacementCredentialAction_def peek_def call_def flash_def State_Monad.bind_def Let_def)
  qed
qed

lemma reveal_shows:
  assumes "getPlacement (as_id (field_num fd ''placementId'')) (ap_world s) = Some pl"
    "consumePlacementCredential X (as_id (field_num fd ''placementId'')) (as_id (field_num fd ''studentId'')) (Some who) (ap_world s) = (Inr (u, pw), w)"
  shows "\<exists>p fid s'. run_state (revealPlacementCredentialAction X who fd) s = (Redirect p [(''credential'', Text fid), (''username'', Text u)], s')"
  using assms
  by (simp add: revealPlacementCredentialAction_def peek_def call_def flash_def State_Monad.bind_def Let_def)

lemma reveal_again:
  assumes "getPlacement (as_id (field_num fd ''placementId'')) (ap_world s) = Some pl"
    "consumePlacementCredential X (as_id (field_num fd ''placementId'')) (as_id (field_num fd ''studentId'')) (Some who) (ap_world s) = (Inl e, w)"
  shows "\<exists>i s'. run_state (revealPlacementCredentialAction X who fd) s =
       (Redirect (PlacementPage (p_lab_id (pl_row pl)) (field_num fd ''placementId'')) [(''error'', Text i)], s') \<and>
     fst (takeFlash (clock w) i (ap_flash s')) = Some (ErrorMessage (Op e))"
proof -
  have "fst (takeFlash t i (putFlash t i v st)) = Some v" for t i v and st :: "act_error flash_store"
    by (rule takeFlash_after_put) (simp_all add: TTL_MS_def)
  with assms show ?thesis
    by (simp add: revealPlacementCredentialAction_def peek_def call_def with_error_def flash_def State_Monad.bind_def Let_def)
qed

lemma reveal_path:
  assumes "run_state (revealPlacementCredentialAction X who fd) s = (Redirect p [(''credential'', Text fid), (''username'', Text u)], s')"
  shows "\<exists>pw. pw \<noteq> [] \<and>
     fst (consumePlacementCredential X (as_id (field_num fd ''placementId'')) (as_id (field_num fd ''studentId'')) (Some who) (ap_world s)) = Inr (u, pw) \<and>
     (\<forall>t. clock (ap_world s) \<le> t \<longrightarrow> fst (takeFlash t fid (ap_flash s')) = (if t \<le> clock (ap_world s) + TTL_MS then Some (Text pw) else None) \<and>
        (\<forall>t'. fst (takeFlash t' fid (snd (takeFlash t fid (ap_flash s')))) = None)) \<and>
     (\<exists>i s''. run_state (revealPlacementCredentialAction X who' fd) s' = (Redirect p [(''error'', Text i)], s'') \<and>
        fst (takeFlash (clock (ap_world s)) i (ap_flash s'')) = Some (ErrorMessage (Op (PlacementE CredentialConsumed))))"
proof -
  let ?i = "as_id (field_num fd ''placementId'')" and ?j = "as_id (field_num fd ''studentId'')"
  obtain pl pw w where r: "getPlacement ?i (ap_world s) = Some pl"
    "consumePlacementCredential X ?i ?j (Some who) (ap_world s) = (Inr (u, pw), w)"
    "p = PlacementPage (p_lab_id (pl_row pl)) (field_num fd ''placementId'')"
    "s' = \<lparr>ap_world = w\<lparr>draws := draws w + 1\<rparr>, ap_flash = putFlash (clock w) fid (Text pw) (ap_flash s)\<rparr>"
    by (rule reveal_run [OF assms])
  note fr = consume_frame [OF r(2)]
  have ne: "pw \<noteq> []" by (rule consume_ok [OF r(2)])
  have g: "getPlacement ?i (ap_world s') = Some pl" using getPlacement_same [of "ap_world s'" "ap_world s" ?i] fr r(1,4) by simp
  obtain w2 where c2: "consumePlacementCredential X ?i ?j (Some who') (ap_world s') = (Inl (PlacementE CredentialConsumed), w2)"
  proof -
    have "fst (consumePlacementCredential X ?i ?j (Some who') (ap_world s')) = Inl (PlacementE CredentialConsumed)"
      using consume_twice [OF r(2)] by (simp add: r(4) consume_draws)
    then show thesis using that prod.collapse by metis
  qed
  have cl: "clock w2 = clock (ap_world s)"
    using c2 r(4) fr(4) by (auto simp: consumePlacementCredential_def Let_def split: option.splits if_splits)
  have t: "fst (takeFlash t fid (ap_flash s')) = (if t \<le> clock (ap_world s) + TTL_MS then Some (Text pw) else None)"
    if "clock (ap_world s) \<le> t" for t
  proof (cases "t \<le> clock w + TTL_MS")
    case True
    with that fr(4) show ?thesis by (simp add: r(4) takeFlash_after_put)
  next
    case False
    with fr(4) show ?thesis by (simp add: r(4) takeFlash_expired)
  qed
  have "\<exists>i s''. run_state (revealPlacementCredentialAction X who' fd) s' = (Redirect p [(''error'', Text i)], s'') \<and>
      fst (takeFlash (clock (ap_world s)) i (ap_flash s'')) = Some (ErrorMessage (Op (PlacementE CredentialConsumed)))"
    using reveal_again [OF g c2] unfolding r(3) cl .
  with ne t show ?thesis by (intro exI [of _ pw]) (simp add: r(2) takeFlash_once)
qed

end
