(* ===== verification/Gpu.thy ===== *)
theory Gpu
  imports Forms "HOL-Library.Product_Lexorder" "HOL-Library.Multiset"
begin

text \<open>
  The GPU event log (src/controller/src/lib/gpu.ts): its deletion, and the roll-up of the events into
  labs and students with their counts, worst offenders first.
\<close>

definition clearGpuEvents :: "string \<Rightarrow> (nat, 'h) op" where
  "clearGpuEvents actor w =
     (let cleared = tbl_changes (\<lambda>_. True) (gpu_events w) in
      (Inr cleared, audit (Some actor) ''gpu.events.clear'' None (Some (show_nat cleared @ '' event(s)''))
        (w\<lparr>gpu_events := tbl_delete (\<lambda>_. True) (gpu_events w)\<rparr>)))"

text \<open>\<open>None\<close>: the error ''event not found''.\<close>

definition deleteGpuEvent :: "nat \<Rightarrow> string \<Rightarrow> 'h world \<Rightarrow> 'h world option" where
  "deleteGpuEvent i actor w =
     (let v = w\<lparr>gpu_events := tbl_delete (\<lambda>e. ge_id e = i) (gpu_events w)\<rparr> in
      if tbl_changes (\<lambda>e. ge_id e = i) (gpu_events w) = 0 then None
      else Some (audit (Some actor) ''gpu.event.delete'' (Some (show_nat i)) None v))"

record student_kill_stats =
  sk_user :: "string option"
  sk_warned :: nat
  sk_killed :: nat
  sk_lastTs :: int
  sk_events :: "gpu_event_row list"

text \<open>The students of a lab are keyed by name, in the order of their first event.\<close>

record lab_kill_stats =
  lk_lab :: "string option"
  lk_warned :: nat
  lk_killed :: nat
  lk_students :: "(string \<times> student_kill_stats) list"

definition key_of :: "string option \<Rightarrow> string" where
  "key_of x = (case x of None \<Rightarrow> [] | Some s \<Rightarrow> s)"

definition add_to_student :: "gpu_event_row \<Rightarrow> student_kill_stats option \<Rightarrow> student_kill_stats" where
  "add_to_student e so =
     (let s = (case so of Some s \<Rightarrow> s | None \<Rightarrow> \<lparr>sk_user = ge_user e, sk_warned = 0, sk_killed = 0, sk_lastTs = ge_ts e, sk_events = []\<rparr>)
      in s\<lparr>sk_killed := sk_killed s + (if ge_state e = GKilled then 1 else 0),
           sk_warned := sk_warned s + (if ge_state e = GWarned then 1 else 0),
           sk_lastTs := max (sk_lastTs s) (ge_ts e), sk_events := sk_events s @ [e]\<rparr>)"

definition add_to_lab :: "gpu_event_row \<Rightarrow> lab_kill_stats option \<Rightarrow> lab_kill_stats" where
  "add_to_lab e lo =
     (let l = (case lo of Some l \<Rightarrow> l | None \<Rightarrow> \<lparr>lk_lab = ge_lab e, lk_warned = 0, lk_killed = 0, lk_students = []\<rparr>); u = key_of (ge_user e)
      in l\<lparr>lk_killed := lk_killed l + (if ge_state e = GKilled then 1 else 0),
           lk_warned := lk_warned l + (if ge_state e = GWarned then 1 else 0),
           lk_students := AList.update u (add_to_student e (map_of (lk_students l) u)) (lk_students l)\<rparr>)"

definition add_event :: "gpu_event_row \<Rightarrow> (string \<times> lab_kill_stats) list \<Rightarrow> (string \<times> lab_kill_stats) list" where
  "add_event e ls = AList.update (key_of (ge_lab e)) (add_to_lab e (map_of ls (key_of (ge_lab e)))) ls"

text \<open>\<open>byOffense\<close>: kills descending, then warnings descending; the sort of JavaScript is stable, as \<open>sort_key\<close> is.\<close>

definition offense :: "nat \<Rightarrow> nat \<Rightarrow> int \<times> int" where
  "offense killed warned = (- int killed, - int warned)"

definition sort_students :: "lab_kill_stats \<Rightarrow> lab_kill_stats" where
  "sort_students l = l\<lparr>lk_students := map (\<lambda>(u, s). (u, s\<lparr>sk_events := sort_key (\<lambda>e. - ge_ts e) (sk_events s)\<rparr>))
     (sort_key (\<lambda>(u, s). offense (sk_killed s) (sk_warned s)) (lk_students l))\<rparr>"

definition groupGpuEvents :: "gpu_event_row list \<Rightarrow> lab_kill_stats list" where
  "groupGpuEvents es = sort_key (\<lambda>l. offense (lk_killed l) (lk_warned l)) (map (\<lambda>(k, l). sort_students l) (fold add_event es []))"

definition recentGpuEvents :: "nat \<Rightarrow> 'h world \<Rightarrow> gpu_event_row list" where
  "recentGpuEvents limit w = take limit (sort_key (\<lambda>e. - ge_ts e) (rows (gpu_events w)))"

section \<open>Facts\<close>

definition lab_events :: "lab_kill_stats \<Rightarrow> gpu_event_row multiset" where
  "lab_events l = (\<Sum>(u, s) \<in># mset (lk_students l). mset (sk_events s))"

lemma sum_update:
  fixes f :: "'b \<Rightarrow> 'c :: comm_monoid_add"
  assumes "f (g (map_of xs k)) = (case map_of xs k of None \<Rightarrow> 0 | Some y \<Rightarrow> f y) + d"
  shows "(\<Sum>(a, y) \<in># mset (AList.update k (g (map_of xs k)) xs). f y) = (\<Sum>(a, y) \<in># mset xs. f y) + d"
  using assms by (induction xs) (auto simp: ac_simps)

lemma lab_events_add:
  "lab_events (add_to_lab e lo) = (case lo of None \<Rightarrow> {#} | Some l \<Rightarrow> lab_events l) + {#e#}"
proof -
  let ?l = "case lo of Some l \<Rightarrow> l | None \<Rightarrow> \<lparr>lk_lab = ge_lab e, lk_warned = 0, lk_killed = 0, lk_students = []\<rparr>"
  have "mset (sk_events (add_to_student e so)) = (case so of None \<Rightarrow> 0 | Some s \<Rightarrow> mset (sk_events s)) + {#e#}" for so
    by (simp add: add_to_student_def Let_def split: option.split)
  from sum_update [where f = "\<lambda>s. mset (sk_events s)" and g = "add_to_student e" and xs = "lk_students ?l" and k = "key_of (ge_user e)", OF this]
  show ?thesis by (simp add: lab_events_def add_to_lab_def Let_def split: option.split)
qed

lemma all_events_fold:
  "(\<Sum>(k, l) \<in># mset (fold add_event es ls). lab_events l) = (\<Sum>(k, l) \<in># mset ls. lab_events l) + mset es"
proof (induction es arbitrary: ls)
  case (Cons e es)
  have "(\<Sum>(k, l) \<in># mset (add_event e ls). lab_events l) = (\<Sum>(k, l) \<in># mset ls. lab_events l) + {#e#}"
    unfolding add_event_def by (rule sum_update) (simp add: lab_events_add split: option.split)
  with Cons.IH show ?case by simp
qed simp

lemma lab_events_sorted: "lab_events (sort_students l) = lab_events l"
  by (simp add: lab_events_def sort_students_def image_mset.compositionality comp_def case_prod_unfold)

text \<open>The roll-up shows every event exactly once.\<close>

lemma groupGpuEvents_partition: "(\<Sum>l \<in># mset (groupGpuEvents es). lab_events l) = mset es"
  using all_events_fold [of es "[]"]
  by (simp add: groupGpuEvents_def image_mset.compositionality comp_def case_prod_unfold lab_events_sorted)

lemma groupGpuEvents_sorted: "sorted (map (\<lambda>l. offense (lk_killed l) (lk_warned l)) (groupGpuEvents es))"
  by (simp add: groupGpuEvents_def)

end
