(* ===== verification/AdminActions.thy ===== *)
theory AdminActions
  imports Actions Gpu
begin

text \<open>
  The server actions of the node, GPU and settings pages (nodes/actions.ts, gpu/actions.ts and
  settings/actions.ts under src/controller/src/app/(app)), and the broadcast of the GPU policy of
  settings.ts. The two actions on SMTP servers and the test mail are left out.
\<close>

section \<open>Nodes\<close>

definition showToken :: "'h ext \<Rightarrow> string \<Rightarrow> string \<Rightarrow> ('h, outcome) act" where
  "showToken X name token = do {
     fid \<leftarrow> flash X (Text token);
     State_Monad.return (Redirect NodesPage [(''provisioned'', Text name), (''token_flash'', Text fid)]) }"

definition provisionNodeAction :: "'h ext \<Rightarrow> string \<Rightarrow> form \<Rightarrow> ('h, outcome) act" where
  "provisionNodeAction X who fd =
     (let name = field_name fd ''name'' in
      if \<not> isValidNodeName name
      then State_Monad.return (Redirect NodesPage [(''error'', Text ''Invalid node name (use a-z 0-9 and hyphen)'')])
      else do {
        r \<leftarrow> call (provisionNode X name who);
        (case r of Inl e \<Rightarrow> State_Monad.return (Thrown (Op e)) | Inr token \<Rightarrow> showToken X name token) })"

definition rotateNodeTokenAction :: "'h ext \<Rightarrow> string \<Rightarrow> form \<Rightarrow> ('h, outcome) act" where
  "rotateNodeTokenAction X who fd =
     (let name = field_name fd ''name'' in
      do {
        r \<leftarrow> call (rotateNodeToken X name who);
        (case r of Inl e \<Rightarrow> State_Monad.return (Thrown (Op e)) | Inr token \<Rightarrow> showToken X name token) })"

definition revokeNodeAction :: "string \<Rightarrow> form \<Rightarrow> ('h, outcome) act" where
  "revokeNodeAction who fd =
     (let name = field_name fd ''name'' in
      do { modify (revokeNode name who); State_Monad.return (Redirect NodesPage [(''revoked'', Text name)]) })"

definition to_nodes :: "(string \<times> act_error flash_value) list \<Rightarrow> error + unit \<Rightarrow> outcome" where
  "to_nodes ok r = (case r of Inl e \<Rightarrow> Redirect NodesPage [(''error'', ErrorMessage (Op e))] | Inr _ \<Rightarrow> Redirect NodesPage ok)"

definition setNodeAliasAction :: "string \<Rightarrow> form \<Rightarrow> ('h, outcome) act" where
  "setNodeAliasAction who fd =
     do { r \<leftarrow> call (setNodeAlias (field_name fd ''name'') (field_str fd ''alias'' []) who); State_Monad.return (to_nodes [] r) }"

text \<open>The check of the backend at the start of \<open>setNodeColdStorage\<close>.\<close>

definition backend_of :: "string \<Rightarrow> cold_backend option" where
  "backend_of b = (if b = ''local_zfs'' then Some LocalZfs else if b = ''smb'' then Some Smb else None)"

definition setNodeColdStorageAction :: "string \<Rightarrow> form \<Rightarrow> ('h, outcome) act" where
  "setNodeColdStorageAction who fd =
     (let backend = field_str fd ''backend'' ''local_zfs''; ownerName = nonblank (field_name fd ''ownerName'') in
      case backend_of backend of
        None \<Rightarrow> State_Monad.return (Redirect NodesPage [(''error'', Text (''invalid cold backend '' @ quoted backend))])
      | Some b \<Rightarrow> do {
          r \<leftarrow> call (setNodeColdStorage (field_name fd ''name'') b (if b = Smb then ownerName else None) who);
          State_Monad.return (to_nodes [] r) })"

definition deleteNodeAction :: "string \<Rightarrow> form \<Rightarrow> ('h, outcome) act" where
  "deleteNodeAction who fd =
     (let name = field_name fd ''name'' in
      do {
        r \<leftarrow> call (deleteNode name who (map_of fd ''force'' = Some ''1''));
        State_Monad.return (to_nodes [(''deleted'', Text name)] r) })"

text \<open>\<open>nodeTask\<close>, with the message of the page: health check, repair and reboot.\<close>

definition node_task_action :: "'h ext \<Rightarrow> string \<Rightarrow> string \<Rightarrow> string \<Rightarrow> form \<Rightarrow> ('h, outcome) act" where
  "node_task_action X action what who fd =
     (let name = field_name fd ''name'' in
      if \<not> isValidNodeName name then State_Monad.return (Thrown (Form InvalidNodeName))
      else do {
        modify (enqueue X name action (JObj []) (Some who));
        State_Monad.return (Redirect NodesPage [(''maintenance'', Text (what @ '' queued for '' @ name))]) })"

definition checkNodeAction :: "'h ext \<Rightarrow> string \<Rightarrow> form \<Rightarrow> ('h, outcome) act" where
  "checkNodeAction X = node_task_action X ''node.check'' ''Health check''"

definition repairNodeAction :: "'h ext \<Rightarrow> string \<Rightarrow> form \<Rightarrow> ('h, outcome) act" where
  "repairNodeAction X = node_task_action X ''node.repair'' ''Safe repair''"

definition rebootNodeAction :: "'h ext \<Rightarrow> string \<Rightarrow> form \<Rightarrow> ('h, outcome) act" where
  "rebootNodeAction X = node_task_action X ''node.reboot'' ''Reboot''"

section \<open>The GPU log\<close>

definition clearGpuEventsAction :: "string \<Rightarrow> ('h, outcome) act" where
  "clearGpuEventsAction who = do {
     r \<leftarrow> call (clearGpuEvents who);
     State_Monad.return (case r of Inl e \<Rightarrow> Thrown (Op e)
       | Inr n \<Rightarrow> Redirect GpuPage [(''cleared'', Text (''Cleared '' @ show_nat n @ '' event'' @ (if n = 1 then [] else ''s'')))]) }"

definition deleteGpuEventAction :: "string \<Rightarrow> form \<Rightarrow> ('h, outcome) act" where
  "deleteGpuEventAction who fd = do {
     r \<leftarrow> peek (deleteGpuEvent (as_id (field_num fd ''id'')) who);
     (case r of
        None \<Rightarrow> State_Monad.return (Redirect GpuPage [(''cleared'', ErrorMessage (Form EventNotFound))])
      | Some w \<Rightarrow> do { modify (\<lambda>_. w); State_Monad.return (Redirect GpuPage [(''cleared'', Text ''Event deleted'')]) }) }"

section \<open>Settings\<close>

definition put_setting :: "'h ext \<Rightarrow> string \<Rightarrow> json \<Rightarrow> ('h, unit) act" where
  "put_setting X key v = do { _ \<leftarrow> call (setSetting X key v); State_Monad.return () }"

definition round_times :: "js_num \<Rightarrow> int \<Rightarrow> js_num" where
  "round_times x n = (case x of Fin r \<Rightarrow> Fin (of_int (math_round (r * of_int n))) | y \<Rightarrow> y)"

definition saveStorageSettingsAction :: "'h ext \<Rightarrow> form \<Rightarrow> ('h, outcome) act" where
  "saveStorageSettingsAction X fd =
     (let fastTb = field_num fd ''fastTb''; slowTb = field_num fd ''slowTb'';
          portStart = field_num fd ''sshPortStart''; portEnd = field_num fd ''sshPortEnd'';
          after = (case (portEnd, portStart) of (Fin e, Fin s) \<Rightarrow> s < e | (PosInf, Fin s) \<Rightarrow> True | (e, NegInf) \<Rightarrow> e \<noteq> NaN \<and> e \<noteq> NegInf | _ \<Rightarrow> False) in
      do {
        (if num_gt fastTb 0 then put_setting X ''fastQuotaDefaultBytes'' (num_json (round_times fastTb TIB)) else State_Monad.return ());
        (if num_gt slowTb 0 then put_setting X ''slowQuotaDefaultBytes'' (num_json (round_times slowTb TIB)) else State_Monad.return ());
        (if num_gt portStart 0 then put_setting X ''sshPortStart'' (num_json portStart) else State_Monad.return ());
        (if after then put_setting X ''sshPortEnd'' (num_json portEnd) else State_Monad.return ());
        State_Monad.return Returned })"

text \<open>An hour of the day, truncated, or the default; a time zone the platform knows, or UTC.\<close>

definition form_hour :: "js_num \<Rightarrow> int \<Rightarrow> json" where
  "form_hour x d = (case x of Fin r \<Rightarrow> if 0 \<le> r \<and> r \<le> 23 then j_int (math_trunc r) else j_int d | _ \<Rightarrow> j_int d)"

definition form_zone :: "'h ext \<Rightarrow> string \<Rightarrow> json" where
  "form_zone X tz = JStr (if tz \<noteq> [] \<and> tz_valid X tz then tz else ''UTC'')"

definition saveUsageScanSettingsAction :: "'h ext \<Rightarrow> form \<Rightarrow> ('h, outcome) act" where
  "saveUsageScanSettingsAction X fd = do {
     put_setting X ''usageScanEnabled'' (JBool (field_on fd ''usageScanEnabled''));
     put_setting X ''usageScanHour'' (form_hour (field_num fd ''usageScanHour'') 3);
     put_setting X ''usageScanTimezone'' (form_zone X (field_trim fd ''usageScanTimezone''));
     State_Monad.return Returned }"

definition saveScrubSettingsAction :: "'h ext \<Rightarrow> form \<Rightarrow> ('h, outcome) act" where
  "saveScrubSettingsAction X fd = do {
     put_setting X ''scrubEnabled'' (JBool (field_on fd ''scrubEnabled''));
     put_setting X ''scrubIntervalDays'' (num_json (num_or (field_num fd ''scrubIntervalDays'') 30));
     put_setting X ''scrubHour'' (form_hour (field_num fd ''scrubHour'') 2);
     put_setting X ''scrubTimezone'' (form_zone X (field_trim fd ''scrubTimezone''));
     State_Monad.return Returned }"

definition at_least :: "js_num \<Rightarrow> rat \<Rightarrow> bool" where
  "at_least x c = (case x of Fin r \<Rightarrow> c \<le> r | _ \<Rightarrow> False)"

definition trunc_json :: "js_num \<Rightarrow> json" where
  "trunc_json x = (case x of Fin r \<Rightarrow> j_int (math_trunc r) | _ \<Rightarrow> JNull)"

definition is_fin :: "js_num \<Rightarrow> bool" where
  "is_fin x = (case x of Fin _ \<Rightarrow> True | _ \<Rightarrow> False)"

definition saveAlertSettingsAction :: "'h ext \<Rightarrow> form \<Rightarrow> ('h, outcome) act" where
  "saveAlertSettingsAction X fd =
     (let grace = field_num fd ''nodeOfflineGraceSeconds''; maxEntries = field_num fd ''logMaxEntries'';
          maxSizeMb = field_num fd ''logMaxSizeMb''; studentPct = field_num fd ''studentQuotaAlertPct'' in
      do {
        put_setting X ''alertsEnabled'' (JBool (field_on fd ''alertsEnabled''));
        put_setting X ''alertLevel'' (JStr (if field_str fd ''alertLevel'' ''ERROR'' = ''WARN'' then ''WARN'' else ''ERROR''));
        put_setting X ''alertDedupMinutes'' (num_json (num_or (field_num fd ''alertDedupMinutes'') 15));
        put_setting X ''nodeOfflineGraceSeconds'' (if at_least grace 0 then trunc_json grace else j_int 60);
        put_setting X ''logRetentionDays'' (num_json (num_or (field_num fd ''logRetentionDays'') 30));
        put_setting X ''logMaxEntries'' (if is_fin maxEntries \<and> num_gt maxEntries 0 then trunc_json maxEntries else j_int 0);
        put_setting X ''logMaxSizeMb'' (if is_fin maxSizeMb \<and> num_gt maxSizeMb 0 then num_json maxSizeMb else j_int 0);
        put_setting X ''quotaAlertPct'' (num_json (num_or (field_num fd ''quotaAlertPct'') 90));
        put_setting X ''studentQuotaAlertsEnabled'' (JBool (field_on fd ''studentQuotaAlertsEnabled''));
        put_setting X ''studentQuotaAlertPct''
          (case studentPct of Fin r \<Rightarrow> if 0 < r \<and> r \<le> 100 then JNum r else j_int 50 | _ \<Rightarrow> j_int 50);
        put_setting X ''studentQuotaNotifyAdmins'' (JBool (field_on fd ''studentQuotaNotifyAdmins''));
        modify (\<lambda>w. snd (pruneLogs X (of_int (clock w)) w));
        State_Monad.return Returned })"

text \<open>\<open>n.toLocaleString()\<close> in the locale en-US.\<close>

function locale_nat :: "nat \<Rightarrow> string" where
  "locale_nat n =
     (if n < 1000 then show_nat n
      else let r = n mod 1000 in
        locale_nat (n div 1000) @ '','' @ (if r < 10 then ''00'' else if r < 100 then ''0'' else []) @ show_nat r)"
  by pat_completeness auto
termination by (relation "measure id") auto

definition clearLogsAction :: "('h, outcome) act" where
  "clearLogsAction = do {
     n \<leftarrow> peek (\<lambda>w. tbl_changes (\<lambda>_. True) (logs w));
     modify (\<lambda>w. w\<lparr>logs := tbl_delete (\<lambda>_. True) (logs w)\<rparr>);
     State_Monad.return (Redirect SettingsPage
       [(''logs'', Text (''Deleted '' @ locale_nat n @ '' log '' @ (if n = 1 then ''entry'' else ''entries'')))]) }"

section \<open>The GPU policy\<close>

definition csv_names :: "string \<Rightarrow> string list" where
  "csv_names s = filter (\<lambda>x. x \<noteq> []) (map trim (splitOn (CHR '','') s))"

definition gpuPolicyPayload :: "'h ext \<Rightarrow> 'h world \<Rightarrow> json" where
  "gpuPolicyPayload X w = JObj [(''enabled'', getSetting X ''gpuEnabled'' w), (''util_threshold'', getSetting X ''gpuUtilThreshold'' w),
     (''idle_minutes'', getSetting X ''gpuIdleMinutes'' w), (''grace_minutes'', getSetting X ''gpuGraceMinutes'' w),
     (''immediate'', getSetting X ''gpuImmediate'' w),
     (''whitelist_users'', JArr (map JStr (csv_names (setting_str X ''gpuWhitelistUsers'' w)))),
     (''whitelist_labs'', JArr (map JStr (csv_names (setting_str X ''gpuWhitelistLabs'' w))))]"

definition broadcastGpuPolicy :: "'h ext \<Rightarrow> string option \<Rightarrow> 'h world \<Rightarrow> 'h world" where
  "broadcastGpuPolicy X actor w =
     fold (\<lambda>n w'. enqueue X (n_name n) ''gpu.policy.update'' (gpuPolicyPayload X w) actor w') (rows (nodes w)) w"

definition saveGpuPolicyAction :: "'h ext \<Rightarrow> string \<Rightarrow> form \<Rightarrow> ('h, outcome) act" where
  "saveGpuPolicyAction X who fd = do {
     put_setting X ''gpuEnabled'' (JBool (field_on fd ''gpuEnabled''));
     put_setting X ''gpuImmediate'' (JBool (field_on fd ''gpuImmediate''));
     put_setting X ''gpuUtilThreshold'' (num_json (num_or (field_num fd ''gpuUtilThreshold'') 5));
     put_setting X ''gpuIdleMinutes'' (num_json (num_or (field_num fd ''gpuIdleMinutes'') 20));
     put_setting X ''gpuGraceMinutes'' (num_json (num_or (field_num fd ''gpuGraceMinutes'') 10));
     put_setting X ''gpuWhitelistUsers'' (JStr (field_trim fd ''gpuWhitelistUsers''));
     put_setting X ''gpuWhitelistLabs'' (JStr (field_trim fd ''gpuWhitelistLabs''));
     modify (broadcastGpuPolicy X (Some who));
     State_Monad.return Returned }"

section \<open>Scrubs on demand\<close>

text \<open>Unlike the scheduler, a report of capabilities that is null is caught here.\<close>

definition scrub_capable :: "jtext option \<Rightarrow> bool" where
  "scrub_capable caps = (case zfs_capable caps of Inl _ \<Rightarrow> False | Inr b \<Rightarrow> b)"

definition scrub_now :: "'h ext \<Rightarrow> string \<Rightarrow> 'h world \<Rightarrow> 'h world" where
  "scrub_now X who w =
     fold (\<lambda>n w. upd_node (n_name n) (\<lambda>r. r\<lparr>n_last_scrub := Some (clock w)\<rparr>) (enqueue X (n_name n) ''node.scrub'' (JObj []) (Some who) w))
       (filter (\<lambda>n. scrub_capable (n_capabilities n)) (tbl_all n_online (nodes w))) w"

definition scrubNowAction :: "'h ext \<Rightarrow> string \<Rightarrow> ('h, outcome) act" where
  "scrubNowAction X who = do {
     count \<leftarrow> peek (\<lambda>w. length (filter (\<lambda>n. scrub_capable (n_capabilities n)) (tbl_all n_online (nodes w))));
     modify (scrub_now X who);
     State_Monad.return (Redirect SettingsPage [(''scrub'', Text (''Scrub started on '' @ show_nat count @ '' node(s)''))]) }"

section \<open>Facts\<close>

lemma good_clear_gpu: "core_ok w \<Longrightarrow> good_step w (snd (clearGpuEvents who w))"
  by (rule good_same_core) (simp_all add: same_coreI clearGpuEvents_def Let_def)

lemma good_delete_gpu: "core_ok w \<Longrightarrow> deleteGpuEvent i who w = Some w' \<Longrightarrow> good_step w w'"
  by (rule good_same_core, assumption) (auto simp: deleteGpuEvent_def Let_def split: if_splits intro!: same_coreI)

lemma good_clear_logs: "core_ok w \<Longrightarrow> good_step w (w\<lparr>logs := l\<rparr>)"
  by (rule good_same_core) (simp_all add: same_coreI)

lemma good_fold:
  assumes "\<And>x v. core_ok v \<Longrightarrow> good_step v (f x v)"
  shows "core_ok w \<Longrightarrow> good_step w (fold f xs w)"
proof (induction xs arbitrary: w)
  case (Cons x xs)
  have 1: "good_step w (f x w)" by (rule assms [OF Cons.prems])
  then have "good_step (f x w) (fold f xs (f x w))" by (intro Cons.IH) (simp add: good_step_def)
  from good_step_trans [OF 1 this] show ?case by simp
qed (simp add: good_step_refl)

lemma good_broadcast: "core_ok w \<Longrightarrow> good_step w (broadcastGpuPolicy X a w)"
  unfolding broadcastGpuPolicy_def by (rule good_fold [OF good_enqueue])

lemma good_scrub_now: "core_ok w \<Longrightarrow> good_step w (scrub_now X who w)"
  unfolding scrub_now_def
proof (rule good_fold)
  fix n and v :: "'a world" assume v: "core_ok v"
  let ?u = "enqueue X (n_name n) ''node.scrub'' (JObj []) (Some who) v"
  have u: "good_step v ?u" by (rule good_enqueue [OF v])
  then have "good_step ?u (upd_node (n_name n) (\<lambda>r. r\<lparr>n_last_scrub := Some (clock v)\<rparr>) ?u)"
    by (intro upd_node_good) (simp_all add: good_step_def)
  from good_step_trans [OF u this]
  show "good_step v (upd_node (n_name n) (\<lambda>r. r\<lparr>n_last_scrub := Some (clock v)\<rparr>) ?u)" .
qed

lemmas admin_safe [act_intros] =
  safe_modify [OF good_enqueue] safe_call [OF good_clear_gpu] safe_modify [OF good_clear_logs] safe_modify [OF good_broadcast]
  safe_modify [OF good_scrub_now] safe_modify [OF good_same_core [OF _ same_core_prune(1)]]

lemma safe_put_setting [act_intros]: "safe (put_setting X k v)"
  unfolding put_setting_def by (intro act_intros | assumption)+

lemma safe_admin_actions:
  "safe (provisionNodeAction X who fd)" "safe (rotateNodeTokenAction X who fd)" "safe (revokeNodeAction who fd)"
  "safe (setNodeAliasAction who fd)" "safe (setNodeColdStorageAction who fd)" "safe (deleteNodeAction who fd)"
  "safe (checkNodeAction X who fd)" "safe (repairNodeAction X who fd)" "safe (rebootNodeAction X who fd)"
  "safe (clearGpuEventsAction who)"
  "safe (saveStorageSettingsAction X fd)" "safe (saveUsageScanSettingsAction X fd)" "safe (saveScrubSettingsAction X fd)"
  "safe (saveAlertSettingsAction X fd)" "safe clearLogsAction" "safe (saveGpuPolicyAction X who fd)" "safe (scrubNowAction X who)"
  unfolding provisionNodeAction_def rotateNodeTokenAction_def revokeNodeAction_def setNodeAliasAction_def setNodeColdStorageAction_def
    deleteNodeAction_def checkNodeAction_def repairNodeAction_def rebootNodeAction_def node_task_action_def showToken_def
    clearGpuEventsAction_def saveStorageSettingsAction_def saveUsageScanSettingsAction_def saveScrubSettingsAction_def
    saveAlertSettingsAction_def clearLogsAction_def saveGpuPolicyAction_def scrubNowAction_def Let_def
  by (intro act_intros | assumption)+

lemma safe_deleteGpuEvent: "safe (deleteGpuEventAction who fd)"
proof -
  have "allowed s (snd (run_state (deleteGpuEventAction who fd) s))" for s :: "'a app"
  proof (cases "deleteGpuEvent (as_id (field_num fd ''id'')) who (ap_world s)")
    case None
    then show ?thesis by (simp add: deleteGpuEventAction_def peek_def allowed_same)
  next
    case (Some w)
    then show ?thesis
      using good_delete_gpu [OF _ Some] by (simp add: deleteGpuEventAction_def peek_def modify_def allowed_def)
  qed
  then show ?thesis by (simp add: state_io_rel_def)
qed

end
