(* ===== verification/BackupActions.thy ===== *)
theory BackupActions
  imports Backup_Facts AdminActions
begin

text \<open>
  The actions of the backup page (src/controller/src/app/(app)/backups/actions.ts): the two that save settings are
  actions on the database; those that talk to the server act on the site, that is the database with the remote
  collection and the staged file.
\<close>

definition backups_msg :: "act_error flash_value \<Rightarrow> outcome" where
  "backups_msg v = Redirect BackupsPage [(''msg'', v)]"

definition saveWebdavSettingsAction :: "'h ext \<Rightarrow> form \<Rightarrow> ('h, outcome) act" where
  "saveWebdavSettingsAction X fd =
     (let pass = field_str fd ''webdavPass'' []; dir = field_trim fd ''webdavBaseDir'' in
      do {
        put_setting X ''webdavUrl'' (JStr (field_trim fd ''webdavUrl''));
        put_setting X ''webdavUser'' (JStr (field_trim fd ''webdavUser''));
        (if pass \<noteq> [] then put_setting X ''webdavPass'' (JStr pass) else State_Monad.return ());
        put_setting X ''webdavBaseDir'' (JStr (if dir = [] then ''/backups'' else dir));
        State_Monad.return (backups_msg (Text ''Configuration saved'')) })"

text \<open>The parts of \<open>HH:MM\<close>; a part that is missing is undefined, which is no integer.\<close>

definition anchor_part :: "string \<Rightarrow> nat \<Rightarrow> int \<Rightarrow> int \<Rightarrow> json" where
  "anchor_part t i bound d =
     (let ps = splitOn (CHR '':'') t in
      if i < length ps
      then (case js_Number (ps ! i) of
              Fin r \<Rightarrow> if of_int \<lfloor>r\<rfloor> = r \<and> 0 \<le> r \<and> r \<le> of_int bound then JNum r else j_int d
            | _ \<Rightarrow> j_int d)
      else j_int d)"

definition nonNeg :: "form \<Rightarrow> string \<Rightarrow> int \<Rightarrow> json" where
  "nonNeg fd k d = (if at_least (field_num fd k) 0 then trunc_json (field_num fd k) else j_int d)"

definition saveScheduleAction :: "'h ext \<Rightarrow> form \<Rightarrow> ('h, outcome) act" where
  "saveScheduleAction X fd =
     (let anchor = field_str fd ''backupAnchor'' ''02:00'' in
      do {
        put_setting X ''backupEnabled'' (JBool (field_on fd ''backupEnabled''));
        put_setting X ''backupIntervalHours'' (num_json (num_or (field_num fd ''backupIntervalHours'') 24));
        put_setting X ''backupAnchorHour'' (anchor_part anchor 0 23 2);
        put_setting X ''backupAnchorMinute'' (anchor_part anchor 1 59 0);
        put_setting X ''backupTimezone'' (form_zone X (field_trim fd ''backupTimezone''));
        put_setting X ''backupKeepRecent'' (nonNeg fd ''backupKeepRecent'' 7);
        put_setting X ''backupKeepWeekly'' (nonNeg fd ''backupKeepWeekly'' 4);
        put_setting X ''backupKeepMonthly'' (nonNeg fd ''backupKeepMonthly'' 12);
        put_setting X ''backupKeepYearly'' (nonNeg fd ''backupKeepYearly'' 3);
        State_Monad.return (backups_msg (Text ''Schedule saved'')) })"

definition testConnectionAction :: "'h ext \<Rightarrow> ('h, 's) backup_ext \<Rightarrow> ('h, 's) site \<Rightarrow> outcome \<times> ('h, 's) site" where
  "testConnectionAction X B st =
     (case testConnection X B (st_world st) (st_remote st) of
        (Inl e, s) \<Rightarrow> (backups_msg (Text (''Connection failed: '' @ e)), st\<lparr>st_remote := s\<rparr>)
      | (Inr _, s) \<Rightarrow> (backups_msg (Text ''Connection OK''), st\<lparr>st_remote := s\<rparr>))"

definition backupNowAction :: "'h ext \<Rightarrow> ('h, 's) backup_ext \<Rightarrow> ('h, 's) site \<Rightarrow> outcome \<times> ('h, 's) site" where
  "backupNowAction X B st =
     (case backupAll X B (clock (st_world st)) st of
        (Inl e, st) \<Rightarrow> (backups_msg (Text (''Backup failed: '' @ e)), st)
      | (Inr (name, n), st) \<Rightarrow> (backups_msg (Text (''Backed up '' @ name)), st))"

definition restoreAction :: "'h ext \<Rightarrow> ('h, 's) backup_ext \<Rightarrow> form \<Rightarrow> ('h, 's) site \<Rightarrow> outcome \<times> ('h, 's) site" where
  "restoreAction X B fd st =
     (case stageRestore X B (field_str fd ''name'' []) st of
        (Inl e, st) \<Rightarrow> (backups_msg (Text (''Restore failed: '' @ e)), st)
      | (Inr _, st) \<Rightarrow> (backups_msg (Text ''Restore staged - restart the controller to apply it''), st))"

section \<open>Facts\<close>

lemma safe_backup_settings: "safe (saveWebdavSettingsAction X fd)" "safe (saveScheduleAction X fd)"
  unfolding saveWebdavSettingsAction_def saveScheduleAction_def Let_def
  by (intro act_intros | assumption)+

text \<open>A run of the backup leaves every table but the settings alone.\<close>

lemma good_put_set: "core_ok w \<Longrightarrow> good_step w (put_set X k v w)"
  unfolding put_set_def by (rule good_same_tables, assumption, rule setting_tables)

lemma good_put_more: "good_step u w \<Longrightarrow> good_step u (put_set X k v w)"
  using good_step_trans good_put_set unfolding good_step_def by blast

lemma good_backupAll:
  assumes "core_ok (st_world st)"
  shows "good_step (st_world st) (st_world (snd (backupAll X B stamp st)))"
proof -
  have now: "good_step (st_world st) (st_world (snd (backupNow X B stamp st)))"
    by (rule good_same_core [OF assms], rule same_coreI)
      (auto simp: backupNow_def Let_def split: sum.split prod.split)
  have rec: "good_step w (recordRun X t r w)" if "core_ok w" for t r and w :: "'a world"
    using that by (simp add: recordRun_def Let_def good_put_more good_step_refl split: sum.split prod.split)
  from now have "core_ok (st_world (snd (backupNow X B stamp st)))" by (simp add: good_step_def)
  with now rec show ?thesis by (auto simp: backupAll_def split_beta intro: good_step_trans)
qed

end
