(* ===== verification/Env.thy ===== *)
theory Env
  imports Forms
begin

text \<open>
  The bootstrap environment of the controller (src/controller/src/lib/env.ts): which values of the process
  environment it accepts, and that it fails closed on the others. The environment is a map from names to texts.
\<close>

type_synonym environ = "string \<Rightarrow> string option"

datatype env_error =
    MissingVar string
  | LooksLikePlaceholder string string
  | TooShortInProd string nat
  | SingleCharacter string
  | SessionSecretShort
  | PortNotInteger string
  | PortOutOfRange nat
  | DomainList
  | DomainScheme
  | DomainWildcard
  | DomainWithPort
  | DomainInvalid string

definition required :: "environ \<Rightarrow> string \<Rightarrow> env_error + string" where
  "required E name = (case E name of None \<Rightarrow> Inl (MissingVar name) | Some v \<Rightarrow> if v \<noteq> [] then Inr v else Inl (MissingVar name))"

definition PLACEHOLDER_MARKERS :: "string list" where
  "PLACEHOLDER_MARKERS = [''replace_with'', ''changeme'', ''change-me'', ''placeholder'', ''example'']"

definition isProdEnv :: "environ \<Rightarrow> bool" where
  "isProdEnv E = (E ''NODE_ENV'' = Some ''production'')"

text \<open>\<open>/^(.)\1*$/\<close>; the dot matches no line terminator.\<close>

definition single_char :: "string \<Rightarrow> bool" where
  "single_char v = (case v of [] \<Rightarrow> False | c # t \<Rightarrow> code_unit c \<notin> {10, 13} \<and> list_all (\<lambda>d. d = c) t)"

definition rejectWeak :: "environ \<Rightarrow> string \<Rightarrow> string \<Rightarrow> nat \<Rightarrow> env_error + string" where
  "rejectWeak E name v minLenProd =
     (case List.find (str_includes (toLower v)) PLACEHOLDER_MARKERS of
        Some m \<Rightarrow> Inl (LooksLikePlaceholder name m)
      | None \<Rightarrow>
          if isProdEnv E \<and> length v < minLenProd then Inl (TooShortInProd name minLenProd)
          else if isProdEnv E \<and> single_char v then Inl (SingleCharacter name)
          else Inr v)"

text \<open>One label of \<open>HOSTNAME_RE\<close>, and the whole pattern: labels between dots, at most 253 characters.\<close>

definition host_label :: "string \<Rightarrow> bool" where
  "host_label l \<longleftrightarrow> l \<noteq> [] \<and> length l \<le> 63 \<and> is_alnum (hd l) \<and> is_alnum (last l) \<and> list_all (\<lambda>c. is_alnum c \<or> c = CHR ''-'') l"

definition HOSTNAME_RE :: "string \<Rightarrow> bool" where
  "HOSTNAME_RE v \<longleftrightarrow> v \<noteq> [] \<and> length v \<le> 253 \<and> list_all host_label (splitOn (CHR ''.'') v)"

definition validateControllerDomain :: "string \<Rightarrow> env_error + string" where
  "validateControllerDomain raw =
     (let v = trim raw in
      if v = [] then Inr []
      else if CHR '','' \<in> set v then Inl DomainList
      else if str_includes v ''://'' \<or> CHR ''/'' \<in> set v then Inl DomainScheme
      else if CHR ''*'' \<in> set v then Inl DomainWildcard
      else if CHR '':'' \<in> set v then Inl DomainWithPort
      else if \<not> HOSTNAME_RE v then Inl (DomainInvalid v)
      else Inr (toLower v))"

definition env_or :: "environ \<Rightarrow> string \<Rightarrow> string \<Rightarrow> string" where
  "env_or E name d = (case E name of None \<Rightarrow> d | Some v \<Rightarrow> v)"

definition env_dbPath :: "environ \<Rightarrow> string" where
  "env_dbPath E = env_or E ''DB_PATH'' ''./data/controller.db''"

definition env_port :: "environ \<Rightarrow> env_error + nat" where
  "env_port E =
     (let raw = env_or E ''PORT'' ''8443''; ds = trim raw in
      if ds = [] \<or> \<not> list_all is_digit ds then Inl (PortNotInteger raw)
      else let n = dec_value ds in if n < 1 \<or> 65535 < n then Inl (PortOutOfRange n) else Inr n)"

definition secret_var :: "environ \<Rightarrow> string \<Rightarrow> nat \<Rightarrow> env_error + string" where
  "secret_var E name k = (case required E name of Inl e \<Rightarrow> Inl e | Inr v \<Rightarrow> rejectWeak E name v k)"

definition env_signupToken :: "environ \<Rightarrow> env_error + string" where
  "env_signupToken E = secret_var E ''SIGNUP_TOKEN'' 16"

definition env_agent_token :: "environ \<Rightarrow> env_error + string" where
  "env_agent_token E = secret_var E ''AGENT_TOKEN'' 16"

definition env_session_secret :: "environ \<Rightarrow> env_error + string" where
  "env_session_secret E =
     (case secret_var E ''SESSION_SECRET'' 32 of
        Inl e \<Rightarrow> Inl e
      | Inr secret \<Rightarrow> if length secret < 32 then Inl SessionSecretShort else Inr secret)"

definition env_controllerDomain :: "environ \<Rightarrow> env_error + string" where
  "env_controllerDomain E = validateControllerDomain (env_or E ''CONTROLLER_DOMAIN'' [])"

definition env_controllerOrigin :: "environ \<Rightarrow> env_error + string" where
  "env_controllerOrigin E = map_sum id (\<lambda>d. if d = [] then [] else ''https://'' @ d) (env_controllerDomain E)"

definition env_trustProxy :: "environ \<Rightarrow> env_error + bool" where
  "env_trustProxy E = map_sum id (\<lambda>d. d \<noteq> [] \<or> E ''TRUST_PROXY'' = Some ''1'') (env_controllerDomain E)"

definition env_backupKey :: "environ \<Rightarrow> env_error + string" where
  "env_backupKey E =
     (let v = env_or E ''BACKUP_KEY'' [] in if v = [] then Inr [] else rejectWeak E ''BACKUP_KEY'' v 16)"

text \<open>The first variable that is refused stops the start.\<close>

definition assertEnv :: "environ \<Rightarrow> env_error + unit" where
  "assertEnv E =
     (case env_port E of Inl e \<Rightarrow> Inl e | Inr p \<Rightarrow>
     (case env_signupToken E of Inl e \<Rightarrow> Inl e | Inr t \<Rightarrow>
     (case env_agent_token E of Inl e \<Rightarrow> Inl e | Inr a \<Rightarrow>
     (case env_session_secret E of Inl e \<Rightarrow> Inl e | Inr s \<Rightarrow> map_sum id (\<lambda>_. ()) (env_controllerDomain E)))))"

section \<open>What is accepted\<close>

definition strong :: "environ \<Rightarrow> nat \<Rightarrow> string \<Rightarrow> bool" where
  "strong E k v \<longleftrightarrow> v \<noteq> [] \<and> (\<forall>m \<in> set PLACEHOLDER_MARKERS. \<not> str_includes (toLower v) m) \<and>
     (isProdEnv E \<longrightarrow> k \<le> length v \<and> \<not> single_char v)"

lemma rejectWeak_iff: "v \<noteq> [] \<Longrightarrow> rejectWeak E name v k = Inr v' \<longleftrightarrow> v' = v \<and> strong E k v"
  by (auto simp: rejectWeak_def strong_def find_None_iff split: option.split if_splits dest: find_SomeD)

lemma secret_var_iff: "secret_var E name k = Inr v \<longleftrightarrow> E name = Some v \<and> strong E k v"
  by (auto simp: secret_var_def required_def rejectWeak_iff strong_def split: option.splits)

lemma lower_AZ: "is_AZ c \<Longrightarrow> is_az (lower_char c)"
  by (auto simp: is_AZ_def is_az_def lower_char_def is_upper_def code_unit_def Let_def)

lemma lower_alnum: "is_alnum c \<Longrightarrow> is_alnum (lower_char c)"
  using lower_AZ [of c] by (cases "is_AZ c") (auto simp: is_alnum_def lower_char_def is_upper_def is_AZ_def is_digit_def is_az_def Let_def)

lemma lower_sep: "c \<in> {CHR ''.'', CHR ''-''} \<Longrightarrow> lower_char d = c \<longleftrightarrow> d = c"
  by (auto simp: lower_char_def is_upper_def code_unit_def Let_def dest!: arg_cong [of _ _ "of_char :: char \<Rightarrow> nat"])

lemma lower_idem: "lower_char (lower_char c) = lower_char c"
  by (auto simp: lower_char_def is_upper_def code_unit_def Let_def)

lemma splitOn_lower: "splitOn (CHR ''.'') (toLower v) = map toLower (splitOn (CHR ''.'') v)"
  unfolding toLower_def by (induction v) (auto simp: lower_sep split: list.splits)

lemma host_label_lower: "host_label l \<Longrightarrow> host_label (toLower l)"
  by (auto simp: host_label_def toLower_def hd_map last_map list_all_iff lower_alnum lower_sep)

lemma hostname_lower: "HOSTNAME_RE v \<Longrightarrow> HOSTNAME_RE (toLower v)"
  unfolding HOSTNAME_RE_def splitOn_lower by (auto simp: list_all_iff host_label_lower) (simp_all add: toLower_def)

lemma set_splitOn: "c \<in> set v \<Longrightarrow> c = sep \<or> (\<exists>l \<in> set (splitOn sep v). c \<in> set l)"
  by (induction v) (auto split: list.splits)

lemma host_chars: "HOSTNAME_RE v \<Longrightarrow> c \<in> set v \<Longrightarrow> is_alnum c \<or> c = CHR ''-'' \<or> c = CHR ''.''"
  using set_splitOn [of c v "CHR ''.''"] by (fastforce simp: HOSTNAME_RE_def host_label_def list_all_iff)

lemma host_char_space: "is_alnum c \<or> c = CHR ''-'' \<or> c = CHR ''.'' \<Longrightarrow> \<not> js_space c \<and> c \<notin> set '',/*:''"
  by (auto simp: is_alnum_def is_digit_def is_az_def is_AZ_def js_space_def code_unit_def Let_def)

lemma dropWhile_none: "\<forall>c \<in> set v. \<not> P c \<Longrightarrow> dropWhile P v = v"
  by (cases v) auto

lemma trim_spaceless: "\<forall>c \<in> set v. \<not> js_space c \<Longrightarrow> trim v = v"
  by (simp add: trim_def trimEnd_def trimStart_def dropWhile_none)

lemma includes_head: "str_includes v (c # p) \<Longrightarrow> c \<in> set v"
proof (induction v)
  case (Cons d v)
  then show ?case by (cases "c = d") auto
qed simp

text \<open>An accepted domain is a hostname in lower case; it is accepted as it is, and it is what the proxy compares with.\<close>

lemma domain_accepted:
  assumes "validateControllerDomain raw = Inr d"
  shows "d = toLower (trim raw) \<and> (d = [] \<or> HOSTNAME_RE d) \<and> validateControllerDomain d = Inr d"
proof (cases "trim raw = []")
  case True
  with assms show ?thesis by (simp add: validateControllerDomain_def toLower_def trim_def trimEnd_def trimStart_def)
next
  case False
  with assms have d: "d = toLower (trim raw)" and h: "HOSTNAME_RE (trim raw)"
    by (auto simp: validateControllerDomain_def Let_def split: if_splits)
  from h have hd: "HOSTNAME_RE d" unfolding d by (rule hostname_lower)
  have c: "\<not> js_space c \<and> c \<notin> set '',/*:''" if "c \<in> set d" for c
    by (rule host_char_space) (rule host_chars [OF hd that])
  have "trim d = d" by (rule trim_spaceless) (use c in blast)
  moreover have "CHR '','' \<notin> set d" "CHR ''/'' \<notin> set d" "CHR ''*'' \<notin> set d" "CHR '':'' \<notin> set d" using c by auto
  moreover have "\<not> str_includes d ''://''" using includes_head [of d "CHR '':''"] calculation(5) by blast
  moreover have "toLower d = d" unfolding d toLower_def by (simp add: lower_idem)
  moreover have "d \<noteq> []" using hd by (auto simp: HOSTNAME_RE_def)
  ultimately have "validateControllerDomain d = Inr d"
    using hd by (simp add: validateControllerDomain_def)
  with d hd show ?thesis by simp
qed

lemma port_accepted: "env_port E = Inr p \<Longrightarrow> 1 \<le> p \<and> p \<le> 65535"
  by (auto simp: env_port_def Let_def split: if_splits)

lemma session_secret_iff:
  "env_session_secret E = Inr v \<longleftrightarrow> E ''SESSION_SECRET'' = Some v \<and> strong E 32 v \<and> 32 \<le> length v"
proof (cases "secret_var E ''SESSION_SECRET'' 32")
  case (Inl e)
  with secret_var_iff [of E "''SESSION_SECRET''" 32 v] show ?thesis by (auto simp: env_session_secret_def)
next
  case (Inr u)
  with secret_var_iff [of E "''SESSION_SECRET''" 32 v] secret_var_iff [of E "''SESSION_SECRET''" 32 u] show ?thesis
    by (auto simp: env_session_secret_def)
qed

lemma assertEnv_iff:
  "assertEnv E = Inr () \<longleftrightarrow>
     (\<exists>p. env_port E = Inr p) \<and> (\<exists>t. E ''SIGNUP_TOKEN'' = Some t \<and> strong E 16 t) \<and>
     (\<exists>a. E ''AGENT_TOKEN'' = Some a \<and> strong E 16 a) \<and>
     (\<exists>s. E ''SESSION_SECRET'' = Some s \<and> strong E 32 s \<and> 32 \<le> length s) \<and>
     (\<exists>d. env_controllerDomain E = Inr d)"
proof -
  have "assertEnv E = Inr () \<longleftrightarrow> (\<exists>p. env_port E = Inr p) \<and> (\<exists>t. env_signupToken E = Inr t) \<and> (\<exists>a. env_agent_token E = Inr a) \<and>
     (\<exists>s. env_session_secret E = Inr s) \<and> (\<exists>d. env_controllerDomain E = Inr d)"
    by (cases "env_controllerDomain E") (simp_all add: assertEnv_def split: sum.split)
  then show ?thesis by (simp add: env_signupToken_def env_agent_token_def secret_var_iff session_secret_iff)
qed

end
