(* ===== verification/Smtp.thy ===== *)
theory Smtp
  imports Forms "HOL-Library.Product_Lexorder"
begin

text \<open>
  The ranked SMTP servers (getSmtpConfigs of src/controller/src/lib/settings.ts) and the sending of one message
  with failover (sendMail of mailer.ts). nodemailer is a parameter: \<open>deliver\<close> answers whether a server accepts a
  message, with its error message. The collation of the locale is one too: \<open>coll\<close> gives the sort key of a name.
\<close>

record smtp_config =
  mx_id :: string
  mx_name :: string
  mx_rank :: rat
  mx_host :: string
  mx_port :: js_num
  mx_user :: string
  mx_pass :: string
  mx_from :: string
  mx_secure :: bool

text \<open>\<open>Number(v)\<close> on a JSON value; arrays go through their string.\<close>

definition to_Number :: "'h ext \<Rightarrow> json option \<Rightarrow> js_num" where
  "to_Number X v =
     (case v of
        None \<Rightarrow> NaN
      | Some JNull \<Rightarrow> Fin 0
      | Some (JBool b) \<Rightarrow> Fin (if b then 1 else 0)
      | Some (JNum r) \<Rightarrow> Fin r
      | Some (JInf b) \<Rightarrow> if b then PosInf else NegInf
      | Some (JStr s) \<Rightarrow> js_Number s
      | Some (JObj kvs) \<Rightarrow> NaN
      | Some (JArr vs) \<Rightarrow> js_Number (js_string X (Some (JArr vs))))"

text \<open>\<open>String(v || d)\<close>.\<close>

definition string_or :: "'h ext \<Rightarrow> json option \<Rightarrow> string \<Rightarrow> string" where
  "string_or X v d = (case v of None \<Rightarrow> d | Some j \<Rightarrow> if truthy j then js_string X (Some j) else d)"

definition num_trunc :: "js_num \<Rightarrow> js_num" where
  "num_trunc x = (case x of Fin r \<Rightarrow> Fin (of_int (math_trunc r)) | y \<Rightarrow> y)"

definition read_smtp :: "'h ext \<Rightarrow> nat \<Rightarrow> json \<Rightarrow> smtp_config" where
  "read_smtp X index c =
     (let pos = show_nat (index + 1) in
      \<lparr>mx_id = string_or X (jget ''id'' c) (''smtp-'' @ pos),
        mx_name = string_or X (jget ''name'' c) (''SMTP '' @ pos),
        mx_rank = (case to_Number X (jget ''rank'' c) of Fin r \<Rightarrow> max 1 (of_int (math_trunc r)) | _ \<Rightarrow> of_nat (index + 1)),
        mx_host = trim (string_or X (jget ''host'' c) []),
        mx_port = (if num_gt (to_Number X (jget ''port'' c)) 0 then num_trunc (to_Number X (jget ''port'' c)) else Fin 587),
        mx_user = trim (string_or X (jget ''user'' c) []),
        mx_pass = string_or X (jget ''pass'' c) [],
        mx_from = trim (string_or X (jget ''from'' c) []),
        mx_secure = (case jget ''secure'' c of None \<Rightarrow> False | Some j \<Rightarrow> truthy j)\<rparr>)"

definition is_object :: "json \<Rightarrow> bool" where
  "is_object j = (case j of JObj kvs \<Rightarrow> True | JArr vs \<Rightarrow> True | _ \<Rightarrow> False)"

definition ranked_configs :: "'h ext \<Rightarrow> (string \<Rightarrow> string) \<Rightarrow> json list \<Rightarrow> smtp_config list" where
  "ranked_configs X coll cs =
     sort_key (\<lambda>c. (mx_rank c, coll (mx_name c)))
       (map (\<lambda>(i, c). read_smtp X i c) (List.enumerate 0 (filter is_object cs)))"

text \<open>\<open>None\<close>: the stored value is not an array, and \<open>filter\<close> of it throws.\<close>

definition getSmtpConfigs :: "'h ext \<Rightarrow> (string \<Rightarrow> string) \<Rightarrow> 'h world \<Rightarrow> smtp_config list option" where
  "getSmtpConfigs X coll w =
     (if map_of (settings w) ''smtpConfigs'' \<noteq> None
      then (case getSetting X ''smtpConfigs'' w of JArr cs \<Rightarrow> Some (ranked_configs X coll cs) | _ \<Rightarrow> None)
      else let host = trim (setting_str X ''smtpHost'' w); sender = trim (setting_str X ''smtpFrom'' w) in
        if host = [] \<and> sender = [] then Some []
        else Some [\<lparr>mx_id = ''legacy'', mx_name = ''Primary SMTP'', mx_rank = 1, mx_host = host,
               mx_port = Fin (setting_num X ''smtpPort'' w), mx_user = trim (setting_str X ''smtpUser'' w),
               mx_pass = setting_str X ''smtpPass'' w, mx_from = sender, mx_secure = setting_bool X ''smtpSecure'' w\<rparr>])"

definition smtp_usable :: "smtp_config \<Rightarrow> bool" where
  "smtp_usable c = (mx_host c \<noteq> [] \<and> mx_from c \<noteq> [])"

definition isSmtpConfigured :: "'h ext \<Rightarrow> (string \<Rightarrow> string) \<Rightarrow> 'h world \<Rightarrow> bool option" where
  "isSmtpConfigured X coll w = map_option (list_ex smtp_usable) (getSmtpConfigs X coll w)"

section \<open>Sending\<close>

record message =
  ms_to :: string
  ms_subject :: string
  ms_text :: string

type_synonym deliver = "smtp_config \<Rightarrow> message \<Rightarrow> string option"

text \<open>\<open>text.replace(signature, "").trimEnd()\<close>: the dash of the legacy signature is outside Latin-1, so it never occurs in a string here.\<close>

definition stripLegacyEmailSignature :: "string \<Rightarrow> string" where
  "stripLegacyEmailSignature text = trimEnd text"

definition emailContent :: "'h ext \<Rightarrow> 'h world \<Rightarrow> string \<Rightarrow> string" where
  "emailContent X w body =
     (let cleanBody = trimEnd (stripLegacyEmailSignature body); signatureText = trim (setting_str X ''emailSignatureText'' w)
      in join [CHR 0x0A, CHR 0x0A] (filter (\<lambda>x. x \<noteq> []) [cleanBody, signatureText]))"

datatype send_result = Sent | Skipped | NotSent string

fun try_servers :: "deliver \<Rightarrow> bool \<Rightarrow> message \<Rightarrow> smtp_config list \<Rightarrow> string list \<Rightarrow> send_result" where
  "try_servers d single m [] errors = NotSent (join ''; '' errors)"
| "try_servers d single m (c # cs) errors =
     (case d c m of
        None \<Rightarrow> Sent
      | Some e \<Rightarrow> try_servers d single m cs (errors @ [if single then e else mx_name c @ '': '' @ e]))"

text \<open>\<open>None\<close>: the configuration throws.\<close>

definition sendMail :: "'h ext \<Rightarrow> (string \<Rightarrow> string) \<Rightarrow> deliver \<Rightarrow> 'h world \<Rightarrow> string \<Rightarrow> string \<Rightarrow> string \<Rightarrow> send_result option" where
  "sendMail X coll d w to subject text =
     (case getSmtpConfigs X coll w of
        None \<Rightarrow> None
      | Some all \<Rightarrow>
          let configs = filter smtp_usable all in
          if configs = [] \<or> to = [] then Some Skipped
          else Some (try_servers d (length configs = 1) \<lparr>ms_to = to, ms_subject = subject, ms_text = emailContent X w text\<rparr> configs []))"

section \<open>Facts\<close>

text \<open>The servers that were offered a message: all up to and including the first that accepts it.\<close>

fun offered :: "deliver \<Rightarrow> message \<Rightarrow> smtp_config list \<Rightarrow> smtp_config list" where
  "offered d m [] = []"
| "offered d m (c # cs) = (if d c m = None then [c] else c # offered d m cs)"

lemma try_servers_Sent: "try_servers d single m cs es = Sent \<longleftrightarrow> (\<exists>c \<in> set cs. d c m = None)"
  by (induction d single m cs es rule: try_servers.induct) (auto split: option.split)

lemma try_servers_NotSent:
  "\<forall>c \<in> set cs. d c m \<noteq> None \<Longrightarrow>
     try_servers d single m cs es = NotSent (join ''; '' (es @ map (\<lambda>c. if single then the (d c m) else mx_name c @ '': '' @ the (d c m)) cs))"
  by (induction cs arbitrary: es) auto

lemma try_servers_not_Skipped: "try_servers d single m cs es \<noteq> Skipped"
  by (induction d single m cs es rule: try_servers.induct) (auto split: option.split)

lemma ranked_sorted: "sorted (map mx_rank (ranked_configs X coll cs))"
proof -
  let ?k = "\<lambda>c. (mx_rank c, coll (mx_name c))"
  have "sorted (map ?k (ranked_configs X coll cs))" by (simp add: ranked_configs_def)
  then show ?thesis by (auto simp: sorted_map less_eq_prod_def elim!: sorted_wrt_mono_rel [rotated])
qed

end
