(* ===== verification/Auth.thy ===== *)
theory Auth
  imports Smtp Students
begin

text \<open>
  Accounts and sessions of the administrators (src/controller/src/lib/auth.ts). bcrypt and the signing and
  verification of a JWT are parameters; a verified token is its payload as a JSON value. A session is revoked by the
  counter \<open>token_version\<close> of its account. Waiting for bcrypt splits createAdmin into its checks and its insertion.
\<close>

section \<open>Parameters\<close>

text \<open>
  \<open>hash(password, cost)\<close> with the salt of a draw, \<open>compare(password, hash)\<close>, the hash that stands for an unknown account,
  \<open>SignJWT(payload).sign(key)\<close>, \<open>jwtVerify(token, key)\<close> at a time in ms, and the signup token of the environment.
\<close>

record auth_ext =
  bcrypt_hash :: "nat \<Rightarrow> string \<Rightarrow> string"
  bcrypt_compare :: "string \<Rightarrow> string \<Rightarrow> bool"
  DUMMY_HASH :: string
  jwt_sign :: "string \<Rightarrow> json \<Rightarrow> string"
  jwt_verify :: "string \<Rightarrow> int \<Rightarrow> string \<Rightarrow> json option"
  env_signup :: string

definition jwt_live :: "int \<Rightarrow> json \<Rightarrow> bool" where
  "jwt_live now p = (case jnum (jget ''exp'' p) of Some e \<Rightarrow> of_int (now div 1000) < e | None \<Rightarrow> True)"

text \<open>What the two packages document: a signature verifies until the token expires, a hash compares with its password.\<close>

definition jwt_ok :: "auth_ext \<Rightarrow> bool" where
  "jwt_ok A \<longleftrightarrow> (\<forall>k now p. jwt_sign A k p \<noteq> [] \<and> jwt_verify A k now (jwt_sign A k p) = (if jwt_live now p then Some p else None))"

definition bcrypt_ok :: "auth_ext \<Rightarrow> bool" where
  "bcrypt_ok A \<longleftrightarrow> (\<forall>k p. bcrypt_compare A p (bcrypt_hash A k p))"

section \<open>Accounts\<close>

record admin =
  ad_id :: nat
  ad_name :: string
  ad_email :: string

definition MIN_PASSWORD_LEN :: nat where
  "MIN_PASSWORD_LEN = 12"

definition SESSION_MAX_AGE :: int where
  "SESSION_MAX_AGE = 60 * 60 * 24"

definition admin_of :: "admin_row \<Rightarrow> admin" where
  "admin_of r = \<lparr>ad_id = a_id r, ad_name = a_name r, ad_email = a_email r\<rparr>"

definition tokenVersion :: "nat \<Rightarrow> 'h world \<Rightarrow> int" where
  "tokenVersion i w = (case tbl_get (\<lambda>r. a_id r = i) (admins w) of None \<Rightarrow> 0 | Some r \<Rightarrow> a_token_version r)"

definition createAdmin_check :: "'h ext \<Rightarrow> auth_ext \<Rightarrow> string \<Rightarrow> string \<Rightarrow> string \<Rightarrow> 'h world \<Rightarrow> error + string" where
  "createAdmin_check X A email password signupToken w =
     (if \<not> safeEqual X signupToken (env_signup A) then Inl (AuthE BadSignupToken)
      else if length password < MIN_PASSWORD_LEN then Inl (AuthE PasswordTooShort)
      else (case normalizeEmail (Some email) of
              None \<Rightarrow> Inl (AuthE EmailRequired)
            | Some normEmail \<Rightarrow>
                if tbl_get (\<lambda>r. a_email r = normEmail) (admins w) \<noteq> None then Inl (AuthE AdminExists) else Inr normEmail))"

definition createAdmin_insert :: "auth_ext \<Rightarrow> string \<Rightarrow> string \<Rightarrow> string \<Rightarrow> (admin, 'h) op" where
  "createAdmin_insert A name normEmail password w =
     (if tbl_get (\<lambda>r. a_email r = normEmail) (admins w) \<noteq> None then (Inl (SqliteConstraint ''UNIQUE admins.email''), w)
      else (Inr \<lparr>ad_id = tbl_next (admins w), ad_name = name, ad_email = normEmail\<rparr>,
        w\<lparr>admins := tbl_insert (\<lambda>i. \<lparr>a_id = i, a_name = name, a_email = normEmail, a_password_hash = bcrypt_hash A (draws w) password,
             a_created_at = clock w, a_is_active = True, a_token_version = 0\<rparr>) (admins w),
           draws := draws w + 1\<rparr>))"

definition createAdmin :: "'h ext \<Rightarrow> auth_ext \<Rightarrow> string \<Rightarrow> string \<Rightarrow> string \<Rightarrow> string \<Rightarrow> (admin, 'h) op" where
  "createAdmin X A name email password signupToken w =
     (case createAdmin_check X A email password signupToken w of
        Inl e \<Rightarrow> (Inl e, w)
      | Inr normEmail \<Rightarrow> createAdmin_insert A name normEmail password w)"

text \<open>The comparison always runs, with the stored hash or the dummy.\<close>

definition verifyLogin :: "auth_ext \<Rightarrow> string \<Rightarrow> string \<Rightarrow> 'h world \<Rightarrow> admin option" where
  "verifyLogin A email password w =
     (let row = (case normalizeEmail (Some email) of None \<Rightarrow> None | Some e \<Rightarrow> tbl_get (\<lambda>r. a_email r = e) (admins w));
          ok = bcrypt_compare A password (case row of None \<Rightarrow> DUMMY_HASH A | Some r \<Rightarrow> a_password_hash r)
      in (case row of
            None \<Rightarrow> None
          | Some r \<Rightarrow> if \<not> ok then None else if \<not> a_is_active r then None else Some (admin_of r)))"

definition logoutAllSessions :: "nat \<Rightarrow> 'h world \<Rightarrow> 'h world" where
  "logoutAllSessions adminId w =
     w\<lparr>admins := tbl_update (\<lambda>r. a_id r = adminId) (\<lambda>r. r\<lparr>a_token_version := a_token_version r + 1\<rparr>) (admins w)\<rparr>"

definition setAdminActive :: "nat \<Rightarrow> bool \<Rightarrow> 'h world \<Rightarrow> 'h world" where
  "setAdminActive adminId active w =
     w\<lparr>admins := tbl_update (\<lambda>r. a_id r = adminId) (\<lambda>r. r\<lparr>a_is_active := active\<rparr>) (admins w)\<rparr>"

definition adminCount :: "'h world \<Rightarrow> nat" where
  "adminCount w = length (rows (admins w))"

section \<open>Sessions\<close>

definition session_payload :: "admin \<Rightarrow> 'h world \<Rightarrow> json" where
  "session_payload a w =
     JObj [(''email'', JStr (ad_email a)), (''name'', JStr (ad_name a)), (''ver'', j_int (tokenVersion (ad_id a) w)),
       (''sub'', JStr (show_nat (ad_id a))), (''iat'', j_int (clock w div 1000)), (''exp'', j_int (clock w div 1000 + SESSION_MAX_AGE))]"

definition issueSession :: "'h ext \<Rightarrow> auth_ext \<Rightarrow> admin \<Rightarrow> 'h world \<Rightarrow> string" where
  "issueSession X A a w = jwt_sign A (env_sessionSecret X) (session_payload a w)"

record session_claims =
  se_sub :: "json option"
  se_email :: "json option"
  se_name :: "json option"
  se_ver :: js_num

definition claims_of :: "json \<Rightarrow> session_claims" where
  "claims_of p =
     \<lparr>se_sub = jget ''sub'' p, se_email = jget ''email'' p, se_name = jget ''name'' p,
      se_ver = (case jget ''ver'' p of Some (JNum r) \<Rightarrow> Fin r | Some (JInf b) \<Rightarrow> (if b then PosInf else NegInf) | _ \<Rightarrow> Fin 0)\<rparr>"

text \<open>The cookie of a request is \<open>None\<close> when it is absent.\<close>

definition currentAdmin :: "'h ext \<Rightarrow> auth_ext \<Rightarrow> string option \<Rightarrow> 'h world \<Rightarrow> session_claims option" where
  "currentAdmin X A cookie w =
     (case cookie of
        None \<Rightarrow> None
      | Some t \<Rightarrow> if t = [] then None else map_option claims_of (jwt_verify A (env_sessionSecret X) (clock w) t))"

definition claimed_row :: "'h ext \<Rightarrow> session_claims \<Rightarrow> 'h world \<Rightarrow> admin_row option" where
  "claimed_row X c w = (case to_Number X (se_sub c) of Fin q \<Rightarrow> tbl_get (\<lambda>r. of_nat (a_id r) = q) (admins w) | _ \<Rightarrow> None)"

text \<open>The administrator, or \<open>None\<close> for the redirect to the login page; and the cookie it leaves.\<close>

definition requireAdmin :: "'h ext \<Rightarrow> auth_ext \<Rightarrow> string option \<Rightarrow> 'h world \<Rightarrow> admin option \<times> string option" where
  "requireAdmin X A cookie w =
     (case currentAdmin X A cookie w of
        None \<Rightarrow> (None, cookie)
      | Some c \<Rightarrow>
          (case claimed_row X c w of
             None \<Rightarrow> (None, None)
           | Some r \<Rightarrow>
               if \<not> a_is_active r \<or> Fin (of_int (a_token_version r)) \<noteq> se_ver c then (None, None) else (Some (admin_of r), cookie)))"

definition requireAdminPage :: "'h ext \<Rightarrow> auth_ext \<Rightarrow> string option \<Rightarrow> 'h world \<Rightarrow> admin option" where
  "requireAdminPage X A cookie w =
     (case currentAdmin X A cookie w of
        None \<Rightarrow> None
      | Some c \<Rightarrow>
          (case claimed_row X c w of
             None \<Rightarrow> None
           | Some r \<Rightarrow> if \<not> a_is_active r \<or> Fin (of_int (a_token_version r)) \<noteq> se_ver c then None else Some (admin_of r)))"

end
