(* ===== verification/Auth_Facts.thy ===== *)
theory Auth_Facts
  imports Auth
begin

text \<open>
  What the sessions of auth.ts guarantee: the steps on the table of administrators never lower a token version nor
  reuse an id, so a session that was revoked stays revoked.
\<close>

section \<open>The table of administrators\<close>

text \<open>An operation of auth.ts, with the checks of a signup made at any earlier time, or one that leaves the table alone.\<close>

inductive auth_step :: "'h ext \<Rightarrow> auth_ext \<Rightarrow> 'h world \<Rightarrow> 'h world \<Rightarrow> bool" for X A where
  signup: "createAdmin_check X A email password token w0 = Inr e_mail \<Longrightarrow> auth_step X A w (snd (createAdmin_insert A name e_mail password w))"
| logout_all: "auth_step X A w (logoutAllSessions i w)"
| set_active: "auth_step X A w (setAdminActive i b w)"
| other: "admins w' = admins w \<Longrightarrow> auth_step X A w w'"

definition admins_ok :: "'h world \<Rightarrow> bool" where
  "admins_ok w \<longleftrightarrow> pk_ok a_id (admins w) \<and> distinct (map a_email (rows (admins w)))"

text \<open>Every account survives with its name and e-mail, and its token version does not go down.\<close>

definition admins_grow :: "'h world \<Rightarrow> 'h world \<Rightarrow> bool" where
  "admins_grow w w' \<longleftrightarrow> (\<forall>r \<in> set (rows (admins w)). \<exists>r' \<in> set (rows (admins w')).
     a_id r' = a_id r \<and> a_name r' = a_name r \<and> a_email r' = a_email r \<and> a_token_version r \<le> a_token_version r')"

lemma createAdmin_insert_rows:
  "rows (admins (snd (createAdmin_insert A name e_mail password w))) =
     rows (admins w) @ (if e_mail \<in> a_email ` set (rows (admins w)) then []
       else [\<lparr>a_id = tbl_next (admins w), a_name = name, a_email = e_mail, a_password_hash = bcrypt_hash A (draws w) password,
             a_created_at = clock w, a_is_active = True, a_token_version = 0\<rparr>])"
  by (auto simp: createAdmin_insert_def tbl_get_None)

lemma auth_step_ok: "auth_step X A w w' \<Longrightarrow> admins_ok w \<Longrightarrow> admins_ok w'"
proof (induction rule: auth_step.induct)
  case (signup email password token w0 e_mail w name)
  have "pk_ok a_id (admins (snd (createAdmin_insert A name e_mail password w)))"
    using signup.prems by (auto simp: createAdmin_insert_def admins_ok_def intro: pk_ok_insert)
  with signup.prems show ?case by (simp add: admins_ok_def createAdmin_insert_rows)
next
  case (logout_all w i)
  then show ?case
    unfolding admins_ok_def logoutAllSessions_def by (simp add: pk_ok_update col_tbl_update)
next
  case (set_active w i b)
  then show ?case
    unfolding admins_ok_def setAdminActive_def by (simp add: pk_ok_update col_tbl_update)
qed (simp add: admins_ok_def)

lemma admins_grow_refl: "admins_grow w w"
  by (auto simp: admins_grow_def)

lemma admins_grow_trans: "admins_grow w w' \<Longrightarrow> admins_grow w' w'' \<Longrightarrow> admins_grow w w''"
  unfolding admins_grow_def by (metis order_trans)

lemma grow_update:
  assumes "\<And>r. a_id (f r) = a_id r \<and> a_name (f r) = a_name r \<and> a_email (f r) = a_email r \<and> a_token_version r \<le> a_token_version (f r)"
  shows "admins_grow w (w\<lparr>admins := tbl_update P f (admins w)\<rparr>)"
proof -
  have "(if P r then f r else r) \<in> set (rows (tbl_update P f (admins w)))" if "r \<in> set (rows (admins w))" for r
    using that by (auto simp: rows_tbl_update)
  then show ?thesis using assms unfolding admins_grow_def by (fastforce split: if_splits)
qed

lemma auth_step_grow: "auth_step X A w w' \<Longrightarrow> admins_grow w w'"
proof (induction rule: auth_step.induct)
  case (signup email password token w0 e_mail w name)
  show ?case by (auto simp: admins_grow_def createAdmin_insert_rows)
next
  case (logout_all w i)
  show ?case unfolding logoutAllSessions_def by (rule grow_update) simp
next
  case (set_active w i b)
  show ?case unfolding setAdminActive_def by (rule grow_update) simp
qed (auto simp: admins_grow_def)

lemma auth_steps:
  assumes "(auth_step X A)\<^sup>*\<^sup>* w w'" "admins_ok w"
  shows "admins_ok w' \<and> admins_grow w w'"
  using assms
proof (induction rule: rtranclp_induct)
  case (step y z)
  then show ?case using auth_step_ok auth_step_grow admins_grow_trans by blast
qed (simp add: admins_grow_refl)

lemma tokenVersion_row: "admins_ok w \<Longrightarrow> r \<in> set (rows (admins w)) \<Longrightarrow> tokenVersion (a_id r) w = a_token_version r"
  by (simp add: tokenVersion_def admins_ok_def pk_get)

section \<open>An issued session\<close>

lemma claims_payload:
  "claims_of (session_payload a w) =
     \<lparr>se_sub = Some (JStr (show_nat (ad_id a))), se_email = Some (JStr (ad_email a)), se_name = Some (JStr (ad_name a)),
      se_ver = Fin (of_int (tokenVersion (ad_id a) w))\<rparr>"
  by (simp add: claims_of_def session_payload_def j_int_def)

lemma payload_live: "jwt_live now (session_payload a w) \<longleftrightarrow> now div 1000 < clock w div 1000 + SESSION_MAX_AGE"
  by (simp add: jwt_live_def session_payload_def j_int_def del: of_int_add)

lemma sub_number: "to_Number X (Some (JStr (show_nat n))) = (if of_nat n < MAX_DOUBLE_EXCLUSIVE then Fin (of_nat n) else js_Number (show_nat n))"
  by (simp add: to_Number_def js_Number_show_nat)

text \<open>The whole check of a session that was issued before, at any later time.\<close>

lemma requireAdmin_issued:
  assumes "jwt_ok A" "of_nat (ad_id a) < MAX_DOUBLE_EXCLUSIVE"
  shows "fst (requireAdmin X A (Some (issueSession X A a w)) w') = Some b \<longleftrightarrow>
     clock w' div 1000 < clock w div 1000 + SESSION_MAX_AGE \<and>
     (\<exists>r. tbl_get (\<lambda>r. a_id r = ad_id a) (admins w') = Some r \<and> a_is_active r \<and>
        a_token_version r = tokenVersion (ad_id a) w \<and> b = admin_of r)"
  using assms
  by (auto simp: requireAdmin_def currentAdmin_def issueSession_def jwt_ok_def payload_live claims_payload claimed_row_def
      sub_number split: option.splits)

text \<open>Pages and actions agree.\<close>

lemma requireAdminPage_eq: "requireAdminPage X A cookie w = fst (requireAdmin X A cookie w)"
  by (simp add: requireAdminPage_def requireAdmin_def split: option.split)

text \<open>Signing out everywhere: no session issued before is accepted again, whatever happens afterwards.\<close>

lemma session_revoked:
  assumes "jwt_ok A" "of_nat (ad_id a) < MAX_DOUBLE_EXCLUSIVE" "admins_ok w0" "ad_id a \<in> a_id ` set (rows (admins w0))"
    "(auth_step X A)\<^sup>*\<^sup>* w0 w1" "(auth_step X A)\<^sup>*\<^sup>* (logoutAllSessions (ad_id a) w1) w2"
  shows "fst (requireAdmin X A (Some (issueSession X A a w0)) w2) = None"
proof (rule ccontr)
  assume "fst (requireAdmin X A (Some (issueSession X A a w0)) w2) \<noteq> None"
  then obtain b where "fst (requireAdmin X A (Some (issueSession X A a w0)) w2) = Some b" by blast
  then obtain r2 where r2: "tbl_get (\<lambda>r. a_id r = ad_id a) (admins w2) = Some r2" "a_token_version r2 = tokenVersion (ad_id a) w0"
    using requireAdmin_issued [OF assms(1,2)] by blast
  obtain r0 where r0: "r0 \<in> set (rows (admins w0))" "a_id r0 = ad_id a" using assms(4) by auto
  have ok1: "admins_ok w1" and "admins_grow w0 w1" using auth_steps [OF assms(5,3)] by auto
  with r0 obtain r1 where r1: "r1 \<in> set (rows (admins w1))" "a_id r1 = ad_id a" "a_token_version r0 \<le> a_token_version r1"
    unfolding admins_grow_def by metis
  have "admins_ok (logoutAllSessions (ad_id a) w1)" using auth_step_ok [OF auth_step.logout_all ok1] .
  then have ok2: "admins_ok w2" and g: "admins_grow (logoutAllSessions (ad_id a) w1) w2" using auth_steps [OF assms(6)] by auto
  have "r1\<lparr>a_token_version := a_token_version r1 + 1\<rparr> \<in> set (rows (admins (logoutAllSessions (ad_id a) w1)))"
    unfolding logoutAllSessions_def using tbl_update_hit [OF r1(1)] r1(2) by simp
  with g obtain r3 where r3: "r3 \<in> set (rows (admins w2))" "a_id r3 = ad_id a" "a_token_version r1 + 1 \<le> a_token_version r3"
    unfolding admins_grow_def using r1(2) by fastforce
  have "r3 = r2" using tbl_get_Some [OF r2(1)] r3 ok2 pk_unique [of a_id "admins w2" r3 r2] by (simp add: admins_ok_def)
  moreover have "tokenVersion (ad_id a) w0 = a_token_version r0" using tokenVersion_row [OF assms(3) r0(1)] r0(2) by simp
  ultimately show False using r1(3) r3(3) r2(2) by simp
qed

section \<open>Signing up and in\<close>

lemma createAdmin_Inr:
  assumes "createAdmin X A name email password token w = (Inr a, w')"
  shows "safeEqual X token (env_signup A)" "MIN_PASSWORD_LEN \<le> length password" "normalizeEmail (Some email) = Some (ad_email a)"
    "rows (admins w') = rows (admins w) @ [\<lparr>a_id = ad_id a, a_name = ad_name a, a_email = ad_email a,
       a_password_hash = bcrypt_hash A (draws w) password, a_created_at = clock w, a_is_active = True, a_token_version = 0\<rparr>]"
    "ad_email a \<notin> a_email ` set (rows (admins w))" "ad_id a = tbl_next (admins w)" "ad_name a = name" "clock w' = clock w"
  using assms
  by (auto simp: createAdmin_def createAdmin_check_def createAdmin_insert_def tbl_get_None split: if_splits option.splits)

lemma createAdmin_refused: "createAdmin X A name email password token w = (Inl e, w') \<Longrightarrow> w' = w"
  by (auto simp: createAdmin_def createAdmin_insert_def split: sum.splits if_splits)

lemma createAdmin_step: "(auth_step X A)\<^sup>*\<^sup>* w (snd (createAdmin X A name email password token w))"
proof (cases "createAdmin_check X A email password token w")
  case (Inr e_mail)
  then show ?thesis by (auto simp: createAdmin_def intro: auth_step.signup)
qed (simp add: createAdmin_def)

lemma find_append: "List.find P (xs @ ys) = (case List.find P xs of Some x \<Rightarrow> Some x | None \<Rightarrow> List.find P ys)"
  by (induction xs) auto

text \<open>A new account signs in with its password, under any spelling of its e-mail, and the session is let in.\<close>

lemma signup_then_in:
  assumes "bcrypt_ok A" "jwt_ok A" "admins_ok w" "createAdmin X A name email password token w = (Inr a, w')"
    "normalizeEmail (Some email') = normalizeEmail (Some email)" "of_nat (ad_id a) < MAX_DOUBLE_EXCLUSIVE"
  shows "verifyLogin A email' password w' = Some a \<and> requireAdmin X A (Some (issueSession X A a w')) w' = (Some a, Some (issueSession X A a w'))"
proof -
  note c = createAdmin_Inr [OF assms(4)]
  have new: "ad_id a \<notin> a_id ` set (rows (admins w))" using pk_next_fresh [of a_id "admins w"] assms(3) c(6) by (simp add: admins_ok_def)
  have get: "tbl_get P (admins w') = (case tbl_get P (admins w) of Some r \<Rightarrow> Some r | None \<Rightarrow>
      if P (last (rows (admins w'))) then Some (last (rows (admins w'))) else None)" for P
    by (simp add: tbl_get_def c(4) find_append split: option.split)
  have e: "tbl_get (\<lambda>r. a_email r = ad_email a) (admins w) = None" unfolding tbl_get_None using c(5) by (metis image_eqI)
  have i: "tbl_get (\<lambda>r. a_id r = ad_id a) (admins w) = None" unfolding tbl_get_None using new by (metis image_eqI)
  have v: "verifyLogin A email' password w' = Some a"
    using assms(1,5) c(3) by (simp add: verifyLogin_def get e c(4) bcrypt_ok_def admin_of_def)
  have "fst (requireAdmin X A (Some (issueSession X A a w')) w') = Some a"
    unfolding requireAdmin_issued [OF assms(2,6)]
    by (simp add: get i c(4) admin_of_def tokenVersion_def SESSION_MAX_AGE_def)
  then have "requireAdmin X A (Some (issueSession X A a w')) w' = (Some a, Some (issueSession X A a w'))"
    by (auto simp: requireAdmin_def split: option.splits if_splits)
  with v show ?thesis by simp
qed

end
