(* ===== verification/Signin.thy ===== *)
theory Signin
  imports Env Auth_Facts RateLimit
begin

text \<open>
  The unauthenticated side of the web application: the address a request is counted under (clientIp of
  src/controller/src/lib/ratelimit.ts), the actions of the login and signup pages (src/controller/src/app), and the
  proxy in front of every page (src/controller/src/proxy.ts).
\<close>

definition clientIp :: "environ \<Rightarrow> (string \<Rightarrow> string option) \<Rightarrow> env_error + string" where
  "clientIp E headers =
     (case env_trustProxy E of
        Inl e \<Rightarrow> Inl e
      | Inr trust \<Rightarrow> Inr
          (if \<not> trust then ''untrusted-proxy''
           else let hops = (case headers ''x-forwarded-for'' of None \<Rightarrow> []
                    | Some fwd \<Rightarrow> if fwd = [] then [] else filter (\<lambda>x. x \<noteq> []) (map trim (splitOn (CHR '','') fwd)))
             in if hops \<noteq> [] then last hops
                else or_else (case headers ''x-real-ip'' of None \<Rightarrow> [] | Some x \<Rightarrow> trim x) ''unknown''))"

section \<open>Login and signup\<close>

datatype signin = TooManyAttempts | InvalidLogin | SignupFailed error | SignedIn admin string

text \<open>\<open>!consume(ip) || !consume(email)\<close>: the second bucket is asked only when the first admits.\<close>

definition login_admits :: "string \<Rightarrow> string \<Rightarrow> int \<Rightarrow> buckets \<Rightarrow> bool \<times> buckets" where
  "login_admits ip email now bs =
     (let (ok, bs) = consume (''login:ip:'' @ ip) AUTH_LIMIT now bs in
      if ok then consume (''login:email:'' @ email) AUTH_LIMIT now bs else (False, bs))"

text \<open>The account is read in \<open>w\<close>; the session is issued in \<open>w2\<close>, after the wait for bcrypt.\<close>

definition login :: "'h ext \<Rightarrow> auth_ext \<Rightarrow> string \<Rightarrow> form \<Rightarrow> 'h world \<Rightarrow> 'h world \<Rightarrow> buckets \<Rightarrow> signin \<times> buckets" where
  "login X A ip fd w w2 bs =
     (let email = field_str fd ''email'' []; password = field_str fd ''password'' [];
          (ok, bs) = login_admits ip email (clock w) bs
      in if \<not> ok then (TooManyAttempts, bs)
         else (case verifyLogin A email password w of
                 None \<Rightarrow> (InvalidLogin, bs)
               | Some a \<Rightarrow> (SignedIn a (issueSession X A a w2), bs)))"

definition signup :: "'h ext \<Rightarrow> auth_ext \<Rightarrow> string \<Rightarrow> form \<Rightarrow> 'h world \<Rightarrow> 'h world \<Rightarrow> buckets \<Rightarrow> signin \<times> 'h world \<times> buckets" where
  "signup X A ip fd w w2 bs =
     (let name = field_str fd ''name'' []; email = field_str fd ''email'' []; password = field_str fd ''password'' [];
          token = field_str fd ''token'' []; (ok, bs) = consume (''signup:ip:'' @ ip) AUTH_LIMIT (clock w) bs
      in if \<not> ok then (TooManyAttempts, w2, bs)
         else (case createAdmin_check X A email password token w of
                 Inl e \<Rightarrow> (SignupFailed e, w2, bs)
               | Inr normEmail \<Rightarrow>
                   (case createAdmin_insert A name normEmail password w2 of
                      (Inl e, w3) \<Rightarrow> (SignupFailed e, w3, bs)
                    | (Inr a, w3) \<Rightarrow> (SignedIn a (issueSession X A a w3), w3, bs))))"

section \<open>The proxy\<close>

record request =
  rq_method :: string
  rq_origin :: "string option"
  rq_cookie :: "string option"

datatype verdict = BadOrigin | ToLogin | PassOn

definition proxy :: "auth_ext \<Rightarrow> environ \<Rightarrow> int \<Rightarrow> request \<Rightarrow> verdict" where
  "proxy A E now r =
     (let domain = toLower (trim (env_or E ''CONTROLLER_DOMAIN'' [])); secret = env_or E ''SESSION_SECRET'' [] in
      if rq_method r \<notin> {''GET'', ''HEAD'', ''OPTIONS''} \<and> domain \<noteq> [] \<and> rq_origin r \<noteq> Some (''https://'' @ domain) then BadOrigin
      else (case rq_cookie r of
              None \<Rightarrow> ToLogin
            | Some token \<Rightarrow>
                if token = [] \<or> secret = [] \<or> jwt_verify A secret now token = None then ToLogin else PassOn))"

section \<open>Facts\<close>

lemma proxy_passes_admins:
  assumes "E ''SESSION_SECRET'' = Some (env_sessionSecret X)" "env_sessionSecret X \<noteq> []"
    "fst (requireAdmin X A (rq_cookie r) w) = Some a"
  shows "proxy A E (clock w) r \<noteq> ToLogin"
  using assms by (auto simp: proxy_def requireAdmin_def currentAdmin_def env_or_def Let_def split: option.splits if_splits)

lemma proxy_origin:
  assumes "env_controllerOrigin E = Inr origin" "origin \<noteq> []" "rq_method r = ''POST''"
  shows "proxy A E now r = BadOrigin \<longleftrightarrow> rq_origin r \<noteq> Some origin"
proof -
  obtain d where d: "env_controllerDomain E = Inr d" "d \<noteq> []" "origin = ''https://'' @ d"
    using assms(1,2) by (cases "env_controllerDomain E") (auto simp: env_controllerOrigin_def split: if_splits)
  then have "toLower (trim (env_or E ''CONTROLLER_DOMAIN'' [])) = d" using domain_accepted by (auto simp: env_controllerDomain_def)
  with d assms(3) show ?thesis by (auto simp: proxy_def Let_def split: option.split)
qed

lemma login_SignedIn:
  assumes "login X A ip fd w w2 bs = (SignedIn a token, bs')"
  shows "verifyLogin A (field_str fd ''email'' []) (field_str fd ''password'' []) w = Some a" "token = issueSession X A a w2"
  using assms by (auto simp: login_def Let_def split: prod.splits if_splits option.splits)

lemma verifyLogin_Some:
  assumes "verifyLogin A email password w = Some a"
  obtains r where "r \<in> set (rows (admins w))" "a = admin_of r" "normalizeEmail (Some email) = Some (a_email r)" "a_is_active r"
    "bcrypt_compare A password (a_password_hash r)"
  using assms by (auto simp: verifyLogin_def Let_def split: option.splits if_splits dest!: tbl_get_Some)

section \<open>Spellings of an address\<close>

text \<open>A bucket that is not there admits, and the map stays small.\<close>

lemma consume_fresh:
  assumes "length bs \<le> MAX_BUCKETS" "map_of bs key = None"
  shows "\<exists>b. consume key AUTH_LIMIT now bs = (True, AList.update key b bs)"
  using assms by (intro exI [of _ "(4, now)"]) (simp add: consume_def prune_def spend_def refilled_def AUTH_LIMIT_def)

text \<open>The attempts of a list of addresses and e-mails at one moment.\<close>

fun login_attempts :: "int \<Rightarrow> (string \<times> string) list \<Rightarrow> buckets \<Rightarrow> bool list" where
  "login_attempts now [] bs = []"
| "login_attempts now ((ip, email) # es) bs = (case login_admits ip email now bs of (ok, bs) \<Rightarrow> ok # login_attempts now es bs)"

lemma login_attempts_fresh:
  assumes "length bs + 2 * length es \<le> MAX_BUCKETS" "distinct (map fst es)" "distinct (map snd es)"
    "\<forall>(ip, email) \<in> set es. map_of bs (''login:ip:'' @ ip) = None \<and> map_of bs (''login:email:'' @ email) = None"
  shows "login_attempts now es bs = replicate (length es) True"
  using assms
proof (induction es arbitrary: bs)
  case (Cons p es)
  obtain ip email where p: "p = (ip, email)" by fastforce
  have f: "map_of bs (''login:ip:'' @ ip) = None" "map_of bs (''login:email:'' @ email) = None" using Cons.prems(4) p by auto
  have "length bs \<le> MAX_BUCKETS" using Cons.prems(1) by simp
  from consume_fresh [OF this f(1)] obtain b where b: "consume (''login:ip:'' @ ip) AUTH_LIMIT now bs = (True, AList.update (''login:ip:'' @ ip) b bs)" by blast
  let ?bs = "AList.update (''login:ip:'' @ ip) b bs"
  have l: "length ?bs \<le> Suc (length bs)" by (rule length_update_le)
  then have "length ?bs \<le> MAX_BUCKETS" using Cons.prems(1) by simp
  moreover have "map_of ?bs (''login:email:'' @ email) = None" using f(2) by (simp add: update_conv)
  ultimately obtain c where c: "consume (''login:email:'' @ email) AUTH_LIMIT now ?bs = (True, AList.update (''login:email:'' @ email) c ?bs)"
    using consume_fresh by blast
  let ?bs2 = "AList.update (''login:email:'' @ email) c ?bs"
  have "login_attempts now es ?bs2 = replicate (length es) True"
  proof (rule Cons.IH)
    show "length ?bs2 + 2 * length es \<le> MAX_BUCKETS" using length_update_le [of "''login:email:'' @ email" c ?bs] l Cons.prems(1) by simp
    show "distinct (map fst es)" "distinct (map snd es)" using Cons.prems by auto
    show "\<forall>(i, e) \<in> set es. map_of ?bs2 (''login:ip:'' @ i) = None \<and> map_of ?bs2 (''login:email:'' @ e) = None"
      using Cons.prems(2,3,4) p by (force simp: update_conv)
  qed
  with p b c show ?case by (simp add: login_admits_def)
qed simp

lemma trim_blanks: "trim (s @ replicate n (CHR '' '')) = trim s"
proof (cases "trimStart s = []")
  case True
  then have "trimStart (s @ t) = trimStart t" for t unfolding trimStart_def by (simp add: dropWhile_append)
  moreover have "trimStart (replicate n (CHR '' '')) = []" by (simp add: trimStart_def js_space_def code_unit_def)
  ultimately show ?thesis using True by (simp add: trim_def)
next
  case False
  then have "trimStart (s @ t) = trimStart s @ t" for t unfolding trimStart_def by (auto simp: dropWhile_append dropWhile_eq_Nil_conv)
  moreover have "trimEnd (u @ replicate n (CHR '' '')) = trimEnd u" for u
    by (simp add: trimEnd_def dropWhile_append js_space_def code_unit_def)
  ultimately show ?thesis by (simp add: trim_def)
qed

lemma spellings_evade:
  assumes "2 * n \<le> MAX_BUCKETS" "inj_on ips {0..<n}"
  shows "login_attempts now (map (\<lambda>i. (ips i, email @ replicate i (CHR '' ''))) [0..<n]) [] = replicate n True \<and>
     (\<forall>i p. verifyLogin A (email @ replicate i (CHR '' '')) p w = verifyLogin A email p w)"
proof
  let ?es = "map (\<lambda>i. (ips i, email @ replicate i (CHR '' ''))) [0..<n]"
  have "login_attempts now ?es [] = replicate (length ?es) True"
    by (rule login_attempts_fresh) (use assms in \<open>auto simp: distinct_map comp_def inj_on_def\<close>)
  then show "login_attempts now ?es [] = replicate n True" by simp
  show "\<forall>i p. verifyLogin A (email @ replicate i (CHR '' '')) p w = verifyLogin A email p w"
    by (simp add: verifyLogin_def normalizeEmail_def trim_blanks)
qed

end
