(* ===== verification/Template.thy ===== *)
theory Template
  imports World
begin

text \<open>
  The two kinds of placeholder of the mail templates (src/controller/src/lib/template.ts): \<open>{key}\<close>, filled
  from a table at every rendering, and \<open>[TOKEN]\<close>, filled once by the administrator. A text is split into
  literal characters and tokens; substitution is one pass over them, so a value is never scanned again.
\<close>

datatype seg = Lit char | Tok string

text \<open>
  A pair of delimiters with the characters of a key; the first of them may be more restricted. A match at
  the head takes the longest run of key characters, which must be followed by the closing delimiter.
\<close>

record token_re =
  tr_open :: char
  tr_close :: char
  tr_first :: "char \<Rightarrow> bool"
  tr_rest :: "char \<Rightarrow> bool"

definition token_match :: "token_re \<Rightarrow> string \<Rightarrow> (string \<times> string) option" where
  "token_match re s =
     (case s of
        [] \<Rightarrow> None
      | c # t \<Rightarrow>
          let k = takeWhile (tr_rest re) t; r = dropWhile (tr_rest re) t
          in if c = tr_open re \<and> k \<noteq> [] \<and> tr_first re (hd k) \<and> r \<noteq> [] \<and> hd r = tr_close re then Some (k, tl r) else None)"

lemma token_match_shorter: "token_match re s = Some (k, r) \<Longrightarrow> length r < length s"
proof -
  assume m: "token_match re s = Some (k, r)"
  then obtain c t where s: "s = c # t" by (auto simp: token_match_def split: list.splits)
  with m have "r = tl (dropWhile (tr_rest re) t)" by (auto simp: token_match_def Let_def split: if_splits)
  with s length_dropWhile_le [of "tr_rest re" t] show ?thesis by simp
qed

function segments :: "token_re \<Rightarrow> string \<Rightarrow> seg list" where
  "segments re s =
     (case token_match re s of
        Some (k, r) \<Rightarrow> Tok k # segments re r
      | None \<Rightarrow> (case s of [] \<Rightarrow> [] | c # t \<Rightarrow> Lit c # segments re t))"
  by auto

termination segments
  by (relation "measure (\<lambda>(re, s). length s)") (auto dest: token_match_shorter)

declare segments.simps [simp del]

lemma segments_unfold:
  "segments re [] = []"
  "token_match re (c # t) = None \<Longrightarrow> segments re (c # t) = Lit c # segments re t"
  "token_match re s = Some (k, r) \<Longrightarrow> segments re s = Tok k # segments re r"
  by (simp_all add: segments.simps [of re "[]"] segments.simps [of re "c # t"] segments.simps [of re s] token_match_def
      split: option.splits)

text \<open>The text of a token, and one pass of substitution; a token without a value is left as it is.\<close>

definition whole :: "token_re \<Rightarrow> string \<Rightarrow> string" where
  "whole re k = tr_open re # k @ [tr_close re]"

definition seg_text :: "token_re \<Rightarrow> (string \<Rightarrow> string option) \<Rightarrow> seg \<Rightarrow> string" where
  "seg_text re vars g = (case g of Lit c \<Rightarrow> [c] | Tok k \<Rightarrow> (case vars k of Some v \<Rightarrow> v | None \<Rightarrow> whole re k))"

definition substitute :: "token_re \<Rightarrow> (string \<Rightarrow> string option) \<Rightarrow> string \<Rightarrow> string" where
  "substitute re vars s = concat (map (seg_text re vars) (segments re s))"

definition is_word :: "char \<Rightarrow> bool" where
  "is_word c = (is_alnum c \<or> c = CHR ''_'')"

definition VAR_RE :: token_re where
  "VAR_RE = \<lparr>tr_open = CHR ''{'', tr_close = CHR ''}'', tr_first = is_word, tr_rest = is_word\<rparr>"

definition BRACKET_TOKEN_RE :: token_re where
  "BRACKET_TOKEN_RE = \<lparr>tr_open = CHR ''['', tr_close = CHR '']'', tr_first = is_AZ,
     tr_rest = (\<lambda>c. is_AZ c \<or> is_digit c \<or> c \<in> set '' _/-'')\<rparr>"

definition renderTemplate :: "string \<Rightarrow> (string \<times> string) list \<Rightarrow> string" where
  "renderTemplate template vars = substitute VAR_RE (map_of vars) template"

fun add_tokens :: "seg list \<Rightarrow> string list \<Rightarrow> string list" where
  "add_tokens [] tokens = tokens"
| "add_tokens (Lit c # gs) tokens = add_tokens gs tokens"
| "add_tokens (Tok k # gs) tokens = add_tokens gs (if k \<in> set tokens then tokens else tokens @ [k])"

definition extractBracketTokens :: "string \<Rightarrow> string list" where
  "extractBracketTokens text = add_tokens (segments BRACKET_TOKEN_RE text) []"

definition fillBracketTokens :: "string \<Rightarrow> (string \<times> string) list \<Rightarrow> string" where
  "fillBracketTokens text values = substitute BRACKET_TOKEN_RE (map_of values) text"

section \<open>Facts\<close>

definition seg_tokens :: "seg list \<Rightarrow> string list" where
  "seg_tokens gs = concat (map (\<lambda>g. case g of Lit c \<Rightarrow> [] | Tok k \<Rightarrow> [k]) gs)"

lemma token_match_text: "token_match re s = Some (k, r) \<Longrightarrow> s = whole re k @ r"
proof -
  assume m: "token_match re s = Some (k, r)"
  then obtain c t where s: "s = c # t" by (auto simp: token_match_def split: list.splits)
  with m have h: "c = tr_open re" "k = takeWhile (tr_rest re) t" "dropWhile (tr_rest re) t = tr_close re # r"
    by (auto simp: token_match_def Let_def neq_Nil_conv split: if_splits)
  from h(2,3) have "t = k @ tr_close re # r" by (metis takeWhile_dropWhile_id)
  with s h(1) show ?thesis by (simp add: whole_def)
qed

text \<open>The segments make up the text.\<close>

lemma substitute_none: "(\<And>k. Tok k \<in> set (segments re s) \<Longrightarrow> vars k = None) \<Longrightarrow> substitute re vars s = s"
proof (induction re s rule: segments.induct)
  case (1 re s)
  show ?case
  proof (cases "token_match re s")
    case None
    show ?thesis
    proof (cases s)
      case (Cons c t)
      with None have g: "segments re s = Lit c # segments re t" by (simp add: segments_unfold)
      have "substitute re vars t = t" by (rule "1.IH"(1) [OF None Cons]) (simp add: "1.prems" g)
      with g Cons show ?thesis by (simp add: substitute_def seg_text_def)
    qed (simp add: substitute_def segments_unfold)
  next
    case (Some p)
    obtain k r where p: "p = (k, r)" by fastforce
    with Some have g: "segments re s = Tok k # segments re r" by (simp add: segments_unfold)
    have "substitute re vars r = r" by (rule "1.IH"(2) [OF Some p [symmetric]]) (simp add: "1.prems" g)
    with g "1.prems" [of k] token_match_text [of re s k r] Some p show ?thesis
      by (simp add: substitute_def seg_text_def)
  qed
qed

lemma substitute_cong:
  "(\<And>k. Tok k \<in> set (segments re s) \<Longrightarrow> vars k = vars' k) \<Longrightarrow> substitute re vars s = substitute re vars' s"
  unfolding substitute_def by (intro arg_cong [of _ _ concat] map_cong) (auto simp: seg_text_def split: seg.splits)

lemma set_add_tokens: "set (add_tokens gs ts) = set ts \<union> {k. Tok k \<in> set gs}"
  by (induction gs ts rule: add_tokens.induct) auto

lemma distinct_add_tokens: "distinct ts \<Longrightarrow> distinct (add_tokens gs ts)"
  by (induction gs ts rule: add_tokens.induct) auto

lemma set_extract: "set (extractBracketTokens s) = {k. Tok k \<in> set (segments BRACKET_TOKEN_RE s)}"
  by (simp add: extractBracketTokens_def set_add_tokens)

lemma distinct_extract: "distinct (extractBracketTokens s)"
  by (simp add: extractBracketTokens_def distinct_add_tokens)

lemma token_match_other: "c \<noteq> tr_open re \<Longrightarrow> token_match re (c # t) = None"
  by (simp add: token_match_def Let_def)

text \<open>A text without the opening delimiter is only literal.\<close>

lemma segments_literal: "tr_open re \<notin> set s \<Longrightarrow> segments re s = map Lit s"
proof (induction s)
  case (Cons c t)
  then have "token_match re (c # t) = None" by (intro token_match_other) auto
  with Cons show ?case by (simp add: segments_unfold)
qed (simp add: segments_unfold)

text \<open>A text with a token between two parts, the first without the opening delimiter.\<close>

definition token_ok :: "token_re \<Rightarrow> string \<Rightarrow> bool" where
  "token_ok re k \<longleftrightarrow> k \<noteq> [] \<and> tr_first re (hd k) \<and> list_all (tr_rest re) k \<and> \<not> tr_rest re (tr_close re)"

lemma token_match_whole: "token_ok re k \<Longrightarrow> token_match re (whole re k @ s) = Some (k, s)"
  by (auto simp: token_ok_def whole_def token_match_def Let_def list_all_iff takeWhile_append2 dropWhile_append2)

lemma segments_whole: "token_ok re k \<Longrightarrow> segments re (whole re k @ s) = Tok k # segments re s"
  by (simp add: segments_unfold(3) token_match_whole)

lemma segments_prefix:
  assumes "tr_open re \<notin> set p" shows "segments re (p @ s) = map Lit p @ segments re s"
  using assms
proof (induction p)
  case (Cons c p)
  then have "token_match re (c # p @ s) = None" by (intro token_match_other) auto
  with Cons show ?case by (simp add: segments_unfold)
qed simp

end
