(* ===== verification/Mailer.thy ===== *)
theory Mailer
  imports Smtp Template
begin

text \<open>
  The texts of the mail the controller sends (src/controller/src/lib/mailer.ts): each kind has its table of
  values and a template from the settings with a built-in default. \<open>rendered\<close> takes a message of the outbox of
  \<open>World\<close> to its recipient, subject and body. The main fact is that no built-in template has a placeholder that
  its table leaves open.
\<close>

section \<open>Numbers\<close>

text \<open>\<open>v.toFixed(d)\<close> below \<open>1e21\<close>.\<close>

definition toFixed :: "rat \<Rightarrow> nat \<Rightarrow> string" where
  "toFixed v d =
     (let n = nat (math_round (\<bar>v\<bar> * 10 ^ d)); f = show_nat (n mod 10 ^ d)
      in (if v < 0 then ''-'' else []) @ show_nat (n div 10 ^ d) @
         (if d = 0 then [] else ''.'' @ replicate (d - length f) (CHR ''0'') @ f))"

fun scale_loop :: "rat \<Rightarrow> string list \<Rightarrow> nat \<Rightarrow> rat \<times> nat" where
  "scale_loop v (u # u' # us) i = (if 1024 \<le> v then scale_loop (v / 1024) (u' # us) (i + 1) else (v, i))"
| "scale_loop v us i = (v, i)"

definition byte_units :: "string list" where
  "byte_units = [''B'', ''KB'', ''MB'', ''GB'', ''TB'', ''PB'']"

definition fmtBytes :: "rat \<Rightarrow> string" where
  "fmtBytes n =
     (let (v, i) = scale_loop n byte_units 0 in toFixed v (if 100 \<le> v \<or> i = 0 then 0 else 1) @ '' '' @ byte_units ! i)"

section \<open>Rendering\<close>

type_synonym vars = "(string \<times> string) list"

text \<open>\<open>getSetting(key).trim() || d\<close>, rendered.\<close>

definition from_template :: "'h ext \<Rightarrow> 'h world \<Rightarrow> string \<Rightarrow> string \<Rightarrow> vars \<Rightarrow> string" where
  "from_template X w key d vars = renderTemplate (or_else (trim (setting_str X key w)) d) vars"

definition show_num :: "'h ext \<Rightarrow> rat \<Rightarrow> string" where
  "show_num X r = js_string X (Some (JNum r))"

definition opt_text :: "string option \<Rightarrow> string" where
  "opt_text x = (case x of None \<Rightarrow> [] | Some s \<Rightarrow> s)"

definition renderRemovalEmail :: "'h ext \<Rightarrow> 'h world \<Rightarrow> string \<Rightarrow> bool \<Rightarrow> string \<times> string" where
  "renderRemovalEmail X w lab dataDeleted =
     (let vars = [(''lab'', lab), (''data_status'', if dataDeleted then REMOVAL_DATA_DELETED else REMOVAL_DATA_RETAINED)] in
      (from_template X w ''removalEmailSubject'' DEFAULT_REMOVAL_SUBJECT vars, from_template X w ''removalEmailBody'' DEFAULT_REMOVAL_BODY vars))"

definition gpuEmailVars :: "string \<Rightarrow> string option \<Rightarrow> string \<Rightarrow> string \<Rightarrow> string \<Rightarrow> vars" where
  "gpuEmailVars username lab pid node graceMinutes =
     [(''username'', username), (''pid'', pid), (''lab'', opt_text lab), (''node'', node), (''grace_minutes'', graceMinutes)]"

definition renderGpuWarningEmail :: "'h ext \<Rightarrow> 'h world \<Rightarrow> vars \<Rightarrow> string \<times> string" where
  "renderGpuWarningEmail X w vars =
     (from_template X w ''gpuWarnEmailSubject'' DEFAULT_GPU_WARN_SUBJECT vars, from_template X w ''gpuWarnEmailBody'' DEFAULT_GPU_WARN_BODY vars)"

definition renderGpuKillEmail :: "'h ext \<Rightarrow> 'h world \<Rightarrow> vars \<Rightarrow> string \<times> string" where
  "renderGpuKillEmail X w vars =
     (from_template X w ''gpuKillEmailSubject'' DEFAULT_GPU_KILL_SUBJECT vars, from_template X w ''gpuKillEmailBody'' DEFAULT_GPU_KILL_BODY vars)"

definition padEnd :: "nat \<Rightarrow> string \<Rightarrow> string" where
  "padEnd n s = s @ replicate (n - length s) (CHR '' '')"

definition quotaEmailVars :: "string \<Rightarrow> string \<Rightarrow> string \<Rightarrow> string \<Rightarrow> string \<Rightarrow> (string \<times> string) list \<Rightarrow> vars" where
  "quotaEmailVars lab pool percent usedHuman quotaHuman breakdown =
     [(''lab'', lab), (''pool'', pool), (''pct'', percent), (''used'', usedHuman), (''quota'', quotaHuman),
      (''breakdown'', if breakdown = [] then ''  (no per-student usage reported yet)''
                      else text_of (map (\<lambda>(u, h). ''  '' @ padEnd 20 u @ '' '' @ h) breakdown))]"

definition renderQuotaEmail :: "'h ext \<Rightarrow> 'h world \<Rightarrow> vars \<Rightarrow> string \<times> string" where
  "renderQuotaEmail X w vars =
     (from_template X w ''quotaEmailSubject'' DEFAULT_QUOTA_SUBJECT vars, from_template X w ''quotaEmailBody'' DEFAULT_QUOTA_BODY vars)"

definition studentQuotaVars :: "string \<Rightarrow> string \<Rightarrow> string \<Rightarrow> string \<Rightarrow> string \<Rightarrow> string \<Rightarrow> string \<Rightarrow> string \<Rightarrow> vars" where
  "studentQuotaVars name username lab node pool percent usedHuman quotaHuman =
     [(''name'', name), (''username'', username), (''lab'', lab), (''node'', node), (''pool'', pool), (''pct'', percent),
      (''used'', usedHuman), (''quota'', quotaHuman)]"

definition renderStudentQuotaEmail :: "'h ext \<Rightarrow> 'h world \<Rightarrow> vars \<Rightarrow> string \<times> string" where
  "renderStudentQuotaEmail X w vars =
     (from_template X w ''studentQuotaEmailSubject'' DEFAULT_STUDENT_QUOTA_SUBJECT vars,
      from_template X w ''studentQuotaEmailBody'' DEFAULT_STUDENT_QUOTA_BODY vars)"

definition usageReportVars :: "string \<Rightarrow> string \<Rightarrow> string \<Rightarrow> string \<Rightarrow> vars" where
  "usageReportVars name lab node report = [(''name'', name), (''lab'', lab), (''node'', node), (''report'', report)]"

definition renderUsageReportEmail :: "'h ext \<Rightarrow> 'h world \<Rightarrow> bool \<Rightarrow> vars \<Rightarrow> string \<times> string" where
  "renderUsageReportEmail X w isPi vars =
     (if isPi
      then (from_template X w ''usageReportPiSubject'' DEFAULT_USAGE_REPORT_PI_SUBJECT vars,
            from_template X w ''usageReportPiBody'' DEFAULT_USAGE_REPORT_PI_BODY vars)
      else (from_template X w ''usageReportStudentSubject'' DEFAULT_USAGE_REPORT_STUDENT_SUBJECT vars,
            from_template X w ''usageReportStudentBody'' DEFAULT_USAGE_REPORT_STUDENT_BODY vars))"

definition placementCompleteVars :: "string \<Rightarrow> string \<Rightarrow> string \<Rightarrow> string list \<Rightarrow> string \<Rightarrow> string \<Rightarrow> string \<Rightarrow> string \<Rightarrow> vars" where
  "placementCompleteVars name lab node usernames fastQuota coldQuota studentFastQuota studentColdQuota =
     [(''name'', name), (''lab'', lab), (''node'', node), (''usernames'', text_of (map (\<lambda>u. ''  '' @ u) usernames)),
      (''fast_quota'', fastQuota), (''cold_quota'', coldQuota), (''student_fast_quota'', studentFastQuota),
      (''student_cold_quota'', studentColdQuota)]"

definition renderPlacementCompleteEmail :: "'h ext \<Rightarrow> 'h world \<Rightarrow> vars \<Rightarrow> string \<times> string" where
  "renderPlacementCompleteEmail X w vars =
     (from_template X w ''placementCompleteEmailSubject'' DEFAULT_PLACEMENT_COMPLETE_SUBJECT vars,
      from_template X w ''placementCompleteEmailBody'' DEFAULT_PLACEMENT_COMPLETE_BODY vars)"

definition welcomeEmailVars ::
    "string \<Rightarrow> string option \<Rightarrow> string \<Rightarrow> string \<Rightarrow> string \<Rightarrow> int \<Rightarrow> string \<Rightarrow> string \<Rightarrow> string \<Rightarrow> string option \<Rightarrow> vars" where
  "welcomeEmailVars to name username password host port lab node hostAlias studentId =
     [(''name'', case name of None \<Rightarrow> username | Some n \<Rightarrow> n), (''username'', username), (''password'', password), (''host'', host),
      (''host_alias'', or_else hostAlias host), (''port'', show_int port), (''lab'', lab), (''node'', node),
      (''student_id'', opt_text studentId), (''email'', to)]"

definition renderWelcomeEmail :: "'h ext \<Rightarrow> 'h world \<Rightarrow> vars \<Rightarrow> string \<times> string" where
  "renderWelcomeEmail X w vars =
     (from_template X w ''welcomeEmailSubject'' DEFAULT_WELCOME_SUBJECT vars, from_template X w ''welcomeEmailBody'' DEFAULT_WELCOME_BODY vars)"

section \<open>The outbox\<close>

definition opt_num :: "'h ext \<Rightarrow> int option \<Rightarrow> string" where
  "opt_num X x = (case x of None \<Rightarrow> [] | Some i \<Rightarrow> show_int i)"

definition quota_or :: "string \<Rightarrow> int option \<Rightarrow> string" where
  "quota_or d q = (case q of None \<Rightarrow> d | Some b \<Rightarrow> fmtBytes (of_int b))"

definition suppressed_note :: "nat \<Rightarrow> string" where
  "suppressed_note n =
     (if 0 < n then [CHR 0x0A, CHR 0x0A] @ ''('' @ show_nat n @ '' similar suppressed since the last alert)'' else [])"

definition rendered :: "'h ext \<Rightarrow> 'h world \<Rightarrow> mail \<Rightarrow> string \<times> string \<times> string" where
  "rendered X w m =
     (case m of
        RemovalMail to lab deleted \<Rightarrow> (to, renderRemovalEmail X w lab deleted)
      | CredentialMail to name username password host port lab node al sid \<Rightarrow>
          (to, renderWelcomeEmail X w (welcomeEmailVars to name username password host port lab node al sid))
      | CompletionMail to name lab node usernames fast cold sfast scold \<Rightarrow>
          (to, renderPlacementCompleteEmail X w (placementCompleteVars name lab node usernames (fmtBytes (of_int fast))
             (quota_or ''managed by the cold-storage owner'' cold) (quota_or ''shared placement quota'' sfast)
             (quota_or ''shared or owner-managed'' scold)))
      | QuotaMail to lab pool percent used quota breakdown \<Rightarrow>
          (to, renderQuotaEmail X w (quotaEmailVars lab pool (show_int percent) (fmtBytes used) (fmtBytes quota)
             (map (\<lambda>(u, b). (u, fmtBytes b)) breakdown)))
      | StudentQuotaMail to name username lab node pool percent used quota \<Rightarrow>
          (to, renderStudentQuotaEmail X w (studentQuotaVars name username lab node pool (show_int percent) (fmtBytes used) (fmtBytes quota)))
      | GpuWarnMail to username lab pid node grace \<Rightarrow>
          (to, renderGpuWarningEmail X w (gpuEmailVars username lab (opt_num X pid) node (show_num X grace)))
      | GpuKillMail to username lab pid node \<Rightarrow>
          (to, renderGpuKillEmail X w (gpuEmailVars username lab (opt_num X pid) node []))
      | AdminAlertMail to subject body suppressed \<Rightarrow> (to, subject, body @ suppressed_note suppressed))"

definition sendTestEmail :: "'h ext \<Rightarrow> (string \<Rightarrow> string) \<Rightarrow> deliver \<Rightarrow> 'h world \<Rightarrow> string \<Rightarrow> send_result option" where
  "sendTestEmail X coll d w to =
     sendMail X coll d w to (or_else (trim (setting_str X ''testEmailSubject'' w)) DEFAULT_TEST_SUBJECT)
       (or_else (trim (setting_str X ''testEmailBody'' w)) DEFAULT_TEST_BODY)"

definition send_outbox :: "'h ext \<Rightarrow> (string \<Rightarrow> string) \<Rightarrow> deliver \<Rightarrow> 'h world \<Rightarrow> send_result option list" where
  "send_outbox X coll d w =
     map (\<lambda>m. case rendered X w m of (to, subject, body) \<Rightarrow> sendMail X coll d w to subject body) (outbox w)"

end
