(* ===== verification/Stats.thy ===== *)
theory Stats
  imports Mailer Labs Students
begin

text \<open>
  The figures of the statistics page (src/controller/src/lib/stats.ts): the newest sample of every placement, student
  and pool, the state of the last scan, the blocks of the placements grouped by node, and the pools of the nodes. The
  order of \<open>localeCompare\<close> is the order of the keys that \<open>coll\<close> gives; equal keys keep their order, as in JavaScript.
\<close>

section \<open>Samples\<close>

record cell =
  ce_used :: rat
  ce_quota :: "rat option"
  ce_ts :: int

definition sampleKey :: "nat \<Rightarrow> nat option \<Rightarrow> string \<Rightarrow> string" where
  "sampleKey placementId student pool =
     show_nat placementId @ '':'' @ (case student of None \<Rightarrow> ''L'' | Some i \<Rightarrow> show_nat i) @ '':'' @ pool"

definition same_group :: "sample_row \<Rightarrow> sample_row \<Rightarrow> bool" where
  "same_group r s \<longleftrightarrow> sm_placement_id r = sm_placement_id s \<and> sm_pool r = sm_pool s \<and> sm_student_id r = sm_student_id s"

definition is_latest :: "'h world \<Rightarrow> sample_row \<Rightarrow> bool" where
  "is_latest w r = list_all (\<lambda>s. same_group s r \<longrightarrow> sm_ts s \<le> sm_ts r) (rows (storage_samples w))"

definition cell_of :: "sample_row \<Rightarrow> cell" where
  "cell_of r = \<lparr>ce_used = sm_used_bytes r, ce_quota = sm_quota_bytes r, ce_ts = sm_ts r\<rparr>"

definition put_cell :: "sample_row \<Rightarrow> (string \<times> cell) list \<Rightarrow> (string \<times> cell) list" where
  "put_cell r m =
     (case sm_placement_id r of None \<Rightarrow> m | Some p \<Rightarrow> AList.update (sampleKey p (sm_student_id r) (sm_pool r)) (cell_of r) m)"

definition latestSamples :: "'h world \<Rightarrow> (string \<times> cell) list" where
  "latestSamples w = fold put_cell (filter (is_latest w) (rows (storage_samples w))) []"

definition sample_of :: "'h world \<Rightarrow> nat \<Rightarrow> nat option \<Rightarrow> string \<Rightarrow> cell option" where
  "sample_of w p student pool = map_of (latestSamples w) (sampleKey p student pool)"

section \<open>Scans\<close>

definition SCAN_INGEST_GRACE_MS :: int where
  "SCAN_INGEST_GRACE_MS = 10 * 60 * 1000"

definition USAGE_STALE_MS :: int where
  "USAGE_STALE_MS = 25 * 60 * 60 * 1000"

definition LIVE_STALE_MS :: int where
  "LIVE_STALE_MS = 15 * 60 * 1000"

record scan_state =
  sx_state :: task_state
  sx_createdAt :: int

definition scan_key :: "string \<Rightarrow> string \<Rightarrow> string" where
  "scan_key node lab = node @ ''::'' @ lab"

definition put_scan :: "'h ext \<Rightarrow> task_row \<Rightarrow> (string \<times> scan_state) list \<Rightarrow> (string \<times> scan_state) list" where
  "put_scan X t m =
     (case (case t_params t of None \<Rightarrow> Some (JObj []) | Some p \<Rightarrow> json_parse p) of
        None \<Rightarrow> m
      | Some v \<Rightarrow>
          (case jget ''lab'' v of
             None \<Rightarrow> m
           | Some lab \<Rightarrow>
               if truthy lab
               then AList.update (scan_key (t_node t) (js_string X (Some lab))) \<lparr>sx_state = t_state t, sx_createdAt = t_created_at t\<rparr> m
               else m))"

definition latestUsageScans :: "'h ext \<Rightarrow> 'h world \<Rightarrow> (string \<times> scan_state) list" where
  "latestUsageScans X w = fold (put_scan X) (sort_key t_created_at (tbl_all (\<lambda>t. t_action t = ''usage.scan'') (task_log w))) []"

definition isScanPending :: "scan_state option \<Rightarrow> rat option \<Rightarrow> int \<Rightarrow> bool" where
  "isScanPending scan usageScannedAt now =
     (case scan of
        None \<Rightarrow> False
      | Some s \<Rightarrow>
          if sx_state s = TQueued \<or> sx_state s = TSent then True
          else if sx_state s = TOk
          then (case usageScannedAt of None \<Rightarrow> True | Some t \<Rightarrow> t < of_int (sx_createdAt s)) \<and> now - sx_createdAt s < SCAN_INGEST_GRACE_MS
          else False)"

section \<open>Blocks\<close>

record student_usage =
  stu_studentId :: nat
  stu_username :: string
  stu_name :: "string option"
  stu_email :: "string option"
  stu_fast :: "rat option"
  stu_cold :: "rat option"

record lab_stats =
  lst_labId :: nat
  lst_placementId :: nat
  lst_labName :: string
  lst_image :: string
  lst_piName :: "string option"
  lst_piEmail :: "string option"
  lst_students :: "student_usage list"
  lst_rootfs :: "rat option"
  lst_fast :: "rat option \<times> rat option"
  lst_cold :: "rat option \<times> rat option"
  lst_liveUpdatedAt :: "int option"
  lst_liveStale :: bool
  lst_usageScannedAt :: "rat option"
  lst_scanStale :: bool
  lst_scanPending :: bool

record node_stats =
  nst_node :: string
  nst_online :: bool
  nst_labs :: "lab_stats list"
  nst_totalRootfsBytes :: rat

definition used_of :: "'h world \<Rightarrow> nat \<Rightarrow> nat option \<Rightarrow> string \<Rightarrow> rat option" where
  "used_of w p student pool = map_option ce_used (sample_of w p student pool)"

definition cell_pair :: "'h world \<Rightarrow> nat \<Rightarrow> string \<Rightarrow> rat option \<times> rat option" where
  "cell_pair w p pool =
     (case sample_of w p None pool of None \<Rightarrow> (None, None) | Some c \<Rightarrow> (Some (ce_used c), ce_quota c))"

definition or_zero :: "rat option \<Rightarrow> rat" where
  "or_zero x = (case x of None \<Rightarrow> 0 | Some v \<Rightarrow> v)"

definition student_usages :: "(string \<Rightarrow> string) \<Rightarrow> 'h world \<Rightarrow> nat \<Rightarrow> nat \<Rightarrow> student_usage list" where
  "student_usages coll w p labId =
     sort_key (\<lambda>u. (- or_zero (stu_fast u), coll (stu_username u)))
       (map (\<lambda>m. let s = mb_student m in
          \<lparr>stu_studentId = s_id s, stu_username = s_username s, stu_name = s_name s, stu_email = s_email s,
           stu_fast = used_of w p (Some (s_id s)) ''fast'', stu_cold = used_of w p (Some (s_id s)) ''cold''\<rparr>) (listMembers labId w))"

definition live_updated_at :: "'h world \<Rightarrow> nat \<Rightarrow> int option" where
  "live_updated_at w p =
     (case List.map_filter (\<lambda>pool. map_option ce_ts (sample_of w p None pool)) [''rootfs'', ''fast'', ''cold''] of
        [] \<Rightarrow> None
      | t # ts \<Rightarrow> Some (foldl max t ts))"

definition lab_stats_of :: "'h ext \<Rightarrow> (string \<Rightarrow> string) \<Rightarrow> 'h world \<Rightarrow> placement \<Rightarrow> lab_stats" where
  "lab_stats_of X coll w p =
     (let r = pl_row p; now = clock w; lab = getLab (p_lab_id r) w; live = live_updated_at w (p_id r); scanned = p_usage_scanned_at r in
      \<lparr>lst_labId = p_lab_id r, lst_placementId = p_id r, lst_labName = pl_lab_name p, lst_image = p_image r,
       lst_piName = Option.bind lab l_pi_name, lst_piEmail = Option.bind lab l_pi_email,
       lst_students = student_usages coll w (p_id r) (p_lab_id r),
       lst_rootfs = fst (cell_pair w (p_id r) ''rootfs''), lst_fast = cell_pair w (p_id r) ''fast'', lst_cold = cell_pair w (p_id r) ''cold'',
       lst_liveUpdatedAt = live, lst_liveStale = (case live of None \<Rightarrow> True | Some t \<Rightarrow> LIVE_STALE_MS < now - t),
       lst_usageScannedAt = scanned, lst_scanStale = (case scanned of None \<Rightarrow> True | Some t \<Rightarrow> of_int USAGE_STALE_MS < of_int now - t),
       lst_scanPending = isScanPending (map_of (latestUsageScans X w) (scan_key (pl_node_name p) (pl_lab_name p))) scanned now\<rparr>)"

text \<open>The block is pushed on its node, which is made with the first of them.\<close>

definition push_block :: "lab_stats \<Rightarrow> node_stats \<Rightarrow> node_stats" where
  "push_block b n = n\<lparr>nst_labs := nst_labs n @ [b], nst_totalRootfsBytes := nst_totalRootfsBytes n + or_zero (lst_rootfs b)\<rparr>"

definition add_block :: "placement \<Rightarrow> lab_stats \<Rightarrow> node_stats list \<Rightarrow> node_stats list" where
  "add_block p b byNode =
     (if pl_node_name p \<in> nst_node ` set byNode
      then map (\<lambda>n. if nst_node n = pl_node_name p then push_block b n else n) byNode
      else byNode @ [push_block b \<lparr>nst_node = pl_node_name p, nst_online = pl_online p, nst_labs = [], nst_totalRootfsBytes = 0\<rparr>])"

definition buildStats :: "'h ext \<Rightarrow> (string \<Rightarrow> string) \<Rightarrow> 'h world \<Rightarrow> node_stats list" where
  "buildStats X coll w =
     map (\<lambda>n. n\<lparr>nst_labs := sort_key (\<lambda>b. coll (lst_labName b)) (nst_labs n)\<rparr>)
       (sort_key (\<lambda>n. coll (nst_node n)) (fold (\<lambda>p. add_block p (lab_stats_of X coll w p)) (listAllPlacements w) []))"

section \<open>Pools of the nodes\<close>

record node_usage =
  nus_nodeId :: nat
  nus_name :: string
  nus_alias :: "string option"
  nus_online :: bool
  nus_coldBackend :: cold_backend
  nus_coldOwnerName :: "string option"
  nus_fast :: "(js_num \<times> js_num) option"
  nus_cold :: "(js_num \<times> js_num) option"

definition json_number :: "json option \<Rightarrow> js_num option" where
  "json_number v = (case v of Some (JNum r) \<Rightarrow> Some (Fin r) | Some (JInf b) \<Rightarrow> Some (if b then PosInf else NegInf) | _ \<Rightarrow> None)"

text \<open>The allocated and the total bytes of the well-formed entries.\<close>

definition parsePools :: "jtext option \<Rightarrow> (js_num \<times> js_num) list" where
  "parsePools raw =
     (case raw of
        None \<Rightarrow> []
      | Some t \<Rightarrow>
          (case json_parse t of
             Some (JArr ps) \<Rightarrow> List.map_filter (\<lambda>p. case (json_number (jget ''alloc'' p), json_number (jget ''size'' p)) of
                 (Some a, Some s) \<Rightarrow> Some (a, s) | _ \<Rightarrow> None) ps
           | _ \<Rightarrow> []))"

definition node_usage_of :: "'h world \<Rightarrow> node_row \<Rightarrow> node_usage" where
  "node_usage_of w n =
     (let pools = parsePools (n_pools n); isSmb = (n_cold_backend n = Smb) in
      \<lparr>nus_nodeId = n_id n, nus_name = n_name n, nus_alias = n_alias n, nus_online = n_online n, nus_coldBackend = n_cold_backend n,
       nus_coldOwnerName = (if isSmb then Option.bind (n_cold_owner_node_id n) (\<lambda>i. map_option n_name (node_by_id i w)) else None),
       nus_fast = (case pools of [] \<Rightarrow> None | p # ps \<Rightarrow> Some p),
       nus_cold = (if isSmb then None else (case pools of p # q # ps \<Rightarrow> Some q | _ \<Rightarrow> None))\<rparr>)"

definition buildNodeUsage :: "'h world \<Rightarrow> node_usage list" where
  "buildNodeUsage w = map (node_usage_of w) (sort_key n_name (rows (nodes w)))"

end
