(* ===== verification/Stats_Facts.thy ===== *)
theory Stats_Facts
  imports Stats
begin

text \<open>What the statistics page shows: the newest sample of a group, and every placement once, under its node.\<close>

section \<open>The newest sample\<close>

lemma show_nat_inj: "show_nat m = show_nat n \<longleftrightarrow> m = n"
  using show_nat_digits by metis

lemma digits_colon: "CHR '':'' \<notin> set (show_nat n)"
  using show_nat_digits [of n] by (auto simp: list_all_iff is_digit_def code_unit_def)

lemma colon_split: "CHR '':'' \<notin> set a \<Longrightarrow> CHR '':'' \<notin> set b \<Longrightarrow> a @ CHR '':'' # s = b @ CHR '':'' # t \<longleftrightarrow> a = b \<and> s = t"
  by (induction a arbitrary: b) (case_tac b; auto)+

definition student_text :: "nat option \<Rightarrow> string" where
  "student_text student = (case student of None \<Rightarrow> ''L'' | Some i \<Rightarrow> show_nat i)"

lemma student_text_inj: "student_text a = student_text b \<longleftrightarrow> a = b"
proof -
  have "show_nat i \<noteq> ''L''" for i using show_nat_digits [of i] by (auto simp: is_digit_def code_unit_def)
  then show ?thesis by (auto simp: student_text_def show_nat_inj split: option.splits) metis+
qed

lemma student_text_colon: "CHR '':'' \<notin> set (student_text a)"
  using digits_colon by (auto simp: student_text_def split: option.split)

lemma sampleKey_inj: "sampleKey p a pool = sampleKey q b pool' \<longleftrightarrow> p = q \<and> a = b \<and> pool = pool'"
proof -
  have "sampleKey p a pool = show_nat p @ CHR '':'' # student_text a @ CHR '':'' # pool" for p a pool
    by (simp add: sampleKey_def student_text_def)
  then show ?thesis by (simp add: colon_split digits_colon student_text_colon show_nat_inj student_text_inj)
qed

definition in_group :: "nat \<Rightarrow> nat option \<Rightarrow> string \<Rightarrow> sample_row \<Rightarrow> bool" where
  "in_group p student pool r \<longleftrightarrow> sm_placement_id r = Some p \<and> sm_student_id r = student \<and> sm_pool r = pool"

lemma put_cells:
  "map_of (fold put_cell rs m) (sampleKey p student pool) =
     (if filter (in_group p student pool) rs = [] then map_of m (sampleKey p student pool)
      else Some (cell_of (last (filter (in_group p student pool) rs))))"
proof (induction rs rule: rev_induct)
  case (snoc r rs)
  show ?case
  proof (cases "in_group p student pool r")
    case True
    then have "put_cell r m' = AList.update (sampleKey p student pool) (cell_of r) m'" for m' by (simp add: put_cell_def in_group_def)
    with True show ?thesis by (simp add: update_conv)
  next
    case False
    then have "map_of (put_cell r m') (sampleKey p student pool) = map_of m' (sampleKey p student pool)" for m'
      by (auto simp: put_cell_def in_group_def update_conv sampleKey_inj split: option.split)
    with False snoc show ?thesis by simp
  qed
qed simp

lemma sample_of_newest:
  assumes "r \<in> set (rows (storage_samples w))" "in_group p student pool r"
  shows "\<exists>s \<in> set (rows (storage_samples w)). in_group p student pool s \<and> sample_of w p student pool = Some (cell_of s) \<and>
     (\<forall>t \<in> set (rows (storage_samples w)). in_group p student pool t \<longrightarrow> sm_ts t \<le> sm_ts s)"
proof -
  let ?R = "rows (storage_samples w)"
  let ?G = "filter (in_group p student pool) (filter (is_latest w) ?R)"
  have latest: "is_latest w s \<longleftrightarrow> (\<forall>t \<in> set ?R. in_group p student pool t \<longrightarrow> sm_ts t \<le> sm_ts s)" if "in_group p student pool s" for s
    using that by (auto simp: is_latest_def list_all_iff same_group_def in_group_def)
  obtain m where m: "m \<in> set ?R" "in_group p student pool m" "\<forall>t \<in> set ?R. in_group p student pool t \<longrightarrow> sm_ts t \<le> sm_ts m"
  proof -
    let ?S = "{t \<in> set ?R. in_group p student pool t}"
    have "finite (sm_ts ` ?S)" "sm_ts ` ?S \<noteq> {}" using assms by auto
    then have "Max (sm_ts ` ?S) \<in> sm_ts ` ?S" by (rule Max_in)
    then obtain m where "m \<in> ?S" "sm_ts m = Max (sm_ts ` ?S)" by auto
    then show thesis using that [of m] by auto
  qed
  then have "m \<in> set ?G" using latest by simp
  then have ne: "?G \<noteq> []" by (metis empty_iff empty_set)
  then have "last ?G \<in> set ?G" by (rule last_in_set)
  then have l: "last ?G \<in> set ?R" "in_group p student pool (last ?G)" "is_latest w (last ?G)" unfolding set_filter by blast+
  have "sample_of w p student pool = Some (cell_of (last ?G))"
    using ne put_cells [of "filter (is_latest w) ?R" "[]" p student pool] by (simp add: sample_of_def latestSamples_def)
  with l latest show ?thesis by blast
qed

lemma sample_of_None:
  "\<forall>r \<in> set (rows (storage_samples w)). \<not> in_group p student pool r \<Longrightarrow> sample_of w p student pool = None"
  using put_cells [of "filter (is_latest w) (rows (storage_samples w))" "[]" p student pool]
  by (simp add: sample_of_def latestSamples_def filter_empty_conv)

section \<open>Placements under nodes\<close>

definition grouped :: "(placement \<Rightarrow> lab_stats) \<Rightarrow> placement list \<Rightarrow> node_stats list \<Rightarrow> bool" where
  "grouped f ps ns \<longleftrightarrow> distinct (map nst_node ns) \<and> nst_node ` set ns = pl_node_name ` set ps \<and>
     (\<forall>n \<in> set ns. nst_labs n = map f (filter (\<lambda>p. pl_node_name p = nst_node n) ps) \<and>
        nst_totalRootfsBytes n = sum_list (map (or_zero \<circ> lst_rootfs) (nst_labs n)))"

lemma push_block_simps [simp]:
  "nst_node (push_block b n) = nst_node n" "nst_labs (push_block b n) = nst_labs n @ [b]"
  "nst_totalRootfsBytes (push_block b n) = nst_totalRootfsBytes n + or_zero (lst_rootfs b)"
  by (simp_all add: push_block_def)

lemma grouped_add: "grouped f ps ns \<Longrightarrow> grouped f (ps @ [p]) (add_block p (f p) ns)"
proof (cases "pl_node_name p \<in> nst_node ` set ns")
  case True
  assume g: "grouped f ps ns"
  have e: "map nst_node (add_block p (f p) ns) = map nst_node ns" using True by (simp add: add_block_def)
  have "nst_node ` set (add_block p (f p) ns) = nst_node ` set ns" using arg_cong [OF e, of set] by simp
  also have "\<dots> = pl_node_name ` set (ps @ [p])" using g True by (simp add: grouped_def insert_absorb)
  finally have "distinct (map nst_node (add_block p (f p) ns))" "nst_node ` set (add_block p (f p) ns) = pl_node_name ` set (ps @ [p])"
    using g unfolding grouped_def e by blast+
  moreover have "nst_labs n = map f (filter (\<lambda>q. pl_node_name q = nst_node n) (ps @ [p])) \<and>
      nst_totalRootfsBytes n = sum_list (map (or_zero \<circ> lst_rootfs) (nst_labs n))" if "n \<in> set (add_block p (f p) ns)" for n
  proof -
    from that True obtain m where m: "m \<in> set ns" "n = (if nst_node m = pl_node_name p then push_block (f p) m else m)"
      by (auto simp: add_block_def)
    from g m(1) have "nst_labs m = map f (filter (\<lambda>q. pl_node_name q = nst_node m) ps)"
      "nst_totalRootfsBytes m = sum_list (map (or_zero \<circ> lst_rootfs) (nst_labs m))" by (simp_all add: grouped_def)
    with m(2) show ?thesis by (cases "nst_node m = pl_node_name p") simp_all
  qed
  ultimately show ?thesis by (simp add: grouped_def)
next
  case False
  assume g: "grouped f ps ns"
  have f: "filter (\<lambda>q. pl_node_name q = pl_node_name p) ps = []" using g False unfolding grouped_def filter_empty_conv by (metis image_eqI)
  have ne: "pl_node_name p \<noteq> nst_node n" if "n \<in> set ns" for n using False that by (metis image_eqI)
  let ?b = "push_block (f p) \<lparr>nst_node = pl_node_name p, nst_online = pl_online p, nst_labs = [], nst_totalRootfsBytes = 0\<rparr>"
  have a: "add_block p (f p) ns = ns @ [?b]" using False by (simp add: add_block_def)
  have "nst_labs n = map f (filter (\<lambda>q. pl_node_name q = nst_node n) (ps @ [p])) \<and>
      nst_totalRootfsBytes n = sum_list (map (or_zero \<circ> lst_rootfs) (nst_labs n))" if "n \<in> set ns \<or> n = ?b" for n
    using that
  proof
    assume "n \<in> set ns"
    with g ne show ?thesis by (simp add: grouped_def)
  qed (simp add: f)
  moreover have "distinct (map nst_node (ns @ [?b]))" "nst_node ` set (ns @ [?b]) = pl_node_name ` set (ps @ [p])"
    using g False by (simp_all add: grouped_def)
  ultimately show ?thesis unfolding grouped_def a by (simp add: f)
qed

lemma grouped_fold: "grouped f ps (fold (\<lambda>p. add_block p (f p)) ps [])"
proof (induction ps rule: rev_induct)
  case (snoc p ps)
  with grouped_add [of f ps "fold (\<lambda>p. add_block p (f p)) ps []" p] show ?case by simp
qed (simp add: grouped_def)

lemma sum_list_sort: "sum_list (map g (sort_key k xs)) = sum_list (map g xs)" for g :: "_ \<Rightarrow> rat"
proof (induction xs)
  case (Cons x xs)
  have "sum_list (map g (insort_key k x ys)) = g x + sum_list (map g ys)" for ys by (induction ys) auto
  with Cons show ?case by simp
qed simp

lemma buildStats_nodes:
  shows "distinct (map nst_node (buildStats X coll w))"
    "nst_node ` set (buildStats X coll w) = pl_node_name ` set (listAllPlacements w)"
    "n \<in> set (buildStats X coll w) \<Longrightarrow>
       nst_labs n = sort_key (\<lambda>b. coll (lst_labName b))
         (map (lab_stats_of X coll w) (filter (\<lambda>p. pl_node_name p = nst_node n) (listAllPlacements w))) \<and>
       nst_totalRootfsBytes n = sum_list (map (or_zero \<circ> lst_rootfs) (nst_labs n))"
proof -
  let ?f = "lab_stats_of X coll w"
  let ?ns = "fold (\<lambda>p. add_block p (?f p)) (listAllPlacements w) []"
  let ?s = "\<lambda>n. n\<lparr>nst_labs := sort_key (\<lambda>b. coll (lst_labName b)) (nst_labs n)\<rparr>"
  let ?k = "sort_key (\<lambda>n. coll (nst_node n)) ?ns"
  have b: "buildStats X coll w = map ?s ?k" by (simp add: buildStats_def)
  have g: "grouped ?f (listAllPlacements w) ?ns" by (rule grouped_fold)
  have names: "map nst_node (map ?s ?k) = map nst_node ?k" by simp
  have "distinct (map nst_node ?k)" using g by (simp add: grouped_def distinct_map)
  then show "distinct (map nst_node (buildStats X coll w))" by (simp only: b names)
  have "nst_node ` set (buildStats X coll w) = nst_node ` set ?ns" unfolding b by (force simp: image_iff)
  then show "nst_node ` set (buildStats X coll w) = pl_node_name ` set (listAllPlacements w)" using g by (simp add: grouped_def)
  show "n \<in> set (buildStats X coll w) \<Longrightarrow>
       nst_labs n = sort_key (\<lambda>b. coll (lst_labName b))
         (map (lab_stats_of X coll w) (filter (\<lambda>p. pl_node_name p = nst_node n) (listAllPlacements w))) \<and>
       nst_totalRootfsBytes n = sum_list (map (or_zero \<circ> lst_rootfs) (nst_labs n))"
  proof -
    assume "n \<in> set (buildStats X coll w)"
    then obtain m where m: "m \<in> set ?ns" "n = ?s m" by (auto simp: b)
    with g have "nst_labs m = map ?f (filter (\<lambda>p. pl_node_name p = nst_node m) (listAllPlacements w))"
      "nst_totalRootfsBytes m = sum_list (map (or_zero \<circ> lst_rootfs) (nst_labs m))" by (auto simp: grouped_def)
    with m(2) show ?thesis by (simp add: sum_list_sort)
  qed
qed

text \<open>A placement on its node's block, with the newest sample of a pool.\<close>

lemma block_shown:
  assumes "n \<in> set (buildStats X coll w)" "p \<in> set (listAllPlacements w)" "pl_node_name p = nst_node n"
  shows "lab_stats_of X coll w p \<in> set (nst_labs n)"
  using buildStats_nodes(3) [OF assms(1)] assms(2,3) by simp

lemma fast_shown:
  assumes "r \<in> set (rows (storage_samples w))" "in_group (p_id (pl_row p)) None ''fast'' r"
  shows "\<exists>s \<in> set (rows (storage_samples w)). in_group (p_id (pl_row p)) None ''fast'' s \<and> sm_ts r \<le> sm_ts s \<and>
     lst_fast (lab_stats_of X coll w p) = (Some (sm_used_bytes s), sm_quota_bytes s)"
proof -
  obtain s where "s \<in> set (rows (storage_samples w))" "in_group (p_id (pl_row p)) None ''fast'' s"
    "sample_of w (p_id (pl_row p)) None ''fast'' = Some (cell_of s)" "sm_ts r \<le> sm_ts s"
    using sample_of_newest [OF assms] assms by blast
  then show ?thesis by (intro bexI [of _ s]) (auto simp: lab_stats_of_def cell_pair_def cell_of_def Let_def)
qed

end
