(* ===== verification/UsageReport.thy ===== *)
theory UsageReport
  imports Stats_Facts
begin

text \<open>
  The storage report of one placement that is mailed to its PI or a student (src/controller/src/lib/usage-report.ts). A
  dash outside Latin-1 is written as a hyphen, which has the same width in the table.
\<close>

fun rep_scale :: "rat \<Rightarrow> string list \<Rightarrow> string" where
  "rep_scale v [] = toFixed v 1 @ '' TiB''"
| "rep_scale v (u # us) =
     (if \<bar>v\<bar> < 1024 \<or> u = ''TiB''
      then (if u = ''B'' then show_int (math_round v) @ '' '' @ u else toFixed v 1 @ '' '' @ u)
      else rep_scale (v / 1024) us)"

definition rep_bytes :: "rat option \<Rightarrow> string" where
  "rep_bytes n = (case n of None \<Rightarrow> ''-'' | Some v \<Rightarrow> rep_scale v [''B'', ''KiB'', ''MiB'', ''GiB'', ''TiB''])"

definition fmtPct :: "rat option \<Rightarrow> rat option \<Rightarrow> string" where
  "fmtPct used quota =
     (case (used, quota) of
        (Some u, Some q) \<Rightarrow> if q \<le> 0 then [] else '' ('' @ show_int \<lfloor>u * 100 / q\<rfloor> @ ''%)''
      | _ \<Rightarrow> [])"

definition fmtPair :: "cell option \<Rightarrow> string" where
  "fmtPair c =
     (case c of
        None \<Rightarrow> ''-''
      | Some c \<Rightarrow>
          (if ce_quota c = None \<or> ce_quota c = Some 0 then rep_bytes (Some (ce_used c))
           else rep_bytes (Some (ce_used c)) @ '' / '' @ rep_bytes (ce_quota c)) @ fmtPct (Some (ce_used c)) (ce_quota c))"

definition fmtShare :: "rat option \<Rightarrow> rat option \<Rightarrow> string" where
  "fmtShare used totalQuota = (case used of None \<Rightarrow> ''-'' | Some u \<Rightarrow> rep_bytes (Some u) @ fmtPct (Some u) totalQuota)"

definition col_widths :: "string list list \<Rightarrow> nat list" where
  "col_widths rs = map (\<lambda>i. foldr max (map (\<lambda>r. length (r ! i)) rs) 0) [0..<length (hd rs)]"

definition table_line :: "nat list \<Rightarrow> string list \<Rightarrow> string" where
  "table_line widths r = trimEnd (''  '' @ join ''  '' (map (\<lambda>(c, k). padEnd k c) (zip r widths)))"

definition renderTable :: "string list list \<Rightarrow> string" where
  "renderTable rs =
     (let widths = col_widths rs; rule = ''  '' @ join ''  '' (map (\<lambda>k. replicate k (CHR ''-'')) widths) in
      text_of (concat (map (\<lambda>(i, r).
        (if i = length rs - 1 then [rule] else []) @ [table_line widths r] @ (if i = 0 then [rule] else []))
        (List.enumerate 0 rs))))"

record usage_report =
  ur_text :: string
  ur_labId :: nat
  ur_labName :: string
  ur_nodeName :: string
  ur_piName :: "string option"
  ur_piEmail :: "string option"
  ur_students :: "student_row list"

definition report_row :: "'h world \<Rightarrow> nat \<Rightarrow> nat option \<Rightarrow> student_row \<Rightarrow> string list" where
  "report_row w p highlight s =
     [if Some (s_id s) = highlight then s_username s @ ''  (you)'' else s_username s,
      fmtShare (used_of w p (Some (s_id s)) ''fast'') (Option.bind (sample_of w p None ''fast'') ce_quota),
      fmtShare (used_of w p (Some (s_id s)) ''cold'') (Option.bind (sample_of w p None ''cold'') ce_quota)]"

definition report_rows :: "(string \<Rightarrow> string) \<Rightarrow> 'h world \<Rightarrow> nat \<Rightarrow> nat option \<Rightarrow> student_row list \<Rightarrow> string list list" where
  "report_rows coll w p highlight members =
     [''STUDENT'', ''HOME (fast)'', ''COLD (slow)''] #
     map (report_row w p highlight) (sort_key (\<lambda>s. coll (s_username s)) members) @
     [[''TOTAL'', fmtPair (sample_of w p None ''fast''), fmtPair (sample_of w p None ''cold'')]]"

definition buildUsageReport :: "(string \<Rightarrow> string) \<Rightarrow> nat \<Rightarrow> nat option \<Rightarrow> 'h world \<Rightarrow> usage_report option" where
  "buildUsageReport coll placementId highlight w =
     (case getPlacement placementId w of
        None \<Rightarrow> None
      | Some p \<Rightarrow>
          let row = pl_row p; lab = getLab (p_lab_id row) w; members = map mb_student (listMembers (p_lab_id row) w);
              live = live_updated_at w placementId;
              lines = [''Lab '' @ [CHR 0x27] @ pl_lab_name p @ [CHR 0x27] @ '' on node '' @ pl_node_name p @ '' - storage usage'',
                ''  live totals '' @ ago (clock w) (map_option of_int live) @ '' '' @ [CHR 0xB7] @ '' per-student scan '' @
                  ago (clock w) (p_usage_scanned_at row),
                [], renderTable (report_rows coll w placementId highlight members), [],
                ''  ROOTFS (shared)  '' @ fmtPair (sample_of w placementId None ''rootfs'')] @
                (if live = None then [[], ''  (no live lab totals have been reported yet)''] else [])
          in Some \<lparr>ur_text = text_of lines, ur_labId = p_lab_id row, ur_labName = pl_lab_name p, ur_nodeName = pl_node_name p,
               ur_piName = Option.bind lab l_pi_name, ur_piEmail = Option.bind lab l_pi_email, ur_students = members\<rparr>)"

section \<open>The report and the page\<close>

text \<open>For every student on the page the report has a row with the same figures, and its totals are those of the page.\<close>

lemma fmtPair_pair:
  "sample_of w p None pool = Some c \<Longrightarrow> cell_pair w p pool = (Some (ce_used c), ce_quota c)"
  "sample_of w p None pool = None \<Longrightarrow> cell_pair w p pool = (None, None)"
  by (simp_all add: cell_pair_def)

lemma snd_cell_pair: "snd (cell_pair w p pool) = Option.bind (sample_of w p None pool) ce_quota"
  by (cases "sample_of w p None pool") (simp_all add: fmtPair_pair)

lemma set_student_usages:
  "set (student_usages coll w p l) = (\<lambda>s. \<lparr>stu_studentId = s_id s, stu_username = s_username s, stu_name = s_name s, stu_email = s_email s,
     stu_fast = used_of w p (Some (s_id s)) ''fast'', stu_cold = used_of w p (Some (s_id s)) ''cold''\<rparr>) ` set (map mb_student (listMembers l w))"
  by (simp add: student_usages_def Let_def image_image)

lemma report_row_of_page:
  assumes "u \<in> set (lst_students (lab_stats_of X coll w p))"
  shows "\<exists>label. label \<in> {stu_username u, stu_username u @ ''  (you)''} \<and>
     [label, fmtShare (stu_fast u) (snd (lst_fast (lab_stats_of X coll w p))), fmtShare (stu_cold u) (snd (lst_cold (lab_stats_of X coll w p)))]
       \<in> set (report_rows coll w (p_id (pl_row p)) highlight (map mb_student (listMembers (p_lab_id (pl_row p)) w)))"
proof -
  let ?i = "p_id (pl_row p)" and ?ms = "map mb_student (listMembers (p_lab_id (pl_row p)) w)"
  have b: "lst_students (lab_stats_of X coll w p) = student_usages coll w ?i (p_lab_id (pl_row p))"
    "lst_fast (lab_stats_of X coll w p) = cell_pair w ?i ''fast''" "lst_cold (lab_stats_of X coll w p) = cell_pair w ?i ''cold''"
    by (simp_all add: lab_stats_of_def Let_def)
  obtain s where s: "s \<in> set ?ms" and u: "u = \<lparr>stu_studentId = s_id s, stu_username = s_username s, stu_name = s_name s, stu_email = s_email s,
      stu_fast = used_of w ?i (Some (s_id s)) ''fast'', stu_cold = used_of w ?i (Some (s_id s)) ''cold''\<rparr>"
    using assms unfolding b(1) set_student_usages by blast
  let ?label = "if Some (s_id s) = highlight then s_username s @ ''  (you)'' else s_username s"
  have "report_row w ?i highlight s \<in> set (report_rows coll w ?i highlight ?ms)" using s unfolding report_rows_def by simp
  moreover have "report_row w ?i highlight s = [?label, fmtShare (stu_fast u) (snd (cell_pair w ?i ''fast'')), fmtShare (stu_cold u) (snd (cell_pair w ?i ''cold''))]"
    unfolding report_row_def u by (simp add: snd_cell_pair)
  ultimately show ?thesis unfolding b(2,3) by (intro exI [of _ ?label]) (simp add: u)
qed

lemma join_middle: "\<exists>pre post. join sep (xs @ t # ys) = pre @ t @ post"
proof (induction xs)
  case Nil
  show ?case
  proof (cases ys)
    case (Cons y zs)
    then have "join sep ([] @ t # ys) = [] @ t @ sep @ join sep ys" by simp
    then show ?thesis by blast
  qed (use append_Nil append_Nil2 in \<open>metis join.simps(2)\<close>)
next
  case (Cons x xs)
  then obtain pre post where j: "join sep (xs @ t # ys) = pre @ t @ post" by blast
  obtain z zs where "xs @ t # ys = z # zs" by (cases xs) auto
  then have "join sep ((x # xs) @ t # ys) = (x @ sep @ pre) @ t @ post" using j by simp
  then show ?case by blast
qed

lemma report_text:
  assumes "buildUsageReport coll i h w = Some rep"
  obtains p pre post where "getPlacement i w = Some p" "ur_labName rep = pl_lab_name p" "ur_nodeName rep = pl_node_name p"
    "ur_text rep = pre @ renderTable (report_rows coll w i h (map mb_student (listMembers (p_lab_id (pl_row p)) w))) @ post"
    "ur_students rep = map mb_student (listMembers (p_lab_id (pl_row p)) w)"
proof -
  from assms obtain p where p: "getPlacement i w = Some p" by (auto simp: buildUsageReport_def split: option.splits)
  let ?t = "renderTable (report_rows coll w i h (map mb_student (listMembers (p_lab_id (pl_row p)) w)))"
  have m: "\<exists>pre post. text_of ([a, b, c] @ ?t # ys) = pre @ ?t @ post" for a b c ys unfolding text_of_def by (rule join_middle)
  from assms p obtain pre post where "ur_text rep = pre @ ?t @ post"
    using m by (auto simp: buildUsageReport_def Let_def) metis+
  moreover from assms p have "ur_labName rep = pl_lab_name p" "ur_nodeName rep = pl_node_name p"
    "ur_students rep = map mb_student (listMembers (p_lab_id (pl_row p)) w)"
    by (auto simp: buildUsageReport_def Let_def)
  ultimately show thesis using that p by blast
qed

lemma report_agrees:
  assumes "buildUsageReport coll i h w = Some rep" "getPlacement i w = Some p" "u \<in> set (lst_students (lab_stats_of X coll w p))"
  shows "\<exists>rs label pre post. ur_text rep = pre @ renderTable rs @ post \<and> length rs = length (ur_students rep) + 2 \<and>
     label \<in> {stu_username u, stu_username u @ ''  (you)''} \<and>
     [label, fmtShare (stu_fast u) (snd (lst_fast (lab_stats_of X coll w p))), fmtShare (stu_cold u) (snd (lst_cold (lab_stats_of X coll w p)))]
       \<in> set rs"
proof -
  obtain pre post where t: "ur_text rep = pre @ renderTable (report_rows coll w i h (map mb_student (listMembers (p_lab_id (pl_row p)) w))) @ post"
    "ur_students rep = map mb_student (listMembers (p_lab_id (pl_row p)) w)"
    using report_text [OF assms(1)] assms(2) by fastforce
  have "p_id (pl_row p) = i" using assms(2) by (auto simp: getPlacement_def find_Some_iff)
  with report_row_of_page [OF assms(3), of h] obtain label where l: "label \<in> {stu_username u, stu_username u @ ''  (you)''}"
    "[label, fmtShare (stu_fast u) (snd (lst_fast (lab_stats_of X coll w p))), fmtShare (stu_cold u) (snd (lst_cold (lab_stats_of X coll w p)))]
      \<in> set (report_rows coll w i h (map mb_student (listMembers (p_lab_id (pl_row p)) w)))"
    by blast
  have "length (report_rows coll w i h ms) = length ms + 2" for ms by (simp add: report_rows_def)
  with t l show ?thesis by metis
qed

end
