(* ===== verification/SmtpActions.thy ===== *)
theory SmtpActions
  imports Mailer AdminActions
begin

text \<open>
  The actions on the ranked SMTP servers (saveSmtpSettingsAction, deleteSmtpSettingsAction, testEmailAction of
  src/controller/src/app/(app)/settings/actions.ts), and what a saved server reads back as.
\<close>

datatype scheme = Http | Https

definition url_scheme :: "string \<Rightarrow> (scheme \<times> string) option" where
  "url_scheme s =
     (if startsWith (toLower s) ''https://'' then Some (Https, drop 8 s)
      else if startsWith (toLower s) ''http://'' then Some (Http, drop 7 s) else None)"

text \<open>The part before the last colon and the part after it.\<close>

definition last_colon :: "string \<Rightarrow> (string \<times> string) option" where
  "last_colon s =
     (if CHR '':'' \<in> set s
      then Some (rev (tl (dropWhile (\<lambda>c. c \<noteq> CHR '':'') (rev s))), rev (takeWhile (\<lambda>c. c \<noteq> CHR '':'') (rev s)))
      else None)"

definition parseSmtpHost :: "string \<Rightarrow> js_num \<Rightarrow> string \<times> js_num \<times> bool" where
  "parseSmtpHost raw portField =
     (let inp = trim raw;
          sch = map_option fst (url_scheme inp);
          inp = (case url_scheme inp of None \<Rightarrow> inp | Some (_, r) \<Rightarrow> r);
          inp = takeWhile (\<lambda>c. c \<notin> set ''/?#'') inp;
          port = (case last_colon inp of None \<Rightarrow> portField | Some (_, p) \<Rightarrow> if num_gt (js_Number p) 0 then js_Number p else portField);
          inp = (case last_colon inp of None \<Rightarrow> inp | Some (h, _) \<Rightarrow> h)
      in (trim inp, port, (case sch of Some Https \<Rightarrow> True | Some Http \<Rightarrow> False | None \<Rightarrow> port = Fin 465)))"

definition smtp_json :: "smtp_config \<Rightarrow> json" where
  "smtp_json c = JObj [(''id'', JStr (mx_id c)), (''name'', JStr (mx_name c)), (''rank'', JNum (mx_rank c)),
     (''host'', JStr (mx_host c)), (''port'', num_json (mx_port c)), (''secure'', JBool (mx_secure c)),
     (''user'', JStr (mx_user c)), (''pass'', JStr (mx_pass c)), (''from'', JStr (mx_from c))]"

definition fresh_uuid :: "'h ext \<Rightarrow> ('h, string) act" where
  "fresh_uuid X = do {
     u \<leftarrow> peek (\<lambda>w. rand_uuid X (draws w));
     modify (\<lambda>w. w\<lparr>draws := draws w + 1\<rparr>);
     State_Monad.return u }"

text \<open>The server as it is stored: what the form leaves open comes from the entry with the same id.\<close>

definition form_rank :: "js_num \<Rightarrow> smtp_config option \<Rightarrow> smtp_config list \<Rightarrow> rat" where
  "form_rank rankValue existing configs =
     (case rankValue of
        Fin r \<Rightarrow> if 0 < r then of_int (math_trunc r)
                 else (case existing of Some e \<Rightarrow> mx_rank e | None \<Rightarrow> foldr max (map mx_rank configs) 0 + 1)
      | _ \<Rightarrow> (case existing of Some e \<Rightarrow> mx_rank e | None \<Rightarrow> foldr max (map mx_rank configs) 0 + 1))"

definition smtp_of_form :: "'h ext \<Rightarrow> form \<Rightarrow> string \<Rightarrow> smtp_config list \<Rightarrow> smtp_config" where
  "smtp_of_form X fd i configs =
     (let (host, port, secure) = parseSmtpHost (field_str fd ''smtpHost'' []) (num_or (field_num fd ''smtpPort'') 587);
          existing = List.find (\<lambda>c. mx_id c = i) configs;
          rank = form_rank (field_num fd ''smtpRank'') existing configs
      in \<lparr>mx_id = i, mx_name = or_else (field_trim fd ''smtpName'') (''SMTP '' @ show_num X rank), mx_rank = rank,
           mx_host = host, mx_port = port, mx_user = field_trim fd ''smtpUser'',
           mx_pass = or_else (field_str fd ''smtpPass'' []) (case existing of Some e \<Rightarrow> mx_pass e | None \<Rightarrow> []),
           mx_from = field_trim fd ''smtpFrom'', mx_secure = secure\<rparr>)"

definition replace_config :: "smtp_config \<Rightarrow> smtp_config list \<Rightarrow> smtp_config list" where
  "replace_config u configs =
     (if \<exists>c \<in> set configs. mx_id c = mx_id u then map (\<lambda>c. if mx_id c = mx_id u then u else c) configs else configs @ [u])"

definition saveSmtpSettingsAction :: "'h ext \<Rightarrow> (string \<Rightarrow> string) \<Rightarrow> form \<Rightarrow> ('h, outcome) act" where
  "saveSmtpSettingsAction X coll fd =
     do {
       found \<leftarrow> peek (getSmtpConfigs X coll);
       (case found of
          None \<Rightarrow> State_Monad.return (Thrown (Op JsTypeError))
        | Some configs \<Rightarrow> do {
            i \<leftarrow> (if field_trim fd ''smtpId'' \<noteq> [] then State_Monad.return (field_trim fd ''smtpId'') else fresh_uuid X);
            _ \<leftarrow> call (setSetting X ''smtpConfigs'' (JArr (map smtp_json (replace_config (smtp_of_form X fd i configs) configs))));
            State_Monad.return Returned }) }"

definition deleteSmtpSettingsAction :: "'h ext \<Rightarrow> (string \<Rightarrow> string) \<Rightarrow> form \<Rightarrow> ('h, outcome) act" where
  "deleteSmtpSettingsAction X coll fd =
     (let i = field_str fd ''smtpId'' [] in
      do {
        found \<leftarrow> peek (getSmtpConfigs X coll);
        (case found of
           None \<Rightarrow> State_Monad.return (Thrown (Op JsTypeError))
         | Some configs \<Rightarrow> do {
             _ \<leftarrow> call (setSetting X ''smtpConfigs'' (JArr (map smtp_json (filter (\<lambda>c. mx_id c \<noteq> i) configs))));
             State_Monad.return (Redirect SettingsPage [(''smtp'', Text
               (case List.find (\<lambda>c. mx_id c = i) configs of Some c \<Rightarrow> ''Deleted '' @ mx_name c | None \<Rightarrow> ''SMTP server deleted''))]) }) })"

definition test_message :: "send_result \<Rightarrow> string" where
  "test_message r = (case r of Sent \<Rightarrow> ''Test email sent'' | Skipped \<Rightarrow> ''SMTP not configured'' | NotSent e \<Rightarrow> ''Failed: '' @ e)"

definition testEmailAction :: "'h ext \<Rightarrow> (string \<Rightarrow> string) \<Rightarrow> deliver \<Rightarrow> form \<Rightarrow> ('h, outcome) act" where
  "testEmailAction X coll d fd =
     do {
       res \<leftarrow> peek (\<lambda>w. sendTestEmail X coll d w (field_trim fd ''to''));
       State_Monad.return (case res of
          None \<Rightarrow> Thrown (Op JsTypeError)
        | Some r \<Rightarrow> Redirect SettingsPage [(''smtp'', Text (test_message r))]) }"

section \<open>Safety\<close>

lemma safe_draw [act_intros]: "safe (modify (\<lambda>w. w\<lparr>draws := draws w + 1\<rparr>))"
  by (rule safe_modify, rule good_same_core) (simp_all add: same_coreI)

lemma safe_fresh_uuid [act_intros]: "safe (fresh_uuid X)"
  unfolding fresh_uuid_def by (intro act_intros | assumption)+

lemma safe_smtp_actions:
  "safe (saveSmtpSettingsAction X coll fd)" "safe (deleteSmtpSettingsAction X coll fd)" "safe (testEmailAction X coll d fd)"
  unfolding saveSmtpSettingsAction_def deleteSmtpSettingsAction_def testEmailAction_def Let_def
  by (intro act_intros | assumption)+

section \<open>Reading back\<close>

text \<open>A server whose fields are in the form the reader gives them.\<close>

definition smtp_normal :: "smtp_config \<Rightarrow> bool" where
  "smtp_normal c \<longleftrightarrow> mx_id c \<noteq> [] \<and> mx_name c \<noteq> [] \<and> (\<exists>n::nat. 0 < n \<and> mx_rank c = of_nat n) \<and> (\<exists>n::nat. 0 < n \<and> mx_port c = Fin (of_nat n)) \<and>
     trim (mx_host c) = mx_host c \<and> trim (mx_user c) = mx_user c \<and> trim (mx_from c) = mx_from c"

lemma string_or_text: "s \<noteq> [] \<or> d = [] \<Longrightarrow> string_or X (Some (JStr s)) d = s"
  by (auto simp: string_or_def)

lemma math_trunc_nat: "math_trunc (of_nat n) = int n"
  by (simp add: math_trunc_def)

lemma read_smtp_json: "smtp_normal c \<Longrightarrow> read_smtp X i (smtp_json c) = c"
  by (cases c) (auto simp: smtp_normal_def read_smtp_def smtp_json_def string_or_text to_Number_def num_json_def num_gt_def
      num_trunc_def math_trunc_nat Let_def)

lemma stored_configs:
  assumes "gcm_ok X"
  obtains w' where "setSetting X ''smtpConfigs'' (JArr (map smtp_json cs)) w = (Inr (), w')"
    "getSetting X ''smtpConfigs'' w' = JArr (map smtp_json cs)" "map_of (settings w') ''smtpConfigs'' \<noteq> None"
proof -
  have "write_configs X k (map smtp_json cs) \<noteq> None" for k
    by (induction cs arbitrary: k) (auto simp: smtp_json_def)
  then obtain cs' where "write_configs X (draws w) (map smtp_json cs) = Some cs'" by blast
  then obtain w' where w': "setSetting X ''smtpConfigs'' (JArr (map smtp_json cs)) w = (Inr (), w')"
    by (simp add: setSetting_def)
  have "stringified (smtp_json c) = smtp_json c" for c
    by (simp add: smtp_json_def num_json_def split: js_num.split)
  then have "getSetting X ''smtpConfigs'' w' = JArr (map smtp_json cs)"
    using get_set_same [OF assms w'] by simp
  moreover have "map_of (settings w') ''smtpConfigs'' \<noteq> None" using setSetting_writes [OF w'] by auto
  ultimately show thesis using that w' by blast
qed

lemma enumerate_map_const: "map (\<lambda>(i, c). f i (g c)) (List.enumerate n cs) = cs" if "\<And>i c. c \<in> set cs \<Longrightarrow> f i (g c) = c"
  using that by (induction cs arbitrary: n) auto

lemma ranked_stored:
  assumes "\<forall>c \<in> set cs. smtp_normal c"
  shows "ranked_configs X coll (map smtp_json cs) = sort_key (\<lambda>c. (mx_rank c, coll (mx_name c))) cs"
proof -
  have "filter is_object (map smtp_json cs) = map smtp_json cs" by (simp add: filter_map comp_def is_object_def smtp_json_def)
  moreover have "map (\<lambda>(i, c). read_smtp X i c) (List.enumerate 0 (map smtp_json cs)) = cs"
  proof -
    have "map (\<lambda>(i, c). read_smtp X i c) (List.enumerate n (map smtp_json cs)) = map (\<lambda>(i, c). read_smtp X i (smtp_json c)) (List.enumerate n cs)" for n
      by (induction cs arbitrary: n) auto
    moreover have "map (\<lambda>(i, c). read_smtp X i (smtp_json c)) (List.enumerate 0 cs) = cs"
      by (rule enumerate_map_const, rule read_smtp_json) (simp add: assms)
    ultimately show ?thesis by simp
  qed
  ultimately show ?thesis by (simp add: ranked_configs_def)
qed

lemma smtp_saved:
  assumes "gcm_ok X" "getSmtpConfigs X coll (ap_world s) = Some cs" "field_trim fd ''smtpId'' = i" "i \<noteq> []"
    "\<forall>c \<in> set (replace_config (smtp_of_form X fd i cs) cs). smtp_normal c"
    "run_state (saveSmtpSettingsAction X coll fd) s = (r, s')"
  shows "r = Returned \<and> getSmtpConfigs X coll (ap_world s') =
     Some (sort_key (\<lambda>c. (mx_rank c, coll (mx_name c))) (replace_config (smtp_of_form X fd i cs) cs))"
proof -
  let ?cs = "replace_config (smtp_of_form X fd i cs) cs"
  obtain w' where w': "setSetting X ''smtpConfigs'' (JArr (map smtp_json ?cs)) (ap_world s) = (Inr (), w')"
    "getSetting X ''smtpConfigs'' w' = JArr (map smtp_json ?cs)" "map_of (settings w') ''smtpConfigs'' \<noteq> None"
    by (rule stored_configs [OF assms(1)])
  have "r = Returned \<and> s' = s\<lparr>ap_world := w'\<rparr>"
    using assms(2,3,4,6) w'(1)
    by (auto simp: saveSmtpSettingsAction_def peek_def call_def State_Monad.bind_def State_Monad.return_def Let_def)
  moreover from this have "ap_world s' = w'" by simp
  ultimately show ?thesis using w'(2,3) ranked_stored [OF assms(5)] by (simp add: getSmtpConfigs_def)
qed

end
