(* ===== verification/Announcements.thy ===== *)
theory Announcements
  imports Mailer Labs
begin

text \<open>
  Announcements and their templates (src/controller/src/lib/announcements.ts). Sending waits for the mail servers: the
  message is prepared and handed to them in one state of the database (\<open>prepare_announcement\<close>), and recorded in a later
  one (\<open>record_announcement\<close>). The order of \<open>localeCompare\<close> is the order of the keys that \<open>coll\<close> gives.
\<close>

section \<open>Templates\<close>

record template_input =
  ti_name :: string
  ti_subject :: string
  ti_body :: string

definition listAnnouncementTemplates :: "'h world \<Rightarrow> announcement_template_row list" where
  "listAnnouncementTemplates w = sort_key (\<lambda>r. (at_sort r, at_id r)) (rows (announcement_templates w))"

definition max_sort :: "'h world \<Rightarrow> int" where
  "max_sort w = (case rows (announcement_templates w) of [] \<Rightarrow> - 1 | r # rs \<Rightarrow> foldr max (map at_sort rs) (at_sort r))"

definition check_template :: "template_input \<Rightarrow> error + template_input" where
  "check_template t =
     (let name = trim (ti_name t); subject = trim (ti_subject t); body = trim (ti_body t) in
      if name = [] then Inl (AnnounceE TemplateNameRequired)
      else if body = [] then Inl (AnnounceE TemplateBodyRequired)
      else Inr \<lparr>ti_name = name, ti_subject = subject, ti_body = body\<rparr>)"

definition createAnnouncementTemplate :: "template_input \<Rightarrow> (nat, 'h) op" where
  "createAnnouncementTemplate t w =
     (case check_template t of
        Inl e \<Rightarrow> (Inl e, w)
      | Inr u \<Rightarrow> (Inr (tbl_next (announcement_templates w)),
          w\<lparr>announcement_templates := tbl_insert (\<lambda>i. \<lparr>at_id = i, at_name = ti_name u, at_subject = ti_subject u,
               at_body = ti_body u, at_sort = max_sort w + 1\<rparr>) (announcement_templates w)\<rparr>))"

definition updateAnnouncementTemplate :: "nat \<Rightarrow> template_input \<Rightarrow> (unit, 'h) op" where
  "updateAnnouncementTemplate i t w =
     (case check_template t of
        Inl e \<Rightarrow> (Inl e, w)
      | Inr u \<Rightarrow>
          if tbl_changes (\<lambda>r. at_id r = i) (announcement_templates w) = 0 then (Inl (AnnounceE TemplateNotFound), w)
          else (Inr (), w\<lparr>announcement_templates := tbl_update (\<lambda>r. at_id r = i)
                 (\<lambda>r. r\<lparr>at_name := ti_name u, at_subject := ti_subject u, at_body := ti_body u\<rparr>) (announcement_templates w)\<rparr>))"

definition deleteAnnouncementTemplate :: "nat \<Rightarrow> 'h world \<Rightarrow> 'h world" where
  "deleteAnnouncementTemplate i w = w\<lparr>announcement_templates := tbl_delete (\<lambda>r. at_id r = i) (announcement_templates w)\<rparr>"

section \<open>Recipients\<close>

datatype audience = Students | Pis

record recipient =
  rc_email :: string
  rc_name :: string

text \<open>
  The rows of an audience with e-mail, name and username. The alias \<open>name\<close> of the second query is \<open>pi_name\<close>, and its
  ORDER BY sorts by it, NULL first. The test \<open>TRIM(email) <> ''\<close> is implied by the one on the trimmed text.
\<close>

definition audience_rows :: "audience \<Rightarrow> 'h world \<Rightarrow> (string \<times> string option \<times> string option) list" where
  "audience_rows a w =
     (case a of
        Students \<Rightarrow> List.map_filter (\<lambda>s. map_option (\<lambda>e. (e, s_name s, Some (s_username s))) (s_email s)) (sort_key s_username (rows (students w)))
      | Pis \<Rightarrow> List.map_filter (\<lambda>l. map_option (\<lambda>e. (e, l_pi_name l, None)) (l_pi_email l))
          (sort_key (\<lambda>l. case l_pi_name l of None \<Rightarrow> (0 :: nat, []) | Some n \<Rightarrow> (1, n)) (rows (labs w))))"

definition trimmed_opt :: "string option \<Rightarrow> string" where
  "trimmed_opt x = (case x of None \<Rightarrow> [] | Some s \<Rightarrow> trim s)"

definition add_recipient :: "string \<times> string option \<times> string option \<Rightarrow> recipient list \<Rightarrow> recipient list" where
  "add_recipient r byEmail =
     (case r of (e, name, username) \<Rightarrow>
        let email = trim e in
        if email = [] \<or> email \<in> rc_email ` set byEmail then byEmail
        else byEmail @ [\<lparr>rc_email = email, rc_name = or_else (trimmed_opt name) (or_else (trimmed_opt username) email)\<rparr>])"

definition audienceRecipients :: "audience \<Rightarrow> 'h world \<Rightarrow> recipient list" where
  "audienceRecipients a w = fold add_recipient (audience_rows a w) []"

definition audienceCounts :: "'h world \<Rightarrow> nat \<times> nat" where
  "audienceCounts w = (length (audienceRecipients Students w), length (audienceRecipients Pis w))"

text \<open>\<open>if (!byEmail.has(r.email)) byEmail.set(r.email, r)\<close>.\<close>

definition keep_new :: "recipient list \<Rightarrow> recipient list \<Rightarrow> recipient list" where
  "keep_new rs byEmail = fold (\<lambda>r acc. if rc_email r \<in> rc_email ` set acc then acc else acc @ [r]) rs byEmail"

datatype person_kind = User | Pi

definition listAnnouncementPeople :: "(string \<Rightarrow> string) \<Rightarrow> 'h world \<Rightarrow> (recipient \<times> person_kind) list" where
  "listAnnouncementPeople coll w =
     (let users = audienceRecipients Students w;
          pis = filter (\<lambda>r. rc_email r \<notin> rc_email ` set users) (audienceRecipients Pis w)
      in sort_key (\<lambda>(r, k). coll (rc_name r)) (map (\<lambda>r. (r, User)) users @ map (\<lambda>r. (r, Pi)) pis))"

section \<open>Sending\<close>

record announcement_input =
  ai_subject :: string
  ai_body :: string
  ai_audiences :: "audience list"
  ai_individuals :: "string list"
  ai_placeholders :: "(string \<times> string) list"
  ai_sender :: "(string \<times> string) option"
  ai_actor :: "string option"

record announcement_job =
  aj_subject :: string
  aj_body :: string
  aj_recipients :: "recipient list"
  aj_skipped :: bool
  aj_sent :: nat
  aj_audiences :: string
  aj_actor :: "string option"

definition missing_tokens :: "string \<Rightarrow> string \<Rightarrow> (string \<times> string) list \<Rightarrow> string list" where
  "missing_tokens subject body values =
     filter (\<lambda>t. trimmed_opt (map_of values t) = []) (extractBracketTokens (subject @ [CHR 0x0A] @ body))"

text \<open>The individuals must be known; \<open>Inl\<close> is the first that is not.\<close>

fun add_individuals :: "recipient list \<Rightarrow> string list \<Rightarrow> recipient list \<Rightarrow> string + recipient list" where
  "add_individuals known [] byEmail = Inr byEmail"
| "add_individuals known (e # es) byEmail =
     (case List.find (\<lambda>p. rc_email p = e) known of
        None \<Rightarrow> Inl e
      | Some person \<Rightarrow>
          add_individuals known es
            (if e \<in> rc_email ` set byEmail then byEmail else byEmail @ [\<lparr>rc_email = e, rc_name = rc_name person\<rparr>]))"

definition union_recipients :: "(string \<Rightarrow> string) \<Rightarrow> audience list \<Rightarrow> string list \<Rightarrow> 'h world \<Rightarrow> string + recipient list" where
  "union_recipients coll audiences individuals w =
     add_individuals (map fst (listAnnouncementPeople coll w)) individuals
       (fold (\<lambda>a acc. keep_new (audienceRecipients a w) acc) audiences [])"

definition audience_name :: "audience \<Rightarrow> string" where
  "audience_name a = (case a of Students \<Rightarrow> ''students'' | Pis \<Rightarrow> ''pis'')"

definition audience_label :: "audience list \<Rightarrow> string list \<Rightarrow> string" where
  "audience_label audiences individuals =
     join '','' (map audience_name audiences @ (if individuals \<noteq> [] then [show_nat (length individuals) @ '' picked''] else []))"

definition ANNOUNCEMENT_VARS :: "(string \<times> string) list" where
  "ANNOUNCEMENT_VARS =
     [(''name'', ''recipient'' @ [CHR 0x27] @ ''s name (falls back to username, then email)''), (''email'', ''recipient'' @ [CHR 0x27] @ ''s email address''),
      (''sender'', ''sending admin'' @ [CHR 0x27] @ ''s name''), (''sender_email'', ''sending admin'' @ [CHR 0x27] @ ''s email address'')]"

definition recipient_vars :: "(string \<times> string) option \<Rightarrow> recipient \<Rightarrow> (string \<times> string) list" where
  "recipient_vars sender r =
     [(''name'', rc_name r), (''email'', rc_email r)] @
     (case sender of None \<Rightarrow> [] | Some (n, e) \<Rightarrow> [(''sender'', n), (''sender_email'', e)])"

definition accepted :: "'h ext \<Rightarrow> (string \<Rightarrow> string) \<Rightarrow> deliver \<Rightarrow> 'h world \<Rightarrow> (string \<times> string) option \<Rightarrow> string \<Rightarrow> string \<Rightarrow> recipient \<Rightarrow> bool" where
  "accepted X coll d w sender subject body r =
     (sendMail X coll d w (rc_email r) (renderTemplate subject (recipient_vars sender r)) (renderTemplate body (recipient_vars sender r))
        = Some Sent)"

definition prepare_announcement :: "'h ext \<Rightarrow> (string \<Rightarrow> string) \<Rightarrow> deliver \<Rightarrow> announcement_input \<Rightarrow> 'h world \<Rightarrow> error + announcement_job" where
  "prepare_announcement X coll d inp w =
     (let subject = trim (ai_subject inp); body = trim (ai_body inp); values = ai_placeholders inp;
          missing = missing_tokens subject body values; individuals = js_set (ai_individuals inp)
      in if subject = [] then Inl (AnnounceE SubjectRequired)
         else if body = [] then Inl (AnnounceE MessageRequired)
         else if missing \<noteq> [] then Inl (AnnounceE (FillIn missing))
         else if ai_audiences inp = [] \<and> individuals = [] then Inl (AnnounceE PickAudience)
         else (case union_recipients coll (ai_audiences inp) individuals w of
                 Inl e \<Rightarrow> Inl (AnnounceE (UnknownRecipient e))
               | Inr recipients \<Rightarrow>
                   (case isSmtpConfigured X coll w of
                      None \<Rightarrow> Inl JsTypeError
                    | Some configured \<Rightarrow>
                        let subject = fillBracketTokens subject values; body = fillBracketTokens body values in
                        Inr \<lparr>aj_subject = subject, aj_body = body, aj_recipients = recipients, aj_skipped = (\<not> configured),
                          aj_sent = (if configured then length (filter (accepted X coll d w (ai_sender inp) subject body) recipients) else 0),
                          aj_audiences = audience_label (ai_audiences inp) individuals, aj_actor = ai_actor inp\<rparr>)))"

definition record_announcement :: "announcement_job \<Rightarrow> 'h world \<Rightarrow> 'h world" where
  "record_announcement j w =
     audit (aj_actor j) ''announcement.send'' (Some (aj_audiences j))
       (Some (show_nat (aj_sent j) @ ''/'' @ show_nat (length (aj_recipients j)) @ '' sent''))
       (w\<lparr>announcements := tbl_insert (\<lambda>i. \<lparr>an_id = i, an_ts = clock w, an_actor = aj_actor j, an_audiences = aj_audiences j,
            an_subject = aj_subject j, an_body = aj_body j, an_recipients = length (aj_recipients j), an_sent = aj_sent j,
            an_skipped = aj_skipped j\<rparr>) (announcements w)\<rparr>)"

text \<open>The whole call when nothing comes between its two parts.\<close>

definition sendAnnouncement :: "'h ext \<Rightarrow> (string \<Rightarrow> string) \<Rightarrow> deliver \<Rightarrow> announcement_input \<Rightarrow> (announcement_job, 'h) op" where
  "sendAnnouncement X coll d inp w =
     (case prepare_announcement X coll d inp w of Inl e \<Rightarrow> (Inl e, w) | Inr j \<Rightarrow> (Inr j, record_announcement j w))"

definition recentAnnouncements :: "nat \<Rightarrow> 'h world \<Rightarrow> announcement_row list" where
  "recentAnnouncements limit w = take limit (sort_key (\<lambda>r. - an_ts r) (rows (announcements w)))"

definition deleteAnnouncement :: "nat \<Rightarrow> string \<Rightarrow> (unit, 'h) op" where
  "deleteAnnouncement i actor w =
     (if tbl_changes (\<lambda>r. an_id r = i) (announcements w) = 0 then (Inl (AnnounceE AnnouncementNotFound), w)
      else (Inr (), audit (Some actor) ''announcement.delete'' (Some (show_nat i)) None
              (w\<lparr>announcements := tbl_delete (\<lambda>r. an_id r = i) (announcements w)\<rparr>)))"

definition clearAnnouncements :: "string \<Rightarrow> 'h world \<Rightarrow> nat \<times> 'h world" where
  "clearAnnouncements actor w =
     (let cleared = length (rows (announcements w)) in
      (cleared, audit (Some actor) ''announcements.clear'' None (Some (show_nat cleared @ '' announcement(s)''))
                  (w\<lparr>announcements := tbl_delete (\<lambda>_. True) (announcements w)\<rparr>)))"

end
