(* ===== verification/Announcement_Facts.thy ===== *)
theory Announcement_Facts
  imports Announcements
begin

text \<open>
  Who an announcement goes to and what text: every address once, only addresses of the database, no placeholder of the
  administrator left open; and the order of the templates.
\<close>

section \<open>Addresses\<close>

abbreviation emails :: "recipient list \<Rightarrow> string list" where
  "emails rs \<equiv> map rc_email rs"

definition audience_emails :: "audience \<Rightarrow> 'h world \<Rightarrow> string set" where
  "audience_emails a w =
     (case a of
        Students \<Rightarrow> {trim e | e s. s \<in> set (rows (students w)) \<and> s_email s = Some e \<and> trim e \<noteq> []}
      | Pis \<Rightarrow> {trim e | e l. l \<in> set (rows (labs w)) \<and> l_pi_email l = Some e \<and> trim e \<noteq> []})"

lemma add_recipients:
  "distinct (emails acc) \<Longrightarrow> distinct (emails (fold add_recipient rs acc)) \<and>
     rc_email ` set (fold add_recipient rs acc) = rc_email ` set acc \<union> {trim e | e n u. (e, n, u) \<in> set rs \<and> trim e \<noteq> []}"
proof (induction rs arbitrary: acc)
  case (Cons r rs)
  obtain e n u where r: "r = (e, n, u)" by (cases r)
  have "distinct (emails (add_recipient r acc))" using Cons.prems r by (simp add: add_recipient_def Let_def)
  note IH = Cons.IH [OF this]
  have "rc_email ` set (add_recipient r acc) = rc_email ` set acc \<union> (if trim e = [] then {} else {trim e})"
    using r by (auto simp: add_recipient_def Let_def)
  with IH r show ?case by auto
qed simp

lemma audience_rows_emails: "{trim e | e n u. (e, n, u) \<in> set (audience_rows a w) \<and> trim e \<noteq> []} = audience_emails a w"
  by (cases a) (auto simp: audience_rows_def audience_emails_def set_map_filter; blast)+

lemma audienceRecipients_emails:
  "distinct (emails (audienceRecipients a w))" "rc_email ` set (audienceRecipients a w) = audience_emails a w"
  using add_recipients [of "[]" "audience_rows a w"] audience_rows_emails [of a w] by (simp_all add: audienceRecipients_def)

lemma keep_new_emails:
  "distinct (emails acc) \<Longrightarrow> distinct (emails (keep_new rs acc)) \<and> rc_email ` set (keep_new rs acc) = rc_email ` set acc \<union> rc_email ` set rs"
  unfolding keep_new_def
proof (induction rs arbitrary: acc)
  case (Cons r rs)
  show ?case
  proof (cases "rc_email r \<in> rc_email ` set acc")
    case True
    with Cons.IH [OF Cons.prems] show ?thesis by auto
  next
    case False
    with Cons.prems have "distinct (emails (acc @ [r]))" by simp
    from Cons.IH [OF this] False show ?thesis by auto
  qed
qed simp

lemma audiences_emails:
  "distinct (emails acc) \<Longrightarrow> distinct (emails (fold (\<lambda>a acc. keep_new (audienceRecipients a w) acc) as acc)) \<and>
     rc_email ` set (fold (\<lambda>a acc. keep_new (audienceRecipients a w) acc) as acc) =
       rc_email ` set acc \<union> (\<Union>a \<in> set as. audience_emails a w)"
proof (induction as arbitrary: acc)
  case (Cons a as)
  have k: "distinct (emails (keep_new (audienceRecipients a w) acc))"
    "rc_email ` set (keep_new (audienceRecipients a w) acc) = rc_email ` set acc \<union> audience_emails a w"
    using keep_new_emails [OF Cons.prems, of "audienceRecipients a w"] unfolding audienceRecipients_emails(2) by blast+
  from Cons.IH [OF k(1)] k(2) show ?case by auto
qed simp

lemma people_emails:
  "rc_email ` set (map fst (listAnnouncementPeople coll w)) = audience_emails Students w \<union> audience_emails Pis w"
proof -
  have "set (map fst (listAnnouncementPeople coll w)) =
      set (audienceRecipients Students w) \<union> {r \<in> set (audienceRecipients Pis w). rc_email r \<notin> rc_email ` set (audienceRecipients Students w)}"
    by (auto simp: listAnnouncementPeople_def Let_def image_Un image_image)
  moreover have "f ` (A \<union> {r \<in> B. f r \<notin> f ` A}) = f ` A \<union> f ` B" for f :: "recipient \<Rightarrow> string" and A B by blast
  ultimately have "rc_email ` set (map fst (listAnnouncementPeople coll w)) =
      rc_email ` set (audienceRecipients Students w) \<union> rc_email ` set (audienceRecipients Pis w)" by (simp only:)
  then show ?thesis by (simp only: audienceRecipients_emails(2))
qed

lemma add_individuals_Inr:
  "add_individuals known es acc = Inr rs \<Longrightarrow> distinct (emails acc) \<Longrightarrow>
     set es \<subseteq> rc_email ` set known \<and> distinct (emails rs) \<and> rc_email ` set rs = rc_email ` set acc \<union> set es"
proof (induction known es acc rule: add_individuals.induct)
  case (2 known e es byEmail)
  from "2.prems"(1) obtain person where p: "List.find (\<lambda>p. rc_email p = e) known = Some person" by (auto split: option.splits)
  let ?acc = "if e \<in> rc_email ` set byEmail then byEmail else byEmail @ [\<lparr>rc_email = e, rc_name = rc_name person\<rparr>]"
  have d: "distinct (emails ?acc)" "rc_email ` set ?acc = insert e (rc_email ` set byEmail)" using "2.prems"(2) by auto
  have "e \<in> rc_email ` set known" using p by (auto simp: find_Some_iff)
  with "2.IH" [OF p _ d(1)] "2.prems"(1) p d(2) show ?case by auto
qed simp

lemma add_individuals_Inl:
  "add_individuals known es acc = Inl e \<Longrightarrow> e \<in> set es \<and> e \<notin> rc_email ` set known"
proof (induction known es acc rule: add_individuals.induct)
  case (2 known d es byEmail)
  show ?case
  proof (cases "List.find (\<lambda>p. rc_email p = d) known")
    case None
    with "2.prems" show ?thesis by (auto simp: find_None_iff)
  next
    case (Some person)
    from "2.IH" [OF Some] "2.prems" Some show ?thesis by auto
  qed
qed simp

lemma set_js_set [simp]: "set (js_set xs) = set xs"
  by (simp add: js_set_def)

lemma union_recipients_Inr:
  assumes "union_recipients coll as (js_set is) w = Inr rs"
  shows "distinct (emails rs)" "rc_email ` set rs = (\<Union>a \<in> set as. audience_emails a w) \<union> set is"
    "set is \<subseteq> audience_emails Students w \<union> audience_emails Pis w"
  using add_individuals_Inr [OF assms [unfolded union_recipients_def]] audiences_emails [of "[]" w as] people_emails [of coll w]
  by auto

section \<open>The text\<close>

lemma dropWhile_stop: "\<not> P x \<Longrightarrow> dropWhile P (s @ x # t) = dropWhile P s @ x # t"
  by (induction s) auto

lemma takeWhile_stop: "\<not> P x \<Longrightarrow> takeWhile P (s @ x # t) = takeWhile P s"
  by (induction s) auto

text \<open>A character outside every token separates the tokens before it from those after it.\<close>

lemma token_match_append:
  assumes "\<not> tr_rest re x" "x \<noteq> tr_open re" "x \<noteq> tr_close re"
  shows "token_match re (s @ x # t) = map_option (\<lambda>(k, r). (k, r @ x # t)) (token_match re s)"
proof (cases s)
  case Nil
  then show ?thesis using assms(2) by (simp add: token_match_def Let_def)
next
  case (Cons c u)
  show ?thesis
  proof (cases "dropWhile (tr_rest re) u")
    case Nil
    then show ?thesis using assms(1,3)
      by (simp add: \<open>s = c # u\<close> token_match_def Let_def takeWhile_stop [where P = "tr_rest re"] dropWhile_stop [where P = "tr_rest re"])
  next
    case (Cons d v)
    then have "\<exists>z \<in> set u. \<not> tr_rest re z" by (metis dropWhile_eq_Nil_conv list.distinct(1))
    with Cons show ?thesis using assms(1)
      by (simp add: \<open>s = c # u\<close> token_match_def Let_def takeWhile_stop [where P = "tr_rest re"] dropWhile_stop [where P = "tr_rest re"])
  qed
qed

lemma segments_append:
  assumes "\<not> tr_rest re x" "x \<noteq> tr_open re" "x \<noteq> tr_close re"
  shows "segments re (s @ x # t) = segments re s @ Lit x # segments re t"
  using assms
proof (induction re s rule: segments.induct)
  case (1 re s)
  note m = token_match_append [OF "1.prems", of s t]
  show ?case
  proof (cases "token_match re s")
    case None
    show ?thesis
    proof (cases s)
      case Nil
      with m None show ?thesis by (simp add: segments_unfold)
    next
      case (Cons c u)
      from "1.IH"(1) [OF None Cons "1.prems"] m None Cons show ?thesis by (simp add: segments_unfold)
    qed
  next
    case (Some p)
    obtain k r where p: "p = (k, r)" by fastforce
    from "1.IH"(2) [OF Some p [symmetric] "1.prems"] m Some p show ?thesis
      by (simp add: segments_unfold(3) [of re "s @ x # t" k "r @ x # t"] segments_unfold(3) [of re s k r])
  qed
qed

lemma bracket_tokens_lines:
  "set (extractBracketTokens (s @ [CHR 0x0A] @ t)) = set (extractBracketTokens s) \<union> set (extractBracketTokens t)"
proof -
  have "segments BRACKET_TOKEN_RE (s @ CHR 0x0A # t) = segments BRACKET_TOKEN_RE s @ Lit (CHR 0x0A) # segments BRACKET_TOKEN_RE t"
    by (rule segments_append) (simp_all add: BRACKET_TOKEN_RE_def is_AZ_def is_digit_def code_unit_def)
  then show ?thesis by (auto simp: set_extract)
qed

text \<open>A text all of whose placeholders have a value: every one is replaced, by a value that is not blank.\<close>

definition filled :: "string \<Rightarrow> (string \<times> string) list \<Rightarrow> string \<Rightarrow> bool" where
  "filled template values result \<longleftrightarrow>
     (\<forall>k \<in> set (extractBracketTokens template). \<exists>v. map_of values k = Some v \<and> trim v \<noteq> []) \<and>
     result = concat (map (\<lambda>g. case g of Lit c \<Rightarrow> [c] | Tok k \<Rightarrow> the (map_of values k)) (segments BRACKET_TOKEN_RE template))"

lemma no_missing:
  assumes "missing_tokens subject body values = []" "k \<in> set (extractBracketTokens subject) \<union> set (extractBracketTokens body)"
  shows "\<exists>v. map_of values k = Some v \<and> trim v \<noteq> []"
proof -
  have "trimmed_opt (map_of values k) \<noteq> []"
    using assms bracket_tokens_lines [of subject body] unfolding missing_tokens_def filter_empty_conv by blast
  then show ?thesis by (auto simp: trimmed_opt_def split: option.splits)
qed

lemma filled_intro:
  assumes "\<And>k. k \<in> set (extractBracketTokens t) \<Longrightarrow> \<exists>v. map_of values k = Some v \<and> trim v \<noteq> []"
  shows "filled t values (fillBracketTokens t values)"
proof -
  have "seg_text BRACKET_TOKEN_RE (map_of values) g = (case g of Lit c \<Rightarrow> [c] | Tok k \<Rightarrow> the (map_of values k))"
    if "g \<in> set (segments BRACKET_TOKEN_RE t)" for g
  proof (cases g)
    case (Tok k)
    with that assms [of k] show ?thesis by (auto simp: seg_text_def set_extract)
  qed (simp add: seg_text_def)
  then have "fillBracketTokens t values =
      concat (map (\<lambda>g. case g of Lit c \<Rightarrow> [c] | Tok k \<Rightarrow> the (map_of values k)) (segments BRACKET_TOKEN_RE t))"
    unfolding fillBracketTokens_def substitute_def by (intro arg_cong [of _ _ concat] map_cong) auto
  with assms show ?thesis unfolding filled_def by blast
qed

section \<open>The announcement\<close>

lemma prepared:
  assumes "prepare_announcement X coll d inp w = Inr j"
  shows "distinct (emails (aj_recipients j))"
    "rc_email ` set (aj_recipients j) = (\<Union>a \<in> set (ai_audiences inp). audience_emails a w) \<union> set (ai_individuals inp)"
    "set (ai_individuals inp) \<subseteq> audience_emails Students w \<union> audience_emails Pis w"
    "filled (trim (ai_subject inp)) (ai_placeholders inp) (aj_subject j)" "filled (trim (ai_body inp)) (ai_placeholders inp) (aj_body j)"
    "aj_sent j \<le> length (aj_recipients j)" "aj_skipped j \<Longrightarrow> aj_sent j = 0"
    "isSmtpConfigured X coll w = Some (\<not> aj_skipped j)"
proof -
  let ?is = "js_set (ai_individuals inp)"
  from assms obtain rs c where u: "union_recipients coll (ai_audiences inp) ?is w = Inr rs" and c: "isSmtpConfigured X coll w = Some c"
    and m: "missing_tokens (trim (ai_subject inp)) (trim (ai_body inp)) (ai_placeholders inp) = []"
    and j: "aj_recipients j = rs" "aj_skipped j = (\<not> c)" "aj_subject j = fillBracketTokens (trim (ai_subject inp)) (ai_placeholders inp)"
      "aj_body j = fillBracketTokens (trim (ai_body inp)) (ai_placeholders inp)"
      "aj_sent j = (if c then length (filter (accepted X coll d w (ai_sender inp) (aj_subject j) (aj_body j)) rs) else 0)"
    by (auto simp: prepare_announcement_def Let_def split: if_splits sum.splits option.splits)
  show "distinct (emails (aj_recipients j))"
    "rc_email ` set (aj_recipients j) = (\<Union>a \<in> set (ai_audiences inp). audience_emails a w) \<union> set (ai_individuals inp)"
    "set (ai_individuals inp) \<subseteq> audience_emails Students w \<union> audience_emails Pis w"
    using union_recipients_Inr [OF u] j(1) by auto
  show "filled (trim (ai_subject inp)) (ai_placeholders inp) (aj_subject j)" "filled (trim (ai_body inp)) (ai_placeholders inp) (aj_body j)"
    unfolding j(3,4) using no_missing [OF m] by (auto intro: filled_intro)
  show "aj_sent j \<le> length (aj_recipients j)" using j(1,5) by (auto intro: length_filter_le)
  show "aj_skipped j \<Longrightarrow> aj_sent j = 0" using j(2,5) by simp
  show "isSmtpConfigured X coll w = Some (\<not> aj_skipped j)" using c j(2) by simp
qed

section \<open>Templates\<close>

lemma foldr_max_le: "x = a \<or> x \<in> set xs \<Longrightarrow> x \<le> foldr max xs (a :: int)"
  by (induction xs) (auto simp: le_max_iff_disj)

lemma max_sort_ge: "r \<in> set (rows (announcement_templates w)) \<Longrightarrow> at_sort r \<le> max_sort w"
  by (cases "rows (announcement_templates w)") (auto simp: max_sort_def intro!: foldr_max_le)

text \<open>A new template comes last, an edit keeps its place.\<close>

lemma insort_key_snoc: "f x \<le> f r \<Longrightarrow> insort_key f x (ys @ [r]) = insort_key f x ys @ [r]"
  by (induction ys) auto

lemma sort_key_snoc: "\<forall>y \<in> set xs. f y \<le> f r \<Longrightarrow> sort_key f (xs @ [r]) = sort_key f xs @ [r]"
  by (induction xs) (auto simp: insort_key_snoc)

lemma created_is_last:
  assumes "createAnnouncementTemplate t w = (Inr i, w')"
  shows "\<exists>r. listAnnouncementTemplates w' = listAnnouncementTemplates w @ [r] \<and> at_id r = i \<and>
     at_name r = trim (ti_name t) \<and> at_subject r = trim (ti_subject t) \<and> at_body r = trim (ti_body t)"
proof -
  from assms obtain u where u: "check_template t = Inr u" by (auto simp: createAnnouncementTemplate_def split: sum.splits)
  let ?r = "\<lparr>at_id = i, at_name = ti_name u, at_subject = ti_subject u, at_body = ti_body u, at_sort = max_sort w + 1\<rparr>"
  have rs: "rows (announcement_templates w') = rows (announcement_templates w) @ [?r]"
    using assms u by (auto simp: createAnnouncementTemplate_def)
  let ?k = "\<lambda>r. (at_sort r, at_id r)"
  have "?k y \<le> ?k ?r" if "y \<in> set (rows (announcement_templates w))" for y
    using max_sort_ge [OF that] by (simp add: less_eq_prod_def)
  then have "listAnnouncementTemplates w' = listAnnouncementTemplates w @ [?r]"
    unfolding listAnnouncementTemplates_def rs by (intro sort_key_snoc) blast
  then show ?thesis using u by (intro exI [of _ ?r]) (auto simp: check_template_def Let_def split: if_splits)
qed

end
