(* ===== verification/MailActions.thy ===== *)
theory MailActions
  imports SmtpActions Auth Announcement_Facts
begin

text \<open>
  The actions of the pages for mail templates and announcements (email-templates/actions.ts and
  announcements/actions.ts under src/controller/src/app/(app)). A dash outside Latin-1 is written as a hyphen.
\<close>

section \<open>Mail templates\<close>

text \<open>The subject is trimmed, the body is stored as it is.\<close>

definition save_email :: "'h ext \<Rightarrow> string \<Rightarrow> string \<Rightarrow> form \<Rightarrow> ('h, outcome) act" where
  "save_email X subjectKey bodyKey fd = do {
     put_setting X subjectKey (JStr (field_trim fd ''subject''));
     put_setting X bodyKey (JStr (field_str fd ''body'' []));
     State_Monad.return Returned }"

definition saveUniversalSignatureAction :: "'h ext \<Rightarrow> form \<Rightarrow> ('h, outcome) act" where
  "saveUniversalSignatureAction X fd = do {
     put_setting X ''emailSignatureText'' (JStr (field_trim fd ''signatureText''));
     State_Monad.return Returned }"

definition saveWelcomeEmailAction :: "'h ext \<Rightarrow> form \<Rightarrow> ('h, outcome) act" where
  "saveWelcomeEmailAction X = save_email X ''welcomeEmailSubject'' ''welcomeEmailBody''"

definition saveGpuWarnEmailAction :: "'h ext \<Rightarrow> form \<Rightarrow> ('h, outcome) act" where
  "saveGpuWarnEmailAction X = save_email X ''gpuWarnEmailSubject'' ''gpuWarnEmailBody''"

definition saveGpuKillEmailAction :: "'h ext \<Rightarrow> form \<Rightarrow> ('h, outcome) act" where
  "saveGpuKillEmailAction X = save_email X ''gpuKillEmailSubject'' ''gpuKillEmailBody''"

definition saveRemovalEmailAction :: "'h ext \<Rightarrow> form \<Rightarrow> ('h, outcome) act" where
  "saveRemovalEmailAction X = save_email X ''removalEmailSubject'' ''removalEmailBody''"

definition saveQuotaEmailAction :: "'h ext \<Rightarrow> form \<Rightarrow> ('h, outcome) act" where
  "saveQuotaEmailAction X = save_email X ''quotaEmailSubject'' ''quotaEmailBody''"

definition saveStudentQuotaEmailAction :: "'h ext \<Rightarrow> form \<Rightarrow> ('h, outcome) act" where
  "saveStudentQuotaEmailAction X = save_email X ''studentQuotaEmailSubject'' ''studentQuotaEmailBody''"

definition savePlacementCompleteEmailAction :: "'h ext \<Rightarrow> form \<Rightarrow> ('h, outcome) act" where
  "savePlacementCompleteEmailAction X = save_email X ''placementCompleteEmailSubject'' ''placementCompleteEmailBody''"

definition saveUsageReportStudentEmailAction :: "'h ext \<Rightarrow> form \<Rightarrow> ('h, outcome) act" where
  "saveUsageReportStudentEmailAction X = save_email X ''usageReportStudentSubject'' ''usageReportStudentBody''"

definition saveUsageReportPiEmailAction :: "'h ext \<Rightarrow> form \<Rightarrow> ('h, outcome) act" where
  "saveUsageReportPiEmailAction X = save_email X ''usageReportPiSubject'' ''usageReportPiBody''"

definition saveTestEmailAction :: "'h ext \<Rightarrow> form \<Rightarrow> ('h, outcome) act" where
  "saveTestEmailAction X = save_email X ''testEmailSubject'' ''testEmailBody''"

section \<open>Announcement templates\<close>

definition template_of_form :: "form \<Rightarrow> template_input" where
  "template_of_form fd = \<lparr>ti_name = field_str fd ''name'' [], ti_subject = field_str fd ''subject'' [], ti_body = field_str fd ''body'' []\<rparr>"

definition withTemplateFlash :: "'h ext \<Rightarrow> ('a, 'h) op \<Rightarrow> ('h, outcome) act" where
  "withTemplateFlash X f = do {
     r \<leftarrow> call f;
     (case r of Inl e \<Rightarrow> with_error X TemplatesPage (Op e) | Inr _ \<Rightarrow> State_Monad.return Returned) }"

definition createAnnouncementTemplateAction :: "'h ext \<Rightarrow> form \<Rightarrow> ('h, outcome) act" where
  "createAnnouncementTemplateAction X fd = withTemplateFlash X (createAnnouncementTemplate (template_of_form fd))"

definition updateAnnouncementTemplateAction :: "'h ext \<Rightarrow> form \<Rightarrow> ('h, outcome) act" where
  "updateAnnouncementTemplateAction X fd =
     withTemplateFlash X (updateAnnouncementTemplate (as_id (field_num fd ''id'')) (template_of_form fd))"

definition deleteAnnouncementTemplateAction :: "'h ext \<Rightarrow> form \<Rightarrow> ('h, outcome) act" where
  "deleteAnnouncementTemplateAction X fd = do {
     modify (deleteAnnouncementTemplate (as_id (field_num fd ''id'')));
     with_saved X TemplatesPage ''Announcement template deleted.'' }"

section \<open>Announcements\<close>

definition field_all :: "form \<Rightarrow> string \<Rightarrow> string list" where
  "field_all fd k = map snd (filter (\<lambda>kv. fst kv = k) fd)"

text \<open>Every field \<open>ph_<TOKEN>\<close>, a later one over an earlier one.\<close>

definition placeholder_fields :: "form \<Rightarrow> (string \<times> string) list" where
  "placeholder_fields fd = fold (\<lambda>(k, v) m. if startsWith k ''ph_'' then AList.update (drop 3 k) v m else m) fd []"

definition announcement_of_form :: "admin \<Rightarrow> form \<Rightarrow> announcement_input" where
  "announcement_of_form a fd =
     \<lparr>ai_subject = field_str fd ''subject'' [], ai_body = field_str fd ''body'' [],
      ai_audiences = (if field_on fd ''students'' then [Students] else []) @ (if field_on fd ''pis'' then [Pis] else []),
      ai_individuals = field_all fd ''recipient'', ai_placeholders = placeholder_fields fd,
      ai_sender = Some (ad_name a, ad_email a), ai_actor = Some (ad_email a)\<rparr>"

definition announced_message :: "announcement_job \<Rightarrow> string" where
  "announced_message j =
     (let n = show_nat (length (aj_recipients j)) in
      if aj_skipped j then ''SMTP not configured - nothing sent ('' @ n @ '' recipient(s) would have been targeted)''
      else ''Sent to '' @ show_nat (aj_sent j) @ '' of '' @ n @ '' recipient(s)'')"

definition sendAnnouncementAction :: "'h ext \<Rightarrow> (string \<Rightarrow> string) \<Rightarrow> deliver \<Rightarrow> admin \<Rightarrow> form \<Rightarrow> ('h, outcome) act" where
  "sendAnnouncementAction X coll d a fd = do {
     r \<leftarrow> call (sendAnnouncement X coll d (announcement_of_form a fd));
     State_Monad.return (Redirect AnnouncementsPage
       [(''msg'', case r of Inl e \<Rightarrow> ErrorMessage (Op e) | Inr j \<Rightarrow> Text (announced_message j))]) }"

definition deleteAnnouncementAction :: "string \<Rightarrow> form \<Rightarrow> ('h, outcome) act" where
  "deleteAnnouncementAction who fd = do {
     r \<leftarrow> call (deleteAnnouncement (as_id (field_num fd ''id'')) who);
     State_Monad.return (Redirect AnnouncementsPage
       [(''msg'', case r of Inl e \<Rightarrow> ErrorMessage (Op e) | Inr _ \<Rightarrow> Text ''Announcement deleted'')]) }"

definition clearAnnouncementsAction :: "string \<Rightarrow> ('h, outcome) act" where
  "clearAnnouncementsAction who = do {
     cleared \<leftarrow> peek (\<lambda>w. fst (clearAnnouncements who w));
     modify (\<lambda>w. snd (clearAnnouncements who w));
     State_Monad.return (Redirect AnnouncementsPage
       [(''msg'', Text (''Cleared '' @ show_nat cleared @ '' announcement'' @ (if cleared = 1 then [] else ''s'')))]) }"

section \<open>Safety\<close>

lemma same_core_news:
  "same_core (snd (createAnnouncementTemplate t w)) w" "same_core (snd (updateAnnouncementTemplate i t w)) w"
  "same_core (deleteAnnouncementTemplate i w) w" "same_core (record_announcement j w) w"
  "same_core (snd (sendAnnouncement X coll d inp w)) w" "same_core (snd (deleteAnnouncement i who w)) w"
  "same_core (snd (clearAnnouncements who w)) w"
  by (simp_all add: createAnnouncementTemplate_def updateAnnouncementTemplate_def deleteAnnouncementTemplate_def
      record_announcement_def sendAnnouncement_def deleteAnnouncement_def clearAnnouncements_def same_core_def same_registry_def
      audit_def Let_def split: sum.split)

lemmas safe_news [act_intros] =
  safe_call [OF good_same_core [OF _ same_core_news(1)]] safe_call [OF good_same_core [OF _ same_core_news(2)]]
  safe_modify [OF good_same_core [OF _ same_core_news(3)]] safe_call [OF good_same_core [OF _ same_core_news(5)]]
  safe_call [OF good_same_core [OF _ same_core_news(6)]] safe_modify [OF good_same_core [OF _ same_core_news(7)]]

lemma safe_mail_actions:
  "safe (saveUniversalSignatureAction X fd)" "safe (saveWelcomeEmailAction X fd)" "safe (saveGpuWarnEmailAction X fd)"
  "safe (saveGpuKillEmailAction X fd)" "safe (saveRemovalEmailAction X fd)" "safe (saveQuotaEmailAction X fd)"
  "safe (saveStudentQuotaEmailAction X fd)" "safe (savePlacementCompleteEmailAction X fd)"
  "safe (saveUsageReportStudentEmailAction X fd)" "safe (saveUsageReportPiEmailAction X fd)" "safe (saveTestEmailAction X fd)"
  unfolding saveUniversalSignatureAction_def saveWelcomeEmailAction_def saveGpuWarnEmailAction_def saveGpuKillEmailAction_def
    saveRemovalEmailAction_def saveQuotaEmailAction_def saveStudentQuotaEmailAction_def savePlacementCompleteEmailAction_def
    saveUsageReportStudentEmailAction_def saveUsageReportPiEmailAction_def saveTestEmailAction_def save_email_def
  by (intro act_intros | assumption)+

lemma safe_news_actions:
  "safe (createAnnouncementTemplateAction X fd)" "safe (updateAnnouncementTemplateAction X fd)"
  "safe (deleteAnnouncementTemplateAction X fd)" "safe (sendAnnouncementAction X coll d a fd)"
  "safe (deleteAnnouncementAction who fd)" "safe (clearAnnouncementsAction who)"
  unfolding createAnnouncementTemplateAction_def updateAnnouncementTemplateAction_def deleteAnnouncementTemplateAction_def
    sendAnnouncementAction_def deleteAnnouncementAction_def clearAnnouncementsAction_def withTemplateFlash_def
  by (intro act_intros | assumption)+

end
