(* ===== verification/StatsActions.thy ===== *)
theory StatsActions
  imports UsageReport MailActions
begin

text \<open>
  The actions of the statistics page (src/controller/src/app/(app)/stats/actions.ts): scans on demand, the report by
  mail, and the node groups. The mail is handed over and its outcome audited without another step in between.
\<close>

definition labUsernames :: "nat \<Rightarrow> 'h world \<Rightarrow> string list" where
  "labUsernames labId w = roster_names labId w"

definition scan_now :: "'h ext \<Rightarrow> string \<Rightarrow> placement \<Rightarrow> ('h, unit) act" where
  "scan_now X who p = do {
     users \<leftarrow> peek (labUsernames (p_lab_id (pl_row p)));
     modify (enqueue X (pl_node_name p) ''usage.scan'' (JObj [(''lab'', JStr (pl_lab_name p)), (''users'', JArr (map JStr users))]) (Some who)) }"

definition usageScanAction :: "'h ext \<Rightarrow> string \<Rightarrow> form \<Rightarrow> ('h, outcome) act" where
  "usageScanAction X who fd = do {
     found \<leftarrow> peek (getPlacement (as_id (field_num fd ''placementId'')));
     (case found of
        None \<Rightarrow> State_Monad.return Returned
      | Some p \<Rightarrow> do { scan_now X who p; State_Monad.return Returned }) }"

fun scan_all :: "'h ext \<Rightarrow> string \<Rightarrow> placement list \<Rightarrow> ('h, unit) act" where
  "scan_all X who [] = State_Monad.return ()"
| "scan_all X who (p # ps) = do { (if \<not> pl_online p then State_Monad.return () else scan_now X who p); scan_all X who ps }"

definition refreshAllAction :: "'h ext \<Rightarrow> string \<Rightarrow> ('h, outcome) act" where
  "refreshAllAction X who = do { ps \<leftarrow> peek listAllPlacements; scan_all X who ps; State_Monad.return Returned }"

section \<open>The report by mail\<close>

datatype report_result =
    ReportSent string
  | ReportSkipped string
  | ReportMissingEmail
  | ReportUnknownRecipient
  | ReportUnknownPlacement
  | ReportFailed string
  | ReportThrown error

text \<open>A student id in the form: a positive integer.\<close>

definition recipient_id :: "string \<Rightarrow> nat option" where
  "recipient_id recipient =
     (case js_Number recipient of Fin r \<Rightarrow> if of_int \<lfloor>r\<rfloor> = r \<and> 0 < r then Some (nat \<lfloor>r\<rfloor>) else None | _ \<Rightarrow> None)"

text \<open>The address on file and the greeting of the chosen recipient; \<open>None\<close> for a student that is not on the roster.\<close>

definition report_recipient :: "bool \<Rightarrow> nat option \<Rightarrow> usage_report \<Rightarrow> (string option \<times> string) option" where
  "report_recipient toPi studentId r =
     (if toPi then Some (ur_piEmail r, or_else (trimmed_opt (ur_piName r)) ''Professor'')
      else map_option (\<lambda>s. (s_email s, or_else (trimmed_opt (s_name s)) (s_username s))) (List.find (\<lambda>s. Some (s_id s) = studentId) (ur_students r)))"

definition report_mail :: "'h ext \<Rightarrow> (string \<Rightarrow> string) \<Rightarrow> deliver \<Rightarrow> bool \<Rightarrow> nat option \<Rightarrow> usage_report \<Rightarrow> 'h world \<Rightarrow> report_result" where
  "report_mail X coll d toPi studentId r w =
     (case report_recipient toPi studentId r of
        None \<Rightarrow> ReportUnknownRecipient
      | Some (address, name) \<Rightarrow>
          (case address of
             None \<Rightarrow> ReportMissingEmail
           | Some to \<Rightarrow>
               if trim to = [] then ReportMissingEmail
               else let (subject, body) = renderUsageReportEmail X w toPi (usageReportVars name (ur_labName r) (ur_nodeName r) (ur_text r)) in
                 (case sendMail X coll d w to subject body of
                    None \<Rightarrow> ReportThrown JsTypeError
                  | Some Sent \<Rightarrow> ReportSent to
                  | Some Skipped \<Rightarrow> ReportSkipped to
                  | Some (NotSent e) \<Rightarrow> ReportFailed e)))"

definition emailUsageReportAction :: "'h ext \<Rightarrow> (string \<Rightarrow> string) \<Rightarrow> deliver \<Rightarrow> string \<Rightarrow> form \<Rightarrow> ('h, report_result) act" where
  "emailUsageReportAction X coll d who fd =
     (let recipient = field_str fd ''recipient'' []; toPi = (recipient = ''pi''); studentId = (if toPi then None else recipient_id recipient) in
      if \<not> toPi \<and> studentId = None then State_Monad.return ReportUnknownRecipient
      else do {
        found \<leftarrow> peek (buildUsageReport coll (as_id (field_num fd ''placementId'')) studentId);
        (case found of
           None \<Rightarrow> State_Monad.return ReportUnknownPlacement
         | Some r \<Rightarrow> do {
             res \<leftarrow> peek (report_mail X coll d toPi studentId r);
             _ \<leftarrow> (case res of
                ReportSent to \<Rightarrow> modify (audit (Some who) ''usage_report.email'' (Some (ur_labName r @ ''@'' @ ur_nodeName r))
                  (Some (''to '' @ to @ '' ('' @ (if toPi then ''PI'' else ''student'') @ '')'')))
              | _ \<Rightarrow> State_Monad.return ());
             State_Monad.return res }) })"

section \<open>Node groups\<close>

definition withGroupFlash :: "'h ext \<Rightarrow> ('a, 'h) op \<Rightarrow> ('h, outcome) act" where
  "withGroupFlash X f = do {
     r \<leftarrow> call f;
     (case r of Inl e \<Rightarrow> with_error X StatsPage (Op e) | Inr _ \<Rightarrow> State_Monad.return Returned) }"

definition createNodeGroupAction :: "'h ext \<Rightarrow> string \<Rightarrow> form \<Rightarrow> ('h, outcome) act" where
  "createNodeGroupAction X who fd = withGroupFlash X (createNodeGroup (field_str fd ''name'' []) (Some who))"

definition renameNodeGroupAction :: "'h ext \<Rightarrow> string \<Rightarrow> form \<Rightarrow> ('h, outcome) act" where
  "renameNodeGroupAction X who fd =
     withGroupFlash X (renameNodeGroup (as_id (field_num fd ''groupId'')) (field_str fd ''name'' []) (Some who))"

definition deleteNodeGroupAction :: "'h ext \<Rightarrow> string \<Rightarrow> form \<Rightarrow> ('h, outcome) act" where
  "deleteNodeGroupAction X who fd = do {
     modify (deleteNodeGroup (as_id (field_num fd ''groupId'')) (Some who));
     with_saved X StatsPage ''Node group deleted. The nodes and their data are untouched.'' }"

definition form_node_ids :: "form \<Rightarrow> nat list" where
  "form_node_ids fd = List.map_filter (\<lambda>v. case js_Number v of Fin r \<Rightarrow> Some (as_id (Fin r)) | _ \<Rightarrow> None) (field_all fd ''nodeId'')"

definition setNodeGroupMembersAction :: "'h ext \<Rightarrow> string \<Rightarrow> form \<Rightarrow> ('h, outcome) act" where
  "setNodeGroupMembersAction X who fd =
     withGroupFlash X (setNodeGroupMembers (as_id (field_num fd ''groupId'')) (form_node_ids fd) (Some who))"

section \<open>Safety\<close>

lemma same_core_groups:
  "same_core (snd (createNodeGroup name a w)) w" "same_core (snd (renameNodeGroup i name a w)) w"
  "same_core (deleteNodeGroup i a w) w" "same_core (snd (setNodeGroupMembers i ns a w)) w"
  by (simp_all add: createNodeGroup_def renameNodeGroup_def deleteNodeGroup_def setNodeGroupMembers_def same_core_def
      same_registry_def Let_def split: sum.split option.split)

lemma same_core_audit: "same_core (audit a b c d w) w"
  by (simp add: same_core_def same_registry_def)

lemmas safe_groups [act_intros] =
  safe_call [OF good_same_core [OF _ same_core_groups(1)]] safe_call [OF good_same_core [OF _ same_core_groups(2)]]
  safe_modify [OF good_same_core [OF _ same_core_groups(3)]] safe_call [OF good_same_core [OF _ same_core_groups(4)]]
  safe_modify [OF good_same_core [OF _ same_core_audit]]

lemma safe_scan_now [act_intros]: "safe (scan_now X who p)"
  unfolding scan_now_def by (intro act_intros | assumption)+

lemma safe_scan_all [act_intros]: "safe (scan_all X who ps)"
proof (induction ps)
  case Nil
  show ?case unfolding scan_all.simps by (intro act_intros)
next
  case (Cons p ps)
  show ?case unfolding scan_all.simps by (intro act_intros Cons.IH)
qed

lemma safe_stats_actions:
  "safe (usageScanAction X who fd)" "safe (refreshAllAction X who)" "safe (createNodeGroupAction X who fd)"
  "safe (renameNodeGroupAction X who fd)" "safe (deleteNodeGroupAction X who fd)" "safe (setNodeGroupMembersAction X who fd)"
  unfolding usageScanAction_def refreshAllAction_def createNodeGroupAction_def renameNodeGroupAction_def deleteNodeGroupAction_def
    setNodeGroupMembersAction_def withGroupFlash_def
  by (intro act_intros | assumption)+

lemma safe_emailUsageReport: "safe (emailUsageReportAction X coll d who fd)"
  unfolding emailUsageReportAction_def Let_def
  by (intro act_intros | assumption | (rule report_result.split [THEN iffD2], intro allI conjI impI))+

end
