(* ===== verification/Gate.thy ===== *)
theory Gate
  imports Signin StatsActions
begin

text \<open>
  The gate in front of the server actions: each begins with requireAdmin (src/controller/src/lib/auth.ts), which either
  yields the administrator whose e-mail is the actor of what follows, or redirects to the login page.
\<close>

definition with_admin :: "'h ext \<Rightarrow> auth_ext \<Rightarrow> string option \<Rightarrow> (admin \<Rightarrow> ('h, outcome) act) \<Rightarrow> ('h, outcome) act" where
  "with_admin X A cookie k = do {
     who \<leftarrow> peek (\<lambda>w. fst (requireAdmin X A cookie w));
     (case who of None \<Rightarrow> State_Monad.return (Redirect LoginPage []) | Some a \<Rightarrow> k a) }"

lemma safe_with_admin: "(\<And>a. safe (k a)) \<Longrightarrow> safe (with_admin X A cookie k)"
  unfolding with_admin_def by (intro act_intros | assumption)+

lemma with_admin_refused:
  "fst (requireAdmin X A cookie (ap_world s)) = None \<Longrightarrow> run_state (with_admin X A cookie k) s = (Redirect LoginPage [], s)"
  by (simp add: with_admin_def peek_def State_Monad.bind_def State_Monad.return_def)

text \<open>A request that changed something came with a live session of an active account that has not signed out everywhere since.\<close>

lemma with_admin_changed:
  assumes "run_state (with_admin X A cookie k) s = (r, s')" "s' \<noteq> s"
  shows "\<exists>a. fst (requireAdmin X A cookie (ap_world s)) = Some a \<and> run_state (k a) s = (r, s')"
proof (cases "fst (requireAdmin X A cookie (ap_world s))")
  case None
  with with_admin_refused [OF None, of k] assms show ?thesis by simp
next
  case (Some a)
  with assms(1) show ?thesis by (simp add: with_admin_def peek_def State_Monad.bind_def)
qed

lemma same_core_auth:
  "same_core (snd (createAdmin_insert A name e_mail password w)) w" "same_core (logoutAllSessions i w) w" "same_core (setAdminActive i b w) w"
  by (simp_all add: createAdmin_insert_def logoutAllSessions_def setAdminActive_def same_core_def same_registry_def)

end
