(* ===== verification/Console.thy ===== *)
theory Console
  imports Reveal BackupActions Gate
begin

text \<open>
  The whole controller: the server actions an administrator can call with any form, and the changes to the accounts of
  administrators, interleaved with the operations, the events of the hub and the maintenance ticks of \<open>System\<close>. Its
  state is the hub, which holds the database, and the flash store. An announcement may be recorded later than it is sent.
\<close>

definition form_actions :: "'h ext \<Rightarrow> (string \<Rightarrow> string) \<Rightarrow> deliver \<Rightarrow> string \<Rightarrow> form \<Rightarrow> ('h, outcome) act list" where
  "form_actions X coll d who fd =
     [createLabAction X who fd, updateLabMetaAction X who fd, destroyLabAction X who fd, grantNodeAccessAction X who fd,
      setPlacementQuotaAction X who fd, recreatePlacementAction X who fd, recreatePlacementSettingsAction X who fd,
      retryPlacementAction X who fd, revealPlacementCredentialAction X who fd, removePlacementAction X who fd,
      addMemberAction X who fd, removeMemberAction X who fd, removeStudentAction X who fd,
      provisionNodeAction X who fd, rotateNodeTokenAction X who fd, revokeNodeAction who fd, setNodeAliasAction who fd,
      setNodeColdStorageAction who fd, deleteNodeAction who fd, checkNodeAction X who fd, repairNodeAction X who fd,
      rebootNodeAction X who fd, clearGpuEventsAction who, deleteGpuEventAction who fd,
      saveStorageSettingsAction X fd, saveUsageScanSettingsAction X fd, saveScrubSettingsAction X fd, saveAlertSettingsAction X fd,
      clearLogsAction, saveGpuPolicyAction X who fd, scrubNowAction X who,
      saveWebdavSettingsAction X fd, saveScheduleAction X fd,
      saveSmtpSettingsAction X coll fd, deleteSmtpSettingsAction X coll fd, testEmailAction X coll d fd,
      saveUniversalSignatureAction X fd, saveWelcomeEmailAction X fd, saveGpuWarnEmailAction X fd, saveGpuKillEmailAction X fd,
      saveRemovalEmailAction X fd, saveQuotaEmailAction X fd, saveStudentQuotaEmailAction X fd, savePlacementCompleteEmailAction X fd,
      saveUsageReportStudentEmailAction X fd, saveUsageReportPiEmailAction X fd, saveTestEmailAction X fd,
      createAnnouncementTemplateAction X fd, updateAnnouncementTemplateAction X fd, deleteAnnouncementTemplateAction X fd,
      deleteAnnouncementAction who fd, clearAnnouncementsAction who,
      usageScanAction X who fd, refreshAllAction X who, createNodeGroupAction X who fd, renameNodeGroupAction X who fd,
      deleteNodeGroupAction X who fd, setNodeGroupMembersAction X who fd]"

inductive action_step :: "'h ext \<Rightarrow> 'h app \<Rightarrow> 'h app \<Rightarrow> bool" for X where
  on_form: "m \<in> set (form_actions X coll d who fd) \<Longrightarrow> action_step X s (snd (run_state m s))"
| roster_import: "action_step X s (snd (run_state (applyRosterImportAction X who n txt) s))"
| students_import: "action_step X s (snd (run_state (importStudentsAction X who n rs q) s))"
| announce: "action_step X s (snd (run_state (sendAnnouncementAction X coll d a fd) s))"
| announced_late: "action_step X s (s\<lparr>ap_world := record_announcement j (ap_world s)\<rparr>)"
| email_report: "action_step X s (snd (run_state (emailUsageReportAction X coll d who fd) s))"
| sign_up: "action_step X s (s\<lparr>ap_world := snd (createAdmin_insert A name e_mail password (ap_world s))\<rparr>)"
| sign_out_all: "action_step X s (s\<lparr>ap_world := logoutAllSessions i (ap_world s)\<rparr>)"
| activate: "action_step X s (s\<lparr>ap_world := setAdminActive i b (ap_world s)\<rparr>)"
| flash_read: "action_step X s (s\<lparr>ap_flash := snd (takeFlash t i (ap_flash s))\<rparr>)"

lemma action_step_allowed: "action_step X s s' \<Longrightarrow> allowed s s'"
proof (induction rule: action_step.induct)
  case (on_form m coll d who fd s)
  have "list_all safe (form_actions X coll d who fd)"
    by (simp add: form_actions_def safe_lab_actions safe_admin_actions safe_deleteGpuEvent safe_backup_settings
        safe_smtp_actions safe_mail_actions safe_news_actions safe_stats_actions)
  with on_form show ?case by (auto simp: list_all_iff state_io_rel_def)
next
  case (roster_import s who n raw)
  from safe_lab_actions(15) show ?case unfolding state_io_rel_def by blast
next
  case (students_import s who n rs q)
  from safe_importStudents show ?case unfolding state_io_rel_def by blast
next
  case (announce s coll d a fd)
  from safe_news_actions(4) show ?case unfolding state_io_rel_def by blast
next
  case (email_report s coll d who fd)
  from safe_emailUsageReport show ?case unfolding state_io_rel_def by blast
next
  case (announced_late s j)
  show ?case by (simp add: allowed_def good_same_core same_core_news)
next
  case (sign_up s A name e_mail password)
  show ?case by (simp add: allowed_def good_same_core same_core_auth)
next
  case (sign_out_all s i)
  show ?case by (simp add: allowed_def good_same_core same_core_auth)
next
  case (activate s i b)
  show ?case by (simp add: allowed_def good_same_core same_core_auth)
next
  case (flash_read s t i)
  show ?case by (simp add: allowed_same)
qed

type_synonym 'h console = "'h hub \<times> act_error flash_store"

inductive console_step :: "'h ext \<Rightarrow> 'h console \<Rightarrow> 'h console \<Rightarrow> bool" for X where
  system: "sys_step X h h' \<Longrightarrow> console_step X (h, f) (h', f)"
| action: "action_step X \<lparr>ap_world = hb_world h, ap_flash = f\<rparr> s \<Longrightarrow> console_step X (h, f) (h\<lparr>hb_world := ap_world s\<rparr>, ap_flash s)"

lemma console_step_good: "console_step X c c' \<Longrightarrow> core_ok (hb_world (fst c)) \<Longrightarrow> good_step (hb_world (fst c)) (hb_world (fst c'))"
proof (induction rule: console_step.induct)
  case (action h f s)
  with action_step_allowed [OF action(1)] show ?case by (simp add: allowed_def)
qed (simp add: sys_step_good)

interpretation console: roster_impl "\<lambda>c. abs_roster (hb_world (fst c))" "\<lambda>c. core_ok (hb_world (fst c))" "console_step X" for X
  by unfold_locales (auto dest: console_step_good simp: good_step_def)

interpretation console_inv: invariant_machine "\<lambda>c. boots_on empty_db (fst c)" "console_step X" "\<lambda>c. core_ok (hb_world (fst c))" for X
  by unfold_locales (auto simp: boots_on_def intro: core_ok_empty console.cstep_ok)

end
