(* ===== verification/Sample_Web.thy ===== *)
theory Sample_Web
  imports Sample Console
begin

text \<open>Instances for the web side: a token that is its payload, a hash that is its password, and one administrator.\<close>

definition A0 :: auth_ext where
  "A0 = \<lparr>bcrypt_hash = (\<lambda>k p. CHR ''#'' # p), bcrypt_compare = (\<lambda>p h. h = CHR ''#'' # p), DUMMY_HASH = [],
     jwt_sign = (\<lambda>k p. CHR ''j'' # json_stringify X0 p),
     jwt_verify = (\<lambda>k now t. case t of [] \<Rightarrow> None
       | c # s \<Rightarrow> Option.bind (json_parse_string X0 s) (\<lambda>p. if jwt_live now p then Some p else None)),
     env_signup = ''letmein''\<rparr>"

lemma A0_jwt [simp]: "jwt_ok A0"
  by (simp add: jwt_ok_def A0_def X0_json)

lemma A0_bcrypt [simp]: "bcrypt_ok A0"
  by (simp add: bcrypt_ok_def A0_def)

definition ada :: admin where
  "ada = \<lparr>ad_id = 1, ad_name = ''Ada'', ad_email = ''ada@x''\<rparr>"

definition W_ada :: "fifo world" where
  "W_ada = snd (createAdmin X0 A0 ''Ada'' '' ADA@x'' ''correct horse'' ''letmein'' W0)"

lemma ada_created: "createAdmin X0 A0 ''Ada'' '' ADA@x'' ''correct horse'' ''letmein'' W0 = (Inr ada, W_ada)"
proof -
  have "normalizeEmail (Some '' ADA@x'') = Some ''ada@x''" by code_simp
  then show ?thesis
    by (simp add: W_ada_def createAdmin_def createAdmin_check_def createAdmin_insert_def safeEqual_def A0_def MIN_PASSWORD_LEN_def
        W0_def tbl_get_def ada_def tbl_next_def tbl_empty_def)
qed

lemma W0_admins_ok [simp]: "admins_ok W0"
  by (simp add: admins_ok_def W0_def)

lemma W_ada_ok: "admins_ok W_ada" "ad_id ada \<in> a_id ` set (rows (admins W_ada))"
proof -
  show "admins_ok W_ada" using auth_steps [OF createAdmin_step W0_admins_ok] by (simp add: W_ada_def)
  show "ad_id ada \<in> a_id ` set (rows (admins W_ada))" using createAdmin_Inr(4) [OF ada_created] by simp
qed

lemma ada_small: "of_nat (ad_id ada) < MAX_DOUBLE_EXCLUSIVE"
  by (simp add: ada_def MAX_DOUBLE_EXCLUSIVE_def)

text \<open>An announcement to everybody, with one placeholder, before SMTP is configured.\<close>

definition news :: announcement_input where
  "news = \<lparr>ai_subject = ''Maintenance on [DATE]'', ai_body = ''Hello {name}'', ai_audiences = [Students, Pis], ai_individuals = [''bob@x''],
     ai_placeholders = [(''DATE'', ''Friday'')], ai_sender = None, ai_actor = Some ''ada@x''\<rparr>"

lemma audience_emailI: "s \<in> set (rows (students w)) \<Longrightarrow> s_email s = Some e \<Longrightarrow> trim e = e \<and> e \<noteq> [] \<Longrightarrow> e \<in> audience_emails Students w"
  unfolding audience_emails_def by (auto intro!: exI [of _ e] exI [of _ s])

lemma news_prepared: "\<exists>j. prepare_announcement X0 id (\<lambda>c m. None) news W1 = Inr j"
proof -
  have s: "trim (ai_subject news) = ''Maintenance on [DATE]''" "trim (ai_body news) = ''Hello {name}''" "ai_placeholders news = [(''DATE'', ''Friday'')]"
    "js_set (ai_individuals news) = [''bob@x'']" "ai_audiences news = [Students, Pis]"
    by code_simp+
  have m: "missing_tokens ''Maintenance on [DATE]'' ''Hello {name}'' [(''DATE'', ''Friday'')] = []" by code_simp
  have bob: "''bob@x'' \<in> audience_emails Students W1"
  proof (rule audience_emailI)
    show "mk_student 3 ''bob'' 10002 \<in> set (rows (students W1))" by (simp add: W1_def)
    show "s_email (mk_student 3 ''bob'' 10002) = Some ''bob@x''" by (simp add: mk_student_def)
  qed code_simp
  have "''bob@x'' \<in> rc_email ` set (map fst (listAnnouncementPeople id W1))"
    unfolding people_emails using bob by (rule UnI1)
  then have "union_recipients id [Students, Pis] [''bob@x''] W1 \<noteq> Inl e" for e
    using add_individuals_Inl unfolding union_recipients_def by fastforce
  then obtain rs where u: "union_recipients id [Students, Pis] [''bob@x''] W1 = Inr rs" by (cases "union_recipients id [Students, Pis] [''bob@x''] W1") auto
  have "getSmtpConfigs X0 id W1 \<noteq> None" by (simp add: getSmtpConfigs_def W1_def W0_def Let_def)
  then obtain c where c: "isSmtpConfigured X0 id W1 = Some c" by (auto simp: isSmtpConfigured_def)
  show ?thesis by (simp add: prepare_announcement_def Let_def s m u c)
qed

text \<open>Two samples of the same pool, and the report of the placement.\<close>

definition mk_sample :: "nat \<Rightarrow> rat \<Rightarrow> int \<Rightarrow> sample_row" where
  "mk_sample i used ts = \<lparr>sm_id = i, sm_placement_id = Some 1, sm_lab_id = Some 1, sm_student_id = None, sm_pool = ''fast'',
     sm_used_bytes = used, sm_quota_bytes = Some 100, sm_ts = ts\<rparr>"

definition W_samples :: "fifo world" where
  "W_samples = W1\<lparr>storage_samples := \<lparr>rows = [mk_sample 1 10 500, mk_sample 2 40 900], seq = 2\<rparr>\<rparr>"

definition the_placement :: placement where
  "the_placement = \<lparr>pl_row = mk_placement 1 1 1 50000 PActive, pl_lab_name = ''ai'', pl_node_name = ''n1'', pl_online = True,
     pl_node_cold_backend = LocalZfs, pl_node_cold_owner_node_id = None, pl_cold_owner_name = None, pl_node_cold_ready = True\<rparr>"

lemma samples_select: "placement_select W_samples = [the_placement]"
  by (simp add: placement_select_def placement_join_def lab_by_id_def node_by_id_def tbl_get_def List.map_filter_simps
      W_samples_def W1_def sample_simps the_placement_def)

lemma samples_placement: "the_placement \<in> set (listAllPlacements W_samples)" "getPlacement 1 W_samples = Some the_placement"
  by (simp_all add: listAllPlacements_def getPlacement_def samples_select) (simp add: the_placement_def mk_placement_def)

lemma samples_member: "mk_student 2 ''ana'' 10001 \<in> set (map mb_student (listMembers 1 W_samples))"
proof -
  have "student_by_id 2 W_samples = Some (mk_student 2 ''ana'' 10001)" "lab_by_id 1 W_samples = Some (mk_lab 1 ''ai'' (Some 1))"
    "mk_member 2 1 2 \<in> set (tbl_all (\<lambda>m. m_lab_id m = 1) (lab_members W_samples))"
    by (simp_all add: student_by_id_def lab_by_id_def tbl_get_def tbl_all_def W_samples_def W1_def sample_simps)
  then show ?thesis by (force simp: listMembers_def set_map_filter mk_member_def)
qed

end
