(* ===== verification/Migrations.thy ===== *)
theory Migrations
  imports Announcement_Facts Auth_Facts Controller
begin

text \<open>
  The opening of the database (src/controller/src/lib/db.ts): a staged restore is moved in place, and the ordered
  migrations that were not applied yet run, each in its transaction. The runner is generic in the data. The migrations are
  given on the record \<open>world\<close>, which has the tables and columns of the last schema: a table or column that a migration
  adds holds any value before it and the value of the statement after it. The columns of the old schema that a later
  migration drops again (the labs of one node, the result table of the old-file scan, the mode and the pin of a node
  token) are not in the record, so the migrations that only touch those leave it alone. A \<open>CREATE TABLE\<close> does not fail:
  only the migrations create tables. The long dash of the built-in texts is written as a hyphen.
\<close>

section \<open>The staged restore\<close>

type_synonym file_store = "(string \<times> string) list"

definition applyStagedRestore :: "string \<Rightarrow> file_store \<Rightarrow> file_store" where
  "applyStagedRestore dbPath files =
     (let staged = dbPath @ ''.restore'' in
      (case map_of files staged of
         None \<Rightarrow> files
       | Some content \<Rightarrow>
           AList.update dbPath content (AList.delete staged
             (fold (\<lambda>suffix fs. AList.delete (dbPath @ suffix) fs) [''-wal'', ''-shm''] files))))"

lemma restore_applied:
  assumes "map_of files (p @ ''.restore'') = Some content"
  shows "map_of (applyStagedRestore p files) p = Some content" "map_of (applyStagedRestore p files) (p @ ''-wal'') = None"
    "map_of (applyStagedRestore p files) (p @ ''-shm'') = None" "map_of (applyStagedRestore p files) (p @ ''.restore'') = None"
  using assms by (simp_all add: applyStagedRestore_def Let_def update_conv delete_conv)

section \<open>The runner\<close>

record 'd migration =
  mg_id :: string
  mg_run :: "'d \<Rightarrow> string + 'd"

record 'd migrated =
  md_applied :: "(string \<times> int) list"
  md_data :: 'd

text \<open>The ids are read once; an error stops the loop, and its transaction leaves nothing.\<close>

fun migrate_loop :: "'d migration list \<Rightarrow> string set \<Rightarrow> int \<Rightarrow> 'd migrated \<Rightarrow> (string, unit, 'd migrated) res" where
  "migrate_loop [] applied now s = (Inr (), s)"
| "migrate_loop (m # ms) applied now s =
     (if mg_id m \<in> applied then migrate_loop ms applied now s
      else (case mg_run m (md_data s) of
              Inl e \<Rightarrow> (Inl e, s)
            | Inr d \<Rightarrow>
                if mg_id m \<in> fst ` set (md_applied s) then (Inl ''UNIQUE _migrations.id'', s)
                else migrate_loop ms applied now \<lparr>md_applied = md_applied s @ [(mg_id m, now)], md_data = d\<rparr>))"

definition recorded :: "'d migrated \<Rightarrow> string set" where
  "recorded s = fst ` set (md_applied s)"

definition migrate :: "'d migration list \<Rightarrow> int \<Rightarrow> 'd migrated \<Rightarrow> (string, unit, 'd migrated) res" where
  "migrate ms now s = migrate_loop ms (recorded s) now s"

text \<open>With distinct ids it does not matter that the applied ones are read only once.\<close>

fun run_new :: "'d migration list \<Rightarrow> int \<Rightarrow> 'd migrated \<Rightarrow> (string, unit, 'd migrated) res" where
  "run_new [] now s = (Inr (), s)"
| "run_new (m # ms) now s =
     (if mg_id m \<in> recorded s then run_new ms now s
      else (case mg_run m (md_data s) of
              Inl e \<Rightarrow> (Inl e, s)
            | Inr d \<Rightarrow> run_new ms now \<lparr>md_applied = md_applied s @ [(mg_id m, now)], md_data = d\<rparr>))"

lemma recorded_snoc: "recorded \<lparr>md_applied = as @ [(i, t)], md_data = d\<rparr> = insert i (recorded \<lparr>md_applied = as, md_data = d'\<rparr>)"
  by (simp add: recorded_def)

lemma migrate_loop_run:
  "distinct (map mg_id ms) \<Longrightarrow> \<forall>m \<in> set ms. mg_id m \<in> A \<longleftrightarrow> mg_id m \<in> recorded s \<Longrightarrow> migrate_loop ms A now s = run_new ms now s"
proof (induction ms arbitrary: s)
  case (Cons m ms)
  have iff: "mg_id m \<in> A \<longleftrightarrow> mg_id m \<in> recorded s" using Cons.prems(2) by simp
  show ?case
  proof (cases "mg_id m \<in> A")
    case True
    with Cons iff show ?thesis by simp
  next
    case False
    show ?thesis
    proof (cases "mg_run m (md_data s)")
      case (Inr d)
      let ?s = "\<lparr>md_applied = md_applied s @ [(mg_id m, now)], md_data = d\<rparr>"
      have "recorded ?s = insert (mg_id m) (recorded s)" by (simp add: recorded_def)
      moreover have "mg_id m' \<noteq> mg_id m" if "m' \<in> set ms" for m' using Cons.prems(1) that by (metis distinct.simps(2) image_eqI list.map(2) list.set_map)
      ultimately have "\<forall>m' \<in> set ms. mg_id m' \<in> A \<longleftrightarrow> mg_id m' \<in> recorded ?s" using Cons.prems(2) by simp
      then have "migrate_loop ms A now ?s = run_new ms now ?s" using Cons.IH Cons.prems(1) by simp
      moreover have "mg_id m \<notin> recorded s" using False iff by simp
      ultimately show ?thesis using False Inr by (simp add: recorded_def)
    qed (use False iff in simp)
  qed
qed simp

lemma migrate_run: "distinct (map mg_id ms) \<Longrightarrow> migrate ms now s = run_new ms now s"
  unfolding migrate_def by (rule migrate_loop_run) simp_all

lemma run_new_append:
  "run_new (xs @ ys) now s = (case run_new xs now s of (Inl e, s') \<Rightarrow> (Inl e, s') | (Inr u, s') \<Rightarrow> run_new ys now s')"
  by (induction xs arbitrary: s) (auto split: sum.split)

lemma run_new_grows: "run_new ms now s = (r, s') \<Longrightarrow> recorded s \<subseteq> recorded s'"
proof (induction ms arbitrary: s)
  case (Cons m ms)
  show ?case
  proof (cases "mg_id m \<in> recorded s \<or> (\<exists>e. mg_run m (md_data s) = Inl e)")
    case True
    with Cons show ?thesis by (auto split: if_splits)
  next
    case False
    then obtain d where d: "mg_run m (md_data s) = Inr d" "mg_id m \<notin> recorded s" by (cases "mg_run m (md_data s)") auto
    let ?s = "\<lparr>md_applied = md_applied s @ [(mg_id m, now)], md_data = d\<rparr>"
    from Cons.prems d have "run_new ms now ?s = (r, s')" by simp
    from Cons.IH [OF this] have "recorded ?s \<subseteq> recorded s'" .
    then show ?thesis by (auto simp: recorded_def)
  qed
qed simp

lemma run_new_done: "mg_id ` set ms \<subseteq> recorded s \<Longrightarrow> run_new ms now s = (Inr (), s)"
  by (induction ms) auto

lemma run_new_all: "run_new ms now s = (Inr u, s') \<Longrightarrow> mg_id ` set ms \<subseteq> recorded s'"
proof (induction ms arbitrary: s)
  case (Cons m ms)
  show ?case
  proof (cases "mg_id m \<in> recorded s")
    case True
    with Cons.prems have r: "run_new ms now s = (Inr u, s')" by simp
    from Cons.IH [OF r] run_new_grows [OF r] True show ?thesis by auto
  next
    case False
    with Cons.prems obtain d where d: "mg_run m (md_data s) = Inr d" by (cases "mg_run m (md_data s)") auto
    let ?s = "\<lparr>md_applied = md_applied s @ [(mg_id m, now)], md_data = d\<rparr>"
    from Cons.prems d False have r: "run_new ms now ?s = (Inr u, s')" by simp
    have "mg_id m \<in> recorded ?s" by (simp add: recorded_def)
    with Cons.IH [OF r] run_new_grows [OF r] show ?thesis by auto
  qed
qed simp

text \<open>A start that stops at a migration has applied exactly those before it, and the next start goes on there.\<close>

lemma run_new_stops: "run_new ms now s = (Inl e, s') \<Longrightarrow>
  \<exists>xs m ys. ms = xs @ m # ys \<and> run_new xs now s = (Inr (), s') \<and> mg_run m (md_data s') = Inl e \<and> mg_id m \<notin> recorded s'"
proof (induction ms arbitrary: s)
  case (Cons m ms)
  show ?case
  proof (cases "mg_id m \<in> recorded s")
    case True
    with Cons obtain xs k ys where "ms = xs @ k # ys" "run_new xs now s = (Inr (), s')" "mg_run k (md_data s') = Inl e" "mg_id k \<notin> recorded s'"
      by (metis run_new.simps(2))
    with True show ?thesis by (intro exI [of _ "m # xs"] exI [of _ k] exI [of _ ys]) simp
  next
    case False
    show ?thesis
    proof (cases "mg_run m (md_data s)")
      case (Inl e')
      with False Cons.prems have "e' = e" "s' = s" by simp_all
      with False Inl show ?thesis by (intro exI [of _ "[]"] exI [of _ m] exI [of _ ms]) simp
    next
      case (Inr d)
      let ?s = "\<lparr>md_applied = md_applied s @ [(mg_id m, now)], md_data = d\<rparr>"
      from Cons.prems Inr False have "run_new ms now ?s = (Inl e, s')" by simp
      from Cons.IH [OF this] obtain xs k ys where "ms = xs @ k # ys" "run_new xs now ?s = (Inr (), s')" "mg_run k (md_data s') = Inl e"
        "mg_id k \<notin> recorded s'" by blast
      with Inr False show ?thesis by (intro exI [of _ "m # xs"] exI [of _ k] exI [of _ ys]) simp
    qed
  qed
qed simp

lemma run_new_resume: "run_new xs now s = (Inr u, s') \<Longrightarrow> run_new (xs @ ys) now' s' = run_new ys now' s'"
  unfolding run_new_append by (simp add: run_new_done [OF run_new_all])

section \<open>Migrations of rows\<close>

text \<open>\<open>ALTER TABLE ... ADD COLUMN\<close> and \<open>UPDATE\<close> without \<open>WHERE\<close> act on every row.\<close>

definition alter :: "('r \<Rightarrow> 'r) \<Rightarrow> 'r tbl \<Rightarrow> 'r tbl" where
  "alter f t = t\<lparr>rows := map f (rows t)\<rparr>"

lemma alter_simps [simp]: "rows (alter f t) = map f (rows t)" "seq (alter f t) = seq t"
  by (simp_all add: alter_def)

definition create_tables :: "'h world \<Rightarrow> 'h world" where
  "create_tables w = w\<lparr>admins := tbl_empty, settings := [], nodes := tbl_empty, labs := tbl_empty, students := tbl_empty,
     lab_members := tbl_empty, task_log := tbl_empty, logs := tbl_empty, gpu_snapshot := [], gpu_events := tbl_empty,
     storage_samples := tbl_empty, quota_alerts := tbl_empty, audit_log := tbl_empty\<rparr>"

definition add_scrub :: "'h world \<Rightarrow> 'h world" where
  "add_scrub w = w\<lparr>nodes := alter (\<lambda>n. n\<lparr>n_last_scrub := None, n_scrub_status := None\<rparr>) (nodes w)\<rparr>"

definition add_session_state :: "'h world \<Rightarrow> 'h world" where
  "add_session_state w = w\<lparr>admins := alter (\<lambda>a. a\<lparr>a_is_active := True, a_token_version := 0\<rparr>) (admins w)\<rparr>"

definition add_node_tokens :: "'h world \<Rightarrow> 'h world" where
  "add_node_tokens w = w\<lparr>nodes := alter (\<lambda>n. n\<lparr>n_token_hash := None, n_allowed := True\<rparr>) (nodes w)\<rparr>"

definition add_alias_announcements :: "'h world \<Rightarrow> 'h world" where
  "add_alias_announcements w = w\<lparr>nodes := alter (\<lambda>n. n\<lparr>n_alias := None\<rparr>) (nodes w), announcements := tbl_empty\<rparr>"

definition add_cold_storage :: "'h world \<Rightarrow> 'h world" where
  "add_cold_storage w = w\<lparr>nodes := alter (\<lambda>n. n\<lparr>n_cold_backend := LocalZfs, n_cold_owner_node_id := None,
     n_cold_mount_path := None, n_cold_ready := False\<rparr>) (nodes w)\<rparr>"

definition clear_token_hashes :: "'h world \<Rightarrow> 'h world" where
  "clear_token_hashes w = w\<lparr>nodes := alter (\<lambda>n. n\<lparr>n_token_hash := None\<rparr>) (nodes w)\<rparr>"

definition add_task_durability :: "'h world \<Rightarrow> 'h world" where
  "add_task_durability w = w\<lparr>task_log := alter (\<lambda>t. t\<lparr>t_received_at := None, t_attempts := 0, t_result_cached := False\<rparr>) (task_log w)\<rparr>"

definition add_gpu_placement :: "'h world \<Rightarrow> 'h world" where
  "add_gpu_placement w = w\<lparr>gpu_snapshot := map (\<lambda>g. g\<lparr>gs_placement_id := None\<rparr>) (gpu_snapshot w),
     gpu_events := alter (\<lambda>g. g\<lparr>ge_placement_id := None\<rparr>) (gpu_events w)\<rparr>"

definition add_credentials :: "'h world \<Rightarrow> 'h world" where
  "add_credentials w = w\<lparr>placement_members :=
     alter (\<lambda>m. m\<lparr>pm_credential_secret := None, pm_credential_delivered_at := None\<rparr>) (placement_members w)\<rparr>"

definition add_node_groups :: "'h world \<Rightarrow> 'h world" where
  "add_node_groups w = w\<lparr>node_groups := tbl_empty, node_group_members := []\<rparr>"

definition add_forensics :: "'h world \<Rightarrow> 'h world" where
  "add_forensics w = w\<lparr>gpu_events := alter (\<lambda>g. g\<lparr>ge_cmd := None, ge_idle_s := None\<rparr>) (gpu_events w)\<rparr>"

definition add_student_quotas :: "'h world \<Rightarrow> 'h world" where
  "add_student_quotas w = w\<lparr>lab_placements :=
     alter (\<lambda>p. p\<lparr>p_student_fast_quota_bytes := None, p_student_cold_quota_bytes := None\<rparr>) (lab_placements w)\<rparr>"

definition add_pi_access :: "'h world \<Rightarrow> 'h world" where
  "add_pi_access w = w\<lparr>labs := alter (\<lambda>l. l\<lparr>l_pi_student_id := None\<rparr>) (labs w),
     lab_placements := alter (\<lambda>p. p\<lparr>p_completion_email_sent_at := None\<rparr>) (lab_placements w)\<rparr>"

definition add_process_details :: "'h world \<Rightarrow> 'h world" where
  "add_process_details w = w\<lparr>gpu_snapshot := map (\<lambda>g. g\<lparr>gs_cmd := None, gs_started_at := None\<rparr>) (gpu_snapshot w)\<rparr>"

definition add_student_alerts :: "'h world \<Rightarrow> 'h world" where
  "add_student_alerts w = w\<lparr>student_quota_alerts := tbl_empty\<rparr>"

text \<open>SQLite's \<open>lower\<close> and \<open>trim\<close>: letters of ASCII, and blanks.\<close>

definition sql_lower :: "string \<Rightarrow> string" where
  "sql_lower s = map (\<lambda>c. if is_AZ c then lower_char c else c) s"

definition sql_trim :: "string \<Rightarrow> string" where
  "sql_trim s = (let strip = dropWhile (\<lambda>c. c = CHR '' '') in rev (strip (rev (strip s))))"

definition redesign_guard :: "'h world \<Rightarrow> string + 'h world" where
  "redesign_guard w =
     (if 0 < length (rows (labs w)) + length (rows (nodes w)) + length (rows (students w)) then Inl ''Cannot upgrade''
      else Inr (w\<lparr>placement_members := tbl_empty, lab_placements := tbl_empty, lab_members := tbl_empty, storage_samples := tbl_empty,
                  quota_alerts := tbl_empty, labs := tbl_empty, students := tbl_empty\<rparr>))"

definition normalize_emails :: "'h world \<Rightarrow> string + 'h world" where
  "normalize_emails w =
     (let f = (\<lambda>e. sql_lower (sql_trim e)); as = alter (\<lambda>r. r\<lparr>a_email := f (a_email r)\<rparr>) (admins w) in
      if \<not> distinct (map a_email (rows as)) then Inl ''UNIQUE admins.email''
      else Inr (w\<lparr>admins := as, students := alter (\<lambda>r. r\<lparr>s_email := map_option f (s_email r)\<rparr>) (students w)\<rparr>))"

definition seed_templates :: "(string \<times> string \<times> string) list" where
  "seed_templates =
     [(''Scheduled maintenance'', ''Scheduled maintenance on [DATE]'', text_of
        [''Hello {name},'', [],
         ''The lab cluster will be unavailable for scheduled maintenance on [DATE] from [START] to [END] ([TIMEZONE]).'', [],
         ''Please save your work and log out before the window begins. Long-running jobs should be checkpointed or paused - anything still running may be interrupted.'', [],
         ''We'' @ [CHR 0x27] @ ''ll email again once everything is back online.'']),
      (''Storage cleanup request'', ''Action needed: free up storage in your lab'', text_of
        [''Hello {name},'', [],
         ''Storage on the cluster is running low. Please review your home and cold-storage directories and remove anything you no longer need.'', [],
         ''You can check your usage by logging in and running:'',
         ''    du -sh ~ ~/cold-storage'', [],
         ''Thanks for helping keep the cluster healthy.''])]"

definition add_seed :: "nat \<times> string \<times> string \<times> string \<Rightarrow> announcement_template_row tbl \<Rightarrow> announcement_template_row tbl" where
  "add_seed s t = (case s of (i, name, subject, body) \<Rightarrow>
     tbl_insert (\<lambda>k. \<lparr>at_id = k, at_name = name, at_subject = subject, at_body = body, at_sort = int i\<rparr>) t)"

definition seed_announcement_templates :: "'h world \<Rightarrow> string + 'h world" where
  "seed_announcement_templates w = Inr (w\<lparr>announcement_templates := fold add_seed (List.enumerate 0 seed_templates) tbl_empty\<rparr>)"

definition SIGNED_BODIES :: "string list" where
  "SIGNED_BODIES = [''welcomeEmailBody'', ''gpuWarnEmailBody'', ''gpuKillEmailBody'', ''removalEmailBody'', ''quotaEmailBody'', ''testEmailBody'']"

definition clean_body :: "string \<Rightarrow> 'h world \<Rightarrow> 'h world" where
  "clean_body key w =
     (case map_of (settings w) key of
        Some text \<Rightarrow>
          (case json_parse text of
             Some (JStr body) \<Rightarrow>
               if stripLegacyEmailSignature body \<noteq> body
               then w\<lparr>settings := AList.update key (json_text (JStr (stripLegacyEmailSignature body))) (settings w)\<rparr> else w
           | _ \<Rightarrow> w)
      | None \<Rightarrow> w)"

definition clean_signatures :: "'h world \<Rightarrow> string + 'h world" where
  "clean_signatures w = Inr (fold clean_body SIGNED_BODIES w)"

text \<open>\<open>legacySignatureHtmlToText\<close> is an argument: the conversion of the HTML of a signature to text.\<close>

definition plain_signature :: "(string \<Rightarrow> string) \<Rightarrow> 'h world \<Rightarrow> string + 'h world" where
  "plain_signature html_to_text w =
     (let stored = settings w; moved =
        (case map_of stored ''emailSignatureHtml'' of
           Some text \<Rightarrow>
             (case json_parse text of
                Some (JStr html) \<Rightarrow>
                  if map_of stored ''emailSignatureText'' = None
                  then AList.update ''emailSignatureText'' (json_text (JStr (html_to_text html))) stored else stored
              | _ \<Rightarrow> stored)
         | None \<Rightarrow> stored)
      in Inr (w\<lparr>settings := AList.delete ''emailSignatureHtml'' moved\<rparr>))"

definition set_uid :: "nat \<times> student_row \<Rightarrow> student_row tbl \<Rightarrow> student_row tbl" where
  "set_uid = (\<lambda>(i, r). tbl_update (\<lambda>s. s_id s = s_id r) (\<lambda>s. s\<lparr>s_linux_uid := 10000 + int i\<rparr>))"

definition assign_uids :: "'h world \<Rightarrow> string + 'h world" where
  "assign_uids w =
     (let order = sort_key s_id (rows (students w)) in
      if 50000 < length order then Inl ''student UID range 10000..59999 is exhausted''
      else Inr (w\<lparr>students := fold set_uid (List.enumerate 0 order) (students w)\<rparr>))"

definition intro_template :: "string \<times> string \<times> string" where
  "intro_template = (''System introduction'', ''Welcome to the lab cluster'', text_of
     [''Hello {name},'', [],
      ''A quick introduction to the lab cluster you have access to. It gives every research lab its own isolated Ubuntu environment on shared GPU nodes: you connect over SSH, keep full sudo inside your lab, and get CUDA build tooling plus two storage areas - a fast home directory (~) for working data and ~/cold-storage for data you rarely touch.'', [],
      ''Full details, including the student guide covering connections, SSH keys, and day-to-day usage, are on GitHub:'', [],
      ''    https://github.com/EC061/docker-mass-deployment'', [],
      ''If you have questions, reply to this email and {sender} ({sender_email}) will get back to you.''])"

definition add_intro_template :: "'h world \<Rightarrow> string + 'h world" where
  "add_intro_template w =
     (case intro_template of (name, subject, body) \<Rightarrow>
        Inr (w\<lparr>announcement_templates := tbl_insert (\<lambda>k. \<lparr>at_id = k, at_name = name, at_subject = subject, at_body = body,
                 at_sort = max_sort w + 1\<rparr>) (announcement_templates w)\<rparr>))"

text \<open>All migrations in their order; \<open>sql\<close> is one whose statements cannot fail.\<close>

definition sql :: "string \<Rightarrow> ('h world \<Rightarrow> 'h world) \<Rightarrow> ('h world) migration" where
  "sql i f = \<lparr>mg_id = i, mg_run = (\<lambda>w. Inr (f w))\<rparr>"

definition MIGRATIONS :: "(string \<Rightarrow> string) \<Rightarrow> ('h world) migration list" where
  "MIGRATIONS html_to_text =
     [sql ''0001_init'' create_tables, sql ''0002_scrub'' add_scrub, sql ''0003_admin_session_state'' add_session_state,
      sql ''0004_node_tokens'' add_node_tokens, sql ''0005_oldfile_schedule'' id,
      sql ''0006_node_alias_announcements'' add_alias_announcements, sql ''0007_usage_scan_time'' id, sql ''0008_drop_oldfiles'' id,
      \<lparr>mg_id = ''0009_redesign_placements'', mg_run = redesign_guard\<rparr>,
      sql ''0010_node_cold_storage'' add_cold_storage, sql ''0011_node_hmac_tokens'' clear_token_hashes,
      sql ''0012_task_durability'' add_task_durability, sql ''0013_gpu_placement'' add_gpu_placement,
      \<lparr>mg_id = ''0014_normalize_emails'', mg_run = normalize_emails\<rparr>,
      sql ''0015_deferred_student_credentials'' add_credentials, sql ''0016_node_groups'' add_node_groups,
      \<lparr>mg_id = ''0017_announcement_templates'', mg_run = seed_announcement_templates\<rparr>,
      \<lparr>mg_id = ''0018_universal_email_signature'', mg_run = clean_signatures\<rparr>,
      \<lparr>mg_id = ''0019_plain_text_email_signature'', mg_run = plain_signature html_to_text\<rparr>,
      \<lparr>mg_id = ''0020_student_linux_uid'', mg_run = assign_uids\<rparr>,
      sql ''0021_gpu_event_forensics'' add_forensics,
      \<lparr>mg_id = ''0022_system_intro_template'', mg_run = add_intro_template\<rparr>,
      sql ''0023_placement_student_quotas'' add_student_quotas, sql ''0024_pi_access_and_completion'' add_pi_access,
      sql ''0025_gpu_snapshot_process_details'' add_process_details, sql ''0026_student_quota_alerts'' add_student_alerts]"

end
