(* ===== verification/Mailer_Facts.thy ===== *)
theory Mailer_Facts
  imports Mailer
begin

text \<open>
  The built-in templates use only placeholders that are documented, and the documented placeholders are those the
  tables provide; which server takes a message.
\<close>

definition closed_by :: "string list \<Rightarrow> string \<Rightarrow> bool" where
  "closed_by keys t = list_all (\<lambda>g. case g of Lit c \<Rightarrow> True | Tok k \<Rightarrow> k \<in> set keys) (segments VAR_RE t)"

lemma closed_welcome: "list_all (closed_by (map fst WELCOME_EMAIL_VARS)) [DEFAULT_WELCOME_SUBJECT, DEFAULT_WELCOME_BODY]"
  by code_simp

lemma closed_gpu: "list_all (closed_by (map fst GPU_EMAIL_VARS))
    [DEFAULT_GPU_WARN_SUBJECT, DEFAULT_GPU_WARN_BODY, DEFAULT_GPU_KILL_SUBJECT, DEFAULT_GPU_KILL_BODY]"
  by code_simp

lemma closed_removal: "list_all (closed_by (map fst REMOVAL_EMAIL_VARS)) [DEFAULT_REMOVAL_SUBJECT, DEFAULT_REMOVAL_BODY]"
  by code_simp

lemma closed_quota: "list_all (closed_by (map fst QUOTA_EMAIL_VARS)) [DEFAULT_QUOTA_SUBJECT, DEFAULT_QUOTA_BODY]"
  by code_simp

lemma closed_student_quota:
  "list_all (closed_by (map fst STUDENT_QUOTA_EMAIL_VARS)) [DEFAULT_STUDENT_QUOTA_SUBJECT, DEFAULT_STUDENT_QUOTA_BODY]"
  by code_simp

lemma closed_usage_report: "list_all (closed_by (map fst USAGE_REPORT_EMAIL_VARS))
    [DEFAULT_USAGE_REPORT_STUDENT_SUBJECT, DEFAULT_USAGE_REPORT_STUDENT_BODY, DEFAULT_USAGE_REPORT_PI_SUBJECT, DEFAULT_USAGE_REPORT_PI_BODY]"
  by code_simp

lemma closed_complete:
  "list_all (closed_by (map fst PLACEMENT_COMPLETE_EMAIL_VARS)) [DEFAULT_PLACEMENT_COMPLETE_SUBJECT, DEFAULT_PLACEMENT_COMPLETE_BODY]"
  by code_simp

text \<open>A table that provides every documented placeholder, and templates that use no other.\<close>

definition documented :: "(string \<times> string) list \<Rightarrow> vars \<Rightarrow> string list \<Rightarrow> bool" where
  "documented doc vars templates \<longleftrightarrow> map fst vars = map fst doc \<and> list_all (closed_by (map fst doc)) templates"

lemma documented_open:
  assumes "documented doc vars ts" "t \<in> set ts" "Tok k \<in> set (segments VAR_RE t)"
  shows "map_of vars k \<noteq> None"
proof -
  have "k \<in> set (map fst doc)"
    using assms by (auto simp: documented_def closed_by_def list_all_iff split: seg.splits)
  with assms(1) have "k \<in> set (map fst vars)" by (simp add: documented_def)
  then show ?thesis by (simp add: map_of_eq_None_iff)
qed

text \<open>A rendered template is its literal text with a value in place of every placeholder.\<close>

lemma documented_render:
  assumes "documented doc vars ts" "t \<in> set ts"
  shows "renderTemplate t vars =
     concat (map (\<lambda>g. case g of Lit c \<Rightarrow> [c] | Tok k \<Rightarrow> the (map_of vars k)) (segments VAR_RE t))"
proof -
  have "seg_text VAR_RE (map_of vars) g = (case g of Lit c \<Rightarrow> [c] | Tok k \<Rightarrow> the (map_of vars k))"
    if "g \<in> set (segments VAR_RE t)" for g
  proof (cases g)
    case (Tok k)
    with that documented_open [OF assms, of k] show ?thesis by (auto simp: seg_text_def)
  qed (simp add: seg_text_def)
  then show ?thesis unfolding renderTemplate_def substitute_def by (intro arg_cong [of _ _ concat] map_cong) auto
qed

lemma mail_tables_documented:
  "documented WELCOME_EMAIL_VARS (welcomeEmailVars to name u pw host port lab node al sid) [DEFAULT_WELCOME_SUBJECT, DEFAULT_WELCOME_BODY]"
  "documented GPU_EMAIL_VARS (gpuEmailVars u' l pid node' grace)
     [DEFAULT_GPU_WARN_SUBJECT, DEFAULT_GPU_WARN_BODY, DEFAULT_GPU_KILL_SUBJECT, DEFAULT_GPU_KILL_BODY]"
  "documented QUOTA_EMAIL_VARS (quotaEmailVars lab pool percent used quota bs) [DEFAULT_QUOTA_SUBJECT, DEFAULT_QUOTA_BODY]"
  "documented STUDENT_QUOTA_EMAIL_VARS (studentQuotaVars nm u lab node pool percent used quota)
     [DEFAULT_STUDENT_QUOTA_SUBJECT, DEFAULT_STUDENT_QUOTA_BODY]"
  "documented USAGE_REPORT_EMAIL_VARS (usageReportVars nm lab node report)
     [DEFAULT_USAGE_REPORT_STUDENT_SUBJECT, DEFAULT_USAGE_REPORT_STUDENT_BODY, DEFAULT_USAGE_REPORT_PI_SUBJECT, DEFAULT_USAGE_REPORT_PI_BODY]"
  "documented PLACEMENT_COMPLETE_EMAIL_VARS (placementCompleteVars nm lab node us fq cq sfq scq)
     [DEFAULT_PLACEMENT_COMPLETE_SUBJECT, DEFAULT_PLACEMENT_COMPLETE_BODY]"
  unfolding documented_def
  using closed_welcome closed_gpu closed_quota closed_student_quota closed_usage_report closed_complete
  by (simp_all add: welcomeEmailVars_def gpuEmailVars_def quotaEmailVars_def studentQuotaVars_def usageReportVars_def
      placementCompleteVars_def WELCOME_EMAIL_VARS_def GPU_EMAIL_VARS_def QUOTA_EMAIL_VARS_def STUDENT_QUOTA_EMAIL_VARS_def
      USAGE_REPORT_EMAIL_VARS_def PLACEMENT_COMPLETE_EMAIL_VARS_def)

text \<open>Every placeholder of the text has a value, and rendering puts it there.\<close>

definition filled_in :: "string \<Rightarrow> vars \<Rightarrow> bool" where
  "filled_in t vars \<longleftrightarrow> renderTemplate t vars =
     concat (map (\<lambda>g. case g of Lit c \<Rightarrow> [c] | Tok k \<Rightarrow> the (map_of vars k)) (segments VAR_RE t)) \<and>
     list_all (\<lambda>g. case g of Lit c \<Rightarrow> True | Tok k \<Rightarrow> k \<in> set (map fst vars)) (segments VAR_RE t)"

lemma documented_filled: "documented doc vars ts \<Longrightarrow> list_all (\<lambda>t. filled_in t vars) ts"
proof -
  assume d: "documented doc vars ts"
  then have "list_all (closed_by (map fst vars)) ts" unfolding documented_def by metis
  then have "list_all (\<lambda>g. case g of Lit c \<Rightarrow> True | Tok k \<Rightarrow> k \<in> set (map fst vars)) (segments VAR_RE t)" if "t \<in> set ts" for t
    using that unfolding closed_by_def list_all_iff by blast
  with documented_render [OF d] show ?thesis unfolding filled_in_def list_all_iff [of _ ts] by blast
qed

lemma removal_documented:
  "documented REMOVAL_EMAIL_VARS [(''lab'', lab), (''data_status'', status)] [DEFAULT_REMOVAL_SUBJECT, DEFAULT_REMOVAL_BODY]"
  using closed_removal by (simp add: documented_def REMOVAL_EMAIL_VARS_def)

section \<open>Failover\<close>

lemma sendMail_outcome:
  assumes "getSmtpConfigs X coll w = Some cs"
  shows "sendMail X coll d w to subject text = Some r \<Longrightarrow>
     (r = Skipped \<longleftrightarrow> filter smtp_usable cs = [] \<or> to = []) \<and>
     (r = Sent \<longleftrightarrow> to \<noteq> [] \<and> (\<exists>c \<in> set cs. smtp_usable c \<and> d c \<lparr>ms_to = to, ms_subject = subject, ms_text = emailContent X w text\<rparr> = None))"
  using assms try_servers_not_Skipped
  by (auto simp: sendMail_def Let_def try_servers_Sent filter_empty_conv split: if_splits)

lemma getSmtpConfigs_sorted: "getSmtpConfigs X coll w = Some cs \<Longrightarrow> sorted (map mx_rank cs)"
  using ranked_sorted by (auto simp: getSmtpConfigs_def Let_def split: if_splits json.splits)

text \<open>The servers that were offered the message: those before the first that accepts it, in the order of their ranks.\<close>

lemma offered_prefix: "\<exists>ds. cs = offered d m cs @ ds \<and> (\<forall>c \<in> set (butlast (offered d m cs)). d c m \<noteq> None)"
proof (induction cs)
  case (Cons c cs)
  then obtain ds where ds: "cs = offered d m cs @ ds" "\<forall>c \<in> set (butlast (offered d m cs)). d c m \<noteq> None" by blast
  show ?case
  proof (cases "d c m = None")
    case False
    with ds show ?thesis by (intro exI [of _ ds]) (auto simp: butlast.simps split: if_splits)
  qed auto
qed simp

end
