(* ===== verification/Migration_Facts.thy ===== *)
theory Migration_Facts
  imports Migrations Mailer_Facts
begin

text \<open>
  What the migrations keep and establish: from the integrity that the applied migrations promise, every further one
  leads to the integrity of the last schema; and the texts they seed are templates of announcements.
\<close>

section \<open>Integrity while migrating\<close>

text \<open>
  What holds of the rows when the migrations in \<open>R\<close> are applied: from the redesign on the keys and references of its
  tables, and those of the later columns once they are there.
\<close>

definition keys_ok :: "'h world \<Rightarrow> bool" where
  "keys_ok w \<longleftrightarrow> pk_all w \<and> distinct (map n_name (rows (nodes w))) \<and> distinct (map l_name (rows (labs w))) \<and>
     distinct (map s_username (rows (students w))) \<and> distinct (List.map_filter s_student_id (rows (students w))) \<and>
     distinct (map member_key (rows (lab_members w))) \<and>
     distinct (map place_key (rows (lab_placements w))) \<and> distinct (map port_key (rows (lab_placements w))) \<and>
     distinct (map pm_key (rows (placement_members w)))"

definition refs_ok :: "'h world \<Rightarrow> bool" where
  "refs_ok w \<longleftrightarrow>
     (\<forall>x \<in> member_key ` set (rows (lab_members w)). fst x \<in> l_id ` set (rows (labs w)) \<and> snd x \<in> s_id ` set (rows (students w))) \<and>
     (\<forall>x \<in> place_key ` set (rows (lab_placements w)). fst x \<in> l_id ` set (rows (labs w)) \<and> snd x \<in> n_id ` set (rows (nodes w))) \<and>
     (\<forall>x \<in> pm_key ` set (rows (placement_members w)). fst x \<in> p_id ` set (rows (lab_placements w)) \<and> snd x \<in> s_id ` set (rows (students w)))"

definition uids_ok :: "'h world \<Rightarrow> bool" where
  "uids_ok w \<longleftrightarrow> uid_range w \<and> distinct (map s_linux_uid (rows (students w)))"

definition fits :: "string set \<Rightarrow> 'h world \<Rightarrow> bool" where
  "fits R w \<longleftrightarrow> (''0009_redesign_placements'' \<in> R \<longrightarrow> ''0001_init'' \<in> R) \<and> (''0001_init'' \<in> R \<longrightarrow> admins_ok w) \<and>
     (''0009_redesign_placements'' \<in> R \<longrightarrow>
        keys_ok w \<and> refs_ok w \<and> (''0010_node_cold_storage'' \<in> R \<longrightarrow> cold_ok w) \<and>
        (''0020_student_linux_uid'' \<in> R \<longrightarrow> uids_ok w) \<and> (''0024_pi_access_and_completion'' \<in> R \<longrightarrow> pi_member w))"

lemma core_okI:
  assumes "keys_ok w" "refs_ok w" "cold_ok w" "uids_ok w" "pi_member w" shows "core_ok w"
proof -
  have c: "\<forall>x \<in> n_cold_owner_node_id ` set (rows (nodes w)). \<forall>i. x = Some i \<longrightarrow> i \<in> n_id ` set (rows (nodes w))"
  proof (intro ballI allI impI)
    fix x i assume "x \<in> n_cold_owner_node_id ` set (rows (nodes w))" "x = Some i"
    then obtain n where "n \<in> set (rows (nodes w))" "n_cold_owner_node_id n = Some i" by force
    then obtain r where "r \<in> set (rows (nodes w))" "n_id r = i" using assms(3) unfolding cold_ok_def by meson
    then show "i \<in> n_id ` set (rows (nodes w))" by blast
  qed
  have "i \<in> s_id ` set (rows (students w))" if "l \<in> set (rows (labs w))" "l_pi_student_id l = Some i" for l i
  proof -
    have "is_member (l_id l) i w" using assms(5) that unfolding pi_member_def by blast
    then have "(l_id l, i) \<in> member_key ` set (rows (lab_members w))" by (simp add: is_member_iff abs_roster_def)
    with assms(2) show ?thesis unfolding refs_ok_def using snd_conv by metis
  qed
  then have p: "\<forall>x \<in> l_pi_student_id ` set (rows (labs w)). \<forall>i. x = Some i \<longrightarrow> i \<in> s_id ` set (rows (students w))"
    unfolding ball_simps(9) by blast
  have "fk_all w" unfolding fk_all_def using c p assms(2) [unfolded refs_ok_def] by (elim conjE) (intro conjI, assumption+)
  then show ?thesis using assms unfolding core_ok_def schema_ok_def uniq_all_def keys_ok_def uids_ok_def by (intro conjI) (elim conjE, assumption)+
qed

text \<open>The keys and references depend on the key columns only.\<close>

definition same_keys :: "'h world \<Rightarrow> 'h world \<Rightarrow> bool" where
  "same_keys w w' \<longleftrightarrow>
     map n_id (rows (nodes w')) = map n_id (rows (nodes w)) \<and> seq (nodes w') = seq (nodes w) \<and>
     map n_name (rows (nodes w')) = map n_name (rows (nodes w)) \<and>
     map l_id (rows (labs w')) = map l_id (rows (labs w)) \<and> seq (labs w') = seq (labs w) \<and>
     map l_name (rows (labs w')) = map l_name (rows (labs w)) \<and>
     map s_id (rows (students w')) = map s_id (rows (students w)) \<and> seq (students w') = seq (students w) \<and>
     map s_username (rows (students w')) = map s_username (rows (students w)) \<and>
     map s_student_id (rows (students w')) = map s_student_id (rows (students w)) \<and>
     lab_members w' = lab_members w \<and>
     map p_id (rows (lab_placements w')) = map p_id (rows (lab_placements w)) \<and> seq (lab_placements w') = seq (lab_placements w) \<and>
     map place_key (rows (lab_placements w')) = map place_key (rows (lab_placements w)) \<and>
     map port_key (rows (lab_placements w')) = map port_key (rows (lab_placements w)) \<and>
     map pm_id (rows (placement_members w')) = map pm_id (rows (placement_members w)) \<and>
     seq (placement_members w') = seq (placement_members w) \<and>
     map pm_key (rows (placement_members w')) = map pm_key (rows (placement_members w))"

lemma map_filter_via: "List.map_filter f xs = List.map_filter id (map f xs)"
  by (induction xs) (simp_all add: List.map_filter_simps split: option.split)

lemma same_keys_keys: "same_keys w w' \<Longrightarrow> keys_ok w' = keys_ok w"
  unfolding same_keys_def keys_ok_def pk_all_def pk_ok_def map_filter_via [of s_student_id] by (elim conjE) (simp only:)

lemma same_keys_refs: "same_keys w w' \<Longrightarrow> refs_ok w' = refs_ok w"
  unfolding same_keys_def refs_ok_def list.set_map [symmetric] by (elim conjE) (simp only:)

text \<open>Most migrations change no column the integrity reads.\<close>

definition keeps_fit :: "'h world \<Rightarrow> 'h world \<Rightarrow> bool" where
  "keeps_fit w w' \<longleftrightarrow> same_keys w w' \<and> (admins_ok w \<longrightarrow> admins_ok w') \<and> (cold_ok w \<longrightarrow> cold_ok w') \<and>
     (pi_member w \<longrightarrow> pi_member w') \<and> map s_linux_uid (rows (students w')) = map s_linux_uid (rows (students w))"

lemma uids_cong: "map s_linux_uid (rows (students w')) = map s_linux_uid (rows (students w)) \<Longrightarrow> uids_ok w' = uids_ok w"
  unfolding uids_ok_def uid_range_def list.set_map [symmetric] by (simp only:)

lemma keeps_fit_step:
  assumes "keeps_fit w w'" "fits R w"
    "i \<notin> {''0001_init'', ''0009_redesign_placements'', ''0010_node_cold_storage'', ''0020_student_linux_uid'', ''0024_pi_access_and_completion''}"
  shows "fits (insert i R) w'"
proof -
  have s: "same_keys w w'" and u: "map s_linux_uid (rows (students w')) = map s_linux_uid (rows (students w))"
    using assms(1) by (simp_all add: keeps_fit_def)
  have k: "admins_ok w \<Longrightarrow> admins_ok w'" "cold_ok w \<Longrightarrow> cold_ok w'" "pi_member w \<Longrightarrow> pi_member w'"
    using assms(1) by (simp_all add: keeps_fit_def)
  have i: "''0001_init'' \<in> insert i R \<longleftrightarrow> ''0001_init'' \<in> R"
    "''0009_redesign_placements'' \<in> insert i R \<longleftrightarrow> ''0009_redesign_placements'' \<in> R"
    "''0010_node_cold_storage'' \<in> insert i R \<longleftrightarrow> ''0010_node_cold_storage'' \<in> R"
    "''0020_student_linux_uid'' \<in> insert i R \<longleftrightarrow> ''0020_student_linux_uid'' \<in> R"
    "''0024_pi_access_and_completion'' \<in> insert i R \<longleftrightarrow> ''0024_pi_access_and_completion'' \<in> R"
    using assms(3) by auto
  show ?thesis using assms(2) k by (simp add: fits_def i same_keys_keys [OF s] same_keys_refs [OF s] uids_cong [OF u] del: insert_iff)
qed

lemma pi_member_same:
  "labs w' = labs w \<Longrightarrow> lab_members w' = lab_members w \<Longrightarrow> pi_member w' = pi_member w"
  by (simp add: pi_member_def is_member_def)

lemma keeps_fit_frame:
  assumes "nodes w' = nodes w" "labs w' = labs w" "students w' = students w" "lab_members w' = lab_members w"
    "lab_placements w' = lab_placements w" "placement_members w' = placement_members w" "admins_ok w \<Longrightarrow> admins_ok w'"
  shows "keeps_fit w w'"
  using assms cold_ok_frame [OF assms(1)] pi_member_same [OF assms(2,4)] by (simp add: keeps_fit_def same_keys_def)

lemma keeps_fit_nodes:
  assumes "\<And>n. (n_id (f n), n_name (f n), n_cold_backend (f n), n_cold_owner_node_id (f n)) = (n_id n, n_name n, n_cold_backend n, n_cold_owner_node_id n)"
    "nodes w' = alter f (nodes w)" "labs w' = labs w" "students w' = students w" "lab_members w' = lab_members w"
    "lab_placements w' = lab_placements w" "placement_members w' = placement_members w" "admins w' = admins w"
  shows "keeps_fit w w'"
proof -
  have f: "n_id (f n) = n_id n" "n_name (f n) = n_name n" "n_cold_backend (f n) = n_cold_backend n"
    "n_cold_owner_node_id (f n) = n_cold_owner_node_id n" for n
    using assms(1) by simp_all
  have "cold_ok w' = cold_ok w" by (simp add: cold_ok_def assms(2) f)
  then show ?thesis using assms(2-8) pi_member_same [OF assms(3,5)] by (simp add: keeps_fit_def same_keys_def admins_ok_def f o_def)
qed

lemma admins_ok_frame: "admins w' = admins w \<Longrightarrow> admins_ok w' = admins_ok w"
  by (simp add: admins_ok_def)

lemma keeps_fit_columns:
  "keeps_fit w (add_scrub w)" "keeps_fit w (add_node_tokens w)" "keeps_fit w (add_alias_announcements w)" "keeps_fit w (clear_token_hashes w)"
  by (rule keeps_fit_nodes; simp add: add_scrub_def add_node_tokens_def add_alias_announcements_def clear_token_hashes_def)+

lemma keeps_fit_session: "keeps_fit w (add_session_state w)"
  by (rule keeps_fit_frame) (simp_all add: add_session_state_def admins_ok_def pk_ok_def o_def)

lemma keeps_fit_tables:
  "keeps_fit w w" "keeps_fit w (add_task_durability w)" "keeps_fit w (add_gpu_placement w)" "keeps_fit w (add_node_groups w)"
  "keeps_fit w (add_forensics w)" "keeps_fit w (add_process_details w)" "keeps_fit w (add_student_alerts w)"
  by (rule keeps_fit_frame; simp add: add_task_durability_def add_gpu_placement_def add_node_groups_def add_forensics_def
      add_process_details_def add_student_alerts_def admins_ok_def)+

lemma keeps_fit_placements: "keeps_fit w (add_credentials w)" "keeps_fit w (add_student_quotas w)"
  by (simp_all add: keeps_fit_def same_keys_def add_credentials_def add_student_quotas_def admins_ok_def cold_ok_def pi_member_def is_member_def
      pm_key_def place_key_def port_key_def o_def)

lemma keeps_fit_emails: "normalize_emails w = Inr w' \<Longrightarrow> keeps_fit w w'"
  by (auto simp: normalize_emails_def Let_def keeps_fit_def same_keys_def admins_ok_def pk_ok_def cold_ok_def pi_member_def is_member_def o_def
      split: if_splits)

lemma clean_frame:
  "nodes (clean_body k w) = nodes w" "labs (clean_body k w) = labs w" "students (clean_body k w) = students w"
  "lab_members (clean_body k w) = lab_members w" "lab_placements (clean_body k w) = lab_placements w"
  "placement_members (clean_body k w) = placement_members w" "admins (clean_body k w) = admins w"
  by (simp_all add: clean_body_def split: option.split json.split)

lemma keeps_fit_seeds:
  "seed_announcement_templates w = Inr w' \<Longrightarrow> keeps_fit w w'" "add_intro_template w = Inr w' \<Longrightarrow> keeps_fit w w'"
  "plain_signature h w = Inr w' \<Longrightarrow> keeps_fit w w'" "clean_signatures w = Inr w' \<Longrightarrow> keeps_fit w w'"
  by (rule keeps_fit_frame; force simp: seed_announcement_templates_def add_intro_template_def plain_signature_def Let_def clean_signatures_def
      SIGNED_BODIES_def clean_frame admins_ok_def split: prod.splits)+

text \<open>The five that the integrity depends on.\<close>

lemma fits_create: "fits R w \<Longrightarrow> ''0001_init'' \<notin> R \<Longrightarrow> fits (insert ''0001_init'' R) (create_tables w)"
  by (simp add: fits_def create_tables_def admins_ok_def)

lemma fits_guard:
  assumes "fits R w" "''0001_init'' \<in> R" "redesign_guard w = Inr w'"
  shows "fits (insert ''0009_redesign_placements'' R) w'"
proof -
  from assms(3) have e: "rows (nodes w') = []" "students w' = tbl_empty" "labs w' = tbl_empty" "lab_members w' = tbl_empty"
    "lab_placements w' = tbl_empty" "placement_members w' = tbl_empty" "admins w' = admins w"
    by (auto simp: redesign_guard_def split: if_splits)
  have "keys_ok w'" by (simp add: keys_ok_def pk_all_def pk_ok_def e List.map_filter_simps)
  moreover have "refs_ok w'" "cold_ok w'" "uids_ok w'" "pi_member w'"
    by (simp_all add: refs_ok_def cold_ok_def uids_ok_def uid_range_def pi_member_def e)
  moreover have "admins_ok w'" using assms(1,2) by (simp add: fits_def admins_ok_def e)
  ultimately show ?thesis using assms(2) by (simp add: fits_def)
qed

lemma fits_same_keys:
  assumes "fits R w" "same_keys w w'" "admins w' = admins w"
    "''0010_node_cold_storage'' \<in> insert i R \<Longrightarrow> cold_ok w \<or> i = ''0010_node_cold_storage'' \<Longrightarrow> cold_ok w'"
    "''0020_student_linux_uid'' \<in> insert i R \<Longrightarrow> keys_ok w \<Longrightarrow> uids_ok w \<or> i = ''0020_student_linux_uid'' \<Longrightarrow> uids_ok w'"
    "''0024_pi_access_and_completion'' \<in> insert i R \<Longrightarrow> pi_member w \<or> i = ''0024_pi_access_and_completion'' \<Longrightarrow> pi_member w'"
    "i \<noteq> ''0001_init''" "i \<noteq> ''0009_redesign_placements''"
  shows "fits (insert i R) w'"
proof -
  have i: "''0001_init'' \<in> insert i R \<longleftrightarrow> ''0001_init'' \<in> R" "''0009_redesign_placements'' \<in> insert i R \<longleftrightarrow> ''0009_redesign_placements'' \<in> R"
    using assms(7,8) by auto
  have a: "admins_ok w' = admins_ok w" by (rule admins_ok_frame [OF assms(3)])
  show ?thesis
  proof (cases "''0009_redesign_placements'' \<in> R")
    case False
    with assms(1) show ?thesis unfolding fits_def i a by simp
  next
    case True
    with assms(1) have r: "''0001_init'' \<in> R" "admins_ok w" "keys_ok w" "refs_ok w"
      and o: "''0010_node_cold_storage'' \<in> R \<Longrightarrow> cold_ok w" "''0020_student_linux_uid'' \<in> R \<Longrightarrow> uids_ok w"
        "''0024_pi_access_and_completion'' \<in> R \<Longrightarrow> pi_member w"
      unfolding fits_def by simp_all
    have "''0010_node_cold_storage'' \<in> insert i R \<longrightarrow> cold_ok w'" "''0020_student_linux_uid'' \<in> insert i R \<longrightarrow> uids_ok w'"
      "''0024_pi_access_and_completion'' \<in> insert i R \<longrightarrow> pi_member w'"
      using assms(4-6) o r(3) unfolding insert_iff by metis+
    with r show ?thesis unfolding fits_def i a same_keys_keys [OF assms(2)] same_keys_refs [OF assms(2)] by simp
  qed
qed

lemma fits_cold: "fits R w \<Longrightarrow> fits (insert ''0010_node_cold_storage'' R) (add_cold_storage w)"
proof (erule fits_same_keys)
  show "same_keys w (add_cold_storage w)" by (simp add: add_cold_storage_def same_keys_def o_def)
  show "admins (add_cold_storage w) = admins w" by (simp add: add_cold_storage_def)
  show "cold_ok (add_cold_storage w)" by (simp add: add_cold_storage_def cold_ok_def)
  have "uids_ok (add_cold_storage w) = uids_ok w" by (rule uids_cong) (simp add: add_cold_storage_def)
  then show "uids_ok w \<or> ''0010_node_cold_storage'' = ''0020_student_linux_uid'' \<Longrightarrow> uids_ok (add_cold_storage w)" by simp
  have "pi_member (add_cold_storage w) = pi_member w" by (rule pi_member_same) (simp_all add: add_cold_storage_def)
  then show "pi_member w \<or> ''0010_node_cold_storage'' = ''0024_pi_access_and_completion'' \<Longrightarrow> pi_member (add_cold_storage w)" by simp
qed simp_all

lemma fits_pi: "fits R w \<Longrightarrow> fits (insert ''0024_pi_access_and_completion'' R) (add_pi_access w)"
proof (erule fits_same_keys)
  show "same_keys w (add_pi_access w)" by (simp add: add_pi_access_def same_keys_def o_def place_key_def port_key_def)
  show "admins (add_pi_access w) = admins w" by (simp add: add_pi_access_def)
  have "cold_ok (add_pi_access w) = cold_ok w" by (rule cold_ok_frame) (simp add: add_pi_access_def)
  then show "cold_ok w \<or> ''0024_pi_access_and_completion'' = ''0010_node_cold_storage'' \<Longrightarrow> cold_ok (add_pi_access w)" by simp
  have "uids_ok (add_pi_access w) = uids_ok w" by (rule uids_cong) (simp add: add_pi_access_def)
  then show "uids_ok w \<or> ''0024_pi_access_and_completion'' = ''0020_student_linux_uid'' \<Longrightarrow> uids_ok (add_pi_access w)" by simp
  show "pi_member (add_pi_access w)" by (simp add: add_pi_access_def pi_member_def)
qed simp_all

text \<open>The UIDs are given out in the order of the ids, one to each student.\<close>

definition placed_uid :: "nat \<Rightarrow> nat list \<Rightarrow> student_row \<Rightarrow> student_row" where
  "placed_uid n ids s = (case map_of (zip ids [n ..< n + length ids]) (s_id s) of None \<Rightarrow> s | Some i \<Rightarrow> s\<lparr>s_linux_uid := 10000 + int i\<rparr>)"

lemma placed_uid_id [simp]: "s_id (placed_uid n ids s) = s_id s"
  by (simp add: placed_uid_def split: option.split)

lemma set_uids:
  "distinct (map s_id order) \<Longrightarrow>
     rows (fold set_uid (List.enumerate n order) t) = map (placed_uid n (map s_id order)) (rows t) \<and>
     seq (fold set_uid (List.enumerate n order) t) = seq t"
proof (induction order arbitrary: n t)
  case Nil
  show ?case by (simp add: placed_uid_def map_idI)
next
  case (Cons r order)
  let ?t = "set_uid (n, r) t"
  have t: "rows ?t = map (\<lambda>s. if s_id s = s_id r then s\<lparr>s_linux_uid := 10000 + int n\<rparr> else s) (rows t)" "seq ?t = seq t"
    by (simp_all add: set_uid_def tbl_update_def)
  have IH: "rows (fold set_uid (List.enumerate (Suc n) order) ?t) = map (placed_uid (Suc n) (map s_id order)) (rows ?t)"
    "seq (fold set_uid (List.enumerate (Suc n) order) ?t) = seq t"
    using Cons.IH [of "Suc n" ?t] Cons.prems t(2) by simp_all
  have up: "[n ..< n + length (r # order)] = n # [Suc n ..< Suc n + length order]" by (simp add: upt_conv_Cons del: upt_Suc)
  have nr: "map_of (zip (map s_id order) [Suc n ..< Suc n + length order]) (s_id r) = None"
    using Cons.prems by (simp add: map_of_zip_is_None)
  have "placed_uid (Suc n) (map s_id order) (if s_id s = s_id r then s\<lparr>s_linux_uid := 10000 + int n\<rparr> else s) =
      placed_uid n (map s_id (r # order)) s" for s
    using nr unfolding placed_uid_def length_map up by (simp split: option.split)
  with IH t show ?case by simp
qed

lemma set_uid_columns:
  "(\<And>s u. f (s\<lparr>s_linux_uid := u\<rparr>) = f s) \<Longrightarrow> map f (rows (fold set_uid xs t)) = map f (rows t)" "seq (fold set_uid xs t) = seq t"
proof -
  assume f: "\<And>s u. f (s\<lparr>s_linux_uid := u\<rparr>) = f s"
  have "map f (rows (set_uid x t)) = map f (rows t)" for x t by (cases x) (simp add: set_uid_def tbl_update_def f)
  then show "map f (rows (fold set_uid xs t)) = map f (rows t)" by (induction xs arbitrary: t) simp_all
next
  have "seq (set_uid x t) = seq t" for x t by (cases x) (simp add: set_uid_def tbl_update_def)
  then show "seq (fold set_uid xs t) = seq t" by (induction xs arbitrary: t) simp_all
qed

lemma fits_uids:
  assumes "fits R w" "assign_uids w = Inr w'"
  shows "fits (insert ''0020_student_linux_uid'' R) w'"
proof -
  let ?order = "sort_key s_id (rows (students w))"
  let ?ids = "map s_id ?order"
  from assms(2) have few: "length (rows (students w)) \<le> 50000"
    and w': "w' = w\<lparr>students := fold set_uid (List.enumerate 0 ?order) (students w)\<rparr>"
    by (auto simp: assign_uids_def Let_def split: if_splits)
  have uids: "uids_ok w'" if "keys_ok w"
  proof -
    from that have d: "distinct (map s_id (rows (students w)))" by (simp add: keys_ok_def pk_all_def pk_ok_def)
    then have d': "distinct ?ids" "set ?ids = s_id ` set (rows (students w))" by (simp_all add: distinct_map)
    have r: "rows (students w') = map (placed_uid 0 ?ids) (rows (students w))" using set_uids [OF d'(1), of 0 "students w"] by (simp add: w')
    have hit: "\<exists>k < length (rows (students w)). s_linux_uid (placed_uid 0 ?ids s) = 10000 + int k \<and> ?ids ! k = s_id s"
      if "s \<in> set (rows (students w))" for s
    proof -
      have "s_id s \<in> set ?ids" using that by simp
      then obtain k where k: "k < length ?ids" "?ids ! k = s_id s" by (metis in_set_conv_nth)
      then have "(?ids ! k, k) \<in> set (zip ?ids [0 ..< length ?ids])" unfolding in_set_zip by (intro exI [of _ k]) simp
      then have "map_of (zip ?ids [0 ..< length ?ids]) (?ids ! k) = Some k" using d'(1) by (intro map_of_is_SomeI) simp_all
      then have "s_linux_uid (placed_uid 0 ?ids s) = 10000 + int k" using k(2) by (simp add: placed_uid_def)
      with k show ?thesis by auto
    qed
    have "inj_on (s_linux_uid \<circ> placed_uid 0 ?ids) (set (rows (students w)))"
    proof (rule inj_onI)
      fix s t assume st: "s \<in> set (rows (students w))" "t \<in> set (rows (students w))"
        "(s_linux_uid \<circ> placed_uid 0 ?ids) s = (s_linux_uid \<circ> placed_uid 0 ?ids) t"
      with hit [OF st(1)] hit [OF st(2)] have "s_id s = s_id t" by auto
      with d st show "s = t" by (meson distinct_map inj_onD)
    qed
    then have "distinct (map s_linux_uid (rows (students w')))" using d by (simp add: r distinct_map)
    moreover have "uid_range w'" unfolding uid_range_def r using hit few by fastforce
    ultimately show ?thesis by (simp add: uids_ok_def)
  qed
  have cold: "cold_ok w' = cold_ok w" by (rule cold_ok_frame) (simp add: w')
  have pis: "pi_member w' = pi_member w" by (rule pi_member_same) (simp_all add: w')
  show ?thesis
  proof (rule fits_same_keys [OF assms(1)])
    show "same_keys w w'" by (simp add: same_keys_def w' set_uid_columns)
    show "admins w' = admins w" by (simp add: w')
    show "keys_ok w \<Longrightarrow> uids_ok w'" by (rule uids)
    show "cold_ok w \<or> ''0020_student_linux_uid'' = ''0010_node_cold_storage'' \<Longrightarrow> cold_ok w'" using cold by simp
    show "pi_member w \<or> ''0020_student_linux_uid'' = ''0024_pi_access_and_completion'' \<Longrightarrow> pi_member w'" using pis by simp
  qed simp_all
qed

section \<open>An upgrade\<close>

lemma sql_simps [simp]: "mg_id (sql i f) = i" "mg_run (sql i f) w = Inr (f w)"
  by (simp_all add: sql_def)

lemma migration_keeps:
  assumes "m \<in> set (MIGRATIONS h)" "mg_run m w = Inr w'"
    "mg_id m \<notin> {''0001_init'', ''0009_redesign_placements'', ''0010_node_cold_storage'', ''0020_student_linux_uid'', ''0024_pi_access_and_completion''}"
  shows "keeps_fit w w'"
proof -
  have "\<forall>m \<in> set (MIGRATIONS h). mg_run m w = Inr w' \<longrightarrow>
      mg_id m \<notin> {''0001_init'', ''0009_redesign_placements'', ''0010_node_cold_storage'', ''0020_student_linux_uid'', ''0024_pi_access_and_completion''} \<longrightarrow>
      keeps_fit w w'"
    by (auto simp add: MIGRATIONS_def keeps_fit_columns keeps_fit_session keeps_fit_tables keeps_fit_placements keeps_fit_emails keeps_fit_seeds)
  with assms show ?thesis by blast
qed

lemma migration_five:
  assumes "m \<in> set (MIGRATIONS h)" "mg_run m w = Inr w'"
    "mg_id m \<in> {''0001_init'', ''0009_redesign_placements'', ''0010_node_cold_storage'', ''0020_student_linux_uid'', ''0024_pi_access_and_completion''}"
    "mg_id m \<notin> R" "mg_id m \<noteq> ''0001_init'' \<Longrightarrow> ''0001_init'' \<in> R" "fits R w"
  shows "fits (insert (mg_id m) R) w'"
proof -
  have "\<forall>m \<in> set (MIGRATIONS h).
      mg_id m \<in> {''0001_init'', ''0009_redesign_placements'', ''0010_node_cold_storage'', ''0020_student_linux_uid'', ''0024_pi_access_and_completion''} \<longrightarrow>
      m \<in> {sql ''0001_init'' create_tables, \<lparr>mg_id = ''0009_redesign_placements'', mg_run = redesign_guard\<rparr>,
        sql ''0010_node_cold_storage'' add_cold_storage, \<lparr>mg_id = ''0020_student_linux_uid'', mg_run = assign_uids\<rparr>,
        sql ''0024_pi_access_and_completion'' add_pi_access}"
    by (simp add: MIGRATIONS_def)
  with assms(1,3) consider "m = sql ''0001_init'' create_tables" | "m = \<lparr>mg_id = ''0009_redesign_placements'', mg_run = redesign_guard\<rparr>"
    | "m = sql ''0010_node_cold_storage'' add_cold_storage" | "m = \<lparr>mg_id = ''0020_student_linux_uid'', mg_run = assign_uids\<rparr>"
    | "m = sql ''0024_pi_access_and_completion'' add_pi_access" by blast
  then show ?thesis
  proof cases
    case 1
    with assms(2,4) fits_create [OF assms(6)] show ?thesis by auto
  next
    case 2
    with assms(2,5) fits_guard [OF assms(6)] show ?thesis by simp
  next
    case 3
    with assms(2) fits_cold [OF assms(6)] show ?thesis by auto
  next
    case 4
    with assms(2) fits_uids [OF assms(6)] show ?thesis by simp
  next
    case 5
    with assms(2) fits_pi [OF assms(6)] show ?thesis by auto
  qed
qed

lemma migration_fits:
  assumes "m \<in> set (MIGRATIONS h)" "mg_run m w = Inr w'" "mg_id m \<notin> R" "mg_id m \<noteq> ''0001_init'' \<Longrightarrow> ''0001_init'' \<in> R" "fits R w"
  shows "fits (insert (mg_id m) R) w'"
  using migration_five [OF assms(1,2) _ assms(3-5)] keeps_fit_step [OF migration_keeps [OF assms(1,2)] assms(5)] by blast

lemma run_new_inv:
  assumes "\<And>xs m ys R d d'. ms = xs @ m # ys \<Longrightarrow> mg_id ` set xs \<subseteq> R \<Longrightarrow> mg_id m \<notin> R \<Longrightarrow> I R d \<Longrightarrow> mg_run m d = Inr d' \<Longrightarrow>
      I (insert (mg_id m) R) d'"
    and "mg_id ` set before \<subseteq> recorded s" "ms = before @ rest" "I (recorded s) (md_data s)" "run_new rest now s = (r, s')"
  shows "I (recorded s') (md_data s')"
  using assms(2-)
proof (induction rest arbitrary: before s)
  case (Cons m rest)
  show ?case
  proof (cases "mg_id m \<in> recorded s")
    case True
    with Cons.prems have "mg_id ` set (before @ [m]) \<subseteq> recorded s" "ms = (before @ [m]) @ rest" "run_new rest now s = (r, s')" by simp_all
    with Cons.IH Cons.prems(3) show ?thesis by blast
  next
    case False
    show ?thesis
    proof (cases "mg_run m (md_data s)")
      case (Inl e)
      with False Cons.prems(3,4) show ?thesis by simp
    next
      case (Inr d)
      let ?s = "\<lparr>md_applied = md_applied s @ [(mg_id m, now)], md_data = d\<rparr>"
      have r: "recorded ?s = insert (mg_id m) (recorded s)" by (simp add: recorded_def)
      have "I (recorded ?s) (md_data ?s)" unfolding r using assms(1) [OF Cons.prems(2,1) False Cons.prems(3) Inr] by simp
      moreover have "mg_id ` set (before @ [m]) \<subseteq> recorded ?s" unfolding r using Cons.prems(1) by auto
      moreover have "ms = (before @ [m]) @ rest" "run_new rest now ?s = (r, s')" using Cons.prems(2,4) False Inr by simp_all
      ultimately show ?thesis using Cons.IH by blast
    qed
  qed
qed simp

lemma MIGRATIONS_ids: "distinct (map mg_id (MIGRATIONS h))"
  by (simp add: MIGRATIONS_def)

lemma MIGRATIONS_first: "MIGRATIONS h = xs @ m # ys \<Longrightarrow> mg_id m = ''0001_init'' \<or> ''0001_init'' \<in> mg_id ` set xs"
  by (cases xs) (auto simp: MIGRATIONS_def)

lemma five_recorded:
  "mg_id ` set (MIGRATIONS h) \<subseteq> R \<Longrightarrow> ''0001_init'' \<in> R \<and> ''0009_redesign_placements'' \<in> R \<and> ''0010_node_cold_storage'' \<in> R \<and>
     ''0020_student_linux_uid'' \<in> R \<and> ''0024_pi_access_and_completion'' \<in> R"
  by (simp add: MIGRATIONS_def)

lemma upgrade_fits:
  assumes "fits (recorded s) (md_data s)" "run_new (MIGRATIONS h) now s = (r, s')"
  shows "fits (recorded s') (md_data s')"
proof (rule run_new_inv [where ms = "MIGRATIONS h" and before = "[]" and I = fits, OF _ _ _ assms])
  fix xs m ys R d d'
  assume m: "MIGRATIONS h = xs @ m # ys" "mg_id ` set xs \<subseteq> R" "mg_id m \<notin> R" "fits R d" "mg_run m d = Inr d'"
  have "m \<in> set (MIGRATIONS h)" by (simp add: m(1))
  moreover have "''0001_init'' \<in> R" if "mg_id m \<noteq> ''0001_init''" using MIGRATIONS_first [OF m(1)] m(2) that by blast
  ultimately show "fits (insert (mg_id m) R) d'" using migration_fits m(3-5) by blast
qed simp_all

lemma upgraded:
  assumes "fits (recorded s) (md_data s)" "migrate (MIGRATIONS h) now s = (Inr u, s')"
  shows "core_ok (md_data s')" "admins_ok (md_data s')" "migrate (MIGRATIONS h) later s' = (Inr (), s')"
proof -
  note m = migrate_run [OF MIGRATIONS_ids]
  from assms(2) have r: "run_new (MIGRATIONS h) now s = (Inr u, s')" by (simp add: m)
  from upgrade_fits [OF assms(1) r] five_recorded [OF run_new_all [OF r]]
  have f: "keys_ok (md_data s')" "refs_ok (md_data s')" "cold_ok (md_data s')" "uids_ok (md_data s')" "pi_member (md_data s')" "admins_ok (md_data s')"
    by (simp_all add: fits_def)
  from core_okI [OF f(1-5)] f(6) show "core_ok (md_data s')" "admins_ok (md_data s')" .
  show "migrate (MIGRATIONS h) later s' = (Inr (), s')" unfolding m by (rule run_new_done [OF run_new_all [OF r]])
qed

lemma upgrade_stopped:
  assumes "fits (recorded s) (md_data s)" "migrate (MIGRATIONS h) now s = (Inl e, s')"
  shows "fits (recorded s') (md_data s')"
    "\<exists>xs m ys. MIGRATIONS h = xs @ m # ys \<and> mg_id ` set xs \<subseteq> recorded s' \<and> mg_id m \<notin> recorded s' \<and> mg_run m (md_data s') = Inl e"
proof -
  from assms(2) have r: "run_new (MIGRATIONS h) now s = (Inl e, s')" by (simp add: migrate_run [OF MIGRATIONS_ids])
  show "fits (recorded s') (md_data s')" by (rule upgrade_fits [OF assms(1) r])
  from run_new_stops [OF r] obtain xs m ys where x: "MIGRATIONS h = xs @ m # ys" "run_new xs now s = (Inr (), s')"
    "mg_run m (md_data s') = Inl e" "mg_id m \<notin> recorded s'" by blast
  with run_new_all [OF x(2)]
  show "\<exists>xs m ys. MIGRATIONS h = xs @ m # ys \<and> mg_id ` set xs \<subseteq> recorded s' \<and> mg_id m \<notin> recorded s' \<and> mg_run m (md_data s') = Inl e" by blast
qed

lemma fits_fresh: "fits {} w"
  by (simp add: fits_def)

text \<open>A new database ends with no rows but the three templates.\<close>

lemma fresh_start:
  "\<exists>s'. migrate (MIGRATIONS h) now \<lparr>md_applied = [], md_data = w\<rparr> = (Inr (), s') \<and>
     map at_name (rows (announcement_templates (md_data s'))) = [''Scheduled maintenance'', ''Storage cleanup request'', ''System introduction''] \<and>
     map at_sort (rows (announcement_templates (md_data s'))) = [0, 1, 2] \<and> rows (students (md_data s')) = [] \<and> settings (md_data s') = []"
  unfolding migrate_run [OF MIGRATIONS_ids]
  by (simp add: MIGRATIONS_def sql_def recorded_def create_tables_def add_scrub_def add_session_state_def add_node_tokens_def
      add_alias_announcements_def redesign_guard_def add_cold_storage_def clear_token_hashes_def add_task_durability_def add_gpu_placement_def
      normalize_emails_def add_credentials_def add_node_groups_def seed_announcement_templates_def clean_signatures_def SIGNED_BODIES_def
      clean_body_def plain_signature_def assign_uids_def add_forensics_def add_intro_template_def intro_template_def add_student_quotas_def
      add_pi_access_def add_process_details_def add_student_alerts_def seed_templates_def add_seed_def tbl_insert_def tbl_next_def max_sort_def
      tbl_empty_def Let_def)

text \<open>The seeded texts use placeholders of announcements only, and with a sender each of them is filled in.\<close>

lemma seeds_closed:
  "list_all (\<lambda>(name, subject, body). list_all (closed_by (map fst ANNOUNCEMENT_VARS)) [subject, body]) (intro_template # seed_templates)"
  by code_simp

lemma announcement_vars_documented: "map fst (recipient_vars (Some a) r) = map fst ANNOUNCEMENT_VARS"
  by (cases a) (simp add: recipient_vars_def ANNOUNCEMENT_VARS_def)

lemma seeds_filled_in:
  assumes "(name, subject, body) \<in> set (intro_template # seed_templates)"
  shows "filled_in subject (recipient_vars (Some a) r)" "filled_in body (recipient_vars (Some a) r)"
proof -
  from seeds_closed assms have "list_all (closed_by (map fst ANNOUNCEMENT_VARS)) [subject, body]"
    unfolding list_all_iff by blast
  with announcement_vars_documented have "documented ANNOUNCEMENT_VARS (recipient_vars (Some a) r) [subject, body]"
    unfolding documented_def by blast
  from documented_filled [OF this] show "filled_in subject (recipient_vars (Some a) r)" "filled_in body (recipient_vars (Some a) r)"
    by simp_all
qed

end
