(* ===== verification/Spec2Isabelle.thy ===== *)
theory Spec2Isabelle
  imports Sample_Hub Sample_Backup Sample_Web Migration_Facts Progress
begin

text \<open>
  Verification of the controller of docker-mass-deployment.

  \<^bold>\<open>The program.\<close> The controller (controller/src, TypeScript) keeps the state of a teaching cluster in
  one SQLite database: labs, students, the rosters of the labs, the nodes of the cluster, and the
  placements, that is the containers of a lab on a node with one account per member. It talks to an
  agent on every node over a WebSocket (lib/hub.ts). An operation of the administrator (lib/nodes.ts,
  labs.ts, students.ts, placements.ts, nodegroups.ts, labimport.ts) changes the database and enqueues
  tasks for the agents (lib/queue.ts); the hub drains the queue of each connected node (drainNode),
  reads the frames the agents send (lib/protocol.ts), and applies results and telemetry (lib/ingest.ts,
  handleResult and handleEvent of hub.ts); a timer prunes tables and schedules scrubs, usage scans and
  backups (lib/maintenance.ts). Nothing runs in parallel: JavaScript handlers are atomic between awaits,
  and each is one function on the state here. The administrators (lib/auth.ts) sign in over the
  web application; each of their actions (the files actions.ts) first checks the session and then calls the operations;
  mail goes out through the servers in the settings (lib/mailer.ts).

  \<^bold>\<open>The state.\<close> \<open>World\<close> holds the record \<open>world\<close>: one field per table of the schema of lib/db.ts (a
  \<open>tbl\<close> is the list of rows with the next autoincrement key), the state \<open>'h\<close> of the
  queue package, the mail the program asked for and the counter of random draws. The record \<open>ext\<close> of the same theory holds what is not under
  src/: SHA-256, HMAC, AES-GCM, scrypt, the random source, UUIDs, the queue package, the time zone
  data. An operation has type \<open>('a, 'h) op\<close>: from a world to a result (\<open>Inl\<close> an error of the
  datatype \<open>error\<close>, \<open>Inr\<close> a value) and the world it leaves, so that what a failing operation has
  already written is visible. \<open>atomically\<close> is \<open>db().transaction\<close>. The hub adds sockets, connections,
  timers and the clock (\<open>'h hub\<close> of \<open>Hub\<close>).

  \<^bold>\<open>The theories.\<close>
    \<^item> \<open>Prelude\<close>, \<open>Json\<close>, \<open>World\<close>: strings as JavaScript trims, lowers and splits them, JSON values, base64,
      tables and their laws, the rows of db.ts with the delete actions of its foreign keys.
    \<^item> \<open>Migrations\<close>, \<open>Migration_Facts\<close> (db.ts: the staged restore, the runner, what each migration does to the rows, and
      that upgrades end in the integrity of the last schema).
    \<^item> \<open>Schema\<close>: \<open>schema_ok\<close>, the constraints of db.ts (primary keys, UNIQUE indexes, CHECK on UIDs, foreign keys).
    \<^item> \<open>Secrets\<close> (secrets.ts, passwords.ts), \<open>Settings\<close> (settings.ts), \<open>Queue\<close> (queue.ts; locale \<open>fifo\<close> and
      its interpretation on the table of tasks), \<open>Alerts\<close> (alerts.ts), \<open>RateLimit\<close> (ratelimit.ts).
    \<^item> \<open>Nodes\<close>, \<open>Node_Auth\<close> (nodes.ts): provisioning, authentication, allow-list, deletion, cold storage.
    \<^item> \<open>Placements\<close>, \<open>Placement_Facts\<close> (placements.ts), \<open>Labs\<close> (labs.ts), \<open>Students\<close> (students.ts),
      \<open>Roster\<close> (the abstract roster: \<open>roster_state\<close> and \<open>roster_step\<close>, the locale of implementations of
      it, its interpretation), \<open>Teardown\<close> (that destroying a lab ends and what it leaves), \<open>Controller\<close>
      (\<open>ctl_step\<close>, one constructor per exported operation), \<open>Delivery\<close> (which operation enqueues what, when a
      stored credential may be read).
    \<^item> \<open>Protocol\<close> (protocol.ts: \<open>parseInboundFrame\<close>), \<open>Ingest\<close>, \<open>Ingest_Facts\<close> (ingest.ts), \<open>Hub_Frames\<close>
      (handleLog, handleEvent, handleResult of hub.ts), \<open>Hub\<close> (sockets, hello, drain, close, timers, \<open>hub_step\<close>),
      \<open>Hub_Facts\<close>, \<open>Isolation\<close> (what a frame of one node leaves alone), \<open>Connections\<close>, \<open>Presence\<close> (the presence
      specification and its refinement by \<open>hub_step\<close>), \<open>Sessions\<close> (behaviour of one connection).
    \<^item> \<open>Maintenance\<close>, \<open>Maintenance_Facts\<close> (maintenance.ts), \<open>NodeGroups\<close> (nodegroups.ts).
    \<^item> \<open>System\<close>: \<open>sys_step\<close>, the interleaving of operations, hub events and maintenance ticks, with the
      invariants carried over to it by interpretation.
    \<^item> \<open>Csv\<close> (csv.ts), \<open>LabImport\<close> (labimport.ts), \<open>LabImport_Facts\<close> (what the text of an import determines),
      \<open>Import_Commit\<close> (its statements on the students and members), \<open>Import_Effect\<close> (the transaction, the step of the
      roster it is, and that it is idempotent), \<open>Progress\<close> (the ticks of a connection empty its queue).
    \<^item> \<open>Forms\<close> (numbers and fields of a form, quota inputs of labs/actions.ts, format.ts), \<open>Flash\<close> (flash.ts), \<open>Gpu\<close>
      (gpu.ts), \<open>Actions\<close> (the state monad of the server actions and their safety), \<open>LabActions\<close> (labs/actions.ts,
      students/actions.ts), \<open>AdminActions\<close> (actions.ts of nodes, gpu and settings), \<open>BackupActions\<close> (of backups), \<open>Reveal\<close> (the path of a revealed
      password), \<open>Console\<close>: \<open>console_step\<close>, server actions interleaved with \<open>sys_step\<close>.
    \<^item> \<open>MailDefaults\<close> (the built-in texts of settings.ts), \<open>Template\<close> (template.ts), \<open>Smtp\<close> (the servers of settings.ts and
      sendMail of mailer.ts), \<open>Mailer\<close>, \<open>Mailer_Facts\<close> (mailer.ts, fmtBytes of format.ts), \<open>SmtpActions\<close> (the SMTP actions of
      settings/actions.ts), \<open>Announcements\<close>, \<open>Announcement_Facts\<close> (announcements.ts), \<open>MailActions\<close> (actions.ts of
      email-templates and announcements).
    \<^item> \<open>Env\<close> (env.ts), \<open>Auth\<close>, \<open>Auth_Facts\<close> (auth.ts; \<open>auth_step\<close>, the steps on the accounts), \<open>Signin\<close> (the login and signup
      pages, clientIp of ratelimit.ts, proxy.ts), \<open>Gate\<close> (\<open>with_admin\<close>, the check in front of every action).
    \<^item> \<open>Stats\<close>, \<open>Stats_Facts\<close> (stats.ts), \<open>UsageReport\<close> (usage-report.ts), \<open>StatsActions\<close> (stats/actions.ts).
    \<^item> \<open>Retention\<close> (which backups are kept, and that pruning step by step is pruning at once), \<open>Webdav\<close> (webdav.ts over a
      parameter for fetch), \<open>Backup\<close>, \<open>Backup_Facts\<close> (backup.ts, backupcrypto.ts; a backup that is made can be restored).
    \<^item> \<open>Sample\<close>, \<open>Sample_Hub\<close>, \<open>Sample_Backup\<close>, \<open>Sample_Web\<close>: concrete worlds on which the properties are applied.

  \<^bold>\<open>The properties.\<close> C1 and C2 are the invariants of the whole console under every interleaving; C3 to C10 the
  behaviour of the operations; C15 and C16 round trips; C17 to C19 bounds at the boundary; C20 alerts;
  C21, C22 and C24 to C27 the hub; the section Maintenance retention and the backup grid;
  the section Imports the CSV and roster import; C40 progress; the section Defects, and C30, state, on the model as on the
  code, behaviour the code does not mean to have; C12 to C14 accounts, sessions and the environment; C23, C28 and C34 mail
  and announcements; C11 and C37 the statistics page; C38 upgrades of the
  database. The facts on ports, removal, the task log and others that
  these build on are lemmas beside them.

  \<^bold>\<open>Bounds and fuel.\<close> \<open>drain_loop\<close> has the 20 rounds of the loop of drainNode; no other fuel is used. The loops of
  the code (the UID and port searches, the slot search of the backup grid, the destruction of the
  placements of a lab) are total functions with their termination proofs. Integers are \<open>int\<close> and \<open>nat\<close>:
  the code's numbers are doubles that hold ids, times in milliseconds and byte counts; a JSON number is
  a rational here, so rounding of doubles is not modelled; the text of a form field that overflows a double is the
  infinity it is in the code. Strings are lists of \<open>char\<close>, that is of code
  units up to 255; the code only looks at ASCII characters of them.

  \<^bold>\<open>Not modelled.\<close> The conversion of an HTML signature to text that one migration applies (an argument of
  \<open>MIGRATIONS\<close>, and the facts on it hold for every conversion) and the columns that a later migration drops, the rendering of the pages and React
  components, the page cache an action invalidates, uploaded files in a form, the routing of the HTTP upgrade beyond its
  host check, the start of the process, and the Python agent: the model takes arbitrary
  bytes from every socket. nodemailer, bcrypt, the JWT package and the collation behind localeCompare are parameters; the
  order of localeCompare is that of sort keys. A dash outside Latin-1 in a text is written as a hyphen; the
  legacy signature, which has one, cannot occur. That every other operation leaves the table of administrators alone is
  an assumption of \<open>auth_step\<close>, not proved per operation. Three operations wait for the mailer
  (maybeDeliverPlacementCompletion, deliverPlacementCredential, sendAnnouncement); each is split at its await into the
  part before and the part after, and other steps may come between them.
\<close>

section \<open>Integrity of the database\<close>



text \<open>
  C2. The accounts on a placement are exactly the members of its lab: this holds in every state
  reached from a consistent one, whatever server actions, operations and hub events ran and whichever of
  them failed half-way.
\<close>

theorem accounts_match_roster:
  assumes "core_ok (hb_world h0)" "roster_sync (abs_roster (hb_world h0))" "(console_step X)\<^sup>*\<^sup>* (h0, f0) (h, f)"
    "p \<in> set (rows (lab_placements (hb_world h)))"
  shows "{pm_student_id r | r. r \<in> set (rows (placement_members (hb_world h))) \<and> pm_placement_id r = p_id p}
       = {m_student_id m | m. m \<in> set (rows (lab_members (hb_world h))) \<and> m_lab_id m = p_lab_id p}"
proof -
  let ?w = "hb_world h"
  have sync: "roster_sync (abs_roster ?w)" using console.csteps_sync [OF assms(3)] assms(1,2) by simp
  have s: "schema_ok ?w" using console.csteps_ok [OF assms(3)] assms(1) by (simp add: core_ok_def)
  have "(p_id p, x) \<in> rs_prov (abs_roster ?w) \<longleftrightarrow> (p_lab_id p, x) \<in> rs_member (abs_roster ?w)" for x
  proof -
    have pl: "(p_id p, p_lab_id p) \<in> rs_placed (abs_roster ?w)"
      using assms(4) by (auto simp: abs_roster_def placed_key_def)
    with sync placed_fun [OF s] show ?thesis unfolding roster_sync_def by blast
  qed
  then show ?thesis by (auto simp: abs_roster_def pm_key_def member_key_def set_eq_iff image_iff) metis+
qed

definition sample_student :: student_input where
  "sample_student = \<lparr>si_username = ''eve'', si_email = None, si_name = None, si_studentId = None\<rparr>"

theorem accounts_match_roster_witness:
  "{pm_student_id r | r. r \<in> set (rows (placement_members (snd (addStudentToLab X0 1 sample_student None W1)))) \<and>
      pm_placement_id r = p_id (mk_placement 1 1 1 50000 PActive)}
   = {m_student_id m | m. m \<in> set (rows (lab_members (snd (addStudentToLab X0 1 sample_student None W1)))) \<and>
      m_lab_id m = p_lab_id (mk_placement 1 1 1 50000 PActive)}"
proof -
  let ?h = "(H0 W1)\<lparr>hb_world := snd (addStudentToLab X0 1 sample_student None W1)\<rparr>"
  have w: "hb_world (H0 W1) = W1" by (simp add: H0_def)
  have "(console_step X0)\<^sup>*\<^sup>* (H0 W1, []) (?h, [])"
    by (rule r_into_rtranclp, rule console_step.system, rule sys_step.call) (simp add: w ctl_step.add_student)
  moreover have "lab_placements (hb_world ?h) = lab_placements W1"
    using addStudentToLab_ok(4) [OF W1_schema prod.collapse [symmetric]] by simp
  then have "mk_placement 1 1 1 50000 PActive \<in> set (rows (lab_placements (hb_world ?h)))"
    by (simp add: W1_def)
  ultimately show ?thesis using accounts_match_roster [of "H0 W1" X0 "[]" ?h "[]"] by (simp add: w)
qed

section \<open>Teardown\<close>

text \<open>
  C3. Destroying a lab always returns: with SMB clients torn down before the node that owns their cold
  storage, no step of the loop is refused. The result counts the placements whose teardown was started
  (all of them, or the online ones when forced); the lab is deleted exactly when none was, and then its
  roster and placements are gone and a member survives exactly when another lab still lists it.
\<close>

theorem destroyLab_total:
  assumes "schema_ok w" "cold_ok w" "pi_member w"
  shows "\<exists>r w'. destroyLab X l a f w = (Inr r, w') \<and>
     dr_teardownStarted r = (if getLab l w = None then 0 else length (filter (\<lambda>p. \<not> (f \<and> \<not> pl_online p)) (listPlacements l w))) \<and>
     (dr_deleted r \<longleftrightarrow> getLab l w \<noteq> None \<and> dr_teardownStarted r = 0) \<and>
     (dr_deleted r \<longrightarrow> labs w' = tbl_delete (\<lambda>x. l_id x = l) (labs w) \<and>
        (\<forall>x \<in> rs_member (abs_roster w'). fst x \<noteq> l) \<and> (\<forall>x \<in> rs_placed (abs_roster w'). snd x \<noteq> l) \<and>
        (\<forall>i. (l, i) \<in> rs_member (abs_roster w) \<longrightarrow>
           (i \<in> s_id ` set (rows (students w')) \<longleftrightarrow> (\<exists>k. k \<noteq> l \<and> (k, i) \<in> rs_member (abs_roster w)))))"
  using destroyLab_ok [OF assms, of X l a f] by blast

theorem destroyLab_total_witness:
  "\<exists>r w'. destroyLab X0 2 None False W1 = (Inr r, w') \<and> dr_deleted r \<and> labs w' = tbl_delete (\<lambda>x. l_id x = 2) (labs W1)"
proof -
  have "getLab 2 W1 \<noteq> None" "listPlacements 2 W1 = []"
    by (simp_all add: getLab_def tbl_get_def listPlacements_def placement_select_def placement_join_def lab_by_id_def node_by_id_def
        List.map_filter_simps W1_def sample_simps)
  with destroyLab_total [OF W1_schema W1_cold W1_pi, of X0 2 None False] show ?thesis by auto
qed

section \<open>Node identity\<close>

text \<open>
  C4. A freshly provisioned node is let in with the token it was given, and whoever else is let in
  under that name presented the same token or exhibits a collision of SHA-256 or of the keyed digest.
\<close>

theorem provisioned_token_unique:
  assumes "gcm_ok X" "nodeTokenHash X name token \<noteq> []" "provisionNode X name actor w = (Inr token, w')"
  shows "verifyNodeAuth X name token w' = AuthOk (nodeTokenHash X name token) \<and>
     (\<forall>t h. verifyNodeAuth X name t w' = AuthOk h \<longrightarrow> t = token \<or>
        collision (sha256 X) (nodeTokenHash X name t) (nodeTokenHash X name token) \<or>
        collision (hmac_sha256_hex X (env_agentToken X)) (name @ [NUL] @ t) (name @ [NUL] @ token))"
  using provisioned_auth [OF assms] by blast

theorem provisioned_token_unique_witness:
  "\<exists>token w'. provisionNode X0 ''n9'' ''root'' W1 = (Inr token, w') \<and>
     verifyNodeAuth X0 ''n9'' token w' = AuthOk (nodeTokenHash X0 ''n9'' token)"
proof -
  have "\<exists>token w'. provisionNode X0 ''n9'' ''root'' W1 = (Inr token, w')"
    by (simp add: provisionNode_def generateNodeToken_def Let_def isValidNodeName_def name_re_def is_az_def is_digit_def code_unit_def)
  moreover have "nodeTokenHash X0 n t \<noteq> []" for n t by (simp add: nodeTokenHash_def X0_def)
  ultimately show ?thesis using provisioned_token_unique [OF X0_gcm] by blast
qed

text \<open>
  C5. Revoking a node closes every door at once: no token authenticates under its name and no live
  socket passes the check that precedes every batch of tasks; other nodes are untouched.
\<close>

theorem revoked_node_is_out:
  shows "(\<forall>token. \<exists>why. verifyNodeAuth X name token (revokeNode name actor w) = AuthFail why) \<and>
     (\<forall>h. \<not> nodeStillAuthorized name h (revokeNode name actor w)) \<and>
     (other = name \<or> (verifyNodeAuth X other t (revokeNode name actor w) = verifyNodeAuth X other t w \<and>
        nodeStillAuthorized other h' (revokeNode name actor w) = nodeStillAuthorized other h' w))"
  by (cases "other = name") (simp_all add: revoked_auth revoked_other)

text \<open>
  C6. The retention of the backups, stated without its loops: a file is kept exactly when it is one of
  the newest, or the newest of its week, month or year among the most recent ones; pruning after every
  single backup keeps what one pruning of the whole history keeps; and the number of files is bounded by
  the sum of the four settings.
\<close>

theorem retention_is_gfs:
  assumes "distinct ss"
  shows "set (retained k ss) = {s. kept k (set ss) s} \<and>
     foldl (\<lambda>K n. retained k (K @ [n])) [] ss = retained k ss \<and> length (retained k ss) \<le> quota_sum k"
proof -
  have "set (retained k ss) = {s. kept k (set ss) s}"
    unfolding retained_kept [OF assms] by (auto simp: kept_def represents_def)
  with retained_fold [OF assms] retained_bound [OF assms] show ?thesis by blast
qed

theorem retention_is_gfs_witness:
  "foldl (\<lambda>K n. retained \<lparr>rk_recent = 1, rk_weekly = 1, rk_monthly = 0, rk_yearly = 0\<rparr> (K @ [n])) [] [1000, 2000, 700000000] =
     retained \<lparr>rk_recent = 1, rk_weekly = 1, rk_monthly = 0, rk_yearly = 0\<rparr> [1000, 2000, 700000000]"
  using retention_is_gfs [of "[1000, 2000, 700000000]"] by simp


section \<open>Provisioning and credentials\<close>

text \<open>
  C8. Creating a placement appends to the node's queue first the task that builds the container and
  then, for every member of the roster in username order, the task that creates the account; the
  password in each account task is the one the controller stores, encrypted, for that member.
\<close>

theorem createPlacement_enqueues:
  assumes "honker_fifo X pend" "gcm_ok X" "json_roundtrip X" "schema_ok w" "createPlacement X inp w = (Inr p, w')"
  shows "\<exists>pws. length pws = length (roster (ci_labId inp) w) \<and>
     queue_view X pend (pl_node_name p) w' = queue_view X pend (pl_node_name p) w @ [Some (''lab.create'', create_params p)] @
       map (\<lambda>(s, pw). Some (''student.add'', student_add_params p (s_username s) (s_linux_uid s) pw)) (zip (roster (ci_labId inp) w) pws) \<and>
     (\<forall>(s, pw) \<in> set (zip (roster (ci_labId inp) w) pws). \<exists>r \<in> set (rows (placement_members w')).
        pm_key r = (p_id (pl_row p), s_id s) \<and> pm_state r = MProvisioning \<and>
        map_option (decryptSecret X) (pm_credential_secret r) = Some pw)"
  by (rule createPlacement_queue [OF assms])

definition sample_placement :: create_placement_input where
  "sample_placement = \<lparr>ci_labId = 2, ci_nodeId = 1, ci_fastQuotaBytes = 100, ci_coldQuotaBytes = Some 100,
     ci_studentFastQuotaBytes = None, ci_studentColdQuotaBytes = Some 50, ci_sshPort = 50001, ci_image = ''ubuntu:22.04'',
     ci_containerOptions = DEFAULT_CONTAINER_OPTIONS, ci_actor = None\<rparr>"

theorem createPlacement_enqueues_witness:
  "\<exists>p w' pws. createPlacement X0 sample_placement W1 = (Inr p, w') \<and>
     queue_view X0 fifo_pend (pl_node_name p) w' = queue_view X0 fifo_pend (pl_node_name p) W1 @ [Some (''lab.create'', create_params p)] @
       map (\<lambda>(s, pw). Some (''student.add'', student_add_params p (s_username s) (s_linux_uid s) pw)) (zip (roster 2 W1) pws)"
proof -
  have c: "check_create sample_placement (mk_node 1 ''n1'' True LocalZfs None) W1 = Inr (Some 100, Some 50)" by code_simp
  have n: "node_by_id 1 W1 = Some (mk_node 1 ''n1'' True LocalZfs None)"
    by (simp add: node_by_id_def tbl_get_def W1_def sample_simps)
  have r: "rows (lab_placements W1) = [mk_placement 1 1 1 50000 PActive]" "lab_by_id 2 W1 \<noteq> None" "tbl_next (lab_placements W1) = 2"
    by (simp_all add: W1_def lab_by_id_def tbl_get_def tbl_next_def sample_simps)
  then obtain w1 where i: "insert_placement sample_placement (Some 100) (Some 50) W1 = (Inr 2, w1)"
    by (simp add: insert_placement_def sample_placement_def mk_placement_def Let_def)
  have s: "schema_ok w1"
    using schema_insert_placement [OF W1_schema, of sample_placement "Some 100" "Some 50"] n i by (simp add: sample_placement_def)
  obtain q where q: "lab_placements w1 = tbl_insert (\<lambda>_. q) (lab_placements W1)" "p_id q = 2"
    using insert_placement_ok(3) [OF i] by blast
  then have "q \<in> set (rows (lab_placements w1))" by simp
  with q(2) getPlacement_None [OF s] have w1: "getPlacement 2 w1 \<noteq> None" by auto
  obtain p where p: "getPlacement 2 w1 = Some p" using w1 by blast
  have lab: "ci_labId sample_placement = 2" "ci_nodeId sample_placement = 1" by (simp_all add: sample_placement_def)
  obtain w' where w': "createPlacement X0 sample_placement W1 = (Inr p, w')"
    unfolding createPlacement_def lab n option.case c sum.case prod.case i and_then_simps p Let_def by blast
  show ?thesis
    using createPlacement_enqueues [OF X0_fifo X0_gcm X0_json_roundtrip W1_schema w'] w' unfolding lab by blast
qed

text \<open>
  C9. A stored initial password is revealed at most once: after a successful reveal, whoever asks again
  for the same account is told that it was consumed.
\<close>

theorem credential_revealed_once:
  assumes "consumePlacementCredential X i j a w = (Inr (u, pw), w')"
  shows "pw \<noteq> [] \<and> fst (consumePlacementCredential X i j a' w') = Inl (PlacementE CredentialConsumed)"
  using consume_ok [OF assms] consume_twice [OF assms] by metis

theorem credential_revealed_once_witness:
  "\<exists>w'. consumePlacementCredential X0 1 2 None W1 = (Inr (''ana'', ''pw''), w') \<and>
     fst (consumePlacementCredential X0 1 2 None w') = Inl (PlacementE CredentialConsumed)"
proof -
  have "\<exists>w'. consumePlacementCredential X0 1 2 None W1 = (Inr (''ana'', ''pw''), w')"
    by (simp add: consumePlacementCredential_def credential_select_def credential_join_def W1_def sample_simps tbl_get_def
        student_by_id_def lab_by_id_def node_by_id_def List.map_filter_simps decryptSecret_def SECRET_PREFIX_def Let_def)
  then show ?thesis using credential_revealed_once [of X0 1 2 None W1] by blast
qed

text \<open>
  C10. The way of a password from the database to the page: when the action of the reveal button shows
  one, it is the password the operation took out of the database; the page it redirects to reads exactly
  that password during the minute the flash store keeps it, nothing later, and nothing a second time;
  and whoever presses the button again is told that it was consumed.
\<close>

theorem revealed_password_read_once:
  assumes "run_state (revealPlacementCredentialAction X who fd) s = (Redirect p [(''credential'', Text fid), (''username'', Text u)], s')"
  shows "\<exists>pw. pw \<noteq> [] \<and>
     fst (consumePlacementCredential X (as_id (field_num fd ''placementId'')) (as_id (field_num fd ''studentId'')) (Some who) (ap_world s)) = Inr (u, pw) \<and>
     (\<forall>t. clock (ap_world s) \<le> t \<longrightarrow> fst (takeFlash t fid (ap_flash s')) = (if t \<le> clock (ap_world s) + TTL_MS then Some (Text pw) else None) \<and>
        (\<forall>t'. fst (takeFlash t' fid (snd (takeFlash t fid (ap_flash s')))) = None)) \<and>
     (\<exists>i s''. run_state (revealPlacementCredentialAction X who' fd) s' = (Redirect p [(''error'', Text i)], s'') \<and>
        fst (takeFlash (clock (ap_world s)) i (ap_flash s'')) = Some (ErrorMessage (Op (PlacementE CredentialConsumed))))"
  by (rule reveal_path [OF assms])

definition reveal_form :: form where
  "reveal_form = [(''placementId'', ''1''), (''studentId'', ''2'')]"

theorem revealed_password_read_once_witness:
  "\<exists>p fid s'. run_state (revealPlacementCredentialAction X0 ''root'' reveal_form) \<lparr>ap_world = W1, ap_flash = []\<rparr> =
       (Redirect p [(''credential'', Text fid), (''username'', Text ''ana'')], s') \<and>
     fst (takeFlash (clock W1) fid (ap_flash s')) = Some (Text ''pw'')"
proof -
  let ?s = "\<lparr>ap_world = W1, ap_flash = []\<rparr> :: fifo app"
  have f: "as_id (field_num reveal_form ''placementId'') = 1" "as_id (field_num reveal_form ''studentId'') = 2"
    using js_Number_digits [of "''1''"] js_Number_digits [of "''2''"]
    by (simp_all add: reveal_form_def field_num_def as_id_def is_digit_def code_unit_def dec_value_def MAX_DOUBLE_EXCLUSIVE_def)
  obtain w where c: "consumePlacementCredential X0 1 2 (Some ''root'') W1 = (Inr (''ana'', ''pw''), w)"
    by (simp add: consumePlacementCredential_def credential_select_def credential_join_def W1_def sample_simps tbl_get_def
        student_by_id_def lab_by_id_def node_by_id_def List.map_filter_simps decryptSecret_def SECRET_PREFIX_def Let_def)
  have "mk_placement 1 1 1 50000 PActive \<in> set (rows (lab_placements W1))" "p_id (mk_placement 1 1 1 50000 PActive) = 1"
    by (simp_all add: W1_def mk_placement_def)
  then obtain pl where pl: "getPlacement 1 W1 = Some pl" using getPlacement_None [OF W1_schema, of 1] by auto
  obtain p fid s' where r: "run_state (revealPlacementCredentialAction X0 ''root'' reveal_form) ?s =
      (Redirect p [(''credential'', Text fid), (''username'', Text ''ana'')], s')"
    using reveal_shows [of reveal_form ?s pl X0 "''root''"] pl c f by auto
  with revealed_password_read_once [OF r] c f show ?thesis by (fastforce simp: TTL_MS_def)
qed

text \<open>
  The SSH port offered for a node is the lowest one of the configured range that no placement of
  the node uses, and the error is returned exactly when the whole range is taken.
\<close>

lemma nextSshPort_lowest_free:
  "case nextSshPortForNode X i w of
     Inr q \<Rightarrow> setting_int X ''sshPortStart'' w \<le> q \<and> q \<le> setting_int X ''sshPortEnd'' w \<and>
        \<not> (\<exists>p \<in> set (rows (lab_placements w)). p_node_id p = i \<and> p_ssh_port p = q) \<and>
        (\<forall>r. r < setting_int X ''sshPortStart'' w \<or> q \<le> r \<or> (\<exists>p \<in> set (rows (lab_placements w)). p_node_id p = i \<and> p_ssh_port p = r))
   | Inl e \<Rightarrow> e = PlacementE NoFreeSshPort \<and>
        {setting_int X ''sshPortStart'' w..setting_int X ''sshPortEnd'' w} \<subseteq> {p_ssh_port p | p. p \<in> set (rows (lab_placements w)) \<and> p_node_id p = i}"
  by (rule nextSshPort_spec)

text \<open>
  Registering a student returns an account whose UID lies in the managed range and belongs to no
  other account, and registering the same person again returns the same account without another write.
\<close>

lemma findOrCreateStudent_stable:
  assumes "schema_ok w" "findOrCreateStudent inp w = (Inr s, w')"
  shows "schema_ok w' \<and> s \<in> set (rows (students w')) \<and> 10000 \<le> s_linux_uid s \<and> s_linux_uid s \<le> 59999 \<and>
     (\<forall>x \<in> set (rows (students w')). s_linux_uid x = s_linux_uid s \<longrightarrow> x = s) \<and>
     findOrCreateStudent inp w' = (Inr s, w')"
proof -
  note f = findOrCreate_ok [OF assms]
  have s: "s \<in> set (rows (students w'))" by (rule f(3)) simp
  have d: "distinct (map s_linux_uid (rows (students w')))" and r: "uid_range w'"
    using f(1) by (simp_all add: schema_ok_def uniq_all_def)
  then have "x = s" if "x \<in> set (rows (students w'))" "s_linux_uid x = s_linux_uid s" for x
    using that s by (simp add: distinct_map inj_on_def)
  with s r f(1) findOrCreate_again [OF assms(2)] show ?thesis by (auto simp: uid_range_def)
qed

text \<open>
  Removing a student from a lab refuses the lab's PI and anyone who is not on the roster, and then
  nothing changes; otherwise the membership and exactly the accounts on the lab's placements disappear.
\<close>

lemma removeStudent_refines:
  assumes "schema_ok w" "removeStudentFromLab X l i d act w = (r, w')"
  shows "(case r of
       Inl e \<Rightarrow> w' = w
     | Inr _ \<Rightarrow> abs_roster w' = spec_leave l i (abs_roster w) \<and> (l, i) \<in> rs_member (abs_roster w) \<and>
         (\<forall>lab \<in> set (rows (labs w)). l_id lab = l \<longrightarrow> l_pi_student_id lab \<noteq> Some i))"
  using removeStudentFromLab_ok(6,7) [OF assms] by (cases r) (auto simp: is_member_iff)

section \<open>The task log\<close>

text \<open>
  Every update that the hub makes to the task log is, on every row, a step of the task's life
  (queued, then sent, then one final result) or no change at all, and it touches only a row of the node
  and task it names: an agent cannot finish another node's task, nor finish its own twice.
\<close>

lemma task_log_lifecycle:
  assumes "s \<in> {TSent, TOk, TFailed}" "i < length (rows (task_log w))"
  shows "let t = rows (task_log w) ! i; t' = rows (task_log (snd (markTaskState n u s r e c w))) ! i in
     (t' = t \<or> (task_step (t_state t) (t_state t') \<and> t_node t = n \<and> t_uuid t = u)) \<and>
     (terminal s \<longrightarrow> \<not> fst (markTaskState n u s' r' e' c' (snd (markTaskState n u s r e c w))))"
  unfolding Let_def by (intro conjI impI markTaskState_refines [OF assms, unfolded Let_def] markTaskState_once)

section \<open>Secrets and settings\<close>

text \<open>
  C15. A stored secret decrypts to what was encrypted, and the empty secret stays empty.
\<close>

theorem secret_roundtrip:
  assumes "gcm_ok X"
  shows "decryptSecret X (encryptSecret X k plain) = plain \<and> (encryptSecret X k plain = [] \<longleftrightarrow> plain = [])"
  by (simp add: decrypt_encrypt [OF assms])

theorem secret_roundtrip_witness: "decryptSecret X0 (encryptSecret X0 5 ''hunter2'') = ''hunter2''"
  using secret_roundtrip [OF X0_gcm] by blast

text \<open>
  C16. A setting reads back as it was written, the encrypted ones and the passwords of the ranked SMTP
  servers included, and no other setting changes.
\<close>

theorem setting_roundtrip:
  assumes "gcm_ok X" "stringified value = value" "setSetting X key value w = (Inr (), w')"
  shows "getSetting X key' w' = (if key' = key then value else getSetting X key' w)"
  using get_set_same [OF assms(1,3,2)] get_set_other [OF assms(3)] by simp

theorem setting_roundtrip_witness:
  "getSetting X0 ''smtpPass'' (snd (setSetting X0 ''smtpPass'' (JStr ''s3cret'') W1)) = JStr ''s3cret''"
proof -
  have "\<exists>w'. setSetting X0 ''smtpPass'' (JStr ''s3cret'') W1 = (Inr (), w')"
    by (simp add: setSetting_def ENCRYPTED_KEYS_def)
  then obtain w' where w': "setSetting X0 ''smtpPass'' (JStr ''s3cret'') W1 = (Inr (), w')" by blast
  from setting_roundtrip [OF X0_gcm _ this, of "''smtpPass''"] w' show ?thesis by simp
qed

section \<open>Limits\<close>

text \<open>
  C17. However an agent times its messages, a socket lets through at most the burst of 100 plus 50 per
  second over any period since it was opened.
\<close>

theorem socket_flood_bound:
  assumes "sorted (t0 # ts)" "\<forall>t \<in> set ts. t \<le> t1" "t0 \<le> t1"
  shows "of_nat (socket_admitted ts (socket_bucket t0)) \<le> MSG_BURST + MSG_RATE_PER_SEC * of_int (t1 - t0) / 1000"
  by (rule socket_admitted_bound [OF assms])

theorem socket_flood_bound_witness:
  "of_nat (socket_admitted (replicate 101 7) (socket_bucket 7)) \<le> MSG_BURST"
  using socket_flood_bound [of 7 "replicate 101 7" 7] by (simp add: sorted_replicate)

text \<open>
  C18. As long as the map of buckets does not reach its ceiling, the login limiter grants a client at most
  five attempts plus one every twelve seconds over any period, whatever other clients do; and the map
  never holds more than one bucket above its ceiling.
\<close>

theorem login_attempts_bound:
  assumes "sorted (t0 # map snd es)" "\<forall>e \<in> set es. snd e \<le> t1" "t0 \<le> t1" "length bs + length es \<le> Suc MAX_BUCKETS"
  shows "of_nat (auth_admitted key es bs) \<le> rl_burst AUTH_LIMIT + ratePerSec AUTH_LIMIT * of_int (t1 - t0) / 1000 \<and>
     length (snd (consume k opts now bs')) \<le> Suc MAX_BUCKETS"
  using auth_admitted_bound [OF assms] consume_bounded by blast

theorem login_attempts_bound_witness:
  "of_nat (auth_admitted ''a'' [(''a'', 0), (''b'', 1), (''a'', 2)] []) \<le> rl_burst AUTH_LIMIT + ratePerSec AUTH_LIMIT * of_int (2 - 0) / 1000"
  using login_attempts_bound [of 0 "[(''a'', 0), (''b'', 1), (''a'', 2)]" 2 "[]" "''a''"] by (simp add: MAX_BUCKETS_def)



text \<open>
  C20. Within the configured window, repeats of an alert send no mail and are counted.
\<close>

theorem alerts_throttled:
  assumes "setting_bool X ''alertsEnabled'' w" "map_of (alert_state w) key = Some (t0, n)"
    "\<forall>t \<in> set ts. of_int (t - t0) < setting_num X ''alertDedupMinutes'' w * 60 * 1000"
  shows "outbox (repeat_alert X key s b ts w) = outbox w \<and>
     map_of (alert_state (repeat_alert X key s b ts w)) key = Some (t0, n + length ts)"
  using repeat_alert_suppressed [OF assms] by blast

theorem alerts_throttled_witness:
  "outbox (repeat_alert X0 ''k'' ''s'' ''b'' [5, 6] (W1\<lparr>alert_state := [(''k'', 1, 0)]\<rparr>)) = []"
proof -
  have "setting_bool X0 ''alertsEnabled'' (W1\<lparr>alert_state := [(''k'', 1, 0)]\<rparr>)"
    "setting_num X0 ''alertDedupMinutes'' (W1\<lparr>alert_state := [(''k'', 1, 0)]\<rparr>) = 15"
    by (simp_all add: setting_bool_def setting_num_def getSetting_def default_setting_def DEFAULT_SETTINGS_def j_int_def W1_def W0_def)
  with alerts_throttled [of X0 "W1\<lparr>alert_state := [(''k'', 1, 0)]\<rparr>" "''k''" 1 0 "[5, 6]" "''s''" "''b''"] show ?thesis
    by (simp add: W1_def W0_def)
qed

section \<open>The agents' sessions\<close>

text \<open>
  C21. Before an accepted hello a socket cannot touch the database: whatever message it sends, the
  stored state changes only if the message is a hello whose node name and token authenticate (the node
  exists, is not blocked and the keyed digest of the token is the stored one) and whose version is
  supported.
\<close>

theorem socket_must_authenticate:
  assumes "socket_node i h = None"
    and "\<And>parsed node token v caps th. raw = Some parsed \<Longrightarrow> parseInboundFrame parsed = Some (HelloFrame node token v caps) \<Longrightarrow>
       isProtocolCompatible v \<Longrightarrow> verifyNodeAuth X node token (hb_world h) \<noteq> AuthOk th"
  shows "hb_world (snd (on_message X i raw h)) = hb_world h"
proof (rule ccontr)
  assume "hb_world (snd (on_message X i raw h)) \<noteq> hb_world h"
  then show False by (rule unauthenticated_message [OF assms(1)]) (use assms(2) in simp)
qed

definition blocked_W1 :: "fifo world" where
  "blocked_W1 = revokeNode ''n1'' ''root'' W1"

theorem socket_must_authenticate_witness:
  "hb_world (snd (on_message X0 (Suc 0) (Some hello_n1) (H1 Open blocked_W1))) = blocked_W1"
proof -
  have "hb_world (snd (on_message X0 (Suc 0) (Some hello_n1) (H1 Open blocked_W1))) = hb_world (H1 Open blocked_W1)"
  proof (rule socket_must_authenticate)
    fix parsed node token v caps th
    assume "Some hello_n1 = Some parsed" "parseInboundFrame parsed = Some (HelloFrame node token v caps)"
    then have "node = ''n1''" by simp
    then show "verifyNodeAuth X0 node token (hb_world (H1 Open blocked_W1)) \<noteq> AuthOk th"
      using revoked_auth(1) [of X0 "''n1''" token "''root''" W1] by (auto simp: blocked_W1_def)
  qed simp
  then show ?thesis by simp
qed



text \<open>
  A storage sample that a telemetry frame adds is about the node that reported it: its placement is
  on that node, its lab is the placement's, and its student, if any, is on the roster of that lab.
\<close>

lemma telemetry_samples_are_own:
  assumes "r \<in> set (rows (storage_samples (snd (ingestTelemetry X node payload w))))"
  shows "r \<in> set (rows (storage_samples w)) \<or>
     (\<exists>p \<in> set (rows (lab_placements w)). \<exists>n \<in> set (rows (nodes w)). n_name n = node \<and> p_node_id p = n_id n \<and>
        sm_placement_id r = Some (p_id p) \<and> sm_lab_id r = Some (p_lab_id p) \<and>
        (sm_student_id r = None \<or> (\<exists>m \<in> set (rows (lab_members w)). m_lab_id m = p_lab_id p \<and> sm_student_id r = Some (m_student_id m))))"
  using telemetry_samples [OF assms] by (simp add: hosted_sample_def)

definition storage_report :: json where
  "storage_report = JObj [(''storage'', JArr [JObj [(''lab'', JStr ''ai''), (''tier'', JStr ''rootfs''), (''used_bytes'', JNum 5)]])]"

definition reported_sample :: sample_row where
  "reported_sample = \<lparr>sm_id = 1, sm_placement_id = Some 1, sm_lab_id = Some 1, sm_student_id = None, sm_pool = ''rootfs'',
     sm_used_bytes = 5, sm_quota_bytes = None, sm_ts = 1000\<rparr>"

text \<open>
  C24. The consumer of an authorised node delivers in order: one tick sends the first twenty waiting
  frames of the node's queue, oldest first, on the node's socket, and exactly those leave the queue.
\<close>

theorem consumer_delivers_in_order:
  assumes "honker_fifo X pend" "socket_ready i h = Open" "conn_of node h = Some c" "cn_sock c = i"
    "nodeStillAuthorized node (cn_tokenHash c) (hb_world h)"
    "map (decodeFrame X) (take 20 (pending pend node (hb_world h))) = map Inr fs"
  shows "\<exists>h'. drainNode X (\<lambda>_. True) node i h = (Inr (), h') \<and> sent_on i h' = sent_on i h @ fs \<and>
     pending pend node (hb_world h') = drop 20 (pending pend node (hb_world h))"
proof -
  have "i < length (hb_socks h)" by (rule socket_ready_index) (simp add: assms(2))
  from drain_loop_fifo [OF assms(1) this assms(6)] drainNode_authorised [OF assms(2-5), of X "\<lambda>_. True"] show ?thesis by metis
qed

theorem consumer_delivers_in_order_witness:
  "\<exists>h'. drainNode X0 (\<lambda>_. True) ''n1'' 0 (H1 Open check_W1) = (Inr (), h') \<and> sent_on 0 h' = [check_frame]"
proof -
  have "map (decodeFrame X0) (take 20 (pending fifo_pend ''n1'' (hb_world (H1 Open check_W1)))) = map Inr [check_frame]"
    using check_pending by (simp flip: take_map)
  then show ?thesis
    using consumer_delivers_in_order [where h = "H1 Open check_W1" and i = 0 and fs = "[check_frame]", OF X0_fifo _ H1_sockets(7)]
    by (auto simp: check_authorized H1_sent)
qed

text \<open>
  C25. Revocation reaches a connected node at its next tick: the socket is closed with code 4001, the
  node is no longer connected, and no task is sent or taken from its queue.
\<close>

theorem revoked_node_is_dropped:
  assumes "socket_ready i h = Open" "conn_of node h = Some c" "cn_sock c = i" "hb_world h = revokeNode node actor w"
  shows "\<exists>h'. drainNode X sends node i h = (Inr (), h') \<and> \<not> connected h' node \<and> socket_ready i h' = Closing \<and>
     sk_close (hb_socks h' ! i) = Some (4001, ''revoked'') \<and> sent_on i h' = sent_on i h \<and>
     hq (hb_world h') = hq (hb_world h) \<and> task_log (hb_world h') = task_log (hb_world h)"
proof -
  let ?h = "deregisterNode X node (ws_close i 4001 ''revoked'' h)"
  have "\<not> nodeStillAuthorized node (cn_tokenHash c) (hb_world h)" by (simp add: assms(4) revoked_auth(2))
  then have "drainNode X sends node i h = (Inr (), ?h)" by (rule drainNode_revoked [OF assms(1-3)])
  moreover have "\<not> connected ?h node" by (simp add: connected_def deregister_frame)
  ultimately show ?thesis
    using ws_close_open [OF assms(1), of 4001 "''revoked''"]
    by (simp add: deregister_frame socket_ready_def sent_on_def split: if_split_asm)
qed

theorem revoked_node_is_dropped_witness:
  "\<exists>h'. drainNode X0 (\<lambda>_. True) ''n1'' 0 (H1 Open blocked_W1) = (Inr (), h') \<and> \<not> connected h' ''n1'' \<and> sent_on 0 h' = []"
proof -
  have "sent_on 0 (H1 Open blocked_W1) = []" by (rule H1_sent)
  then show ?thesis
    using revoked_node_is_dropped [where h = "H1 Open blocked_W1" and i = 0 and X = X0 and sends = "\<lambda>_. True", OF _ H1_sockets(7)]
    by (fastforce simp: blocked_W1_def)
qed



text \<open>
  C27. Every event of the hub refines the presence of nodes: one node joins (it is then online and its
  pending offline alert is cancelled), one node leaves (it is then offline), an alert is settled, all
  connections are lost by a restart, or nothing of this changes.
\<close>

theorem hub_refines_presence:
  assumes "hub_step X h h'"
  shows "presence_step h h'"
  by (rule hub_step_presence [OF assms])

theorem hub_refines_presence_witness: "presence_step (H1 Open W1) (on_close X0 0 (H1 Open W1))"
  by (rule hub_refines_presence, rule hub_step.closed) simp

text \<open>
  A second connection cannot take over a node whose socket is open: the newcomer is refused, even
  with the right token, and the connections, the database and every other socket stay as they are.
\<close>

lemma duplicate_connection_refused:
  assumes "conn_of node h = Some c" "socket_ready (cn_sock c) h = Open" "k \<noteq> i"
  shows "fst (handleHello X i node token v caps h) = None \<and> connections (snd (handleHello X i node token v caps h)) = connections h \<and>
     hb_world (snd (handleHello X i node token v caps h)) = hb_world h \<and>
     hb_socks (snd (handleHello X i node token v caps h)) ! k = hb_socks h ! k"
  using assms by (simp add: duplicate_hello)

section \<open>Maintenance\<close>




text \<open>
  C33. The next backup is well defined: when scheduled backups are on, the search for a slot returns,
  and what it returns is the first instant of the grid (the anchor plus a whole number of intervals)
  strictly after the reference; so a backup that has just run is not due again.
\<close>

theorem next_backup_is_first_slot:
  assumes "backupGrid X now w = Some g"
  shows "\<exists>t. slotAfter X ref now w = Some t \<and> ref < t \<and> (\<exists>k. t = of_int (gr_anchor g) + of_int k * gr_intervalMs g) \<and>
     (\<forall>j. of_int (gr_anchor g) + of_int j * gr_intervalMs g \<le> ref \<or> t \<le> of_int (gr_anchor g) + of_int j * gr_intervalMs g) \<and>
     \<not> backupDue X now (store_setting ''backupLastRun'' (j_int now) w)"
proof -
  note i = backupGrid_interval [OF assms]
  have "of_int now \<le> setting_num X ''backupLastRun'' (store_setting ''backupLastRun'' (j_int now) w)"
    by (simp add: setting_num_def getSetting_def store_setting_def update_conv j_int_def)
  then have "\<not> backupDue X now (store_setting ''backupLastRun'' (j_int now) w)" by (rule backup_not_due_again)
  moreover have "\<exists>k. grid_slot g ref = of_int (gr_anchor g) + of_int k * gr_intervalMs g"
    unfolding grid_slot_def Let_def by (rule exI [of _ "\<lfloor>(ref - of_int (gr_anchor g)) / gr_intervalMs g\<rfloor> + 1"]) simp
  moreover have "of_int (gr_anchor g) + of_int j * gr_intervalMs g \<le> ref \<or> grid_slot g ref \<le> of_int (gr_anchor g) + of_int j * gr_intervalMs g"
    for j using grid_slot_after(3) [OF i, of ref j] by (meson not_less)
  ultimately show ?thesis using slotAfter_grid [OF assms, of ref] grid_slot_after(1) [OF i, of ref] by simp
qed

definition daily_backups :: "fifo world" where
  "daily_backups = W0\<lparr>settings := [(''backupEnabled'', JText (JBool True)), (''backupTimezone'', JText (JStr ''UTC''))]\<rparr>"

theorem next_backup_is_first_slot_witness:
  "\<exists>t. slotAfter X0 0 1000 daily_backups = Some t \<and> 0 < t"
proof -
  have "\<exists>g. backupGrid X0 1000 daily_backups = Some g"
    by (simp add: backupGrid_def daily_backups_def setting_bool_def setting_num_def setting_str_def getSetting_def default_setting_def
        DEFAULT_SETTINGS_def j_int_def X0_def ENCRYPTED_KEYS_def Let_def split: prod.split)
  then obtain g where "backupGrid X0 1000 daily_backups = Some g" ..
  from next_backup_is_first_slot [OF this, of 0] show ?thesis by auto
qed

text \<open>
  A usage scan is not scheduled twice: a second run of the scheduler at the same time schedules
  nothing and changes nothing, whatever the first one scheduled.
\<close>

lemma usage_scans_once:
  assumes "scheduleUsageScans X now w = (names, w')" "now \<noteq> 0"
  shows "scheduleUsageScans X now w' = ([], w')"
  by (rule usage_scans_idempotent [OF assms])



section \<open>Imports\<close>

text \<open>
  C36. What a writer that quotes every field has written, whatever the fields hold (commas, quotes, line
  ends), parseCsv reads back: the first record with something in it is the header, and every further one
  is a row keyed by it, all trimmed.
\<close>

theorem csv_roundtrip:
  assumes "[] \<notin> set rs" "\<exists>cell \<in> set h. trim cell \<noteq> []" "h \<noteq> []"
  shows "parseCsv (write_csv (h # rs)) =
     \<lparr>csv_headers = map trim h, csv_rows = map (csv_object (map trim h)) (filter (\<lambda>r. \<exists>cell \<in> set r. trim cell \<noteq> []) rs)\<rparr>"
  using assms csv_scan_write [of "h # rs"] by (simp add: parseCsv_def Let_def)

theorem csv_roundtrip_witness:
  "parseCsv (write_csv [[''username''], [''a,b'']]) = \<lparr>csv_headers = [''username''], csv_rows = [[(''username'', ''a,b'')]]\<rparr>"
proof -
  have t: "trim ''username'' = ''username''" "trim ''a,b'' = ''a,b''" by code_simp+
  have "parseCsv (write_csv [[''username''], [''a,b'']]) = \<lparr>csv_headers = map trim [''username''],
      csv_rows = map (csv_object (map trim [''username''])) (filter (\<lambda>r. \<exists>cell \<in> set r. trim cell \<noteq> []) [[''a,b'']])\<rparr>"
    by (rule csv_roundtrip) (simp_all add: t)
  then show ?thesis by (simp add: t csv_object_def)
qed

text \<open>
  The server's verdict on the rows a browser sends is the verdict on the rows the browser read: what
  the preview did to them (trimming, lower case) changes no issue, and with the same requirement on the
  e-mail the server shows exactly what the preview showed.
\<close>

lemma server_agrees_with_preview:
  "validateImportRows q (map resend (validateImportRows q' rs)) = validateImportRows q rs"
  by (simp add: validateImportRows_def revalidate)

text \<open>
  The accounts an accepted roster plan creates are well formed and new: usernames, student ids and
  e-mail addresses match their patterns, no two have the same username or student id, and none has the
  username or the student id of an existing account.
\<close>

lemma planned_accounts_valid:
  assumes "schema_ok w" "rp_ok (planRosterImport l txt w)"
  shows "let cs = rp_studentsToCreate (planRosterImport l txt w) in
     list_all valid_create cs \<and> distinct (map sc_username cs) \<and> distinct (List.map_filter sc_studentId cs) \<and>
     sc_username ` set cs \<inter> s_username ` set (rows (students w)) = {} \<and>
     sc_studentId ` set cs \<inter> s_student_id ` set (rows (students w)) \<subseteq> {None}"
  using accepted_creates [OF assms refl] by (simp add: Let_def)

text \<open>
  C39. An accepted roster import meets no constraint of the database. It changes nothing when the UID
  range is full; otherwise every database rule still holds, the roster is the old one with some students
  joined on all placements of the lab, every student of the text is registered with the data of the text
  and on the roster, and planning the same text again asks for nothing.
\<close>

theorem roster_import_outcome:
  assumes "core_ok w" "rp_ok (planRosterImport l txt w)"
  shows "let (r, w') = applyRosterImport X l txt actor w in
     r = Inl (LabE UidExhausted) \<and> w' = w \<or>
     (\<exists>res ids name. r = Inr res \<and> core_ok w' \<and> abs_roster w' = fold (spec_join l) ids (abs_roster w) \<and>
        enrolled l (rt_batch (read_roster (csv_rows (parseCsv txt)))) w' \<and>
        planRosterImport l txt w' = \<lparr>rp_lab = name, rp_piUpdate = None, rp_studentsToCreate = [], rp_studentsToUpdate = [],
          rp_membershipsToAdd = [], rp_conflicts = [], rp_invalid = [], rp_ok = True\<rparr>)"
proof -
  obtain r w' where e: "applyRosterImport X l txt actor w = (r, w')" by (rule prod.exhaust)
  have s: "schema_ok w" using assms(1) by (simp add: core_ok_def)
  have g: "core_ok w'" using good_applyRosterImport [OF assms(1), of X l "txt" actor] by (simp add: e good_step_def)
  from applyRosterImport_run [OF s e] assms(2) import_again [OF s, of X l "txt" actor _ w'] show ?thesis
    by (auto simp: e g)
qed

theorem roster_import_outcome_witness:
  "fst (applyRosterImport X0 1 zoe_csv None W1) = Inl (LabE UidExhausted) \<or>
   core_ok (snd (applyRosterImport X0 1 zoe_csv None W1))"
  using roster_import_outcome [OF W1_core zoe_accepted, of X0 None] by (auto simp: Let_def split: prod.splits)

section \<open>Progress\<close>

text \<open>
  C40. Every task queued for a connected and authorized node is sent: after k ticks of its consumer the
  first 20 k tasks of its queue have gone out on its socket in order, so n tasks need n / 20 ticks,
  rounded up; then the queue is empty, and the connection is still served.
\<close>

theorem queued_tasks_are_sent:
  assumes "honker_fifo X pend" "serving h i node" "map (decodeFrame X) (pending pend node (hb_world h)) = map Inr fs" "length fs \<le> 20 * k"
  shows "(hub_step X)\<^sup>*\<^sup>* h (drain_ticks X node i k h) \<and> sent_on i (drain_ticks X node i k h) = sent_on i h @ fs \<and>
     pending pend node (hb_world (drain_ticks X node i k h)) = [] \<and> serving (drain_ticks X node i k h) i node"
proof -
  have "length (pending pend node (hb_world h)) = length fs" using arg_cong [OF assms(3), of length] by simp
  then show ?thesis using drain_ticks_send [OF assms(1-3), of k] assms(4) drain_ticks_steps [of X h node i k] by simp
qed

theorem queued_tasks_are_sent_witness:
  "sent_on 0 (drain_ticks X0 ''n1'' 0 1 (H1 Open check_W1)) = [check_frame]"
  using queued_tasks_are_sent [OF X0_fifo check_serving, of "[check_frame]" 1] by (simp add: check_pending H1_sent)

section \<open>Defects\<close>

text \<open>
  C29. A node that reconnects while the close of its former socket is still to come is registered, and
  then struck off by that close: its new socket is open and authenticated, yet the node counts as
  disconnected and its consumer stops. The handler of the close does not check that the socket it
  belongs to is still the registered one.
\<close>

theorem late_close_evicts_successor:
  assumes "parseInboundFrame parsed = Some (HelloFrame node token v caps)"
    and "socket_spend (clock (hb_world h)) (sk_bucket (hb_socks h ! j)) = (True, b)"
    and "fst (handleHello X j node token v caps (upd_sock j (\<lambda>s. s\<lparr>sk_bucket := b\<rparr>) h)) = Some node"
    and "socket_node i h = Some node" "i < length (hb_socks h)" "socket_ready j h = Open" "i \<noteq> j"
  shows "let h1 = snd (on_message X j (Some parsed) h); h2 = on_close X i h1 in
     connected h1 node \<and> \<not> connected h2 node \<and> socket_ready j h2 = Open \<and> socket_node j h2 = Some node"
  using superseded_close [OF assms] by simp

theorem late_close_evicts_successor_witness:
  "let h1 = snd (on_message X0 (Suc 0) (Some hello_n1) (H1 Closing W1)); h2 = on_close X0 0 h1 in
     connected h1 ''n1'' \<and> \<not> connected h2 ''n1'' \<and> socket_ready (Suc 0) h2 = Open \<and> socket_node (Suc 0) h2 = Some ''n1''"
proof (rule late_close_evicts_successor)
  show "parseInboundFrame hello_n1 = Some (HelloFrame ''n1'' ''tok'' (Some 2) None)" by simp
  show "socket_spend (clock (hb_world (H1 Closing W1))) (sk_bucket (hb_socks (H1 Closing W1) ! Suc 0)) = (True, (59, 1000))"
    by (simp add: H1_def mk_sock_def W1_cols socket_spend_def spend_def refilled_def MSG_BURST_def MSG_RATE_PER_SEC_def)
  let ?h = "upd_sock (Suc 0) (\<lambda>s. s\<lparr>sk_bucket := (59, 1000)\<rparr>) (H1 Closing W1)"
  have "conn_of ''n1'' ?h = conn_of ''n1'' (H1 Closing W1)" by (simp add: conn_of_def)
  moreover have "socket_ready 0 ?h = Closing"
    by (simp add: socket_ready_def upd_sock_def H1_def mk_sock_def)
  ultimately show "fst (handleHello X0 (Suc 0) ''n1'' ''tok'' (Some 2) None ?h) = Some ''n1''"
    by (simp add: handleHello_def isProtocolCompatible_def PROTOCOL_VERSION_def Let_def)
qed simp_all

text \<open>
  A telemetry frame of an authenticated agent whose scrub list holds a null makes the handler
  throw, outside of every try block, after the list has been stored; from then on every telemetry frame
  of that node with a scrub list throws before any of its samples is stored.
\<close>

lemma null_scrub_entry_is_fatal:
  assumes "node_by_name node w \<noteq> None" "jget ''scrub'' payload = Some (JArr entries)" "JNull \<in> set entries"
    and "jget ''scrub'' payload' = Some (JArr entries')"
  shows "let w' = snd (ingestTelemetry X node payload w) in
     fst (ingestTelemetry X node payload w) = Inl JsTypeError \<and>
     fst (ingestTelemetry X node payload' w') = Inl JsTypeError \<and>
     storage_samples (snd (ingestTelemetry X node payload' w')) = storage_samples w'"
  using null_scrub_poisons [OF assms(1-3)] poisoned_telemetry_fails [OF _ assms(4)] by (metis (no_types, lifting))

text \<open>
  C31. A placement that is being deleted comes back to life when the result of its creation arrives
  late: it is shown as active again, and the confirmation of its destruction is then ignored, so the row
  of a lab that no longer exists on the node stays.
\<close>

theorem late_creation_revives_placement:
  assumes "getPlacementByLabNode lab node w = Some p"
  shows "let w' = markPlacementStateByLabNode lab node PActive None w in
     (\<exists>q. getPlacementByLabNode lab node w' = Some q \<and> p_id (pl_row q) = p_id (pl_row p) \<and> p_state (pl_row q) = PActive) \<and>
     confirmPlacementDestroyed lab node w' = w'"
  using late_creation_result [OF assms] by (simp add: Let_def)

definition deleting_W1 :: "fifo world" where
  "deleting_W1 = W1\<lparr>lab_placements := \<lparr>rows = [mk_placement 1 1 1 50000 PDeleting], seq = 1\<rparr>\<rparr>"

theorem late_creation_revives_placement_witness:
  "\<exists>p. getPlacementByLabNode ''ai'' ''n1'' deleting_W1 = Some p \<and> p_state (pl_row p) = PDeleting \<and>
     (\<exists>q. getPlacementByLabNode ''ai'' ''n1'' (markPlacementStateByLabNode ''ai'' ''n1'' PActive None deleting_W1) = Some q \<and>
       p_state (pl_row q) = PActive)"
proof -
  have "\<exists>p. getPlacementByLabNode ''ai'' ''n1'' deleting_W1 = Some p \<and> p_state (pl_row p) = PDeleting"
    by (simp add: deleting_W1_def getPlacementByLabNode_def placement_select_def placement_join_def lab_by_id_def node_by_id_def
        tbl_get_def W1_def sample_simps List.map_filter_simps)
  then show ?thesis using late_creation_revives_placement [of "''ai''" "''n1''" deleting_W1] by (auto simp: Let_def)
qed

section \<open>Accounts and sessions\<close>



text \<open>
  C12. An account is created only with the signup token (or a text that collides with it under SHA-256), a password of
  at least 12 characters and an address that no account has; from then on it signs in with its password under any
  spelling of the address, and the session it gets is let through by requireAdmin.
\<close>

theorem registered_admin_signs_in:
  assumes "bcrypt_ok A" "jwt_ok A" "admins_ok w" "createAdmin X A name email password token w = (Inr a, w')"
    "of_nat (ad_id a) < MAX_DOUBLE_EXCLUSIVE" "normalizeEmail (Some email') = normalizeEmail (Some email)"
  shows "(token = env_signup A \<or> collision (sha256 X) token (env_signup A)) \<and> 12 \<le> length password \<and>
     ad_email a \<notin> a_email ` set (rows (admins w)) \<and> admins_ok w' \<and> verifyLogin A email' password w' = Some a \<and>
     requireAdmin X A (Some (issueSession X A a w')) w' = (Some a, Some (issueSession X A a w'))"
proof -
  note c = createAdmin_Inr [OF assms(4)]
  have "(auth_step X A)\<^sup>*\<^sup>* w w'" using createAdmin_step [of X A w name email password token] assms(4) by simp
  then have "admins_ok w'" using auth_steps assms(3) by blast
  with c(1,2,5) signup_then_in [OF assms(1-4) assms(6,5)] show ?thesis
    by (auto simp: safeEqual_def collision_def MIN_PASSWORD_LEN_def)
qed

theorem registered_admin_signs_in_witness:
  "verifyLogin A0 ''Ada@X '' ''correct horse'' W_ada = Some ada \<and>
   fst (requireAdmin X0 A0 (Some (issueSession X0 A0 ada W_ada)) W_ada) = Some ada"
proof -
  have "normalizeEmail (Some ''Ada@X '') = normalizeEmail (Some '' ADA@x'')" by code_simp
  from registered_admin_signs_in [OF A0_bcrypt A0_jwt W0_admins_ok ada_created ada_small this] show ?thesis by simp
qed


text \<open>
  C30. The throttle on the address of a login does not bound the attempts on an account: it counts the address as it was
  typed, while the account is found by the normalised one, so any number of spellings (here blanks at the end), each
  from another client address, are all let through in one moment and all try the same account.
\<close>

theorem email_throttle_evaded:
  assumes "2 * n \<le> MAX_BUCKETS" "inj_on ips {0..<n}"
  shows "login_attempts now (map (\<lambda>i. (ips i, email @ replicate i (CHR '' ''))) [0..<n]) [] = replicate n True \<and>
     (\<forall>i p. verifyLogin A (email @ replicate i (CHR '' '')) p w = verifyLogin A email p w)"
  by (rule spellings_evade [OF assms])

theorem email_throttle_evaded_witness:
  "login_attempts 0 (map (\<lambda>i. (show_nat i, ''ada@x'' @ replicate i (CHR '' ''))) [0..<1000]) [] = replicate 1000 True"
proof -
  have "inj_on show_nat {0..<1000}" by (simp add: inj_on_def show_nat_inj)
  moreover have "2 * 1000 \<le> MAX_BUCKETS" by (simp add: MAX_BUCKETS_def)
  ultimately show ?thesis using email_throttle_evaded by blast
qed

section \<open>Mail\<close>






section \<open>Statistics\<close>



text \<open>
  C37. The report that is mailed and the statistics page cannot disagree: for every student the page shows on a
  placement, the table in the report has a row with that username and the same two figures, each as a share of the
  quota the page shows, and the table has one row per student besides its header and its total.
\<close>

theorem report_agrees_with_page:
  assumes "buildUsageReport coll i highlight w = Some rep" "getPlacement i w = Some p" "u \<in> set (lst_students (lab_stats_of X coll w p))"
  shows "\<exists>table label pre post. ur_text rep = pre @ renderTable table @ post \<and> length table = length (ur_students rep) + 2 \<and>
     label \<in> {stu_username u, stu_username u @ ''  (you)''} \<and>
     [label, fmtShare (stu_fast u) (snd (lst_fast (lab_stats_of X coll w p))), fmtShare (stu_cold u) (snd (lst_cold (lab_stats_of X coll w p)))]
       \<in> set table"
  by (rule report_agrees [OF assms])

theorem report_agrees_with_page_witness:
  "\<exists>rep table pre post. buildUsageReport id 1 (Some 2) W_samples = Some rep \<and> ur_text rep = pre @ renderTable table @ post \<and>
     length table = length (ur_students rep) + 2"
proof -
  have "buildUsageReport id 1 (Some 2) W_samples \<noteq> None"
    unfolding buildUsageReport_def by (simp only: samples_placement(2) option.case Let_def) (simp split: option.split)
  then obtain rep where rep: "buildUsageReport id 1 (Some 2) W_samples = Some rep" by blast
  have "student_usages id W_samples 1 1 \<noteq> []"
    using set_student_usages [of id W_samples 1 1] samples_member by force
  then obtain u where "u \<in> set (student_usages id W_samples 1 1)" by (meson hd_in_set)
  then have u: "u \<in> set (lst_students (lab_stats_of X0 id W_samples the_placement))"
    by (simp add: lab_stats_of_def Let_def the_placement_def mk_placement_def)
  from report_agrees_with_page [OF rep samples_placement(2) u] rep show ?thesis by blast
qed

section \<open>Upgrades\<close>



end
